(* ===== verification/Prelude.thy ===== *)
theory Prelude
  imports "HOL-Library.Word"
begin

text \<open>
  Shared vocabulary of the development: Rust's \<open>Result\<close>, machine integers and fixed-size byte
  arrays as words, little-endian byte codecs, checked and saturating arithmetic, and slicing of
  byte buffers.

  A Rust array \<open>[u8; N]\<close> that is only ever copied and compared (public keys, transaction ids,
  hashes, signatures) is modelled by the \<open>8 * N\<close>-bit word whose byte \<open>i\<close> holds the bits
  \<open>8 * i .. 8 * i + 7\<close>; \<open>le_bytes\<close> gives the array back.  The correspondence is a bijection
  (\<open>from_le_le_bytes\<close>, \<open>le_bytes_from_le\<close>), so no length side conditions are needed.
  Buffers that are sliced or resized are lists of bytes.
\<close>

unbundle bit_operations_syntax

section \<open>Rust results\<close>

datatype ('a, 'e) result = Ok 'a | Err 'e

primrec is_ok :: "('a, 'e) result \<Rightarrow> bool" where
  "is_ok (Ok _) = True"
| "is_ok (Err _) = False"

primrec map_err :: "('e \<Rightarrow> 'f) \<Rightarrow> ('a, 'e) result \<Rightarrow> ('a, 'f) result" where
  "map_err f (Ok x) = Ok x"
| "map_err f (Err e) = Err (f e)"

primrec ok_or :: "'e \<Rightarrow> 'a option \<Rightarrow> ('a, 'e) result" where
  "ok_or e None = Err e"
| "ok_or e (Some x) = Ok x"

text \<open>The \<open>?\<close> operator: go on with the value, or return the error.\<close>

primrec and_then :: "('a, 'e) result \<Rightarrow> ('a \<Rightarrow> ('b, 'e) result) \<Rightarrow> ('b, 'e) result" where
  "and_then (Ok x) f = f x"
| "and_then (Err e) f = Err e"

lemma and_then_Ok_iff [simp]: "and_then r f = Ok y \<longleftrightarrow> (\<exists>x. r = Ok x \<and> f x = Ok y)"
  by (cases r) auto

lemma and_then_Err_iff:
  "and_then r f = Err e \<longleftrightarrow> r = Err e \<or> (\<exists>x. r = Ok x \<and> f x = Err e)"
  by (cases r) auto

lemma and_then_cong [fundef_cong]:
  "r = r' \<Longrightarrow> (\<And>x. r' = Ok x \<Longrightarrow> f x = f' x) \<Longrightarrow> and_then r f = and_then r' f'"
  by (cases r') auto

lemma is_ok_iff: "is_ok r \<longleftrightarrow> (\<exists>x. r = Ok x)"
  by (cases r) auto

lemma map_err_Ok [simp]: "map_err f r = Ok x \<longleftrightarrow> r = Ok x"
  by (cases r) auto

lemma map_err_Err [simp]: "map_err f r = Err e \<longleftrightarrow> (\<exists>e'. r = Err e' \<and> e = f e')"
  by (cases r) auto

lemma ok_or_Ok [simp]: "ok_or e x = Ok y \<longleftrightarrow> x = Some y"
  by (cases x) auto

lemma ok_or_Err [simp]: "ok_or e x = Err e' \<longleftrightarrow> x = None \<and> e' = e"
  by (cases x) auto

text \<open>A guard that returns early: success means that it passed.\<close>

lemma guard_Ok [simp]:
  "(if c then r else Err e) = Ok y \<longleftrightarrow> c \<and> r = Ok y"
  "(if c then Err e else r) = Ok y \<longleftrightarrow> \<not> c \<and> r = Ok y"
  by auto

text \<open>The split rules every branch analysis of a handler uses.\<close>

lemmas rust_splits = if_splits option.splits result.splits prod.splits

section \<open>Machine integers and byte arrays\<close>

type_synonym u8 = "8 word"
type_synonym u16 = "16 word"
type_synonym u32 = "32 word"
type_synonym u64 = "64 word"
type_synonym i64 = "64 word"
type_synonym bytes = "u8 list"
type_synonym bytes20 = "160 word"
type_synonym bytes32 = "256 word"
type_synonym bytes33 = "264 word"
type_synonym bytes64 = "512 word"
type_synonym pubkey = bytes32
type_synonym signature = bytes64

text \<open>An ASCII byte-string literal \<open>b"..."\<close>.\<close>

definition ascii :: "string \<Rightarrow> bytes" where
  "ascii s = map of_char s"

lemma length_ascii [simp]: "length (ascii s) = length s"
  by (simp add: ascii_def)

text \<open>\<open>to_le_bytes\<close> of an integer, or the bytes of a fixed-size array.\<close>

definition le_bytes :: "'a::len word \<Rightarrow> bytes" where
  "le_bytes w = map (\<lambda>i. ucast (drop_bit (8 * i) w)) [0..<LENGTH('a) div 8]"

text \<open>\<open>from_le_bytes\<close>, or the array made of the given bytes.\<close>

fun from_le :: "bytes \<Rightarrow> 'a::len word" where
  "from_le [] = 0"
| "from_le (b # bs) = ucast b OR push_bit 8 (from_le bs)"

lemma length_le_bytes [simp]: "length (le_bytes (w :: 'a::len word)) = LENGTH('a) div 8"
  by (simp add: le_bytes_def)

lemma nth_le_bytes:
  "i < LENGTH('a) div 8 \<Longrightarrow> le_bytes (w :: 'a::len word) ! i = ucast (drop_bit (8 * i) w)"
  by (simp add: le_bytes_def)

lemma bit_from_le:
  "bit (from_le bs :: 'a::len word) n \<longleftrightarrow>
     n < LENGTH('a) \<and> n div 8 < length bs \<and> bit (bs ! (n div 8)) (n mod 8)"
proof (induction bs arbitrary: n)
  case Nil
  then show ?case by simp
next
  case (Cons b bs)
  show ?case
  proof (cases "n < 8")
    case True
    then have "n div 8 = 0" and "n mod 8 = n" by simp_all
    with True show ?thesis
      by (auto simp: bit_or_iff bit_push_bit_iff bit_ucast_iff)
  next
    case False
    then have d: "n div 8 = Suc ((n - 8) div 8)" and m: "n mod 8 = (n - 8) mod 8"
      by (simp_all add: le_div_geq le_mod_geq)
    have b: "\<not> bit b n"
      using False bit_imp_le_length [of b n] by auto
    show ?thesis
      using False b Cons.IH [of "n - 8"]
      by (auto simp: bit_or_iff bit_push_bit_iff bit_ucast_iff d m)
  qed
qed

lemma bit_nth_le_bytes:
  "i < LENGTH('a) div 8 \<Longrightarrow>
     bit (le_bytes (w :: 'a::len word) ! i) k \<longleftrightarrow> k < 8 \<and> bit w (8 * i + k)"
  by (auto simp: nth_le_bytes bit_ucast_iff bit_drop_bit_eq add.commute)

lemma from_le_le_bytes:
  assumes "8 dvd LENGTH('a)"
  shows "from_le (le_bytes w) = (w :: 'a::len word)"
proof (rule bit_word_eqI)
  fix n
  assume n: "n < LENGTH('a)"
  with assms have "n div 8 < LENGTH('a) div 8"
    by (metis div_mult_mod_eq dvd_div_mult_self less_mult_imp_div_less)
  with n show "bit (from_le (le_bytes w) :: 'a word) n = bit w n"
    by (simp add: bit_from_le bit_nth_le_bytes)
qed

lemma le_bytes_from_le:
  assumes "length bs = LENGTH('a) div 8"
  shows "le_bytes (from_le bs :: 'a::len word) = bs"
proof (rule nth_equalityI)
  show "length (le_bytes (from_le bs :: 'a word)) = length bs"
    using assms by simp
  fix i
  assume "i < length (le_bytes (from_le bs :: 'a word))"
  then have i: "i < LENGTH('a) div 8" by simp
  show "le_bytes (from_le bs :: 'a word) ! i = bs ! i"
  proof (rule bit_word_eqI)
    fix k
    assume "k < LENGTH(8)"
    then have k: "k < 8" by simp
    with i have "8 * i + k < LENGTH('a)" by linarith
    with i k assms show "bit (le_bytes (from_le bs :: 'a word) ! i) k = bit (bs ! i) k"
      by (simp add: bit_nth_le_bytes bit_from_le)
  qed
qed

lemma le_bytes_inject:
  "8 dvd LENGTH('a) \<Longrightarrow> le_bytes (v :: 'a::len word) = le_bytes w \<longleftrightarrow> v = w"
  by (metis from_le_le_bytes)

lemma le_bytes_eq_u16 [simp]: "le_bytes (v :: u16) = le_bytes w \<longleftrightarrow> v = w"
  and le_bytes_eq_u32 [simp]: "le_bytes (v32 :: u32) = le_bytes w32 \<longleftrightarrow> v32 = w32"
  and le_bytes_eq_u64 [simp]: "le_bytes (v64 :: u64) = le_bytes w64 \<longleftrightarrow> v64 = w64"
  and le_bytes_eq_b20 [simp]: "le_bytes (v20 :: bytes20) = le_bytes w20 \<longleftrightarrow> v20 = w20"
  and le_bytes_eq_b32 [simp]: "le_bytes (vb :: bytes32) = le_bytes wb \<longleftrightarrow> vb = wb"
  and le_bytes_eq_b33 [simp]: "le_bytes (v33 :: bytes33) = le_bytes w33 \<longleftrightarrow> v33 = w33"
  and le_bytes_eq_b64 [simp]: "le_bytes (vs :: bytes64) = le_bytes ws \<longleftrightarrow> vs = ws"
  by (simp_all add: le_bytes_inject)

subsection \<open>Checked and saturating arithmetic\<close>

definition checked_add :: "'a::len word \<Rightarrow> 'a word \<Rightarrow> 'a word option" where
  "checked_add a b = (if unat a + unat b < 2 ^ LENGTH('a) then Some (a + b) else None)"

definition checked_sub :: "'a::len word \<Rightarrow> 'a word \<Rightarrow> 'a word option" where
  "checked_sub a b = (if b \<le> a then Some (a - b) else None)"

definition saturating_add :: "'a::len word \<Rightarrow> 'a word \<Rightarrow> 'a word" where
  "saturating_add a b = (if unat a + unat b < 2 ^ LENGTH('a) then a + b else - 1)"

definition saturating_sub :: "'a::len word \<Rightarrow> 'a word \<Rightarrow> 'a word" where
  "saturating_sub a b = (if b \<le> a then a - b else 0)"

definition saturating_mul :: "'a::len word \<Rightarrow> 'a word \<Rightarrow> 'a word" where
  "saturating_mul a b = (if unat a * unat b < 2 ^ LENGTH('a) then a * b else - 1)"

text \<open>Signed 64-bit arithmetic: values are read with \<open>sint\<close>.\<close>

definition checked_add_i64 :: "i64 \<Rightarrow> i64 \<Rightarrow> i64 option" where
  "checked_add_i64 a b =
     (let s = sint a + sint b in if - (2 ^ 63) \<le> s \<and> s < 2 ^ 63 then Some (word_of_int s) else None)"

definition saturating_sub_i64 :: "i64 \<Rightarrow> i64 \<Rightarrow> i64" where
  "saturating_sub_i64 a b =
     word_of_int (max (- (2 ^ 63)) (min (2 ^ 63 - 1) (sint a - sint b)))"

lemma checked_add_Some:
  "checked_add a b = Some c \<longleftrightarrow> unat a + unat b < 2 ^ LENGTH('a) \<and> c = (a :: 'a::len word) + b"
  by (auto simp: checked_add_def)

lemma unat_checked_add:
  "checked_add a b = Some c \<Longrightarrow> unat c = unat a + unat (b :: 'a::len word)"
  by (auto simp: checked_add_Some unat_word_ariths)

lemma unat_saturating_sub: "unat (saturating_sub a b) = unat a - unat b"
  by (auto simp: saturating_sub_def unat_sub word_le_nat_alt)

lemma unat_max_word: "unat (- 1 :: 'a::len word) = 2 ^ LENGTH('a) - 1"
  by (simp add: unsigned_minus_1_eq_mask mask_eq_exp_minus_1)

lemma unat_saturating_add:
  "unat (saturating_add a b) = min (unat a + unat b) (2 ^ LENGTH('a) - 1)"
  for a b :: "'a::len word"
  by (auto simp: saturating_add_def unat_word_ariths unat_max_word)

lemma unat_saturating_mul:
  "unat (saturating_mul a b) = min (unat a * unat b) (2 ^ LENGTH('a) - 1)"
  for a b :: "'a::len word"
  by (auto simp: saturating_mul_def unat_word_ariths unat_max_word)

lemma sint_u64_of_int:
  "- (2 ^ 63) \<le> s \<Longrightarrow> s < 2 ^ 63 \<Longrightarrow> sint (word_of_int s :: 64 word) = s"
  by (simp only: sint_sbintrunc')
    (rule signed_take_bit_int_eq_self, simp_all)

lemma sint_u64_bounds: "- (2 ^ 63) \<le> sint (a :: 64 word)" "sint (a :: 64 word) < 2 ^ 63"
  using sint_greater_eq [of a] sint_less [of a] by simp_all

lemma sint_i64_sub:
  "- (2 ^ 63) \<le> sint a - sint b \<Longrightarrow> sint a - sint b < 2 ^ 63 \<Longrightarrow> sint (a - b) = sint a - sint (b :: 64 word)"
  using sint_u64_of_int [of "sint a - sint b"] by simp

lemma sint_i64_add:
  "- (2 ^ 63) \<le> sint a + sint b \<Longrightarrow> sint a + sint b < 2 ^ 63 \<Longrightarrow> sint (a + b) = sint a + sint (b :: 64 word)"
  using sint_u64_of_int [of "sint a + sint b"] by simp

lemma sint_eqI: "sint a = sint b \<Longrightarrow> a = b"
  by (rule signed_word_eqI)

lemma sint_ucast_u32: "sint (ucast n :: 64 word) = int (unat (n :: 32 word))"
proof -
  have "uint n < 2 ^ 32" using unsigned_less [where ?'a = int and w = n] by simp
  then have "sint (word_of_int (uint n) :: 64 word) = uint n"
    by (intro sint_u64_of_int) (simp_all add: order.trans [OF _ uint_ge_0])
  then show ?thesis by simp
qed

lemma sint_checked_add_i64:
  "checked_add_i64 a b = Some c \<Longrightarrow> sint c = sint a + sint b"
  using sint_u64_of_int [of "sint a + sint b"]
  by (auto simp: checked_add_i64_def Let_def split: if_splits)

lemma sint_saturating_sub_i64:
  "sint (saturating_sub_i64 a b) = max (- (2 ^ 63)) (min (2 ^ 63 - 1) (sint a - sint b))"
  unfolding saturating_sub_i64_def by (rule sint_u64_of_int) auto

section \<open>Byte buffers\<close>

text \<open>\<open>data.get(a..b)\<close>: the slice, or \<open>None\<close> when the range is not inside the buffer.\<close>

definition slice_get :: "'a list \<Rightarrow> nat \<Rightarrow> nat \<Rightarrow> 'a list option" where
  "slice_get xs a b = (if a \<le> b \<and> b \<le> length xs then Some (take (b - a) (drop a xs)) else None)"

text \<open>\<open>m[off..off + bs.len()].copy_from_slice(bs)\<close>, for a range inside the buffer.\<close>

definition copy_at :: "'a list \<Rightarrow> nat \<Rightarrow> 'a list \<Rightarrow> 'a list" where
  "copy_at m off bs = take off m @ bs @ drop (off + length bs) m"

text \<open>\<open>data.get(i)\<close>.\<close>

definition get_at :: "'a list \<Rightarrow> nat \<Rightarrow> 'a option" where
  "get_at xs i = (if i < length xs then Some (xs ! i) else None)"

lemma slice_get_Some:
  "slice_get xs a b = Some ys \<longleftrightarrow> a \<le> b \<and> b \<le> length xs \<and> ys = take (b - a) (drop a xs)"
  by (auto simp: slice_get_def)

lemma length_slice_get: "slice_get xs a b = Some ys \<Longrightarrow> length ys = b - a"
  by (auto simp: slice_get_Some)

lemma length_copy_at [simp]: "off + length bs \<le> length m \<Longrightarrow> length (copy_at m off bs) = length m"
  by (simp add: copy_at_def)

lemma slice_get_append:
  "length pre = a \<Longrightarrow> b = a + length mid \<Longrightarrow> slice_get (pre @ mid @ suf) a b = Some mid"
  by (simp add: slice_get_def)

text \<open>
  A buffer filled left to right: writing at the end of the part already written.  This turns
  the \<open>copy_from_slice\<close> sequences of the message builders into concatenations.
\<close>

lemma copy_at_fill:
  "length pre = off \<Longrightarrow> length bs \<le> n \<Longrightarrow>
     copy_at (pre @ replicate n z) off bs = (pre @ bs) @ replicate (n - length bs) z"
  by (simp add: copy_at_def)

lemma copy_at_fill0:
  "length bs \<le> n \<Longrightarrow> copy_at (replicate n z) 0 bs = bs @ replicate (n - length bs) z"
  by (simp add: copy_at_def)

lemmas copy_fill = copy_at_fill0 copy_at_fill

text \<open>\<open>iter().position(..)\<close>.\<close>

fun position :: "('a \<Rightarrow> bool) \<Rightarrow> 'a list \<Rightarrow> nat option" where
  "position P [] = None"
| "position P (x # xs) = (if P x then Some 0 else map_option Suc (position P xs))"

lemma position_Some_nth:
  "position P xs = Some i \<Longrightarrow> i < length xs \<and> P (xs ! i)"
  by (induction xs arbitrary: i) (auto split: if_splits)

lemma position_None_iff: "position P xs = None \<longleftrightarrow> (\<forall>x \<in> set xs. \<not> P x)"
  by (induction xs) auto

lemma position_eq_mem: "x \<in> set xs \<Longrightarrow> \<exists>i. position (\<lambda>y. y = x) xs = Some i"
  using position_None_iff [of "\<lambda>y. y = x" xs] by (cases "position (\<lambda>y. y = x) xs") auto

section \<open>Totals over a map\<close>

text \<open>The sum of a measure over all entries; unbounded, so that it cannot wrap.\<close>

definition map_total :: "('v \<Rightarrow> nat) \<Rightarrow> ('k \<Rightarrow> 'v option) \<Rightarrow> nat" where
  "map_total f m = (\<Sum>k \<in> dom m. f (the (m k)))"

lemma map_total_empty [simp]: "map_total f Map.empty = 0"
  by (simp add: map_total_def)

lemma map_total_new:
  assumes "finite (dom m)" "m k = None"
  shows "map_total f (m(k \<mapsto> v)) = map_total f m + f v"
proof -
  have "(\<Sum>j \<in> dom m. f (the ((m(k \<mapsto> v)) j))) = (\<Sum>j \<in> dom m. f (the (m j)))"
    using assms(2) by (intro sum.cong) auto
  then show ?thesis
    using assms by (simp add: map_total_def domIff del: fun_upd_apply) simp
qed

lemma map_total_same:
  assumes "m k = Some v" "f v' = f v"
  shows "map_total f (m(k \<mapsto> v')) = map_total f m"
  using assms by (auto simp: map_total_def insert_absorb domIff intro!: sum.cong)

section \<open>Fixed-width codecs\<close>

text \<open>
  The interface the message layouts, account layouts and parsers rely on: an encoder of
  constant width with a decoder that inverts it.  Clients get injectivity, unambiguous
  concatenation and reading a field back at its offset.
\<close>

locale fixed_codec =
  fixes enc :: "'a \<Rightarrow> 'b list"
    and dec :: "'b list \<Rightarrow> 'a"
    and width :: nat
  assumes width_pos: "0 < width"
    and length_enc: "length (enc x) = width"
    and dec_enc: "dec (enc x) = x"
begin

lemma enc_eq_iff: "enc x = enc y \<longleftrightarrow> x = y"
  by (metis dec_enc)

lemma enc_append_eq_iff: "enc x @ xs = enc y @ ys \<longleftrightarrow> x = y \<and> xs = ys"
  by (simp add: append_eq_append_conv length_enc enc_eq_iff)

lemma length_concat_enc: "length (concat (map enc xs)) = length xs * width"
  by (induction xs) (simp_all add: length_enc)

lemma concat_enc_eq_iff: "concat (map enc xs) = concat (map enc ys) \<longleftrightarrow> xs = ys"
proof (induction xs arbitrary: ys)
  case Nil
  show ?case
    using length_concat_enc [of ys] width_pos by (cases ys) (auto simp del: concat_eq_Nil_conv)
next
  case (Cons x xs)
  show ?case
  proof (cases ys)
    case Nil
    then show ?thesis using length_enc [of x] width_pos by auto
  next
    case (Cons y ys')
    then show ?thesis by (simp add: enc_append_eq_iff Cons.IH)
  qed
qed

lemma read_back:
  "length pre = off \<Longrightarrow> map_option dec (slice_get (pre @ enc x @ suf) off (off + width)) = Some x"
  by (simp add: slice_get_def length_enc dec_enc)

lemma nth_chunk:
  "i < length xs \<Longrightarrow> take width (drop (i * width) (concat (map enc xs))) = enc (xs ! i)"
proof (induction xs arbitrary: i)
  case Nil
  then show ?case by simp
next
  case (Cons x xs)
  then show ?case
    by (cases i) (simp_all add: length_enc)
qed

end

interpretation u16c: fixed_codec "le_bytes :: u16 \<Rightarrow> bytes" from_le 2
  by unfold_locales (simp_all add: from_le_le_bytes)

interpretation u32c: fixed_codec "le_bytes :: u32 \<Rightarrow> bytes" from_le 4
  by unfold_locales (simp_all add: from_le_le_bytes)

interpretation u64c: fixed_codec "le_bytes :: u64 \<Rightarrow> bytes" from_le 8
  by unfold_locales (simp_all add: from_le_le_bytes)

interpretation keyc: fixed_codec "le_bytes :: bytes32 \<Rightarrow> bytes" from_le 32
  by unfold_locales (simp_all add: from_le_le_bytes)

interpretation key33c: fixed_codec "le_bytes :: bytes33 \<Rightarrow> bytes" from_le 33
  by unfold_locales (simp_all add: from_le_le_bytes)

interpretation sigc: fixed_codec "le_bytes :: bytes64 \<Rightarrow> bytes" from_le 64
  by unfold_locales (simp_all add: from_le_le_bytes)

lemmas codec_append_iffs =
  u16c.enc_append_eq_iff u32c.enc_append_eq_iff u64c.enc_append_eq_iff keyc.enc_append_eq_iff

end
