(* ===== verification/Systems.thy ===== *)
theory Systems
  imports Prelude
begin

text \<open>
  Labelled transition systems as an interface.  \<open>transition_system\<close> fixes the initial states and
  the labelled steps of a component and derives its runs and reachable states; \<open>inv_system\<close> adds
  an inductive invariant and derives that it holds in every reachable state and along every run;
  \<open>progress_order\<close> adds a preorder every step respects and lifts it to runs.  The bridge program
  and the relayer's databases interpret these locales with their own step relations.
\<close>

locale transition_system =
  fixes init :: "'s \<Rightarrow> bool"
    and step :: "'s \<Rightarrow> 'l \<Rightarrow> 's \<Rightarrow> bool"
begin

inductive run :: "'s \<Rightarrow> 'l list \<Rightarrow> 's \<Rightarrow> bool" where
  run_Nil: "run s [] s"
| run_Cons: "step s l s' \<Longrightarrow> run s' ls s'' \<Longrightarrow> run s (l # ls) s''"

definition reachable :: "'s \<Rightarrow> bool" where
  "reachable s \<longleftrightarrow> (\<exists>s0 ls. init s0 \<and> run s0 ls s)"

lemma run_append: "run s ls s' \<Longrightarrow> run s' ls' s'' \<Longrightarrow> run s (ls @ ls') s''"
  by (induction rule: run.induct) (auto intro: run_Cons)

lemma run_one: "step s l s' \<Longrightarrow> run s [l] s'"
  by (blast intro: run_Cons run_Nil)

lemma run_Cons_iff: "run s (l # ls) s'' \<longleftrightarrow> (\<exists>s'. step s l s' \<and> run s' ls s'')"
  by (auto intro: run_Cons elim: run.cases)

lemma run_Nil_iff: "run s [] s' \<longleftrightarrow> s' = s"
  by (auto intro: run_Nil elim: run.cases)

text \<open>A property that came to hold along a run was made to hold by one of its steps.\<close>

lemma run_cause:
  assumes "run s ls s'" "\<not> P s" "P s'"
  shows "\<exists>ls1 l ls2 s1 s2. ls = ls1 @ l # ls2 \<and> run s ls1 s1 \<and> \<not> P s1 \<and> step s1 l s2 \<and> P s2 \<and>
    run s2 ls2 s'"
  using assms
proof (induction rule: run.induct)
  case (run_Nil s)
  then show ?case by blast
next
  case (run_Cons s l s' ls s'')
  show ?case
  proof (cases "P s'")
    case True
    with run_Cons show ?thesis by (metis append_Nil run.run_Nil)
  next
    case False
    with run_Cons obtain ls1 l' ls2 s1 s2 where "ls = ls1 @ l' # ls2" "run s' ls1 s1" "\<not> P s1"
      "step s1 l' s2" "P s2" "run s2 ls2 s''" by blast
    with run_Cons.hyps(1) show ?thesis
      by (intro exI [of _ "l # ls1"]) (auto intro: run.run_Cons)
  qed
qed

lemma reachable_init: "init s \<Longrightarrow> reachable s"
  by (auto simp: reachable_def intro: run_Nil)

lemma reachable_run: "reachable s \<Longrightarrow> run s ls s' \<Longrightarrow> reachable s'"
  by (auto simp: reachable_def intro: run_append)

lemma reachable_step: "reachable s \<Longrightarrow> step s l s' \<Longrightarrow> reachable s'"
  by (blast intro: reachable_run run_one)

end

locale inv_system = transition_system init step
  for init :: "'s \<Rightarrow> bool" and step :: "'s \<Rightarrow> 'l \<Rightarrow> 's \<Rightarrow> bool" +
  fixes inv :: "'s \<Rightarrow> bool"
  assumes inv_init: "init s \<Longrightarrow> inv s"
    and inv_step: "inv s \<Longrightarrow> step s l s' \<Longrightarrow> inv s'"
begin

lemma inv_run: "run s ls s' \<Longrightarrow> inv s \<Longrightarrow> inv s'"
  by (induction rule: run.induct) (auto intro: inv_step)

lemma reachable_inv: "reachable s \<Longrightarrow> inv s"
  by (auto simp: reachable_def dest: inv_init inv_run)

end

locale progress_order = inv_system init step inv
  for init :: "'s \<Rightarrow> bool" and step :: "'s \<Rightarrow> 'l \<Rightarrow> 's \<Rightarrow> bool" and inv :: "'s \<Rightarrow> bool" +
  fixes le :: "'s \<Rightarrow> 's \<Rightarrow> bool"
  assumes le_refl: "le s s"
    and le_trans: "le s s' \<Longrightarrow> le s' s'' \<Longrightarrow> le s s''"
    and le_step: "inv s \<Longrightarrow> step s l s' \<Longrightarrow> le s s'"
begin

lemma le_run: "run s ls s' \<Longrightarrow> inv s \<Longrightarrow> le s s'"
  by (induction rule: run.induct) (auto intro: le_refl le_trans le_step inv_step)

lemma le_reachable: "reachable s \<Longrightarrow> run s ls s' \<Longrightarrow> le s s'"
  by (blast intro: le_run reachable_inv)

end

text \<open>An entry, once there, stays and only moves up.\<close>

definition opt_le :: "('a \<Rightarrow> 'a \<Rightarrow> bool) \<Rightarrow> 'a option \<Rightarrow> 'a option \<Rightarrow> bool" where
  "opt_le le x y \<longleftrightarrow> (\<forall>a. x = Some a \<longrightarrow> (\<exists>b. y = Some b \<and> le a b))"

lemma opt_le_refl: "(\<And>a. le a a) \<Longrightarrow> opt_le le x x"
  by (simp add: opt_le_def)

lemma opt_le_trans:
  "opt_le le x y \<Longrightarrow> opt_le le y z \<Longrightarrow> (\<And>a b c. le a b \<Longrightarrow> le b c \<Longrightarrow> le a c) \<Longrightarrow> opt_le le x z"
  unfolding opt_le_def by metis

end
