(* ===== verification/Messages.thy ===== *)
theory Messages
  imports Prelude
begin

text \<open>
  The federation-signed messages of \<^verbatim>\<open>shared/src/claim.rs\<close> and
  \<^verbatim>\<open>shared/src/governance.rs\<close>: deposit claims, withdrawal completions and governance actions.
  The builders are translated as the code writes them (a zeroed buffer filled by
  \<open>copy_from_slice\<close> at fixed offsets); the layout lemmas show that each is the concatenation
  of its fields.  On top of that: exact lengths, injectivity in every field, and separation of
  the message families, which together are what binds a signature to one action.
\<close>

section \<open>Deposit claims and withdrawal completions (claim.rs)\<close>

definition CLAIM_DOMAIN_TAG :: bytes where
  "CLAIM_DOMAIN_TAG = ascii ''GLC_BRIDGE_CLAIM''"

definition ACTION_MINT_DEPOSIT :: u8 where "ACTION_MINT_DEPOSIT = 0x01"

definition ACTION_COMPLETE_WITHDRAWAL :: u8 where "ACTION_COMPLETE_WITHDRAWAL = 0x02"

definition CLAIM_MESSAGE_LEN :: nat where "CLAIM_MESSAGE_LEN = 166"

definition COMPLETION_MESSAGE_LEN :: nat where "COMPLETION_MESSAGE_LEN = 146"

definition deposit_claim_message ::
  "u8 \<Rightarrow> bytes32 \<Rightarrow> u64 \<Rightarrow> bytes32 \<Rightarrow> u32 \<Rightarrow> u64 \<Rightarrow> bytes32 \<Rightarrow> bytes32 \<Rightarrow> bytes" where
  "deposit_claim_message protocol_version program_id epoch txid vout amount recipient wrapped_mint =
     (let m = replicate CLAIM_MESSAGE_LEN 0;
          m = copy_at m 0 CLAIM_DOMAIN_TAG;
          m = copy_at m 16 [protocol_version];
          m = copy_at m 17 (le_bytes program_id);
          m = copy_at m 49 (le_bytes epoch);
          m = copy_at m 57 [ACTION_MINT_DEPOSIT];
          m = copy_at m 58 (le_bytes txid);
          m = copy_at m 90 (le_bytes vout);
          m = copy_at m 94 (le_bytes amount);
          m = copy_at m 102 (le_bytes recipient);
          m = copy_at m 134 (le_bytes wrapped_mint)
      in m)"

definition withdrawal_completion_message ::
  "u8 \<Rightarrow> bytes32 \<Rightarrow> u64 \<Rightarrow> u64 \<Rightarrow> bytes32 \<Rightarrow> u64 \<Rightarrow> u64 \<Rightarrow> bytes32 \<Rightarrow> bytes" where
  "withdrawal_completion_message protocol_version program_id epoch withdrawal_index payout_txid
      payout_height amount dest_commitment =
     (let m = replicate COMPLETION_MESSAGE_LEN 0;
          m = copy_at m 0 CLAIM_DOMAIN_TAG;
          m = copy_at m 16 [protocol_version];
          m = copy_at m 17 (le_bytes program_id);
          m = copy_at m 49 (le_bytes epoch);
          m = copy_at m 57 [ACTION_COMPLETE_WITHDRAWAL];
          m = copy_at m 58 (le_bytes withdrawal_index);
          m = copy_at m 66 (le_bytes payout_txid);
          m = copy_at m 98 (le_bytes payout_height);
          m = copy_at m 106 (le_bytes amount);
          m = copy_at m 114 (le_bytes dest_commitment)
      in m)"

section \<open>Governance messages (governance.rs)\<close>

definition GOVERNANCE_DOMAIN_TAG :: bytes where
  "GOVERNANCE_DOMAIN_TAG = ascii ''GLC_BRIDGE_GOVRN''"

definition ACTION_PROPOSE_ROTATION :: u8 where "ACTION_PROPOSE_ROTATION = 0x03"

definition ACTION_CANCEL_ROTATION :: u8 where "ACTION_CANCEL_ROTATION = 0x04"

definition ACTION_PROPOSE_TVL_RAISE :: u8 where "ACTION_PROPOSE_TVL_RAISE = 0x05"

definition GOVERNANCE_MESSAGE_LEN :: nat where "GOVERNANCE_MESSAGE_LEN = 90"

definition governance_message :: "u8 \<Rightarrow> bytes32 \<Rightarrow> u64 \<Rightarrow> u8 \<Rightarrow> bytes32 \<Rightarrow> bytes" where
  "governance_message protocol_version program_id epoch action params_commitment =
     (let m = replicate GOVERNANCE_MESSAGE_LEN 0;
          m = copy_at m 0 GOVERNANCE_DOMAIN_TAG;
          m = copy_at m 16 [protocol_version];
          m = copy_at m 17 (le_bytes program_id);
          m = copy_at m 49 (le_bytes epoch);
          m = copy_at m 57 [action];
          m = copy_at m 58 (le_bytes params_commitment)
      in m)"

text \<open>\<open>validators.len() as u32\<close> truncates; the loop appends each key.\<close>

definition rotation_params :: "u8 \<Rightarrow> bytes32 list \<Rightarrow> bytes" where
  "rotation_params threshold validators =
     [threshold] @ le_bytes (word_of_nat (length validators) :: u32)
       @ concat (map le_bytes validators)"

definition cancel_params :: "u8 \<Rightarrow> i64 \<Rightarrow> bytes" where
  "cancel_params pending_action pending_eta = [pending_action] @ le_bytes pending_eta"

definition tvl_raise_params :: "u64 \<Rightarrow> bytes" where
  "tvl_raise_params new_max_wrapped_supply = le_bytes new_max_wrapped_supply"

section \<open>Layout\<close>

named_theorems msg_consts

lemmas [msg_consts] =
  CLAIM_DOMAIN_TAG_def GOVERNANCE_DOMAIN_TAG_def CLAIM_MESSAGE_LEN_def COMPLETION_MESSAGE_LEN_def
  GOVERNANCE_MESSAGE_LEN_def ACTION_MINT_DEPOSIT_def ACTION_COMPLETE_WITHDRAWAL_def
  ACTION_PROPOSE_ROTATION_def ACTION_CANCEL_ROTATION_def ACTION_PROPOSE_TVL_RAISE_def

lemma length_tags [simp]: "length CLAIM_DOMAIN_TAG = 16" "length GOVERNANCE_DOMAIN_TAG = 16"
  by (simp_all add: msg_consts)

lemma deposit_claim_message_layout:
  "deposit_claim_message v p e t vo a r m =
     CLAIM_DOMAIN_TAG @ [v] @ le_bytes p @ le_bytes e @ [ACTION_MINT_DEPOSIT] @ le_bytes t
       @ le_bytes vo @ le_bytes a @ le_bytes r @ le_bytes m"
  by (simp add: deposit_claim_message_def CLAIM_MESSAGE_LEN_def copy_fill del: append_assoc)

lemma withdrawal_completion_message_layout:
  "withdrawal_completion_message v p e i t h a d =
     CLAIM_DOMAIN_TAG @ [v] @ le_bytes p @ le_bytes e @ [ACTION_COMPLETE_WITHDRAWAL] @ le_bytes i
       @ le_bytes t @ le_bytes h @ le_bytes a @ le_bytes d"
  by (simp add: withdrawal_completion_message_def COMPLETION_MESSAGE_LEN_def copy_fill
        del: append_assoc)

lemma governance_message_layout:
  "governance_message v p e act c =
     GOVERNANCE_DOMAIN_TAG @ [v] @ le_bytes p @ le_bytes e @ [act] @ le_bytes c"
  by (simp add: governance_message_def GOVERNANCE_MESSAGE_LEN_def copy_fill del: append_assoc)

lemmas message_layouts =
  deposit_claim_message_layout withdrawal_completion_message_layout governance_message_layout

section \<open>What a signature binds\<close>

lemma claim_message_iff:
  "deposit_claim_message v p e t vo a r m = deposit_claim_message v' p' e' t' vo' a' r' m' \<longleftrightarrow>
     v = v' \<and> p = p' \<and> e = e' \<and> t = t' \<and> vo = vo' \<and> a = a' \<and> r = r' \<and> m = m'"
  by (simp add: deposit_claim_message_layout codec_append_iffs)

lemma message_lengths:
  "length (deposit_claim_message v p e t vo a r m) = CLAIM_MESSAGE_LEN"
  "length (withdrawal_completion_message v p e i t h a d) = COMPLETION_MESSAGE_LEN"
  "length (governance_message v p e act c) = GOVERNANCE_MESSAGE_LEN"
  by (simp_all add: message_layouts msg_consts)

lemma message_separation:
  "withdrawal_completion_message v' p' e' i' t' h' a' d' \<noteq> deposit_claim_message v p e t vo a r m"
  "governance_message w q f act c \<noteq> deposit_claim_message v p e t vo a r m"
  by (rule notI, drule arg_cong [of _ _ length], simp add: message_lengths msg_consts)+

text \<open>
  A deposit-claim message determines every field it was built from: protocol version,
  program id, epoch, transaction id, output index, amount, recipient and mint.
\<close>

theorem deposit_claim_message_inject:
  "deposit_claim_message v p e t vo a r m = deposit_claim_message v' p' e' t' vo' a' r' m' \<longleftrightarrow>
     v = v' \<and> p = p' \<and> e = e' \<and> t = t' \<and> vo = vo' \<and> a = a' \<and> r = r' \<and> m = m'"
  by (rule claim_message_iff)

text \<open>
  A withdrawal-completion message determines every field: in particular the withdrawal
  index, the payout transaction, its height, the amount and the destination commitment.
\<close>

theorem withdrawal_completion_message_inject:
  "withdrawal_completion_message v p e i t h a d =
     withdrawal_completion_message v' p' e' i' t' h' a' d' \<longleftrightarrow>
     v = v' \<and> p = p' \<and> e = e' \<and> i = i' \<and> t = t' \<and> h = h' \<and> a = a' \<and> d = d'"
  by (simp add: withdrawal_completion_message_layout codec_append_iffs)

lemma governance_message_inject:
  "governance_message v p e act c = governance_message v' p' e' act' c' \<longleftrightarrow>
     v = v' \<and> p = p' \<and> e = e' \<and> act = act' \<and> c = c'"
  by (simp add: governance_message_layout codec_append_iffs)

lemma rotation_params_inject:
  "rotation_params th vs = rotation_params th' vs' \<longleftrightarrow> th = th' \<and> vs = vs'"
  by (auto simp: rotation_params_def u32c.enc_append_eq_iff keyc.concat_enc_eq_iff)

lemma cancel_params_inject: "cancel_params a e = cancel_params a' e' \<longleftrightarrow> a = a' \<and> e = e'"
  by (simp add: cancel_params_def)

lemma tvl_raise_params_inject: "tvl_raise_params n = tvl_raise_params n' \<longleftrightarrow> n = n'"
  by (simp add: tvl_raise_params_def)

lemma tags_distinct: "CLAIM_DOMAIN_TAG \<noteq> GOVERNANCE_DOMAIN_TAG"
  by (simp add: msg_consts ascii_def)

text \<open>
  The three message families are pairwise separated within their first 58 bytes (the domain
  tag, or the action byte at offset 57), whatever the fields hold, so neither a signature nor a
  truncated buffer of one family is ever a message of another.
\<close>

theorem message_families_separated:
  "take 58 (deposit_claim_message v p e t vo a r m) \<noteq>
     take 58 (withdrawal_completion_message v' p' e' i' t' h' a' d') \<and>
   take 58 (deposit_claim_message v p e t vo a r m) \<noteq> take 58 (governance_message w q f act c) \<and>
   take 58 (withdrawal_completion_message v' p' e' i' t' h' a' d') \<noteq>
     take 58 (governance_message w q f act c)"
proof -
  have "ACTION_MINT_DEPOSIT \<noteq> ACTION_COMPLETE_WITHDRAWAL"
    by (simp add: msg_consts)
  then show ?thesis
    using tags_distinct
    by (simp add: message_layouts codec_append_iffs append_eq_append_conv)
qed

end
