(* ===== verification/Accounts.thy ===== *)
theory Accounts
  imports Messages
begin

text \<open>
  Constants, error and event taxonomy, and account records of the on-chain program
  (\<^verbatim>\<open>programs/glc-bridge/src/{constants,errors,events,state}.rs\<close>), with the Borsh body each
  account is stored as.  Arrays the program slices (\<open>glc_address\<close>, \<open>reserved\<close>) are byte lists
  whose fixed length is part of the account's well-formedness.  The main facts are: the payout
  record written into \<open>reserved\<close> reads back, the serialized size of every account is its
  \<open>SPACE\<close> at most, and the seed bytes of distinct program-derived addresses are distinct.
\<close>

section \<open>Constants (constants.rs)\<close>

definition SEED_BRIDGE_CONFIG :: bytes where "SEED_BRIDGE_CONFIG = ascii ''bridge_config''"
definition SEED_VALIDATOR_SET :: bytes where "SEED_VALIDATOR_SET = ascii ''validator_set''"
definition SEED_MINT_AUTHORITY :: bytes where "SEED_MINT_AUTHORITY = ascii ''mint_authority''"
definition SEED_DEPOSIT_CLAIM :: bytes where "SEED_DEPOSIT_CLAIM = ascii ''deposit_claim''"
definition SEED_GOVERNANCE_ACTION :: bytes where
  "SEED_GOVERNANCE_ACTION = ascii ''governance_action''"
definition SEED_WITHDRAWAL :: bytes where "SEED_WITHDRAWAL = ascii ''withdrawal''"
definition PROTOCOL_VERSION :: u8 where "PROTOCOL_VERSION = 1"
definition MAX_VALIDATORS :: nat where "MAX_VALIDATORS = 16"
definition WRAPPED_GLC_DECIMALS :: u8 where "WRAPPED_GLC_DECIMALS = 8"
definition MAX_GLC_ADDRESS_LEN :: nat where "MAX_GLC_ADDRESS_LEN = 64"

text \<open>
  The program-derived addresses of the program, by what they are derived from.  Solana hashes
  the concatenation of the seeds, so \<open>seed_bytes\<close> is that concatenation.
\<close>

datatype pda =
    BridgeConfigPda
  | ValidatorSetPda
  | MintAuthorityPda
  | DepositClaimPda bytes32 u32
  | GovernanceActionPda
  | WithdrawalPda u64

primrec pda_seeds :: "pda \<Rightarrow> bytes list" where
  "pda_seeds BridgeConfigPda = [SEED_BRIDGE_CONFIG]"
| "pda_seeds ValidatorSetPda = [SEED_VALIDATOR_SET]"
| "pda_seeds MintAuthorityPda = [SEED_MINT_AUTHORITY]"
| "pda_seeds (DepositClaimPda txid vout) = [SEED_DEPOSIT_CLAIM, le_bytes txid, le_bytes vout]"
| "pda_seeds GovernanceActionPda = [SEED_GOVERNANCE_ACTION]"
| "pda_seeds (WithdrawalPda index) = [SEED_WITHDRAWAL, le_bytes index]"

definition seed_bytes :: "pda \<Rightarrow> bytes" where
  "seed_bytes p = concat (pda_seeds p)"

section \<open>Errors (errors.rs)\<close>

datatype bridge_error =
    EmptyValidatorSet
  | TooManyValidators
  | DuplicateValidator
  | InvalidValidatorKey
  | ZeroThreshold
  | ThresholdExceedsValidatorCount
  | UnauthorizedInitializer
  | UnauthorizedAdmin
  | PauseStateUnchanged
  | AdminUnchanged
  | NoPendingAdmin
  | PendingAdminMismatch
  | ArithmeticOverflow
  | MintAlreadyConfigured
  | MintNotConfigured
  | WrongWrappedMint
  | BridgePaused
  | StaleValidatorEpoch
  | ZeroDepositAmount
  | BelowMinimumDeposit
  | MissingSignatureVerification
  | MalformedSignatureVerification
  | SignatureMessageMismatch
  | UnknownValidatorSignature
  | DuplicateValidatorSignature
  | InsufficientSignatures
  | ZeroWithdrawalAmount
  | BelowMinimumWithdrawal
  | InvalidGlcAddressLength
  | ZeroGovernanceTimelock
  | WrongGovernanceAction
  | GovernanceTimelockNotElapsed
  | StaleGovernanceProposal
  | WithdrawalAlreadyCompleted
  | WithdrawalNotPending
  | PayoutRecordAlreadySet
  | ZeroPayoutTxid
  | ZeroPayoutHeight
  | ZeroWrappedSupplyCap
  | WrappedSupplyCapExceeded
  | WrappedSupplyCapUnchanged
  | WrappedSupplyCapNotLowered
  | WrappedSupplyCapNotRaised
  | UriTooLong
  | InvalidMetadataAccount
  | NameTooLong
  | SymbolTooLong
  | MetadataNotFound

text \<open>
  What an instruction can fail with: one of the program's own errors, or a failure of the
  framework around the handler (Anchor account checks, the system program refusing to create an
  account that exists, a failed call into the token or metadata program).
\<close>

datatype program_error =
    Bridge bridge_error
  | AccountInUse
  | AccountNotInitialized
  | ConstraintAddress
  | TokenProgramError
  | MetadataProgramError

section \<open>Events (events.rs)\<close>

datatype event =
    BridgeInitialized pubkey u8 u8 u8
  | PauseStateChanged bool
  | AdminTransferInitiated pubkey pubkey
  | AdminTransferred pubkey pubkey
  | WrappedMintCreated pubkey pubkey u8
  | DepositClaimMinted bytes32 u32 pubkey u64 u64
  | WithdrawalRequested u64 pubkey u64 bytes
  | GovernanceActionProposed u8 u64 i64 u8 u8
  | GovernanceActionExecuted u8 u64
  | GovernanceActionCancelled u8 i64
  | WithdrawalCompleted u64 bytes32 u64 u64 u64
  | WrappedSupplyCapChanged u64 u64 bool

section \<open>Account state (state.rs)\<close>

record bridge_config =
  cfg_protocol_version :: u8
  cfg_admin :: pubkey
  cfg_pending_admin :: "pubkey option"
  cfg_paused :: bool
  cfg_withdrawal_count :: u64
  cfg_min_deposit :: u64
  cfg_min_withdrawal :: u64
  cfg_bump :: u8
  cfg_wrapped_mint :: pubkey
  cfg_mint_authority_bump :: u8
  cfg_governance_timelock_seconds :: i64
  cfg_max_wrapped_supply :: u64
  cfg_reserved :: bytes

record validator_set =
  vs_epoch :: u64
  vs_threshold :: u8
  vs_bump :: u8
  vs_validators :: "pubkey list"
  vs_reserved :: bytes

record pending_governance_action =
  pga_action :: u8
  pga_proposed_under_epoch :: u64
  pga_eta :: i64
  pga_threshold :: u8
  pga_validators :: "pubkey list"
  pga_bump :: u8
  pga_proposed_max_wrapped_supply :: u64
  pga_reserved :: bytes

record deposit_claim =
  dc_txid :: bytes32
  dc_vout :: u32
  dc_amount :: u64
  dc_recipient :: pubkey
  dc_epoch :: u64
  dc_protocol_version :: u8
  dc_slot_created :: u64
  dc_bump :: u8
  dc_reserved :: bytes

datatype withdrawal_status = Pending | Broadcast | Completed

record withdrawal_request =
  wr_index :: u64
  wr_amount :: u64
  wr_requester :: pubkey
  wr_glc_address :: bytes
  wr_glc_address_len :: u8
  wr_status :: withdrawal_status
  wr_requested_at_slot :: u64
  wr_protocol_version :: u8
  wr_bump :: u8
  wr_reserved :: bytes

text \<open>\<open>Pubkey::default()\<close> is the all-zero key.\<close>

definition default_pubkey :: pubkey where "default_pubkey = 0"

subsection \<open>Borsh bodies\<close>

primrec status_tag :: "withdrawal_status \<Rightarrow> u8" where
  "status_tag Pending = 0"
| "status_tag Broadcast = 1"
| "status_tag Completed = 2"

definition borsh_bool :: "bool \<Rightarrow> bytes" where
  "borsh_bool b = [if b then 1 else 0]"

definition borsh_option_pubkey :: "pubkey option \<Rightarrow> bytes" where
  "borsh_option_pubkey p = (case p of None \<Rightarrow> [0] | Some k \<Rightarrow> [1] @ le_bytes k)"

definition borsh_pubkeys :: "pubkey list \<Rightarrow> bytes" where
  "borsh_pubkeys ks = le_bytes (word_of_nat (length ks) :: u32) @ concat (map le_bytes ks)"

definition borsh_bridge_config :: "bridge_config \<Rightarrow> bytes" where
  "borsh_bridge_config c =
     [cfg_protocol_version c] @ le_bytes (cfg_admin c) @ borsh_option_pubkey (cfg_pending_admin c)
       @ borsh_bool (cfg_paused c) @ le_bytes (cfg_withdrawal_count c)
       @ le_bytes (cfg_min_deposit c) @ le_bytes (cfg_min_withdrawal c) @ [cfg_bump c]
       @ le_bytes (cfg_wrapped_mint c) @ [cfg_mint_authority_bump c]
       @ le_bytes (cfg_governance_timelock_seconds c) @ le_bytes (cfg_max_wrapped_supply c)
       @ cfg_reserved c"

definition borsh_validator_set :: "validator_set \<Rightarrow> bytes" where
  "borsh_validator_set v =
     le_bytes (vs_epoch v) @ [vs_threshold v] @ [vs_bump v] @ borsh_pubkeys (vs_validators v)
       @ vs_reserved v"

definition borsh_pending_action :: "pending_governance_action \<Rightarrow> bytes" where
  "borsh_pending_action p =
     [pga_action p] @ le_bytes (pga_proposed_under_epoch p) @ le_bytes (pga_eta p)
       @ [pga_threshold p] @ borsh_pubkeys (pga_validators p) @ [pga_bump p]
       @ le_bytes (pga_proposed_max_wrapped_supply p) @ pga_reserved p"

definition borsh_deposit_claim :: "deposit_claim \<Rightarrow> bytes" where
  "borsh_deposit_claim d =
     le_bytes (dc_txid d) @ le_bytes (dc_vout d) @ le_bytes (dc_amount d)
       @ le_bytes (dc_recipient d) @ le_bytes (dc_epoch d) @ [dc_protocol_version d]
       @ le_bytes (dc_slot_created d) @ [dc_bump d] @ dc_reserved d"

definition borsh_withdrawal_request :: "withdrawal_request \<Rightarrow> bytes" where
  "borsh_withdrawal_request w =
     le_bytes (wr_index w) @ le_bytes (wr_amount w) @ le_bytes (wr_requester w)
       @ wr_glc_address w @ [wr_glc_address_len w] @ [status_tag (wr_status w)]
       @ le_bytes (wr_requested_at_slot w) @ [wr_protocol_version w] @ [wr_bump w]
       @ wr_reserved w"

text \<open>The \<open>SPACE\<close> constants.\<close>

definition BRIDGE_CONFIG_SPACE :: nat where
  "BRIDGE_CONFIG_SPACE = 8 + 1 + 32 + (1 + 32) + 1 + 8 + 8 + 8 + 1 + 32 + 1 + 8 + 8 + 15"

definition VALIDATOR_SET_SPACE :: nat where
  "VALIDATOR_SET_SPACE = 8 + 8 + 1 + 1 + (4 + 32 * MAX_VALIDATORS) + 32"

definition PENDING_ACTION_SPACE :: nat where
  "PENDING_ACTION_SPACE = 8 + 1 + 8 + 8 + 1 + (4 + 32 * MAX_VALIDATORS) + 1 + 8 + 24"

definition DEPOSIT_CLAIM_SPACE :: nat where
  "DEPOSIT_CLAIM_SPACE = 8 + 32 + 4 + 8 + 32 + 8 + 1 + 8 + 1 + 16"

definition WITHDRAWAL_REQUEST_SPACE :: nat where
  "WITHDRAWAL_REQUEST_SPACE = 8 + 8 + 8 + 32 + 64 + 1 + 1 + 8 + 1 + 1 + 48"

lemmas space_defs = BRIDGE_CONFIG_SPACE_def VALIDATOR_SET_SPACE_def PENDING_ACTION_SPACE_def
  DEPOSIT_CLAIM_SPACE_def WITHDRAWAL_REQUEST_SPACE_def MAX_VALIDATORS_def

text \<open>The array lengths the Rust types fix.\<close>

definition wf_bridge_config :: "bridge_config \<Rightarrow> bool" where
  "wf_bridge_config c \<longleftrightarrow> length (cfg_reserved c) = 15"

definition wf_validator_set :: "validator_set \<Rightarrow> bool" where
  "wf_validator_set v \<longleftrightarrow> length (vs_reserved v) = 32"

definition wf_pending_action :: "pending_governance_action \<Rightarrow> bool" where
  "wf_pending_action p \<longleftrightarrow> length (pga_reserved p) = 24"

definition wf_deposit_claim :: "deposit_claim \<Rightarrow> bool" where
  "wf_deposit_claim d \<longleftrightarrow> length (dc_reserved d) = 16"

definition wf_withdrawal_request :: "withdrawal_request \<Rightarrow> bool" where
  "wf_withdrawal_request w \<longleftrightarrow> length (wr_glc_address w) = 64 \<and> length (wr_reserved w) = 48"

lemmas wf_account_defs = wf_bridge_config_def wf_validator_set_def wf_pending_action_def
  wf_deposit_claim_def wf_withdrawal_request_def

subsection \<open>The payout record inside \<open>reserved\<close>\<close>

definition PAYOUT_TXID_OFFSET :: nat where "PAYOUT_TXID_OFFSET = 0"
definition PAYOUT_TXID_LEN :: nat where "PAYOUT_TXID_LEN = 32"
definition PAYOUT_HEIGHT_OFFSET :: nat where "PAYOUT_HEIGHT_OFFSET = 32"
definition PAYOUT_HEIGHT_LEN :: nat where "PAYOUT_HEIGHT_LEN = 8"
definition PAYOUT_RECORD_LEN :: nat where "PAYOUT_RECORD_LEN = PAYOUT_TXID_LEN + PAYOUT_HEIGHT_LEN"

lemmas payout_offsets = PAYOUT_TXID_OFFSET_def PAYOUT_TXID_LEN_def PAYOUT_HEIGHT_OFFSET_def
  PAYOUT_HEIGHT_LEN_def PAYOUT_RECORD_LEN_def

definition payout_record :: "withdrawal_request \<Rightarrow> (bytes32 \<times> u64) option" where
  "payout_record w =
     (if wr_status w \<noteq> Completed then None
      else Some (from_le (take PAYOUT_TXID_LEN (drop PAYOUT_TXID_OFFSET (wr_reserved w))),
                 from_le (take PAYOUT_HEIGHT_LEN (drop PAYOUT_HEIGHT_OFFSET (wr_reserved w)))))"

definition payout_record_is_unset :: "withdrawal_request \<Rightarrow> bool" where
  "payout_record_is_unset w \<longleftrightarrow> list_all (\<lambda>b. b = 0) (take PAYOUT_RECORD_LEN (wr_reserved w))"

definition set_payout_record :: "withdrawal_request \<Rightarrow> bytes32 \<Rightarrow> u64 \<Rightarrow> withdrawal_request" where
  "set_payout_record w payout_txid payout_height =
     w\<lparr>wr_reserved := copy_at (copy_at (wr_reserved w) PAYOUT_TXID_OFFSET (le_bytes payout_txid))
                        PAYOUT_HEIGHT_OFFSET (le_bytes payout_height)\<rparr>"

section \<open>Properties of the account layer\<close>

lemmas seed_defs = SEED_BRIDGE_CONFIG_def SEED_VALIDATOR_SET_def SEED_MINT_AUTHORITY_def
  SEED_DEPOSIT_CLAIM_def SEED_GOVERNANCE_ACTION_def SEED_WITHDRAWAL_def

lemma length_seeds [simp]:
  "length SEED_BRIDGE_CONFIG = 13" "length SEED_VALIDATOR_SET = 13"
  "length SEED_MINT_AUTHORITY = 14" "length SEED_DEPOSIT_CLAIM = 13"
  "length SEED_GOVERNANCE_ACTION = 17" "length SEED_WITHDRAWAL = 10"
  by (simp_all add: seed_defs)

primrec seed_len :: "pda \<Rightarrow> nat" where
  "seed_len BridgeConfigPda = 13"
| "seed_len ValidatorSetPda = 13"
| "seed_len MintAuthorityPda = 14"
| "seed_len (DepositClaimPda _ _) = 49"
| "seed_len GovernanceActionPda = 17"
| "seed_len (WithdrawalPda _) = 18"

lemma length_seed_bytes: "length (seed_bytes p) = seed_len p"
  by (cases p) (simp_all add: seed_bytes_def)

text \<open>
  The seed bytes the program derives its addresses from are different for different
  addresses, even after concatenation: no deposit claim, withdrawal or singleton account can
  share an address with another one short of a hash collision.
\<close>

theorem seed_bytes_inject: "seed_bytes p = seed_bytes q \<longleftrightarrow> p = q"
proof
  assume eq: "seed_bytes p = seed_bytes q"
  then have len: "seed_len p = seed_len q" by (metis length_seed_bytes)
  have sing: "SEED_BRIDGE_CONFIG \<noteq> SEED_VALIDATOR_SET"
    by (simp add: seed_defs ascii_def)
  from len eq sing show "p = q"
    by (cases p; cases q; simp add: seed_bytes_def codec_append_iffs)
qed simp

lemma length_borsh_pubkeys [simp]: "length (borsh_pubkeys ks) = 4 + 32 * length ks"
  by (simp add: borsh_pubkeys_def keyc.length_concat_enc)

lemma borsh_sizes:
  "wf_bridge_config c \<Longrightarrow> 8 + length (borsh_bridge_config c) \<le> BRIDGE_CONFIG_SPACE"
  "wf_validator_set v \<Longrightarrow> length (vs_validators v) \<le> MAX_VALIDATORS \<Longrightarrow>
     8 + length (borsh_validator_set v) \<le> VALIDATOR_SET_SPACE"
  "wf_pending_action p \<Longrightarrow> length (pga_validators p) \<le> MAX_VALIDATORS \<Longrightarrow>
     8 + length (borsh_pending_action p) \<le> PENDING_ACTION_SPACE"
  "wf_deposit_claim d \<Longrightarrow> 8 + length (borsh_deposit_claim d) = DEPOSIT_CLAIM_SPACE"
  "wf_withdrawal_request w \<Longrightarrow>
     8 + length (borsh_withdrawal_request w) = WITHDRAWAL_REQUEST_SPACE"
  by (simp_all add: wf_account_defs space_defs borsh_bridge_config_def borsh_validator_set_def
        borsh_pending_action_def borsh_deposit_claim_def borsh_withdrawal_request_def
        borsh_option_pubkey_def borsh_bool_def split: option.split)

lemma set_payout_record_reserved:
  assumes "wf_withdrawal_request w"
  shows "wr_reserved (set_payout_record w t h) = le_bytes t @ le_bytes h @ drop 40 (wr_reserved w)"
  using assms by (simp add: set_payout_record_def payout_offsets wf_account_defs copy_at_def)

lemma set_payout_record_other [simp]:
  "wr_index (set_payout_record w t h) = wr_index w"
  "wr_amount (set_payout_record w t h) = wr_amount w"
  "wr_requester (set_payout_record w t h) = wr_requester w"
  "wr_glc_address (set_payout_record w t h) = wr_glc_address w"
  "wr_glc_address_len (set_payout_record w t h) = wr_glc_address_len w"
  "wr_status (set_payout_record w t h) = wr_status w"
  by (simp_all add: set_payout_record_def)

lemma wf_set_payout_record:
  "wf_withdrawal_request w \<Longrightarrow> wf_withdrawal_request (set_payout_record w t h)"
  using set_payout_record_reserved [of w t h]
  by (simp add: wf_account_defs)

lemma payout_record_set:
  assumes "wf_withdrawal_request w"
  shows "payout_record (set_payout_record w t h\<lparr>wr_status := Completed\<rparr>) = Some (t, h)"
  using assms
  by (simp add: payout_record_def payout_offsets set_payout_record_reserved from_le_le_bytes)

end
