(* ===== verification/Verification.thy ===== *)
theory Verification
  imports Accounts
begin

text \<open>
  Validator-set rules (\<^verbatim>\<open>validation.rs\<close>) and the strict parser of the ed25519-precompile
  instruction (\<^verbatim>\<open>verification.rs\<close>).  The parser is characterised exactly: it succeeds if and
  only if every entry is self-referential, carries the expected message and names a current
  validator, and no validator appears twice (\<open>federation_proof\<close>).

  Offsets and counts are natural numbers: they are sums of at most 255 entries and 16-bit
  offsets, so none of the \<open>usize\<close> \<open>checked_*\<close> operations of the source can fail.
\<close>

section \<open>Validator-set rules (validation.rs)\<close>

fun reject_default_keys :: "pubkey list \<Rightarrow> (unit, bridge_error) result" where
  "reject_default_keys [] = Ok ()"
| "reject_default_keys (v # vs) =
     (if v = default_pubkey then Err InvalidValidatorKey else reject_default_keys vs)"

text \<open>The nested pairwise scan: position \<open>i\<close> against every later position \<open>j\<close>.\<close>

fun reject_duplicates :: "pubkey list \<Rightarrow> (unit, bridge_error) result" where
  "reject_duplicates [] = Ok ()"
| "reject_duplicates (v # vs) =
     (if list_ex (\<lambda>w. v = w) vs then Err DuplicateValidator else reject_duplicates vs)"

definition validate_validator_set :: "pubkey list \<Rightarrow> u8 \<Rightarrow> (unit, bridge_error) result" where
  "validate_validator_set validators threshold =
     (if validators = [] then Err EmptyValidatorSet
      else if length validators > MAX_VALIDATORS then Err TooManyValidators
      else if \<not> 1 \<le> threshold then Err ZeroThreshold
      else if \<not> unat threshold \<le> length validators then Err ThresholdExceedsValidatorCount
      else and_then (reject_default_keys validators) (\<lambda>_. reject_duplicates validators))"

section \<open>The ed25519 instruction parser (verification.rs)\<close>

definition ED25519_HEADER_LEN :: nat where "ED25519_HEADER_LEN = 2"
definition ED25519_ENTRY_LEN :: nat where "ED25519_ENTRY_LEN = 14"
definition SIGNATURE_LEN :: nat where "SIGNATURE_LEN = 64"
definition PUBKEY_LEN :: nat where "PUBKEY_LEN = 32"
definition SELF_REFERENCE :: u16 where "SELF_REFERENCE = 0xFFFF"

lemmas ed25519_consts = ED25519_HEADER_LEN_def ED25519_ENTRY_LEN_def SIGNATURE_LEN_def
  PUBKEY_LEN_def

definition u16_at :: "bytes \<Rightarrow> nat \<Rightarrow> (u16, bridge_error) result" where
  "u16_at data offset =
     and_then (ok_or MalformedSignatureVerification (slice_get data offset (offset + 2)))
       (\<lambda>bs. Ok (from_le bs))"

text \<open>
  The body of the loop up to the validator's index.  The reads happen in the source's order,
  each failing the whole instruction.
\<close>

definition check_entry :: "bytes \<Rightarrow> bytes \<Rightarrow> pubkey list \<Rightarrow> nat \<Rightarrow> (nat, bridge_error) result" where
  "check_entry data expected_message validators i =
    (let entry_base = ED25519_HEADER_LEN + i * ED25519_ENTRY_LEN in
     and_then (u16_at data entry_base) (\<lambda>signature_offset.
     and_then (u16_at data (entry_base + 2)) (\<lambda>signature_ix_index.
     and_then (u16_at data (entry_base + 4)) (\<lambda>public_key_offset.
     and_then (u16_at data (entry_base + 6)) (\<lambda>public_key_ix_index.
     and_then (u16_at data (entry_base + 8)) (\<lambda>message_offset.
     and_then (u16_at data (entry_base + 10)) (\<lambda>message_size.
     and_then (u16_at data (entry_base + 12)) (\<lambda>message_ix_index.
     if \<not> (signature_ix_index = SELF_REFERENCE \<and> public_key_ix_index = SELF_REFERENCE
            \<and> message_ix_index = SELF_REFERENCE)
     then Err MalformedSignatureVerification
     else and_then (ok_or MalformedSignatureVerification
       (slice_get data (unat signature_offset) (unat signature_offset + SIGNATURE_LEN))) (\<lambda>_.
     and_then (ok_or MalformedSignatureVerification
       (slice_get data (unat message_offset) (unat message_offset + unat message_size))) (\<lambda>message.
     if message \<noteq> expected_message then Err SignatureMessageMismatch
     else and_then (ok_or MalformedSignatureVerification
       (slice_get data (unat public_key_offset) (unat public_key_offset + PUBKEY_LEN))) (\<lambda>pk_bytes.
     ok_or UnknownValidatorSignature (position (\<lambda>v. v = from_le pk_bytes) validators))))))))))))"

text \<open>\<open>1u16.checked_shl(n)\<close>.\<close>

definition checked_shl_one :: "nat \<Rightarrow> u16 option" where
  "checked_shl_one n = (if n < 16 then Some (push_bit n 1) else None)"

fun count_loop ::
  "bytes \<Rightarrow> bytes \<Rightarrow> pubkey list \<Rightarrow> nat list \<Rightarrow> u16 \<Rightarrow> nat \<Rightarrow> (nat, bridge_error) result" where
  "count_loop data expected_message validators [] seen count = Ok count"
| "count_loop data expected_message validators (i # is) seen count =
     and_then (check_entry data expected_message validators i) (\<lambda>validator_index.
     and_then (ok_or MalformedSignatureVerification (checked_shl_one validator_index)) (\<lambda>b.
     if seen AND b \<noteq> 0 then Err DuplicateValidatorSignature
     else count_loop data expected_message validators is (seen OR b) (count + 1)))"

definition count_unique_validator_signers ::
  "bytes \<Rightarrow> bytes \<Rightarrow> pubkey list \<Rightarrow> (nat, bridge_error) result" where
  "count_unique_validator_signers data expected_message validators =
     (if \<not> length data \<ge> ED25519_HEADER_LEN then Err MalformedSignatureVerification
      else let num_signatures = unat (data ! 0) in
      if \<not> (num_signatures \<ge> 1 \<and> data ! 1 = 0) then Err MalformedSignatureVerification
      else count_loop data expected_message validators [0..<num_signatures] 0 0)"

section \<open>Validator-set rules hold exactly\<close>

lemma reject_default_keys_Ok: "reject_default_keys vs = Ok u \<longleftrightarrow> default_pubkey \<notin> set vs"
  by (induction vs) auto

lemma reject_duplicates_Ok: "reject_duplicates vs = Ok u \<longleftrightarrow> distinct vs"
  by (induction vs) (auto simp: list_ex_iff)

definition valid_federation :: "pubkey list \<Rightarrow> u8 \<Rightarrow> bool" where
  "valid_federation vs th \<longleftrightarrow>
     vs \<noteq> [] \<and> length vs \<le> MAX_VALIDATORS \<and> 1 \<le> unat th \<and> unat th \<le> length vs \<and>
     default_pubkey \<notin> set vs \<and> distinct vs"

lemma one_le_word_iff: "1 \<le> (w :: 'a::len word) \<longleftrightarrow> 1 \<le> unat w"
  by (simp add: word_le_nat_alt)

lemma validate_validator_set_Ok:
  "validate_validator_set vs th = Ok () \<longleftrightarrow> valid_federation vs th"
  by (auto simp: validate_validator_set_def valid_federation_def reject_default_keys_Ok
        reject_duplicates_Ok one_le_word_iff not_less split: if_splits)

definition ed25519_entry :: "bytes \<Rightarrow> nat \<Rightarrow> pubkey \<Rightarrow> signature \<Rightarrow> bytes \<Rightarrow> bool" where
  "ed25519_entry data i pk sig msg \<longleftrightarrow>
     (\<exists>so ko mo ms.
        u16_at data (2 + i * 14) = Ok so \<and> u16_at data (2 + i * 14 + 2) = Ok SELF_REFERENCE \<and>
        u16_at data (2 + i * 14 + 4) = Ok ko \<and> u16_at data (2 + i * 14 + 6) = Ok SELF_REFERENCE \<and>
        u16_at data (2 + i * 14 + 8) = Ok mo \<and> u16_at data (2 + i * 14 + 10) = Ok ms \<and>
        u16_at data (2 + i * 14 + 12) = Ok SELF_REFERENCE \<and>
        slice_get data (unat so) (unat so + 64) = Some (le_bytes sig) \<and>
        slice_get data (unat ko) (unat ko + 32) = Some (le_bytes pk) \<and>
        slice_get data (unat mo) (unat mo + unat ms) = Some msg)"

lemma slice_key_bytes:
  "slice_get data a (a + 32) = Some bs \<Longrightarrow> le_bytes (from_le bs :: pubkey) = bs"
  by (rule le_bytes_from_le) (drule length_slice_get, simp)

lemma slice_sig_bytes:
  "slice_get data a (a + 64) = Some bs \<Longrightarrow> le_bytes (from_le bs :: signature) = bs"
  by (rule le_bytes_from_le) (drule length_slice_get, simp)

lemma check_entry_Ok:
  "check_entry data msg vs i = Ok k \<longleftrightarrow>
     (\<exists>pk sig. ed25519_entry data i pk sig msg \<and> position (\<lambda>v. v = pk) vs = Some k)"
proof
  let ?b = "2 + i * 14"
  assume "check_entry data msg vs i = Ok k"
  then obtain so ko mo ms sb kb where r:
      "u16_at data ?b = Ok so" "u16_at data (?b + 2) = Ok SELF_REFERENCE"
      "u16_at data (?b + 4) = Ok ko" "u16_at data (?b + 6) = Ok SELF_REFERENCE"
      "u16_at data (?b + 8) = Ok mo" "u16_at data (?b + 10) = Ok ms"
      "u16_at data (?b + 12) = Ok SELF_REFERENCE"
    and sb: "slice_get data (unat so) (unat so + 64) = Some sb"
    and mo: "slice_get data (unat mo) (unat mo + unat ms) = Some msg"
    and kb: "slice_get data (unat ko) (unat ko + 32) = Some kb"
    and k: "position (\<lambda>v. v = from_le kb) vs = Some k"
    by (auto simp: check_entry_def Let_def ed25519_consts split: if_splits)
  from r sb mo kb have "ed25519_entry data i (from_le kb) (from_le sb) msg"
    by (simp add: ed25519_entry_def slice_key_bytes [OF kb] slice_sig_bytes [OF sb])
  with k show "\<exists>pk sig. ed25519_entry data i pk sig msg \<and> position (\<lambda>v. v = pk) vs = Some k"
    by blast
next
  assume "\<exists>pk sig. ed25519_entry data i pk sig msg \<and> position (\<lambda>v. v = pk) vs = Some k"
  then show "check_entry data msg vs i = Ok k"
    by (fastforce simp: check_entry_def Let_def ed25519_consts ed25519_entry_def from_le_le_bytes)
qed

lemma ed25519_entry_unique:
  "ed25519_entry data i pk sig msg \<Longrightarrow> ed25519_entry data i pk' sig' msg' \<Longrightarrow>
     pk' = pk \<and> sig' = sig \<and> msg' = msg"
  by (auto simp: ed25519_entry_def)

lemma count_loop_Ok:
  "count_loop data msg vs is seen c = Ok m \<longleftrightarrow>
     m = c + length is \<and>
     (\<exists>ks. list_all2 (\<lambda>i k. check_entry data msg vs i = Ok k) is ks \<and> distinct ks \<and>
        (\<forall>k \<in> set ks. k < 16 \<and> \<not> bit seen k))"
proof (induction "is" arbitrary: seen c)
  case Nil
  then show ?case by auto
next
  case (Cons i "is")
  have "count_loop data msg vs (i # is) seen c = Ok m \<longleftrightarrow>
    (\<exists>k. check_entry data msg vs i = Ok k \<and> k < 16 \<and> \<not> bit seen k \<and>
       count_loop data msg vs is (seen OR push_bit k 1) (c + 1) = Ok m)"
    by (auto simp: checked_shl_one_def and_exp_eq_0_iff_not_bit split: if_splits)
  also have "\<dots> \<longleftrightarrow> m = c + length (i # is) \<and>
     (\<exists>ks. list_all2 (\<lambda>i k. check_entry data msg vs i = Ok k) (i # is) ks \<and> distinct ks \<and>
        (\<forall>k \<in> set ks. k < 16 \<and> \<not> bit seen k))"
    unfolding Cons.IH list_all2_Cons1 by (fastforce simp: bit_simps)
  finally show ?case .
qed

definition federation_proof :: "bytes \<Rightarrow> bytes \<Rightarrow> pubkey list \<Rightarrow> pubkey list \<Rightarrow> bool" where
  "federation_proof data msg vs ks \<longleftrightarrow>
     2 \<le> length data \<and> unat (data ! 0) = length ks \<and> data ! 1 = 0 \<and> ks \<noteq> [] \<and>
     distinct ks \<and> set ks \<subseteq> set vs \<and>
     (\<forall>i < length ks. \<exists>sig. ed25519_entry data i (ks ! i) sig msg)"

definition key_position :: "pubkey list \<Rightarrow> pubkey \<Rightarrow> nat option" where
  "key_position vs pk = position (\<lambda>v. v = pk) vs"

lemma key_position_nth: "key_position vs pk = Some k \<Longrightarrow> k < length vs \<and> vs ! k = pk"
  unfolding key_position_def by (drule position_Some_nth) simp

lemma key_position_mem: "pk \<in> set vs \<longleftrightarrow> (\<exists>k. key_position vs pk = Some k)"
  using position_eq_mem [of pk vs] key_position_nth [of vs pk]
  by (metis key_position_def nth_mem)

text \<open>Distinct validator indices and distinct validator keys are the same thing.\<close>

lemma positions_of_keys:
  assumes "map (key_position vs) ks = map Some idxs"
  shows "distinct idxs \<longleftrightarrow> distinct ks" "set ks \<subseteq> set vs" "length ks = length idxs"
    "\<forall>k \<in> set idxs. k < length vs" "ks = map ((!) vs) idxs"
proof -
  show len: "length ks = length idxs" using assms by (metis length_map)
  have nth: "i < length ks \<Longrightarrow> key_position vs (ks ! i) = Some (idxs ! i)" for i
    using assms len by (metis nth_map)
  then have k: "i < length ks \<Longrightarrow> idxs ! i < length vs \<and> vs ! (idxs ! i) = ks ! i" for i
    by (blast dest: key_position_nth)
  show "distinct idxs \<longleftrightarrow> distinct ks"
    unfolding distinct_conv_nth len [symmetric] using nth k by (metis option.inject)
  show "set ks \<subseteq> set vs" using k by (metis in_set_conv_nth nth_mem subsetI)
  show "\<forall>k \<in> set idxs. k < length vs" using k len by (metis in_set_conv_nth)
  show "ks = map ((!) vs) idxs" using k len by (simp add: list_eq_iff_nth_eq)
qed

lemma entries_positions:
  "list_all2 (\<lambda>i k. check_entry data msg vs i = Ok k) [0..<n] idxs \<longleftrightarrow>
     (\<exists>ks. length ks = n \<and> map (key_position vs) ks = map Some idxs \<and>
        (\<forall>i < n. \<exists>sig. ed25519_entry data i (ks ! i) sig msg))" (is "?L \<longleftrightarrow> ?R")
proof
  assume L: ?L
  then have len: "length idxs = n"
    by (simp add: list_all2_lengthD [symmetric])
  from L have ent: "\<exists>pk sig. ed25519_entry data i pk sig msg \<and> key_position vs pk = Some (idxs ! i)"
    if "i < n" for i
    using that by (auto simp: list_all2_conv_all_nth check_entry_Ok key_position_def)
  then have "\<forall>i < n. \<exists>sig. ed25519_entry data i (map ((!) vs) idxs ! i) sig msg"
    by (metis key_position_nth len nth_map)
  moreover have "map (key_position vs) (map ((!) vs) idxs) = map Some idxs"
    using ent len by (auto simp: list_eq_iff_nth_eq dest: key_position_nth)
  ultimately show ?R using len by (metis length_map)
next
  assume ?R
  then obtain ks where ks: "length ks = n" and m: "map (key_position vs) ks = map Some idxs"
    and ent: "\<forall>i < n. \<exists>sig. ed25519_entry data i (ks ! i) sig msg"
    by blast
  from m ks have len: "length idxs = n" by (metis length_map)
  have pos: "key_position vs (ks ! i) = Some (idxs ! i)" if "i < n" for i
    using m that ks len by (metis nth_map)
  have "check_entry data msg vs i = Ok (idxs ! i)" if "i < n" for i
    using pos [OF that] ent that unfolding check_entry_Ok key_position_def by blast
  with len show ?L
    by (simp add: list_all2_conv_all_nth)
qed

lemma count_unique_validator_signers_Ok:
  assumes "length vs \<le> MAX_VALIDATORS"
  shows "count_unique_validator_signers data msg vs = Ok n \<longleftrightarrow>
     (\<exists>ks. federation_proof data msg vs ks \<and> n = length ks)"
proof -
  have "count_unique_validator_signers data msg vs = Ok n \<longleftrightarrow>
     2 \<le> length data \<and> 1 \<le> unat (data ! 0) \<and> data ! 1 = 0 \<and> n = unat (data ! 0) \<and>
     (\<exists>idxs. list_all2 (\<lambda>i k. check_entry data msg vs i = Ok k) [0..<n] idxs \<and> distinct idxs \<and>
        (\<forall>k \<in> set idxs. k < 16))"
    by (auto simp: count_unique_validator_signers_def ED25519_HEADER_LEN_def Let_def count_loop_Ok
        split: if_splits)
  also have "\<dots> \<longleftrightarrow> (\<exists>ks. federation_proof data msg vs ks \<and> n = length ks)"
  proof (intro iffI; elim exE conjE)
    fix idxs
    assume h: "2 \<le> length data" "1 \<le> unat (data ! 0)" "data ! 1 = 0" "n = unat (data ! 0)"
      and l: "list_all2 (\<lambda>i k. check_entry data msg vs i = Ok k) [0..<n] idxs" and d: "distinct idxs"
    from l obtain ks where ks: "length ks = n" "map (key_position vs) ks = map Some idxs"
      "\<forall>i < n. \<exists>sig. ed25519_entry data i (ks ! i) sig msg"
      unfolding entries_positions by blast
    with h d have "federation_proof data msg vs ks"
      using positions_of_keys(1,2) [OF ks(2)] by (auto simp: federation_proof_def)
    with ks(1) show "\<exists>ks. federation_proof data msg vs ks \<and> n = length ks" by blast
  next
    fix ks
    assume p: "federation_proof data msg vs ks" and n: "n = length ks"
    let ?idxs = "map (\<lambda>pk. the (key_position vs pk)) ks"
    have m: "map (key_position vs) ks = map Some ?idxs"
      using p by (fastforce simp: federation_proof_def key_position_mem subset_iff)
    then have "list_all2 (\<lambda>i k. check_entry data msg vs i = Ok k) [0..<n] ?idxs"
      unfolding entries_positions using p n by (auto simp: federation_proof_def)
    moreover have "distinct ?idxs"
      using p positions_of_keys(1) [OF m] by (simp add: federation_proof_def)
    moreover have "\<forall>k \<in> set ?idxs. k < 16"
      using positions_of_keys(4) [OF m] assms by (fastforce simp: MAX_VALIDATORS_def)
    ultimately show "2 \<le> length data \<and> 1 \<le> unat (data ! 0) \<and> data ! 1 = 0 \<and> n = unat (data ! 0) \<and>
     (\<exists>idxs. list_all2 (\<lambda>i k. check_entry data msg vs i = Ok k) [0..<n] idxs \<and> distinct idxs \<and>
        (\<forall>k \<in> set idxs. k < 16))"
      using p n by (intro conjI exI [of _ ?idxs]) (auto simp: federation_proof_def Suc_le_eq)
  qed
  finally show ?thesis .
qed

text \<open>The errors the parser can report.\<close>

definition parser_errors :: "bridge_error set" where
  "parser_errors = {MalformedSignatureVerification, SignatureMessageMismatch,
     UnknownValidatorSignature, DuplicateValidatorSignature}"

lemma guard_Err:
  "(if c then r else Err e) = Err e' \<longleftrightarrow> (if c then r = Err e' else e' = e)"
  "(if c then Err e else r) = Err e' \<longleftrightarrow> (if c then e' = e else r = Err e')"
  by auto

lemma u16_at_Err: "u16_at data off = Err e \<Longrightarrow> e = MalformedSignatureVerification"
  by (auto simp: u16_at_def and_then_Err_iff)

lemma check_entry_Err: "check_entry data msg vs i = Err e \<Longrightarrow> e \<in> parser_errors"
  by (auto simp: check_entry_def Let_def and_then_Err_iff guard_Err parser_errors_def
      dest: u16_at_Err split: if_splits)

lemma count_loop_Err: "count_loop data msg vs is seen c = Err e \<Longrightarrow> e \<in> parser_errors"
proof (induction "is" arbitrary: seen c)
  case (Cons i "is")
  then show ?case
    by (auto simp: and_then_Err_iff guard_Err dest: check_entry_Err split: if_splits)
      (auto simp: parser_errors_def)
qed simp

lemma count_unique_validator_signers_Err:
  "count_unique_validator_signers data msg vs = Err e \<Longrightarrow> e \<in> parser_errors"
  by (auto simp: count_unique_validator_signers_def Let_def guard_Err dest: count_loop_Err
      split: if_splits) (auto simp: parser_errors_def)

text \<open>
  \<open>validate_validator_set\<close> accepts exactly the federations the documentation promises:
  non-empty, at most sixteen distinct keys, none of them all-zero, and a threshold between one
  and the number of keys.
\<close>

theorem validate_validator_set_correct:
  "validate_validator_set vs th = Ok () \<longleftrightarrow>
     vs \<noteq> [] \<and> length vs \<le> 16 \<and> 1 \<le> unat th \<and> unat th \<le> length vs \<and>
     0 \<notin> set vs \<and> distinct vs"
  unfolding validate_validator_set_Ok valid_federation_def MAX_VALIDATORS_def default_pubkey_def ..

text \<open>
  C6: The ed25519 parser counts \<open>n\<close> signers if and only if the instruction consists of \<open>n \<ge> 1\<close>
  entries, each of them self-referential with its signature, key and message inside the
  instruction's own data, each over exactly the expected message, by \<open>n\<close> distinct current
  validators.  Every other byte string is an error.
\<close>

theorem count_unique_validator_signers_correct:
  assumes "length vs \<le> MAX_VALIDATORS"
  shows "count_unique_validator_signers data msg vs = Ok n \<longleftrightarrow>
     (\<exists>ks. federation_proof data msg vs ks \<and> n = length ks)"
  by (rule count_unique_validator_signers_Ok [OF assms])

theorem count_unique_validator_signers_correct_witness:
  "\<exists>ks. federation_proof
     ([1, 0, 48, 0, 255, 255, 16, 0, 255, 255, 112, 0, 1, 0, 255, 255] @ le_bytes (7 :: pubkey)
        @ le_bytes (9 :: signature) @ [42]) [42] [1, 7] ks \<and> 1 = length ks"
  by (rule count_unique_validator_signers_correct [THEN iffD1])
    (simp_all add: MAX_VALIDATORS_def count_unique_validator_signers_def check_entry_def u16_at_def
      slice_get_def ed25519_consts SELF_REFERENCE_def checked_shl_one_def from_le_le_bytes)

end
