(* ===== verification/Aggregate.thy ===== *)
theory Aggregate
  imports Verification
begin

text \<open>
  The relayer's signature aggregation (\<^verbatim>\<open>relayer/src/signer/aggregate.rs\<close>): the builder of the
  ed25519-precompile instruction and the threshold precheck.  The bytes the builder writes are
  computed in closed form and run through the on-chain parser of \<open>Verification\<close>.
\<close>

section \<open>The relayer's instruction builder (aggregate.rs)\<close>

text \<open>One iteration of the loop that fills in entry \<open>i\<close>.\<close>

definition write_entry ::
  "nat \<Rightarrow> nat \<Rightarrow> nat \<Rightarrow> nat \<Rightarrow> nat \<Rightarrow> pubkey \<Rightarrow> signature \<Rightarrow> bytes \<Rightarrow> bytes" where
  "write_entry entries_end keys_end msg_off msg_len i pubkey sig data =
     (let base = 2 + i * 14;
          pk_off = word_of_nat (entries_end + i * 32) :: u16;
          sig_off = word_of_nat (keys_end + i * 64) :: u16;
          data = copy_at data base (le_bytes sig_off);
          data = copy_at data (base + 2) (le_bytes SELF_REFERENCE);
          data = copy_at data (base + 4) (le_bytes pk_off);
          data = copy_at data (base + 6) (le_bytes SELF_REFERENCE);
          data = copy_at data (base + 8) (le_bytes (word_of_nat msg_off :: u16));
          data = copy_at data (base + 10) (le_bytes (word_of_nat msg_len :: u16));
          data = copy_at data (base + 12) (le_bytes SELF_REFERENCE);
          data = copy_at data (entries_end + i * 32) (le_bytes pubkey)
      in copy_at data (keys_end + i * 64) (le_bytes sig))"

fun write_entries ::
  "nat \<Rightarrow> nat \<Rightarrow> nat \<Rightarrow> nat \<Rightarrow> nat \<Rightarrow> (pubkey \<times> signature) list \<Rightarrow> bytes \<Rightarrow> bytes" where
  "write_entries entries_end keys_end msg_off msg_len i [] data = data"
| "write_entries entries_end keys_end msg_off msg_len i ((pk, sig) # sigs) data =
     write_entries entries_end keys_end msg_off msg_len (Suc i) sigs
       (write_entry entries_end keys_end msg_off msg_len i pk sig data)"

definition build_ed25519_data :: "(pubkey \<times> signature) list \<Rightarrow> bytes \<Rightarrow> bytes" where
  "build_ed25519_data sigs message =
     (let n = length sigs;
          entries_end = 2 + n * 14;
          keys_end = entries_end + n * 32;
          sigs_end = keys_end + n * 64;
          msg_off = sigs_end;
          data = replicate (msg_off + length message) 0;
          data = copy_at data 0 [word_of_nat n];
          data = copy_at data 1 [0];
          data = write_entries entries_end keys_end msg_off (length message) 0 sigs data
      in copy_at data msg_off message)"

text \<open>An instruction is a program id with its data; \<open>ed25519_program\<close> is the precompile's id.\<close>

definition build_ed25519_instruction ::
  "pubkey \<Rightarrow> (pubkey \<times> signature) list \<Rightarrow> bytes \<Rightarrow> pubkey \<times> bytes" where
  "build_ed25519_instruction ed25519_program sigs message =
     (ed25519_program, build_ed25519_data sigs message)"

datatype threshold_error = Insufficient nat u8

definition count_unique_threshold_signers ::
  "(pubkey \<times> signature) list \<Rightarrow> pubkey list \<Rightarrow> u8 \<Rightarrow> (nat, threshold_error) result" where
  "count_unique_threshold_signers sigs validators threshold =
     (let unique = remdups (filter (\<lambda>pk. pk \<in> set validators) (map fst sigs)) in
      if length unique \<ge> unat threshold then Ok (length unique)
      else Err (Insufficient (length unique) threshold))"

section \<open>The builder's output\<close>

lemma copy_at_copy_at:
  assumes "length a = k" "off + k + length b \<le> length m"
  shows "copy_at (copy_at m off a) (off + k) b = copy_at m off (a @ b)"
  using assms by (simp add: copy_at_def add.commute add.left_commute)

lemma copy_at_seven:
  assumes "b + 14 \<le> length m"
    and "length x1 = 2" "length x2 = 2" "length x3 = 2" "length x4 = 2" "length x5 = 2"
      "length x6 = 2" "length x7 = 2"
  shows "copy_at (copy_at (copy_at (copy_at (copy_at (copy_at (copy_at m b x1) (b + 2) x2)
      (b + 4) x3) (b + 6) x4) (b + 8) x5) (b + 10) x6) (b + 12) x7 =
    copy_at m b (x1 @ x2 @ x3 @ x4 @ x5 @ x6 @ x7)"
  using assms by (simp add: copy_at_copy_at del: add_2_eq_Suc add_2_eq_Suc')

lemma copy_at_middle:
  "length pre = off \<Longrightarrow> length mid = length bs \<Longrightarrow>
     copy_at (pre @ mid @ suf) off bs = pre @ bs @ suf"
  by (simp add: copy_at_def)

definition entry_bytes :: "nat \<Rightarrow> nat \<Rightarrow> nat \<Rightarrow> nat \<Rightarrow> nat \<Rightarrow> bytes" where
  "entry_bytes entries_end keys_end msg_off msg_len i =
     le_bytes (word_of_nat (keys_end + i * 64) :: u16) @ le_bytes SELF_REFERENCE
       @ le_bytes (word_of_nat (entries_end + i * 32) :: u16) @ le_bytes SELF_REFERENCE
       @ le_bytes (word_of_nat msg_off :: u16) @ le_bytes (word_of_nat msg_len :: u16)
       @ le_bytes SELF_REFERENCE"

lemma length_entry_bytes [simp]: "length (entry_bytes ee ke mo ml i) = 14"
  by (simp add: entry_bytes_def)

lemma write_entry_eq:
  assumes "2 + i * 14 + 14 \<le> length data"
  shows "write_entry ee ke mo ml i pk sig data =
     copy_at (copy_at (copy_at data (2 + i * 14) (entry_bytes ee ke mo ml i))
       (ee + i * 32) (le_bytes pk)) (ke + i * 64) (le_bytes sig)"
  unfolding write_entry_def Let_def entry_bytes_def
  by (subst copy_at_seven) (use assms in simp_all)

text \<open>
  Filling entry, key and signature regions in step: \<open>E\<close>, \<open>K\<close>, \<open>S\<close> are the parts already
  written, and the zeroed remainders hold exactly the entries still to come.
\<close>

lemma write_entries_eq:
  assumes "length E = 2 + i * 14" "length K = i * 32" "length S = i * 64"
    and "ee = 2 + (i + length sigs) * 14" "ke = ee + (i + length sigs) * 32"
  shows "write_entries ee ke mo ml i sigs
      (E @ replicate (14 * length sigs) 0 @ K @ replicate (32 * length sigs) 0
         @ S @ replicate (64 * length sigs) 0 @ T) =
     E @ concat (map (entry_bytes ee ke mo ml) [i..<i + length sigs])
       @ K @ concat (map (le_bytes \<circ> fst) sigs) @ S @ concat (map (le_bytes \<circ> snd) sigs) @ T"
  using assms
proof (induction sigs arbitrary: i E K S)
  case Nil
  then show ?case by simp
next
  case (Cons s sigs)
  obtain pk sig where s: "s = (pk, sig)" by fastforce
  let ?n = "length sigs"
  let ?eb = "entry_bytes ee ke mo ml i"
  have w: "write_entry ee ke mo ml i pk sig
      (E @ replicate (14 * Suc ?n) 0 @ K @ replicate (32 * Suc ?n) 0
         @ S @ replicate (64 * Suc ?n) 0 @ T) =
    (E @ ?eb) @ replicate (14 * ?n) 0 @ (K @ le_bytes pk) @ replicate (32 * ?n) 0
         @ (S @ le_bytes sig) @ replicate (64 * ?n) 0 @ T" (is "?l = ?r")
  proof -
    have z: "replicate (c * Suc ?n) 0 = replicate c 0 @ replicate (c * ?n) (0 :: u8)" for c
      by (simp add: replicate_add)
    have "?l = copy_at (copy_at (copy_at
      (E @ replicate 14 0 @ (replicate (14 * ?n) 0 @ K @ replicate 32 0 @ replicate (32 * ?n) 0
         @ S @ replicate 64 0 @ replicate (64 * ?n) 0 @ T))
       (2 + i * 14) ?eb) (ee + i * 32) (le_bytes pk)) (ke + i * 64) (le_bytes sig)"
      by (subst write_entry_eq) (use Cons.prems in \<open>simp_all add: z del: replicate.simps mult_Suc_right\<close>)
    also have "\<dots> = copy_at (copy_at
      ((E @ ?eb @ replicate (14 * ?n) 0 @ K) @ replicate 32 0 @ (replicate (32 * ?n) 0
         @ S @ replicate 64 0 @ replicate (64 * ?n) 0 @ T))
       (ee + i * 32) (le_bytes pk)) (ke + i * 64) (le_bytes sig)"
      by (subst copy_at_middle) (use Cons.prems in simp_all)
    also have "\<dots> = copy_at
      ((E @ ?eb @ replicate (14 * ?n) 0 @ K @ le_bytes pk @ replicate (32 * ?n) 0 @ S)
         @ replicate 64 0 @ (replicate (64 * ?n) 0 @ T)) (ke + i * 64) (le_bytes sig)"
      by (subst copy_at_middle) (use Cons.prems in simp_all)
    also have "\<dots> = ?r"
      by (subst copy_at_middle) (use Cons.prems in simp_all)
    finally show ?thesis .
  qed
  have "write_entries ee ke mo ml i (s # sigs)
      (E @ replicate (14 * length (s # sigs)) 0 @ K @ replicate (32 * length (s # sigs)) 0
         @ S @ replicate (64 * length (s # sigs)) 0 @ T) =
    write_entries ee ke mo ml (Suc i) sigs
     ((E @ ?eb) @ replicate (14 * ?n) 0 @ (K @ le_bytes pk) @ replicate (32 * ?n) 0
         @ (S @ le_bytes sig) @ replicate (64 * ?n) 0 @ T)"
    unfolding s write_entries.simps length_Cons w ..
  also have "\<dots> = (E @ ?eb) @ concat (map (entry_bytes ee ke mo ml) [Suc i..<Suc i + ?n])
       @ (K @ le_bytes pk) @ concat (map (le_bytes \<circ> fst) sigs)
       @ (S @ le_bytes sig) @ concat (map (le_bytes \<circ> snd) sigs) @ T"
    by (rule Cons.IH) (use Cons.prems in simp_all)
  also have "\<dots> = E @ concat (map (entry_bytes ee ke mo ml) [i..<i + length (s # sigs)])
       @ K @ concat (map (le_bytes \<circ> fst) (s # sigs))
       @ S @ concat (map (le_bytes \<circ> snd) (s # sigs)) @ T"
    using upt_conv_Cons [of i "i + length (s # sigs)"] by (simp add: s del: upt_Suc)
  finally show ?case .
qed

lemma build_ed25519_layout:
  "build_ed25519_data sigs message =
    (let n = length sigs; ee = 2 + n * 14; ke = ee + n * 32; mo = ke + n * 64 in
     [word_of_nat n, 0] @ concat (map (entry_bytes ee ke mo (length message)) [0..<n])
       @ concat (map (le_bytes \<circ> fst) sigs) @ concat (map (le_bytes \<circ> snd) sigs) @ message)"
proof -
  let ?n = "length sigs"
  let ?ee = "2 + ?n * 14" let ?ke = "?ee + ?n * 32" let ?mo = "?ke + ?n * 64"
  have z: "replicate (?mo + length message) (0 :: u8) =
     [0, 0] @ replicate (14 * ?n) 0 @ replicate (32 * ?n) 0 @ replicate (64 * ?n) 0
       @ replicate (length message) 0"
    by (simp flip: replicate_add) 
  have h: "copy_at (copy_at (replicate (?mo + length message) 0) 0 [word_of_nat ?n]) 1 [0] =
     [word_of_nat ?n, 0] @ replicate (14 * ?n) 0 @ [] @ replicate (32 * ?n) 0 @ []
       @ replicate (64 * ?n) 0 @ replicate (length message) (0 :: u8)"
    unfolding z by (simp add: copy_at_def)
  define E where "E = concat (map (entry_bytes ?ee ?ke ?mo (length message)) [0..<?n])"
  define K :: bytes where "K = concat (map (le_bytes \<circ> fst) sigs)"
  define S :: bytes where "S = concat (map (le_bytes \<circ> snd) sigs)"
  have len: "length E = ?n * 14" "length K = ?n * 32" "length S = ?n * 64"
    unfolding E_def K_def S_def by (simp_all add: length_concat comp_def sum_list_triv)
  have w: "write_entries ?ee ?ke ?mo (length message) 0 sigs
      ([word_of_nat ?n, 0] @ replicate (14 * ?n) 0 @ [] @ replicate (32 * ?n) 0 @ []
       @ replicate (64 * ?n) 0 @ replicate (length message) 0) =
    [word_of_nat ?n, 0] @ E @ K @ S @ replicate (length message) 0"
    unfolding E_def K_def S_def by (subst write_entries_eq) simp_all
  show ?thesis
    unfolding build_ed25519_data_def Let_def h w E_def [symmetric] K_def [symmetric] S_def [symmetric]
    by (simp add: copy_at_def len)
qed

lemma concat_map_split:
  assumes "i < length xs" "\<And>x. length (f x) = w"
  obtains A B where "concat (map f xs) = A @ f (xs ! i) @ B" "length A = i * w"
proof
  show "concat (map f xs) =
     concat (map f (take i xs)) @ f (xs ! i) @ concat (map f (drop (Suc i) xs))"
    using arg_cong [OF id_take_nth_drop [OF assms(1)], of "\<lambda>ys. concat (map f ys)"] by simp
  show "length (concat (map f (take i xs))) = i * w"
    using assms by (simp add: length_concat comp_def sum_list_triv)
qed

lemma u16_at_append: "length pre = off \<Longrightarrow> u16_at (pre @ le_bytes w @ suf) off = Ok w"
  by (simp add: u16_at_def slice_get_def from_le_le_bytes)

lemma u16_at_seven:
  assumes "data = pre @ (le_bytes a @ le_bytes b @ le_bytes c @ le_bytes d @ le_bytes e
     @ le_bytes f @ le_bytes g) @ suf" and "length pre = off"
  shows "u16_at data off = Ok a" "u16_at data (off + 2) = Ok b" "u16_at data (off + 4) = Ok c"
    "u16_at data (off + 6) = Ok d" "u16_at data (off + 8) = Ok e" "u16_at data (off + 10) = Ok f"
    "u16_at data (off + 12) = Ok g"
  using assms u16_at_append [of pre off a]
    u16_at_append [of "pre @ le_bytes a" "off + 2" b]
    u16_at_append [of "pre @ le_bytes a @ le_bytes b" "off + 4" c]
    u16_at_append [of "pre @ le_bytes a @ le_bytes b @ le_bytes c" "off + 6" d]
    u16_at_append [of "pre @ le_bytes a @ le_bytes b @ le_bytes c @ le_bytes d" "off + 8" e]
    u16_at_append [of "pre @ le_bytes a @ le_bytes b @ le_bytes c @ le_bytes d @ le_bytes e"
      "off + 10" f]
    u16_at_append [of "pre @ le_bytes a @ le_bytes b @ le_bytes c @ le_bytes d @ le_bytes e
      @ le_bytes f" "off + 12" g]
  by simp_all

lemma unat_u16: "n < 65536 \<Longrightarrow> unat (word_of_nat n :: u16) = n"
  by (simp add: unat_of_nat)

lemma build_ed25519_entry:
  assumes i: "i < length sigs" and fits: "2 + length sigs * 110 + length message < 65536"
  shows "ed25519_entry (build_ed25519_data sigs message) i (fst (sigs ! i)) (snd (sigs ! i)) message"
proof -
  let ?n = "length sigs"
  define ee where "ee = 2 + ?n * 14"
  define ke where "ke = ee + ?n * 32"
  define mo where "mo = ke + ?n * 64"
  define E where "E = concat (map (entry_bytes ee ke mo (length message)) [0..<?n])"
  define K :: bytes where "K = concat (map (le_bytes \<circ> fst) sigs)"
  define S :: bytes where "S = concat (map (le_bytes \<circ> snd) sigs)"
  let ?d = "build_ed25519_data sigs message"
  have d: "?d = [word_of_nat ?n, 0] @ E @ K @ S @ message"
    unfolding build_ed25519_layout Let_def E_def K_def S_def mo_def ke_def ee_def ..
  have len: "length E = ?n * 14" "length K = ?n * 32" "length S = ?n * 64"
    unfolding E_def K_def S_def by (simp_all add: length_concat comp_def sum_list_triv)
  obtain E1 E2 where E: "E = E1 @ entry_bytes ee ke mo (length message) i @ E2" "length E1 = i * 14"
    using concat_map_split [of i "[0..<?n]" "entry_bytes ee ke mo (length message)" 14] i
    unfolding E_def by auto
  obtain K1 K2 where K: "K = K1 @ le_bytes (fst (sigs ! i)) @ K2" "length K1 = i * 32"
    using concat_map_split [of i sigs "le_bytes \<circ> fst :: _ \<Rightarrow> bytes" 32] i unfolding K_def by auto
  obtain S1 S2 where S: "S = S1 @ le_bytes (snd (sigs ! i)) @ S2" "length S1 = i * 64"
    using concat_map_split [of i sigs "le_bytes \<circ> snd :: _ \<Rightarrow> bytes" 64] i unfolding S_def by auto
  have "?d = ([word_of_nat ?n, 0] @ E1) @ entry_bytes ee ke mo (length message) i
      @ (E2 @ K @ S @ message)"
    by (simp add: d E)
  note r = u16_at_seven [OF this [unfolded entry_bytes_def], of "2 + i * 14"]
  have k: "slice_get ?d (ee + i * 32) (ee + i * 32 + 32) = Some (le_bytes (fst (sigs ! i)))"
    using slice_get_append [of "[word_of_nat ?n, 0] @ E @ K1" "ee + i * 32" _
        "le_bytes (fst (sigs ! i))" "K2 @ S @ message"] len
    by (simp add: d K ee_def)
  have s: "slice_get ?d (ke + i * 64) (ke + i * 64 + 64) = Some (le_bytes (snd (sigs ! i)))"
    using slice_get_append [of "[word_of_nat ?n, 0] @ E @ K @ S1" "ke + i * 64" _
        "le_bytes (snd (sigs ! i))" "S2 @ message"] len
    by (simp add: d S ke_def ee_def)
  have m: "slice_get ?d mo (mo + length message) = Some message"
    using slice_get_append [of "[word_of_nat ?n, 0] @ E @ K @ S" mo _ message "[]"] len
    by (simp add: d mo_def ke_def ee_def)
  have "ee + i * 32 < 65536" "ke + i * 64 < 65536" "mo < 65536" "length message < 65536"
    using i fits unfolding mo_def ke_def ee_def by simp_all
  note u = this [THEN unat_u16]
  show ?thesis
    unfolding ed25519_entry_def using r k s m u E(2) by (simp add: SELF_REFERENCE_def)
qed

lemma federation_proof_build:
  assumes "sigs \<noteq> []" "length sigs < 256" "2 + length sigs * 110 + length message < 65536"
  shows "federation_proof (build_ed25519_data sigs message) message vs ks \<longleftrightarrow>
     ks = map fst sigs \<and> distinct ks \<and> set ks \<subseteq> set vs"
proof -
  let ?d = "build_ed25519_data sigs message"
  have h: "2 \<le> length ?d" "unat (?d ! 0) = length sigs" "?d ! 1 = 0"
    using assms(2) by (simp_all add: build_ed25519_layout Let_def unat_of_nat)
  note e = build_ed25519_entry [of _ sigs message, OF _ assms(3)]
  show ?thesis
  proof
    assume p: "federation_proof ?d message vs ks"
    then have len: "length ks = length sigs" using h by (simp add: federation_proof_def)
    have "ks = map fst sigs"
    proof (rule nth_equalityI)
      fix i assume "i < length ks"
      with p len show "ks ! i = map fst sigs ! i"
        using e [of i] ed25519_entry_unique by (fastforce simp: federation_proof_def)
    qed (simp add: len)
    with p show "ks = map fst sigs \<and> distinct ks \<and> set ks \<subseteq> set vs"
      by (simp add: federation_proof_def)
  next
    assume k: "ks = map fst sigs \<and> distinct ks \<and> set ks \<subseteq> set vs"
    have "\<exists>sig. ed25519_entry ?d i (ks ! i) sig message" if "i < length ks" for i
      using e [of i] that k by auto
    then show "federation_proof ?d message vs ks"
      using h k assms(1) unfolding federation_proof_def by fastforce
  qed
qed

lemma build_then_verify:
  assumes "sigs \<noteq> []" "length sigs < 256" "2 + length sigs * 110 + length message < 65536"
    and "length vs \<le> MAX_VALIDATORS"
  shows "count_unique_validator_signers (build_ed25519_data sigs message) message vs = Ok m \<longleftrightarrow>
    m = length sigs \<and> distinct (map fst sigs) \<and> fst ` set sigs \<subseteq> set vs"
  using count_unique_validator_signers_Ok [OF assms(4)] federation_proof_build [OF assms(1-3)]
  by auto

text \<open>
  A proof built by the relayer from distinct current validators' signatures is accepted by
  the on-chain parser, which counts exactly those signers; a proof built from anything else
  (a repeated signer, a key outside the set) is refused.
\<close>

theorem built_proof_accepted:
  assumes "sigs \<noteq> []" "length sigs < 256" "2 + length sigs * 110 + length message < 65536"
    and "length vs \<le> MAX_VALIDATORS"
  shows "count_unique_validator_signers (snd (build_ed25519_instruction ed sigs message)) message vs
       = Ok m \<longleftrightarrow> m = length sigs \<and> distinct (map fst sigs) \<and> fst ` set sigs \<subseteq> set vs"
  unfolding build_ed25519_instruction_def snd_conv by (rule build_then_verify [OF assms])

theorem built_proof_accepted_witness:
  "count_unique_validator_signers
     (snd (build_ed25519_instruction 9 [(1, 11), (3, 13)] [0xAB, 0xCD])) [0xAB, 0xCD] [1, 2, 3]
       = Ok 2"
  by (rule built_proof_accepted [THEN iffD2]) (simp_all add: MAX_VALIDATORS_def)

lemma precheck_count:
  "count_unique_threshold_signers sigs vs th = Ok n \<longleftrightarrow>
     n = card (fst ` set sigs \<inter> set vs) \<and> unat th \<le> n"
proof -
  have "length (remdups (filter (\<lambda>pk. pk \<in> set vs) (map fst sigs))) = card (fst ` set sigs \<inter> set vs)"
    unfolding length_remdups_card_conv by (rule arg_cong [of _ _ card]) auto
  then show ?thesis
    by (auto simp: count_unique_threshold_signers_def Let_def)
qed

text \<open>
  The client-side precheck agrees with the chain on every set of signatures the relayer
  may hold from distinct current validators: it passes with count \<open>n\<close> exactly when the on-chain
  parser counts \<open>n\<close> signers in the built proof and \<open>n\<close> reaches the threshold.
\<close>

theorem precheck_agrees_with_chain:
  assumes "sigs \<noteq> []" "length sigs < 256" "2 + length sigs * 110 + length message < 65536"
    and "length vs \<le> MAX_VALIDATORS" and "distinct (map fst sigs)" "fst ` set sigs \<subseteq> set vs"
  shows "count_unique_threshold_signers sigs vs th = Ok n \<longleftrightarrow>
     count_unique_validator_signers (snd (build_ed25519_instruction ed sigs message)) message vs
       = Ok n \<and> unat th \<le> n"
proof -
  have "card (fst ` set sigs \<inter> set vs) = length sigs"
    using assms(5,6) by (metis Int_absorb2 distinct_card length_map set_map)
  then show ?thesis
    unfolding precheck_count build_ed25519_instruction_def snd_conv
    using build_then_verify [OF assms(1-4)] assms(5,6) by auto
qed

theorem precheck_agrees_with_chain_witness:
  "count_unique_threshold_signers [(1, 11), (3, 13)] [1, 2, 3] 2 = Ok 2 \<longleftrightarrow>
     count_unique_validator_signers
       (snd (build_ed25519_instruction 9 [(1, 11), (3, 13)] [0xAB])) [0xAB] [1, 2, 3] = Ok 2
       \<and> unat (2 :: u8) \<le> 2"
  by (rule precheck_agrees_with_chain) (simp_all add: MAX_VALIDATORS_def)

text \<open>
  The precheck does not imply acceptance.  It ignores the signature of a key outside the
  current validator set, the builder still includes it, and the on-chain parser then refuses the
  whole proof, even when the validators' signatures alone reach the threshold.
\<close>

theorem precheck_passes_chain_refuses:
  assumes "count_unique_threshold_signers sigs vs th = Ok n"
    and "(pk, sig) \<in> set sigs" "pk \<notin> set vs" and "length sigs < 256"
      "2 + length sigs * 110 + length message < 65536" and "length vs \<le> MAX_VALIDATORS"
  shows "\<exists>e. count_unique_validator_signers
      (snd (build_ed25519_instruction ed sigs message)) message vs = Err e"
proof -
  have "sigs \<noteq> []" using assms(2) by auto
  from build_then_verify [OF this assms(4,5,6)]
  have "count_unique_validator_signers (build_ed25519_data sigs message) message vs \<noteq> Ok m" for m
    using image_eqI [of pk fst "(pk, sig)", OF _ assms(2)] assms(3) by auto
  then show ?thesis
    unfolding build_ed25519_instruction_def snd_conv by (metis result.exhaust)
qed

theorem precheck_passes_chain_refuses_witness:
  "count_unique_threshold_signers [(1, 11), (3, 13), (7, 17)] [1, 2, 3] 2 = Ok 2 \<and>
   (\<exists>e. count_unique_validator_signers
      (snd (build_ed25519_instruction 9 [(1, 11), (3, 13), (7, 17)] [0xAB])) [0xAB] [1, 2, 3]
      = Err e)"
  using precheck_passes_chain_refuses [of "[(1, 11), (3, 13), (7, 17)]" "[1, 2, 3]" 2 2 7 17 "[0xAB]" 9]
  by (simp add: count_unique_threshold_signers_def MAX_VALIDATORS_def)

end
