(* ===== verification/Program.thy ===== *)
theory Program
  imports Aggregate
begin

text \<open>
  The program's state and environment, and its initialization and admin instructions
  (\<^verbatim>\<open>lib.rs\<close>, \<^verbatim>\<open>instructions/initialize.rs\<close>, \<^verbatim>\<open>instructions/admin.rs\<close>,
  \<^verbatim>\<open>instructions/create_mint.rs\<close>).

  A \<open>chain\<close> holds the program-derived accounts by the seeds they are derived from (an absent
  entry is an account that does not exist), the accounts of all other programs as an abstract
  \<open>world\<close>, and the events emitted so far.  Everything that is not code of this program is a
  field of \<open>external\<close>: the SHA-256 function, program ids and address derivation of the runtime,
  the SPL token program and the Metaplex metadata program.  Each handler takes the transaction's
  context (signer, clock, the instruction placed directly before this one) and returns the new
  chain or the error that aborts the transaction.

  The account validation that Anchor generates from the \<open>Accounts\<close> structs runs in its
  order: accounts are deserialized, then \<open>init\<close> accounts are created, then the constraints are
  checked in declaration order, and only then does the handler run.
\<close>

text \<open>\<open>declare_id!("77oYT33t13HnZ6PNxKdbHDABb1uR2zzJMW9u7cJuwkRq")\<close>, base58-decoded.\<close>

definition PROGRAM_ID :: pubkey where
  "PROGRAM_ID = 0xbc9780ea4bb1b371d2801ed267681a3370285f9a9acf7e2d4b73b1e45b3be45a"

record 'w external =
  ex_hash :: "bytes \<Rightarrow> bytes32"
  ex_ed25519_program :: pubkey
  ex_find_program_address :: "bytes list \<Rightarrow> pubkey \<Rightarrow> pubkey \<times> u8"
  ex_programdata_address :: "pubkey option"
  ex_programdata :: "'w \<Rightarrow> pubkey \<Rightarrow> pubkey option option"
  ex_mint_supply :: "'w \<Rightarrow> pubkey \<Rightarrow> u64 option"
  ex_has_ata :: "'w \<Rightarrow> pubkey \<Rightarrow> pubkey \<Rightarrow> bool"
  ex_create_mint :: "'w \<Rightarrow> pubkey \<Rightarrow> u8 \<Rightarrow> pubkey \<Rightarrow> 'w option"
  ex_mint_to_checked :: "'w \<Rightarrow> pubkey \<Rightarrow> pubkey \<Rightarrow> pubkey \<Rightarrow> u64 \<Rightarrow> u8 \<Rightarrow> 'w option"
  ex_burn_checked :: "'w \<Rightarrow> pubkey \<Rightarrow> pubkey \<Rightarrow> u64 \<Rightarrow> u8 \<Rightarrow> 'w option"
  ex_account :: "'w \<Rightarrow> pubkey \<Rightarrow> pubkey \<times> bytes"
  ex_metadata_cpi :: "'w \<Rightarrow> pubkey list \<Rightarrow> bytes \<Rightarrow> 'w option"

text \<open>The address and canonical bump of one of the program's own derived accounts.\<close>

definition pda_address :: "'w external \<Rightarrow> pda \<Rightarrow> pubkey" where
  "pda_address ex p = fst (ex_find_program_address ex (pda_seeds p) PROGRAM_ID)"

definition pda_bump :: "'w external \<Rightarrow> pda \<Rightarrow> u8" where
  "pda_bump ex p = snd (ex_find_program_address ex (pda_seeds p) PROGRAM_ID)"

record 'w chain =
  ch_config :: "bridge_config option"
  ch_vset :: "validator_set option"
  ch_pending :: "pending_governance_action option"
  ch_claims :: "bytes32 \<times> u32 \<Rightarrow> deposit_claim option"
  ch_withdrawals :: "u64 \<Rightarrow> withdrawal_request option"
  ch_world :: 'w
  ch_log :: "event list"

record tx =
  tx_signer :: pubkey
  tx_slot :: u64
  tx_time :: i64
  tx_prev :: "(pubkey \<times> bytes) option"

type_synonym 'w outcome = "('w chain, program_error) result"

text \<open>A program account that must exist (\<open>Account<'info, T>\<close>).\<close>

abbreviation account :: "'a option \<Rightarrow> ('a, program_error) result" where
  "account \<equiv> ok_or AccountNotInitialized"

abbreviation "require c e r \<equiv> (if c then r else Err (Bridge e))"

abbreviation emit :: "event \<Rightarrow> 'w chain \<Rightarrow> 'w chain" where
  "emit e s \<equiv> s\<lparr>ch_log := ch_log s @ [e]\<rparr>"

section \<open>initialize.rs\<close>

definition initialize ::
  "'w external \<Rightarrow> tx \<Rightarrow> pubkey \<Rightarrow> pubkey list \<Rightarrow> u8 \<Rightarrow> u64 \<Rightarrow> u64 \<Rightarrow> i64 \<Rightarrow> u64
     \<Rightarrow> 'w chain \<Rightarrow> 'w outcome" where
  "initialize ex t program_data validators threshold min_deposit min_withdrawal
      governance_timelock_seconds max_wrapped_supply s =
    and_then (account (ex_programdata ex (ch_world s) program_data)) (\<lambda>upgrade_authority_address.
    if ch_config s \<noteq> None then Err AccountInUse
    else if ch_vset s \<noteq> None then Err AccountInUse
    else require (ex_programdata_address ex = Some program_data) UnauthorizedInitializer (
    require (upgrade_authority_address = Some (tx_signer t)) UnauthorizedInitializer (
    and_then (map_err Bridge (validate_validator_set validators threshold)) (\<lambda>_.
    require (0 < sint governance_timelock_seconds) ZeroGovernanceTimelock (
    require (0 < max_wrapped_supply) ZeroWrappedSupplyCap (
    let config =
          \<lparr>cfg_protocol_version = PROTOCOL_VERSION, cfg_admin = tx_signer t,
           cfg_pending_admin = None, cfg_paused = False, cfg_withdrawal_count = 0,
           cfg_min_deposit = min_deposit, cfg_min_withdrawal = min_withdrawal,
           cfg_bump = pda_bump ex BridgeConfigPda, cfg_wrapped_mint = default_pubkey,
           cfg_mint_authority_bump = 0,
           cfg_governance_timelock_seconds = governance_timelock_seconds,
           cfg_max_wrapped_supply = max_wrapped_supply, cfg_reserved = replicate 15 0\<rparr>;
        set' =
          \<lparr>vs_epoch = 0, vs_threshold = threshold, vs_bump = pda_bump ex ValidatorSetPda,
           vs_validators = validators, vs_reserved = replicate 32 0\<rparr>
    in Ok (emit (BridgeInitialized (tx_signer t) PROTOCOL_VERSION threshold
                   (word_of_nat (length validators)))
             (s\<lparr>ch_config := Some config, ch_vset := Some set'\<rparr>))))))))"

section \<open>admin.rs\<close>

text \<open>The \<open>AdminConfig\<close> context: the config account, with its admin as the signer.\<close>

definition admin_config :: "tx \<Rightarrow> 'w chain \<Rightarrow> (bridge_config, program_error) result" where
  "admin_config t s =
     and_then (account (ch_config s)) (\<lambda>config.
     require (cfg_admin config = tx_signer t) UnauthorizedAdmin (Ok config))"

definition set_paused :: "tx \<Rightarrow> bool \<Rightarrow> 'w chain \<Rightarrow> 'w outcome" where
  "set_paused t paused s =
     and_then (admin_config t s) (\<lambda>config.
     require (cfg_paused config \<noteq> paused) PauseStateUnchanged (
     Ok (emit (PauseStateChanged paused)
           (s\<lparr>ch_config := Some (config\<lparr>cfg_paused := paused\<rparr>)\<rparr>))))"

definition lower_wrapped_supply_cap :: "tx \<Rightarrow> u64 \<Rightarrow> 'w chain \<Rightarrow> 'w outcome" where
  "lower_wrapped_supply_cap t new_max s =
     and_then (admin_config t s) (\<lambda>config.
     let previous = cfg_max_wrapped_supply config in
     require (new_max \<noteq> previous) WrappedSupplyCapUnchanged (
     require (new_max < previous) WrappedSupplyCapNotLowered (
     require (0 < new_max) ZeroWrappedSupplyCap (
     Ok (emit (WrappedSupplyCapChanged previous new_max False)
           (s\<lparr>ch_config := Some (config\<lparr>cfg_max_wrapped_supply := new_max\<rparr>)\<rparr>))))))"

definition transfer_admin :: "tx \<Rightarrow> pubkey \<Rightarrow> 'w chain \<Rightarrow> 'w outcome" where
  "transfer_admin t new_admin s =
     and_then (admin_config t s) (\<lambda>config.
     require (new_admin \<noteq> cfg_admin config) AdminUnchanged (
     Ok (emit (AdminTransferInitiated (cfg_admin config) new_admin)
           (s\<lparr>ch_config := Some (config\<lparr>cfg_pending_admin := Some new_admin\<rparr>)\<rparr>))))"

definition accept_admin :: "tx \<Rightarrow> 'w chain \<Rightarrow> 'w outcome" where
  "accept_admin t s =
     and_then (account (ch_config s)) (\<lambda>config.
     and_then (ok_or (Bridge NoPendingAdmin) (cfg_pending_admin config)) (\<lambda>pending.
     require (pending = tx_signer t) PendingAdminMismatch (
     let previous_admin = cfg_admin config;
         config = config\<lparr>cfg_admin := pending, cfg_pending_admin := None\<rparr>
     in Ok (emit (AdminTransferred previous_admin (cfg_admin config))
              (s\<lparr>ch_config := Some config\<rparr>)))))"

section \<open>create_mint.rs\<close>

text \<open>
  \<open>init\<close> on the mint runs before the constraints of \<open>bridge_config\<close>; it fails when an account
  already exists at that address.
\<close>

definition create_wrapped_mint :: "'w external \<Rightarrow> tx \<Rightarrow> pubkey \<Rightarrow> 'w chain \<Rightarrow> 'w outcome" where
  "create_wrapped_mint ex t wrapped_mint s =
     and_then (account (ch_config s)) (\<lambda>config.
     and_then (ok_or AccountInUse
       (ex_create_mint ex (ch_world s) wrapped_mint WRAPPED_GLC_DECIMALS
          (pda_address ex MintAuthorityPda))) (\<lambda>w.
     require (cfg_admin config = tx_signer t) UnauthorizedAdmin (
     require (cfg_wrapped_mint config = default_pubkey) MintAlreadyConfigured (
     let config = config\<lparr>cfg_wrapped_mint := wrapped_mint,
                         cfg_mint_authority_bump := pda_bump ex MintAuthorityPda\<rparr>
     in Ok (emit (WrappedMintCreated (cfg_wrapped_mint config) (pda_address ex MintAuthorityPda)
                    WRAPPED_GLC_DECIMALS)
              (s\<lparr>ch_config := Some config, ch_world := w\<rparr>))))))"

section \<open>What a successful instruction did\<close>

text \<open>
  One lemma per handler: success as a conjunction of the guards that passed and the new chain.
  The invariant and authorization proofs use these and never the handlers' bodies.
\<close>

named_theorems handler_Ok

lemma admin_config_Ok [simp]:
  "admin_config t s = Ok c \<longleftrightarrow> ch_config s = Some c \<and> cfg_admin c = tx_signer t"
  by (auto simp: admin_config_def split: if_splits)

lemma initialize_Ok [handler_Ok]:
  "initialize ex t pd vs th md mw lock cap s = Ok s' \<longleftrightarrow>
     ex_programdata ex (ch_world s) pd = Some (Some (tx_signer t)) \<and>
     ex_programdata_address ex = Some pd \<and> ch_config s = None \<and> ch_vset s = None \<and>
     valid_federation vs th \<and> 0 < sint lock \<and> 0 < cap \<and>
     s' = emit (BridgeInitialized (tx_signer t) PROTOCOL_VERSION th (word_of_nat (length vs)))
       (s\<lparr>ch_config := Some
            \<lparr>cfg_protocol_version = PROTOCOL_VERSION, cfg_admin = tx_signer t,
             cfg_pending_admin = None, cfg_paused = False, cfg_withdrawal_count = 0,
             cfg_min_deposit = md, cfg_min_withdrawal = mw, cfg_bump = pda_bump ex BridgeConfigPda,
             cfg_wrapped_mint = default_pubkey, cfg_mint_authority_bump = 0,
             cfg_governance_timelock_seconds = lock, cfg_max_wrapped_supply = cap,
             cfg_reserved = replicate 15 0\<rparr>,
          ch_vset := Some
            \<lparr>vs_epoch = 0, vs_threshold = th, vs_bump = pda_bump ex ValidatorSetPda,
             vs_validators = vs, vs_reserved = replicate 32 0\<rparr>\<rparr>)"
  by (auto simp: initialize_def Let_def validate_validator_set_Ok split: if_splits)

lemma set_paused_Ok [handler_Ok]:
  "set_paused t p s = Ok s' \<longleftrightarrow>
     (\<exists>c. ch_config s = Some c \<and> cfg_admin c = tx_signer t \<and> cfg_paused c \<noteq> p \<and>
        s' = emit (PauseStateChanged p) (s\<lparr>ch_config := Some (c\<lparr>cfg_paused := p\<rparr>)\<rparr>))"
  by (auto simp: set_paused_def split: if_splits)

lemma lower_wrapped_supply_cap_Ok [handler_Ok]:
  "lower_wrapped_supply_cap t m s = Ok s' \<longleftrightarrow>
     (\<exists>c. ch_config s = Some c \<and> cfg_admin c = tx_signer t \<and> 0 < m \<and>
        m < cfg_max_wrapped_supply c \<and>
        s' = emit (WrappedSupplyCapChanged (cfg_max_wrapped_supply c) m False)
               (s\<lparr>ch_config := Some (c\<lparr>cfg_max_wrapped_supply := m\<rparr>)\<rparr>))"
  by (auto simp: lower_wrapped_supply_cap_def Let_def split: if_splits)

lemma transfer_admin_Ok [handler_Ok]:
  "transfer_admin t a s = Ok s' \<longleftrightarrow>
     (\<exists>c. ch_config s = Some c \<and> cfg_admin c = tx_signer t \<and> a \<noteq> cfg_admin c \<and>
        s' = emit (AdminTransferInitiated (cfg_admin c) a)
               (s\<lparr>ch_config := Some (c\<lparr>cfg_pending_admin := Some a\<rparr>)\<rparr>))"
  by (auto simp: transfer_admin_def split: if_splits)

lemma accept_admin_Ok [handler_Ok]:
  "accept_admin t s = Ok s' \<longleftrightarrow>
     (\<exists>c. ch_config s = Some c \<and> cfg_pending_admin c = Some (tx_signer t) \<and>
        s' = emit (AdminTransferred (cfg_admin c) (tx_signer t))
               (s\<lparr>ch_config := Some (c\<lparr>cfg_admin := tx_signer t, cfg_pending_admin := None\<rparr>)\<rparr>))"
  by (auto simp: accept_admin_def Let_def split: if_splits)

lemma create_wrapped_mint_Ok [handler_Ok]:
  "create_wrapped_mint ex t m s = Ok s' \<longleftrightarrow>
     (\<exists>c w. ch_config s = Some c \<and> cfg_admin c = tx_signer t \<and>
        cfg_wrapped_mint c = default_pubkey \<and>
        ex_create_mint ex (ch_world s) m WRAPPED_GLC_DECIMALS (pda_address ex MintAuthorityPda)
          = Some w \<and>
        s' = emit (WrappedMintCreated m (pda_address ex MintAuthorityPda) WRAPPED_GLC_DECIMALS)
               (s\<lparr>ch_config := Some (c\<lparr>cfg_wrapped_mint := m,
                     cfg_mint_authority_bump := pda_bump ex MintAuthorityPda\<rparr>), ch_world := w\<rparr>))"
  by (auto simp: create_wrapped_mint_def Let_def split: if_splits)

section \<open>Federation approval\<close>

text \<open>
  The condition every federation-gated instruction checks: the instruction directly before is
  the ed25519 precompile's, and the parser counts at least \<open>threshold\<close> signers of the message.
\<close>

definition federation_approved :: "'w external \<Rightarrow> tx \<Rightarrow> validator_set \<Rightarrow> bytes \<Rightarrow> bool" where
  "federation_approved ex t v msg \<longleftrightarrow>
     (\<exists>data n. tx_prev t = Some (ex_ed25519_program ex, data) \<and>
        count_unique_validator_signers data msg (vs_validators v) = Ok n \<and>
        unat (vs_threshold v) \<le> n)"

text \<open>
  What the runtime guarantees about an ed25519-precompile instruction of a transaction that
  executes: every entry it lists has been verified.
\<close>

definition precompile_verified ::
  "(pubkey \<Rightarrow> signature \<Rightarrow> bytes \<Rightarrow> bool) \<Rightarrow> 'w external \<Rightarrow> tx \<Rightarrow> bool" where
  "precompile_verified verify ex t \<longleftrightarrow>
     (\<forall>data. tx_prev t = Some (ex_ed25519_program ex, data) \<longrightarrow>
        (\<forall>i pk sig msg. i < unat (data ! 0) \<longrightarrow> ed25519_entry data i pk sig msg \<longrightarrow>
           verify pk sig msg))"

text \<open>A quorum: at least \<open>threshold\<close> distinct validators, each with a valid signature.\<close>

definition quorum_signed ::
  "(pubkey \<Rightarrow> signature \<Rightarrow> bytes \<Rightarrow> bool) \<Rightarrow> validator_set \<Rightarrow> bytes \<Rightarrow> bool" where
  "quorum_signed verify v msg \<longleftrightarrow>
     (\<exists>ks. distinct ks \<and> set ks \<subseteq> set (vs_validators v) \<and> unat (vs_threshold v) \<le> length ks \<and>
        (\<forall>k \<in> set ks. \<exists>sig. verify k sig msg))"

lemma federation_approved_quorum:
  assumes "federation_approved ex t v msg" "precompile_verified verify ex t"
    and "length (vs_validators v) \<le> MAX_VALIDATORS"
  shows "quorum_signed verify v msg"
proof -
  from assms(1) obtain data n where d: "tx_prev t = Some (ex_ed25519_program ex, data)"
    and c: "count_unique_validator_signers data msg (vs_validators v) = Ok n"
    and n: "unat (vs_threshold v) \<le> n"
    unfolding federation_approved_def by blast
  from c obtain ks where p: "federation_proof data msg (vs_validators v) ks" and k: "n = length ks"
    unfolding count_unique_validator_signers_Ok [OF assms(3)] by blast
  have "\<exists>sig. verify pk sig msg" if "pk \<in> set ks" for pk
  proof -
    from that obtain i where i: "i < length ks" "pk = ks ! i" by (metis in_set_conv_nth)
    with p obtain sig where "ed25519_entry data i pk sig msg" "i < unat (data ! 0)"
      unfolding federation_proof_def by auto
    with assms(2) d show ?thesis unfolding precompile_verified_def by blast
  qed
  with p k n show ?thesis
    unfolding quorum_signed_def federation_proof_def by blast
qed

text \<open>
  The interface of a federation-gated operation: whenever it succeeds, the proof covers the
  operation's message for the current configuration and validator set.  Every such operation
  then carries a quorum of valid signatures.
\<close>

locale federation_gated =
  fixes ex :: "'w external"
    and op :: "tx \<Rightarrow> 'w chain \<Rightarrow> 'w outcome"
    and msg :: "bridge_config \<Rightarrow> validator_set \<Rightarrow> 'w chain \<Rightarrow> bytes"
  assumes gate: "op t s = Ok s' \<Longrightarrow>
    \<exists>c v. ch_config s = Some c \<and> ch_vset s = Some v \<and> federation_approved ex t v (msg c v s)"
begin

lemma signed_by_quorum:
  assumes "op t s = Ok s'" "precompile_verified verify ex t"
    and "\<And>v. ch_vset s = Some v \<Longrightarrow> length (vs_validators v) \<le> MAX_VALIDATORS"
  shows "\<exists>c v. ch_config s = Some c \<and> ch_vset s = Some v \<and> quorum_signed verify v (msg c v s)"
  using gate [OF assms(1)] federation_approved_quorum [OF _ assms(2)] assms(3) by blast

lemma refused_without_proof:
  assumes "tx_prev t = None \<or> (\<exists>p d. tx_prev t = Some (p, d) \<and> p \<noteq> ex_ed25519_program ex)"
  shows "\<exists>e. op t s = Err e"
  using assms gate [of t s] by (cases "op t s") (auto simp: federation_approved_def)

end

end
