(* ===== verification/Minting.thy ===== *)
theory Minting
  imports Program
begin

text \<open>
  The deposit-claim mint path (\<^verbatim>\<open>instructions/mint_wrapped.rs\<close>): the account checks, the
  guards in source order, the federation proof over the canonical claim message, the call into
  the token program and the claim account whose existence is the replay guard.
\<close>

definition mint_wrapped ::
  "'w external \<Rightarrow> tx \<Rightarrow> pubkey \<Rightarrow> pubkey \<Rightarrow> bytes32 \<Rightarrow> u32 \<Rightarrow> u64 \<Rightarrow> u64
     \<Rightarrow> 'w chain \<Rightarrow> 'w outcome" where
  "mint_wrapped ex t wrapped_mint recipient txid vout amount epoch s =
     and_then (account (ch_config s)) (\<lambda>config.
     and_then (account (ch_vset s)) (\<lambda>validator_set.
     and_then (account (ex_mint_supply ex (ch_world s) wrapped_mint)) (\<lambda>supply.
     if ch_claims s (txid, vout) \<noteq> None then Err AccountInUse
     else require (cfg_wrapped_mint config \<noteq> default_pubkey) MintNotConfigured (
     require (wrapped_mint = cfg_wrapped_mint config) WrongWrappedMint (
     if \<not> ex_has_ata ex (ch_world s) wrapped_mint recipient then Err ConstraintAddress
     else
     require (\<not> cfg_paused config) BridgePaused (
     require (epoch = vs_epoch validator_set) StaleValidatorEpoch (
     require (amount > 0) ZeroDepositAmount (
     require (amount \<ge> cfg_min_deposit config) BelowMinimumDeposit (
     and_then (ok_or (Bridge ArithmeticOverflow) (checked_add supply amount)) (\<lambda>projected_supply.
     require (projected_supply \<le> cfg_max_wrapped_supply config) WrappedSupplyCapExceeded (
     and_then (ok_or (Bridge MissingSignatureVerification) (tx_prev t)) (\<lambda>verification_ix.
     require (fst verification_ix = ex_ed25519_program ex) MissingSignatureVerification (
     let expected_message =
           deposit_claim_message (cfg_protocol_version config) PROGRAM_ID (vs_epoch validator_set)
             txid vout amount recipient (cfg_wrapped_mint config) in
     and_then (map_err Bridge
       (count_unique_validator_signers (snd verification_ix) expected_message
          (vs_validators validator_set))) (\<lambda>signer_count.
     require (signer_count \<ge> unat (vs_threshold validator_set)) InsufficientSignatures (
     and_then (ok_or TokenProgramError
       (ex_mint_to_checked ex (ch_world s) wrapped_mint recipient (pda_address ex MintAuthorityPda)
          amount WRAPPED_GLC_DECIMALS)) (\<lambda>w.
     let claim =
           \<lparr>dc_txid = txid, dc_vout = vout, dc_amount = amount, dc_recipient = recipient,
            dc_epoch = vs_epoch validator_set,
            dc_protocol_version = cfg_protocol_version config, dc_slot_created = tx_slot t,
            dc_bump = pda_bump ex (DepositClaimPda txid vout), dc_reserved = replicate 16 0\<rparr>
     in Ok (emit (DepositClaimMinted txid vout (dc_recipient claim) amount (dc_epoch claim))
              (s\<lparr>ch_claims := (ch_claims s)((txid, vout) \<mapsto> claim), ch_world := w\<rparr>))))))))))))))))))"

lemma mint_wrapped_Ok [handler_Ok]:
  "mint_wrapped ex t m r txid vout a e s = Ok s' \<longleftrightarrow>
     (\<exists>c v supply w. ch_config s = Some c \<and> ch_vset s = Some v \<and>
        ex_mint_supply ex (ch_world s) m = Some supply \<and> ch_claims s (txid, vout) = None \<and>
        cfg_wrapped_mint c \<noteq> default_pubkey \<and> m = cfg_wrapped_mint c \<and>
        ex_has_ata ex (ch_world s) m r \<and> \<not> cfg_paused c \<and> e = vs_epoch v \<and> 0 < a \<and>
        cfg_min_deposit c \<le> a \<and> unat supply + unat a < 2 ^ 64 \<and>
        supply + a \<le> cfg_max_wrapped_supply c \<and>
        federation_approved ex t v
          (deposit_claim_message (cfg_protocol_version c) PROGRAM_ID (vs_epoch v) txid vout a r m) \<and>
        ex_mint_to_checked ex (ch_world s) m r (pda_address ex MintAuthorityPda) a
          WRAPPED_GLC_DECIMALS = Some w \<and>
        s' = emit (DepositClaimMinted txid vout r a (vs_epoch v))
          (s\<lparr>ch_claims := (ch_claims s)((txid, vout) \<mapsto>
               \<lparr>dc_txid = txid, dc_vout = vout, dc_amount = a, dc_recipient = r,
                dc_epoch = vs_epoch v, dc_protocol_version = cfg_protocol_version c,
                dc_slot_created = tx_slot t, dc_bump = pda_bump ex (DepositClaimPda txid vout),
                dc_reserved = replicate 16 0\<rparr>), ch_world := w\<rparr>))"
  by (simp add: mint_wrapped_def Let_def checked_add_Some federation_approved_def) fastforce

text \<open>The message a deposit mint must be approved with.\<close>

definition mint_message ::
  "pubkey \<Rightarrow> bytes32 \<Rightarrow> u32 \<Rightarrow> u64 \<Rightarrow> bridge_config \<Rightarrow> validator_set \<Rightarrow> 'w chain \<Rightarrow> bytes" where
  "mint_message r txid vout a c v s =
     deposit_claim_message (cfg_protocol_version c) PROGRAM_ID (vs_epoch v) txid vout a r
       (cfg_wrapped_mint c)"

interpretation mint_gate: federation_gated ex
  "\<lambda>t. mint_wrapped ex t m r txid vout a e" "mint_message r txid vout a"
  for ex m r txid vout a e
  by unfold_locales (auto simp: mint_wrapped_Ok mint_message_def)

end
