(* ===== verification/Withdrawals.thy ===== *)
theory Withdrawals
  imports Program
begin

text \<open>
  The withdrawal path: \<^verbatim>\<open>instructions/burn.rs\<close> burns wrapped tokens and creates the
  persistent withdrawal record under the current counter; \<^verbatim>\<open>instructions/complete_withdrawal.rs\<close>
  records, under a federation proof, the Goldcoin transaction that paid it.
\<close>

section \<open>burn.rs\<close>

definition burn_wrapped ::
  "'w external \<Rightarrow> tx \<Rightarrow> pubkey \<Rightarrow> u64 \<Rightarrow> bytes \<Rightarrow> 'w chain \<Rightarrow> 'w outcome" where
  "burn_wrapped ex t wrapped_mint amount glc_address s =
     and_then (account (ch_config s)) (\<lambda>config.
     and_then (account (ex_mint_supply ex (ch_world s) wrapped_mint)) (\<lambda>_.
     if ch_withdrawals s (cfg_withdrawal_count config) \<noteq> None then Err AccountInUse
     else require (cfg_wrapped_mint config \<noteq> default_pubkey) MintNotConfigured (
     require (wrapped_mint = cfg_wrapped_mint config) WrongWrappedMint (
     if \<not> ex_has_ata ex (ch_world s) wrapped_mint (tx_signer t) then Err ConstraintAddress
     else
     require (\<not> cfg_paused config) BridgePaused (
     require (amount > 0) ZeroWithdrawalAmount (
     require (amount \<ge> cfg_min_withdrawal config) BelowMinimumWithdrawal (
     require (glc_address \<noteq> [] \<and> length glc_address \<le> MAX_GLC_ADDRESS_LEN)
       InvalidGlcAddressLength (
     let index = cfg_withdrawal_count config in
     and_then (ok_or (Bridge ArithmeticOverflow) (checked_add index 1)) (\<lambda>next_count.
     and_then (ok_or TokenProgramError
       (ex_burn_checked ex (ch_world s) wrapped_mint (tx_signer t) amount WRAPPED_GLC_DECIMALS))
     (\<lambda>w.
     let record' =
           \<lparr>wr_index = index, wr_amount = amount, wr_requester = tx_signer t,
            wr_glc_address = copy_at (replicate 64 0) 0 glc_address,
            wr_glc_address_len = word_of_nat (length glc_address), wr_status = Pending,
            wr_requested_at_slot = tx_slot t,
            wr_protocol_version = cfg_protocol_version config,
            wr_bump = pda_bump ex (WithdrawalPda index), wr_reserved = replicate 48 0\<rparr>
     in Ok (emit (WithdrawalRequested index (wr_requester record') amount glc_address)
              (s\<lparr>ch_withdrawals := (ch_withdrawals s)(index \<mapsto> record'), ch_world := w,
                 ch_config := Some (config\<lparr>cfg_withdrawal_count := next_count\<rparr>)\<rparr>))))))))))))"

section \<open>complete_withdrawal.rs\<close>

text \<open>The stored destination, \<open>glc_address[..len]\<close>.\<close>

definition stored_address :: "withdrawal_request \<Rightarrow> bytes" where
  "stored_address w = take (unat (wr_glc_address_len w)) (wr_glc_address w)"

definition complete_withdrawal ::
  "'w external \<Rightarrow> tx \<Rightarrow> u64 \<Rightarrow> bytes32 \<Rightarrow> u64 \<Rightarrow> u64 \<Rightarrow> 'w chain \<Rightarrow> 'w outcome" where
  "complete_withdrawal ex t index payout_txid payout_height epoch s =
     and_then (account (ch_config s)) (\<lambda>config.
     and_then (account (ch_vset s)) (\<lambda>validator_set.
     and_then (account (ch_withdrawals s index)) (\<lambda>withdrawal.
     require (\<not> cfg_paused config) BridgePaused (
     require (epoch = vs_epoch validator_set) StaleValidatorEpoch (
     require (wr_status withdrawal \<noteq> Completed) WithdrawalAlreadyCompleted (
     require (wr_status withdrawal = Pending) WithdrawalNotPending (
     require (payout_record_is_unset withdrawal) PayoutRecordAlreadySet (
     require (payout_txid \<noteq> 0) ZeroPayoutTxid (
     require (payout_height > 0) ZeroPayoutHeight (
     and_then (ok_or (Bridge MissingSignatureVerification) (tx_prev t)) (\<lambda>verification_ix.
     require (fst verification_ix = ex_ed25519_program ex) MissingSignatureVerification (
     let len = unat (wr_glc_address_len withdrawal) in
     require (len \<ge> 1 \<and> len \<le> length (wr_glc_address withdrawal)) InvalidGlcAddressLength (
     let dest_commitment = ex_hash ex (stored_address withdrawal);
         expected_message =
           withdrawal_completion_message (cfg_protocol_version config) PROGRAM_ID
             (vs_epoch validator_set) index payout_txid payout_height (wr_amount withdrawal)
             dest_commitment in
     and_then (map_err Bridge
       (count_unique_validator_signers (snd verification_ix) expected_message
          (vs_validators validator_set))) (\<lambda>signer_count.
     require (signer_count \<ge> unat (vs_threshold validator_set)) InsufficientSignatures (
     let amount = wr_amount withdrawal;
         withdrawal = (set_payout_record withdrawal payout_txid payout_height)
                        \<lparr>wr_status := Completed\<rparr>
     in Ok (emit (WithdrawalCompleted index payout_txid payout_height amount
                    (vs_epoch validator_set))
              (s\<lparr>ch_withdrawals := (ch_withdrawals s)(index \<mapsto> withdrawal)\<rparr>)))))))))))))))))"

section \<open>What a successful instruction did\<close>

lemma burn_wrapped_Ok [handler_Ok]:
  "burn_wrapped ex t m a addr s = Ok s' \<longleftrightarrow>
     (\<exists>c supply w. ch_config s = Some c \<and> ex_mint_supply ex (ch_world s) m = Some supply \<and>
        ch_withdrawals s (cfg_withdrawal_count c) = None \<and>
        cfg_wrapped_mint c \<noteq> default_pubkey \<and> m = cfg_wrapped_mint c \<and>
        ex_has_ata ex (ch_world s) m (tx_signer t) \<and> \<not> cfg_paused c \<and> 0 < a \<and>
        cfg_min_withdrawal c \<le> a \<and> addr \<noteq> [] \<and> length addr \<le> MAX_GLC_ADDRESS_LEN \<and>
        unat (cfg_withdrawal_count c) + 1 < 2 ^ 64 \<and>
        ex_burn_checked ex (ch_world s) m (tx_signer t) a WRAPPED_GLC_DECIMALS = Some w \<and>
        s' = emit (WithdrawalRequested (cfg_withdrawal_count c) (tx_signer t) a addr)
          (s\<lparr>ch_withdrawals := (ch_withdrawals s)(cfg_withdrawal_count c \<mapsto>
               \<lparr>wr_index = cfg_withdrawal_count c, wr_amount = a, wr_requester = tx_signer t,
                wr_glc_address = copy_at (replicate 64 0) 0 addr,
                wr_glc_address_len = word_of_nat (length addr), wr_status = Pending,
                wr_requested_at_slot = tx_slot t, wr_protocol_version = cfg_protocol_version c,
                wr_bump = pda_bump ex (WithdrawalPda (cfg_withdrawal_count c)),
                wr_reserved = replicate 48 0\<rparr>), ch_world := w,
             ch_config := Some (c\<lparr>cfg_withdrawal_count := cfg_withdrawal_count c + 1\<rparr>)\<rparr>))"
  by (simp add: burn_wrapped_def Let_def checked_add_Some) fastforce

text \<open>The message a completion must be approved with; amount and destination are the record's.\<close>

definition completion_message ::
  "'w external \<Rightarrow> u64 \<Rightarrow> bytes32 \<Rightarrow> u64 \<Rightarrow> withdrawal_request \<Rightarrow> bridge_config \<Rightarrow> validator_set
     \<Rightarrow> bytes" where
  "completion_message ex i txid h r c v =
     withdrawal_completion_message (cfg_protocol_version c) PROGRAM_ID (vs_epoch v) i txid h
       (wr_amount r) (ex_hash ex (stored_address r))"

lemma complete_withdrawal_Ok [handler_Ok]:
  "complete_withdrawal ex t i txid h e s = Ok s' \<longleftrightarrow>
     (\<exists>c v r. ch_config s = Some c \<and> ch_vset s = Some v \<and> ch_withdrawals s i = Some r \<and>
        \<not> cfg_paused c \<and> e = vs_epoch v \<and> wr_status r = Pending \<and> payout_record_is_unset r \<and>
        txid \<noteq> 0 \<and> 0 < h \<and> 1 \<le> unat (wr_glc_address_len r) \<and>
        unat (wr_glc_address_len r) \<le> length (wr_glc_address r) \<and>
        federation_approved ex t v (completion_message ex i txid h r c v) \<and>
        s' = emit (WithdrawalCompleted i txid h (wr_amount r) (vs_epoch v))
          (s\<lparr>ch_withdrawals := (ch_withdrawals s)(i \<mapsto>
               set_payout_record r txid h\<lparr>wr_status := Completed\<rparr>)\<rparr>))"
  by (simp add: complete_withdrawal_def Let_def federation_approved_def completion_message_def)
    fastforce

interpretation completion_gate: federation_gated ex
  "\<lambda>t. complete_withdrawal ex t i txid h e"
  "\<lambda>c v s. completion_message ex i txid h (the (ch_withdrawals s i)) c v"
  for ex i txid h e
  by unfold_locales (auto simp: complete_withdrawal_Ok)

end
