(* ===== verification/Governance.thy ===== *)
theory Governance
  imports Program
begin

text \<open>
  Threshold-gated, timelocked governance (\<^verbatim>\<open>instructions/governance.rs\<close>): proposing,
  executing and cancelling a validator-set rotation, and proposing and executing a raise of the
  wrapped-supply cap.  At most one action is pending; \<open>close\<close> removes its account.
\<close>

definition require_federation_approval ::
  "'w external \<Rightarrow> tx \<Rightarrow> validator_set \<Rightarrow> bytes \<Rightarrow> (unit, program_error) result" where
  "require_federation_approval ex t validator_set expected_message =
     and_then (ok_or (Bridge MissingSignatureVerification) (tx_prev t)) (\<lambda>verification_ix.
     require (fst verification_ix = ex_ed25519_program ex) MissingSignatureVerification (
     and_then (map_err Bridge
       (count_unique_validator_signers (snd verification_ix) expected_message
          (vs_validators validator_set))) (\<lambda>signer_count.
     require (signer_count \<ge> unat (vs_threshold validator_set)) InsufficientSignatures (Ok ()))))"

definition propose_validator_rotation ::
  "'w external \<Rightarrow> tx \<Rightarrow> pubkey list \<Rightarrow> u8 \<Rightarrow> 'w chain \<Rightarrow> 'w outcome" where
  "propose_validator_rotation ex t validators threshold s =
     and_then (account (ch_config s)) (\<lambda>config.
     and_then (account (ch_vset s)) (\<lambda>validator_set.
     if ch_pending s \<noteq> None then Err AccountInUse
     else
     and_then (map_err Bridge (validate_validator_set validators threshold)) (\<lambda>_.
     let params_commitment = ex_hash ex (rotation_params threshold validators);
         expected_message =
           governance_message (cfg_protocol_version config) PROGRAM_ID (vs_epoch validator_set)
             ACTION_PROPOSE_ROTATION params_commitment in
     and_then (require_federation_approval ex t validator_set expected_message) (\<lambda>_.
     and_then (ok_or (Bridge ArithmeticOverflow)
       (checked_add_i64 (tx_time t) (cfg_governance_timelock_seconds config))) (\<lambda>eta.
     let pending =
           \<lparr>pga_action = ACTION_PROPOSE_ROTATION,
            pga_proposed_under_epoch = vs_epoch validator_set, pga_eta = eta,
            pga_threshold = threshold, pga_validators = validators,
            pga_bump = pda_bump ex GovernanceActionPda, pga_proposed_max_wrapped_supply = 0,
            pga_reserved = replicate 24 0\<rparr>
     in Ok (emit (GovernanceActionProposed ACTION_PROPOSE_ROTATION
                    (pga_proposed_under_epoch pending) eta threshold
                    (word_of_nat (length validators)))
              (s\<lparr>ch_pending := Some pending\<rparr>)))))))"

definition execute_validator_rotation :: "tx \<Rightarrow> 'w chain \<Rightarrow> 'w outcome" where
  "execute_validator_rotation t s =
     and_then (account (ch_config s)) (\<lambda>_.
     and_then (account (ch_vset s)) (\<lambda>set'.
     and_then (account (ch_pending s)) (\<lambda>pending.
     require (pga_action pending = ACTION_PROPOSE_ROTATION) WrongGovernanceAction (
     require (sint (tx_time t) \<ge> sint (pga_eta pending)) GovernanceTimelockNotElapsed (
     require (vs_epoch set' = pga_proposed_under_epoch pending) StaleGovernanceProposal (
     and_then (map_err Bridge
       (validate_validator_set (pga_validators pending) (pga_threshold pending))) (\<lambda>_.
     and_then (ok_or (Bridge ArithmeticOverflow) (checked_add (vs_epoch set') 1)) (\<lambda>epoch.
     let set' = set'\<lparr>vs_epoch := epoch, vs_threshold := pga_threshold pending,
                     vs_validators := pga_validators pending\<rparr>
     in Ok (emit (GovernanceActionExecuted ACTION_PROPOSE_ROTATION (vs_epoch set'))
              (s\<lparr>ch_vset := Some set', ch_pending := None\<rparr>))))))))))"

definition propose_wrapped_supply_cap_raise ::
  "'w external \<Rightarrow> tx \<Rightarrow> u64 \<Rightarrow> 'w chain \<Rightarrow> 'w outcome" where
  "propose_wrapped_supply_cap_raise ex t new_max s =
     and_then (account (ch_config s)) (\<lambda>config.
     and_then (account (ch_vset s)) (\<lambda>validator_set.
     if ch_pending s \<noteq> None then Err AccountInUse
     else
     require (new_max > cfg_max_wrapped_supply config) WrappedSupplyCapNotRaised (
     let params_commitment = ex_hash ex (tvl_raise_params new_max);
         expected_message =
           governance_message (cfg_protocol_version config) PROGRAM_ID (vs_epoch validator_set)
             ACTION_PROPOSE_TVL_RAISE params_commitment in
     and_then (require_federation_approval ex t validator_set expected_message) (\<lambda>_.
     and_then (ok_or (Bridge ArithmeticOverflow)
       (checked_add_i64 (tx_time t) (cfg_governance_timelock_seconds config))) (\<lambda>eta.
     let pending =
           \<lparr>pga_action = ACTION_PROPOSE_TVL_RAISE,
            pga_proposed_under_epoch = vs_epoch validator_set, pga_eta = eta,
            pga_threshold = 0, pga_validators = [],
            pga_bump = pda_bump ex GovernanceActionPda, pga_proposed_max_wrapped_supply = new_max,
            pga_reserved = replicate 24 0\<rparr>
     in Ok (emit (GovernanceActionProposed ACTION_PROPOSE_TVL_RAISE
                    (pga_proposed_under_epoch pending) eta 0 0)
              (s\<lparr>ch_pending := Some pending\<rparr>)))))))"

definition execute_wrapped_supply_cap_raise :: "tx \<Rightarrow> 'w chain \<Rightarrow> 'w outcome" where
  "execute_wrapped_supply_cap_raise t s =
     and_then (account (ch_config s)) (\<lambda>config.
     and_then (account (ch_vset s)) (\<lambda>validator_set.
     and_then (account (ch_pending s)) (\<lambda>pending.
     require (pga_action pending = ACTION_PROPOSE_TVL_RAISE) WrongGovernanceAction (
     require (sint (tx_time t) \<ge> sint (pga_eta pending)) GovernanceTimelockNotElapsed (
     require (vs_epoch validator_set = pga_proposed_under_epoch pending) StaleGovernanceProposal (
     let new_max = pga_proposed_max_wrapped_supply pending in
     require (new_max > cfg_max_wrapped_supply config) WrappedSupplyCapNotRaised (
     let previous = cfg_max_wrapped_supply config
     in Ok (emit (GovernanceActionExecuted ACTION_PROPOSE_TVL_RAISE (vs_epoch validator_set))
              (emit (WrappedSupplyCapChanged previous new_max True)
                (s\<lparr>ch_config := Some (config\<lparr>cfg_max_wrapped_supply := new_max\<rparr>),
                   ch_pending := None\<rparr>))))))))))"

definition cancel_validator_rotation :: "'w external \<Rightarrow> tx \<Rightarrow> 'w chain \<Rightarrow> 'w outcome" where
  "cancel_validator_rotation ex t s =
     and_then (account (ch_config s)) (\<lambda>config.
     and_then (account (ch_vset s)) (\<lambda>validator_set.
     and_then (account (ch_pending s)) (\<lambda>pending.
     let params_commitment = ex_hash ex (cancel_params (pga_action pending) (pga_eta pending));
         expected_message =
           governance_message (cfg_protocol_version config) PROGRAM_ID (vs_epoch validator_set)
             ACTION_CANCEL_ROTATION params_commitment in
     and_then (require_federation_approval ex t validator_set expected_message) (\<lambda>_.
     Ok (emit (GovernanceActionCancelled (pga_action pending) (pga_eta pending))
           (s\<lparr>ch_pending := None\<rparr>))))))"

section \<open>What a successful instruction did\<close>

lemma require_federation_approval_Ok:
  "require_federation_approval ex t v msg = Ok u \<longleftrightarrow> federation_approved ex t v msg"
  by (auto simp: require_federation_approval_def federation_approved_def)

definition rotation_message ::
  "'w external \<Rightarrow> pubkey list \<Rightarrow> u8 \<Rightarrow> bridge_config \<Rightarrow> validator_set \<Rightarrow> bytes" where
  "rotation_message ex vs th c v =
     governance_message (cfg_protocol_version c) PROGRAM_ID (vs_epoch v) ACTION_PROPOSE_ROTATION
       (ex_hash ex (rotation_params th vs))"

definition raise_message ::
  "'w external \<Rightarrow> u64 \<Rightarrow> bridge_config \<Rightarrow> validator_set \<Rightarrow> bytes" where
  "raise_message ex m c v =
     governance_message (cfg_protocol_version c) PROGRAM_ID (vs_epoch v) ACTION_PROPOSE_TVL_RAISE
       (ex_hash ex (tvl_raise_params m))"

definition cancel_message ::
  "'w external \<Rightarrow> pending_governance_action \<Rightarrow> bridge_config \<Rightarrow> validator_set \<Rightarrow> bytes" where
  "cancel_message ex p c v =
     governance_message (cfg_protocol_version c) PROGRAM_ID (vs_epoch v) ACTION_CANCEL_ROTATION
       (ex_hash ex (cancel_params (pga_action p) (pga_eta p)))"

lemma propose_validator_rotation_Ok [handler_Ok]:
  "propose_validator_rotation ex t vs th s = Ok s' \<longleftrightarrow>
     (\<exists>c v eta. ch_config s = Some c \<and> ch_vset s = Some v \<and> ch_pending s = None \<and>
        valid_federation vs th \<and> federation_approved ex t v (rotation_message ex vs th c v) \<and>
        checked_add_i64 (tx_time t) (cfg_governance_timelock_seconds c) = Some eta \<and>
        s' = emit (GovernanceActionProposed ACTION_PROPOSE_ROTATION (vs_epoch v) eta th
                     (word_of_nat (length vs)))
          (s\<lparr>ch_pending := Some
               \<lparr>pga_action = ACTION_PROPOSE_ROTATION, pga_proposed_under_epoch = vs_epoch v,
                pga_eta = eta, pga_threshold = th, pga_validators = vs,
                pga_bump = pda_bump ex GovernanceActionPda, pga_proposed_max_wrapped_supply = 0,
                pga_reserved = replicate 24 0\<rparr>\<rparr>))"
  by (simp add: propose_validator_rotation_def Let_def require_federation_approval_Ok
        rotation_message_def validate_validator_set_Ok) fastforce

lemma execute_validator_rotation_Ok [handler_Ok]:
  "execute_validator_rotation t s = Ok s' \<longleftrightarrow>
     (\<exists>c v p. ch_config s = Some c \<and> ch_vset s = Some v \<and> ch_pending s = Some p \<and>
        pga_action p = ACTION_PROPOSE_ROTATION \<and> sint (pga_eta p) \<le> sint (tx_time t) \<and>
        vs_epoch v = pga_proposed_under_epoch p \<and>
        valid_federation (pga_validators p) (pga_threshold p) \<and>
        unat (vs_epoch v) + 1 < 2 ^ 64 \<and>
        s' = emit (GovernanceActionExecuted ACTION_PROPOSE_ROTATION (vs_epoch v + 1))
          (s\<lparr>ch_vset := Some (v\<lparr>vs_epoch := vs_epoch v + 1, vs_threshold := pga_threshold p,
               vs_validators := pga_validators p\<rparr>), ch_pending := None\<rparr>))"
  by (simp add: execute_validator_rotation_def Let_def checked_add_Some validate_validator_set_Ok)
    fastforce

lemma propose_wrapped_supply_cap_raise_Ok [handler_Ok]:
  "propose_wrapped_supply_cap_raise ex t m s = Ok s' \<longleftrightarrow>
     (\<exists>c v eta. ch_config s = Some c \<and> ch_vset s = Some v \<and> ch_pending s = None \<and>
        cfg_max_wrapped_supply c < m \<and> federation_approved ex t v (raise_message ex m c v) \<and>
        checked_add_i64 (tx_time t) (cfg_governance_timelock_seconds c) = Some eta \<and>
        s' = emit (GovernanceActionProposed ACTION_PROPOSE_TVL_RAISE (vs_epoch v) eta 0 0)
          (s\<lparr>ch_pending := Some
               \<lparr>pga_action = ACTION_PROPOSE_TVL_RAISE, pga_proposed_under_epoch = vs_epoch v,
                pga_eta = eta, pga_threshold = 0, pga_validators = [],
                pga_bump = pda_bump ex GovernanceActionPda, pga_proposed_max_wrapped_supply = m,
                pga_reserved = replicate 24 0\<rparr>\<rparr>))"
  by (simp add: propose_wrapped_supply_cap_raise_def Let_def require_federation_approval_Ok
        raise_message_def) fastforce

lemma execute_wrapped_supply_cap_raise_Ok [handler_Ok]:
  "execute_wrapped_supply_cap_raise t s = Ok s' \<longleftrightarrow>
     (\<exists>c v p. ch_config s = Some c \<and> ch_vset s = Some v \<and> ch_pending s = Some p \<and>
        pga_action p = ACTION_PROPOSE_TVL_RAISE \<and> sint (pga_eta p) \<le> sint (tx_time t) \<and>
        vs_epoch v = pga_proposed_under_epoch p \<and>
        cfg_max_wrapped_supply c < pga_proposed_max_wrapped_supply p \<and>
        s' = emit (GovernanceActionExecuted ACTION_PROPOSE_TVL_RAISE (vs_epoch v))
          (emit (WrappedSupplyCapChanged (cfg_max_wrapped_supply c)
                   (pga_proposed_max_wrapped_supply p) True)
          (s\<lparr>ch_config := Some (c\<lparr>cfg_max_wrapped_supply := pga_proposed_max_wrapped_supply p\<rparr>),
             ch_pending := None\<rparr>)))"
  by (simp add: execute_wrapped_supply_cap_raise_def Let_def) fastforce

lemma cancel_validator_rotation_Ok [handler_Ok]:
  "cancel_validator_rotation ex t s = Ok s' \<longleftrightarrow>
     (\<exists>c v p. ch_config s = Some c \<and> ch_vset s = Some v \<and> ch_pending s = Some p \<and>
        federation_approved ex t v (cancel_message ex p c v) \<and>
        s' = emit (GovernanceActionCancelled (pga_action p) (pga_eta p)) (s\<lparr>ch_pending := None\<rparr>))"
  by (simp add: cancel_validator_rotation_def Let_def require_federation_approval_Ok
        cancel_message_def) fastforce

interpretation rotation_gate: federation_gated ex
  "\<lambda>t. propose_validator_rotation ex t vs th" "\<lambda>c v s. rotation_message ex vs th c v"
  for ex vs th
  by unfold_locales (auto simp: propose_validator_rotation_Ok)

interpretation raise_gate: federation_gated ex
  "\<lambda>t. propose_wrapped_supply_cap_raise ex t m" "\<lambda>c v s. raise_message ex m c v"
  for ex m
  by unfold_locales (auto simp: propose_wrapped_supply_cap_raise_Ok)

interpretation cancel_gate: federation_gated ex
  "\<lambda>t. cancel_validator_rotation ex t" "\<lambda>c v s. cancel_message ex (the (ch_pending s)) c v"
  for ex
  by unfold_locales (auto simp: cancel_validator_rotation_Ok)

end
