(* ===== verification/TokenMetadata.thy ===== *)
theory TokenMetadata
  imports Program
begin

text \<open>
  Metaplex metadata for the wrapped mint (\<^verbatim>\<open>instructions/token_metadata.rs\<close>).  A Rust
  \<open>String\<close> is its UTF-8 bytes; \<open>utf8_valid\<close> is the check of \<open>core::str::from_utf8\<close>.  The
  Metaplex program is external: an account read and one cross-program call.
\<close>

section \<open>UTF-8\<close>

definition is_cont :: "u8 \<Rightarrow> bool" where
  "is_cont b \<longleftrightarrow> 0x80 \<le> b \<and> b \<le> 0xBF"

text \<open>The range of the second byte of a three- or four-byte sequence (RFC 3629).\<close>

definition second_ok :: "u8 \<Rightarrow> u8 \<Rightarrow> bool" where
  "second_ok b0 b1 \<longleftrightarrow>
     (if b0 = 0xE0 then 0xA0 \<le> b1 \<and> b1 \<le> 0xBF
      else if b0 = 0xED then 0x80 \<le> b1 \<and> b1 \<le> 0x9F
      else if b0 = 0xF0 then 0x90 \<le> b1 \<and> b1 \<le> 0xBF
      else if b0 = 0xF4 then 0x80 \<le> b1 \<and> b1 \<le> 0x8F
      else is_cont b1)"

text \<open>The length of the sequence a lead byte announces; \<open>0\<close> for a byte that cannot lead.\<close>

definition utf8_width :: "u8 \<Rightarrow> nat" where
  "utf8_width b =
     (if b < 0x80 then 1 else if 0xC2 \<le> b \<and> b \<le> 0xDF then 2
      else if 0xE0 \<le> b \<and> b \<le> 0xEF then 3 else if 0xF0 \<le> b \<and> b \<le> 0xF4 then 4 else 0)"

definition utf8_seq :: "u8 \<Rightarrow> bytes \<Rightarrow> bool" where
  "utf8_seq b cs \<longleftrightarrow> utf8_width b \<noteq> 0 \<and> length cs = utf8_width b - 1 \<and> list_all is_cont cs \<and>
     (utf8_width b \<ge> 3 \<longrightarrow> second_ok b (hd cs))"

fun utf8_valid :: "bytes \<Rightarrow> bool" where
  "utf8_valid [] = True"
| "utf8_valid (b # bs) =
     (utf8_seq b (take (utf8_width b - 1) bs) \<and> utf8_valid (drop (utf8_width b - 1) bs))"

section \<open>Constants and encodings\<close>

text \<open>\<open>pubkey!("metaqbxxUerdq28cj1RbAWkYQm3ybzjb6a8bt518x1s")\<close>.\<close>

definition TOKEN_METADATA_PROGRAM_ID :: pubkey where
  "TOKEN_METADATA_PROGRAM_ID = 0x4629f803bcd1b649b5fda01a736cb858cdc3046b7f529d38457cd1e3b165700b"

definition WRAPPED_GLC_NAME :: bytes where "WRAPPED_GLC_NAME = ascii ''Wrapped Goldcoin''"
definition WRAPPED_GLC_SYMBOL :: bytes where "WRAPPED_GLC_SYMBOL = ascii ''wGLC''"
definition MAX_URI_LEN :: nat where "MAX_URI_LEN = 200"
definition MAX_NAME_LEN :: nat where "MAX_NAME_LEN = 32"
definition MAX_SYMBOL_LEN :: nat where "MAX_SYMBOL_LEN = 10"
definition METADATA_MINT_OFFSET :: nat where "METADATA_MINT_OFFSET = 33"
definition METADATA_STRINGS_OFFSET :: nat where "METADATA_STRINGS_OFFSET = 65"
definition IX_CREATE_METADATA_ACCOUNT_V3 :: u8 where "IX_CREATE_METADATA_ACCOUNT_V3 = 33"
definition IX_UPDATE_METADATA_ACCOUNT_V2 :: u8 where "IX_UPDATE_METADATA_ACCOUNT_V2 = 15"

definition push_str :: "bytes \<Rightarrow> bytes \<Rightarrow> bytes" where
  "push_str out s = out @ le_bytes (word_of_nat (length s) :: u32) @ s"

definition create_metadata_data :: "bytes \<Rightarrow> bytes" where
  "create_metadata_data uri =
     (let data = [IX_CREATE_METADATA_ACCOUNT_V3];
          data = push_str data WRAPPED_GLC_NAME;
          data = push_str data WRAPPED_GLC_SYMBOL;
          data = push_str data uri;
          data = data @ le_bytes (0 :: u16)
      in data @ [0] @ [0] @ [0] @ [1] @ [0])"

definition update_metadata_data :: "bytes \<Rightarrow> bytes \<Rightarrow> bytes \<Rightarrow> bytes" where
  "update_metadata_data name symbol uri =
     (let data = [IX_UPDATE_METADATA_ACCOUNT_V2];
          data = data @ [1];
          data = push_str data name;
          data = push_str data symbol;
          data = push_str data uri;
          data = data @ le_bytes (0 :: u16)
      in data @ [0] @ [0] @ [0] @ [0] @ [0] @ [0])"

text \<open>\<open>trim_end_matches('\\0')\<close>.\<close>

definition trim_nul :: "bytes \<Rightarrow> bytes" where
  "trim_nul bs = rev (dropWhile (\<lambda>b. b = 0) (rev bs))"

text \<open>The \<open>take\<close> closure: one string at \<open>off\<close>, with the offset after it.\<close>

definition read_string :: "bytes \<Rightarrow> nat \<Rightarrow> (bytes \<times> nat) option" where
  "read_string data off =
     Option.bind (slice_get data off (off + 4)) (\<lambda>lb.
     let len = unat (from_le lb :: u32) in
     Option.bind (slice_get data (off + 4) (off + 4 + len)) (\<lambda>raw.
     if utf8_valid raw then Some (trim_nul raw, off + (4 + len)) else None))"

definition read_metadata_strings :: "bytes \<Rightarrow> (bytes \<times> bytes \<times> bytes) option" where
  "read_metadata_strings data =
     Option.bind (read_string data METADATA_STRINGS_OFFSET) (\<lambda>(name, off).
     Option.bind (read_string data off) (\<lambda>(symbol, off).
     Option.bind (read_string data off) (\<lambda>(uri, _). Some (name, symbol, uri))))"

definition metadata_pda :: "'w external \<Rightarrow> pubkey \<Rightarrow> pubkey" where
  "metadata_pda ex mint =
     fst (ex_find_program_address ex
       [ascii ''metadata'', le_bytes TOKEN_METADATA_PROGRAM_ID, le_bytes mint]
       TOKEN_METADATA_PROGRAM_ID)"

text \<open>An account that the Metaplex program owns and has written.\<close>

definition metadata_exists :: "'w external \<Rightarrow> 'w \<Rightarrow> pubkey \<Rightarrow> bool" where
  "metadata_exists ex w key \<longleftrightarrow>
     fst (ex_account ex w key) = TOKEN_METADATA_PROGRAM_ID \<and> snd (ex_account ex w key) \<noteq> []"

section \<open>Instructions\<close>

definition create_token_metadata ::
  "'w external \<Rightarrow> tx \<Rightarrow> pubkey \<Rightarrow> pubkey \<Rightarrow> pubkey \<Rightarrow> bytes \<Rightarrow> 'w chain \<Rightarrow> 'w outcome" where
  "create_token_metadata ex t wrapped_mint metadata token_metadata_program uri s =
     and_then (admin_config t s) (\<lambda>config.
     require (wrapped_mint = cfg_wrapped_mint config) MintNotConfigured (
     if token_metadata_program \<noteq> TOKEN_METADATA_PROGRAM_ID then Err ConstraintAddress
     else
     require (cfg_wrapped_mint config \<noteq> default_pubkey) MintNotConfigured (
     require (length uri \<le> MAX_URI_LEN) UriTooLong (
     require (metadata = metadata_pda ex wrapped_mint) InvalidMetadataAccount (
     if metadata_exists ex (ch_world s) metadata then Ok s
     else
     and_then (ok_or MetadataProgramError
       (ex_metadata_cpi ex (ch_world s)
          [metadata, wrapped_mint, pda_address ex MintAuthorityPda, tx_signer t,
           pda_address ex MintAuthorityPda]
          (create_metadata_data uri))) (\<lambda>w.
     Ok (s\<lparr>ch_world := w\<rparr>)))))))"

definition update_token_metadata ::
  "'w external \<Rightarrow> tx \<Rightarrow> pubkey \<Rightarrow> pubkey \<Rightarrow> bytes \<Rightarrow> bytes \<Rightarrow> bytes \<Rightarrow> 'w chain \<Rightarrow> 'w outcome" where
  "update_token_metadata ex t metadata token_metadata_program name symbol uri s =
     and_then (admin_config t s) (\<lambda>config.
     if token_metadata_program \<noteq> TOKEN_METADATA_PROGRAM_ID then Err ConstraintAddress
     else
     require (name \<noteq> [] \<and> length name \<le> MAX_NAME_LEN) NameTooLong (
     require (symbol \<noteq> [] \<and> length symbol \<le> MAX_SYMBOL_LEN) SymbolTooLong (
     require (length uri \<le> MAX_URI_LEN) UriTooLong (
     let mint = cfg_wrapped_mint config in
     require (mint \<noteq> default_pubkey) MintNotConfigured (
     require (metadata = metadata_pda ex mint) InvalidMetadataAccount (
     require (metadata_exists ex (ch_world s) metadata) MetadataNotFound (
     let data = snd (ex_account ex (ch_world s) metadata) in
     and_then (ok_or (Bridge InvalidMetadataAccount)
       (slice_get data METADATA_MINT_OFFSET (METADATA_MINT_OFFSET + 32))) (\<lambda>stored_mint.
     require (stored_mint = le_bytes mint) InvalidMetadataAccount (
     if read_metadata_strings data = Some (name, symbol, uri) then Ok s
     else
     and_then (ok_or MetadataProgramError
       (ex_metadata_cpi ex (ch_world s) [metadata, pda_address ex MintAuthorityPda]
          (update_metadata_data name symbol uri))) (\<lambda>w.
     Ok (s\<lparr>ch_world := w\<rparr>)))))))))))"

section \<open>What a successful instruction did\<close>

lemma create_token_metadata_Ok [handler_Ok]:
  "create_token_metadata ex t m md prog uri s = Ok s' \<longleftrightarrow>
     (\<exists>c. ch_config s = Some c \<and> cfg_admin c = tx_signer t \<and> m = cfg_wrapped_mint c \<and>
        prog = TOKEN_METADATA_PROGRAM_ID \<and> cfg_wrapped_mint c \<noteq> default_pubkey \<and>
        length uri \<le> MAX_URI_LEN \<and> md = metadata_pda ex m \<and>
        (if metadata_exists ex (ch_world s) md then s' = s
         else \<exists>w. ex_metadata_cpi ex (ch_world s)
             [md, m, pda_address ex MintAuthorityPda, tx_signer t, pda_address ex MintAuthorityPda]
             (create_metadata_data uri) = Some w \<and> s' = s\<lparr>ch_world := w\<rparr>))"
  by (cases "metadata_exists ex (ch_world s) md") (fastforce simp: create_token_metadata_def)+

lemma update_token_metadata_Ok [handler_Ok]:
  "update_token_metadata ex t md prog name symbol uri s = Ok s' \<longleftrightarrow>
     (\<exists>c. ch_config s = Some c \<and> cfg_admin c = tx_signer t \<and>
        prog = TOKEN_METADATA_PROGRAM_ID \<and> name \<noteq> [] \<and> length name \<le> MAX_NAME_LEN \<and>
        symbol \<noteq> [] \<and> length symbol \<le> MAX_SYMBOL_LEN \<and> length uri \<le> MAX_URI_LEN \<and>
        cfg_wrapped_mint c \<noteq> default_pubkey \<and> md = metadata_pda ex (cfg_wrapped_mint c) \<and>
        metadata_exists ex (ch_world s) md \<and>
        slice_get (snd (ex_account ex (ch_world s) md)) METADATA_MINT_OFFSET
          (METADATA_MINT_OFFSET + 32) = Some (le_bytes (cfg_wrapped_mint c)) \<and>
        (if read_metadata_strings (snd (ex_account ex (ch_world s) md)) = Some (name, symbol, uri)
         then s' = s
         else \<exists>w. ex_metadata_cpi ex (ch_world s) [md, pda_address ex MintAuthorityPda]
             (update_metadata_data name symbol uri) = Some w \<and> s' = s\<lparr>ch_world := w\<rparr>))"
  by (cases "read_metadata_strings (snd (ex_account ex (ch_world s) md)) = Some (name, symbol, uri)")
    (fastforce simp: update_token_metadata_def Let_def)+

section \<open>Reading back what Metaplex stores\<close>

lemma utf8_valid_append: "utf8_valid xs \<Longrightarrow> utf8_valid ys \<Longrightarrow> utf8_valid (xs @ ys)"
proof (induction xs rule: utf8_valid.induct)
  case (2 b bs)
  let ?k = "utf8_width b - 1"
  from "2.prems"(1) have "length (take ?k bs) = ?k" by (simp add: utf8_seq_def)
  then have "?k \<le> length bs" by simp
  with 2 show ?case by simp
qed simp

lemma utf8_valid_nul: "utf8_valid (replicate n 0)"
  by (induction n) (simp_all add: utf8_seq_def utf8_width_def)

lemma trim_nul_pad:
  assumes "xs = [] \<or> last xs \<noteq> 0"
  shows "trim_nul (xs @ replicate n 0) = xs"
proof -
  have "dropWhile (\<lambda>b. b = 0) (replicate n 0 @ ys) = dropWhile (\<lambda>b. b = (0 :: u8)) ys" for ys
    by (induction n) simp_all
  moreover have "dropWhile (\<lambda>b. b = 0) (rev xs) = rev xs"
    using assms by (cases xs rule: rev_cases) simp_all
  ultimately show ?thesis by (simp add: trim_nul_def)
qed

text \<open>A stored string: NUL-padded, then length-prefixed.\<close>

definition stored_string :: "bytes \<Rightarrow> nat \<Rightarrow> bytes" where
  "stored_string s pad = push_str [] (s @ replicate pad 0)"

definition storable :: "bytes \<Rightarrow> nat \<Rightarrow> bool" where
  "storable s pad \<longleftrightarrow> utf8_valid s \<and> (s = [] \<or> last s \<noteq> 0) \<and> length s + pad < 2 ^ 32"

lemma read_string_stored:
  assumes "storable s pad" "length pre = off"
  shows "read_string (pre @ stored_string s pad @ suf) off = Some (s, off + length (stored_string s pad))"
proof -
  let ?raw = "s @ replicate pad 0"
  have len: "unat (word_of_nat (length ?raw) :: u32) = length ?raw"
    using assms(1) by (simp add: storable_def unat_of_nat del: of_nat_add length_append) simp
  have l: "slice_get (pre @ stored_string s pad @ suf) off (off + 4)
      = Some (le_bytes (word_of_nat (length ?raw) :: u32))"
    using slice_get_append [of pre off "off + 4" "le_bytes (word_of_nat (length ?raw) :: u32)"
        "?raw @ suf"] assms(2)
    by (simp add: stored_string_def push_str_def)
  have r: "slice_get (pre @ stored_string s pad @ suf) (off + 4) (off + 4 + length ?raw) = Some ?raw"
    using slice_get_append [of "pre @ le_bytes (word_of_nat (length ?raw) :: u32)" "off + 4"
        "off + 4 + length ?raw" ?raw suf] assms(2)
    by (simp add: stored_string_def push_str_def)
  have "utf8_valid ?raw" "trim_nul ?raw = s"
    using assms(1) by (auto simp: storable_def utf8_valid_append utf8_valid_nul trim_nul_pad)
  with l r len show ?thesis
    by (simp add: read_string_def from_le_le_bytes stored_string_def push_str_def)
qed

lemma read_metadata_strings_stored:
  assumes "length pre = METADATA_STRINGS_OFFSET"
    and "storable name i" "storable symbol j" "storable uri k"
  shows "read_metadata_strings
     (pre @ stored_string name i @ stored_string symbol j @ stored_string uri k @ suf)
       = Some (name, symbol, uri)"
proof -
  note r = read_string_stored [OF assms(2,1), of "stored_string symbol j @ stored_string uri k @ suf"]
    read_string_stored [OF assms(3), of "pre @ stored_string name i"
      "METADATA_STRINGS_OFFSET + length (stored_string name i)" "stored_string uri k @ suf"]
    read_string_stored [OF assms(4), of "pre @ stored_string name i @ stored_string symbol j"
      "METADATA_STRINGS_OFFSET + length (stored_string name i) + length (stored_string symbol j)" suf]
  from r assms(1) show ?thesis by (simp add: read_metadata_strings_def)
qed

text \<open>
  Metadata strings round trip.  Whatever header precedes them and whatever follows, the reader
  gives back the name, symbol and URI that are stored length-prefixed and NUL-padded at the
  Metaplex offset, for all UTF-8 strings that do not end in a NUL character.
\<close>

theorem metadata_strings_roundtrip:
  assumes "length pre = METADATA_STRINGS_OFFSET"
    and "storable name i" "storable symbol j" "storable uri k"
  shows "read_metadata_strings
     (pre @ stored_string name i @ stored_string symbol j @ stored_string uri k @ suf)
       = Some (name, symbol, uri)"
  by (rule read_metadata_strings_stored [OF assms])

theorem metadata_strings_roundtrip_witness:
  "read_metadata_strings
     (replicate 65 4 @ stored_string [119, 71] 30 @ stored_string [0xC3, 0xA9] 8
        @ stored_string [] 200 @ [1, 2]) = Some ([119, 71], [0xC3, 0xA9], [])"
  by (rule metadata_strings_roundtrip)
    (simp_all add: METADATA_STRINGS_OFFSET_def storable_def utf8_seq_def utf8_width_def
      is_cont_def)

text \<open>
  Renaming is idempotent.  When the metadata account of the configured mint already stores
  the requested name, symbol and URI, \<open>update_token_metadata\<close> succeeds without any change and
  without calling Metaplex, and it never touches an account of the bridge in any case.
\<close>

theorem update_metadata_idempotent:
  assumes "ch_config s = Some c" "cfg_admin c = tx_signer t" "cfg_wrapped_mint c \<noteq> default_pubkey"
    and "ex_account ex (ch_world s) (metadata_pda ex (cfg_wrapped_mint c)) =
       (TOKEN_METADATA_PROGRAM_ID,
        hdr @ le_bytes (cfg_wrapped_mint c) @ stored_string name i @ stored_string symbol j
          @ stored_string uri k @ suf)"
    and "length hdr = METADATA_MINT_OFFSET"
    and "storable name i" "storable symbol j" "storable uri k"
    and "name \<noteq> []" "length name \<le> MAX_NAME_LEN" "symbol \<noteq> []" "length symbol \<le> MAX_SYMBOL_LEN"
      "length uri \<le> MAX_URI_LEN"
  shows "update_token_metadata ex t (metadata_pda ex (cfg_wrapped_mint c))
      TOKEN_METADATA_PROGRAM_ID name symbol uri s = Ok s"
proof -
  let ?data = "hdr @ le_bytes (cfg_wrapped_mint c) @ stored_string name i @ stored_string symbol j
      @ stored_string uri k @ suf"
  have "slice_get ?data METADATA_MINT_OFFSET (METADATA_MINT_OFFSET + 32)
      = Some (le_bytes (cfg_wrapped_mint c))"
    by (rule slice_get_append) (use assms(5) in simp_all)
  moreover have "read_metadata_strings ?data = Some (name, symbol, uri)"
    using read_metadata_strings_stored [of "hdr @ le_bytes (cfg_wrapped_mint c)", OF _ assms(6-8)]
      assms(5) by (simp add: METADATA_STRINGS_OFFSET_def METADATA_MINT_OFFSET_def)
  ultimately show ?thesis
    using assms by (simp add: update_token_metadata_Ok metadata_exists_def stored_string_def
        push_str_def)
qed

text \<open>An instance: an environment whose only account is the metadata of mint 7.\<close>

definition sample_metadata :: bytes where
  "sample_metadata = replicate 33 4 @ le_bytes (7 :: pubkey) @ stored_string [119, 71] 30
     @ stored_string [103] 9 @ stored_string [] 200 @ []"

definition sample_external :: "unit external" where
  "sample_external =
     \<lparr>ex_hash = (\<lambda>_. 0), ex_ed25519_program = 0, ex_find_program_address = (\<lambda>_ _. (9, 255)),
      ex_programdata_address = None, ex_programdata = (\<lambda>_ _. None),
      ex_mint_supply = (\<lambda>_ _. None), ex_has_ata = (\<lambda>_ _ _. False),
      ex_create_mint = (\<lambda>_ _ _ _. None), ex_mint_to_checked = (\<lambda>_ _ _ _ _ _. None),
      ex_burn_checked = (\<lambda>_ _ _ _ _. None),
      ex_account = (\<lambda>_ _. (TOKEN_METADATA_PROGRAM_ID, sample_metadata)),
      ex_metadata_cpi = (\<lambda>_ _ _. None)\<rparr>"

definition sample_config :: bridge_config where
  "sample_config =
     \<lparr>cfg_protocol_version = 1, cfg_admin = 100, cfg_pending_admin = None, cfg_paused = False,
      cfg_withdrawal_count = 0, cfg_min_deposit = 1, cfg_min_withdrawal = 1, cfg_bump = 255,
      cfg_wrapped_mint = 7, cfg_mint_authority_bump = 255, cfg_governance_timelock_seconds = 60,
      cfg_max_wrapped_supply = 1000, cfg_reserved = replicate 15 0\<rparr>"

definition sample_chain :: "unit chain" where
  "sample_chain =
     \<lparr>ch_config = Some sample_config, ch_vset = None, ch_pending = None, ch_claims = Map.empty,
      ch_withdrawals = Map.empty, ch_world = (), ch_log = []\<rparr>"

theorem update_metadata_idempotent_witness:
  "update_token_metadata sample_external
     \<lparr>tx_signer = 100, tx_slot = 0, tx_time = 0, tx_prev = None\<rparr>
     (metadata_pda sample_external (cfg_wrapped_mint sample_config)) TOKEN_METADATA_PROGRAM_ID
     [119, 71] [103] [] sample_chain = Ok sample_chain"
  by (rule update_metadata_idempotent [of sample_chain sample_config _ sample_external
        "replicate 33 4" _ 30 _ 9 _ 200 "[]"])
    (simp_all add: sample_chain_def sample_config_def sample_external_def sample_metadata_def
      default_pubkey_def METADATA_MINT_OFFSET_def storable_def utf8_seq_def utf8_width_def
      MAX_NAME_LEN_def MAX_SYMBOL_LEN_def MAX_URI_LEN_def)

end
