(* ===== verification/Bridge.thy ===== *)
theory Bridge
  imports Systems Minting Withdrawals Governance TokenMetadata
begin

text \<open>
  The whole on-chain program: the instruction set of \<^verbatim>\<open>lib.rs\<close>, its dispatch, and the
  transition system it forms with the rest of the chain.  A transaction that fails leaves the
  state as it was; between transactions of the bridge, other programs may change their own
  accounts.  The state invariant, its preservation by every instruction, and the progress order
  (claims are permanent, withdrawals complete once, epochs and counters only grow) are proved
  per handler from the \<open>handler_Ok\<close> lemmas and lifted to all runs by the locales of \<open>Systems\<close>.
\<close>

section \<open>Dispatch (lib.rs)\<close>

datatype instruction =
    Initialize pubkey "pubkey list" u8 u64 u64 i64 u64
  | SetPaused bool
  | ProposeValidatorRotation "pubkey list" u8
  | ExecuteValidatorRotation
  | CancelValidatorRotation
  | TransferAdmin pubkey
  | AcceptAdmin
  | CreateWrappedMint pubkey
  | MintWrapped pubkey pubkey bytes32 u32 u64 u64
  | BurnWrapped pubkey u64 bytes
  | LowerWrappedSupplyCap u64
  | ProposeWrappedSupplyCapRaise u64
  | ExecuteWrappedSupplyCapRaise
  | CreateTokenMetadata pubkey pubkey pubkey bytes
  | UpdateTokenMetadata pubkey pubkey bytes bytes bytes
  | CompleteWithdrawal u64 bytes32 u64 u64

primrec process :: "'w external \<Rightarrow> tx \<Rightarrow> instruction \<Rightarrow> 'w chain \<Rightarrow> 'w outcome" where
  "process ex t (Initialize pd vs th md mw lock cap) s = initialize ex t pd vs th md mw lock cap s"
| "process ex t (SetPaused p) s = set_paused t p s"
| "process ex t (ProposeValidatorRotation vs th) s = propose_validator_rotation ex t vs th s"
| "process ex t ExecuteValidatorRotation s = execute_validator_rotation t s"
| "process ex t CancelValidatorRotation s = cancel_validator_rotation ex t s"
| "process ex t (TransferAdmin a) s = transfer_admin t a s"
| "process ex t AcceptAdmin s = accept_admin t s"
| "process ex t (CreateWrappedMint m) s = create_wrapped_mint ex t m s"
| "process ex t (MintWrapped m r txid vout a e) s = mint_wrapped ex t m r txid vout a e s"
| "process ex t (BurnWrapped m a addr) s = burn_wrapped ex t m a addr s"
| "process ex t (LowerWrappedSupplyCap m) s = lower_wrapped_supply_cap t m s"
| "process ex t (ProposeWrappedSupplyCapRaise m) s = propose_wrapped_supply_cap_raise ex t m s"
| "process ex t ExecuteWrappedSupplyCapRaise s = execute_wrapped_supply_cap_raise t s"
| "process ex t (CreateTokenMetadata m md prog uri) s = create_token_metadata ex t m md prog uri s"
| "process ex t (UpdateTokenMetadata md prog name symbol uri) s =
     update_token_metadata ex t md prog name symbol uri s"
| "process ex t (CompleteWithdrawal i txid h e) s = complete_withdrawal ex t i txid h e s"

section \<open>The transition system\<close>

text \<open>A transaction of the bridge, or a change other programs make to their own accounts.\<close>

datatype 'w label = Instr tx instruction | Other 'w

definition chain_init :: "'w chain \<Rightarrow> bool" where
  "chain_init s \<longleftrightarrow> ch_config s = None \<and> ch_vset s = None \<and> ch_pending s = None \<and>
     ch_claims s = Map.empty \<and> ch_withdrawals s = Map.empty \<and> ch_log s = []"

inductive chain_step ::
  "'w external \<Rightarrow> ('w \<Rightarrow> 'w \<Rightarrow> bool) \<Rightarrow> 'w chain \<Rightarrow> 'w label \<Rightarrow> 'w chain \<Rightarrow> bool"
  for ex :: "'w external" and others :: "'w \<Rightarrow> 'w \<Rightarrow> bool" where
  step_ok: "process ex t i s = Ok s' \<Longrightarrow> chain_step ex others s (Instr t i) s'"
| step_fail: "process ex t i s = Err e \<Longrightarrow> chain_step ex others s (Instr t i) s"
| step_other: "others (ch_world s) w \<Longrightarrow> chain_step ex others s (Other w) (s\<lparr>ch_world := w\<rparr>)"

inductive_cases chain_stepE: "chain_step ex others s l s'"

text \<open>To show that every step keeps a property: the successful instructions and other programs.\<close>

lemma chain_step_cases:
  assumes "chain_step ex others s l s'"
    and "\<And>t i. process ex t i s = Ok s' \<Longrightarrow> P s'" and "P s"
    and "\<And>w. others (ch_world s) w \<Longrightarrow> P (s\<lparr>ch_world := w\<rparr>)"
  shows "P s'"
  using assms by (auto elim!: chain_stepE)

section \<open>The state invariant\<close>

definition config_inv :: "'w external \<Rightarrow> bridge_config \<Rightarrow> bool" where
  "config_inv ex c \<longleftrightarrow> wf_bridge_config c \<and> cfg_protocol_version c = PROTOCOL_VERSION \<and>
     0 < sint (cfg_governance_timelock_seconds c) \<and> 0 < cfg_max_wrapped_supply c \<and>
     cfg_bump c = pda_bump ex BridgeConfigPda"

definition vset_inv :: "'w external \<Rightarrow> validator_set \<Rightarrow> bool" where
  "vset_inv ex v \<longleftrightarrow> wf_validator_set v \<and> valid_federation (vs_validators v) (vs_threshold v) \<and>
     vs_bump v = pda_bump ex ValidatorSetPda"

definition pending_inv ::
  "'w external \<Rightarrow> bridge_config \<Rightarrow> validator_set \<Rightarrow> pending_governance_action \<Rightarrow> bool" where
  "pending_inv ex c v p \<longleftrightarrow> wf_pending_action p \<and> pga_bump p = pda_bump ex GovernanceActionPda \<and>
     pga_proposed_under_epoch p = vs_epoch v \<and>
     (pga_action p = ACTION_PROPOSE_ROTATION \<and> valid_federation (pga_validators p) (pga_threshold p)
      \<or> pga_action p = ACTION_PROPOSE_TVL_RAISE
        \<and> cfg_max_wrapped_supply c < pga_proposed_max_wrapped_supply p)"

definition claim_inv :: "'w external \<Rightarrow> validator_set \<Rightarrow> bytes32 \<times> u32 \<Rightarrow> deposit_claim \<Rightarrow> bool" where
  "claim_inv ex v k d \<longleftrightarrow> wf_deposit_claim d \<and> (dc_txid d, dc_vout d) = k \<and> 0 < dc_amount d \<and>
     dc_epoch d \<le> vs_epoch v \<and> dc_protocol_version d = PROTOCOL_VERSION \<and>
     dc_bump d = pda_bump ex (DepositClaimPda (fst k) (snd k))"

definition withdrawal_inv :: "'w external \<Rightarrow> u64 \<Rightarrow> withdrawal_request \<Rightarrow> bool" where
  "withdrawal_inv ex i r \<longleftrightarrow> wf_withdrawal_request r \<and> wr_index r = i \<and> 0 < wr_amount r \<and>
     1 \<le> unat (wr_glc_address_len r) \<and> unat (wr_glc_address_len r) \<le> MAX_GLC_ADDRESS_LEN \<and>
     list_all (\<lambda>b. b = 0) (drop (unat (wr_glc_address_len r)) (wr_glc_address r)) \<and>
     wr_bump r = pda_bump ex (WithdrawalPda i) \<and>
     (wr_status r = Pending \<and> payout_record_is_unset r \<or>
      wr_status r = Completed \<and> (\<exists>txid h. payout_record r = Some (txid, h) \<and> txid \<noteq> 0 \<and> 0 < h))"

definition chain_inv :: "'w external \<Rightarrow> 'w chain \<Rightarrow> bool" where
  "chain_inv ex s \<longleftrightarrow>
     (case ch_config s of
        None \<Rightarrow> chain_init (s\<lparr>ch_log := []\<rparr>)
      | Some c \<Rightarrow> config_inv ex c \<and>
          (\<exists>v. ch_vset s = Some v \<and> vset_inv ex v \<and>
             (\<forall>p. ch_pending s = Some p \<longrightarrow> pending_inv ex c v p) \<and>
             (\<forall>k d. ch_claims s k = Some d \<longrightarrow> claim_inv ex v k d)) \<and>
          (\<forall>i. ch_withdrawals s i \<noteq> None \<longleftrightarrow> i < cfg_withdrawal_count c) \<and>
          (\<forall>i r. ch_withdrawals s i = Some r \<longrightarrow> withdrawal_inv ex i r))"

lemmas part_invs = config_inv_def vset_inv_def pending_inv_def claim_inv_def withdrawal_inv_def

lemma chain_inv_config:
  "chain_inv ex s \<Longrightarrow> ch_config s = Some c \<Longrightarrow>
     (\<exists>v. ch_vset s = Some v \<and> vset_inv ex v \<and>
        (\<forall>p. ch_pending s = Some p \<longrightarrow> pending_inv ex c v p) \<and>
        (\<forall>k d. ch_claims s k = Some d \<longrightarrow> claim_inv ex v k d)) \<and> config_inv ex c \<and>
     (\<forall>i. ch_withdrawals s i \<noteq> None \<longleftrightarrow> i < cfg_withdrawal_count c) \<and>
     (\<forall>i r. ch_withdrawals s i = Some r \<longrightarrow> withdrawal_inv ex i r)"
  by (simp add: chain_inv_def)

lemma chain_inv_intro:
  assumes "ch_config s = Some c" "ch_vset s = Some v" "config_inv ex c" "vset_inv ex v"
    and "\<And>p. ch_pending s = Some p \<Longrightarrow> pending_inv ex c v p"
    and "\<And>k d. ch_claims s k = Some d \<Longrightarrow> claim_inv ex v k d"
    and "\<And>i. ch_withdrawals s i \<noteq> None \<longleftrightarrow> i < cfg_withdrawal_count c"
    and "\<And>i r. ch_withdrawals s i = Some r \<Longrightarrow> withdrawal_inv ex i r"
  shows "chain_inv ex s"
  using assms by (simp add: chain_inv_def)

lemma chain_inv_uninit: "chain_inv ex s \<Longrightarrow> ch_config s = None \<Longrightarrow> chain_init (s\<lparr>ch_log := []\<rparr>)"
  by (simp add: chain_inv_def)

section \<open>Every instruction keeps the invariant\<close>

text \<open>Changing the configuration: the counter must stay, and the cap may only go down.\<close>

lemma chain_inv_config_update:
  assumes "chain_inv ex s" "ch_config s \<noteq> None" "ch_config s' \<noteq> None"
    and c': "config_inv ex (the (ch_config s'))"
      "cfg_withdrawal_count (the (ch_config s')) = cfg_withdrawal_count (the (ch_config s))"
      "cfg_max_wrapped_supply (the (ch_config s')) \<le> cfg_max_wrapped_supply (the (ch_config s))"
    and same: "ch_vset s' = ch_vset s" "ch_pending s' = ch_pending s" "ch_claims s' = ch_claims s"
      "ch_withdrawals s' = ch_withdrawals s"
  shows "chain_inv ex s'"
proof -
  from assms(2,3) obtain c c1 where c: "ch_config s = Some c" "ch_config s' = Some c1" by blast
  from chain_inv_config [OF assms(1) c(1)] obtain v where v: "ch_vset s = Some v" "vset_inv ex v"
    "\<And>p. ch_pending s = Some p \<Longrightarrow> pending_inv ex c v p"
    "\<And>k d. ch_claims s k = Some d \<Longrightarrow> claim_inv ex v k d"
    and w: "\<And>i. ch_withdrawals s i \<noteq> None \<longleftrightarrow> i < cfg_withdrawal_count c"
    "\<And>i r. ch_withdrawals s i = Some r \<Longrightarrow> withdrawal_inv ex i r" by blast
  have "pending_inv ex c1 v p" if "ch_pending s = Some p" for p
    using v(3) [OF that] c'(3) by (auto simp: pending_inv_def c)
  with v w c' show ?thesis
    by (intro chain_inv_intro [of s' c1 v]) (simp_all add: c same)
qed

text \<open>Changing the pending action only.\<close>

lemma chain_inv_pending_update:
  assumes "chain_inv ex s" "ch_config s \<noteq> None"
    and same: "ch_config s' = ch_config s" "ch_vset s' = ch_vset s" "ch_claims s' = ch_claims s"
      "ch_withdrawals s' = ch_withdrawals s"
    and "ch_pending s' = None \<or>
      pending_inv ex (the (ch_config s)) (the (ch_vset s)) (the (ch_pending s'))"
  shows "chain_inv ex s'"
  using assms by (auto simp: chain_inv_def)

lemma inv_initialize:
  assumes "chain_inv ex s" "initialize ex t pd vs th md mw lock cap s = Ok s'"
  shows "chain_inv ex s'"
proof -
  from assms(2) have n: "ch_config s = None" by (simp add: handler_Ok)
  from chain_inv_uninit [OF assms(1) n] assms(2) show ?thesis
    by (auto simp: handler_Ok chain_init_def chain_inv_def part_invs wf_account_defs)
qed

lemma inv_config_only:
  assumes "chain_inv ex s"
  shows "set_paused t b s = Ok s' \<Longrightarrow> chain_inv ex s'"
    and "lower_wrapped_supply_cap t m s = Ok s' \<Longrightarrow> chain_inv ex s'"
    and "transfer_admin t a s = Ok s' \<Longrightarrow> chain_inv ex s'"
    and "accept_admin t s = Ok s' \<Longrightarrow> chain_inv ex s'"
    and "create_wrapped_mint ex t k s = Ok s' \<Longrightarrow> chain_inv ex s'"
  using chain_inv_config [OF assms]
  by (auto simp: handler_Ok config_inv_def wf_account_defs intro!: chain_inv_config_update [OF assms])

lemma inv_world:
  assumes "chain_inv ex s"
  shows "chain_inv ex (s\<lparr>ch_world := w\<rparr>)"
  using assms by (auto simp: chain_inv_def chain_init_def split: option.splits)

lemma inv_metadata:
  assumes "chain_inv ex s"
  shows "create_token_metadata ex t m md prog uri s = Ok s' \<Longrightarrow> chain_inv ex s'"
    and "update_token_metadata ex t md prog name symbol uri s = Ok s' \<Longrightarrow> chain_inv ex s'"
  using inv_world [OF assms] assms by (auto simp: handler_Ok split: if_splits)

lemma inv_mint_wrapped:
  assumes "chain_inv ex s" "mint_wrapped ex t m r txid vout a e s = Ok s'"
  shows "chain_inv ex s'"
proof -
  from assms(2) obtain c v w where cv: "ch_config s = Some c" "ch_vset s = Some v"
    and s': "s' = emit (DepositClaimMinted txid vout r a (vs_epoch v))
      (s\<lparr>ch_claims := (ch_claims s)((txid, vout) \<mapsto>
           \<lparr>dc_txid = txid, dc_vout = vout, dc_amount = a, dc_recipient = r,
            dc_epoch = vs_epoch v, dc_protocol_version = cfg_protocol_version c,
            dc_slot_created = tx_slot t, dc_bump = pda_bump ex (DepositClaimPda txid vout),
            dc_reserved = replicate 16 0\<rparr>), ch_world := w\<rparr>)" and a: "0 < a"
    unfolding mint_wrapped_Ok by blast
  from chain_inv_config [OF assms(1) cv(1)] cv(2) show ?thesis
    by (intro chain_inv_intro [of s' c v])
      (auto simp: s' cv a claim_inv_def config_inv_def wf_account_defs split: if_splits)
qed

lemma inv_burn_wrapped:
  assumes "chain_inv ex s" "burn_wrapped ex t m a addr s = Ok s'"
  shows "chain_inv ex s'"
proof -
  from assms(2) obtain c w where c: "ch_config s = Some c"
    and g: "0 < a" "addr \<noteq> []" "length addr \<le> MAX_GLC_ADDRESS_LEN"
      "unat (cfg_withdrawal_count c) + 1 < 2 ^ 64"
    and s': "s' = emit (WithdrawalRequested (cfg_withdrawal_count c) (tx_signer t) a addr)
      (s\<lparr>ch_withdrawals := (ch_withdrawals s)(cfg_withdrawal_count c \<mapsto>
           \<lparr>wr_index = cfg_withdrawal_count c, wr_amount = a, wr_requester = tx_signer t,
            wr_glc_address = copy_at (replicate 64 0) 0 addr,
            wr_glc_address_len = word_of_nat (length addr), wr_status = Pending,
            wr_requested_at_slot = tx_slot t, wr_protocol_version = cfg_protocol_version c,
            wr_bump = pda_bump ex (WithdrawalPda (cfg_withdrawal_count c)),
            wr_reserved = replicate 48 0\<rparr>), ch_world := w,
         ch_config := Some (c\<lparr>cfg_withdrawal_count := cfg_withdrawal_count c + 1\<rparr>)\<rparr>)"
    unfolding burn_wrapped_Ok by blast
  let ?n = "cfg_withdrawal_count c"
  have len: "length addr \<le> 64" "unat (word_of_nat (length addr) :: u8) = length addr"
    using g(3) by (simp_all add: MAX_GLC_ADDRESS_LEN_def unat_of_nat)
  have next': "i < ?n + 1 \<longleftrightarrow> i < ?n \<or> i = ?n" for i
    using g(4) by (simp add: word_less_nat_alt unat_word_ariths) (metis less_Suc_eq word_unat_eq_iff)
  from chain_inv_config [OF assms(1) c] obtain v where v: "ch_vset s = Some v" "vset_inv ex v"
    "\<And>p. ch_pending s = Some p \<Longrightarrow> pending_inv ex c v p"
    "\<And>k d. ch_claims s k = Some d \<Longrightarrow> claim_inv ex v k d" and ci: "config_inv ex c"
    and w: "\<And>i. ch_withdrawals s i \<noteq> None \<longleftrightarrow> i < ?n"
    "\<And>i r. ch_withdrawals s i = Some r \<Longrightarrow> withdrawal_inv ex i r" by blast
  show ?thesis
  proof (rule chain_inv_intro [of s' "c\<lparr>cfg_withdrawal_count := ?n + 1\<rparr>" v])
    show "withdrawal_inv ex i r" if "ch_withdrawals s' i = Some r" for i r
      using that w(2) g len
      by (auto simp: s' withdrawal_inv_def wf_account_defs copy_at_def payout_record_is_unset_def
          MAX_GLC_ADDRESS_LEN_def list_all_iff Suc_le_eq split: if_splits)
    show "pending_inv ex (c\<lparr>cfg_withdrawal_count := ?n + 1\<rparr>) v p" if "ch_pending s' = Some p" for p
      using v(3) [of p] that by (simp add: s' pending_inv_def)
    show "(ch_withdrawals s' i \<noteq> None) = (i < cfg_withdrawal_count (c\<lparr>cfg_withdrawal_count := ?n + 1\<rparr>))"
      for i using w(1) [of i] next' [of i] by (auto simp: s')
  qed (use v ci in \<open>auto simp: s' config_inv_def wf_account_defs\<close>)
qed

lemma inv_complete_withdrawal:
  assumes "chain_inv ex s" "complete_withdrawal ex t i txid h e s = Ok s'"
  shows "chain_inv ex s'"
proof -
  from assms(2) obtain c v r where cv: "ch_config s = Some c" "ch_vset s = Some v"
    and r: "ch_withdrawals s i = Some r" and g: "txid \<noteq> 0" "0 < h"
    and s': "s' = emit (WithdrawalCompleted i txid h (wr_amount r) (vs_epoch v))
      (s\<lparr>ch_withdrawals := (ch_withdrawals s)(i \<mapsto>
           set_payout_record r txid h\<lparr>wr_status := Completed\<rparr>)\<rparr>)"
    unfolding complete_withdrawal_Ok by blast
  from chain_inv_config [OF assms(1) cv(1)] cv(2) r have
    inv: "withdrawal_inv ex i r" "i < cfg_withdrawal_count c" by blast+
  then have "withdrawal_inv ex i (set_payout_record r txid h\<lparr>wr_status := Completed\<rparr>)"
    using g payout_record_set [of r txid h] wf_set_payout_record [of r txid h]
    by (simp add: withdrawal_inv_def wf_withdrawal_request_def set_payout_record_def)
  with chain_inv_config [OF assms(1) cv(1)] cv(2) inv show ?thesis
    by (intro chain_inv_intro [of s' c v]) (auto simp: s' cv split: if_splits)
qed

lemma inv_propose:
  assumes "chain_inv ex s"
  shows "propose_validator_rotation ex t vs th s = Ok s' \<Longrightarrow> chain_inv ex s'"
    and "propose_wrapped_supply_cap_raise ex t m s = Ok s' \<Longrightarrow> chain_inv ex s'"
    and "cancel_validator_rotation ex t s = Ok s' \<Longrightarrow> chain_inv ex s'"
  by (auto simp: handler_Ok pending_inv_def wf_account_defs
      intro!: chain_inv_pending_update [OF assms])

lemma inv_execute:
  assumes "chain_inv ex s"
  shows "execute_validator_rotation t s = Ok s' \<Longrightarrow> chain_inv ex s'"
    and "execute_wrapped_supply_cap_raise t s = Ok s' \<Longrightarrow> chain_inv ex s'"
proof -
  assume "execute_validator_rotation t s = Ok s'"
  then obtain c v and p :: pending_governance_action
    where cv: "ch_config s = Some c" "ch_vset s = Some v"
    and g: "valid_federation (pga_validators p) (pga_threshold p)" "unat (vs_epoch v) + 1 < 2 ^ 64"
    and s': "s' = emit (GovernanceActionExecuted ACTION_PROPOSE_ROTATION (vs_epoch v + 1))
      (s\<lparr>ch_vset := Some (v\<lparr>vs_epoch := vs_epoch v + 1, vs_threshold := pga_threshold p,
           vs_validators := pga_validators p\<rparr>), ch_pending := None\<rparr>)"
    unfolding execute_validator_rotation_Ok by blast
  let ?v = "v\<lparr>vs_epoch := vs_epoch v + 1, vs_threshold := pga_threshold p,
               vs_validators := pga_validators p\<rparr>"
  have "vs_epoch v \<le> vs_epoch v + 1"
    using g(2) by (simp add: word_le_nat_alt unat_word_ariths)
  then have "claim_inv ex v k d \<Longrightarrow> claim_inv ex ?v k d" for k d
    by (auto simp: claim_inv_def)
  with chain_inv_config [OF assms cv(1)] cv(2) g show "chain_inv ex s'"
    by (intro chain_inv_intro [of s' c ?v]) (auto simp: s' cv vset_inv_def wf_account_defs)
next
  assume "execute_wrapped_supply_cap_raise t s = Ok s'"
  then obtain c v m where cv: "ch_config s = Some c" "ch_vset s = Some v"
    and g: "cfg_max_wrapped_supply c < m"
    and s': "s' = emit (GovernanceActionExecuted ACTION_PROPOSE_TVL_RAISE (vs_epoch v))
      (emit (WrappedSupplyCapChanged (cfg_max_wrapped_supply c) m True)
        (s\<lparr>ch_config := Some (c\<lparr>cfg_max_wrapped_supply := m\<rparr>), ch_pending := None\<rparr>))"
    unfolding execute_wrapped_supply_cap_raise_Ok by blast
  from chain_inv_config [OF assms cv(1)] cv(2) g show "chain_inv ex s'"
    by (intro chain_inv_intro [of s' "c\<lparr>cfg_max_wrapped_supply := m\<rparr>" v])
      (auto simp: s' cv config_inv_def wf_account_defs)
qed

lemmas handler_invs = inv_initialize inv_config_only inv_metadata inv_mint_wrapped
  inv_burn_wrapped inv_complete_withdrawal inv_propose inv_execute

lemma process_inv: "chain_inv ex s \<Longrightarrow> process ex t i s = Ok s' \<Longrightarrow> chain_inv ex s'"
  by (cases i) (auto elim: handler_invs)

lemma chain_step_inv: "chain_inv ex s \<Longrightarrow> chain_step ex others s l s' \<Longrightarrow> chain_inv ex s'"
  by (erule chain_step_cases) (auto intro: process_inv inv_world)

interpretation bridge: inv_system chain_init "chain_step ex others" "chain_inv ex"
  for ex others
proof unfold_locales
  show "chain_init s \<Longrightarrow> chain_inv ex s" for s
    by (simp add: chain_inv_def chain_init_def)
qed (rule chain_step_inv)

section \<open>What never changes back\<close>

definition withdrawal_le :: "withdrawal_request \<Rightarrow> withdrawal_request \<Rightarrow> bool" where
  "withdrawal_le r r' \<longleftrightarrow> r' = r \<or>
     wr_status r = Pending \<and> (\<exists>txid h. r' = set_payout_record r txid h\<lparr>wr_status := Completed\<rparr>)"

definition config_le :: "bridge_config \<Rightarrow> bridge_config \<Rightarrow> bool" where
  "config_le c c' \<longleftrightarrow> cfg_withdrawal_count c \<le> cfg_withdrawal_count c' \<and>
     cfg_protocol_version c' = cfg_protocol_version c \<and>
     cfg_min_deposit c' = cfg_min_deposit c \<and> cfg_min_withdrawal c' = cfg_min_withdrawal c \<and>
     cfg_governance_timelock_seconds c' = cfg_governance_timelock_seconds c \<and>
     (cfg_wrapped_mint c \<noteq> default_pubkey \<longrightarrow> cfg_wrapped_mint c' = cfg_wrapped_mint c)"

definition vset_le :: "validator_set \<Rightarrow> validator_set \<Rightarrow> bool" where
  "vset_le v v' \<longleftrightarrow> v' = v \<or> vs_epoch v < vs_epoch v'"

definition chain_le :: "'w chain \<Rightarrow> 'w chain \<Rightarrow> bool" where
  "chain_le s s' \<longleftrightarrow> opt_le config_le (ch_config s) (ch_config s') \<and>
     opt_le vset_le (ch_vset s) (ch_vset s') \<and>
     (\<forall>k. opt_le (=) (ch_claims s k) (ch_claims s' k)) \<and>
     (\<forall>i. opt_le withdrawal_le (ch_withdrawals s i) (ch_withdrawals s' i)) \<and>
     (\<exists>evs. ch_log s' = ch_log s @ evs)"

lemmas part_les = config_le_def vset_le_def

lemma part_le_refl [simp]: "config_le c c" "vset_le v v" "withdrawal_le r r"
  by (simp_all add: part_les withdrawal_le_def)

lemma part_le_trans:
  "config_le c c' \<Longrightarrow> config_le c' c'' \<Longrightarrow> config_le c c''"
  "vset_le v v' \<Longrightarrow> vset_le v' v'' \<Longrightarrow> vset_le v v''"
  by (auto simp: part_les)

lemma withdrawal_le_trans: "withdrawal_le r r' \<Longrightarrow> withdrawal_le r' r'' \<Longrightarrow> withdrawal_le r r''"
  unfolding withdrawal_le_def
  by (cases "r' = r"; cases "r'' = r'") (fastforce dest: arg_cong [of _ _ wr_status])+

lemma withdrawal_le_complete [simp]:
  "wr_status r = Pending \<Longrightarrow> withdrawal_le r (set_payout_record r txid h\<lparr>wr_status := Completed\<rparr>)"
  unfolding withdrawal_le_def by blast

lemma chain_le_refl: "chain_le s s"
  by (simp add: chain_le_def opt_le_refl)

lemma chain_le_trans:
  assumes "chain_le s s'" "chain_le s' s''"
  shows "chain_le s s''"
proof -
  note le = assms [unfolded chain_le_def]
  have "opt_le config_le (ch_config s) (ch_config s'')"
    by (rule opt_le_trans [of _ _ "ch_config s'"]) (use le in \<open>auto intro: part_le_trans\<close>)
  moreover have "opt_le vset_le (ch_vset s) (ch_vset s'')"
    by (rule opt_le_trans [of _ _ "ch_vset s'"]) (use le in \<open>auto intro: part_le_trans\<close>)
  moreover have "opt_le (=) (ch_claims s k) (ch_claims s'' k)" for k
    by (rule opt_le_trans [of _ _ "ch_claims s' k"]) (use le in blast)+
  moreover have "opt_le withdrawal_le (ch_withdrawals s i) (ch_withdrawals s'' i)" for i
    by (rule opt_le_trans [of _ _ "ch_withdrawals s' i"]) (use le in \<open>auto intro: withdrawal_le_trans\<close>)
  moreover have "\<exists>evs. ch_log s'' = ch_log s @ evs"
    using le by auto
  ultimately show ?thesis by (simp add: chain_le_def)
qed

lemma process_le:
  assumes "process ex t i s = Ok s'"
  shows "chain_le s s'"
  using assms
  by (cases i) (auto simp: handler_Ok chain_le_def opt_le_def part_les word_less_nat_alt
      word_le_nat_alt unat_word_ariths split: if_splits)

lemma chain_step_le: "chain_step ex others s l s' \<Longrightarrow> chain_le s s'"
proof (erule chain_step_cases [where P = "chain_le s"])
  show "chain_le s (s\<lparr>ch_world := w\<rparr>)" for w
    by (simp add: chain_le_def opt_le_refl)
qed (auto intro: process_le chain_le_refl)

interpretation bridge: progress_order chain_init "chain_step ex others" "chain_inv ex" chain_le
  for ex others
  by unfold_locales (auto intro: chain_le_refl chain_le_trans chain_step_le)

end
