(* ===== verification/Ledger.thy ===== *)
theory Ledger
  imports Bridge
begin

text \<open>
  Conservation of value: the wrapped supply plus all recorded withdrawals never exceeds the
  deposits attested by the federation.  The token program is external, so its documented
  behaviour is the named hypothesis \<open>token_laws\<close>; the result is an invariant of every run.
\<close>

text \<open>
  What the bridge relies on of the SPL token program and of the Metaplex program: creating a
  mint starts its supply at zero and fails when the account exists; minting and burning change
  exactly that mint's supply by exactly the amount, without overflow; the metadata call changes
  no supply; and no other program can raise the supply of a mint whose authority is the
  program's mint-authority address, nor give that authority away.
\<close>

definition token_laws ::
  "'w external \<Rightarrow> ('w \<Rightarrow> 'w \<Rightarrow> bool) \<Rightarrow> ('w \<Rightarrow> pubkey \<Rightarrow> pubkey option) \<Rightarrow> bool" where
  "token_laws ex others mint_authority \<longleftrightarrow>
     (\<forall>w m d a w'. ex_create_mint ex w m d a = Some w' \<longrightarrow>
        ex_mint_supply ex w m = None \<and> ex_mint_supply ex w' m = Some 0 \<and>
        mint_authority w' m = Some a) \<and>
     (\<forall>w m r a amount d w'. ex_mint_to_checked ex w m r a amount d = Some w' \<longrightarrow>
        (\<exists>n. ex_mint_supply ex w m = Some n \<and> unat n + unat amount < 2 ^ 64 \<and>
           ex_mint_supply ex w' m = Some (n + amount)) \<and>
        mint_authority w' m = mint_authority w m) \<and>
     (\<forall>w m u amount d w'. ex_burn_checked ex w m u amount d = Some w' \<longrightarrow>
        (\<exists>n. ex_mint_supply ex w m = Some n \<and> amount \<le> n \<and>
           ex_mint_supply ex w' m = Some (n - amount)) \<and>
        mint_authority w' m = mint_authority w m) \<and>
     (\<forall>w ks d w'. ex_metadata_cpi ex w ks d = Some w' \<longrightarrow>
        ex_mint_supply ex w' = ex_mint_supply ex w \<and> mint_authority w' = mint_authority w) \<and>
     (\<forall>w w' m. others w w' \<longrightarrow> mint_authority w m = Some (pda_address ex MintAuthorityPda) \<longrightarrow>
        (\<forall>n. ex_mint_supply ex w m = Some n \<longrightarrow>
           (\<exists>n'. ex_mint_supply ex w' m = Some n' \<and> n' \<le> n)) \<and>
        mint_authority w' m = mint_authority w m)"

text \<open>Totals are unbounded natural numbers.\<close>

definition minted_total :: "'w chain \<Rightarrow> nat" where
  "minted_total s = map_total (\<lambda>d. unat (dc_amount d)) (ch_claims s)"

definition withdrawn_total :: "'w chain \<Rightarrow> nat" where
  "withdrawn_total s = map_total (\<lambda>r. unat (wr_amount r)) (ch_withdrawals s)"

text \<open>
  The wrapped mint, once configured, belongs to the program, and its supply together with every
  recorded withdrawal never exceeds the deposits the federation attested.
\<close>

definition conserved ::
  "'w external \<Rightarrow> ('w \<Rightarrow> pubkey \<Rightarrow> pubkey option) \<Rightarrow> 'w chain \<Rightarrow> bool" where
  "conserved ex mint_authority s \<longleftrightarrow>
     (\<forall>c. ch_config s = Some c \<longrightarrow> cfg_wrapped_mint c \<noteq> default_pubkey \<longrightarrow>
        mint_authority (ch_world s) (cfg_wrapped_mint c)
          = Some (pda_address ex MintAuthorityPda) \<and>
        (\<exists>n. ex_mint_supply ex (ch_world s) (cfg_wrapped_mint c) = Some n \<and>
           unat n + withdrawn_total s \<le> minted_total s)) \<and>
     (\<forall>c. ch_config s = Some c \<longrightarrow> cfg_wrapped_mint c = default_pubkey \<longrightarrow>
        ch_claims s = Map.empty \<and> ch_withdrawals s = Map.empty)"

lemma token_laws_create:
  "token_laws ex others ma \<Longrightarrow> ex_create_mint ex w m d a = Some w' \<Longrightarrow>
     ex_mint_supply ex w' m = Some 0 \<and> ma w' m = Some a"
  unfolding token_laws_def by metis

lemma token_laws_mint:
  "token_laws ex others ma \<Longrightarrow> ex_mint_to_checked ex w m r a amount d = Some w' \<Longrightarrow>
     (\<exists>n. ex_mint_supply ex w m = Some n \<and> unat n + unat amount < 2 ^ 64 \<and>
        ex_mint_supply ex w' m = Some (n + amount)) \<and> ma w' m = ma w m"
  unfolding token_laws_def by (elim conjE) presburger

lemma token_laws_burn:
  "token_laws ex others ma \<Longrightarrow> ex_burn_checked ex w m u amount d = Some w' \<Longrightarrow>
     (\<exists>n. ex_mint_supply ex w m = Some n \<and> amount \<le> n \<and>
        ex_mint_supply ex w' m = Some (n - amount)) \<and> ma w' m = ma w m"
  unfolding token_laws_def by (elim conjE) presburger

lemma token_laws_other:
  "token_laws ex others ma \<Longrightarrow> others w w' \<Longrightarrow>
     ma w m = Some (pda_address ex MintAuthorityPda) \<Longrightarrow> ex_mint_supply ex w m = Some n \<Longrightarrow>
     (\<exists>n'. ex_mint_supply ex w' m = Some n' \<and> n' \<le> n) \<and> ma w' m = ma w m"
  unfolding token_laws_def by (elim conjE) presburger

lemma token_laws_metadata:
  "token_laws ex others ma \<Longrightarrow> ex_metadata_cpi ex w ks d = Some w' \<Longrightarrow>
     ex_mint_supply ex w' = ex_mint_supply ex w"
  unfolding token_laws_def by (elim conjE) presburger

lemma conserved_frame:
  assumes "conserved ex ma s"
    and "map_option cfg_wrapped_mint (ch_config s') = map_option cfg_wrapped_mint (ch_config s)"
    and "ch_claims s' = ch_claims s" "ch_withdrawals s' = ch_withdrawals s"
    and "ex_mint_supply ex (ch_world s') = ex_mint_supply ex (ch_world s)"
      "ma (ch_world s') = ma (ch_world s)"
  shows "conserved ex ma s'"
  using assms
  by (cases "ch_config s"; cases "ch_config s'")
    (auto simp: conserved_def minted_total_def withdrawn_total_def)

lemma conserved_mint:
  assumes "token_laws ex others ma" "conserved ex ma s"
    and "mint_wrapped ex t m r txid vout a e s = Ok s'"
  shows "conserved ex ma s'"
proof -
  from assms(3) obtain c v w where c: "ch_config s = Some c" "ch_claims s (txid, vout) = None"
    "cfg_wrapped_mint c \<noteq> default_pubkey" "m = cfg_wrapped_mint c"
    and w: "ex_mint_to_checked ex (ch_world s) m r (pda_address ex MintAuthorityPda) a
          WRAPPED_GLC_DECIMALS = Some w"
    and s': "ch_config s' = Some c" "ch_withdrawals s' = ch_withdrawals s" "ch_world s' = w"
      "minted_total s' = minted_total s + unat a"
    unfolding mint_wrapped_Ok by (auto simp: minted_total_def map_total_new)
  from token_laws_mint [OF assms(1) w] obtain n where "ex_mint_supply ex (ch_world s) m = Some n"
    "unat n + unat a < 2 ^ 64" "ex_mint_supply ex w m = Some (n + a)" "ma w m = ma (ch_world s) m"
    by blast
  with assms(2) c s' show ?thesis
    by (auto simp: conserved_def withdrawn_total_def unat_word_ariths)
qed

lemma conserved_burn:
  assumes "token_laws ex others ma" "conserved ex ma s"
    and "burn_wrapped ex t m a addr s = Ok s'"
  shows "conserved ex ma s'"
proof -
  from assms(3) obtain c w where c: "ch_config s = Some c"
    "cfg_wrapped_mint c \<noteq> default_pubkey" "m = cfg_wrapped_mint c"
    and w: "ex_burn_checked ex (ch_world s) m (tx_signer t) a WRAPPED_GLC_DECIMALS = Some w"
    and s': "ch_config s' = Some (c\<lparr>cfg_withdrawal_count := cfg_withdrawal_count c + 1\<rparr>)"
      "ch_claims s' = ch_claims s" "ch_world s' = w"
      "withdrawn_total s' = withdrawn_total s + unat a"
    unfolding burn_wrapped_Ok by (auto simp: withdrawn_total_def map_total_new)
  from token_laws_burn [OF assms(1) w] obtain n where
    "ex_mint_supply ex (ch_world s) m = Some n" "a \<le> n"
    "ex_mint_supply ex w m = Some (n - a)" "ma w m = ma (ch_world s) m" by blast
  with assms(2) c s' show ?thesis
    by (auto simp: conserved_def minted_total_def unat_sub word_le_nat_alt)
qed

lemma conserved_complete:
  assumes "conserved ex ma s" "complete_withdrawal ex t i txid h e s = Ok s'"
  shows "conserved ex ma s'"
proof -
  from assms(2) have "ch_config s' = ch_config s" "ch_claims s' = ch_claims s"
    "ch_world s' = ch_world s" "withdrawn_total s' = withdrawn_total s"
    "ch_withdrawals s \<noteq> Map.empty"
    unfolding complete_withdrawal_Ok by (auto simp: withdrawn_total_def map_total_same)
  with assms(1) show ?thesis by (auto simp: conserved_def minted_total_def)
qed

lemma conserved_create:
  assumes "token_laws ex others ma" "conserved ex ma s" "create_wrapped_mint ex t m s = Ok s'"
  shows "conserved ex ma s'"
proof -
  from assms(3) obtain c c' w where c: "ch_config s = Some c" "cfg_wrapped_mint c = default_pubkey"
    and w: "ex_create_mint ex (ch_world s) m WRAPPED_GLC_DECIMALS (pda_address ex MintAuthorityPda)
      = Some w"
    and s': "ch_config s' = Some c'" "cfg_wrapped_mint c' = m" "ch_claims s' = ch_claims s"
      "ch_withdrawals s' = ch_withdrawals s" "ch_world s' = w"
    unfolding create_wrapped_mint_Ok by auto
  from token_laws_create [OF assms(1) w] assms(2) c s' show ?thesis
    by (simp add: conserved_def minted_total_def withdrawn_total_def)
qed

lemma conserved_initialize:
  assumes "chain_inv ex s" "initialize ex t pd vs th md mw lock cap s = Ok s'"
  shows "conserved ex ma s'"
proof -
  from assms(2) have "ch_config s = None" by (simp add: handler_Ok)
  from chain_inv_uninit [OF assms(1) this] assms(2) show ?thesis
    by (auto simp: handler_Ok conserved_def chain_init_def)
qed

lemma conserved_frames:
  assumes "conserved ex ma s"
  shows "set_paused t b s = Ok s' \<Longrightarrow> conserved ex ma s'"
    and "lower_wrapped_supply_cap t n s = Ok s' \<Longrightarrow> conserved ex ma s'"
    and "transfer_admin t a s = Ok s' \<Longrightarrow> conserved ex ma s'"
    and "accept_admin t s = Ok s' \<Longrightarrow> conserved ex ma s'"
    and "propose_validator_rotation ex t vs th s = Ok s' \<Longrightarrow> conserved ex ma s'"
    and "execute_validator_rotation t s = Ok s' \<Longrightarrow> conserved ex ma s'"
    and "cancel_validator_rotation ex t s = Ok s' \<Longrightarrow> conserved ex ma s'"
    and "propose_wrapped_supply_cap_raise ex t n s = Ok s' \<Longrightarrow> conserved ex ma s'"
    and "execute_wrapped_supply_cap_raise t s = Ok s' \<Longrightarrow> conserved ex ma s'"
  by (auto simp: handler_Ok intro!: conserved_frame [OF assms])

lemma conserved_metadata:
  assumes "token_laws ex others ma" "conserved ex ma s"
  shows "create_token_metadata ex t m md prog uri s = Ok s' \<Longrightarrow> conserved ex ma s'"
    and "update_token_metadata ex t md prog name symbol uri s = Ok s' \<Longrightarrow> conserved ex ma s'"
  using assms
  by (auto simp: handler_Ok token_laws_def split: if_splits intro!: conserved_frame [OF assms(2)])

lemma conserved_other:
  assumes "token_laws ex others ma" "conserved ex ma s" "others (ch_world s) w"
  shows "conserved ex ma (s\<lparr>ch_world := w\<rparr>)"
proof (unfold conserved_def, intro conjI allI impI)
  fix c
  assume c: "ch_config (s\<lparr>ch_world := w\<rparr>) = Some c" "cfg_wrapped_mint c \<noteq> default_pubkey"
  let ?m = "cfg_wrapped_mint c"
  from assms(2) c obtain n where n: "ma (ch_world s) ?m = Some (pda_address ex MintAuthorityPda)"
    "ex_mint_supply ex (ch_world s) ?m = Some n" "unat n + withdrawn_total s \<le> minted_total s"
    by (auto simp: conserved_def)
  from token_laws_other [OF assms(1,3) n(1,2)] obtain n' where
    "ex_mint_supply ex w ?m = Some n'" "n' \<le> n" "ma w ?m = ma (ch_world s) ?m" by blast
  with n show "ma (ch_world (s\<lparr>ch_world := w\<rparr>)) ?m = Some (pda_address ex MintAuthorityPda)"
    "\<exists>n. ex_mint_supply ex (ch_world (s\<lparr>ch_world := w\<rparr>)) ?m = Some n \<and>
       unat n + withdrawn_total (s\<lparr>ch_world := w\<rparr>) \<le> minted_total (s\<lparr>ch_world := w\<rparr>)"
    by (auto simp: withdrawn_total_def minted_total_def word_le_nat_alt)
qed (use assms(2) in \<open>auto simp: conserved_def\<close>)

lemma process_conserved:
  assumes "token_laws ex others ma" "chain_inv ex s" "conserved ex ma s" "process ex t i s = Ok s'"
  shows "conserved ex ma s'"
  using assms(4)
  by (cases i)
    (auto elim: conserved_initialize [OF assms(2)] conserved_mint [OF assms(1,3)]
       conserved_burn [OF assms(1,3)] conserved_complete [OF assms(3)]
       conserved_create [OF assms(1,3)] conserved_frames [OF assms(3)]
       conserved_metadata [OF assms(1,3)])

interpretation ledger: inv_system chain_init "chain_step ex others"
  "\<lambda>s. token_laws ex others ma \<longrightarrow> chain_inv ex s \<and> conserved ex ma s"
  for ex others ma
proof unfold_locales
  show "chain_init s \<Longrightarrow> token_laws ex others ma \<longrightarrow> chain_inv ex s \<and> conserved ex ma s" for s
    by (simp add: bridge.inv_init) (simp add: chain_init_def conserved_def)
  show "token_laws ex others ma \<longrightarrow> chain_inv ex s' \<and> conserved ex ma s'"
    if "token_laws ex others ma \<longrightarrow> chain_inv ex s \<and> conserved ex ma s"
      "chain_step ex others s l s'" for s l s'
  proof
    assume laws: "token_laws ex others ma"
    with that(1) have inv: "chain_inv ex s" "conserved ex ma s" by blast+
    from that(2) have "conserved ex ma s'"
      by (rule chain_step_cases)
        (auto intro: process_conserved [OF laws inv] conserved_other [OF laws inv(2)] inv)
    with chain_step_inv [OF inv(1) that(2)] show "chain_inv ex s' \<and> conserved ex ma s'" ..
  qed
qed

end
