(* ===== verification/Safety.thy ===== *)
theory Safety
  imports Ledger
begin

text \<open>
  The safety properties of the on-chain program over all runs: authorization and provenance of
  mints, completions and rotations, replay protection, the supply cap, the withdrawal queue,
  the timelock, the pause switch and the admin's limits.
\<close>

section \<open>Facts about reachable states\<close>

lemma reachable_validators:
  assumes "chain_inv ex s" "ch_vset s = Some v"
  shows "valid_federation (vs_validators v) (vs_threshold v)"
proof (cases "ch_config s")
  case None
  with chain_inv_uninit [OF assms(1)] assms(2) show ?thesis by (simp add: chain_init_def)
next
  case (Some c)
  from chain_inv_config [OF assms(1) this] assms(2) show ?thesis by (auto simp: vset_inv_def)
qed

lemma inv_max_validators:
  "chain_inv ex s \<Longrightarrow> ch_vset s = Some v \<Longrightarrow> length (vs_validators v) \<le> MAX_VALIDATORS"
  using reachable_validators by (auto simp: valid_federation_def)

lemma inv_claim:
  assumes "chain_inv ex s" "ch_claims s k = Some d"
  shows "\<exists>c v. ch_config s = Some c \<and> ch_vset s = Some v \<and> claim_inv ex v k d"
proof (cases "ch_config s")
  case None
  with chain_inv_uninit [OF assms(1)] assms(2) show ?thesis by (simp add: chain_init_def)
next
  case (Some c)
  from chain_inv_config [OF assms(1) this] assms(2) Some show ?thesis by blast
qed

lemma inv_withdrawal:
  assumes "chain_inv ex s" "ch_withdrawals s i = Some r"
  shows "\<exists>c v. ch_config s = Some c \<and> ch_vset s = Some v \<and> withdrawal_inv ex i r"
proof (cases "ch_config s")
  case None
  with chain_inv_uninit [OF assms(1)] assms(2) show ?thesis by (simp add: chain_init_def)
next
  case (Some c)
  from chain_inv_config [OF assms(1) this] assms(2) Some show ?thesis by blast
qed

lemma inv_pending:
  assumes "chain_inv ex s" "ch_pending s = Some p"
  shows "\<exists>c v. ch_config s = Some c \<and> ch_vset s = Some v \<and> pending_inv ex c v p"
proof (cases "ch_config s")
  case None
  with chain_inv_uninit [OF assms(1)] assms(2) show ?thesis by (simp add: chain_init_def)
next
  case (Some c)
  from chain_inv_config [OF assms(1) this] assms(2) Some show ?thesis by blast
qed

lemma reachable_process:
  "bridge.reachable ex others s \<Longrightarrow> process ex t i s = Ok s' \<Longrightarrow> bridge.reachable ex others s'"
  by (rule bridge.reachable_step) (auto intro: step_ok)

section \<open>Which instruction can cause what\<close>

lemma claim_cause:
  assumes "process ex t i s = Ok s'" "ch_claims s k \<noteq> Some d" "ch_claims s' k = Some d"
  shows "\<exists>m r txid vout a e. i = MintWrapped m r txid vout a e \<and> k = (txid, vout) \<and>
     dc_amount d = a \<and> dc_recipient d = r \<and> dc_epoch d = e"
  using assms by (cases i) (auto simp: handler_Ok split: if_splits)

lemma completion_cause:
  assumes "process ex t i s = Ok s'" "ch_withdrawals s' k = Some r'" "wr_status r' = Completed"
    and "\<not> (\<exists>r. ch_withdrawals s k = Some r \<and> wr_status r = Completed)"
  shows "\<exists>txid h e. i = CompleteWithdrawal k txid h e"
  using assms by (cases i) (auto simp: handler_Ok split: if_splits)

lemma pending_cause:
  assumes "process ex t i s = Ok s'" "ch_pending s \<noteq> Some p" "ch_pending s' = Some p"
  shows "(\<exists>vs th. i = ProposeValidatorRotation vs th \<and> pga_action p = ACTION_PROPOSE_ROTATION \<and>
       pga_validators p = vs \<and> pga_threshold p = th) \<or>
     (\<exists>m. i = ProposeWrappedSupplyCapRaise m \<and> pga_action p = ACTION_PROPOSE_TVL_RAISE \<and>
       pga_proposed_max_wrapped_supply p = m)"
  using assms by (cases i) (auto simp: handler_Ok split: if_splits)

lemma pending_eta:
  assumes "process ex t i s = Ok s'" "ch_pending s \<noteq> Some p" "ch_pending s' = Some p"
  shows "\<exists>c v. ch_config s = Some c \<and> ch_vset s = Some v \<and>
     pga_proposed_under_epoch p = vs_epoch v \<and>
     sint (pga_eta p) = sint (tx_time t) + sint (cfg_governance_timelock_seconds c)"
  using assms by (cases i) (auto simp: handler_Ok sint_checked_add_i64 split: if_splits)

lemma vset_cause:
  assumes "process ex t i s = Ok s'" "ch_vset s = Some v" "ch_vset s' \<noteq> Some v"
  shows "i = ExecuteValidatorRotation"
  using assms by (cases i) (auto simp: handler_Ok split: if_splits)

lemma admin_cause:
  assumes "process ex t i s = Ok s'" "ch_config s = Some c" "ch_config s' = Some c'"
    "cfg_admin c' \<noteq> cfg_admin c"
  shows "i = AcceptAdmin \<and> cfg_pending_admin c = Some (tx_signer t) \<and> cfg_admin c' = tx_signer t"
  using assms by (cases i) (auto simp: handler_Ok split: if_splits)

lemma cap_cause:
  assumes "process ex t i s = Ok s'" "ch_config s = Some c" "ch_config s' = Some c'"
    "cfg_max_wrapped_supply c < cfg_max_wrapped_supply c'"
  shows "i = ExecuteWrappedSupplyCapRaise"
  using assms by (cases i) (auto simp: handler_Ok split: if_splits)

lemma supply_cause:
  assumes "token_laws ex others ma" "process ex t i s = Ok s'" "ch_config s = Some c"
    and "cfg_wrapped_mint c \<noteq> default_pubkey"
    and "ex_mint_supply ex (ch_world s) (cfg_wrapped_mint c) = Some n"
      "ex_mint_supply ex (ch_world s') (cfg_wrapped_mint c) = Some n'" "n < n'"
  shows "\<exists>r txid vout a e. i = MintWrapped (cfg_wrapped_mint c) r txid vout a e"
proof (cases i)
  case (BurnWrapped m a addr)
  with assms(2,3) obtain w where m: "m = cfg_wrapped_mint c"
    and "ex_burn_checked ex (ch_world s) m (tx_signer t) a WRAPPED_GLC_DECIMALS = Some w"
      "ch_world s' = w" by (auto simp: burn_wrapped_Ok)
  with token_laws_burn [OF assms(1) this(2)] assms(5,6) have "n' = n - a" "a \<le> n" by auto
  with assms(7) show ?thesis by (simp add: word_sub_le leD)
qed (use assms in \<open>auto simp: handler_Ok dest: token_laws_metadata split: if_splits\<close>)

text \<open>A label that caused a change of the program's accounts is a successful instruction.\<close>

lemma step_cause:
  assumes "chain_step ex others s l s'" "\<not> P s" "P s'" "\<And>w. P (s\<lparr>ch_world := w\<rparr>) \<longleftrightarrow> P s"
  shows "\<exists>t i. l = Instr t i \<and> process ex t i s = Ok s'"
  using assms by (auto elim!: chain_stepE)

end
