(* ===== verification/Demo.thy ===== *)
theory Demo
  imports Safety
begin

text \<open>
  A concrete environment and a concrete life of the bridge, on which the hypotheses of the
  safety properties are discharged: a token ledger that keeps supply and authority per mint, a
  three-validator federation with threshold two, and the states of a run that initializes the
  bridge, creates the mint, mints a deposit, burns part of it, completes the withdrawal, and
  rotates the validator set after the timelock.
\<close>

type_synonym ledger = "pubkey \<Rightarrow> (u64 \<times> pubkey) option"

definition demo_mint_to :: "ledger \<Rightarrow> pubkey \<Rightarrow> pubkey \<Rightarrow> pubkey \<Rightarrow> u64 \<Rightarrow> u8 \<Rightarrow> ledger option" where
  "demo_mint_to w m r a amount d =
     (case w m of None \<Rightarrow> None
      | Some (n, a') \<Rightarrow> if a = a' \<and> unat n + unat amount < 2 ^ 64
          then Some (w(m \<mapsto> (n + amount, a'))) else None)"

definition demo_burn :: "ledger \<Rightarrow> pubkey \<Rightarrow> pubkey \<Rightarrow> u64 \<Rightarrow> u8 \<Rightarrow> ledger option" where
  "demo_burn w m u amount d =
     (case w m of None \<Rightarrow> None
      | Some (n, a') \<Rightarrow> if amount \<le> n then Some (w(m \<mapsto> (n - amount, a'))) else None)"

definition demo_create :: "ledger \<Rightarrow> pubkey \<Rightarrow> u8 \<Rightarrow> pubkey \<Rightarrow> ledger option" where
  "demo_create w m d a = (if w m = None then Some (w(m \<mapsto> (0, a))) else None)"

definition demo_ex :: "ledger external" where
  "demo_ex =
     \<lparr>ex_hash = (\<lambda>bs. from_le (take 32 bs)), ex_ed25519_program = 0xED,
      ex_find_program_address = (\<lambda>seeds prog. (from_le (take 32 (concat seeds)), 255)),
      ex_programdata_address = Some 5,
      ex_programdata = (\<lambda>w k. if k = 5 then Some (Some 100) else None),
      ex_mint_supply = (\<lambda>w m. map_option fst (w m)), ex_has_ata = (\<lambda>w m u. w m \<noteq> None),
      ex_create_mint = demo_create, ex_mint_to_checked = demo_mint_to,
      ex_burn_checked = demo_burn, ex_account = (\<lambda>w k. (0, [])),
      ex_metadata_cpi = (\<lambda>w ks d. Some w)\<rparr>"

definition demo_authority :: "ledger \<Rightarrow> pubkey \<Rightarrow> pubkey option" where
  "demo_authority w m = map_option snd (w m)"

text \<open>Other programs: holders burning tokens directly, on any mint.\<close>

definition demo_others :: "ledger \<Rightarrow> ledger \<Rightarrow> bool" where
  "demo_others w w' \<longleftrightarrow> (\<exists>m u amount d. demo_burn w m u amount d = Some w')"

lemma demo_ex_simps [simp]:
  "ex_hash demo_ex = (\<lambda>bs. from_le (take 32 bs))" "ex_ed25519_program demo_ex = 0xED"
  "ex_programdata_address demo_ex = Some 5"
  "ex_programdata demo_ex w k = (if k = 5 then Some (Some 100) else None)"
  "ex_mint_supply demo_ex w m = map_option fst (w m)"
  "ex_has_ata demo_ex w m u \<longleftrightarrow> w m \<noteq> None"
  "ex_create_mint demo_ex = demo_create" "ex_mint_to_checked demo_ex = demo_mint_to"
  "ex_burn_checked demo_ex = demo_burn" "ex_metadata_cpi demo_ex w ks d = Some w"
  by (simp_all add: demo_ex_def)

lemma demo_mint_to_Some:
  "demo_mint_to w m r a amount d = Some w' \<longleftrightarrow>
     (\<exists>n. w m = Some (n, a) \<and> unat n + unat amount < 2 ^ 64 \<and> w' = w(m \<mapsto> (n + amount, a)))"
  by (auto simp: demo_mint_to_def split: option.splits if_splits)

lemma demo_burn_Some:
  "demo_burn w m u amount d = Some w' \<longleftrightarrow>
     (\<exists>n a. w m = Some (n, a) \<and> amount \<le> n \<and> w' = w(m \<mapsto> (n - amount, a)))"
  by (auto simp: demo_burn_def split: option.splits if_splits)

lemma demo_create_Some:
  "demo_create w m d a = Some w' \<longleftrightarrow> w m = None \<and> w' = w(m \<mapsto> (0, a))"
  by (auto simp: demo_create_def)

lemmas demo_ledger_simps = demo_mint_to_Some demo_burn_Some demo_create_Some

lemma demo_token_laws: "token_laws demo_ex demo_others demo_authority"
  unfolding token_laws_def demo_others_def
  by (auto simp: demo_ledger_simps demo_authority_def word_sub_le)

text \<open>A transaction that carries a proof built by the relayer from two validators.\<close>

definition demo_sigs :: "(pubkey \<times> signature) list" where
  "demo_sigs = [(1, 11), (3, 13)]"

definition demo_verify :: "pubkey \<Rightarrow> signature \<Rightarrow> bytes \<Rightarrow> bool" where
  "demo_verify pk sig msg \<longleftrightarrow> (pk, sig) \<in> set demo_sigs"

definition demo_tx :: "pubkey \<Rightarrow> i64 \<Rightarrow> bytes \<Rightarrow> tx" where
  "demo_tx signer time msg =
     \<lparr>tx_signer = signer, tx_slot = 9, tx_time = time,
      tx_prev = Some (build_ed25519_instruction 0xED demo_sigs msg)\<rparr>"

lemma demo_tx_simps [simp]:
  "tx_signer (demo_tx k n msg) = k" "tx_slot (demo_tx k n msg) = 9" "tx_time (demo_tx k n msg) = n"
  by (simp_all add: demo_tx_def)

lemma demo_federation_approved:
  assumes "length msg < 1000" "vs_validators v = [1, 2, 3]" "vs_threshold v = 2"
  shows "federation_approved demo_ex (demo_tx k n msg) v msg"
proof -
  have "count_unique_validator_signers (build_ed25519_data demo_sigs msg) msg [1, 2, 3] = Ok 2"
    by (rule build_then_verify [THEN iffD2]) (use assms in \<open>simp_all add: demo_sigs_def MAX_VALIDATORS_def\<close>)
  then show ?thesis
    using assms
    by (simp add: federation_approved_def demo_tx_def build_ed25519_instruction_def)
qed

lemma demo_precompile_verified:
  assumes "length msg < 1000"
  shows "precompile_verified demo_verify demo_ex (demo_tx k n msg)"
  unfolding precompile_verified_def
proof (intro allI impI)
  fix data i pk sig m
  assume d: "tx_prev (demo_tx k n msg) = Some (ex_ed25519_program demo_ex, data)"
    and i: "i < unat (data ! 0)" and e: "ed25519_entry data i pk sig m"
  from d have data: "data = build_ed25519_data demo_sigs msg"
    by (simp add: demo_tx_def build_ed25519_instruction_def)
  then have "unat (data ! 0) = length demo_sigs"
    by (simp add: build_ed25519_layout Let_def demo_sigs_def)
  with i have "i < length demo_sigs" by simp
  from build_ed25519_entry [OF this, of msg] assms e data
  have "pk = fst (demo_sigs ! i)" "sig = snd (demo_sigs ! i)"
    using ed25519_entry_unique [of data i pk sig m] by (auto simp: demo_sigs_def)
  with \<open>i < length demo_sigs\<close> show "demo_verify pk sig m"
    by (simp add: demo_verify_def)
qed

section \<open>A run\<close>

definition demo_config :: bridge_config where
  "demo_config =
     \<lparr>cfg_protocol_version = PROTOCOL_VERSION, cfg_admin = 100, cfg_pending_admin = None,
      cfg_paused = False, cfg_withdrawal_count = 0, cfg_min_deposit = 10,
      cfg_min_withdrawal = 10, cfg_bump = 255, cfg_wrapped_mint = default_pubkey,
      cfg_mint_authority_bump = 0, cfg_governance_timelock_seconds = 60,
      cfg_max_wrapped_supply = 1000, cfg_reserved = replicate 15 0\<rparr>"

definition demo_vset :: validator_set where
  "demo_vset =
     \<lparr>vs_epoch = 0, vs_threshold = 2, vs_bump = 255, vs_validators = [1, 2, 3],
      vs_reserved = replicate 32 0\<rparr>"

definition demo0 :: "ledger chain" where
  "demo0 = \<lparr>ch_config = None, ch_vset = None, ch_pending = None, ch_claims = Map.empty,
     ch_withdrawals = Map.empty, ch_world = Map.empty, ch_log = []\<rparr>"

text \<open>After \<open>initialize\<close>.\<close>

definition demo1 :: "ledger chain" where
  "demo1 = demo0\<lparr>ch_config := Some demo_config, ch_vset := Some demo_vset,
     ch_log := [BridgeInitialized 100 PROTOCOL_VERSION 2 3]\<rparr>"

definition demo_init_ix :: instruction where
  "demo_init_ix = Initialize 5 [1, 2, 3] 2 10 10 60 1000"

lemma demo_bump [simp]: "pda_bump demo_ex p = 255"
  by (simp add: pda_bump_def demo_ex_def)

lemma demo_initialize: "process demo_ex (demo_tx 100 0 []) demo_init_ix demo0 = Ok demo1"
  by (simp add: demo_init_ix_def initialize_Ok demo0_def demo1_def demo_config_def demo_vset_def
      valid_federation_def MAX_VALIDATORS_def default_pubkey_def)

text \<open>After \<open>create_wrapped_mint\<close>.\<close>

abbreviation demo_pda :: pubkey where "demo_pda \<equiv> pda_address demo_ex MintAuthorityPda"

definition demo_config2 :: bridge_config where
  "demo_config2 = demo_config\<lparr>cfg_wrapped_mint := 7, cfg_mint_authority_bump := 255\<rparr>"

definition demo2 :: "ledger chain" where
  "demo2 = demo1\<lparr>ch_config := Some demo_config2, ch_world := [7 \<mapsto> (0, demo_pda)],
     ch_log := ch_log demo1 @ [WrappedMintCreated 7 demo_pda WRAPPED_GLC_DECIMALS]\<rparr>"

lemma demo_create_mint:
  "process demo_ex (demo_tx 100 0 []) (CreateWrappedMint 7) demo1 = Ok demo2"
  by (simp add: create_wrapped_mint_Ok demo_ledger_simps demo1_def demo0_def demo2_def
      demo_config_def demo_config2_def default_pubkey_def)

text \<open>After \<open>mint_wrapped\<close> of 500 units to the holder 42.\<close>

definition demo_claim_msg :: bytes where
  "demo_claim_msg = deposit_claim_message PROTOCOL_VERSION PROGRAM_ID 0 0xAA 1 500 42 7"

definition demo_claim :: deposit_claim where
  "demo_claim =
     \<lparr>dc_txid = 0xAA, dc_vout = 1, dc_amount = 500, dc_recipient = 42, dc_epoch = 0,
      dc_protocol_version = PROTOCOL_VERSION, dc_slot_created = 9, dc_bump = 255,
      dc_reserved = replicate 16 0\<rparr>"

definition demo3 :: "ledger chain" where
  "demo3 = demo2\<lparr>ch_claims := [(0xAA, 1) \<mapsto> demo_claim], ch_world := [7 \<mapsto> (500, demo_pda)],
     ch_log := ch_log demo2 @ [DepositClaimMinted 0xAA 1 42 500 0]\<rparr>"

lemmas demo_state_defs = demo0_def demo1_def demo2_def demo3_def demo_config_def demo_config2_def
  demo_vset_def demo_claim_def

lemma demo_msg_len: "length demo_claim_msg < 1000"
  by (simp add: demo_claim_msg_def message_layouts)

lemma demo_mint:
  "process demo_ex (demo_tx 77 5 demo_claim_msg) (MintWrapped 7 42 0xAA 1 500 0) demo2 = Ok demo3"
proof -
  have "federation_approved demo_ex (demo_tx 77 5 demo_claim_msg) demo_vset demo_claim_msg"
    by (rule demo_federation_approved) (simp_all add: demo_msg_len demo_vset_def)
  then show ?thesis
    by (simp add: mint_wrapped_Ok demo_ledger_simps demo_state_defs demo_claim_msg_def
        default_pubkey_def)
qed

text \<open>After \<open>burn_wrapped\<close> of 200 units by the holder.\<close>

definition demo_request :: withdrawal_request where
  "demo_request =
     \<lparr>wr_index = 0, wr_amount = 200, wr_requester = 42,
      wr_glc_address = [71, 49] @ replicate 62 0, wr_glc_address_len = 2, wr_status = Pending,
      wr_requested_at_slot = 9, wr_protocol_version = PROTOCOL_VERSION, wr_bump = 255,
      wr_reserved = replicate 48 0\<rparr>"

definition demo4 :: "ledger chain" where
  "demo4 = demo3\<lparr>ch_config := Some (demo_config2\<lparr>cfg_withdrawal_count := 1\<rparr>),
     ch_withdrawals := [0 \<mapsto> demo_request], ch_world := [7 \<mapsto> (300, demo_pda)],
     ch_log := ch_log demo3 @ [WithdrawalRequested 0 42 200 [71, 49]]\<rparr>"

lemma demo_burn_step:
  "process demo_ex (demo_tx 42 6 []) (BurnWrapped 7 200 [71, 49]) demo3 = Ok demo4"
  by (simp add: burn_wrapped_Ok demo_ledger_simps demo_state_defs demo4_def demo_request_def
      default_pubkey_def MAX_GLC_ADDRESS_LEN_def copy_at_def)

text \<open>After \<open>complete_withdrawal\<close>.\<close>

definition demo_done_msg :: bytes where
  "demo_done_msg =
     completion_message demo_ex 0 0xBB 77 demo_request (demo_config2\<lparr>cfg_withdrawal_count := 1\<rparr>)
       demo_vset"

definition demo_done :: withdrawal_request where
  "demo_done = set_payout_record demo_request 0xBB 77\<lparr>wr_status := Completed\<rparr>"

definition demo5 :: "ledger chain" where
  "demo5 = demo4\<lparr>ch_withdrawals := [0 \<mapsto> demo_done],
     ch_log := ch_log demo4 @ [WithdrawalCompleted 0 0xBB 77 200 0]\<rparr>"

lemma demo_done_len: "length demo_done_msg < 1000"
  by (simp add: demo_done_msg_def completion_message_def message_layouts)

lemma demo_complete:
  "process demo_ex (demo_tx 77 7 demo_done_msg) (CompleteWithdrawal 0 0xBB 77 0) demo4 = Ok demo5"
proof -
  have a: "federation_approved demo_ex (demo_tx 77 7 demo_done_msg) demo_vset demo_done_msg"
    by (rule demo_federation_approved) (simp_all add: demo_done_len demo_vset_def)
  have v: "ch_vset demo4 = Some demo_vset" and w: "ch_withdrawals demo4 = [0 \<mapsto> demo_request]"
    and c: "ch_config demo4 = Some (demo_config2\<lparr>cfg_withdrawal_count := 1\<rparr>)"
    by (simp_all add: demo4_def demo3_def demo2_def demo1_def)
  have g: "wr_status demo_request = Pending" "payout_record_is_unset demo_request"
    "unat (wr_glc_address_len demo_request) = 2" "length (wr_glc_address demo_request) = 64"
    "wr_amount demo_request = 200" "\<not> cfg_paused demo_config2" "vs_epoch demo_vset = 0"
    by (simp_all add: demo_request_def payout_record_is_unset_def payout_offsets list_all_iff
        demo_config2_def demo_config_def demo_vset_def)
  show ?thesis
    using a unfolding demo_done_msg_def
    by (simp add: complete_withdrawal_Ok v w c g demo5_def demo_done_def)
qed

text \<open>After proposing the federation [4, 5, 6], and after executing it once the lock elapsed.\<close>

definition demo_rot_msg :: bytes where
  "demo_rot_msg =
     rotation_message demo_ex [4, 5, 6] 2 (demo_config2\<lparr>cfg_withdrawal_count := 1\<rparr>) demo_vset"

definition demo_pending :: pending_governance_action where
  "demo_pending =
     \<lparr>pga_action = ACTION_PROPOSE_ROTATION, pga_proposed_under_epoch = 0, pga_eta = 1060,
      pga_threshold = 2, pga_validators = [4, 5, 6], pga_bump = 255,
      pga_proposed_max_wrapped_supply = 0, pga_reserved = replicate 24 0\<rparr>"

definition demo6 :: "ledger chain" where
  "demo6 = demo5\<lparr>ch_pending := Some demo_pending,
     ch_log := ch_log demo5 @ [GovernanceActionProposed ACTION_PROPOSE_ROTATION 0 1060 2 3]\<rparr>"

definition demo7 :: "ledger chain" where
  "demo7 = demo6\<lparr>ch_vset := Some (demo_vset\<lparr>vs_epoch := 1, vs_validators := [4, 5, 6]\<rparr>),
     ch_pending := None,
     ch_log := ch_log demo6 @ [GovernanceActionExecuted ACTION_PROPOSE_ROTATION 1]\<rparr>"

lemma demo5_parts:
  "ch_config demo5 = Some (demo_config2\<lparr>cfg_withdrawal_count := 1\<rparr>)"
  "ch_vset demo5 = Some demo_vset" "ch_pending demo5 = None"
  by (simp_all add: demo5_def demo4_def demo3_def demo2_def demo1_def demo0_def)

lemma demo_federation_valid:
  "valid_federation [4, 5, 6] 2" "valid_federation [1, 2, 3] 2"
  by (simp_all add: valid_federation_def MAX_VALIDATORS_def default_pubkey_def)

lemma demo_rot_len: "length demo_rot_msg < 1000"
  by (simp add: demo_rot_msg_def rotation_message_def message_layouts)

lemma demo_propose:
  "process demo_ex (demo_tx 77 1000 demo_rot_msg) (ProposeValidatorRotation [4, 5, 6] 2) demo5
     = Ok demo6"
proof -
  have a: "federation_approved demo_ex (demo_tx 77 1000 demo_rot_msg) demo_vset demo_rot_msg"
    by (rule demo_federation_approved) (simp_all add: demo_rot_len demo_vset_def)
  have "checked_add_i64 1000 (cfg_governance_timelock_seconds demo_config2) = Some 1060"
    by (simp add: demo_config2_def demo_config_def checked_add_i64_def)
  then show ?thesis
    using a unfolding demo_rot_msg_def
    by (simp add: propose_validator_rotation_Ok demo5_parts demo_federation_valid demo6_def
        demo_pending_def demo_vset_def)
qed

lemma demo_execute: "process demo_ex (demo_tx 55 1060 []) ExecuteValidatorRotation demo6 = Ok demo7"
  by (simp add: execute_validator_rotation_Ok demo6_def demo7_def demo5_parts demo_federation_valid
      demo_pending_def demo_vset_def)

definition demo_base_labels :: "ledger label list" where
  "demo_base_labels =
     [Instr (demo_tx 100 0 []) demo_init_ix, Instr (demo_tx 100 0 []) (CreateWrappedMint 7),
      Instr (demo_tx 77 5 demo_claim_msg) (MintWrapped 7 42 0xAA 1 500 0),
      Instr (demo_tx 42 6 []) (BurnWrapped 7 200 [71, 49]),
      Instr (demo_tx 77 7 demo_done_msg) (CompleteWithdrawal 0 0xBB 77 0)]"

definition demo_labels :: "ledger label list" where
  "demo_labels = demo_base_labels @
     [Instr (demo_tx 77 1000 demo_rot_msg) (ProposeValidatorRotation [4, 5, 6] 2)]"

lemma demo_init: "chain_init demo0"
  by (simp add: chain_init_def demo0_def)

lemmas demo_steps = demo_initialize [THEN step_ok] demo_create_mint [THEN step_ok]
  demo_mint [THEN step_ok] demo_burn_step [THEN step_ok] demo_complete [THEN step_ok]
  demo_propose [THEN step_ok] demo_execute [THEN step_ok]

lemma demo_base_run: "bridge.run demo_ex demo_others demo0 demo_base_labels demo5"
  unfolding demo_base_labels_def
  by ((rule bridge.run_Cons, rule demo_steps)+, rule bridge.run_Nil)

lemma demo_run: "bridge.run demo_ex demo_others demo0 demo_labels demo6"
  unfolding demo_labels_def
  by (rule bridge.run_append [OF demo_base_run bridge.run_one [OF demo_steps(6)]])

lemma demo_reachable:
  "bridge.reachable demo_ex demo_others demo1" "bridge.reachable demo_ex demo_others demo2"
  "bridge.reachable demo_ex demo_others demo3" "bridge.reachable demo_ex demo_others demo4"
  "bridge.reachable demo_ex demo_others demo5" "bridge.reachable demo_ex demo_others demo6"
proof -
  show 1: "bridge.reachable demo_ex demo_others demo1"
    by (rule bridge.reachable_step [OF bridge.reachable_init [OF demo_init] demo_steps(1)])
  show 2: "bridge.reachable demo_ex demo_others demo2"
    by (rule bridge.reachable_step [OF 1 demo_steps(2)])
  show 3: "bridge.reachable demo_ex demo_others demo3"
    by (rule bridge.reachable_step [OF 2 demo_steps(3)])
  show 4: "bridge.reachable demo_ex demo_others demo4"
    by (rule bridge.reachable_step [OF 3 demo_steps(4)])
  show 5: "bridge.reachable demo_ex demo_others demo5"
    by (rule bridge.reachable_step [OF 4 demo_steps(5)])
  show "bridge.reachable demo_ex demo_others demo6"
    by (rule bridge.reachable_step [OF 5 demo_steps(6)])
qed

section \<open>A queued cap raise\<close>

abbreviation demo_config5 :: bridge_config where
  "demo_config5 \<equiv> demo_config2\<lparr>cfg_withdrawal_count := 1\<rparr>"

definition demo_raise_msg :: bytes where
  "demo_raise_msg = raise_message demo_ex 5000 demo_config5 demo_vset"

definition demo_raise :: pending_governance_action where
  "demo_raise =
     \<lparr>pga_action = ACTION_PROPOSE_TVL_RAISE, pga_proposed_under_epoch = 0, pga_eta = 2060,
      pga_threshold = 0, pga_validators = [], pga_bump = 255,
      pga_proposed_max_wrapped_supply = 5000, pga_reserved = replicate 24 0\<rparr>"

text \<open>The raise is queued, the admin lowers the cap, the raise is executed.\<close>

definition demo8 :: "ledger chain" where
  "demo8 = demo5\<lparr>ch_pending := Some demo_raise,
     ch_log := ch_log demo5 @ [GovernanceActionProposed ACTION_PROPOSE_TVL_RAISE 0 2060 0 0]\<rparr>"

definition demo9 :: "ledger chain" where
  "demo9 = demo8\<lparr>ch_config := Some (demo_config5\<lparr>cfg_max_wrapped_supply := 400\<rparr>),
     ch_log := ch_log demo8 @ [WrappedSupplyCapChanged 1000 400 False]\<rparr>"

definition demo10 :: "ledger chain" where
  "demo10 = demo9\<lparr>ch_config := Some (demo_config5\<lparr>cfg_max_wrapped_supply := 5000\<rparr>),
     ch_pending := None,
     ch_log := ch_log demo9 @ [WrappedSupplyCapChanged 400 5000 True,
       GovernanceActionExecuted ACTION_PROPOSE_TVL_RAISE 0]\<rparr>"

lemma demo_raise_len: "length demo_raise_msg < 1000"
  by (simp add: demo_raise_msg_def raise_message_def message_layouts)

lemma demo_propose_raise:
  "process demo_ex (demo_tx 77 2000 demo_raise_msg) (ProposeWrappedSupplyCapRaise 5000) demo5
     = Ok demo8"
proof -
  have a: "federation_approved demo_ex (demo_tx 77 2000 demo_raise_msg) demo_vset demo_raise_msg"
    by (rule demo_federation_approved) (simp_all add: demo_raise_len demo_vset_def)
  have "checked_add_i64 2000 (cfg_governance_timelock_seconds demo_config2) = Some 2060"
    "cfg_max_wrapped_supply demo_config2 < 5000"
    by (simp_all add: demo_config2_def demo_config_def checked_add_i64_def)
  then show ?thesis
    using a unfolding demo_raise_msg_def
    by (simp add: propose_wrapped_supply_cap_raise_Ok demo5_parts demo8_def demo_raise_def
        demo_vset_def)
qed

lemma demo_lower:
  "process demo_ex (demo_tx 100 2010 []) (LowerWrappedSupplyCap 400) demo8 = Ok demo9"
  by (simp add: lower_wrapped_supply_cap_Ok demo8_def demo9_def demo5_parts demo_config2_def
      demo_config_def)

lemma demo_execute_raise:
  "process demo_ex (demo_tx 55 2060 []) ExecuteWrappedSupplyCapRaise demo9 = Ok demo10"
  by (simp add: execute_wrapped_supply_cap_raise_Ok demo8_def demo9_def demo10_def demo5_parts
      demo_raise_def demo_vset_def)

lemma demo8_reachable: "bridge.reachable demo_ex demo_others demo8"
  by (rule reachable_process [OF demo_reachable(5) demo_propose_raise])

definition demo_raise_labels :: "ledger label list" where
  "demo_raise_labels = demo_base_labels @
     [Instr (demo_tx 77 2000 demo_raise_msg) (ProposeWrappedSupplyCapRaise 5000),
      Instr (demo_tx 100 2010 []) (LowerWrappedSupplyCap 400)]"

lemma demo_raise_run: "bridge.run demo_ex demo_others demo0 demo_raise_labels demo9"
  unfolding demo_raise_labels_def
  by (rule bridge.run_append [OF demo_base_run bridge.run_Cons [OF
        demo_propose_raise [THEN step_ok] bridge.run_one [OF demo_lower [THEN step_ok]]]])

lemma demo_labels_verified:
  "Instr t i \<in> set demo_labels \<Longrightarrow> precompile_verified demo_verify demo_ex t"
  "Instr t i \<in> set demo_raise_labels \<Longrightarrow> precompile_verified demo_verify demo_ex t"
  using demo_msg_len demo_done_len demo_rot_len demo_raise_len
  by (auto simp: demo_base_labels_def demo_labels_def demo_raise_labels_def demo_precompile_verified)

section \<open>A cancelled rotation\<close>

definition demo_cancel_msg :: bytes where
  "demo_cancel_msg = cancel_message demo_ex demo_pending demo_config5 demo_vset"

definition demo11 :: "ledger chain" where
  "demo11 = demo6\<lparr>ch_pending := None,
     ch_log := ch_log demo6 @ [GovernanceActionCancelled ACTION_PROPOSE_ROTATION 1060]\<rparr>"

lemma demo_cancel:
  "process demo_ex (demo_tx 77 1010 demo_cancel_msg) CancelValidatorRotation demo6 = Ok demo11"
proof -
  have "length demo_cancel_msg < 1000"
    by (simp add: demo_cancel_msg_def cancel_message_def message_layouts)
  then have "federation_approved demo_ex (demo_tx 77 1010 demo_cancel_msg) demo_vset demo_cancel_msg"
    by (rule demo_federation_approved) (simp_all add: demo_vset_def)
  then show ?thesis
    unfolding demo_cancel_msg_def
    by (simp add: cancel_validator_rotation_Ok demo6_def demo11_def demo5_parts demo_pending_def)
qed

end
