(* ===== verification/Guarantees.thy ===== *)
theory Guarantees
  imports Demo
begin

text \<open>
  The guarantees of the on-chain program, stated over all reachable states and all runs, each
  with a concrete instance on the run of \<open>Demo\<close>.
\<close>

section \<open>Minting\<close>

text \<open>
  C1: No mint without the federation.  In every reachable state, whenever \<open>mint_wrapped\<close>
  succeeds, at least \<open>threshold\<close> distinct members of the current validator set hold valid
  signatures over the canonical claim message for exactly this transaction id, output index,
  amount and recipient, under the current epoch and the configured mint.
\<close>

theorem mint_requires_quorum:
  assumes "bridge.reachable ex others s"
    and "mint_wrapped ex t m r txid vout a e s = Ok s'"
    and "precompile_verified verify ex t"
  shows "\<exists>c v. ch_config s = Some c \<and> ch_vset s = Some v \<and> m = cfg_wrapped_mint c \<and>
     1 \<le> unat (vs_threshold v) \<and>
     quorum_signed verify v
       (deposit_claim_message (cfg_protocol_version c) PROGRAM_ID (vs_epoch v) txid vout a r m)"
proof -
  note inv = bridge.reachable_inv [OF assms(1)]
  from mint_gate.signed_by_quorum [OF assms(2,3) inv_max_validators [OF inv]]
  obtain c v where cv: "ch_config s = Some c" "ch_vset s = Some v"
    and q: "quorum_signed verify v (mint_message r txid vout a c v s)" by blast
  from assms(2) cv have "m = cfg_wrapped_mint c" by (auto simp: mint_wrapped_Ok)
  moreover have "1 \<le> unat (vs_threshold v)"
    using reachable_validators [OF inv cv(2)] by (simp add: valid_federation_def)
  ultimately show ?thesis using cv q by (auto simp: mint_message_def)
qed

theorem mint_requires_quorum_witness:
  "\<exists>c v. ch_config demo2 = Some c \<and> ch_vset demo2 = Some v \<and> 7 = cfg_wrapped_mint c \<and>
     1 \<le> unat (vs_threshold v) \<and>
     quorum_signed demo_verify v
       (deposit_claim_message (cfg_protocol_version c) PROGRAM_ID (vs_epoch v) 0xAA 1 500 42 7)"
  by (rule mint_requires_quorum [OF demo_reachable(2) demo_mint [unfolded process.simps]
        demo_precompile_verified [OF demo_msg_len]])

text \<open>
  C2: Every deposit claim has a history.  A claim found in any reachable state was created by one
  transaction of the run, which minted exactly its amount to exactly its recipient, in a state
  where the claim did not exist yet, under the proof of a quorum of the validator set of the
  epoch the claim records.
\<close>

theorem claim_provenance:
  assumes "chain_init s0" "bridge.run ex others s0 ls s" "ch_claims s (txid, vout) = Some d"
    and "\<And>t i. Instr t i \<in> set ls \<Longrightarrow> precompile_verified verify ex t"
  shows "\<exists>ls1 t m ls2 s1 s2 c v.
     ls = ls1 @ Instr t (MintWrapped m (dc_recipient d) txid vout (dc_amount d) (dc_epoch d)) # ls2 \<and>
     bridge.run ex others s0 ls1 s1 \<and> ch_claims s1 (txid, vout) = None \<and>
     mint_wrapped ex t m (dc_recipient d) txid vout (dc_amount d) (dc_epoch d) s1 = Ok s2 \<and>
     bridge.run ex others s2 ls2 s \<and>
     ch_config s1 = Some c \<and> ch_vset s1 = Some v \<and> vs_epoch v = dc_epoch d \<and>
     quorum_signed verify v
       (deposit_claim_message (cfg_protocol_version c) PROGRAM_ID (dc_epoch d) txid vout
          (dc_amount d) (dc_recipient d) m)"
proof -
  let ?P = "\<lambda>s. ch_claims s (txid, vout) = Some d"
  have "\<not> ?P s0" using assms(1) by (simp add: chain_init_def)
  from bridge.run_cause [OF assms(2), of ?P, OF this assms(3)]
  obtain ls1 l ls2 s1 s2 where ls: "ls = ls1 @ l # ls2" and r1: "bridge.run ex others s0 ls1 s1"
    and P: "\<not> ?P s1" "?P s2" and st: "chain_step ex others s1 l s2"
    and r2: "bridge.run ex others s2 ls2 s" by blast
  from step_cause [OF st, of ?P, OF P(1,2)] obtain t i where l: "l = Instr t i"
    and p: "process ex t i s1 = Ok s2" by auto
  from claim_cause [OF p P] obtain m where i:
    "i = MintWrapped m (dc_recipient d) txid vout (dc_amount d) (dc_epoch d)" by blast
  have mint: "mint_wrapped ex t m (dc_recipient d) txid vout (dc_amount d) (dc_epoch d) s1 = Ok s2"
    using p i by simp
  have inv: "chain_inv ex s1"
    by (rule bridge.inv_run [OF r1 bridge.inv_init [OF assms(1)]])
  have pv: "precompile_verified verify ex t" using assms(4) [of t i] ls l by simp
  from mint obtain c v where cv: "ch_config s1 = Some c" "ch_vset s1 = Some v"
    "m = cfg_wrapped_mint c" "dc_epoch d = vs_epoch v" "ch_claims s1 (txid, vout) = None"
    and ap: "federation_approved ex t v (deposit_claim_message (cfg_protocol_version c) PROGRAM_ID
      (vs_epoch v) txid vout (dc_amount d) (dc_recipient d) m)"
    unfolding mint_wrapped_Ok by blast
  from federation_approved_quorum [OF ap pv inv_max_validators [OF inv cv(2)]] cv ls l i r1 r2 mint
  show ?thesis by (metis (no_types, lifting))
qed

theorem claim_provenance_witness:
  "\<exists>ls1 t m ls2 s1 s2 c v.
     demo_labels = ls1 @ Instr t (MintWrapped m 42 0xAA 1 500 0) # ls2 \<and>
     bridge.run demo_ex demo_others demo0 ls1 s1 \<and> ch_claims s1 (0xAA, 1) = None \<and>
     mint_wrapped demo_ex t m 42 0xAA 1 500 0 s1 = Ok s2 \<and>
     bridge.run demo_ex demo_others s2 ls2 demo6 \<and>
     ch_config s1 = Some c \<and> ch_vset s1 = Some v \<and> vs_epoch v = 0 \<and>
     quorum_signed demo_verify v
       (deposit_claim_message (cfg_protocol_version c) PROGRAM_ID 0 0xAA 1 500 42 m)"
proof -
  have d: "dc_recipient demo_claim = 42" "dc_amount demo_claim = 500" "dc_epoch demo_claim = 0"
    by (simp_all add: demo_claim_def)
  have c: "ch_claims demo6 (0xAA, 1) = Some demo_claim"
    by (simp add: demo6_def demo5_def demo4_def demo3_def)
  from claim_provenance [OF demo_init demo_run c demo_labels_verified(1)] show ?thesis unfolding d .
qed

text \<open>
  C3: A deposit is minted at most once, for ever.  After a claim exists, no transaction in any
  later state can mint for the same output again: the account-creation guard refuses it (or the
  account passed as the mint does not exist), and the claim itself is never altered.
\<close>

theorem no_double_mint:
  assumes "bridge.reachable ex others s" "ch_claims s (txid, vout) = Some d"
    and "bridge.run ex others s ls s'"
  shows "ch_claims s' (txid, vout) = Some d \<and>
     mint_wrapped ex t m r txid vout a e s' \<in> {Err AccountInUse, Err AccountNotInitialized} \<and>
     (ex_mint_supply ex (ch_world s') m \<noteq> None \<longrightarrow>
        mint_wrapped ex t m r txid vout a e s' = Err AccountInUse)"
proof -
  have c: "ch_claims s' (txid, vout) = Some d"
    using bridge.le_reachable [OF assms(1,3)] assms(2) by (auto simp: chain_le_def opt_le_def)
  have inv: "chain_inv ex s'"
    by (rule bridge.reachable_inv [OF bridge.reachable_run [OF assms(1,3)]])
  from inv_claim [OF inv c] obtain c1 v1 where "ch_config s' = Some c1" "ch_vset s' = Some v1"
    by blast
  with c show ?thesis
    by (cases "ex_mint_supply ex (ch_world s') m") (simp_all add: mint_wrapped_def)
qed

theorem no_double_mint_witness:
  "mint_wrapped demo_ex (demo_tx 77 5 demo_claim_msg) 7 42 0xAA 1 500 0 demo4 = Err AccountInUse"
proof -
  have "ch_claims demo3 (0xAA, 1) = Some demo_claim" by (simp add: demo3_def)
  from no_double_mint [OF demo_reachable(3) this bridge.run_one [OF demo_steps(4)],
      of "demo_tx 77 5 demo_claim_msg" 7 42 500 0]
  show ?thesis by (simp add: demo4_def)
qed

text \<open>
  C5: The supply cap is enforced.  Under the documented behaviour of the token program, a step
  that raises the wrapped supply is a successful \<open>mint_wrapped\<close>, and the supply after it is at
  most the configured cap; no other instruction and no other program raises it.
\<close>

theorem supply_cap_enforced:
  assumes "token_laws ex others ma" "bridge.reachable ex others s" "chain_step ex others s l s'"
    and "ch_config s = Some c" "cfg_wrapped_mint c \<noteq> default_pubkey"
    and "ex_mint_supply ex (ch_world s) (cfg_wrapped_mint c) = Some n"
      "ex_mint_supply ex (ch_world s') (cfg_wrapped_mint c) = Some n'" "n < n'"
  shows "n' \<le> cfg_max_wrapped_supply c \<and>
     (\<exists>t r txid vout a e. l = Instr t (MintWrapped (cfg_wrapped_mint c) r txid vout a e) \<and>
        mint_wrapped ex t (cfg_wrapped_mint c) r txid vout a e s = Ok s' \<and>
        unat n' = unat n + unat a)"
proof -
  note cons = ledger.reachable_inv [of ex others s ma, rule_format, OF assms(2,1)]
  from assms(3) consider (ok) t i where "l = Instr t i" "process ex t i s = Ok s'"
    | (same) "s' = s" | (other) w where "others (ch_world s) w" "s' = s\<lparr>ch_world := w\<rparr>"
    by (auto elim!: chain_stepE)
  then show ?thesis
  proof cases
    case ok
    from supply_cause [OF assms(1) ok(2) assms(4-8)] obtain r txid vout a e
      where i: "i = MintWrapped (cfg_wrapped_mint c) r txid vout a e" by blast
    with ok have mint: "mint_wrapped ex t (cfg_wrapped_mint c) r txid vout a e s = Ok s'" by simp
    then obtain w where w: "ex_mint_to_checked ex (ch_world s) (cfg_wrapped_mint c) r
        (pda_address ex MintAuthorityPda) a WRAPPED_GLC_DECIMALS = Some w" "ch_world s' = w"
      and le: "n + a \<le> cfg_max_wrapped_supply c"
      using assms(4,6) by (auto simp: mint_wrapped_Ok)
    from token_laws_mint [OF assms(1) w(1)] w(2) assms(6,7)
    have "n' = n + a" "unat n + unat a < 2 ^ 64" by auto
    with le mint i ok(1) show ?thesis by (auto simp: unat_word_ariths)
  next
    case same
    with assms(6-8) show ?thesis by simp
  next
    case other
    from cons assms(4,5) have "ma (ch_world s) (cfg_wrapped_mint c) = Some (pda_address ex MintAuthorityPda)"
      by (auto simp: conserved_def)
    from token_laws_other [OF assms(1) other(1) this assms(6)] other(2) assms(7,8)
    show ?thesis by auto
  qed
qed

theorem supply_cap_enforced_witness:
  "(500 :: u64) \<le> cfg_max_wrapped_supply demo_config2"
proof -
  have c: "ch_config demo2 = Some demo_config2" "cfg_wrapped_mint demo_config2 \<noteq> default_pubkey"
    by (simp_all add: demo2_def demo_config2_def default_pubkey_def)
  have "ex_mint_supply demo_ex (ch_world demo2) (cfg_wrapped_mint demo_config2) = Some 0"
    "ex_mint_supply demo_ex (ch_world demo3) (cfg_wrapped_mint demo_config2) = Some 500"
    by (simp_all add: demo2_def demo3_def demo_config2_def)
  from supply_cap_enforced [OF demo_token_laws demo_reachable(2) demo_steps(3) c this] show ?thesis
    by simp
qed

text \<open>
  C4: Conservation.  In every reachable state, and whatever other programs did in between, the
  supply of the wrapped mint plus the sum of all withdrawals ever recorded is at most the sum of
  all deposits the federation attested.  Together with permanence of claims this is the bridge's
  solvency on the Solana side.
\<close>

theorem conservation:
  assumes "token_laws ex others ma" "bridge.reachable ex others s"
    and "ch_config s = Some c" "cfg_wrapped_mint c \<noteq> default_pubkey"
  shows "\<exists>n. ex_mint_supply ex (ch_world s) (cfg_wrapped_mint c) = Some n \<and>
     unat n + map_total (\<lambda>r. unat (wr_amount r)) (ch_withdrawals s)
       \<le> map_total (\<lambda>d. unat (dc_amount d)) (ch_claims s)"
  using ledger.reachable_inv [of ex others s ma, rule_format, OF assms(2,1)] assms(3,4)
  by (auto simp: conserved_def minted_total_def withdrawn_total_def)

theorem conservation_witness:
  "\<exists>n. ex_mint_supply demo_ex (ch_world demo4) 7 = Some n \<and>
     unat n + map_total (\<lambda>r. unat (wr_amount r)) (ch_withdrawals demo4)
       \<le> map_total (\<lambda>d. unat (dc_amount d)) (ch_claims demo4)"
  using conservation [OF demo_token_laws demo_reachable(4),
      of "demo_config2\<lparr>cfg_withdrawal_count := 1\<rparr>"]
  by (simp add: demo4_def demo_config2_def default_pubkey_def)

end
