(* ===== verification/WithdrawalGuarantees.thy ===== *)
theory WithdrawalGuarantees
  imports Demo
begin

text \<open>
  The withdrawal queue over all reachable states and runs: burning creates exactly one record,
  the records are exactly the indices below the counter, a completion is authorized, happens at
  most once and is final, and the defensive error paths of the completion are unreachable.
\<close>

section \<open>Burning\<close>

lemma stored_address_copy:
  assumes "length addr \<le> 64"
  shows "take (unat (word_of_nat (length addr) :: u8)) (copy_at (replicate 64 0) 0 addr) = addr"
  using assms by (simp add: copy_at_def unat_of_nat)

text \<open>
  A burn records the obligation completely.  When \<open>burn_wrapped\<close> succeeds, exactly one new
  record appears, at the index given by the counter; it holds the burned amount, the burner and
  byte for byte the requested Goldcoin address, and is pending with no payout; the counter moves
  up by one without wrapping, and every other account of the program is unchanged.
\<close>

theorem burn_records_withdrawal:
  assumes "burn_wrapped ex t m a addr s = Ok s'"
  shows "\<exists>c r. ch_config s = Some c \<and> ch_withdrawals s (cfg_withdrawal_count c) = None \<and>
     ch_withdrawals s' = (ch_withdrawals s)(cfg_withdrawal_count c \<mapsto> r) \<and>
     wr_amount r = a \<and> wr_requester r = tx_signer t \<and> stored_address r = addr \<and>
     wr_status r = Pending \<and> payout_record r = None \<and> payout_record_is_unset r \<and>
     ch_config s' = Some (c\<lparr>cfg_withdrawal_count := cfg_withdrawal_count c + 1\<rparr>) \<and>
     unat (cfg_withdrawal_count c + 1) = unat (cfg_withdrawal_count c) + 1 \<and>
     ch_vset s' = ch_vset s \<and> ch_pending s' = ch_pending s \<and> ch_claims s' = ch_claims s"
proof -
  from assms obtain c where c: "ch_config s = Some c"
    "ch_withdrawals s (cfg_withdrawal_count c) = None" "length addr \<le> 64"
    "unat (cfg_withdrawal_count c) + 1 < 2 ^ 64"
    and s': "ch_withdrawals s' = (ch_withdrawals s)(cfg_withdrawal_count c \<mapsto>
        the (ch_withdrawals s' (cfg_withdrawal_count c)))"
      "ch_config s' = Some (c\<lparr>cfg_withdrawal_count := cfg_withdrawal_count c + 1\<rparr>)"
      "ch_vset s' = ch_vset s" "ch_pending s' = ch_pending s" "ch_claims s' = ch_claims s"
    and r: "ch_withdrawals s' (cfg_withdrawal_count c) =
       Some \<lparr>wr_index = cfg_withdrawal_count c, wr_amount = a, wr_requester = tx_signer t,
          wr_glc_address = copy_at (replicate 64 0) 0 addr,
          wr_glc_address_len = word_of_nat (length addr), wr_status = Pending,
          wr_requested_at_slot = tx_slot t, wr_protocol_version = cfg_protocol_version c,
          wr_bump = pda_bump ex (WithdrawalPda (cfg_withdrawal_count c)),
          wr_reserved = replicate 48 0\<rparr>"
    by (auto simp: burn_wrapped_Ok MAX_GLC_ADDRESS_LEN_def)
  show ?thesis
    by (intro exI [of _ c] exI [of _ "the (ch_withdrawals s' (cfg_withdrawal_count c))"] conjI)
      (use c s' in \<open>simp_all add: r stored_address_def stored_address_copy payout_record_def
         payout_record_is_unset_def list_all_iff unat_word_ariths\<close>)
qed

theorem burn_records_withdrawal_witness:
  "\<exists>c r. ch_config demo3 = Some c \<and> ch_withdrawals demo3 (cfg_withdrawal_count c) = None \<and>
     ch_withdrawals demo4 = (ch_withdrawals demo3)(cfg_withdrawal_count c \<mapsto> r) \<and>
     wr_amount r = 200 \<and> wr_requester r = 42 \<and> stored_address r = [71, 49] \<and>
     wr_status r = Pending \<and> payout_record r = None \<and> payout_record_is_unset r \<and>
     ch_config demo4 = Some (c\<lparr>cfg_withdrawal_count := cfg_withdrawal_count c + 1\<rparr>) \<and>
     unat (cfg_withdrawal_count c + 1) = unat (cfg_withdrawal_count c) + 1 \<and>
     ch_vset demo4 = ch_vset demo3 \<and> ch_pending demo4 = ch_pending demo3 \<and>
     ch_claims demo4 = ch_claims demo3"
  using burn_records_withdrawal [OF demo_burn_step [unfolded process.simps]] by simp

text \<open>
  The queue can be reconstructed from chain state alone.  In every reachable state the
  withdrawal accounts are exactly the indices below the counter; each is stored under its own
  index with a positive amount and a non-empty address of at most 64 bytes, and is either
  pending with an empty payout region or completed with a non-zero transaction and height.
\<close>

theorem withdrawal_queue_complete:
  assumes "bridge.reachable ex others s" "ch_config s = Some c"
  shows "(ch_withdrawals s i \<noteq> None \<longleftrightarrow> i < cfg_withdrawal_count c) \<and>
     (\<forall>r. ch_withdrawals s i = Some r \<longrightarrow>
        wr_index r = i \<and> 0 < wr_amount r \<and> stored_address r \<noteq> [] \<and>
        length (stored_address r) \<le> 64 \<and>
        (wr_status r = Pending \<and> payout_record_is_unset r \<or>
         wr_status r = Completed \<and>
           (\<exists>txid h. payout_record r = Some (txid, h) \<and> txid \<noteq> 0 \<and> 0 < h)))"
proof -
  note inv = chain_inv_config [OF bridge.reachable_inv [OF assms(1)] assms(2)]
  have "stored_address r \<noteq> [] \<and> length (stored_address r) \<le> 64" if "withdrawal_inv ex i r" for r
    using that by (auto simp: withdrawal_inv_def wf_account_defs stored_address_def
        MAX_GLC_ADDRESS_LEN_def)
  moreover have "withdrawal_inv ex i r" if "ch_withdrawals s i = Some r" for r
    using inv that by blast
  moreover have "ch_withdrawals s i \<noteq> None \<longleftrightarrow> i < cfg_withdrawal_count c"
    using inv by blast
  ultimately show ?thesis
    by (intro conjI allI impI) (auto simp: withdrawal_inv_def)
qed

theorem withdrawal_queue_complete_witness:
  "ch_withdrawals demo5 0 \<noteq> None \<longleftrightarrow>
     0 < cfg_withdrawal_count (demo_config2\<lparr>cfg_withdrawal_count := 1\<rparr>)"
  using withdrawal_queue_complete [OF demo_reachable(5) demo5_parts(1), of 0] by blast

section \<open>Completion\<close>

text \<open>
  C7: No completion without the federation, and only for the recorded payment.  Whenever
  \<open>complete_withdrawal\<close> succeeds in a reachable state, a quorum of the current validators signed
  the message for this index, payout transaction and height, with the amount and the destination
  hash taken from the withdrawal record.
\<close>

theorem completion_requires_quorum:
  assumes "bridge.reachable ex others s"
    and "complete_withdrawal ex t i txid h e s = Ok s'"
    and "precompile_verified verify ex t"
  shows "\<exists>c v r. ch_config s = Some c \<and> ch_vset s = Some v \<and> ch_withdrawals s i = Some r \<and>
     quorum_signed verify v
       (withdrawal_completion_message (cfg_protocol_version c) PROGRAM_ID (vs_epoch v) i txid h
          (wr_amount r) (ex_hash ex (stored_address r)))"
proof -
  note inv = bridge.reachable_inv [OF assms(1)]
  from completion_gate.signed_by_quorum [OF assms(2,3) inv_max_validators [OF inv]] assms(2)
  show ?thesis by (auto simp: complete_withdrawal_Ok completion_message_def)
qed

theorem completion_requires_quorum_witness:
  "\<exists>c v r. ch_config demo4 = Some c \<and> ch_vset demo4 = Some v \<and> ch_withdrawals demo4 0 = Some r \<and>
     quorum_signed demo_verify v
       (withdrawal_completion_message (cfg_protocol_version c) PROGRAM_ID (vs_epoch v) 0 0xBB 77
          (wr_amount r) (ex_hash demo_ex (stored_address r)))"
  by (rule completion_requires_quorum [OF demo_reachable(4) demo_complete [unfolded process.simps]
        demo_precompile_verified [OF demo_done_len]])

text \<open>
  C8: Completion is final.  After a successful \<open>complete_withdrawal\<close>, in every later state of
  every run the record is the same one, its payout record reads back the attested transaction
  and height, and no further completion of that index can succeed, whatever proof it carries.
\<close>

theorem completion_final:
  assumes "bridge.reachable ex others s" "complete_withdrawal ex t i txid h e s = Ok s1"
    and "bridge.run ex others s1 ls s'"
  shows "ch_withdrawals s' i = ch_withdrawals s1 i \<and>
     (\<exists>r. ch_withdrawals s' i = Some r \<and> wr_status r = Completed \<and>
        payout_record r = Some (txid, h)) \<and>
     (\<exists>err. complete_withdrawal ex t' i txid' h' e' s' = Err err)"
proof -
  from assms(2) obtain r where r: "ch_withdrawals s i = Some r"
    "ch_withdrawals s1 i = Some (set_payout_record r txid h\<lparr>wr_status := Completed\<rparr>)"
    by (auto simp: complete_withdrawal_Ok)
  let ?r = "set_payout_record r txid h\<lparr>wr_status := Completed\<rparr>"
  have s1: "bridge.reachable ex others s1"
    using reachable_process [OF assms(1), of t "CompleteWithdrawal i txid h e"] assms(2) by simp
  have "opt_le withdrawal_le (Some ?r) (ch_withdrawals s' i)"
    using bridge.le_reachable [OF s1 assms(3)] r(2) by (metis chain_le_def)
  then have eq: "ch_withdrawals s' i = Some ?r"
    by (auto simp: opt_le_def withdrawal_le_def)
  have "wf_withdrawal_request r"
    using inv_withdrawal [OF bridge.reachable_inv [OF assms(1)] r(1)]
    by (auto simp: withdrawal_inv_def)
  from payout_record_set [OF this] have p: "payout_record ?r = Some (txid, h)" .
  have "complete_withdrawal ex t' i txid' h' e' s' \<noteq> Ok s2" for s2
    by (simp add: complete_withdrawal_Ok eq)
  then have "\<exists>err. complete_withdrawal ex t' i txid' h' e' s' = Err err"
    by (metis result.exhaust)
  with eq r(2) p show ?thesis by simp
qed

theorem completion_final_witness:
  "\<exists>err. complete_withdrawal demo_ex (demo_tx 77 7 demo_done_msg) 0 0xBB 77 0 demo6 = Err err"
  using completion_final [OF demo_reachable(4) demo_complete [unfolded process.simps]
      bridge.run_one [OF demo_steps(6)]] by blast

text \<open>
  The defensive checks of the completion are unreachable: in a reachable state
  \<open>complete_withdrawal\<close> never reports \<open>WithdrawalNotPending\<close>, \<open>PayoutRecordAlreadySet\<close> or
  \<open>InvalidGlcAddressLength\<close>; a record that exists and is not completed passes all three.
\<close>

theorem completion_defensive_errors_unreachable:
  assumes "bridge.reachable ex others s"
  shows "complete_withdrawal ex t i txid h e s \<notin>
     {Err (Bridge WithdrawalNotPending), Err (Bridge PayoutRecordAlreadySet),
      Err (Bridge InvalidGlcAddressLength)}"
proof (cases "ch_withdrawals s i")
  case None
  then show ?thesis
    by (cases "ch_config s"; cases "ch_vset s") (simp_all add: complete_withdrawal_def)
next
  case (Some r)
  from inv_withdrawal [OF bridge.reachable_inv [OF assms] this] obtain c v where
    cv: "ch_config s = Some c" "ch_vset s = Some v" and w: "withdrawal_inv ex i r" by blast
  then have len: "1 \<le> unat (wr_glc_address_len r)"
    "unat (wr_glc_address_len r) \<le> length (wr_glc_address r)"
    by (auto simp: withdrawal_inv_def wf_account_defs MAX_GLC_ADDRESS_LEN_def)
  from w have st: "wr_status r = Completed \<or> wr_status r = Pending \<and> payout_record_is_unset r"
    by (auto simp: withdrawal_inv_def)
  show ?thesis
    using len st Some cv
    by (auto simp: complete_withdrawal_def Let_def and_then_Err_iff guard_Err parser_errors_def
        dest!: count_unique_validator_signers_Err split: if_splits)
qed

theorem completion_defensive_errors_unreachable_witness:
  "complete_withdrawal demo_ex (demo_tx 1 2 []) 0 1 1 0 demo5 \<notin>
     {Err (Bridge WithdrawalNotPending), Err (Bridge PayoutRecordAlreadySet),
      Err (Bridge InvalidGlcAddressLength)}"
  by (rule completion_defensive_errors_unreachable [OF demo_reachable(5)])

end
