(* ===== verification/GovernanceGuarantees.thy ===== *)
theory GovernanceGuarantees
  imports Demo
begin

text \<open>
  Governance over all reachable states and runs: the validator set is always well formed and is
  identified by its epoch, rotations and cap raises are approved by a quorum and wait out the
  timelock, the admin key alone can neither mint, rotate nor raise, and a proof authorizes one
  action only.
\<close>

section \<open>The validator set\<close>

text \<open>
  In every reachable state the validator set, once created, is a well-formed federation: not
  empty, at most sixteen distinct non-zero keys, and a threshold between one and their number.
\<close>

theorem federation_always_valid:
  assumes "bridge.reachable ex others s" "ch_vset s = Some v"
  shows "vs_validators v \<noteq> [] \<and> length (vs_validators v) \<le> 16 \<and> distinct (vs_validators v) \<and>
     0 \<notin> set (vs_validators v) \<and> 1 \<le> unat (vs_threshold v) \<and>
     unat (vs_threshold v) \<le> length (vs_validators v)"
  using reachable_validators [OF bridge.reachable_inv [OF assms(1)] assms(2)]
  by (simp add: valid_federation_def MAX_VALIDATORS_def default_pubkey_def)

theorem federation_always_valid_witness:
  "vs_validators demo_vset \<noteq> [] \<and> distinct (vs_validators demo_vset)"
  using federation_always_valid [OF demo_reachable(5) demo5_parts(2)] by simp

text \<open>
  An epoch names one validator set.  Along every run the epoch never decreases, and as long
  as it is the same, keys and threshold are the same; so a signature over a message with an
  epoch can only ever be counted by the federation of that epoch.
\<close>

theorem epoch_identifies_federation:
  assumes "bridge.reachable ex others s" "ch_vset s = Some v" "bridge.run ex others s ls s'"
  shows "\<exists>v'. ch_vset s' = Some v' \<and> vs_epoch v \<le> vs_epoch v' \<and>
     (vs_epoch v' = vs_epoch v \<longrightarrow> v' = v)"
  using bridge.le_reachable [OF assms(1,3)] assms(2)
  by (auto simp: chain_le_def opt_le_def vset_le_def)

theorem epoch_identifies_federation_witness:
  "\<exists>v'. ch_vset demo7 = Some v' \<and> vs_epoch demo_vset \<le> vs_epoch v' \<and>
     (vs_epoch v' = vs_epoch demo_vset \<longrightarrow> v' = demo_vset)"
proof (rule epoch_identifies_federation [OF demo_reachable(6)])
  show "ch_vset demo6 = Some demo_vset" by (simp add: demo6_def demo5_parts)
qed (rule bridge.run_one [OF demo_steps(7)])

section \<open>The timelock\<close>

lemma pending_history:
  assumes "chain_init s0" "bridge.run ex others s0 ls s" "ch_pending s = Some p"
  shows "\<exists>ls1 t i ls2 s1 s2 c v. ls = ls1 @ Instr t i # ls2 \<and> bridge.run ex others s0 ls1 s1 \<and>
     process ex t i s1 = Ok s2 \<and> bridge.run ex others s2 ls2 s \<and> ch_config s1 = Some c \<and>
     ch_vset s1 = Some v \<and> pga_proposed_under_epoch p = vs_epoch v \<and>
     sint (pga_eta p) = sint (tx_time t) + sint (cfg_governance_timelock_seconds c) \<and>
     ((\<exists>vs th. i = ProposeValidatorRotation vs th \<and> pga_action p = ACTION_PROPOSE_ROTATION \<and>
         pga_validators p = vs \<and> pga_threshold p = th) \<or>
      (\<exists>m. i = ProposeWrappedSupplyCapRaise m \<and> pga_action p = ACTION_PROPOSE_TVL_RAISE \<and>
         pga_proposed_max_wrapped_supply p = m))"
proof -
  let ?P = "\<lambda>s. ch_pending s = Some p"
  have "\<not> ?P s0" using assms(1) by (simp add: chain_init_def)
  from bridge.run_cause [OF assms(2), of ?P, OF this assms(3)]
  obtain ls1 l ls2 s1 s2 where ls: "ls = ls1 @ l # ls2" and r: "bridge.run ex others s0 ls1 s1"
      "bridge.run ex others s2 ls2 s"
    and P: "\<not> ?P s1" "?P s2" and st: "chain_step ex others s1 l s2" by blast
  from step_cause [OF st, of ?P, OF P] obtain t i where l: "l = Instr t i"
    and p: "process ex t i s1 = Ok s2" by auto
  from pending_cause [OF p P] pending_eta [OF p P] ls l r p show ?thesis by blast
qed

lemma config_timelock_fixed:
  assumes "bridge.reachable ex others s" "ch_config s = Some c" "bridge.run ex others s ls s'"
    and "ch_config s' = Some c'"
  shows "cfg_governance_timelock_seconds c' = cfg_governance_timelock_seconds c"
  using bridge.le_reachable [OF assms(1,3)] assms(2,4)
  by (auto simp: chain_le_def opt_le_def config_le_def)

lemma action_codes: "ACTION_PROPOSE_ROTATION \<noteq> ACTION_PROPOSE_TVL_RAISE"
  by (simp add: msg_consts)

text \<open>
  C9: A rotation is never instantaneous.  Whenever \<open>execute_validator_rotation\<close> succeeds, an
  earlier transaction of the run proposed exactly these keys and this threshold under the proof
  of a quorum of the then-current federation, at least the configured timelock before; the new
  set has the next epoch.
\<close>

theorem rotation_timelocked:
  assumes "chain_init s0" "bridge.run ex others s0 ls s"
    and "execute_validator_rotation t s = Ok s'" "ch_config s = Some c"
    and "\<And>t i. Instr t i \<in> set ls \<Longrightarrow> precompile_verified verify ex t"
  shows "\<exists>ls1 t0 vs th ls2 s1 s2 c1 v1 v'.
     ls = ls1 @ Instr t0 (ProposeValidatorRotation vs th) # ls2 \<and>
     bridge.run ex others s0 ls1 s1 \<and> propose_validator_rotation ex t0 vs th s1 = Ok s2 \<and>
     ch_config s1 = Some c1 \<and> ch_vset s1 = Some v1 \<and>
     quorum_signed verify v1
       (governance_message (cfg_protocol_version c1) PROGRAM_ID (vs_epoch v1)
          ACTION_PROPOSE_ROTATION (ex_hash ex (rotation_params th vs))) \<and>
     sint (tx_time t0) + sint (cfg_governance_timelock_seconds c) \<le> sint (tx_time t) \<and>
     0 < sint (cfg_governance_timelock_seconds c) \<and>
     ch_vset s' = Some v' \<and> vs_validators v' = vs \<and> vs_threshold v' = th \<and>
     unat (vs_epoch v') = unat (vs_epoch v1) + 1"
proof -
  from assms(3) obtain v p where p: "ch_vset s = Some v" "ch_pending s = Some p"
    "pga_action p = ACTION_PROPOSE_ROTATION" "sint (pga_eta p) \<le> sint (tx_time t)"
    and s': "ch_vset s' = Some (v\<lparr>vs_epoch := vs_epoch v + 1, vs_threshold := pga_threshold p,
      vs_validators := pga_validators p\<rparr>)" "unat (vs_epoch v) + 1 < 2 ^ 64"
    and ep: "vs_epoch v = pga_proposed_under_epoch p"
    by (auto simp: execute_validator_rotation_Ok)
  from pending_history [OF assms(1,2) p(2)] p(3) action_codes
  obtain ls1 t0 vs th ls2 s1 s2 c1 v1 where h: "ls = ls1 @ Instr t0 (ProposeValidatorRotation vs th) # ls2"
    "bridge.run ex others s0 ls1 s1" "propose_validator_rotation ex t0 vs th s1 = Ok s2"
    "bridge.run ex others s2 ls2 s" "ch_config s1 = Some c1"
    "sint (pga_eta p) = sint (tx_time t0) + sint (cfg_governance_timelock_seconds c1)"
    "pga_validators p = vs" "pga_threshold p = th"
    and v1: "ch_vset s1 = Some v1" "pga_proposed_under_epoch p = vs_epoch v1" by force
  have s0: "bridge.reachable ex others s0" by (rule bridge.reachable_init [OF assms(1)])
  have s1: "bridge.reachable ex others s1" by (rule bridge.reachable_run [OF s0 h(2)])
  have step: "bridge.run ex others s1 (Instr t0 (ProposeValidatorRotation vs th) # ls2) s"
    by (rule bridge.run_Cons [OF step_ok h(4)]) (simp add: h(3))
  have lock: "cfg_governance_timelock_seconds c = cfg_governance_timelock_seconds c1"
    by (rule config_timelock_fixed [OF s1 h(5) step assms(4)])
  have pv: "precompile_verified verify ex t0" using assms(5) h(1) by auto
  from rotation_gate.signed_by_quorum [OF h(3) pv inv_max_validators [OF bridge.reachable_inv [OF s1]]]
  have q: "quorum_signed verify v1 (rotation_message ex vs th c1 v1)"
    using h(5) v1(1) by auto
  from assms(4) bridge.reachable_inv [OF bridge.reachable_run [OF s0 assms(2)]]
  have pos: "0 < sint (cfg_governance_timelock_seconds c)"
    by (auto dest!: chain_inv_config simp: config_inv_def)
  have "unat (vs_epoch v + 1) = unat (vs_epoch v1) + 1"
    using s'(2) ep v1(2) by (simp add: unat_word_ariths)
  moreover have "sint (tx_time t0) + sint (cfg_governance_timelock_seconds c) \<le> sint (tx_time t)"
    using h(6) p(4) lock by simp
  ultimately show ?thesis
    using h(1-3,5,7,8) v1(1) q pos s'(1) unfolding rotation_message_def by fastforce
qed

theorem rotation_timelocked_witness:
  "\<exists>ls1 t0 vs th ls2 s1 s2 c1 v1 v'.
     demo_labels = ls1 @ Instr t0 (ProposeValidatorRotation vs th) # ls2 \<and>
     bridge.run demo_ex demo_others demo0 ls1 s1 \<and>
     propose_validator_rotation demo_ex t0 vs th s1 = Ok s2 \<and>
     ch_config s1 = Some c1 \<and> ch_vset s1 = Some v1 \<and>
     quorum_signed demo_verify v1
       (governance_message (cfg_protocol_version c1) PROGRAM_ID (vs_epoch v1)
          ACTION_PROPOSE_ROTATION (ex_hash demo_ex (rotation_params th vs))) \<and>
     sint (tx_time t0)
         + sint (cfg_governance_timelock_seconds (demo_config2\<lparr>cfg_withdrawal_count := 1\<rparr>))
       \<le> sint (tx_time (demo_tx 55 1060 [])) \<and>
     0 < sint (cfg_governance_timelock_seconds (demo_config2\<lparr>cfg_withdrawal_count := 1\<rparr>)) \<and>
     ch_vset demo7 = Some v' \<and> vs_validators v' = vs \<and> vs_threshold v' = th \<and>
     unat (vs_epoch v') = unat (vs_epoch v1) + 1"
proof (rule rotation_timelocked [OF demo_init demo_run demo_execute [unfolded process.simps]])
  show "ch_config demo6 = Some (demo_config2\<lparr>cfg_withdrawal_count := 1\<rparr>)"
    by (simp add: demo6_def demo5_parts)
  show "precompile_verified demo_verify demo_ex t" if "Instr t i \<in> set demo_labels" for t i
    using that by (rule demo_labels_verified)
qed

text \<open>
  Only the federation can raise the cap, and only behind the timelock.  Whenever a step
  leaves a higher cap, it is \<open>execute_wrapped_supply_cap_raise\<close>, the new cap is the one a quorum
  approved in an earlier proposal of the run, and the timelock lies between the two.
\<close>

theorem cap_raise_timelocked:
  assumes "chain_init s0" "bridge.run ex others s0 ls s"
    and "process ex t i s = Ok s'" "ch_config s = Some c" "ch_config s' = Some c'"
    and "cfg_max_wrapped_supply c < cfg_max_wrapped_supply c'"
    and "\<And>t i. Instr t i \<in> set ls \<Longrightarrow> precompile_verified verify ex t"
  shows "i = ExecuteWrappedSupplyCapRaise \<and>
     (\<exists>ls1 t0 ls2 s1 s2 c1 v1.
        ls = ls1 @ Instr t0 (ProposeWrappedSupplyCapRaise (cfg_max_wrapped_supply c')) # ls2 \<and>
        bridge.run ex others s0 ls1 s1 \<and>
        propose_wrapped_supply_cap_raise ex t0 (cfg_max_wrapped_supply c') s1 = Ok s2 \<and>
        ch_config s1 = Some c1 \<and> ch_vset s1 = Some v1 \<and>
        quorum_signed verify v1
          (governance_message (cfg_protocol_version c1) PROGRAM_ID (vs_epoch v1)
             ACTION_PROPOSE_TVL_RAISE (ex_hash ex (tvl_raise_params (cfg_max_wrapped_supply c')))) \<and>
        sint (tx_time t0) + sint (cfg_governance_timelock_seconds c) \<le> sint (tx_time t))"
proof -
  have i: "i = ExecuteWrappedSupplyCapRaise" by (rule cap_cause [OF assms(3-6)])
  with assms(3,4,5) obtain p where p: "ch_pending s = Some p"
    "pga_action p = ACTION_PROPOSE_TVL_RAISE" "sint (pga_eta p) \<le> sint (tx_time t)"
    and m: "pga_proposed_max_wrapped_supply p = cfg_max_wrapped_supply c'"
    by (auto simp: execute_wrapped_supply_cap_raise_Ok)
  from pending_history [OF assms(1,2) p(1)] p(2) action_codes m
  obtain ls1 t0 ls2 s1 s2 c1 v1 where
    h: "ls = ls1 @ Instr t0 (ProposeWrappedSupplyCapRaise (cfg_max_wrapped_supply c')) # ls2"
    "bridge.run ex others s0 ls1 s1"
    "propose_wrapped_supply_cap_raise ex t0 (cfg_max_wrapped_supply c') s1 = Ok s2"
    "bridge.run ex others s2 ls2 s" "ch_config s1 = Some c1" "ch_vset s1 = Some v1"
    "sint (pga_eta p) = sint (tx_time t0) + sint (cfg_governance_timelock_seconds c1)" by force
  have s1: "bridge.reachable ex others s1"
    by (rule bridge.reachable_run [OF bridge.reachable_init [OF assms(1)] h(2)])
  have "bridge.run ex others s1
      (Instr t0 (ProposeWrappedSupplyCapRaise (cfg_max_wrapped_supply c')) # ls2) s"
    by (rule bridge.run_Cons [OF step_ok h(4)]) (simp add: h(3))
  from config_timelock_fixed [OF s1 h(5) this assms(4)] h(7) p(3)
  have t: "sint (tx_time t0) + sint (cfg_governance_timelock_seconds c) \<le> sint (tx_time t)" by simp
  have pv: "precompile_verified verify ex t0" using assms(7) h(1) by auto
  from raise_gate.signed_by_quorum [OF h(3) pv inv_max_validators [OF bridge.reachable_inv [OF s1]]]
  have "quorum_signed verify v1 (raise_message ex (cfg_max_wrapped_supply c') c1 v1)"
    using h(5,6) by auto
  with i h t show ?thesis unfolding raise_message_def by blast
qed

theorem cap_raise_timelocked_witness:
  "\<exists>ls1 t0 ls2 s1 s2 c1 v1.
     demo_raise_labels = ls1 @ Instr t0 (ProposeWrappedSupplyCapRaise 5000) # ls2 \<and>
     bridge.run demo_ex demo_others demo0 ls1 s1 \<and>
     propose_wrapped_supply_cap_raise demo_ex t0 5000 s1 = Ok s2 \<and>
     ch_config s1 = Some c1 \<and> ch_vset s1 = Some v1 \<and>
     quorum_signed demo_verify v1
       (governance_message (cfg_protocol_version c1) PROGRAM_ID (vs_epoch v1)
          ACTION_PROPOSE_TVL_RAISE (ex_hash demo_ex (tvl_raise_params 5000))) \<and>
     sint (tx_time t0) + 60 \<le> 2060"
proof -
  have "ch_config demo9 = Some (demo_config5\<lparr>cfg_max_wrapped_supply := 400\<rparr>)"
    "ch_config demo10 = Some (demo_config5\<lparr>cfg_max_wrapped_supply := 5000\<rparr>)"
    by (simp_all add: demo9_def demo10_def)
  from cap_raise_timelocked [OF demo_init demo_raise_run demo_execute_raise this _
      demo_labels_verified(2)]
  show ?thesis by (simp add: demo_config2_def demo_config_def)
qed

section \<open>Queued actions execute\<close>

text \<open>
  A queued cap raise always executes.  In every reachable state with a pending raise, anyone
  can execute it from its \<open>eta\<close> on, the cap becomes the proposed one, and the slot is freed; in
  particular the re-check of the cap and of the epoch at execution can never fail.
\<close>

theorem queued_raise_executes:
  assumes "bridge.reachable ex others s" "ch_pending s = Some p"
    and "pga_action p = ACTION_PROPOSE_TVL_RAISE" "sint (pga_eta p) \<le> sint (tx_time t)"
  shows "\<exists>c s'. ch_config s = Some c \<and> execute_wrapped_supply_cap_raise t s = Ok s' \<and>
     ch_config s' = Some (c\<lparr>cfg_max_wrapped_supply := pga_proposed_max_wrapped_supply p\<rparr>) \<and>
     ch_pending s' = None \<and> ch_vset s' = ch_vset s"
  using inv_pending [OF bridge.reachable_inv [OF assms(1)] assms(2)] assms(2-4) action_codes
  by (auto simp: pending_inv_def execute_wrapped_supply_cap_raise_Ok)

theorem queued_raise_executes_witness:
  "\<exists>c s'. ch_config demo8 = Some c \<and>
     execute_wrapped_supply_cap_raise (demo_tx 55 2060 []) demo8 = Ok s' \<and>
     ch_config s' = Some (c\<lparr>cfg_max_wrapped_supply := 5000\<rparr>) \<and>
     ch_pending s' = None \<and> ch_vset s' = ch_vset demo8"
  using queued_raise_executes [OF demo8_reachable, of demo_raise "demo_tx 55 2060 []"]
  by (simp add: demo8_def demo_raise_def)

text \<open>
  A queued raise undoes a later lowering.  If the admin lowers the cap while a raise is
  pending, the raise still executes once its timelock is over, and the cap becomes the proposed
  one as if the cap had not been lowered: the comparison made at execution cannot see the
  lowering.
\<close>

theorem queued_raise_undoes_lowering:
  assumes "bridge.reachable ex others s" "ch_pending s = Some p"
    and "pga_action p = ACTION_PROPOSE_TVL_RAISE" "sint (pga_eta p) \<le> sint (tx_time t')"
    and "lower_wrapped_supply_cap t m s = Ok s1"
  shows "\<exists>s2 c2. execute_wrapped_supply_cap_raise t' s1 = Ok s2 \<and> ch_config s2 = Some c2 \<and>
     cfg_max_wrapped_supply c2 = pga_proposed_max_wrapped_supply p"
proof -
  have "bridge.reachable ex others s1"
    using reachable_process [OF assms(1), of t "LowerWrappedSupplyCap m"] assms(5) by simp
  moreover have "ch_pending s1 = Some p"
    using assms(2,5) by (auto simp: lower_wrapped_supply_cap_Ok)
  ultimately show ?thesis
    using inv_pending [OF bridge.reachable_inv] assms(3,4) action_codes
    by (fastforce simp: pending_inv_def execute_wrapped_supply_cap_raise_Ok)
qed

theorem queued_raise_undoes_lowering_witness:
  "\<exists>s2 c2. execute_wrapped_supply_cap_raise (demo_tx 55 2060 []) demo9 = Ok s2 \<and>
     ch_config s2 = Some c2 \<and> cfg_max_wrapped_supply c2 = 5000"
  using queued_raise_undoes_lowering [OF demo8_reachable _ _ _ demo_lower [unfolded process.simps],
      of demo_raise "demo_tx 55 2060 []"]
  by (simp add: demo8_def demo_raise_def)

text \<open>
  A queued rotation always executes: in every reachable state with a pending rotation, anyone
  can execute it from its \<open>eta\<close> on (short of the epoch counter being exhausted), and it installs
  exactly the proposed keys and threshold; it can never turn out stale or invalid.
\<close>

theorem queued_rotation_executes:
  assumes "bridge.reachable ex others s" "ch_pending s = Some p" "ch_vset s = Some v"
    and "pga_action p = ACTION_PROPOSE_ROTATION" "sint (pga_eta p) \<le> sint (tx_time t)"
    and "unat (vs_epoch v) + 1 < 2 ^ 64"
  shows "\<exists>s'. execute_validator_rotation t s = Ok s' \<and> ch_pending s' = None \<and>
     ch_vset s' = Some (v\<lparr>vs_epoch := vs_epoch v + 1, vs_threshold := pga_threshold p,
       vs_validators := pga_validators p\<rparr>)"
  using inv_pending [OF bridge.reachable_inv [OF assms(1)] assms(2)] assms(2-6) action_codes
  by (auto simp: pending_inv_def execute_validator_rotation_Ok)

theorem queued_rotation_executes_witness:
  "\<exists>s'. execute_validator_rotation (demo_tx 55 1060 []) demo6 = Ok s' \<and> ch_pending s' = None"
  using queued_rotation_executes [OF demo_reachable(6), of demo_pending demo_vset
      "demo_tx 55 1060 []"]
  by (auto simp: demo6_def demo5_parts demo_pending_def demo_vset_def)

text \<open>
  A cancelled proposal can be proposed again with the old proof.  The signed proposal
  message does not name the proposal, so after a cancellation the very same ed25519 instruction
  queues the very same rotation again, as long as the epoch has not changed.
\<close>

theorem cancelled_rotation_reproposable:
  assumes "propose_validator_rotation ex t vs th s = Ok s1"
    and "cancel_validator_rotation ex tc s1 = Ok s2"
    and "tx_prev t' = tx_prev t" "ch_config s2 = Some c"
    and "checked_add_i64 (tx_time t') (cfg_governance_timelock_seconds c) = Some eta"
  shows "\<exists>s3 p. propose_validator_rotation ex t' vs th s2 = Ok s3 \<and> ch_pending s3 = Some p \<and>
     pga_validators p = vs \<and> pga_threshold p = th \<and> pga_eta p = eta"
  using assms
  by (auto simp: propose_validator_rotation_Ok cancel_validator_rotation_Ok federation_approved_def)

theorem cancelled_rotation_reproposable_witness:
  "\<exists>s3 p. propose_validator_rotation demo_ex (demo_tx 77 1020 demo_rot_msg) [4, 5, 6] 2 demo11 = Ok s3 \<and>
     ch_pending s3 = Some p \<and> pga_validators p = [4, 5, 6] \<and> pga_threshold p = 2 \<and>
     pga_eta p = 1080"
  by (rule cancelled_rotation_reproposable [OF demo_propose [unfolded process.simps]
        demo_cancel [unfolded process.simps], where c = demo_config5])
    (simp_all add: demo_tx_def demo11_def demo6_def demo5_parts demo_config2_def demo_config_def
      checked_add_i64_def)

end
