(* ===== verification/AuthorityGuarantees.thy ===== *)
theory AuthorityGuarantees
  imports Demo
begin

text \<open>
  Who may do what: the pause switch, the limits of the admin key, the two-step handover, what a
  single federation proof can be used for, and the agreement of the inlined proof check of
  \<open>mint_wrapped\<close> with the shared one of the governance instructions.
\<close>

section \<open>Pause\<close>

text \<open>
  While the bridge is paused no value moves: minting, burning and completing all fail, with
  any arguments and any proof.
\<close>

theorem paused_blocks_value:
  assumes "ch_config s = Some c" "cfg_paused c"
  shows "(\<exists>e. mint_wrapped ex t m r txid vout a ep s = Err e) \<and>
     (\<exists>e. burn_wrapped ex t m a addr s = Err e) \<and>
     (\<exists>e. complete_withdrawal ex t i txid h ep s = Err e)"
proof -
  have "mint_wrapped ex t m r txid vout a ep s \<noteq> Ok s'" "burn_wrapped ex t m a addr s \<noteq> Ok s'"
    "complete_withdrawal ex t i txid h ep s \<noteq> Ok s'" for s'
    using assms by (auto simp: handler_Ok)
  then show ?thesis by (metis result.exhaust)
qed

theorem paused_blocks_value_witness:
  "\<exists>e. burn_wrapped demo_ex (demo_tx 42 6 []) 7 200 [71, 49]
     (demo3\<lparr>ch_config := Some (demo_config2\<lparr>cfg_paused := True\<rparr>)\<rparr>) = Err e"
  using paused_blocks_value
    [of "demo3\<lparr>ch_config := Some (demo_config2\<lparr>cfg_paused := True\<rparr>)\<rparr>"
        "demo_config2\<lparr>cfg_paused := True\<rparr>"] by simp

text \<open>
  The pause never locks governance out: in every reachable state the admin can flip the
  switch, and flipping it changes nothing else in any account.
\<close>

theorem admin_can_always_flip_pause:
  assumes "ch_config s = Some c" "tx_signer t = cfg_admin c"
  shows "\<exists>s'. set_paused t (\<not> cfg_paused c) s = Ok s' \<and>
     ch_config s' = Some (c\<lparr>cfg_paused := \<not> cfg_paused c\<rparr>) \<and> ch_vset s' = ch_vset s \<and>
     ch_pending s' = ch_pending s \<and> ch_claims s' = ch_claims s \<and>
     ch_withdrawals s' = ch_withdrawals s \<and> ch_world s' = ch_world s"
  using assms by (auto simp: set_paused_Ok)

theorem admin_can_always_flip_pause_witness:
  "\<exists>s'. set_paused (demo_tx 100 9 []) True demo5 = Ok s' \<and>
     ch_config s' = Some (demo_config5\<lparr>cfg_paused := True\<rparr>)"
  using admin_can_always_flip_pause [OF demo5_parts(1), of "demo_tx 100 9 []"]
  by (auto simp: demo_config2_def demo_config_def)

section \<open>The admin key alone\<close>

text \<open>
  C10: Without a federation proof nothing is minted, completed, queued or cancelled.  A
  transaction whose preceding instruction is not the ed25519 precompile, whoever signs it, never
  creates a claim, never completes a withdrawal, never queues a governance action, and changes
  the validator set or raises the cap only by executing an action already pending.
\<close>

theorem no_proof_no_authority:
  assumes "process ex t i s = Ok s'"
    and "\<And>data. tx_prev t \<noteq> Some (ex_ed25519_program ex, data)"
  shows "ch_claims s' = ch_claims s \<and>
     (\<forall>k r'. ch_withdrawals s' k = Some r' \<longrightarrow> wr_status r' = Completed \<longrightarrow>
        ch_withdrawals s k = Some r') \<and>
     (\<forall>p. ch_pending s' = Some p \<longrightarrow> ch_pending s = Some p) \<and>
     (ch_pending s' \<noteq> ch_pending s \<longrightarrow>
        i = ExecuteValidatorRotation \<or> i = ExecuteWrappedSupplyCapRaise) \<and>
     (ch_vset s' \<noteq> ch_vset s \<longrightarrow> ch_vset s = None \<or> i = ExecuteValidatorRotation) \<and>
     (\<forall>c c'. ch_config s = Some c \<longrightarrow> ch_config s' = Some c' \<longrightarrow>
        cfg_max_wrapped_supply c < cfg_max_wrapped_supply c' \<longrightarrow>
        i = ExecuteWrappedSupplyCapRaise)"
  using assms
  by (cases i) (auto simp: handler_Ok federation_approved_def split: if_splits)

theorem no_proof_no_authority_witness:
  "ch_claims demo9 = ch_claims demo8"
proof -
  have "process demo_ex \<lparr>tx_signer = 100, tx_slot = 9, tx_time = 2010, tx_prev = None\<rparr>
      (LowerWrappedSupplyCap 400) demo8 = Ok demo9"
    by (simp add: lower_wrapped_supply_cap_Ok demo8_def demo9_def demo5_parts demo_config2_def
        demo_config_def)
  from no_proof_no_authority [OF this] show ?thesis by simp
qed

text \<open>
  The admin changes only by handover.  A step after which the admin is a different key is an
  \<open>accept_admin\<close> signed by the key the previous admin had proposed; and an instruction reserved
  to the admin fails for every other signer.
\<close>

theorem admin_handover:
  assumes "ch_config s = Some c"
  shows "(\<forall>s' c' i. process ex t i s = Ok s' \<longrightarrow> ch_config s' = Some c' \<longrightarrow>
        cfg_admin c' \<noteq> cfg_admin c \<longrightarrow>
        i = AcceptAdmin \<and> cfg_pending_admin c = Some (tx_signer t) \<and> cfg_admin c' = tx_signer t) \<and>
     (tx_signer t \<noteq> cfg_admin c \<longrightarrow>
        set_paused t b s = Err (Bridge UnauthorizedAdmin) \<and>
        lower_wrapped_supply_cap t n s = Err (Bridge UnauthorizedAdmin) \<and>
        transfer_admin t a s = Err (Bridge UnauthorizedAdmin) \<and>
        create_token_metadata ex t m md prog uri s = Err (Bridge UnauthorizedAdmin) \<and>
        update_token_metadata ex t md prog name symbol uri s = Err (Bridge UnauthorizedAdmin) \<and>
        (\<exists>e. create_wrapped_mint ex t m s = Err e))"
proof (intro conjI allI impI)
  assume n: "tx_signer t \<noteq> cfg_admin c"
  then have u: "admin_config t s = Err (Bridge UnauthorizedAdmin)"
    using assms by (auto simp: admin_config_def)
  then show "set_paused t b s = Err (Bridge UnauthorizedAdmin)"
    "lower_wrapped_supply_cap t n s = Err (Bridge UnauthorizedAdmin)"
    "transfer_admin t a s = Err (Bridge UnauthorizedAdmin)"
    "create_token_metadata ex t m md prog uri s = Err (Bridge UnauthorizedAdmin)"
    "update_token_metadata ex t md prog name symbol uri s = Err (Bridge UnauthorizedAdmin)"
    by (simp_all add: set_paused_def lower_wrapped_supply_cap_def transfer_admin_def
        create_token_metadata_def update_token_metadata_def)
  have "create_wrapped_mint ex t m s \<noteq> Ok s'" for s'
    using n assms by (auto simp: create_wrapped_mint_Ok)
  then show "\<exists>e. create_wrapped_mint ex t m s = Err e" by (metis result.exhaust)
qed (use admin_cause [OF _ assms] in blast)+

theorem admin_handover_witness:
  "set_paused (demo_tx 42 0 []) True demo5 = Err (Bridge UnauthorizedAdmin)"
  using admin_handover [OF demo5_parts(1), of demo_ex "demo_tx 42 0 []"]
  by (simp add: demo_config2_def demo_config_def)

section \<open>One proof, one action\<close>

lemma federation_approved_message:
  assumes "federation_approved ex t v m" "federation_approved ex' t' v' m'"
    and "tx_prev t' = tx_prev t"
    and "length (vs_validators v) \<le> MAX_VALIDATORS" "length (vs_validators v') \<le> MAX_VALIDATORS"
  shows "m' = m"
proof -
  from assms(1) obtain data n where d: "tx_prev t = Some (ex_ed25519_program ex, data)"
    and c: "count_unique_validator_signers data m (vs_validators v) = Ok n"
    unfolding federation_approved_def by blast
  from assms(2,3) d obtain n' where
    c': "count_unique_validator_signers data m' (vs_validators v') = Ok n'"
    unfolding federation_approved_def by auto
  from c obtain ks where p: "federation_proof data m (vs_validators v) ks"
    unfolding count_unique_validator_signers_Ok [OF assms(4)] by blast
  from c' obtain ks' where p': "federation_proof data m' (vs_validators v') ks'"
    unfolding count_unique_validator_signers_Ok [OF assms(5)] by blast
  from p p' obtain sig sig' where "ed25519_entry data 0 (ks ! 0) sig m"
    "ed25519_entry data 0 (ks' ! 0) sig' m'"
    unfolding federation_proof_def by (metis length_greater_0_conv)
  then show ?thesis using ed25519_entry_unique by blast
qed

text \<open>
  C11: A federation proof authorizes exactly one thing.  If the same ed25519 instruction lets two
  mints succeed, in whatever reachable states, they are for the same output, amount, recipient,
  epoch and mint (so the second is refused as a replay in every run of one bridge); and it can
  never let both a mint and a completion, or a mint and a governance proposal, succeed.
\<close>

theorem proof_authorizes_one_action:
  assumes "bridge.reachable ex others s" "bridge.reachable ex others s2"
    and "mint_wrapped ex t m r txid vout a e s = Ok s'" "tx_prev t2 = tx_prev t"
  shows "(mint_wrapped ex t2 m2 r2 txid2 vout2 a2 e2 s2 = Ok s2' \<longrightarrow>
        (m2, r2, txid2, vout2, a2, e2) = (m, r, txid, vout, a, e)) \<and>
     complete_withdrawal ex t2 i ptx h e2 s2 \<noteq> Ok s2' \<and>
     propose_validator_rotation ex t2 vs th s2 \<noteq> Ok s2' \<and>
     propose_wrapped_supply_cap_raise ex t2 cap s2 \<noteq> Ok s2' \<and>
     cancel_validator_rotation ex t2 s2 \<noteq> Ok s2'"
proof -
  from assms(3) obtain v and c :: bridge_config where v: "ch_vset s = Some v" "e = vs_epoch v"
    and ap: "federation_approved ex t v
      (deposit_claim_message (cfg_protocol_version c) PROGRAM_ID (vs_epoch v) txid vout a r m)"
    unfolding mint_wrapped_Ok by blast
  note len = inv_max_validators [OF bridge.reachable_inv [OF assms(1)] v(1)]
  have same: "msg = deposit_claim_message (cfg_protocol_version c) PROGRAM_ID (vs_epoch v)
      txid vout a r m" if "federation_approved ex t2 v2 msg" "ch_vset s2 = Some v2" for v2 msg
    by (rule federation_approved_message [OF ap that(1) assms(4) len
          inv_max_validators [OF bridge.reachable_inv [OF assms(2)] that(2)]])
  show ?thesis
  proof (intro conjI impI notI)
    assume "mint_wrapped ex t2 m2 r2 txid2 vout2 a2 e2 s2 = Ok s2'"
    then show "(m2, r2, txid2, vout2, a2, e2) = (m, r, txid, vout, a, e)"
      using v(2) by (auto simp: mint_wrapped_Ok claim_message_iff dest!: same)
  qed (auto simp: handler_Ok completion_message_def rotation_message_def raise_message_def
      cancel_message_def message_separation dest!: same)
qed

theorem proof_authorizes_one_action_witness:
  "complete_withdrawal demo_ex (demo_tx 77 5 demo_claim_msg) 0 0xBB 77 0 demo4 \<noteq> Ok demo5"
  using proof_authorizes_one_action [OF demo_reachable(2) demo_reachable(4)
      demo_mint [unfolded process.simps]] by blast

section \<open>The inlined proof check\<close>

text \<open>
  \<open>mint_wrapped\<close> with its proof check replaced by the shared one of the governance
  instructions.
\<close>

definition mint_wrapped_shared ::
  "'w external \<Rightarrow> tx \<Rightarrow> pubkey \<Rightarrow> pubkey \<Rightarrow> bytes32 \<Rightarrow> u32 \<Rightarrow> u64 \<Rightarrow> u64
     \<Rightarrow> 'w chain \<Rightarrow> 'w outcome" where
  "mint_wrapped_shared ex t wrapped_mint recipient txid vout amount epoch s =
     and_then (account (ch_config s)) (\<lambda>config.
     and_then (account (ch_vset s)) (\<lambda>validator_set.
     and_then (account (ex_mint_supply ex (ch_world s) wrapped_mint)) (\<lambda>supply.
     if ch_claims s (txid, vout) \<noteq> None then Err AccountInUse
     else require (cfg_wrapped_mint config \<noteq> default_pubkey) MintNotConfigured (
     require (wrapped_mint = cfg_wrapped_mint config) WrongWrappedMint (
     if \<not> ex_has_ata ex (ch_world s) wrapped_mint recipient then Err ConstraintAddress
     else
     require (\<not> cfg_paused config) BridgePaused (
     require (epoch = vs_epoch validator_set) StaleValidatorEpoch (
     require (amount > 0) ZeroDepositAmount (
     require (amount \<ge> cfg_min_deposit config) BelowMinimumDeposit (
     and_then (ok_or (Bridge ArithmeticOverflow) (checked_add supply amount)) (\<lambda>projected_supply.
     require (projected_supply \<le> cfg_max_wrapped_supply config) WrappedSupplyCapExceeded (
     and_then (require_federation_approval ex t validator_set
       (deposit_claim_message (cfg_protocol_version config) PROGRAM_ID (vs_epoch validator_set)
          txid vout amount recipient (cfg_wrapped_mint config))) (\<lambda>_.
     and_then (ok_or TokenProgramError
       (ex_mint_to_checked ex (ch_world s) wrapped_mint recipient (pda_address ex MintAuthorityPda)
          amount WRAPPED_GLC_DECIMALS)) (\<lambda>w.
     Ok (emit (DepositClaimMinted txid vout recipient amount (vs_epoch validator_set))
           (s\<lparr>ch_claims := (ch_claims s)((txid, vout) \<mapsto>
                \<lparr>dc_txid = txid, dc_vout = vout, dc_amount = amount, dc_recipient = recipient,
                 dc_epoch = vs_epoch validator_set,
                 dc_protocol_version = cfg_protocol_version config, dc_slot_created = tx_slot t,
                 dc_bump = pda_bump ex (DepositClaimPda txid vout),
                 dc_reserved = replicate 16 0\<rparr>), ch_world := w\<rparr>)))))))))))))))"

lemma and_then_assoc: "and_then (and_then r f) g = and_then r (\<lambda>x. and_then (f x) g)"
  by (cases r) simp_all

lemma and_then_guard:
  "and_then (if c then r else Err e) f = (if c then and_then r f else Err e)"
  by simp

text \<open>
  The proof check inlined in \<open>mint_wrapped\<close> is the shared \<open>require_federation_approval\<close> of the
  governance instructions: replacing one by the other changes neither a result nor an error on
  any input, so the two copies have not drifted apart.
\<close>

theorem mint_wrapped_uses_shared_check:
  "mint_wrapped ex t wrapped_mint recipient txid vout amount epoch s =
     mint_wrapped_shared ex t wrapped_mint recipient txid vout amount epoch s"
  unfolding mint_wrapped_def mint_wrapped_shared_def require_federation_approval_def Let_def
    and_then_assoc and_then_guard and_then.simps deposit_claim.select_convs ..

end
