(* ===== verification/Hex.thy ===== *)
theory Hex
  imports Prelude
begin

text \<open>
  The hex codec of the relayer (\<^verbatim>\<open>relayer/src/glc/hex.rs\<close>).  A Rust string is its UTF-8
  bytes.  Slicing a string off a character boundary panics, which is the error \<open>SlicePanic\<close>;
  \<open>u8::from_str_radix\<close> is modelled with its optional leading plus sign.
\<close>

section \<open>The standard library parts\<close>

definition hex_digit :: "nat \<Rightarrow> u8" where
  "hex_digit n = (if n < 10 then word_of_nat (48 + n) else word_of_nat (87 + n))"

text \<open>\<open>char::to_digit(16)\<close> of an ASCII character.\<close>

definition to_digit16 :: "u8 \<Rightarrow> nat option" where
  "to_digit16 c =
     (if 48 \<le> c \<and> c \<le> 57 then Some (unat c - 48)
      else if 97 \<le> c \<and> c \<le> 102 then Some (unat c - 87)
      else if 65 \<le> c \<and> c \<le> 70 then Some (unat c - 55) else None)"

fun digits16 :: "nat \<Rightarrow> bytes \<Rightarrow> nat option" where
  "digits16 acc [] = Some acc"
| "digits16 acc (c # cs) =
     (case to_digit16 c of None \<Rightarrow> None
      | Some d \<Rightarrow> if acc * 16 + d < 256 then digits16 (acc * 16 + d) cs else None)"

text \<open>\<open>u8::from_str_radix(s, 16)\<close>: one leading plus sign is allowed before a digit.\<close>

definition from_str_radix16 :: "bytes \<Rightarrow> u8 option" where
  "from_str_radix16 s =
     (if s = [] \<or> s = [43] \<or> s = [45] then None
      else map_option word_of_nat (digits16 0 (if hd s = 43 then tl s else s)))"

text \<open>\<open>str::is_char_boundary\<close>.\<close>

definition is_char_boundary :: "bytes \<Rightarrow> nat \<Rightarrow> bool" where
  "is_char_boundary s i \<longleftrightarrow> i = 0 \<or> i = length s \<or> i < length s \<and> \<not> (0x80 \<le> s ! i \<and> s ! i \<le> 0xBF)"

section \<open>hex.rs\<close>

datatype hex_error = OddLength nat | WrongLength nat nat nat | InvalidDigit bytes | SlicePanic

fun hex_encode :: "bytes \<Rightarrow> bytes" where
  "hex_encode [] = []"
| "hex_encode (b # bs) = hex_digit (unat b div 16) # hex_digit (unat b mod 16) # hex_encode bs"

text \<open>The loop over the byte positions \<open>i, i + 2, ..\<close>, shared by both decoders.\<close>

fun decode_pairs :: "bytes \<Rightarrow> nat list \<Rightarrow> (bytes, hex_error) result" where
  "decode_pairs s [] = Ok []"
| "decode_pairs s (i # is) =
     (if \<not> (is_char_boundary s i \<and> is_char_boundary s (i + 2)) then Err SlicePanic
      else let byte_str = take 2 (drop i s) in
        and_then (ok_or (InvalidDigit byte_str) (from_str_radix16 byte_str)) (\<lambda>b.
        and_then (decode_pairs s is) (\<lambda>out. Ok (b # out))))"

definition decode_exact :: "nat \<Rightarrow> bytes \<Rightarrow> (bytes, hex_error) result" where
  "decode_exact n s =
     (if length s mod 2 \<noteq> 0 then Err (OddLength (length s))
      else if length s \<noteq> n * 2 then Err (WrongLength (n * 2) n (length s))
      else decode_pairs s (map (\<lambda>i. i * 2) [0..<n]))"

definition decode_vec :: "bytes \<Rightarrow> (bytes, hex_error) result" where
  "decode_vec s =
     (if length s mod 2 \<noteq> 0 then Err (OddLength (length s))
      else decode_pairs s (map (\<lambda>i. i * 2) [0..<length s div 2]))"

section \<open>Round trip\<close>

lemma length_hex_encode [simp]: "length (hex_encode bs) = 2 * length bs"
  by (induction bs) simp_all

lemma hex_encode_append [simp]: "hex_encode (xs @ ys) = hex_encode xs @ hex_encode ys"
  by (induction xs) simp_all

lemma nibble_facts:
  "list_all (\<lambda>n. to_digit16 (hex_digit n) = Some n \<and> hex_digit n < 0x80 \<and> hex_digit n \<noteq> 43 \<and>
     hex_digit n \<noteq> 45) [0..<16]"
  by code_simp

lemma nibble:
  assumes "n < 16"
  shows "to_digit16 (hex_digit n) = Some n" "hex_digit n < 0x80" "hex_digit n \<noteq> 43"
    "hex_digit n \<noteq> 45"
  using nibble_facts assms by (simp_all add: list_all_iff)

lemma unat_u8_less: "unat (b :: u8) < 256"
  using unsigned_less [of b] by simp

lemma byte_nibbles: "unat (b :: u8) div 16 < 16" "unat (b :: u8) mod 16 < 16"
  using unat_u8_less [of b] by auto

lemma from_str_radix16_byte:
  "from_str_radix16 [hex_digit (unat b div 16), hex_digit (unat b mod 16)] = Some (b :: u8)"
proof -
  have "digits16 0 [hex_digit (unat b div 16), hex_digit (unat b mod 16)] = Some (unat b)"
    using unat_u8_less [of b] byte_nibbles [of b] by (simp add: nibble)
  then show ?thesis
    using nibble(3) [OF byte_nibbles(1) [of b]] by (simp add: from_str_radix16_def)
qed

lemma hex_encode_ascii: "\<forall>c \<in> set (hex_encode bs). c < 0x80"
  by (induction bs) (auto simp: nibble byte_nibbles)

lemma ascii_boundary:
  assumes "\<forall>c \<in> set s. c < 0x80" "i \<le> length s"
  shows "is_char_boundary s i"
proof (cases "i < length s")
  case True
  then have "s ! i < 0x80" using assms(1) by simp
  then show ?thesis using True by (auto simp: is_char_boundary_def)
qed (use assms(2) in \<open>simp add: is_char_boundary_def\<close>)

lemma decode_pairs_encode:
  assumes "s = pre @ hex_encode bs" "length pre = 2 * k" "\<forall>c \<in> set pre. c < 0x80"
  shows "decode_pairs s (map (\<lambda>i. i * 2) [k..<k + length bs]) = Ok bs"
  using assms
proof (induction bs arbitrary: k pre)
  case (Cons b bs)
  let ?d = "[hex_digit (unat b div 16), hex_digit (unat b mod 16)]"
  have b: "is_char_boundary s i" if "i \<le> length s" for i
    using ascii_boundary [OF _ that] Cons.prems(1,3) hex_encode_ascii [of "b # bs"] by auto
  have "decode_pairs s (map (\<lambda>i. i * 2) [Suc k..<Suc k + length bs]) = Ok bs"
    by (rule Cons.IH [of "pre @ ?d"]) (use Cons.prems in \<open>auto simp: nibble byte_nibbles\<close>)
  moreover have "take 2 (drop (2 * k) s) = ?d"
    using Cons.prems(1,2) by simp
  ultimately show ?case
    using b [of "2 * k"] b [of "2 * k + 2"] Cons.prems(1,2)
    by (simp add: upt_conv_Cons from_str_radix16_byte mult.commute del: upt_Suc)
qed simp

lemma decode_exact_encode: "decode_exact (length bs) (hex_encode bs) = Ok bs"
  using decode_pairs_encode [of "hex_encode bs" "[]" bs 0] by (simp add: decode_exact_def)

lemma decode_vec_encode: "decode_vec (hex_encode bs) = Ok bs"
  using decode_pairs_encode [of "hex_encode bs" "[]" bs 0] by (simp add: decode_vec_def)

lemma hex_encode_inject: "hex_encode xs = hex_encode ys \<longleftrightarrow> xs = ys"
  by (metis decode_vec_encode result.inject(1))

text \<open>
  Hex round trips for every byte string, through both decoders.  The decoders are not
  injective, though: the standard parser they use accepts a plus sign in place of a leading
  zero digit, so strings that are not hex decode too.
\<close>

theorem hex_roundtrip:
  "decode_exact (length bs) (hex_encode bs) = Ok bs \<and> decode_vec (hex_encode bs) = Ok bs \<and>
   decode_vec (ascii ''+f'') = decode_vec (ascii ''0f'')"
proof -
  have "decode_vec (ascii ''+f'') = decode_vec (ascii ''0f'')" by code_simp
  then show ?thesis by (simp add: decode_exact_encode decode_vec_encode)
qed

end
