(* ===== verification/Base58.thy ===== *)
theory Base58
  imports Hex
begin

text \<open>
  Base58Check addresses of the relayer (\<^verbatim>\<open>relayer/src/withdrawal/address.rs\<close>).  The two
  conversion loops work digit by digit in place; both are the same multiply-and-add over a
  little-endian digit list, once from base 256 to base 58 and once back.  Intermediate values
  are at most \<open>255 * 58 + 57\<close> and \<open>57 * 256 + 255\<close>, so the source's \<open>u32\<close> never wraps and
  natural numbers model it exactly.  SHA-256 is a parameter.
\<close>

section \<open>Positional notation\<close>

text \<open>
  The interface the conversions need of a base: digit lists without a leading zero represent
  each number exactly once.
\<close>

locale radix =
  fixes B :: nat
  assumes base: "1 < B"
begin

primrec digits_value :: "nat list \<Rightarrow> nat" where
  "digits_value [] = 0"
| "digits_value (d # ds) = d + B * digits_value ds"

definition normal :: "nat list \<Rightarrow> bool" where
  "normal ds \<longleftrightarrow> (\<forall>d \<in> set ds. d < B) \<and> (ds = [] \<or> last ds \<noteq> 0)"

lemma normal_Cons: "normal (d # ds) \<longleftrightarrow> d < B \<and> normal ds \<and> (ds = [] \<longrightarrow> d \<noteq> 0)"
  by (auto simp: normal_def)

lemma normal_value_zero: "normal ds \<Longrightarrow> digits_value ds = 0 \<longleftrightarrow> ds = []"
  using base by (induction ds) (auto simp: normal_Cons)

lemma normal_unique: "normal ds \<Longrightarrow> normal es \<Longrightarrow> digits_value ds = digits_value es \<Longrightarrow> ds = es"
proof (induction ds arbitrary: es)
  case Nil
  then show ?case using normal_value_zero [of es] by simp
next
  case (Cons d ds)
  then obtain e es' where es: "es = e # es'"
    using normal_value_zero [of "d # ds"] by (cases es) auto
  from Cons.prems es have lt: "d < B" "e < B" and eq: "d + B * digits_value ds = e + B * digits_value es'"
    by (auto simp: normal_Cons)
  have "d = e" using arg_cong [OF eq, of "\<lambda>n. n mod B"] lt by simp
  with eq base have "digits_value ds = digits_value es'" by simp
  with Cons es \<open>d = e\<close> show ?case by (auto simp: normal_Cons)
qed

lemma digits_value_append: "digits_value (xs @ ys) = digits_value xs + B ^ length xs * digits_value ys"
  by (induction xs) (simp_all add: algebra_simps)

lemma horner: "digits_value (rev ds) = foldl (\<lambda>v d. v * B + d) 0 ds"
  by (induction ds rule: rev_induct) simp_all

lemma horner_zeros: "foldl (\<lambda>v d. v * B + d) 0 (replicate n 0 @ ds) = foldl (\<lambda>v d. v * B + d) 0 ds"
  by (induction n) simp_all

lemma normal_rev: "normal (rev ds) \<longleftrightarrow> (\<forall>d \<in> set ds. d < B) \<and> (ds = [] \<or> hd ds \<noteq> 0)"
  by (auto simp: normal_def last_rev)

end

section \<open>address.rs\<close>

definition B58 :: bytes where
  "B58 = ascii ''123456789ABCDEFGHJKLMNPQRSTUVWXYZabcdefghijkmnopqrstuvwxyz''"

definition P2PKH_VERSION_REGTEST :: u8 where "P2PKH_VERSION_REGTEST = 0x6f"

datatype address_error =
    InvalidCharacter | AddressWrongLength nat | BadChecksum | UnsupportedVersion u8 | EmptyAddress

text \<open>\<open>while carry > 0 { push(carry % base); carry /= base }\<close>.\<close>

function carry_digits :: "nat \<Rightarrow> nat \<Rightarrow> nat list" where
  "carry_digits b c = (if c = 0 \<or> b < 2 then [] else c mod b # carry_digits b (c div b))"
  by auto
termination by (relation "measure snd") auto

declare carry_digits.simps [simp del]

lemma carry_digits_0 [simp]: "carry_digits b 0 = []"
  by (simp add: carry_digits.simps)

text \<open>One pass over the digits, then the remaining carry.\<close>

fun mul_add :: "nat \<Rightarrow> nat \<Rightarrow> nat list \<Rightarrow> nat \<Rightarrow> nat list" where
  "mul_add b k [] carry = carry_digits b carry"
| "mul_add b k (d # ds) carry = (d * k + carry) mod b # mul_add b k ds ((d * k + carry) div b)"

lemma mul_add_zeros: "foldl (mul_add b k) [] (replicate n 0 @ xs) = foldl (mul_add b k) [] xs"
  by (induction n) simp_all

text \<open>The big-endian \<open>num\<close> is updated from its last byte to its first.\<close>

fun base58_decode_loop :: "bytes \<Rightarrow> nat list \<Rightarrow> (nat list, address_error) result" where
  "base58_decode_loop [] num = Ok num"
| "base58_decode_loop (ch # s) num =
     and_then (ok_or InvalidCharacter (position (\<lambda>c. c = ch) B58)) (\<lambda>digit.
     base58_decode_loop s (rev (mul_add 256 58 (rev num) digit)))"

definition base58_decode :: "bytes \<Rightarrow> (bytes, address_error) result" where
  "base58_decode s =
     (if s = [] then Err EmptyAddress
      else and_then (base58_decode_loop s []) (\<lambda>num.
        Ok (replicate (length (takeWhile (\<lambda>c. c = 49) s)) 0 @ map word_of_nat num)))"

definition base58_encode :: "bytes \<Rightarrow> bytes" where
  "base58_encode data =
     (let digits = foldl (\<lambda>ds byte. mul_add 58 256 ds (unat byte)) [] data
      in replicate (length (takeWhile (\<lambda>b. b = 0) data)) 49 @ map (\<lambda>d. B58 ! d) (rev digits))"

definition checksum :: "(bytes \<Rightarrow> bytes32) \<Rightarrow> bytes \<Rightarrow> bytes" where
  "checksum sha256 payload = take 4 (le_bytes (sha256 (le_bytes (sha256 payload))))"

definition base58check_decode ::
  "(bytes \<Rightarrow> bytes32) \<Rightarrow> bytes \<Rightarrow> (u8 \<times> bytes20, address_error) result" where
  "base58check_decode sha256 addr =
     and_then (base58_decode addr) (\<lambda>raw.
     if length raw \<noteq> 25 then Err (AddressWrongLength (length raw))
     else let payload = take 21 raw; given = drop 21 raw in
       if checksum sha256 payload \<noteq> given then Err BadChecksum
       else Ok (payload ! 0, from_le (take 20 (drop 1 payload))))"

definition base58check_encode :: "(bytes \<Rightarrow> bytes32) \<Rightarrow> u8 \<Rightarrow> bytes20 \<Rightarrow> bytes" where
  "base58check_encode sha256 version hash160 =
     (let payload = [version] @ le_bytes hash160
      in base58_encode (payload @ checksum sha256 payload))"

definition decode_p2pkh_hash160 ::
  "(bytes \<Rightarrow> bytes32) \<Rightarrow> bytes \<Rightarrow> (bytes20, address_error) result" where
  "decode_p2pkh_hash160 sha256 addr =
     and_then (base58check_decode sha256 addr) (\<lambda>(version, h).
     if version \<noteq> P2PKH_VERSION_REGTEST then Err (UnsupportedVersion version) else Ok h)"

definition encode_p2pkh :: "(bytes \<Rightarrow> bytes32) \<Rightarrow> bytes20 \<Rightarrow> bytes" where
  "encode_p2pkh sha256 hash160 = base58check_encode sha256 P2PKH_VERSION_REGTEST hash160"

definition p2pkh_script_hex :: "bytes20 \<Rightarrow> bytes" where
  "p2pkh_script_hex hash160 = ascii ''76a914'' @ hex_encode (le_bytes hash160) @ ascii ''88ac''"

section \<open>The conversions are inverse\<close>

context radix
begin

lemma carry_digits_value: "digits_value (carry_digits B c) = c"
proof (induction c rule: less_induct)
  case (less c)
  then show ?case
    using base by (cases "c = 0") (simp, subst carry_digits.simps, simp)
qed

lemma carry_digits_Nil: "carry_digits B c = [] \<longleftrightarrow> c = 0"
  using base by (subst carry_digits.simps) simp

lemma carry_digits_normal: "normal (carry_digits B c)"
proof (induction c rule: less_induct)
  case (less c)
  show ?case
  proof (cases "c = 0")
    case True
    then show ?thesis by (simp add: normal_def)
  next
    case False
    then have "normal (carry_digits B (c div B))" using less base by simp
    then show ?thesis
      using False base
      by (subst carry_digits.simps) (auto simp: normal_Cons carry_digits_Nil div_eq_0_iff)
  qed
qed

lemma mul_add_value: "digits_value (mul_add B k ds c) = digits_value ds * k + c"
proof (induction ds arbitrary: c)
  case (Cons d ds)
  have "(d * k + c) mod B + B * ((d * k + c) div B) = d * k + c" by simp
  then show ?case using Cons by (simp add: algebra_simps)
qed (simp add: carry_digits_value)

lemma mul_add_Nil: "mul_add B k ds c = [] \<longleftrightarrow> ds = [] \<and> c = 0"
  by (cases ds) (simp_all add: carry_digits_Nil)

lemma mul_add_normal: "0 < k \<Longrightarrow> normal ds \<Longrightarrow> normal (mul_add B k ds c)"
proof (induction ds arbitrary: c)
  case (Cons d ds)
  then have "normal (mul_add B k ds ((d * k + c) div B))" by (simp add: normal_Cons)
  moreover have "(d * k + c) mod B \<noteq> 0" if "ds = []" "(d * k + c) div B = 0"
    using that Cons.prems base by (auto simp: normal_Cons div_eq_0_iff)
  ultimately show ?case using base by (auto simp: normal_Cons mul_add_Nil)
qed (simp add: carry_digits_normal)

text \<open>Feeding digits one by one: the value is Horner's, and the result has no leading zero.\<close>

lemma mul_add_fold:
  assumes "0 < k"
  shows "normal (foldl (mul_add B k) [] xs) \<and>
     digits_value (foldl (mul_add B k) [] xs) = foldl (\<lambda>v d. v * k + d) 0 xs"
  using assms by (induction xs rule: rev_induct) (simp_all add: mul_add_normal mul_add_value, simp add: normal_def)

end

interpretation r58: radix 58 by unfold_locales simp
interpretation r256: radix 256 by unfold_locales simp

lemma B58_facts: "length B58 = 58" "distinct B58" "B58 ! 0 = 49"
  by (simp_all add: B58_def ascii_def)

lemma B58_position: "d < 58 \<Longrightarrow> position (\<lambda>c. c = B58 ! d) B58 = Some d"
  using position_eq_mem [of "B58 ! d" B58] position_Some_nth [of "\<lambda>c. c = B58 ! d" B58]
  by (metis B58_facts(1,2) nth_eq_iff_index_eq nth_mem)

lemma B58_one: "d < 58 \<Longrightarrow> B58 ! d = 49 \<longleftrightarrow> d = 0"
  using B58_facts by (metis nth_eq_iff_index_eq zero_less_numeral)

text \<open>The decoding loop, over the digits of the characters.\<close>

lemma decode_loop_digits:
  "\<forall>d \<in> set ds. d < 58 \<Longrightarrow>
     base58_decode_loop (map ((!) B58) ds) num = Ok (rev (foldl (mul_add 256 58) (rev num) ds))"
  by (induction ds arbitrary: num) (simp_all add: B58_position)

lemma decode_loop_Ok:
  "base58_decode_loop s num = Ok out \<Longrightarrow> \<exists>ds. s = map ((!) B58) ds \<and> (\<forall>d \<in> set ds. d < 58)"
proof (induction s arbitrary: num)
  case (Cons ch s)
  then obtain d where d: "position (\<lambda>c. c = ch) B58 = Some d"
    and r: "base58_decode_loop s (rev (mul_add 256 58 (rev num) d)) = Ok out" by auto
  from position_Some_nth [OF d] have "d < 58" "B58 ! d = ch" by (simp_all add: B58_facts)
  with Cons.IH [OF r] show ?case by (metis list.set_intros(1) list.simps(9) set_ConsD)
qed simp

lemma base58_decode_digits:
  assumes "ds \<noteq> []" "\<forall>d \<in> set ds. d < 58"
  shows "base58_decode (map ((!) B58) ds) =
     Ok (replicate (length (takeWhile (\<lambda>d. d = 0) ds)) 0
       @ map word_of_nat (rev (foldl (mul_add 256 58) [] ds)))"
proof -
  have "takeWhile (\<lambda>c. c = 49) (map ((!) B58) ds) = map ((!) B58) (takeWhile (\<lambda>d. d = 0) ds)"
    using assms(2) by (induction ds) (auto simp: B58_one)
  then show ?thesis
    using assms decode_loop_digits [of ds "[]"] by (simp add: base58_decode_def)
qed

text \<open>A byte list is its leading zeros and the digits of its value; the same in base 58.\<close>

lemma leading_zeros_split:
  "xs = replicate (length (takeWhile (\<lambda>x. x = (0 :: 'a::zero)) xs)) 0 @ dropWhile (\<lambda>x. x = 0) xs"
proof -
  have "takeWhile (\<lambda>x. x = 0) xs = replicate (length (takeWhile (\<lambda>x. x = 0) xs)) 0"
    by (induction xs) auto
  then show ?thesis by (metis takeWhile_dropWhile_id)
qed

lemma fold_zeros: "foldl (\<lambda>v d. v * k + d) 0 xs = foldl (\<lambda>v d. v * k + d) (0 :: nat) (dropWhile (\<lambda>x. x = 0) xs)"
  by (induction xs) simp_all

lemma map_unat_dropWhile:
  "map unat (dropWhile (\<lambda>b. b = 0) bs) = dropWhile (\<lambda>n. n = 0) (map unat (bs :: bytes))"
  by (induction bs) (auto simp: unat_eq_0)

lemma dropWhile_hd: "dropWhile (\<lambda>x. x = 0) xs = [] \<or> hd (dropWhile (\<lambda>x. x = 0) xs) \<noteq> 0"
  using hd_dropWhile [of "\<lambda>x. x = 0" xs] by blast

lemma base58_roundtrip_aux:
  fixes bs :: bytes
  assumes "ds = foldl (mul_add 58 256) [] (map unat bs)"
  shows "foldl (mul_add 256 58) [] (rev ds) = rev (map unat (dropWhile (\<lambda>b. b = 0) bs))"
proof (rule r256.normal_unique)
  have ds: "r58.normal ds" "r58.digits_value ds = foldl (\<lambda>v d. v * 256 + d) 0 (map unat bs)"
    using r58.mul_add_fold [of 256 "map unat bs"] assms by simp_all
  show "r256.normal (foldl (mul_add 256 58) [] (rev ds))"
    using r256.mul_add_fold [of 58 "rev ds"] by simp
  show "r256.normal (rev (map unat (dropWhile (\<lambda>b. b = 0) bs)))"
    unfolding r256.normal_rev map_unat_dropWhile
    using dropWhile_hd [of "map unat bs"] set_dropWhileD [of _ "\<lambda>n. n = 0" "map unat bs"]
      unat_u8_less by fastforce
  have "r256.digits_value (foldl (mul_add 256 58) [] (rev ds)) = r58.digits_value ds"
    using r256.mul_add_fold [of 58 "rev ds"] r58.horner [of "rev ds"] by simp
  also have "\<dots> = foldl (\<lambda>v d. v * 256 + d) 0 (map unat (dropWhile (\<lambda>b. b = 0) bs))"
    unfolding ds(2) map_unat_dropWhile by (rule fold_zeros)
  finally show "r256.digits_value (foldl (mul_add 256 58) [] (rev ds)) =
      r256.digits_value (rev (map unat (dropWhile (\<lambda>b. b = 0) bs)))"
    by (simp add: r256.horner)
qed

lemma base58_encode_digits:
  "base58_encode bs = map ((!) B58) (replicate (length (takeWhile (\<lambda>b. b = 0) bs)) 0
     @ rev (foldl (mul_add 58 256) [] (map unat bs)))"
  by (simp add: base58_encode_def Let_def foldl_map B58_facts)

lemma base58_decode_encode:
  assumes "bs \<noteq> []"
  shows "base58_decode (base58_encode bs) = Ok bs"
proof -
  let ?k = "length (takeWhile (\<lambda>b. b = 0) bs)" let ?ds = "foldl (mul_add 58 256) [] (map unat bs)"
  have n: "r58.normal ?ds" using r58.mul_add_fold [of 256 "map unat bs"] by simp
  have lt: "\<forall>d \<in> set (replicate ?k 0 @ rev ?ds). d < 58" using n by (auto simp: r58.normal_def)
  have tw: "takeWhile (\<lambda>d. d = 0) (replicate ?k 0 @ rev ?ds) = replicate ?k 0"
    using n by (cases ?ds rule: rev_cases) (auto simp: r58.normal_def takeWhile_append)
  have num: "map word_of_nat (rev (foldl (mul_add 256 58) [] (replicate ?k 0 @ rev ?ds)))
      = dropWhile (\<lambda>b. b = 0) bs"
    unfolding mul_add_zeros base58_roundtrip_aux [OF refl] by (simp add: comp_def)
  have ne: "replicate ?k 0 @ rev ?ds \<noteq> []"
  proof
    assume "replicate ?k 0 @ rev ?ds = []"
    then have "?k = 0" and e: "?ds = []" by auto
    from base58_roundtrip_aux [OF refl, of bs] e have "dropWhile (\<lambda>b. b = 0) bs = []" by simp
    with \<open>?k = 0\<close> leading_zeros_split [of bs] assms show False by simp
  qed
  show ?thesis
    unfolding base58_encode_digits base58_decode_digits [OF ne lt] tw num
    using leading_zeros_split [of bs] by simp
qed

lemma base58_encode_decode:
  assumes "base58_decode s = Ok bs"
  shows "base58_encode bs = s"
proof -
  from assms obtain num where "base58_decode_loop s [] = Ok num" and ne: "s \<noteq> []"
    by (auto simp: base58_decode_def)
  from decode_loop_Ok [OF this(1)] obtain ds where s: "s = map ((!) B58) ds"
    and lt: "\<forall>d \<in> set ds. d < 58" by blast
  let ?k = "length (takeWhile (\<lambda>d. d = 0) ds)" let ?num = "foldl (mul_add 256 58) [] ds"
  have n: "r256.normal ?num" "r256.digits_value ?num = foldl (\<lambda>v d. v * 58 + d) 0 ds"
    using r256.mul_add_fold [of 58 ds] by simp_all
  from assms base58_decode_digits [of ds] lt ne s
  have bs: "bs = replicate ?k 0 @ map word_of_nat (rev ?num)" by simp
  have un: "map unat (map word_of_nat (rev ?num) :: bytes) = rev ?num"
    using n(1) by (auto simp: r256.normal_def unat_of_nat intro!: map_idI)
  have hd: "rev ?num = [] \<or> hd (rev ?num) \<noteq> 0"
    using n(1) by (auto simp: r256.normal_def hd_rev)
  have tw: "takeWhile (\<lambda>b. b = 0) bs = replicate ?k 0"
  proof (cases "rev ?num")
    case Nil
    then show ?thesis by (simp add: bs)
  next
    case (Cons d rest)
    with hd n(1) have "d \<noteq> 0" "d < 256" by (auto simp: r256.normal_def)
    then have "(word_of_nat d :: u8) \<noteq> 0" by (simp add: unat_eq_0 [symmetric] unat_of_nat)
    with Cons show ?thesis by (simp add: bs takeWhile_append)
  qed
  have "foldl (mul_add 58 256) [] (rev ?num) = rev (dropWhile (\<lambda>d. d = 0) ds)"
  proof (rule r58.normal_unique)
    show "r58.normal (foldl (mul_add 58 256) [] (rev ?num))"
      using r58.mul_add_fold [of 256 "rev ?num"] by simp
    show "r58.normal (rev (dropWhile (\<lambda>d. d = 0) ds))"
      unfolding r58.normal_rev using dropWhile_hd [of ds] lt by (auto dest: set_dropWhileD)
    show "r58.digits_value (foldl (mul_add 58 256) [] (rev ?num)) =
        r58.digits_value (rev (dropWhile (\<lambda>d. d = 0) ds))"
      using r58.mul_add_fold [of 256 "rev ?num"] r256.horner [of "rev ?num"] n(2)
        fold_zeros [of 58 ds] by (simp add: r58.horner)
  qed
  then have "foldl (mul_add 58 256) [] (map unat bs) = rev (dropWhile (\<lambda>d. d = 0) ds)"
    unfolding bs map_append un using mul_add_zeros [of 58 256 _ "rev ?num"] by simp
  then show ?thesis
    unfolding base58_encode_digits tw using leading_zeros_split [of ds] s by simp
qed

section \<open>Base58Check\<close>

lemma length_checksum [simp]: "length (checksum sha256 p) = 4"
  by (simp add: checksum_def)

lemma base58check_decode_encode:
  "base58check_decode sha256 (base58check_encode sha256 v h) = Ok (v, h)"
proof -
  let ?p = "[v] @ le_bytes h"
  have "base58_decode (base58check_encode sha256 v h) = Ok (?p @ checksum sha256 ?p)"
    unfolding base58check_encode_def Let_def by (rule base58_decode_encode) simp
  then show ?thesis by (simp add: base58check_decode_def from_le_le_bytes)
qed

lemma base58check_encode_decode:
  assumes "base58check_decode sha256 addr = Ok (v, h)"
  shows "base58check_encode sha256 v h = addr"
proof -
  from assms obtain raw where raw: "base58_decode addr = Ok raw" "length raw = 25"
    and c: "checksum sha256 (take 21 raw) = drop 21 raw"
    and v: "v = take 21 raw ! 0" "h = from_le (take 20 (drop 1 (take 21 raw)))"
    by (auto simp: base58check_decode_def Let_def)
  have "le_bytes h = drop 1 (take 21 raw)"
    unfolding v using le_bytes_from_le [where 'a = 160, of "drop 1 (take 21 raw)"] raw(2) by simp
  then have p: "[v] @ le_bytes h = take 21 raw"
    using raw(2) v(1) by (cases raw) (simp_all add: take_Cons')
  have "base58check_encode sha256 v h = base58_encode (take 21 raw @ drop 21 raw)"
    unfolding base58check_encode_def Let_def p c ..
  then show ?thesis using base58_encode_decode [OF raw(1)] by simp
qed

text \<open>
  C13: Goldcoin addresses round trip both ways, for every SHA-256: decoding an encoded hash gives
  back version and hash, and an address that decodes is the one and only encoding of what it
  decodes to, so two different address strings never pay the same script.
\<close>

theorem address_roundtrip:
  "base58check_decode sha256 (base58check_encode sha256 v h) = Ok (v, h) \<and>
   (base58check_decode sha256 addr = Ok (v, h) \<longleftrightarrow> addr = base58check_encode sha256 v h) \<and>
   (decode_p2pkh_hash160 sha256 addr = Ok h \<longleftrightarrow> addr = encode_p2pkh sha256 h)"
proof -
  have "base58check_decode sha256 addr = Ok (v', h) \<longleftrightarrow> addr = base58check_encode sha256 v' h" for v'
    using base58check_decode_encode base58check_encode_decode by metis
  then show ?thesis
    by (auto simp: base58check_decode_encode decode_p2pkh_hash160_def encode_p2pkh_def)
qed

end
