(* ===== verification/Vault.thy ===== *)
theory Vault
  imports Base58
begin

text \<open>
  The P2SH multisig vault of the relayer (\<^verbatim>\<open>relayer/src/withdrawal/vault.rs\<close>): construction from a
  threshold and ordered signer keys, parsing back from a redeem script, quorum validation and
  the check that a process holds the key it is configured with.  SHA-256, RIPEMD-160 and the
  secp256k1 key derivation are parameters.
\<close>

section \<open>Data\<close>

datatype vault_error =
    ZeroThreshold
  | ThresholdExceedsSigners nat nat
  | NoSigners
  | TooManySigners nat
  | BadPubkeyPrefix nat u8
  | DuplicateSigner nat
  | MalformedRedeemScript string
  | AddressMismatch bytes bytes

definition P2SH_VERSION_REGTEST :: u8 where
  "P2SH_VERSION_REGTEST = 0x3a"

definition COMPRESSED_PUBKEY_LEN :: nat where
  "COMPRESSED_PUBKEY_LEN = 33"

definition MAX_VAULT_SIGNERS :: nat where
  "MAX_VAULT_SIGNERS = 16"

record multisig_vault =
  mv_threshold :: nat
  mv_signer_pubkeys :: "bytes33 list"
  mv_redeem_script :: bytes
  mv_script_hash160 :: bytes20
  mv_address :: bytes

type_synonym sha256 = "bytes \<Rightarrow> bytes32"
type_synonym ripemd160 = "bytes \<Rightarrow> bytes20"

definition hash160 :: "sha256 \<Rightarrow> ripemd160 \<Rightarrow> bytes \<Rightarrow> bytes20" where
  "hash160 sha256 ripemd160 data = ripemd160 (le_bytes (sha256 data))"

definition op_n :: "nat \<Rightarrow> u8" where
  "op_n n = 0x50 + word_of_nat n"

section \<open>MultisigVault::new\<close>

text \<open>The loop over the keys: \<open>prev\<close> is \<open>signer_pubkeys[..i]\<close>.\<close>

fun check_signer_keys :: "bytes33 list \<Rightarrow> bytes33 list \<Rightarrow> (unit, vault_error) result" where
  "check_signer_keys prev [] = Ok ()"
| "check_signer_keys prev (pk # rest) =
     (let first = le_bytes pk ! 0 in
      if first \<noteq> 0x02 \<and> first \<noteq> 0x03 then Err (BadPubkeyPrefix (length prev) first)
      else if pk \<in> set prev then Err (DuplicateSigner (length prev))
      else check_signer_keys (prev @ [pk]) rest)"

text \<open>\<open>OP_M <33-byte push> * N OP_N OP_CHECKMULTISIG\<close>.\<close>

definition push_key :: "bytes33 \<Rightarrow> bytes" where
  "push_key pk = word_of_nat COMPRESSED_PUBKEY_LEN # le_bytes pk"

definition build_redeem_script :: "nat \<Rightarrow> bytes33 list \<Rightarrow> bytes" where
  "build_redeem_script threshold keys =
     [op_n threshold] @ concat (map push_key keys) @ [op_n (length keys), 0xae]"

definition vault_new ::
  "sha256 \<Rightarrow> ripemd160 \<Rightarrow> nat \<Rightarrow> bytes33 list \<Rightarrow> (multisig_vault, vault_error) result" where
  "vault_new sha256 ripemd160 threshold keys =
     (if keys = [] then Err NoSigners
      else if length keys > MAX_VAULT_SIGNERS then Err (TooManySigners (length keys))
      else if threshold = 0 then Err ZeroThreshold
      else if threshold > length keys then Err (ThresholdExceedsSigners threshold (length keys))
      else and_then (check_signer_keys [] keys) (\<lambda>_.
        let script = build_redeem_script threshold keys;
            h = hash160 sha256 ripemd160 script
        in Ok \<lparr>mv_threshold = threshold, mv_signer_pubkeys = keys, mv_redeem_script = script,
              mv_script_hash160 = h,
              mv_address = base58check_encode sha256 P2SH_VERSION_REGTEST h\<rparr>))"

section \<open>Parsing a redeem script\<close>

text \<open>The loop over the pushes, from position \<open>i\<close> up to \<open>body_end\<close>.\<close>

function parse_keys :: "bytes \<Rightarrow> nat \<Rightarrow> nat \<Rightarrow> (bytes33 list, vault_error) result" where
  "parse_keys script body_end i =
     (if \<not> i < body_end then Ok []
      else if unat (script ! i) \<noteq> COMPRESSED_PUBKEY_LEN
        then Err (MalformedRedeemScript ''expected a 33-byte compressed pubkey push'')
      else let start = i + 1; stop = start + COMPRESSED_PUBKEY_LEN in
        if stop > body_end then Err (MalformedRedeemScript ''pubkey push runs past the script'')
        else and_then (parse_keys script body_end stop) (\<lambda>keys.
          Ok (from_le (take (stop - start) (drop start script)) # keys)))"
  by pat_completeness auto

termination
  by (relation "measure (\<lambda>(_, e, i). e - i)") auto

declare parse_keys.simps [simp del]

definition from_redeem_script_hex ::
  "sha256 \<Rightarrow> ripemd160 \<Rightarrow> bytes \<Rightarrow> (multisig_vault, vault_error) result" where
  "from_redeem_script_hex sha256 ripemd160 script_hex =
     and_then (map_err (\<lambda>_. MalformedRedeemScript ''not valid hex'') (decode_vec script_hex)) (\<lambda>script.
     if length script < 3 then Err (MalformedRedeemScript ''too short'')
     else if last script \<noteq> 0xae
       then Err (MalformedRedeemScript ''does not end in OP_CHECKMULTISIG'')
     else and_then (ok_or (MalformedRedeemScript ''leading opcode is not OP_1..OP_16'')
            (map_option unat (checked_sub (script ! 0) 0x50))) (\<lambda>m.
          and_then (ok_or (MalformedRedeemScript ''signer count opcode is not OP_1..OP_16'')
            (map_option unat (checked_sub (script ! (length script - 2)) 0x50))) (\<lambda>n.
          if m = 0 \<or> n = 0 \<or> m > 16 \<or> n > 16
            then Err (MalformedRedeemScript ''M or N out of range'')
          else and_then (parse_keys script (length script - 2) 1) (\<lambda>keys.
            if length keys \<noteq> n
              then Err (MalformedRedeemScript
                     ''declared signer count does not match the number of pubkeys'')
            else vault_new sha256 ripemd160 m keys))))"

section \<open>Operations of a vault\<close>

definition require_address :: "multisig_vault \<Rightarrow> bytes \<Rightarrow> (unit, vault_error) result" where
  "require_address v configured =
     (if configured \<noteq> mv_address v then Err (AddressMismatch configured (mv_address v)) else Ok ())"

definition script_pubkey_hex :: "multisig_vault \<Rightarrow> bytes" where
  "script_pubkey_hex v = ascii ''a914'' @ hex_encode (le_bytes (mv_script_hash160 v)) @ ascii ''87''"

definition redeem_script_hex :: "multisig_vault \<Rightarrow> bytes" where
  "redeem_script_hex v = hex_encode (mv_redeem_script v)"

definition signer_count :: "multisig_vault \<Rightarrow> nat" where
  "signer_count v = length (mv_signer_pubkeys v)"

fun quorum_loop :: "multisig_vault \<Rightarrow> u8 option \<Rightarrow> u8 list \<Rightarrow> (unit, vault_error) result" where
  "quorum_loop v lst [] = Ok ()"
| "quorum_loop v lst (i # is) =
     (if unat i \<ge> signer_count v
        then Err (MalformedRedeemScript ''quorum index is outside the signer set'')
      else case lst of
          Some prev \<Rightarrow>
            if i \<le> prev
              then Err (MalformedRedeemScript ''quorum indices must be strictly ascending and unique'')
            else quorum_loop v (Some i) is
        | None \<Rightarrow> quorum_loop v (Some i) is)"

definition validate_quorum :: "multisig_vault \<Rightarrow> u8 list \<Rightarrow> (unit, vault_error) result" where
  "validate_quorum v indices =
     (if length indices \<noteq> mv_threshold v
        then Err (ThresholdExceedsSigners (length indices) (mv_threshold v))
      else quorum_loop v None indices)"

definition decode_p2sh_hash160 :: "sha256 \<Rightarrow> bytes \<Rightarrow> (bytes20, address_error) result" where
  "decode_p2sh_hash160 sha256 addr =
     and_then (base58check_decode sha256 addr) (\<lambda>(version, payload).
     if version \<noteq> P2SH_VERSION_REGTEST then Err (UnsupportedVersion version) else Ok payload)"

section \<open>The configured signing key\<close>

text \<open>
  \<open>str::trim\<close> on the UTF-8 bytes: the encodings of the characters with the White_Space
  property, cut from both ends.
\<close>

definition white_space :: "bytes list" where
  "white_space =
     map (\<lambda>c. [c]) [9, 10, 11, 12, 13, 32] @ [[0xC2, 0x85], [0xC2, 0xA0], [0xE1, 0x9A, 0x80]] @
     map (\<lambda>n. [0xE2, 0x80, word_of_nat n]) ([128..<139] @ [168, 169, 175]) @
     [[0xE2, 0x81, 0x9F], [0xE3, 0x80, 0x80]]"

function trim_start :: "bytes list \<Rightarrow> bytes \<Rightarrow> bytes" where
  "trim_start ws s =
     (case find (\<lambda>w. w \<noteq> [] \<and> take (length w) s = w) ws of
        None \<Rightarrow> s | Some w \<Rightarrow> trim_start ws (drop (length w) s))"
  by pat_completeness auto

termination
proof (relation "measure (\<lambda>(_, s). length s)", simp)
  fix ws :: "bytes list" and s w :: bytes
  assume "find (\<lambda>w. w \<noteq> [] \<and> take (length w) s = w) ws = Some w"
  then have "w \<noteq> []" "take (length w) s = w" by (auto simp: find_Some_iff)
  then show "((ws, drop (length w) s), ws, s) \<in> measure (\<lambda>(_, s). length s)"
    by (cases s) auto
qed

declare trim_start.simps [simp del]

definition str_trim :: "bytes \<Rightarrow> bytes" where
  "str_trim s = rev (trim_start (map rev white_space) (rev (trim_start white_space s)))"

text \<open>The decimal digits \<open>format!\<close> prints of an integer.\<close>

fun decimal :: "nat \<Rightarrow> bytes" where
  "decimal n = (if n < 10 then [word_of_nat (48 + n)] else decimal (n div 10) @ [word_of_nat (48 + n mod 10)])"

declare decimal.simps [simp del]

definition compressed_pubkey_from_wif ::
  "sha256 \<Rightarrow> (bytes32 \<Rightarrow> bytes33 option) \<Rightarrow> bytes \<Rightarrow> (bytes33, vault_error) result" where
  "compressed_pubkey_from_wif sha256 secp wif =
     and_then (map_err (\<lambda>_. MalformedRedeemScript ''WIF is not valid base58'')
       (base58_decode (str_trim wif))) (\<lambda>raw.
     if length raw \<noteq> 38
       then Err (MalformedRedeemScript ''WIF is not a 38-byte compressed-key encoding'')
     else let payload = take 34 raw; given = drop 34 raw in
       if checksum sha256 payload \<noteq> given
         then Err (MalformedRedeemScript ''WIF checksum is wrong'')
       else if payload ! 33 \<noteq> 0x01
         then Err (MalformedRedeemScript
                ''WIF is not marked compressed; an uncompressed key is not in any vault script'')
       else ok_or (MalformedRedeemScript ''WIF does not encode a valid key'')
              (secp (from_le (take 32 (drop 1 payload)))))"

definition require_signer_at ::
  "sha256 \<Rightarrow> (bytes32 \<Rightarrow> bytes33 option) \<Rightarrow> multisig_vault \<Rightarrow> u8 \<Rightarrow> bytes
   \<Rightarrow> (unit, vault_error) result" where
  "require_signer_at sha256 secp v signer_index wif =
     and_then (ok_or (MalformedRedeemScript
         ''configured vault signer index is out of range for this vault'')
       (get_at (mv_signer_pubkeys v) (unat signer_index))) (\<lambda>expected.
     and_then (compressed_pubkey_from_wif sha256 secp wif) (\<lambda>derived.
     if derived \<noteq> expected
       then Err (AddressMismatch
              (ascii ''key at configured index '' @ decimal (unat signer_index) @ ascii '' ('' @
                 hex_encode (le_bytes derived) @ ascii '')'')
              (ascii ''vault expects '' @ hex_encode (le_bytes expected)))
     else Ok ()))"

section \<open>What the constructor guarantees\<close>

definition compressed :: "bytes33 \<Rightarrow> bool" where
  "compressed pk \<longleftrightarrow> le_bytes pk ! 0 = 0x02 \<or> le_bytes pk ! 0 = 0x03"

lemma check_signer_keys_Ok:
  "check_signer_keys prev keys = Ok () \<longleftrightarrow>
     list_all compressed keys \<and> distinct keys \<and> set prev \<inter> set keys = {}"
  by (induction keys arbitrary: prev) (auto simp: compressed_def Let_def)

text \<open>The descriptor of a vault: everything in it is determined by threshold and keys.\<close>

definition vault_of :: "sha256 \<Rightarrow> ripemd160 \<Rightarrow> nat \<Rightarrow> bytes33 list \<Rightarrow> multisig_vault" where
  "vault_of sha256 ripemd160 m keys =
     (let h = hash160 sha256 ripemd160 (build_redeem_script m keys)
      in \<lparr>mv_threshold = m, mv_signer_pubkeys = keys, mv_redeem_script = build_redeem_script m keys,
          mv_script_hash160 = h, mv_address = base58check_encode sha256 P2SH_VERSION_REGTEST h\<rparr>)"

definition valid_signers :: "nat \<Rightarrow> bytes33 list \<Rightarrow> bool" where
  "valid_signers m keys \<longleftrightarrow>
     0 < m \<and> m \<le> length keys \<and> length keys \<le> 16 \<and> list_all compressed keys \<and> distinct keys"

lemma vault_new_Ok:
  "vault_new sha256 ripemd160 m keys = Ok v \<longleftrightarrow>
     valid_signers m keys \<and> v = vault_of sha256 ripemd160 m keys"
  by (auto simp: vault_new_def valid_signers_def vault_of_def MAX_VAULT_SIGNERS_def Let_def
      check_signer_keys_Ok)

section \<open>The redeem script round trip\<close>

lemma length_push_key [simp]: "length (push_key pk) = 34"
  by (simp add: push_key_def)

lemma length_pushes [simp]: "length (concat (map push_key keys)) = 34 * length keys"
  by (induction keys) simp_all

lemma parse_keys_pushes:
  assumes "script = pre @ concat (map push_key keys) @ suf" "length pre = i"
    "body_end = i + 34 * length keys"
  shows "parse_keys script body_end i = Ok keys"
  using assms
proof (induction keys arbitrary: pre i)
  case Nil
  then show ?case by (simp add: parse_keys.simps)
next
  case (Cons k keys)
  have "parse_keys script body_end (i + 34) = Ok keys"
    using Cons.prems by (intro Cons.IH [of "pre @ push_key k"]) simp_all
  moreover have "script ! i = 33" "take 33 (drop (Suc i) script) = le_bytes k"
    using Cons.prems by (simp_all add: push_key_def nth_append COMPRESSED_PUBKEY_LEN_def)
  ultimately show ?case
    using Cons.prems
    by (subst parse_keys.simps) (simp add: COMPRESSED_PUBKEY_LEN_def from_le_le_bytes add.commute [of 34])
qed

lemma op_n_sub:
  "n \<le> 16 \<Longrightarrow> checked_sub (op_n n) 0x50 = Some (word_of_nat n) \<and> unat (word_of_nat n :: u8) = n"
  by (simp add: op_n_def checked_sub_def word_le_nat_alt unat_word_ariths unat_of_nat)

lemma from_redeem_script_hex_build:
  assumes "valid_signers m keys"
  shows "from_redeem_script_hex sha256 ripemd160 (hex_encode (build_redeem_script m keys)) =
    Ok (vault_of sha256 ripemd160 m keys)"
proof -
  let ?s = "build_redeem_script m keys" let ?n = "length keys"
  have len: "length ?s = 34 * ?n + 3" by (simp add: build_redeem_script_def)
  have nth: "?s ! 0 = op_n m" "?s ! (34 * ?n + 1) = op_n ?n" "last ?s = 0xae"
    by (simp_all add: build_redeem_script_def nth_append)
  then have nth_n: "?s ! Suc (34 * ?n) = op_n ?n" by simp
  have "parse_keys ?s (34 * ?n + 1) 1 = Ok keys"
    by (rule parse_keys_pushes [of _ "[op_n m]" _ "[op_n ?n, 0xae]"])
      (simp_all add: build_redeem_script_def)
  moreover have "0 < m" "m \<le> 16" "0 < ?n" "?n \<le> 16" using assms by (auto simp: valid_signers_def)
  moreover have "vault_new sha256 ripemd160 m keys = Ok (vault_of sha256 ripemd160 m keys)"
    using assms by (simp add: vault_new_Ok)
  ultimately show ?thesis
    by (simp add: from_redeem_script_hex_def decode_vec_encode len nth(1,3) nth_n
        op_n_sub)
qed

text \<open>Conversely, a script that parses is the one built from what was parsed.\<close>

lemma parse_keys_Ok:
  "parse_keys script body_end i = Ok keys \<Longrightarrow> i \<le> body_end \<Longrightarrow> body_end \<le> length script \<Longrightarrow>
     take (body_end - i) (drop i script) = concat (map push_key keys)"
proof (induction script body_end i arbitrary: keys rule: parse_keys.induct)
  case (1 script body_end i)
  show ?case
  proof (cases "i < body_end")
    case False
    with 1 show ?thesis by (simp add: parse_keys.simps)
  next
    case True
    from 1(2) True obtain rest where rest: "parse_keys script body_end (i + 34) = Ok rest"
      and sz: "unat (script ! i) = 33" "i + 34 \<le> body_end"
      and keys: "keys = from_le (take 33 (drop (i + 1) script)) # rest"
      by (subst (asm) parse_keys.simps)
        (auto simp: COMPRESSED_PUBKEY_LEN_def Let_def add.commute)
    from 1(1) True rest sz 1(4)
    have IH: "take (body_end - (i + 34)) (drop (i + 34) script) = concat (map push_key rest)"
      by (simp add: COMPRESSED_PUBKEY_LEN_def add.commute)
    have split: "take (body_end - i) (drop i script) =
        take 34 (drop i script) @ take (body_end - (i + 34)) (drop (i + 34) script)"
      using sz(2) take_add [of 34 "body_end - (i + 34)" "drop i script"] by (simp add: add.commute)
    have first: "script ! i = 33" using sz(1) by (simp add: word_unat_eq_iff)
    have "Suc 33 = 34" by simp
    then have "take 34 (drop i script) = script ! i # take 33 (drop (i + 1) script)"
      using Cons_nth_drop_Suc [of i script] sz(2) 1(4) by (metis Suc_eq_plus1 add_lessD1
          le_add1 le_trans less_le_trans take_Suc_Cons True)
    then show ?thesis
      unfolding split IH keys using sz(2) 1(4) first
      by (simp add: push_key_def [of "from_le _"] COMPRESSED_PUBKEY_LEN_def le_bytes_from_le)
  qed
qed

lemma split_ends:
  assumes "3 \<le> length xs"
  shows "xs = xs ! 0 # take (length xs - 3) (drop 1 xs) @ [xs ! (length xs - 2), last xs]"
proof -
  obtain a b c ys where "xs = a # ys @ [b, c]"
    using assms
    by (metis One_nat_def Suc_1 Suc_le_length_iff append_butlast_last_id append_Cons append_Nil
        append_assoc butlast.simps(2) length_0_conv length_Cons length_append_singleton
        numeral_3_eq_3 Suc_le_mono not_less_eq_eq le_zero_eq)
  then show ?thesis by (simp add: nth_append)
qed

lemma checked_sub_op_n: "checked_sub b 0x50 = Some z \<Longrightarrow> b = op_n (unat z)"
  by (auto simp: checked_sub_def op_n_def split: if_splits)

lemma from_redeem_script_hex_Ok:
  assumes "from_redeem_script_hex sha256 ripemd160 script_hex = Ok v"
  shows "vault_new sha256 ripemd160 (mv_threshold v) (mv_signer_pubkeys v) = Ok v"
    "decode_vec script_hex = Ok (mv_redeem_script v)"
proof -
  from assms obtain script zm zn keys where dec: "decode_vec script_hex = Ok script"
    and len: "3 \<le> length script" and lst: "last script = 0xae"
    and m: "checked_sub (script ! 0) 0x50 = Some zm"
    and n: "checked_sub (script ! (length script - 2)) 0x50 = Some zn"
    and keys: "parse_keys script (length script - 2) 1 = Ok keys" "length keys = unat zn"
    and new: "vault_new sha256 ripemd160 (unat zm) keys = Ok v"
    by (auto simp: from_redeem_script_hex_def not_less)
  from new have v: "mv_threshold v = unat zm" "mv_signer_pubkeys v = keys"
      "mv_redeem_script v = build_redeem_script (unat zm) keys"
    by (auto simp: vault_new_Ok vault_of_def Let_def)
  with new show "vault_new sha256 ripemd160 (mv_threshold v) (mv_signer_pubkeys v) = Ok v" by simp
  have body: "take (length script - 3) (drop 1 script) = concat (map push_key keys)"
    using parse_keys_Ok [OF keys(1)] len by simp
  have "script = script ! 0 # take (length script - 3) (drop 1 script) @
      [script ! (length script - 2), last script]"
    by (rule split_ends [OF len])
  also have "\<dots> = build_redeem_script (unat zm) keys"
    using checked_sub_op_n [OF m] checked_sub_op_n [OF n] keys(2)
    by (simp add: build_redeem_script_def body [simplified] lst)
  finally show "decode_vec script_hex = Ok (mv_redeem_script v)" using dec v by simp
qed

text \<open>
  Building a vault and parsing its redeem script are exact inverses: a hex redeem script is
  accepted with result \<open>v\<close> exactly when it is the hex of \<open>v\<close>'s own script and \<open>v\<close> is what the
  constructor builds from \<open>v\<close>'s threshold and keys, so parsing never yields a vault whose script,
  keys and address disagree.
\<close>

theorem redeem_script_roundtrip:
  "from_redeem_script_hex sha256 ripemd160 (hex_encode script) = Ok v \<longleftrightarrow>
     mv_redeem_script v = script \<and>
     vault_new sha256 ripemd160 (mv_threshold v) (mv_signer_pubkeys v) = Ok v"
proof
  assume "from_redeem_script_hex sha256 ripemd160 (hex_encode script) = Ok v"
  from from_redeem_script_hex_Ok [OF this]
  show "mv_redeem_script v = script \<and>
     vault_new sha256 ripemd160 (mv_threshold v) (mv_signer_pubkeys v) = Ok v"
    by (simp add: decode_vec_encode)
next
  assume A: "mv_redeem_script v = script \<and>
     vault_new sha256 ripemd160 (mv_threshold v) (mv_signer_pubkeys v) = Ok v"
  then have v: "valid_signers (mv_threshold v) (mv_signer_pubkeys v)"
    "v = vault_of sha256 ripemd160 (mv_threshold v) (mv_signer_pubkeys v)"
    by (simp_all add: vault_new_Ok)
  have "mv_redeem_script v = build_redeem_script (mv_threshold v) (mv_signer_pubkeys v)"
    by (subst v(2)) (simp add: vault_of_def Let_def)
  with A from_redeem_script_hex_build [OF v(1), of sha256 ripemd160] v(2)
  show "from_redeem_script_hex sha256 ripemd160 (hex_encode script) = Ok v" by simp
qed

section \<open>Addresses and quorums\<close>

lemma vault_address_decodes:
  "vault_new sha256 ripemd160 m keys = Ok v \<Longrightarrow>
     decode_p2sh_hash160 sha256 (mv_address v) = Ok (mv_script_hash160 v)"
  by (auto simp: vault_new_Ok vault_of_def Let_def decode_p2sh_hash160_def base58check_decode_encode)

lemma quorum_loop_Ok:
  "quorum_loop v lst is = Ok () \<longleftrightarrow>
     (\<forall>i \<in> set is. unat i < signer_count v) \<and> sorted_wrt (<) (case lst of None \<Rightarrow> is | Some p \<Rightarrow> p # is)"
proof (induction "is" arbitrary: lst)
  case (Cons i "is")
  show ?case
    by (cases lst) (auto simp: Cons not_le intro: order.strict_trans)
qed (simp split: option.splits)

lemma validate_quorum_Ok:
  "validate_quorum v indices = Ok () \<longleftrightarrow>
     length indices = mv_threshold v \<and> sorted_wrt (<) indices \<and>
     (\<forall>i \<in> set indices. unat i < signer_count v)"
  by (auto simp: validate_quorum_def quorum_loop_Ok)

text \<open>A strictly ascending list is determined by its set: a quorum has one encoding.\<close>

lemma validate_quorum_canonical:
  "validate_quorum v is = Ok () \<Longrightarrow> validate_quorum v js = Ok () \<Longrightarrow> set is = set js \<Longrightarrow> is = js"
  by (metis validate_quorum_Ok strict_sorted_equal)

end
