(* ===== verification/Assignment.thy ===== *)
theory Assignment
  imports Vault
begin

text \<open>
  Leaderless work assignment (\<^verbatim>\<open>relayer/src/withdrawal/assignment.rs\<close>): which operator acts first
  on a work item, when the others may take over, and which signers of the vault are designated
  for a payout.  Operator indices and counts are \<open>usize\<close>, modelled as natural numbers.
\<close>

datatype assignment_error = IndexOutOfRange nat nat | NoOperators | ZeroTimeout

record operator_assignment =
  oa_index :: nat
  oa_count :: nat
  oa_build_timeout_secs :: i64
  oa_submit_timeout_secs :: i64

definition assignment_new ::
  "nat \<Rightarrow> nat \<Rightarrow> i64 \<Rightarrow> i64 \<Rightarrow> (operator_assignment, assignment_error) result" where
  "assignment_new index count build_timeout submit_timeout =
     (if count = 0 then Err NoOperators
      else if index \<ge> count then Err (IndexOutOfRange index count)
      else if sint build_timeout \<le> 0 \<or> sint submit_timeout \<le> 0 then Err ZeroTimeout
      else Ok \<lparr>oa_index = index, oa_count = count, oa_build_timeout_secs = build_timeout,
             oa_submit_timeout_secs = submit_timeout\<rparr>)"

definition designated_for :: "operator_assignment \<Rightarrow> u64 \<Rightarrow> nat" where
  "designated_for a work_id = unat (work_id mod word_of_nat (oa_count a))"

definition is_designated_for :: "operator_assignment \<Rightarrow> u64 \<Rightarrow> bool" where
  "is_designated_for a work_id \<longleftrightarrow> designated_for a work_id = oa_index a"

definition may_build :: "operator_assignment \<Rightarrow> u64 \<Rightarrow> i64 \<Rightarrow> i64 \<Rightarrow> bool" where
  "may_build a withdrawal_index observed_at now \<longleftrightarrow>
     is_designated_for a withdrawal_index \<or>
     oa_build_timeout_secs a \<le>s saturating_sub_i64 now observed_at"

definition may_submit :: "operator_assignment \<Rightarrow> u64 \<Rightarrow> i64 \<Rightarrow> i64 \<Rightarrow> bool" where
  "may_submit a deposit_id ready_at now \<longleftrightarrow>
     is_designated_for a deposit_id \<or>
     oa_submit_timeout_secs a \<le>s saturating_sub_i64 now ready_at"

definition may_propose :: "operator_assignment \<Rightarrow> nat \<Rightarrow> u64 \<Rightarrow> i64 \<Rightarrow> i64 \<Rightarrow> bool" where
  "may_propose a proposer withdrawal_index observed_at now \<longleftrightarrow>
     designated_for a withdrawal_index = proposer \<or>
     oa_build_timeout_secs a \<le>s saturating_sub_i64 now observed_at"

text \<open>
  \<open>i64::unsigned_abs\<close> is the absolute value of the signed reading; \<open>sort_unstable\<close> on \<open>u8\<close>
  values is \<open>sort\<close>.
\<close>

definition designate_quorum :: "i64 \<Rightarrow> nat \<Rightarrow> nat \<Rightarrow> u8 list" where
  "designate_quorum index signers threshold =
     (let start = nat \<bar>sint index\<bar> mod signers
      in sort (map (\<lambda>k. word_of_nat ((start + k) mod signers)) [0..<threshold]))"

section \<open>Designation\<close>

text \<open>
  A federation: the assignments of its operators, one per index, that share count and timeouts.
\<close>

definition federation :: "nat \<Rightarrow> i64 \<Rightarrow> i64 \<Rightarrow> operator_assignment list" where
  "federation count build_timeout submit_timeout =
     map (\<lambda>i. \<lparr>oa_index = i, oa_count = count, oa_build_timeout_secs = build_timeout,
                oa_submit_timeout_secs = submit_timeout\<rparr>) [0..<count]"

lemma designated_for_mod:
  assumes "oa_count a < 2 ^ 64"
  shows "designated_for a w = unat w mod oa_count a"
  using assms by (simp add: designated_for_def unat_mod unat_of_nat)

lemma may_propose_own: "may_propose a (oa_index a) w t now \<longleftrightarrow> may_build a w t now"
  by (auto simp: may_propose_def may_build_def is_designated_for_def)

lemma timeout_elapsed:
  assumes "sint t + sint d \<le> sint now" "0 < sint d"
  shows "d \<le>s saturating_sub_i64 now t"
proof -
  have "sint d < 2 ^ 63" by (rule sint_u64_bounds)
  with assms show ?thesis
    using sint_u64_bounds(1) [of d] by (simp add: word_sle_eq sint_saturating_sub_i64)
qed

text \<open>
  In a federation every work item has exactly one operator that may build its payout while
  nobody's failover window has elapsed, every operator answers the same question about a proposer
  the same way, and once the window has elapsed every operator may build: assignment decides who
  goes first and never who may.
\<close>

theorem assignment_first_then_everyone:
  assumes "assignment_new i n b s = Ok a" "n < 2 ^ 64"
  shows "a \<in> set (federation n b s) \<and>
    (saturating_sub_i64 now t <s b \<longrightarrow> (\<exists>!p. p \<in> set (federation n b s) \<and> may_build p w t now)) \<and>
    (\<forall>p \<in> set (federation n b s).
       (sint t + sint b \<le> sint now \<longrightarrow> may_build p w t now) \<and>
       (may_propose a (oa_index p) w t now \<longleftrightarrow> may_build p w t now))"
proof (intro conjI impI ballI)
  from assms(1) have a: "0 < n" "i < n" "0 < sint b" "a = \<lparr>oa_index = i, oa_count = n,
      oa_build_timeout_secs = b, oa_submit_timeout_secs = s\<rparr>"
    by (auto simp: assignment_new_def)
  then show "a \<in> set (federation n b s)" by (auto simp: federation_def)
  have d: "designated_for p w = unat w mod n" if "oa_count p = n" for p
    using designated_for_mod [of p w] that assms(2) by simp
  show "\<exists>!p. p \<in> set (federation n b s) \<and> may_build p w t now"
    if "saturating_sub_i64 now t <s b"
  proof -
    from that have "\<not> b \<le>s saturating_sub_i64 now t" by (simp add: word_sle_eq word_sless_alt)
    then have "p \<in> set (federation n b s) \<and> may_build p w t now \<longleftrightarrow>
        p \<in> set (federation n b s) \<and> oa_index p = unat w mod n" for p
      using d by (auto simp: federation_def may_build_def is_designated_for_def)
    then show ?thesis using a(1) by (auto simp: federation_def)
  qed
  fix p assume p: "p \<in> set (federation n b s)"
  then show "may_build p w t now" if "sint t + sint b \<le> sint now"
    using timeout_elapsed [OF that a(3)] by (auto simp: federation_def may_build_def)
  from p show "may_propose a (oa_index p) w t now \<longleftrightarrow> may_build p w t now"
    using d a by (auto simp: federation_def may_build_def may_propose_def is_designated_for_def)
qed

theorem assignment_first_then_everyone_witness:
  "(\<exists>!p. p \<in> set (federation 3 60 30) \<and> may_build p 7 1000 1000) \<and>
   may_build \<lparr>oa_index = 0, oa_count = 3, oa_build_timeout_secs = 60, oa_submit_timeout_secs = 30\<rparr>
     7 1000 1060"
proof -
  have a: "assignment_new 0 3 60 30 = Ok \<lparr>oa_index = 0, oa_count = 3, oa_build_timeout_secs = 60,
      oa_submit_timeout_secs = 30\<rparr>" by code_simp
  have "saturating_sub_i64 1000 1000 <s (60 :: i64)" by code_simp
  moreover have "sint (1000 :: i64) + sint (60 :: i64) \<le> sint (1060 :: i64)" by simp
  ultimately show ?thesis
    using assignment_first_then_everyone [OF a, of 1000 1000 7]
      assignment_first_then_everyone [OF a, of 1060 1000 7] by simp
qed

section \<open>The designated quorum\<close>

lemma rotate_le_eq:
  fixes n :: nat
  assumes "(start + x) mod n = (start + y) mod n" "x \<le> y" "y < n"
  shows "x = y"
proof -
  have "n dvd (start + y) - (start + x)"
    using assms(1,2) by (intro mod_eq_dvd_iff_nat [THEN iffD1]) simp_all
  then have "n dvd y - x" by simp
  with assms show ?thesis by (auto dest!: dvd_imp_le)
qed

lemma rotate_inj: "inj_on (\<lambda>k. (start + k) mod n) {0..<n}" for n :: nat
  by (rule inj_onI) (metis rotate_le_eq nat_le_linear atLeastLessThan_iff)

lemma designate_quorum_props:
  assumes "0 < n" "m \<le> n" "n \<le> 256"
  shows "sorted_wrt (<) (designate_quorum index n m)" "length (designate_quorum index n m) = m"
    "\<forall>i \<in> set (designate_quorum index n m). unat i < n"
proof -
  let ?f = "\<lambda>k. (nat \<bar>sint index\<bar> mod n + k) mod n"
  have lt: "?f k < 256" for k using assms mod_less_divisor [OF assms(1)] by (meson less_le_trans)
  have un: "unat (word_of_nat (?f k) :: u8) = ?f k" for k using lt [of k] by (simp add: unat_of_nat)
  have "inj_on ?f {0..<m}" using rotate_inj by (rule inj_on_subset) (use assms(2) in auto)
  then have "distinct (map unat (map (\<lambda>k. word_of_nat (?f k) :: u8) [0..<m]))"
    by (simp add: distinct_map o_def un)
  then have "distinct (map (\<lambda>k. word_of_nat (?f k) :: u8) [0..<m])"
    by (rule distinct_map [THEN iffD1, THEN conjunct1])
  then show "sorted_wrt (<) (designate_quorum index n m)"
    by (simp add: designate_quorum_def Let_def strict_sorted_iff)
  show "length (designate_quorum index n m) = m" by (simp add: designate_quorum_def)
  show "\<forall>i \<in> set (designate_quorum index n m). unat i < n"
    using un assms(1) by (auto simp: designate_quorum_def)
qed

text \<open>
  The quorum every operator designates for a withdrawal by arithmetic alone is one the vault
  accepts: for every vault the constructor builds and every withdrawal index, the designated
  indices have the threshold's size, are in range and strictly ascending.
\<close>

theorem designated_quorum_valid:
  assumes "vault_new sha256 ripemd160 m keys = Ok v"
  shows "validate_quorum v (designate_quorum index (signer_count v) (mv_threshold v)) = Ok ()"
proof -
  from assms have "valid_signers m keys" "mv_threshold v = m" "signer_count v = length keys"
    by (auto simp: vault_new_Ok vault_of_def Let_def signer_count_def)
  moreover from this have "0 < length keys" "m \<le> length keys" "length keys \<le> 256"
    by (auto simp: valid_signers_def)
  ultimately show ?thesis
    using designate_quorum_props [of "length keys" m index] by (simp add: validate_quorum_Ok)
qed

definition sample_key :: "u8 \<Rightarrow> bytes33" where
  "sample_key b = from_le (2 # replicate 32 b)"

lemma sample_signers: "valid_signers 2 [sample_key 1, sample_key 2, sample_key 3]"
  by code_simp

theorem designated_quorum_valid_witness:
  "validate_quorum (vault_of (\<lambda>_. 0) (\<lambda>_. 0) 2 [sample_key 1, sample_key 2, sample_key 3])
     (designate_quorum 5 3 2) = Ok ()"
proof -
  have "vault_new (\<lambda>_. 0) (\<lambda>_. 0) 2 [sample_key 1, sample_key 2, sample_key 3] =
      Ok (vault_of (\<lambda>_. 0) (\<lambda>_. 0) 2 [sample_key 1, sample_key 2, sample_key 3])"
    unfolding vault_new_Ok using sample_signers by simp
  from designated_quorum_valid [OF this, of 5] show ?thesis
    by (simp add: vault_of_def Let_def signer_count_def eval_nat_numeral)
qed

end
