(* ===== verification/Coin.thy ===== *)
theory Coin
  imports Base58 "HOL-Library.Multiset"
begin

text \<open>
  Fee policy and coin selection (\<^verbatim>\<open>relayer/src/withdrawal/coin.rs\<close>).  All amounts are \<open>u64\<close>; the
  saturating operations are those of the source.  The relayer is a workspace of its own without a
  release profile, so its unchecked arithmetic, \<open>iter().sum()\<close> among it, wraps around.
\<close>

section \<open>Data\<close>

record vault_utxo =
  vu_txid :: bytes32
  vu_txid_hex :: bytes
  vu_vout :: i64
  vu_amount_atomic :: u64
  vu_script_pubkey_hex :: bytes
  vu_confirmations :: i64

record selection =
  se_inputs :: "vault_utxo list"
  se_fee_atomic :: u64
  se_change_atomic :: u64
  se_total_in :: u64

datatype selection_error =
    Insufficient u64 u64
  | TooManyInputs nat nat

section \<open>Standard library parts\<close>

text \<open>\<open>iter().sum::<u64>()\<close>, modulo \<open>2^64\<close>.\<close>

definition sum_amounts :: "vault_utxo list \<Rightarrow> u64" where
  "sum_amounts us = sum_list (map vu_amount_atomic us)"

text \<open>\<open>u64::div_ceil\<close>.\<close>

definition div_ceil :: "u64 \<Rightarrow> u64 \<Rightarrow> u64" where
  "div_ceil a b = (if a mod b > 0 then a div b + 1 else a div b)"

text \<open>Lexicographic comparison of strings by their bytes, and \<open>min_by\<close> (the first minimum).\<close>

fun bytes_less :: "bytes \<Rightarrow> bytes \<Rightarrow> bool" where
  "bytes_less xs [] = False"
| "bytes_less [] (y # ys) = True"
| "bytes_less (x # xs) (y # ys) = (x < y \<or> x = y \<and> bytes_less xs ys)"

fun min_by :: "('a \<Rightarrow> 'a \<Rightarrow> bool) \<Rightarrow> 'a list \<Rightarrow> 'a option" where
  "min_by lt [] = None"
| "min_by lt (x # xs) = Some (foldl (\<lambda>m y. if lt y m then y else m) x xs)"

section \<open>Fees\<close>

definition TX_OVERHEAD_BYTES :: u64 where "TX_OVERHEAD_BYTES = 10"

definition INPUT_BYTES :: u64 where "INPUT_BYTES = 148"

definition OUTPUT_BYTES :: u64 where "OUTPUT_BYTES = 34"

definition estimated_size_bytes :: "u64 \<Rightarrow> u64 \<Rightarrow> u64" where
  "estimated_size_bytes num_inputs num_outputs =
     TX_OVERHEAD_BYTES + INPUT_BYTES * num_inputs + OUTPUT_BYTES * num_outputs"

definition fee_for :: "u64 \<Rightarrow> u64 \<Rightarrow> u64 \<Rightarrow> u64" where
  "fee_for num_inputs num_outputs fee_rate_per_kb =
     div_ceil (saturating_mul (estimated_size_bytes num_inputs num_outputs) fee_rate_per_kb) 1000"

section \<open>Selection\<close>

definition finalize :: "vault_utxo list \<Rightarrow> u64 \<Rightarrow> u64 \<Rightarrow> u64 \<Rightarrow> selection" where
  "finalize inputs amount fee_rate dust_threshold =
     (let total_in = sum_amounts inputs;
         n = word_of_nat (length inputs);
         fee_with_change = fee_for n 2 fee_rate;
         change = saturating_sub (saturating_sub total_in amount) fee_with_change
     in if change = 0 then
          \<lparr>se_inputs = inputs, se_fee_atomic = saturating_sub total_in amount,
              se_change_atomic = 0, se_total_in = total_in\<rparr>
        else if change < dust_threshold then
          \<lparr>se_inputs = inputs, se_fee_atomic = saturating_sub total_in amount,
              se_change_atomic = 0, se_total_in = total_in\<rparr>
        else
          \<lparr>se_inputs = inputs, se_fee_atomic = fee_with_change,
              se_change_atomic = change, se_total_in = total_in\<rparr>)"

text \<open>The comparison of \<open>min_by\<close>: amount, then transaction id, then output index.\<close>

definition utxo_less :: "vault_utxo \<Rightarrow> vault_utxo \<Rightarrow> bool" where
  "utxo_less a b \<longleftrightarrow>
     vu_amount_atomic a < vu_amount_atomic b \<or>
     vu_amount_atomic a = vu_amount_atomic b \<and>
       (bytes_less (vu_txid_hex a) (vu_txid_hex b) \<or>
        vu_txid_hex a = vu_txid_hex b \<and> vu_vout a <s vu_vout b)"

text \<open>The greedy loop; \<open>None\<close> is a loop that ended without returning.\<close>

fun greedy ::
  "u64 \<Rightarrow> u64 \<Rightarrow> u64 \<Rightarrow> nat \<Rightarrow> vault_utxo list \<Rightarrow> u64 \<Rightarrow> vault_utxo list
   \<Rightarrow> (selection, selection_error) result option" where
  "greedy amount fee_rate dust max_inputs acc tot [] = None"
| "greedy amount fee_rate dust max_inputs acc tot (u # us) =
     (let acc' = acc @ [u];
          tot' = saturating_add tot (vu_amount_atomic u);
          fee = fee_for (word_of_nat (length acc')) 2 fee_rate
      in if tot' \<ge> saturating_add amount fee then
           Some (if length acc' > max_inputs then Err (TooManyInputs (length acc') max_inputs)
                 else Ok (finalize acc' amount fee_rate dust))
         else if length acc' > max_inputs then Some (Err (TooManyInputs (length acc') max_inputs))
         else greedy amount fee_rate dust max_inputs acc' tot' us)"

definition select ::
  "vault_utxo list \<Rightarrow> u64 \<Rightarrow> u64 \<Rightarrow> u64 \<Rightarrow> nat \<Rightarrow> (selection, selection_error) result" where
  "select candidates amount fee_rate dust max_inputs =
     (let available = sum_amounts candidates;
         no_change_fee = fee_for 1 1 fee_rate;
         exact_target = saturating_add amount no_change_fee
     in case find (\<lambda>u. vu_amount_atomic u = exact_target) candidates of
          Some u \<Rightarrow> Ok \<lparr>se_inputs = [u], se_fee_atomic = no_change_fee, se_change_atomic = 0,
                       se_total_in = vu_amount_atomic u\<rparr>
        | None \<Rightarrow>
            (let target_2 = saturating_add amount (fee_for 1 2 fee_rate)
             in case min_by utxo_less (filter (\<lambda>u. vu_amount_atomic u \<ge> target_2) candidates) of
                  Some u \<Rightarrow> Ok (finalize [u] amount fee_rate dust)
                | None \<Rightarrow>
                    (case greedy amount fee_rate dust max_inputs [] 0 candidates of
                       Some r \<Rightarrow> r
                     | None \<Rightarrow>
                         Err (Insufficient
                           (saturating_add amount
                             (fee_for (word_of_nat (max (length candidates) 1)) 2 fee_rate))
                           available))))"

section \<open>Sums and minima\<close>

definition value_of :: "vault_utxo list \<Rightarrow> nat" where
  "value_of us = sum_list (map (unat \<circ> vu_amount_atomic) us)"

lemma value_of_simps [simp]:
  "value_of [] = 0" "value_of (u # us) = unat (vu_amount_atomic u) + value_of us"
  "value_of (us @ vs) = value_of us + value_of vs"
  by (simp_all add: value_of_def)

lemma unat_sum_list: "unat (sum_list xs) = sum_list (map unat xs) mod 2 ^ LENGTH('a)" for xs :: "'a::len word list"
  by (induction xs) (simp_all add: unat_word_ariths mod_simps)

lemma unat_sum_list_fits: "sum_list (map unat xs) < 2 ^ LENGTH('a) \<Longrightarrow> unat (sum_list xs) = sum_list (map unat xs)"
  for xs :: "'a::len word list"
  by (simp add: unat_sum_list)

lemma unat_sum_amounts: "unat (sum_amounts us) = value_of us mod 2 ^ 64"
  by (simp add: sum_amounts_def unat_sum_list value_of_def)

lemma sum_amounts_fits: "value_of us < 2 ^ 64 \<Longrightarrow> unat (sum_amounts us) = value_of us"
  by (simp add: unat_sum_amounts)

lemma min_by_foldl_mem: "foldl (\<lambda>m y. if lt y m then y else m) x xs \<in> set (x # xs)"
  by (induction xs arbitrary: x) auto

lemma min_by_mem: "min_by lt xs = Some m \<Longrightarrow> m \<in> set xs"
  using min_by_foldl_mem [of lt] by (cases xs) auto

lemma min_by_None [simp]: "min_by lt xs = None \<longleftrightarrow> xs = []"
  by (cases xs) simp_all

section \<open>What a selection guarantees\<close>

lemma ceil_nat: "0 < b \<Longrightarrow> (x + (b - 1)) div b = (if x mod b > 0 then x div b + 1 else x div b)"
  for x b :: nat
proof -
  assume b: "0 < b"
  have "x + (b - 1) = (x mod b + (b - 1)) + b * (x div b)" by simp
  then have "(x + (b - 1)) div b = (x mod b + (b - 1)) div b + x div b"
    using b by (metis add.commute div_mult_self2 less_not_refl2)
  moreover have "(x mod b + (b - 1)) div b = (if x mod b > 0 then 1 else 0)"
    using b mod_less_divisor [OF b, of x] by (auto intro: div_nat_eqI)
  ultimately show ?thesis by simp
qed

lemma unat_div_ceil_1000: "unat (div_ceil a 1000) = (unat a + 999) div 1000"
proof -
  have "unat a < 2 ^ 64" using unsigned_less [of a] by simp
  then have "unat (a div 1000 + 1) = unat a div 1000 + 1"
    by (simp add: unat_word_ariths unat_div)
  then have "unat (div_ceil a 1000) =
      (if unat a mod 1000 > 0 then unat a div 1000 + 1 else unat a div 1000)"
    by (simp add: div_ceil_def unat_div word_less_nat_alt unat_mod)
  then show ?thesis using ceil_nat [of 1000 "unat a"] by simp
qed

lemma unat_fee_for:
  assumes "unat n < 2 ^ 32" "unat k \<le> 2"
  shows "unat (fee_for n k r) =
    (min ((10 + 148 * unat n + 34 * unat k) * unat r) (2 ^ 64 - 1) + 999) div 1000"
proof -
  have "unat (estimated_size_bytes n k) = 10 + 148 * unat n + 34 * unat k"
    using assms by (simp add: estimated_size_bytes_def TX_OVERHEAD_BYTES_def INPUT_BYTES_def
        OUTPUT_BYTES_def unat_word_ariths)
  then show ?thesis by (simp add: fee_for_def unat_div_ceil_1000 unat_saturating_mul)
qed

text \<open>A transaction without change needs no more fee than one with change.\<close>

lemma fee_for_outputs_mono:
  assumes "unat n < 2 ^ 32"
  shows "fee_for n 1 r \<le> fee_for n 2 r"
proof -
  have "(10 + 148 * unat n + 34) * unat r \<le> (10 + 148 * unat n + 68) * unat r" by simp
  then have "min ((10 + 148 * unat n + 34) * unat r) (2 ^ 64 - 1) + 999 \<le>
      min ((10 + 148 * unat n + 68) * unat r) (2 ^ 64 - 1) + 999" by linarith
  then show ?thesis
    using div_le_mono assms by (simp add: word_le_nat_alt unat_fee_for)
qed

text \<open>What a selection promises: it balances, has no dust output and pays the fee of its shape.\<close>

definition sound_selection :: "u64 \<Rightarrow> u64 \<Rightarrow> u64 \<Rightarrow> selection \<Rightarrow> bool" where
  "sound_selection amount rate dust s \<longleftrightarrow>
     se_inputs s \<noteq> [] \<and>
     unat (se_total_in s) = value_of (se_inputs s) \<and>
     unat (se_total_in s) = unat amount + unat (se_fee_atomic s) + unat (se_change_atomic s) \<and>
     (se_change_atomic s = 0 \<or> dust \<le> se_change_atomic s) \<and>
     fee_for (word_of_nat (length (se_inputs s))) (if se_change_atomic s = 0 then 1 else 2) rate
       \<le> se_fee_atomic s"

text \<open>A saturated target is only reached by the largest \<open>u64\<close>.\<close>

lemma saturating_target:
  assumes "saturating_add a f \<le> t" "unat t < 2 ^ 64 - 1"
  shows "unat a + unat f \<le> unat (t :: u64)"
  using assms by (simp add: word_le_nat_alt unat_saturating_add)

lemma finalize_sound:
  assumes "value_of us < 2 ^ 64 - 1" "us \<noteq> []" "length us < 2 ^ 32"
    and covered: "unat amount + unat (fee_for (word_of_nat (length us)) 2 rate) \<le> value_of us"
  shows "se_inputs (finalize us amount rate dust) = us \<and> sound_selection amount rate dust (finalize us amount rate dust)"
proof -
  let ?n = "word_of_nat (length us) :: u64" let ?fee = "fee_for ?n 2 rate" let ?t = "sum_amounts us"
  have t: "unat ?t = value_of us" using assms(1) by (simp add: sum_amounts_fits)
  have n: "unat ?n < 2 ^ 32" using assms(3) by (simp add: unat_of_nat)
  have rest: "unat (saturating_sub ?t amount) = unat ?t - unat amount"
    "unat (saturating_sub (saturating_sub ?t amount) ?fee) = unat ?t - unat amount - unat ?fee"
    by (simp_all add: unat_saturating_sub)
  have fee: "?fee \<le> saturating_sub ?t amount"
    using covered t rest(1) by (simp add: word_le_nat_alt)
  moreover have "fee_for ?n 1 rate \<le> saturating_sub ?t amount"
    using fee_for_outputs_mono [OF n, of rate] fee by (rule order.trans)
  ultimately show ?thesis
    using covered t rest assms(2)
    by (auto simp: finalize_def sound_selection_def Let_def not_less)
qed

text \<open>The greedy loop: what it returns is sound, and when it ends no prefix covers its target.\<close>

lemma greedy_step:
  assumes "value_of (acc @ u # us) < 2 ^ 64 - 1" "unat tot = value_of acc"
  shows "unat (saturating_add tot (vu_amount_atomic u)) = value_of (acc @ [u])"
  using assms by (simp add: unat_saturating_add)

lemma greedy_Ok:
  assumes "greedy amount rate dust m acc tot us = Some (Ok s)" "unat tot = value_of acc"
    "value_of (acc @ us) < 2 ^ 64 - 1" "length (acc @ us) < 2 ^ 32"
  shows "sound_selection amount rate dust s \<and> length (se_inputs s) \<le> m \<and>
    (\<exists>k. se_inputs s = acc @ take k us)"
  using assms
proof (induction us arbitrary: acc tot)
  case (Cons u us)
  let ?t = "saturating_add tot (vu_amount_atomic u)" let ?acc = "acc @ [u]"
  let ?f = "fee_for (word_of_nat (length ?acc)) 2 rate"
  have t: "unat ?t = value_of ?acc" using greedy_step Cons.prems by blast
  have small: "value_of ?acc < 2 ^ 64 - 1" using Cons.prems(3) by simp
  show ?case
  proof (cases "saturating_add amount ?f \<le> ?t")
    case True
    then have "unat amount + unat ?f \<le> value_of ?acc"
      using saturating_target [OF True] t small by simp
    then have s': "se_inputs (finalize ?acc amount rate dust) = ?acc"
        "sound_selection amount rate dust (finalize ?acc amount rate dust)"
      using finalize_sound [of ?acc amount rate dust] small Cons.prems(4) by auto
    have "\<exists>k. acc @ [u] = acc @ take k (u # us)" by (rule exI [of _ 1]) simp
    with Cons.prems(1) True s' show ?thesis by (auto simp: Let_def)
  next
    case False
    with Cons.prems(1) have "greedy amount rate dust m ?acc ?t us = Some (Ok s)"
      by (auto simp: Let_def split: if_splits)
    from Cons.IH [OF this t] Cons.prems(3,4) obtain k where
      "sound_selection amount rate dust s" "length (se_inputs s) \<le> m" "se_inputs s = ?acc @ take k us"
      by auto
    then show ?thesis by (auto intro: exI [of _ "Suc k"])
  qed
qed simp

lemma greedy_None:
  assumes "greedy amount rate dust m acc tot us = None" "unat tot = value_of acc"
    "value_of (acc @ us) < 2 ^ 64 - 1" "0 < k" "k \<le> length us"
  shows "value_of (acc @ take k us) < unat amount + unat (fee_for (word_of_nat (length acc + k)) 2 rate)"
  using assms
proof (induction us arbitrary: acc tot k)
  case (Cons u us)
  let ?t = "saturating_add tot (vu_amount_atomic u)" let ?acc = "acc @ [u]"
  let ?f = "fee_for (word_of_nat (length ?acc)) 2 rate"
  have t: "unat ?t = value_of ?acc" using greedy_step Cons.prems by blast
  from Cons.prems(1) have nt: "\<not> saturating_add amount ?f \<le> ?t"
    and rest: "greedy amount rate dust m ?acc ?t us = None"
    by (auto simp: Let_def split: if_splits)
  show ?case
  proof (cases "k = 1")
    case True
    from nt t have "value_of ?acc < unat amount + unat ?f"
      by (simp add: word_le_nat_alt unat_saturating_add)
    with True show ?thesis by simp
  next
    case False
    then obtain k' where k: "k = Suc k'" "0 < k'" using Cons.prems(4) by (cases k) auto
    with Cons.IH [OF rest t, of k'] Cons.prems show ?thesis by simp
  qed
qed simp

lemma greedy_not_Insufficient: "greedy amount rate dust m acc tot us \<noteq> Some (Err (Insufficient a b))"
  by (induction us arbitrary: acc tot) (auto simp: Let_def)

section \<open>Selection as a whole\<close>

lemma mset_take: "mset (take k xs) \<subseteq># mset xs"
  by (metis append_take_drop_id mset_append mset_subset_eq_add_left)

lemma value_of_mset:
  assumes "mset us \<subseteq># mset vs"
  shows "value_of us \<le> value_of vs"
proof -
  have *: "value_of ws = (\<Sum>u \<in># mset ws. unat (vu_amount_atomic u))" for ws
    unfolding value_of_def by (simp only: mset_map [symmetric] sum_mset_sum_list o_def)
  from assms obtain A where "mset vs = mset us + A" by (auto simp: mset_subset_eq_exists_conv)
  then show ?thesis unfolding * by simp
qed

text \<open>The three ways a selection is found, and the one way it runs short.\<close>

lemma select_cases:
  assumes "select candidates amount rate dust m = r"
  obtains (exact) u where "u \<in> set candidates"
      "vu_amount_atomic u = saturating_add amount (fee_for 1 1 rate)"
      "r = Ok \<lparr>se_inputs = [u], se_fee_atomic = fee_for 1 1 rate, se_change_atomic = 0,
        se_total_in = vu_amount_atomic u\<rparr>"
  | (single) u where "u \<in> set candidates"
      "saturating_add amount (fee_for 1 2 rate) \<le> vu_amount_atomic u"
      "r = Ok (finalize [u] amount rate dust)"
  | (greedy) "greedy amount rate dust m [] 0 candidates = Some r"
  | (short) "greedy amount rate dust m [] 0 candidates = None"
      "r = Err (Insufficient (saturating_add amount
            (fee_for (word_of_nat (max (length candidates) 1)) 2 rate)) (sum_amounts candidates))"
proof (cases "find (\<lambda>u. vu_amount_atomic u = saturating_add amount (fee_for 1 1 rate)) candidates")
  case (Some u)
  then have "u \<in> set candidates" "vu_amount_atomic u = saturating_add amount (fee_for 1 1 rate)"
    by (auto simp: find_Some_iff)
  with Some show ?thesis using exact [of u] assms by (simp add: select_def Let_def)
next
  case find: None
  let ?cover = "filter (\<lambda>u. saturating_add amount (fee_for 1 2 rate) \<le> vu_amount_atomic u) candidates"
  show ?thesis
  proof (cases "min_by utxo_less ?cover")
    case (Some u)
    from min_by_mem [OF this] have "u \<in> set ?cover" .
    with Some find assms show ?thesis using single [of u] by (simp add: select_def Let_def)
  next
    case None
    with find assms have r: "r = (case greedy amount rate dust m [] 0 candidates of Some r \<Rightarrow> r
        | None \<Rightarrow> Err (Insufficient (saturating_add amount
            (fee_for (word_of_nat (max (length candidates) 1)) 2 rate)) (sum_amounts candidates)))"
      by (simp add: select_def Let_def del: min_by_None)
    show ?thesis
      using r greedy short by (cases "greedy amount rate dust m [] 0 candidates") auto
  qed
qed

lemma single_utxo:
  assumes "u \<in> set cs" "value_of cs < 2 ^ 64 - 1"
  shows "mset [u] \<subseteq># mset cs" "value_of [u] < 2 ^ 64 - 1"
proof -
  show "mset [u] \<subseteq># mset cs" using assms(1) by simp
  from value_of_mset [OF this] assms(2) show "value_of [u] < 2 ^ 64 - 1" by simp
qed

lemma select_ok:
  assumes "select candidates amount rate dust m = Ok s"
    and "value_of candidates < 2 ^ 64 - 1" "length candidates < 2 ^ 32"
  shows "sound_selection amount rate dust s \<and> mset (se_inputs s) \<subseteq># mset candidates \<and>
    length (se_inputs s) \<le> max m 1"
proof -
  from assms(1) show ?thesis
  proof (cases rule: select_cases)
    case (exact u)
    have "unat amount + unat (fee_for 1 1 rate) \<le> unat (vu_amount_atomic u)"
      using saturating_target [of amount "fee_for 1 1 rate" "vu_amount_atomic u"]
        single_utxo(2) [OF exact(1) assms(2)] exact(2) by simp
    then show ?thesis
      using exact single_utxo [OF exact(1) assms(2)]
      by (simp add: sound_selection_def unat_saturating_add)
  next
    case (single u)
    have "unat amount + unat (fee_for 1 2 rate) \<le> unat (vu_amount_atomic u)"
      using saturating_target [OF single(2)] single_utxo(2) [OF single(1) assms(2)] by simp
    then show ?thesis
      using finalize_sound [of "[u]" amount rate dust] single_utxo [OF single(1) assms(2)] single(3)
      by auto
  next
    case greedy
    from greedy_Ok [OF this] assms(2,3) show ?thesis by (auto simp: mset_take)
  qed simp
qed

text \<open>
  C12: Coin selection is sound.  Whatever inputs it picks are candidates, each used at most once,
  and their value is exactly the payout plus fee plus change; the payout is never reduced, the
  change is absent or at least the dust threshold, the fee covers the estimated size of the
  transaction's shape, and the input cap holds (a single input is always allowed).
\<close>

theorem select_sound:
  assumes "select candidates amount rate dust m = Ok s"
    and "value_of candidates < 2 ^ 64 - 1" "length candidates < 2 ^ 32"
  shows "sound_selection amount rate dust s \<and> mset (se_inputs s) \<subseteq># mset candidates \<and>
    length (se_inputs s) \<le> max m 1"
  by (rule select_ok [OF assms])

lemma select_ok_balanced:
  assumes "select candidates amount rate dust m = Ok s"
    and "value_of candidates < 2 ^ 64 - 1" "length candidates < 2 ^ 32"
  shows "value_of (se_inputs s) = unat amount + unat (se_change_atomic s) + unat (se_fee_atomic s)"
    "value_of (se_inputs s) < 2 ^ 64 - 1"
  using select_ok [OF assms] value_of_mset [of "se_inputs s" candidates] assms(2)
  by (auto simp: sound_selection_def)

definition sample_utxo :: "nat \<Rightarrow> u64 \<Rightarrow> vault_utxo" where
  "sample_utxo i amount =
     \<lparr>vu_txid = word_of_nat i, vu_txid_hex = [word_of_nat (48 + i)],
      vu_vout = 0, vu_amount_atomic = amount, vu_script_pubkey_hex = ascii ''a914'',
      vu_confirmations = 10\<rparr>"

definition sample_utxos :: "vault_utxo list" where
  "sample_utxos = [sample_utxo 1 60000, sample_utxo 2 50000, sample_utxo 3 40000]"

lemma value_of_sample: "value_of sample_utxos = 150000" "length sample_utxos = 3"
  by (simp_all add: sample_utxos_def sample_utxo_def)

lemmas select_eval = select_def sum_amounts_def sample_utxos_def sample_utxo_def
  fee_for_def div_ceil_def saturating_add_def saturating_sub_def saturating_mul_def
  estimated_size_bytes_def TX_OVERHEAD_BYTES_def INPUT_BYTES_def OUTPUT_BYTES_def finalize_def Let_def

theorem select_sound_witness:
  "sound_selection 100000 10000 5400
     \<lparr>se_inputs = take 2 sample_utxos, se_fee_atomic = 3740, se_change_atomic = 6260,
      se_total_in = 110000\<rparr>"
proof -
  have "select sample_utxos 100000 10000 5400 5 =
      Ok \<lparr>se_inputs = take 2 sample_utxos, se_fee_atomic = 3740, se_change_atomic = 6260,
          se_total_in = 110000\<rparr>"
    by (simp add: select_eval)
  from select_sound [OF this] value_of_sample show ?thesis by simp
qed

text \<open>In a list ordered by descending value, the first \<open>k\<close> outputs are the most valuable \<open>k\<close>.\<close>

abbreviation by_value :: "vault_utxo list \<Rightarrow> bool" where
  "by_value \<equiv> sorted_wrt (\<lambda>a b. vu_amount_atomic b \<le> vu_amount_atomic a)"

lemma take_shift:
  assumes "by_value (c # cs)"
  shows "value_of (take n cs) \<le> value_of (take n (c # cs))"
  using assms
proof (induction cs arbitrary: c n)
  case (Cons d cs)
  show ?case
  proof (cases n)
    case (Suc k)
    have "value_of (take k cs) \<le> value_of (take k (d # cs))" using Cons by simp
    with Cons.prems Suc show ?thesis by (simp add: word_le_nat_alt)
  qed simp
qed simp

lemma best_prefix:
  assumes "by_value cs" "mset us \<subseteq># mset cs"
  shows "value_of us \<le> value_of (take (length us) cs)"
  using assms
proof (induction cs arbitrary: us)
  case (Cons c cs)
  show ?case
  proof (cases "c \<in> set us")
    case True
    have "mset (remove1 c us) \<subseteq># mset cs" using Cons.prems(2) True by (simp add: subset_eq_diff_conv)
    with Cons have "value_of (remove1 c us) \<le> value_of (take (length (remove1 c us)) cs)" by simp
    moreover have "value_of us = unat (vu_amount_atomic c) + value_of (remove1 c us)"
      unfolding value_of_def using True by (simp add: sum_list_map_remove1)
    moreover obtain n where "length us = Suc n" using True by (cases us) auto
    ultimately show ?thesis using True by (simp add: length_remove1)
  next
    case False
    then have "mset us \<subseteq># mset cs"
      using Cons.prems(2) by (metis add_mset_remove_trivial_If insert_DiffM2 mset.simps(2)
          set_mset_mset subset_eq_diff_conv diff_single_trivial add_mset_add_single)
    with Cons have "value_of us \<le> value_of (take (length us) cs)" by simp
    also have "\<dots> \<le> value_of (take (length us) (c # cs))"
      using Cons.prems(1) by (rule take_shift)
    finally show ?thesis .
  qed
qed simp

text \<open>
  Coin selection is complete: on the ordering the database returns (descending by value),
  it reports insufficient funds only when no choice of candidates whatsoever, of any number and
  in any combination, covers the payout and the fee of a transaction with that many inputs and a
  change output, and the error carries the true available total.
\<close>

theorem select_insufficient:
  assumes "select candidates amount rate dust m = Err (Insufficient required available)"
    and "by_value candidates" "value_of candidates < 2 ^ 64 - 1"
    and "mset chosen \<subseteq># mset candidates" "chosen \<noteq> []"
  shows "value_of chosen < unat amount + unat (fee_for (word_of_nat (length chosen)) 2 rate) \<and>
    unat available = value_of candidates"
proof -
  from assms(1) have "greedy amount rate dust m [] 0 candidates = None \<and> available = sum_amounts candidates"
    by (cases rule: select_cases) (simp_all add: greedy_not_Insufficient)
  then have none: "greedy amount rate dust m [] 0 candidates = None" and av: "available = sum_amounts candidates" by simp_all
  have len: "length chosen \<le> length candidates"
    using size_mset_mono [OF assms(4)] by simp
  have "value_of chosen \<le> value_of (take (length chosen) candidates)"
    by (rule best_prefix [OF assms(2,4)])
  also have "\<dots> < unat amount + unat (fee_for (word_of_nat (length chosen)) 2 rate)"
    using greedy_None [OF none, of "length chosen"] assms(3,5) len by simp
  finally show ?thesis using av assms(3) by (simp add: sum_amounts_fits)
qed

theorem select_insufficient_witness:
  "value_of sample_utxos < unat (149000 :: u64) + unat (fee_for 3 2 10000)"
proof -
  have "select sample_utxos 149000 10000 5400 5 = Err (Insufficient 154220 150000)"
    by (simp add: select_eval)
  moreover have "by_value sample_utxos" by (simp add: sample_utxos_def sample_utxo_def)
  ultimately show ?thesis
    using select_insufficient [of sample_utxos 149000 10000 5400 5 154220 150000 sample_utxos]
      value_of_sample by (simp add: sample_utxos_def)
qed

end
