(* ===== verification/Payout.thy ===== *)
theory Payout
  imports Coin Vault
begin

text \<open>
  Verification of payout transactions (\<^verbatim>\<open>relayer/src/withdrawal/builder.rs\<close>): the check of a
  decoded transaction against the plan before signing, and the check that signing changed
  nothing.  \<open>std::ptr::eq\<close> between two outputs of the same vector is equality of positions.
\<close>

section \<open>Data\<close>

record decoded_output =
  do_value_atomic :: u64
  do_script_pubkey_hex :: bytes

record decoded_input =
  di_txid_hex :: bytes
  di_vout :: i64

record decoded_tx =
  dt_txid_hex :: bytes
  dt_inputs :: "decoded_input list"
  dt_outputs :: "decoded_output list"

record payout_plan =
  pp_dest_hash160 :: bytes20
  pp_payout_atomic :: u64
  pp_change_script_hex :: "bytes option"
  pp_change_atomic :: u64
  pp_fee_atomic :: u64
  pp_inputs :: "vault_utxo list"

datatype verify_error =
    OutputCount nat nat
  | InputCount nat nat
  | InputMismatch nat bytes i64 bytes i64
  | MissingDestinationOutput bytes
  | DestinationAmount u64 u64
  | MissingChangeOutput bytes
  | ChangeAmount u64 u64
  | UnexpectedOutput u64 bytes
  | ValueNotConserved u64 u64 u64 u64
  | UnexpectedChange
  | OutputsAlteredBySigning

section \<open>Operations\<close>

text \<open>\<open>str::eq_ignore_ascii_case\<close>.\<close>

definition to_ascii_lowercase :: "u8 \<Rightarrow> u8" where
  "to_ascii_lowercase c = (if 65 \<le> c \<and> c \<le> 90 then c + 32 else c)"

definition eq_ignore_ascii_case :: "bytes \<Rightarrow> bytes \<Rightarrow> bool" where
  "eq_ignore_ascii_case a b \<longleftrightarrow> map to_ascii_lowercase a = map to_ascii_lowercase b"

fun check_inputs :: "nat \<Rightarrow> (decoded_input \<times> vault_utxo) list \<Rightarrow> (unit, verify_error) result" where
  "check_inputs i [] = Ok ()"
| "check_inputs i ((a, e) # rest) =
     (if di_txid_hex a \<noteq> vu_txid_hex e \<or> di_vout a \<noteq> vu_vout e
        then Err (InputMismatch i (di_txid_hex a) (di_vout a) (vu_txid_hex e) (vu_vout e))
      else check_inputs (i + 1) rest)"

fun check_nothing_else ::
  "bytes \<Rightarrow> bytes option \<Rightarrow> decoded_output list \<Rightarrow> (unit, verify_error) result" where
  "check_nothing_else dest_script change_script [] = Ok ()"
| "check_nothing_else dest_script change_script (out # outs) =
     (let is_dest = eq_ignore_ascii_case (do_script_pubkey_hex out) dest_script;
          is_change = (case change_script of None \<Rightarrow> False
                       | Some s \<Rightarrow> eq_ignore_ascii_case (do_script_pubkey_hex out) s)
      in if \<not> is_dest \<and> \<not> is_change
           then Err (UnexpectedOutput (do_value_atomic out) (do_script_pubkey_hex out))
         else check_nothing_else dest_script change_script outs)"

definition verify_payout_tx :: "decoded_tx \<Rightarrow> payout_plan \<Rightarrow> (unit, verify_error) result" where
  "verify_payout_tx tx plan =
     (if length (dt_inputs tx) \<noteq> length (pp_inputs plan)
        then Err (InputCount (length (pp_inputs plan)) (length (dt_inputs tx)))
      else and_then (check_inputs 0 (zip (dt_inputs tx) (pp_inputs plan))) (\<lambda>_.
      let outs = dt_outputs tx;
          expected_outputs = (if pp_change_atomic plan > 0 then 2 else 1) in
      if length outs \<noteq> expected_outputs then Err (OutputCount expected_outputs (length outs))
      else let dest_script = p2pkh_script_hex (pp_dest_hash160 plan) in
      and_then (ok_or (MissingDestinationOutput dest_script)
        (position (\<lambda>out. eq_ignore_ascii_case (do_script_pubkey_hex out) dest_script) outs)) (\<lambda>dest.
      if do_value_atomic (outs ! dest) \<noteq> pp_payout_atomic plan
        then Err (DestinationAmount (do_value_atomic (outs ! dest)) (pp_payout_atomic plan))
      else and_then
        (if pp_change_atomic plan > 0 then
           and_then (ok_or UnexpectedChange (pp_change_script_hex plan)) (\<lambda>script.
           and_then (ok_or (MissingChangeOutput script)
             (find (\<lambda>i. eq_ignore_ascii_case (do_script_pubkey_hex (outs ! i)) script \<and> i \<noteq> dest)
               [0..<length outs])) (\<lambda>change.
           if do_value_atomic (outs ! change) \<noteq> pp_change_atomic plan
             then Err (ChangeAmount (do_value_atomic (outs ! change)) (pp_change_atomic plan))
           else Ok ()))
         else Ok ()) (\<lambda>_.
      and_then (check_nothing_else dest_script (pp_change_script_hex plan) outs) (\<lambda>_.
      let total_in = sum_amounts (pp_inputs plan);
          accounted = saturating_add (saturating_add (pp_payout_atomic plan) (pp_change_atomic plan))
            (pp_fee_atomic plan) in
      if total_in \<noteq> accounted
        then Err (ValueNotConserved total_in (pp_payout_atomic plan) (pp_change_atomic plan)
               (pp_fee_atomic plan))
      else Ok ())))))"

definition verify_signing_preserved_outputs ::
  "decoded_tx \<Rightarrow> decoded_tx \<Rightarrow> (unit, verify_error) result" where
  "verify_signing_preserved_outputs unsigned_tx signed_tx =
     (if dt_outputs unsigned_tx \<noteq> dt_outputs signed_tx then Err OutputsAlteredBySigning
      else if dt_inputs unsigned_tx \<noteq> dt_inputs signed_tx then Err OutputsAlteredBySigning
      else Ok ())"

section \<open>Soundness\<close>

definition same_outpoint :: "decoded_input \<Rightarrow> vault_utxo \<Rightarrow> bool" where
  "same_outpoint a e \<longleftrightarrow> di_txid_hex a = vu_txid_hex e \<and> di_vout a = vu_vout e"

lemma check_inputs_Ok: "check_inputs i ps = Ok () \<longleftrightarrow> (\<forall>(a, e) \<in> set ps. same_outpoint a e)"
  by (induction i ps rule: check_inputs.induct) (auto simp: same_outpoint_def)

lemma check_nothing_else_Ok:
  "check_nothing_else d c outs = Ok () \<longleftrightarrow>
     (\<forall>out \<in> set outs. eq_ignore_ascii_case (do_script_pubkey_hex out) d \<or>
        (\<exists>s. c = Some s \<and> eq_ignore_ascii_case (do_script_pubkey_hex out) s))"
  by (induction outs) (auto simp: Let_def split: option.splits)

text \<open>An output that pays \<open>v\<close> to \<open>script\<close>.\<close>

definition pays :: "decoded_output \<Rightarrow> bytes \<Rightarrow> u64 \<Rightarrow> bool" where
  "pays out script v \<longleftrightarrow>
     eq_ignore_ascii_case (do_script_pubkey_hex out) script \<and> do_value_atomic out = v"

definition pays_plan :: "decoded_output list \<Rightarrow> payout_plan \<Rightarrow> bool" where
  "pays_plan outs plan \<longleftrightarrow>
     (let dest = p2pkh_script_hex (pp_dest_hash160 plan) in
      if pp_change_atomic plan = 0
        then \<exists>a. outs = [a] \<and> pays a dest (pp_payout_atomic plan)
      else \<exists>a b s. (outs = [a, b] \<or> outs = [b, a]) \<and> pays a dest (pp_payout_atomic plan) \<and>
             pp_change_script_hex plan = Some s \<and> pays b s (pp_change_atomic plan))"

lemma pays_plan_two:
  assumes "pays a (p2pkh_script_hex (pp_dest_hash160 plan)) (pp_payout_atomic plan)"
    "pays b s (pp_change_atomic plan)" "pp_change_script_hex plan = Some s"
    "pp_change_atomic plan \<noteq> 0" "outs = [a, b] \<or> outs = [b, a]"
  shows "pays_plan outs plan"
  using assms unfolding pays_plan_def Let_def by auto

text \<open>What the verification promises of a transaction it passes.\<close>

definition exact_payout :: "decoded_tx \<Rightarrow> payout_plan \<Rightarrow> bool" where
  "exact_payout tx plan \<longleftrightarrow>
     list_all2 same_outpoint (dt_inputs tx) (pp_inputs plan) \<and>
     pays_plan (dt_outputs tx) plan"

definition balanced :: "payout_plan \<Rightarrow> bool" where
  "balanced plan \<longleftrightarrow> value_of (pp_inputs plan) =
     unat (pp_payout_atomic plan) + unat (pp_change_atomic plan) + unat (pp_fee_atomic plan)"

lemma accounted_exact:
  assumes "value_of us < 2 ^ 64 - 1"
  shows "sum_amounts us = saturating_add (saturating_add a b) c \<longleftrightarrow> value_of us = unat a + unat b + unat (c :: u64)"
proof -
  have t: "unat (sum_amounts us) = value_of us" using assms by (simp add: sum_amounts_fits)
  show ?thesis using t assms by (auto simp: word_unat_eq_iff unat_saturating_add)
qed

lemma inputs_zip:
  "length as = length es \<Longrightarrow> check_inputs 0 (zip as es) = Ok () \<longleftrightarrow> list_all2 same_outpoint as es"
  by (simp add: check_inputs_Ok list_all2_iff)

lemma outputs_two: "length outs = 2 \<Longrightarrow> \<exists>a b. outs = [a, b]"
  by (metis One_nat_def Suc_1 length_0_conv length_Suc_conv)

lemma find_upt: "find P [0..<n] = Some i \<Longrightarrow> i < n \<and> P i"
  by (auto simp: find_Some_iff)

lemma verify_payout_tx_sound:
  assumes "verify_payout_tx tx plan = Ok ()" "value_of (pp_inputs plan) < 2 ^ 64 - 1"
  shows "exact_payout tx plan \<and> balanced plan"
proof -
  let ?d = "p2pkh_script_hex (pp_dest_hash160 plan)" let ?outs = "dt_outputs tx"
  from assms(1) obtain dest where ins: "list_all2 same_outpoint (dt_inputs tx) (pp_inputs plan)"
    and len: "length ?outs = (if pp_change_atomic plan > 0 then 2 else 1)"
    and dest: "position (\<lambda>out. eq_ignore_ascii_case (do_script_pubkey_hex out) ?d) ?outs = Some dest"
      "do_value_atomic (?outs ! dest) = pp_payout_atomic plan"
    and change: "pp_change_atomic plan > 0 \<Longrightarrow> \<exists>script i. pp_change_script_hex plan = Some script \<and>
      find (\<lambda>i. eq_ignore_ascii_case (do_script_pubkey_hex (?outs ! i)) script \<and> i \<noteq> dest)
        [0..<length ?outs] = Some i \<and> do_value_atomic (?outs ! i) = pp_change_atomic plan"
    and t: "sum_amounts (pp_inputs plan) = saturating_add (saturating_add (pp_payout_atomic plan) (pp_change_atomic plan))
         (pp_fee_atomic plan)"
    unfolding verify_payout_tx_def Let_def
    by (clarsimp simp: inputs_zip split: if_splits)
  have at: "dest < length ?outs" "pays (?outs ! dest) ?d (pp_payout_atomic plan)"
    using position_Some_nth [OF dest(1)] dest(2) by (simp_all add: pays_def)
  have "pays_plan ?outs plan"
  proof (cases "pp_change_atomic plan = 0")
    case True
    with len obtain a where "?outs = [a]" by (auto simp: length_Suc_conv)
    with at True show ?thesis by (simp add: pays_plan_def)
  next
    case False
    then have pos: "pp_change_atomic plan > 0" by (simp add: word_neq_0_conv)
    with len obtain a b where outs: "?outs = [a, b]" using outputs_two by fastforce
    from change [OF pos] obtain script i where sc: "pp_change_script_hex plan = Some script"
      and i: "i < length ?outs" "i \<noteq> dest" "pays (?outs ! i) script (pp_change_atomic plan)"
      unfolding pays_def by (blast dest: find_upt)
    from at(1) outs i(1) have "dest = 0 \<or> dest = 1" "i = 0 \<or> i = 1" by auto
    with i(2) outs have "?outs = [?outs ! dest, ?outs ! i] \<or> ?outs = [?outs ! i, ?outs ! dest]" by auto
    then show ?thesis by (rule pays_plan_two [OF at(2) i(3) sc False])
  qed
  with ins show ?thesis
    using accounted_exact [OF assms(2), THEN iffD1, OF t]
    by (simp add: exact_payout_def balanced_def)
qed

text \<open>
  A payout transaction that passes verification is exact: its inputs are the reserved
  outpoints in order, one output pays the destination script exactly the payout, the only other
  output, present exactly when change is planned, pays the vault's change script exactly the
  change, and inputs equal payout plus change plus fee.  The same holds of the signed transaction
  once the signing check has passed.
\<close>

theorem verified_payout_exact:
  assumes "verify_payout_tx tx plan = Ok ()" "verify_signing_preserved_outputs tx signed_tx = Ok ()"
    and "value_of (pp_inputs plan) < 2 ^ 64 - 1"
  shows "exact_payout signed_tx plan \<and> balanced plan"
  using verify_payout_tx_sound [OF assms(1,3)] assms(2)
  by (simp add: verify_signing_preserved_outputs_def exact_payout_def)

section \<open>Completeness\<close>

lemma eq_ignore_refl [simp]: "eq_ignore_ascii_case s s"
  by (simp add: eq_ignore_ascii_case_def)

text \<open>The vault's P2SH script is never a P2PKH script: they differ in length.\<close>

lemma scripts_differ:
  "eq_ignore_ascii_case s (script_pubkey_hex v) \<Longrightarrow> \<not> eq_ignore_ascii_case s (p2pkh_script_hex h)"
proof -
  have "length (script_pubkey_hex v) \<noteq> length (p2pkh_script_hex h)"
    by (simp add: script_pubkey_hex_def p2pkh_script_hex_def)
  then show "eq_ignore_ascii_case s (script_pubkey_hex v) \<Longrightarrow>
      \<not> eq_ignore_ascii_case s (p2pkh_script_hex h)"
    unfolding eq_ignore_ascii_case_def by (metis length_map)
qed

lemma verify_payout_tx_complete:
  assumes "exact_payout tx plan" "balanced plan" "value_of (pp_inputs plan) < 2 ^ 64 - 1"
    and change: "pp_change_script_hex plan = Some (script_pubkey_hex v)"
  shows "verify_payout_tx tx plan = Ok ()"
proof -
  let ?d = "p2pkh_script_hex (pp_dest_hash160 plan)" let ?outs = "dt_outputs tx"
  have acc: "sum_amounts (pp_inputs plan) = saturating_add (saturating_add (pp_payout_atomic plan) (pp_change_atomic plan))
      (pp_fee_atomic plan)"
    using accounted_exact [OF assms(3)] assms(2) by (simp add: balanced_def)
  from assms(1) have ins: "list_all2 same_outpoint (dt_inputs tx) (pp_inputs plan)"
    and outs: "pays_plan ?outs plan" by (simp_all add: exact_payout_def)
  note defs = verify_payout_tx_def Let_def inputs_zip list_all2_lengthD [OF ins] ins acc
    change pays_def check_nothing_else_Ok word_neq_0_conv [symmetric]
  show ?thesis
  proof (cases "pp_change_atomic plan = 0")
    case True
    with outs show ?thesis by (auto simp: pays_plan_def defs)
  next
    case False
    with outs change obtain a b where ab: "?outs = [a, b] \<or> ?outs = [b, a]"
      "pays a ?d (pp_payout_atomic plan)" "pays b (script_pubkey_hex v) (pp_change_atomic plan)"
      by (auto simp: pays_plan_def)
    then have "\<not> eq_ignore_ascii_case (do_script_pubkey_hex b) ?d" by (auto simp: pays_def dest: scripts_differ)
    with ab(2,3) False have "verify_payout_tx tx plan = Ok ()" if "?outs = [a, b]"
      by (simp add: defs that)
    moreover have "verify_payout_tx tx plan = Ok ()" if "?outs = [b, a]"
      using ab(2,3) False \<open>\<not> eq_ignore_ascii_case (do_script_pubkey_hex b) ?d\<close> by (simp add: defs that)
    ultimately show ?thesis using ab(1) by blast
  qed
qed

text \<open>The transaction the plan describes: reserved inputs, then the payout and the change.\<close>

definition planned_outputs :: "payout_plan \<Rightarrow> decoded_output list" where
  "planned_outputs plan =
     \<lparr>do_value_atomic = pp_payout_atomic plan,
      do_script_pubkey_hex = p2pkh_script_hex (pp_dest_hash160 plan)\<rparr> #
     (case pp_change_script_hex plan of Some s \<Rightarrow>
        (if pp_change_atomic plan = 0 then []
         else [\<lparr>do_value_atomic = pp_change_atomic plan, do_script_pubkey_hex = s\<rparr>])
      | None \<Rightarrow> [])"

definition planned_tx :: "bytes \<Rightarrow> payout_plan \<Rightarrow> decoded_tx" where
  "planned_tx txid plan =
     \<lparr>dt_txid_hex = txid,
      dt_inputs = map (\<lambda>u. \<lparr>di_txid_hex = vu_txid_hex u, di_vout = vu_vout u\<rparr>) (pp_inputs plan),
      dt_outputs = planned_outputs plan\<rparr>"

definition plan_of :: "multisig_vault \<Rightarrow> bytes20 \<Rightarrow> u64 \<Rightarrow> selection \<Rightarrow> payout_plan" where
  "plan_of v dest amount s =
     \<lparr>pp_dest_hash160 = dest, pp_payout_atomic = amount,
      pp_change_script_hex = Some (script_pubkey_hex v), pp_change_atomic = se_change_atomic s,
      pp_fee_atomic = se_fee_atomic s, pp_inputs = se_inputs s\<rparr>"

lemma selection_plan_verifies:
  assumes "select candidates amount rate dust m = Ok s"
    and "value_of candidates < 2 ^ 64 - 1" "length candidates < 2 ^ 32"
    and "plan = plan_of v dest amount s"
    and "tx = planned_tx txid plan \<or>
      tx = (planned_tx txid plan)\<lparr>dt_outputs := rev (planned_outputs plan)\<rparr>"
  shows "verify_payout_tx tx plan = Ok ()"
proof (rule verify_payout_tx_complete)
  from select_ok_balanced [OF assms(1-3)]
  show "balanced plan" "value_of (pp_inputs plan) < 2 ^ 64 - 1"
    by (simp_all add: assms(4) balanced_def plan_of_def)
  show sc: "pp_change_script_hex plan = Some (script_pubkey_hex v)" by (simp add: assms(4) plan_of_def)
  let ?a = "\<lparr>do_value_atomic = pp_payout_atomic plan,
      do_script_pubkey_hex = p2pkh_script_hex (pp_dest_hash160 plan)\<rparr>"
  let ?b = "\<lparr>do_value_atomic = pp_change_atomic plan, do_script_pubkey_hex = script_pubkey_hex v\<rparr>"
  have "pays_plan (planned_outputs plan) plan \<and> pays_plan (rev (planned_outputs plan)) plan"
  proof (cases "pp_change_atomic plan = 0")
    case True
    with sc show ?thesis by (simp add: planned_outputs_def pays_plan_def pays_def)
  next
    case False
    then have "planned_outputs plan = [?a, ?b]" using sc by (simp add: planned_outputs_def)
    with False show ?thesis
      using pays_plan_two [OF _ _ sc False, of ?a ?b] by (simp add: pays_def)
  qed
  then show "exact_payout tx plan"
    using assms(5)
    by (auto simp: exact_payout_def planned_tx_def same_outpoint_def list_all2_map1
        intro!: list_all2_refl)
qed

text \<open>
  Selection, planning and verification fit together: the plan made of any successful coin
  selection, realised as a transaction with the planned outputs in either order, passes
  verification, so a payout is never built that the relayer's own check then refuses.
\<close>

theorem selected_payout_verifies:
  assumes "select candidates amount rate dust m = Ok s"
    and "value_of candidates < 2 ^ 64 - 1" "length candidates < 2 ^ 32"
    and "plan = plan_of v dest amount s"
    and "tx = planned_tx txid plan \<or>
      tx = (planned_tx txid plan)\<lparr>dt_outputs := rev (planned_outputs plan)\<rparr>"
  shows "verify_payout_tx tx plan = Ok ()"
  by (rule selection_plan_verifies [OF assms])

section \<open>Instances\<close>

definition sample_vault :: multisig_vault where
  "sample_vault = vault_of (\<lambda>_. 0) (\<lambda>_. 0) 1 [2]"

definition sample_selection :: selection where
  "sample_selection = \<lparr>se_inputs = take 2 sample_utxos, se_fee_atomic = 3740,
     se_change_atomic = 6260, se_total_in = 110000\<rparr>"

definition sample_plan :: payout_plan where
  "sample_plan = plan_of sample_vault 7 100000 sample_selection"

lemma sample_select: "select sample_utxos 100000 10000 5400 5 = Ok sample_selection"
  by (simp add: select_eval sample_selection_def)

theorem selected_payout_verifies_witness:
  "verify_payout_tx (planned_tx [] sample_plan) sample_plan = Ok ()"
  using selected_payout_verifies [OF sample_select _ _ sample_plan_def, of "planned_tx [] sample_plan" "[]"]
    value_of_sample by simp

lemma sample_plan_verified: "verify_payout_tx (planned_tx [] sample_plan) sample_plan = Ok ()"
  using value_of_sample
  by (intro selection_plan_verifies [OF sample_select _ _ sample_plan_def, where txid = "[]"]) simp_all

theorem verified_payout_exact_witness:
  "exact_payout (planned_tx [] sample_plan) sample_plan \<and> balanced sample_plan"
proof (rule verified_payout_exact [OF sample_plan_verified])
  show "verify_signing_preserved_outputs (planned_tx [] sample_plan) (planned_tx [] sample_plan) = Ok ()"
    by (simp add: verify_signing_preserved_outputs_def)
  show "value_of (pp_inputs sample_plan) < 2 ^ 64 - 1"
    by (simp add: sample_plan_def plan_of_def sample_selection_def sample_utxos_def sample_utxo_def)
qed

end
