(* ===== verification/Effects.thy ===== *)
theory Effects
  imports Prelude
begin

text \<open>
  Sequencing of the relayer's operations.  An operation maps the state of its component to a
  result and the state after it; what it did before an error stays done, as in the code, where
  the question mark returns early and nothing is undone.  The locale \<open>io_invariant\<close> is the
  program logic of the components: an invariant of the state that the operations keep, and
  assertions about the part of the state (the database) that the operations read and write.
\<close>

section \<open>Operations\<close>

type_synonym ('s, 'a, 'e) io = "'s \<Rightarrow> ('a, 'e) result \<times> 's"

definition eret :: "'a \<Rightarrow> ('s, 'a, 'e) io" where
  "eret x s = (Ok x, s)"

definition ebind :: "('s, 'a, 'e) io \<Rightarrow> ('a \<Rightarrow> ('s, 'b, 'e) io) \<Rightarrow> ('s, 'b, 'e) io" where
  "ebind m f s = (case m s of (Err e, s') \<Rightarrow> (Err e, s') | (Ok x, s') \<Rightarrow> f x s')"

definition elift :: "('a, 'e) result \<Rightarrow> ('s, 'a, 'e) io" where
  "elift r s = (r, s)"

fun efor :: "'a list \<Rightarrow> ('a \<Rightarrow> ('s, unit, 'e) io) \<Rightarrow> ('s, unit, 'e) io" where
  "efor [] f = eret ()"
| "efor (x # xs) f = ebind (f x) (\<lambda>_. efor xs f)"

lemma ebind_Ok: "ebind m f s = (Ok y, s'') \<longleftrightarrow> (\<exists>x s'. m s = (Ok x, s') \<and> f x s' = (Ok y, s''))"
  by (auto simp: ebind_def split: prod.splits result.splits)

lemma ebind_step: "m s = (Ok x, s') \<Longrightarrow> ebind m f s = f x s'"
  by (simp add: ebind_def)

lemma ebind_stop: "m s = (Err e, s') \<Longrightarrow> ebind m f s = (Err e, s')"
  by (simp add: ebind_def)

section \<open>The program logic\<close>

locale io_invariant =
  fixes I :: "'s \<Rightarrow> bool"
    and view :: "'s \<Rightarrow> 'd"
begin

text \<open>
  From a state with the invariant whose view satisfies \<open>p\<close>, the operation keeps the invariant,
  and if it succeeds with \<open>x\<close> then \<open>q x\<close> holds of the view.
\<close>

definition triple :: "('d \<Rightarrow> bool) \<Rightarrow> ('s, 'a, 'e) io \<Rightarrow> ('a \<Rightarrow> 'd \<Rightarrow> bool) \<Rightarrow> bool" where
  "triple p m q \<longleftrightarrow> (\<forall>s r s'. I s \<longrightarrow> p (view s) \<longrightarrow> m s = (r, s') \<longrightarrow>
     I s' \<and> (\<forall>x. r = Ok x \<longrightarrow> q x (view s')))"

abbreviation keeps :: "('s, 'a, 'e) io \<Rightarrow> bool" where
  "keeps m \<equiv> triple (\<lambda>_. True) m (\<lambda>_ _. True)"

lemma triple_bind:
  assumes "triple p m q" "\<And>x. triple (q x) (f x) r"
  shows "triple p (ebind m f) r"
  unfolding triple_def
proof (intro allI impI)
  fix s res s'
  assume I: "I s" "p (view s)" and run: "ebind m f s = (res, s')"
  obtain r1 s1 where m: "m s = (r1, s1)" by (cases "m s")
  with assms(1) I have 1: "I s1" "\<forall>x. r1 = Ok x \<longrightarrow> q x (view s1)" by (auto simp: triple_def)
  show "I s' \<and> (\<forall>x. res = Ok x \<longrightarrow> r x (view s'))"
  proof (cases r1)
    case (Ok x)
    with m run have "f x s1 = (res, s')" by (simp add: ebind_def)
    with assms(2) [of x] 1 Ok show ?thesis by (auto simp: triple_def)
  next
    case (Err e)
    with m run have "res = Err e" "s' = s1" by (simp_all add: ebind_def)
    with 1 show ?thesis by simp
  qed
qed

lemma triple_weaken: "triple p m q \<Longrightarrow> (\<And>d. p' d \<Longrightarrow> p d) \<Longrightarrow> (\<And>x d. q x d \<Longrightarrow> q' x d) \<Longrightarrow> triple p' m q'"
  unfolding triple_def by blast

lemma triple_ret: "(\<And>d. p d \<Longrightarrow> q x d) \<Longrightarrow> triple p (eret x) q"
  by (auto simp: triple_def eret_def)

lemma triple_lift: "triple p (elift r) (\<lambda>x d. p d \<and> r = Ok x)"
  by (auto simp: triple_def elift_def)

lemma keeps_bind: "triple p m (\<lambda>_ _. True) \<Longrightarrow> (\<And>x. keeps (f x)) \<Longrightarrow> triple p (ebind m f) (\<lambda>_ _. True)"
  by (rule triple_bind)

lemma keeps_for: "(\<And>x. x \<in> set xs \<Longrightarrow> keeps (f x)) \<Longrightarrow> keeps (efor xs f)"
  by (induction xs) (auto intro!: triple_ret triple_bind [where q = "\<lambda>_ _. True"])

lemma keeps_if: "(b \<Longrightarrow> triple p m q) \<Longrightarrow> (\<not> b \<Longrightarrow> triple p m' q) \<Longrightarrow> triple p (if b then m else m') q"
  by simp

lemma keeps_option:
  "(x = None \<Longrightarrow> triple p m q) \<Longrightarrow> (\<And>y. x = Some y \<Longrightarrow> triple p (f y) q) \<Longrightarrow>
     triple p (case x of None \<Rightarrow> m | Some y \<Rightarrow> f y) q"
  by (cases x) simp_all

lemma keeps_result:
  "(\<And>y. x = Ok y \<Longrightarrow> triple p (f y) q) \<Longrightarrow> (\<And>e. x = Err e \<Longrightarrow> triple p (g e) q) \<Longrightarrow>
     triple p (case x of Ok y \<Rightarrow> f y | Err e \<Rightarrow> g e) q"
  by (cases x) simp_all

lemma keeps_let: "(\<And>y. y = x \<Longrightarrow> triple p (f y) q) \<Longrightarrow> triple p (let y = x in f y) q"
  by simp

lemma keeps_run: "keeps m \<Longrightarrow> I s \<Longrightarrow> I (snd (m s))"
  unfolding triple_def by (metis prod.collapse)

end

end
