(* ===== verification/Rpc.thy ===== *)
theory Rpc
  imports Prelude
begin

text \<open>
  The Goldcoin JSON-RPC client (\<^verbatim>\<open>relayer/src/glc/rpc.rs\<close>): how a response is read, which errors
  are worth a retry, the bounded retry of a call, and the outcomes of a broadcast.  Sending the
  request is the environment's: a call is a function that reads and changes an opaque world.
\<close>

datatype json =
    JNull
  | JBool bool
  | JInt int
  | JFloat
  | JStr bytes
  | JArr "json list"
  | JObj "(string \<times> json) list"

fun json_get :: "json \<Rightarrow> string \<Rightarrow> json option" where
  "json_get (JObj fields) k = map_of fields k"
| "json_get _ k = None"

fun json_i64 :: "json \<Rightarrow> i64 option" where
  "json_i64 (JInt n) = (if - (2 ^ 63) \<le> n \<and> n < 2 ^ 63 then Some (word_of_int n) else None)"
| "json_i64 _ = None"

fun json_str :: "json \<Rightarrow> bytes option" where
  "json_str (JStr s) = Some s"
| "json_str _ = None"

datatype rpc_error = Transport bytes | Method i64 bytes | Malformed bytes

definition is_retriable :: "rpc_error \<Rightarrow> bool" where
  "is_retriable e = (case e of Transport _ \<Rightarrow> True | _ \<Rightarrow> False)"

text \<open>The parsed body of a response: an error that is not null, or the result.\<close>

definition read_response :: "json \<Rightarrow> (json, rpc_error) result" where
  "read_response parsed =
     (case json_get parsed ''error'' of
        Some error \<Rightarrow>
          if error \<noteq> JNull then
            Err (Method
              (case json_get error ''code'' of None \<Rightarrow> - 1
               | Some c \<Rightarrow> (case json_i64 c of None \<Rightarrow> - 1 | Some n \<Rightarrow> n))
              (case json_get error ''message'' of None \<Rightarrow> ascii ''(no message)''
               | Some m \<Rightarrow> (case json_str m of None \<Rightarrow> ascii ''(no message)'' | Some t \<Rightarrow> t)))
          else ok_or (Malformed (ascii ''response has neither result nor error'')) (json_get parsed ''result'')
      | None \<Rightarrow> ok_or (Malformed (ascii ''response has neither result nor error'')) (json_get parsed ''result''))"

datatype broadcast_outcome = Accepted bytes | AlreadyInChain | MissingInputs

definition read_broadcast :: "(json, rpc_error) result \<Rightarrow> (broadcast_outcome, rpc_error) result" where
  "read_broadcast r =
     (case r of
        Ok v \<Rightarrow> and_then (ok_or (Malformed (ascii ''sendrawtransaction returned non-string'')) (json_str v))
                 (\<lambda>txid. Ok (Accepted txid))
      | Err (Method code m) \<Rightarrow>
          if code = - 27 then Ok AlreadyInChain
          else if code = - 25 then Ok MissingInputs
          else Err (Method code m)
      | Err e \<Rightarrow> Err e)"

text \<open>
  The bounded retry that both RPC clients use: an error worth a retry is retried until the
  attempts are used up.  The pause between two attempts is not part of the model.
\<close>

fun retry ::
  "('e \<Rightarrow> bool) \<Rightarrow> nat \<Rightarrow> ('w \<Rightarrow> ('a, 'e) result \<times> 'w) \<Rightarrow> 'w \<Rightarrow> ('a, 'e) result \<times> 'w" where
  "retry retriable max_attempts f w =
     (case f w of
        (Ok v, w') \<Rightarrow> (Ok v, w')
      | (Err e, w') \<Rightarrow>
          if retriable e \<and> 1 < max_attempts then retry retriable (max_attempts - 1) f w'
          else (Err e, w'))"

declare retry.simps [simp del]

definition call_with_retry ::
  "nat \<Rightarrow> ('w \<Rightarrow> ('a, rpc_error) result \<times> 'w) \<Rightarrow> 'w \<Rightarrow> ('a, rpc_error) result \<times> 'w" where
  "call_with_retry = retry is_retriable"

text \<open>A call that succeeds at once, or fails in a way that is not worth a retry, is made once.\<close>

lemma retry_once:
  assumes "f w = (r, w')" "\<And>e. r = Err e \<Longrightarrow> \<not> retriable e"
  shows "retry retriable n f w = (r, w')"
  using assms by (cases r) (auto simp: retry.simps [of _ n])

text \<open>Whatever it returns was returned by one of the attempts, and a property of the world the call keeps is kept.\<close>

lemma retry_keeps:
  assumes "\<And>w r w'. P w \<Longrightarrow> f w = (r, w') \<Longrightarrow> P w' \<and> Q r" "P w" "retry retriable n f w = (r, w')"
  shows "P w' \<and> Q r"
  using assms(2,3)
proof (induction n arbitrary: w rule: less_induct)
  case (less n)
  obtain r1 w1 where f: "f w = (r1, w1)" by (cases "f w")
  note kept = assms(1) [OF less.prems(1) f]
  show ?case
  proof (cases "\<exists>e. r1 = Err e \<and> retriable e \<and> 1 < n")
    case True
    with less.prems(2) f have "retry retriable (n - 1) f w1 = (r, w')" "n - 1 < n"
      by (auto simp: retry.simps [of _ n])
    with less.IH kept show ?thesis by blast
  next
    case False
    with less.prems(2) f have "(r, w') = (r1, w1)"
      by (cases r1) (auto simp: retry.simps [of _ n])
    with kept show ?thesis by simp
  qed
qed

text \<open>At most \<open>max_attempts\<close> attempts are made: a counter the call increments grows by at most that much.\<close>

lemma retry_bounded:
  assumes "\<And>w r w'. f w = (r, w') \<Longrightarrow> count w' \<le> Suc (count w)" "retry retriable n f w = (r, w')"
  shows "count w' \<le> count w + max 1 n"
  using assms(2)
proof (induction n arbitrary: w rule: less_induct)
  case (less n)
  obtain r1 w1 where f: "f w = (r1, w1)" by (cases "f w")
  show ?case
  proof (cases "\<exists>e. r1 = Err e \<and> retriable e \<and> 1 < n")
    case True
    with less.prems f have "retry retriable (n - 1) f w1 = (r, w')" "n - 1 < n"
      by (auto simp: retry.simps [of _ n])
    with less.IH [of "n - 1" w1] assms(1) [OF f] True show ?thesis by auto
  next
    case False
    with less.prems f have "(r, w') = (r1, w1)"
      by (cases r1) (auto simp: retry.simps [of _ n])
    with assms(1) [OF f] show ?thesis by simp
  qed
qed

end
