(* ===== verification/PayoutIntent.thy ===== *)
theory PayoutIntent
  imports Coin
begin

text \<open>
  The canonical payout intent of \<^verbatim>\<open>relayer/src/glc/withdrawal_db.rs\<close>: the byte string a payout is
  committed to, its commitment hash, and the attribution of a mismatch to fields.  The intent
  determines every field of the payout, its designated quorum and its inputs.
\<close>

definition PAYOUT_DOMAIN_TAG :: bytes where
  "PAYOUT_DOMAIN_TAG = ascii ''GLC_BRIDGE_PAYOUT''"

text \<open>One input of the intent; \<open>vout as u32\<close> truncates.\<close>

definition intent_input :: "vault_utxo \<Rightarrow> bytes" where
  "intent_input i = le_bytes (vu_txid i) @ le_bytes (ucast (vu_vout i) :: u32) @ le_bytes (vu_amount_atomic i)"

definition canonical_payout_intent ::
  "u8 \<Rightarrow> i64 \<Rightarrow> bytes20 \<Rightarrow> bytes20 \<Rightarrow> u64 \<Rightarrow> u64 \<Rightarrow> u64 \<Rightarrow> bytes20 \<Rightarrow> u32 \<Rightarrow> bytes \<Rightarrow> vault_utxo list
   \<Rightarrow> bytes" where
  "canonical_payout_intent protocol_version withdrawal_index vault_script_hash dest_hash160
     payout fee change change_hash160 quorum_attempt quorum_indices inputs =
     PAYOUT_DOMAIN_TAG @ [protocol_version] @ le_bytes withdrawal_index @ le_bytes vault_script_hash @
     le_bytes dest_hash160 @ le_bytes payout @ le_bytes fee @ le_bytes change @
     le_bytes change_hash160 @ le_bytes quorum_attempt @ [word_of_nat (length quorum_indices)] @
     quorum_indices @ le_bytes (word_of_nat (length inputs) :: u32) @ concat (map intent_input inputs)"

definition payout_commitment :: "(bytes \<Rightarrow> bytes32) \<Rightarrow> bytes \<Rightarrow> bytes32" where
  "payout_commitment sha256 intent = sha256 intent"

definition PAYOUT_FIELD_LAYOUT :: "(string \<times> nat \<times> nat) list" where
  "PAYOUT_FIELD_LAYOUT =
    [(''domain_tag'', 0, 17),
     (''protocol_version'', 17, 18),
     (''withdrawal_index'', 18, 26),
     (''vault_script_hash'', 26, 46),
     (''dest_hash160'', 46, 66),
     (''payout_atomic'', 66, 74),
     (''fee_atomic'', 74, 82),
     (''change_atomic'', 82, 90),
     (''change_hash160'', 90, 110),
     (''quorum_attempt'', 110, 114)]"

definition PAYOUT_INTENT_FIXED_LEN :: nat where
  "PAYOUT_INTENT_FIXED_LEN = 114"

text \<open>\<open>v.join(",")\<close>, and the names of the fields in which two messages differ.\<close>

fun join_comma :: "string list \<Rightarrow> string" where
  "join_comma [] = ''''"
| "join_comma [x] = x"
| "join_comma (x # xs) = x @ '','' @ join_comma xs"

definition differing_fields :: "(string \<times> nat \<times> nat) list \<Rightarrow> bytes \<Rightarrow> bytes \<Rightarrow> string list" where
  "differing_fields layout a b =
     map fst (filter (\<lambda>(_, s, e). take (e - s) (drop s a) \<noteq> take (e - s) (drop s b)) layout)"

definition diff_payout_fields :: "bytes \<Rightarrow> bytes \<Rightarrow> string option" where
  "diff_payout_fields recomputed stored =
     (if length recomputed < PAYOUT_INTENT_FIXED_LEN \<or> length stored < PAYOUT_INTENT_FIXED_LEN then None
      else let differing = differing_fields PAYOUT_FIELD_LAYOUT recomputed stored @
             (if drop PAYOUT_INTENT_FIXED_LEN recomputed \<noteq> drop PAYOUT_INTENT_FIXED_LEN stored
              then [''quorum_or_inputs''] else [])
           in if differing = [] then None else Some (join_comma differing))"

section \<open>Injectivity\<close>

text \<open>What the intent retains of an input.\<close>

definition committed_input :: "vault_utxo \<Rightarrow> bytes32 \<times> u32 \<times> u64" where
  "committed_input i = (vu_txid i, ucast (vu_vout i), vu_amount_atomic i)"

definition enc_input :: "bytes32 \<times> u32 \<times> u64 \<Rightarrow> bytes" where
  "enc_input p = (case p of (t, v, a) \<Rightarrow> le_bytes t @ le_bytes v @ le_bytes a)"

definition dec_input :: "bytes \<Rightarrow> bytes32 \<times> u32 \<times> u64" where
  "dec_input bs = (from_le (take 32 bs), from_le (take 4 (drop 32 bs)), from_le (drop 36 bs))"

interpretation inputc: fixed_codec enc_input dec_input 44
  by unfold_locales (auto simp: enc_input_def dec_input_def from_le_le_bytes split: prod.splits)

interpretation h160c: fixed_codec "le_bytes :: bytes20 \<Rightarrow> bytes" from_le 20
  by unfold_locales (simp_all add: from_le_le_bytes)

lemma intent_input_enc: "intent_input i = enc_input (committed_input i)"
  by (simp add: intent_input_def enc_input_def committed_input_def)

lemma concat_intent_inputs:
  "concat (map intent_input is) = concat (map enc_input (map committed_input is))"
  by (induction "is") (simp_all add: intent_input_enc)

text \<open>A list behind its length in one byte is determined together with what follows.\<close>

lemma word_of_nat_inj:
  "m < 2 ^ LENGTH('a) \<Longrightarrow> n < 2 ^ LENGTH('a) \<Longrightarrow>
     (word_of_nat m :: 'a::len word) = word_of_nat n \<longleftrightarrow> m = n"
  by (simp add: word_unat_eq_iff unat_of_nat)

lemma counted_append_eq:
  assumes "length xs < 256" "length ys < 256"
  shows "(word_of_nat (length xs) :: u8) = word_of_nat (length ys) \<and> xs @ zs = ys @ ws \<longleftrightarrow>
    xs = ys \<and> zs = ws"
  using assms word_of_nat_inj [of "length xs" "length ys", where 'a = 8] by auto

text \<open>
  The canonical payout intent is injective: two payouts with the same intent bytes agree in
  version, withdrawal index, vault, destination, payout, fee, change, attempt, designated quorum
  and the sequence of inputs (transaction id, output index modulo \<open>2^32\<close>, amount).
\<close>

theorem payout_intent_inject:
  assumes "length q < 256" "length q' < 256"
  shows "canonical_payout_intent pv ix vh dh pay fee chg ch att q ins =
      canonical_payout_intent pv' ix' vh' dh' pay' fee' chg' ch' att' q' ins' \<longleftrightarrow>
    pv = pv' \<and> ix = ix' \<and> vh = vh' \<and> dh = dh' \<and> pay = pay' \<and> fee = fee' \<and> chg = chg' \<and> ch = ch' \<and>
    att = att' \<and> q = q' \<and> map committed_input ins = map committed_input ins'"
proof -
  have tail: "le_bytes (word_of_nat (length ins) :: u32) @ concat (map intent_input ins) =
      le_bytes (word_of_nat (length ins') :: u32) @ concat (map intent_input ins') \<longleftrightarrow>
      map committed_input ins = map committed_input ins'"
    using inputc.concat_enc_eq_iff [of "map committed_input ins" "map committed_input ins'"]
    by (auto simp: u32c.enc_append_eq_iff concat_intent_inputs dest: map_eq_imp_length_eq)
  show ?thesis
    unfolding canonical_payout_intent_def append_Cons append_Nil append_assoc
    using counted_append_eq [OF assms(1,2)] tail
    by (simp add: u64c.enc_append_eq_iff u32c.enc_append_eq_iff h160c.enc_append_eq_iff)
qed

theorem payout_intent_inject_witness:
  "canonical_payout_intent 1 5 2 3 100 10 5 4 0 [0, 2] sample_utxos \<noteq>
   canonical_payout_intent 1 5 2 3 100 10 5 4 1 [0, 2] sample_utxos"
  using payout_intent_inject [of "[0, 2]" "[0, 2]"] by simp

end
