(* ===== verification/Tables.thy ===== *)
theory Tables
  imports Prelude "HOL-Library.Multiset"
begin

text \<open>
  The part of SQL the relayer's database code uses.  A table is the list of its rows in the
  order of insertion; SELECT is \<open>filter\<close> and \<open>find\<close>, UPDATE is \<open>update_where\<close>, ORDER BY is a
  stable insertion sort.  A statement that violates a constraint makes the surrounding
  transaction roll back, so an operation either returns with the new database or fails and
  leaves the old one; the operations that commit a halt before they fail return both.
\<close>

section \<open>UPDATE .. SET .. WHERE ..\<close>

definition update_where :: "('r \<Rightarrow> bool) \<Rightarrow> ('r \<Rightarrow> 'r) \<Rightarrow> 'r list \<Rightarrow> 'r list" where
  "update_where P f rows = map (\<lambda>r. if P r then f r else r) rows"

lemma length_update_where [simp]: "length (update_where P f rows) = length rows"
  by (simp add: update_where_def)

lemma update_where_Nil [simp]: "update_where P f [] = []"
  by (simp add: update_where_def)

lemma update_where_Cons [simp]:
  "update_where P f (r # rows) = (if P r then f r else r) # update_where P f rows"
  by (simp add: update_where_def)

lemma set_update_where: "set (update_where P f rows) = (\<lambda>r. if P r then f r else r) ` set rows"
  by (simp add: update_where_def)

text \<open>A column that the update leaves alone keeps its values row by row.\<close>

lemma map_update_where: "(\<And>r. P r \<Longrightarrow> g (f r) = g r) \<Longrightarrow> map g (update_where P f rows) = map g rows"
  by (auto simp: update_where_def)

lemma update_where_ball:
  "(\<And>r. r \<in> set rows \<Longrightarrow> Q r) \<Longrightarrow> (\<And>r. r \<in> set rows \<Longrightarrow> P r \<Longrightarrow> Q r \<Longrightarrow> Q (f r)) \<Longrightarrow>
     \<forall>r \<in> set (update_where P f rows). Q r"
  by (auto simp: set_update_where)

text \<open>COALESCE of two nullable values.\<close>

definition coalesce :: "'a option \<Rightarrow> 'a option \<Rightarrow> 'a option" where
  "coalesce x y = (case x of None \<Rightarrow> y | Some _ \<Rightarrow> x)"

section \<open>Rows with a key\<close>

text \<open>
  Looking a row up by a column is looking it up in the map of that column; on a key column,
  whose values are distinct, the row found is the only one.
\<close>

definition row_at :: "('r \<Rightarrow> 'k) \<Rightarrow> 'k \<Rightarrow> 'r list \<Rightarrow> 'r option" where
  "row_at key k rows = find (\<lambda>r. key r = k) rows"

lemma row_at_Nil [simp]: "row_at key k [] = None"
  by (simp add: row_at_def)

lemma row_at_Cons [simp]:
  "row_at key k (r # rows) = (if key r = k then Some r else row_at key k rows)"
  by (simp add: row_at_def)

lemma row_at_Some: "row_at key k rows = Some r \<Longrightarrow> r \<in> set rows \<and> key r = k"
  by (induction rows) (auto split: if_splits)

lemma row_at_None: "row_at key k rows = None \<longleftrightarrow> k \<notin> key ` set rows"
  by (induction rows) auto

lemma row_at_unique:
  "distinct (map key rows) \<Longrightarrow> r \<in> set rows \<Longrightarrow> row_at key (key r) rows = Some r"
  by (induction rows) (auto simp: image_iff)

lemma key_unique:
  "distinct (map key rows) \<Longrightarrow> r \<in> set rows \<Longrightarrow> s \<in> set rows \<Longrightarrow> key r = key s \<Longrightarrow> r = s"
  by (auto simp: distinct_map inj_on_def)

lemma row_at_append:
  "row_at key k (xs @ ys) = (case row_at key k xs of None \<Rightarrow> row_at key k ys | Some r \<Rightarrow> Some r)"
  by (induction xs) auto

lemma row_at_update:
  assumes "\<And>r. P r \<Longrightarrow> key (f r) = key r"
  shows "row_at key k (update_where P f rows) =
    map_option (\<lambda>r. if P r then f r else r) (row_at key k rows)"
  using assms by (induction rows) auto

lemma image_update_where:
  "(\<And>r. key (f r) = key r) \<Longrightarrow> key ` set (update_where P f rows) = key ` set rows"
  using map_update_where [of P key f rows] by (metis set_map)

lemma row_at_key: "row_at key k rows = Some r \<Longrightarrow> k \<in> key ` set rows"
  using row_at_Some by fastforce

section \<open>ORDER BY\<close>

fun insert_by :: "('r \<Rightarrow> 'r \<Rightarrow> bool) \<Rightarrow> 'r \<Rightarrow> 'r list \<Rightarrow> 'r list" where
  "insert_by lt x [] = [x]"
| "insert_by lt x (y # ys) = (if lt y x then y # insert_by lt x ys else x # y # ys)"

definition order_by :: "('r \<Rightarrow> 'r \<Rightarrow> bool) \<Rightarrow> 'r list \<Rightarrow> 'r list" where
  "order_by lt rows = foldr (insert_by lt) rows []"

lemma mset_insert_by [simp]: "mset (insert_by lt x ys) = add_mset x (mset ys)"
  by (induction ys) auto

lemma mset_order_by [simp]: "mset (order_by lt rows) = mset rows"
  by (induction rows) (simp_all add: order_by_def)

lemma set_order_by [simp]: "set (order_by lt rows) = set rows"
  by (metis mset_order_by set_mset_mset)

lemma length_order_by [simp]: "length (order_by lt rows) = length rows"
  by (metis mset_order_by size_mset)

text \<open>With a strict total preorder the result is ordered: no row is less than an earlier one.\<close>

definition strict_order :: "('r \<Rightarrow> 'r \<Rightarrow> bool) \<Rightarrow> bool" where
  "strict_order lt \<longleftrightarrow> (\<forall>x y. lt x y \<longrightarrow> \<not> lt y x) \<and> (\<forall>x y z. \<not> lt y x \<longrightarrow> \<not> lt z y \<longrightarrow> \<not> lt z x)"

lemma insert_by_sorted:
  assumes "strict_order lt" "sorted_wrt (\<lambda>a b. \<not> lt b a) ys"
  shows "sorted_wrt (\<lambda>a b. \<not> lt b a) (insert_by lt x ys)"
  using assms(2)
proof (induction ys)
  case (Cons y ys)
  have mem: "set (insert_by lt x ys) = insert x (set ys)"
    by (metis mset_insert_by set_mset_add_mset_insert set_mset_mset)
  show ?case
  proof (cases "lt y x")
    case True
    with assms(1) have "\<not> lt x y" unfolding strict_order_def by blast
    with True Cons mem show ?thesis by simp
  next
    case False
    from assms(1) have trans: "\<not> lt b a \<Longrightarrow> \<not> lt c b \<Longrightarrow> \<not> lt c a" for a b c
      unfolding strict_order_def by blast
    from Cons.prems have "\<forall>b \<in> set ys. \<not> lt b y" by simp
    with trans [OF False] have "\<forall>b \<in> set ys. \<not> lt b x" by blast
    with False Cons.prems show ?thesis by simp
  qed
qed simp

lemma order_by_sorted:
  "strict_order lt \<Longrightarrow> sorted_wrt (\<lambda>a b. \<not> lt b a) (order_by lt rows)"
  by (induction rows) (simp_all add: order_by_def insert_by_sorted)

section \<open>Database errors\<close>

text \<open>
  \<^verbatim>\<open>DbError\<close> of \<^verbatim>\<open>relayer/src/glc/db.rs\<close>.  The wrapped \<^verbatim>\<open>rusqlite::Error\<close> is one of: no row
  where one is required, a violated constraint, a NULL or malformed column, or a conversion
  that panics; failures of the disk or of the database file are outside the model.
\<close>

datatype sqlite_error = QueryReturnedNoRows | ConstraintViolation string | InvalidColumn string | Panic

datatype db_error =
    Sqlite sqlite_error
  | UnsupportedSchemaVersion i64 i64
  | UnknownState string
  | MessageIntegrityMismatch i64 string
  | MissingClaimArtifact i64
  | OperatorNoteRequired i64
  | InvalidIntegrityRecoveryTarget i64 string
  | NotIntegrityHalted i64 string
  | UnknownWithdrawalState string
  | WithdrawalNotFound i64
  | MissingPayout i64
  | PayoutIntegrityMismatch i64 string
  | ReservationInvalid i64 string
  | PayoutAlreadyCompleted i64
  | PayoutAlreadyConfirmed i64
  | InsufficientVaultFunds u64 u64
  | WithdrawalOperatorNoteRequired i64
  | InvalidWithdrawalRecoveryTarget i64 string
  | NotWithdrawalIntegrityHalted i64 string

type_synonym ('a, 'd) db_op = "'d \<Rightarrow> ('a, db_error) result \<times> 'd"

text \<open>A transaction that either commits its new database or rolls back.\<close>

definition transact :: "(('a \<times> 'd), db_error) result \<Rightarrow> 'd \<Rightarrow> ('a, db_error) result \<times> 'd" where
  "transact r d = (case r of Ok (x, d') \<Rightarrow> (Ok x, d') | Err e \<Rightarrow> (Err e, d))"

lemma transact_simps [simp]:
  "transact (Ok (x, d')) d = (Ok x, d')" "transact (Err e) d = (Err e, d)"
  by (simp_all add: transact_def)

lemma snd_transact:
  "(\<And>x d'. r = Ok (x, d') \<Longrightarrow> P d') \<Longrightarrow> P d \<Longrightarrow> P (snd (transact r d))"
  by (cases r) (auto simp: transact_def)

lemma transact_Err: "transact r d = (Err e, d') \<Longrightarrow> d' = d"
  by (auto simp: transact_def split: result.splits prod.splits)

lemma transact_Ok: "transact r d = (Ok x, d') \<longleftrightarrow> r = Ok (x, d')"
  by (auto simp: transact_def split: result.splits prod.splits)

end
