(* ===== verification/WithdrawalDb.thy ===== *)
theory WithdrawalDb
  imports PayoutIntent Tables Vault
begin

text \<open>
  The withdrawal side of the relayer's database (\<^verbatim>\<open>relayer/src/glc/withdrawal_db.rs\<close>): the tables
  of schema versions 4 to 6 and every operation on them.  TEXT columns that hold a state name are
  strings, other text is its UTF-8 bytes; fixed-size BLOB columns are words (their CHECK
  constraints on lengths hold by type).  SHA-256 is a parameter.
\<close>

section \<open>The lifecycle of a withdrawal\<close>

datatype withdrawal_state =
    WObserved | WValidated | WAwaitingFunds | WBuilding | WSigning | WBroadcast | WConfirming
  | WCompleted | WIntegrityHalted | WFailed | WOrphaned

fun ws_as_str :: "withdrawal_state \<Rightarrow> string" where
  "ws_as_str WObserved = ''Observed''"
| "ws_as_str WValidated = ''Validated''"
| "ws_as_str WAwaitingFunds = ''AwaitingFunds''"
| "ws_as_str WBuilding = ''Building''"
| "ws_as_str WSigning = ''Signing''"
| "ws_as_str WBroadcast = ''Broadcast''"
| "ws_as_str WConfirming = ''Confirming''"
| "ws_as_str WCompleted = ''Completed''"
| "ws_as_str WIntegrityHalted = ''IntegrityHalted''"
| "ws_as_str WFailed = ''Failed''"
| "ws_as_str WOrphaned = ''Orphaned''"

definition ws_parse :: "string \<Rightarrow> (withdrawal_state, db_error) result" where
  "ws_parse s =
     (if s = ''Observed'' then Ok WObserved
      else if s = ''Validated'' then Ok WValidated
      else if s = ''AwaitingFunds'' then Ok WAwaitingFunds
      else if s = ''Building'' then Ok WBuilding
      else if s = ''Signing'' then Ok WSigning
      else if s = ''Broadcast'' then Ok WBroadcast
      else if s = ''Confirming'' then Ok WConfirming
      else if s = ''Completed'' then Ok WCompleted
      else if s = ''IntegrityHalted'' then Ok WIntegrityHalted
      else if s = ''Failed'' then Ok WFailed
      else if s = ''Orphaned'' then Ok WOrphaned
      else Err (UnknownWithdrawalState s))"

definition is_terminal :: "withdrawal_state \<Rightarrow> bool" where
  "is_terminal s \<longleftrightarrow> s = WCompleted \<or> s = WFailed \<or> s = WIntegrityHalted"

definition may_transition_to :: "withdrawal_state \<Rightarrow> withdrawal_state \<Rightarrow> bool" where
  "may_transition_to from to =
     (if to = WIntegrityHalted then \<not> is_terminal from
      else (from, to) \<in> set
        [(WObserved, WValidated), (WObserved, WFailed), (WValidated, WAwaitingFunds),
         (WValidated, WBuilding), (WValidated, WFailed), (WAwaitingFunds, WValidated),
         (WAwaitingFunds, WFailed), (WBuilding, WSigning), (WBuilding, WAwaitingFunds),
         (WBuilding, WFailed), (WSigning, WBroadcast), (WBroadcast, WBroadcast),
         (WBroadcast, WConfirming), (WBroadcast, WOrphaned), (WConfirming, WCompleted),
         (WConfirming, WConfirming), (WConfirming, WOrphaned), (WConfirming, WBroadcast),
         (WOrphaned, WBroadcast), (WIntegrityHalted, WValidated), (WIntegrityHalted, WFailed)])"

section \<open>Tables\<close>

record withdrawal_request_row =
  wq_index :: i64
  wq_pda :: bytes32
  wq_amount_atomic :: u64
  wq_requester :: bytes32
  wq_glc_address :: bytes
  wq_hash160 :: bytes20
  wq_requested_at_slot :: i64
  wq_protocol_version :: u8
  wq_observed_at :: i64
  wq_observed_at_slot :: i64
  wq_state :: string
  wq_failure_reason :: "bytes option"

record withdrawal_payout_row =
  wp_index :: i64
  wp_commitment_hash :: bytes32
  wp_intent_bytes :: bytes
  wp_fee_atomic :: u64
  wp_payout_atomic :: u64
  wp_change_atomic :: u64
  wp_change_address :: "bytes option"
  wp_unsigned_tx_hex :: bytes
  wp_signed_tx_hex :: "bytes option"
  wp_txid :: "bytes32 option"
  wp_txid_hex :: "bytes option"
  wp_built_at :: i64
  wp_signed_at :: "i64 option"
  wp_broadcast_at :: "i64 option"
  wp_mined_block_hash :: "bytes32 option"
  wp_mined_height :: "i64 option"
  wp_confirmations :: i64
  wp_completed_at :: "i64 option"
  wp_vault_script_hash :: "bytes20 option"
  wp_quorum_attempt :: u32
  wp_quorum_indices :: "bytes option"
  wp_onchain_completed_at :: "i64 option"
  wp_onchain_completion_signature :: "bytes option"

record vault_utxo_row =
  vx_txid :: bytes32
  vx_vout :: i64
  vx_txid_hex :: bytes
  vx_amount_atomic :: u64
  vx_script_pubkey_hex :: bytes
  vx_confirmations :: i64
  vx_first_seen_at :: i64
  vx_state :: string
  vx_reserved_by :: "i64 option"
  vx_reserved_at :: "i64 option"
  vx_spent_by_txid_hex :: "bytes option"

record payout_input_row =
  pi_index :: i64
  pi_order :: nat
  pi_txid :: bytes32
  pi_vout :: i64
  pi_amount_atomic :: u64

record withdrawal_log_row =
  wl_index :: i64
  wl_from_state :: "string option"
  wl_to_state :: string
  wl_at :: i64
  wl_reason :: "bytes option"
  wl_expected_commitment :: "bytes32 option"
  wl_recomputed_commitment :: "bytes32 option"
  wl_differing_fields :: "string option"

record quorum_history_row =
  qh_index :: i64
  qh_attempt :: u32
  qh_quorum_indices :: bytes
  qh_commitment_hash :: bytes32
  qh_superseded_at :: i64
  qh_reason :: bytes

record withdrawal_db =
  withdrawal_requests :: "withdrawal_request_row list"
  withdrawal_payouts :: "withdrawal_payout_row list"
  vault_utxos :: "vault_utxo_row list"
  withdrawal_payout_inputs :: "payout_input_row list"
  withdrawal_state_log :: "withdrawal_log_row list"
  withdrawal_quorum_history :: "quorum_history_row list"

definition empty_withdrawal_db :: withdrawal_db where
  "empty_withdrawal_db = \<lparr>withdrawal_requests = [], withdrawal_payouts = [], vault_utxos = [],
     withdrawal_payout_inputs = [], withdrawal_state_log = [], withdrawal_quorum_history = []\<rparr>"

section \<open>Rows as the code reads and writes them\<close>

record new_withdrawal_request =
  nw_index :: i64
  nw_pda :: bytes32
  nw_amount_atomic :: u64
  nw_requester :: bytes32
  nw_glc_address :: bytes
  nw_hash160 :: bytes20
  nw_requested_at_slot :: i64
  nw_protocol_version :: u8
  nw_observed_at :: i64
  nw_observed_at_slot :: i64

record withdrawal_row =
  wrow_index :: i64
  wrow_pda :: bytes32
  wrow_amount_atomic :: u64
  wrow_requester :: bytes32
  wrow_glc_address :: bytes
  wrow_hash160 :: bytes20
  wrow_requested_at_slot :: i64
  wrow_protocol_version :: u8
  wrow_state :: withdrawal_state
  wrow_failure_reason :: "bytes option"
  wrow_observed_at :: i64

record observed_utxo =
  ou_txid :: bytes32
  ou_vout :: i64
  ou_amount_atomic :: u64
  ou_script_pubkey_hex :: bytes
  ou_confirmations :: i64

record new_payout =
  np_index :: i64
  np_vault_script_hash :: bytes20
  np_quorum_indices :: bytes
  np_quorum_attempt :: u32
  np_commitment_hash :: bytes32
  np_intent_bytes :: bytes
  np_fee_atomic :: u64
  np_payout_atomic :: u64
  np_change_atomic :: u64
  np_change_address :: "bytes option"
  np_unsigned_tx_hex :: bytes
  np_inputs :: "vault_utxo list"
  np_built_at :: i64

record payout_row =
  prow_index :: i64
  prow_quorum_indices :: bytes
  prow_quorum_attempt :: u32
  prow_commitment_hash :: bytes32
  prow_fee_atomic :: u64
  prow_payout_atomic :: u64
  prow_change_atomic :: u64
  prow_change_address :: "bytes option"
  prow_unsigned_tx_hex :: bytes
  prow_signed_tx_hex :: "bytes option"
  prow_txid_hex :: "bytes option"
  prow_mined_block_hash :: "bytes32 option"
  prow_mined_height :: "i64 option"
  prow_confirmations :: i64
  prow_completed_at :: "i64 option"

record signable_payout =
  sp_index :: i64
  sp_unsigned_tx_hex :: bytes
  sp_payout_atomic :: u64
  sp_fee_atomic :: u64
  sp_change_atomic :: u64
  sp_change_address :: "bytes option"
  sp_hash160 :: bytes20
  sp_vault_script_hash :: bytes20
  sp_quorum_indices :: bytes
  sp_quorum_attempt :: u32
  sp_inputs :: "vault_utxo list"
  sp_commitment_hash :: bytes32
  sp_intent_bytes :: bytes

definition row_to_withdrawal :: "withdrawal_request_row \<Rightarrow> (withdrawal_row, db_error) result" where
  "row_to_withdrawal r =
     and_then (map_err (\<lambda>_. Sqlite (InvalidColumn (''bad state '' @ wq_state r))) (ws_parse (wq_state r)))
       (\<lambda>s. Ok \<lparr>wrow_index = wq_index r, wrow_pda = wq_pda r, wrow_amount_atomic = wq_amount_atomic r,
          wrow_requester = wq_requester r, wrow_glc_address = wq_glc_address r,
          wrow_hash160 = wq_hash160 r, wrow_requested_at_slot = wq_requested_at_slot r,
          wrow_protocol_version = wq_protocol_version r, wrow_state = s,
          wrow_failure_reason = wq_failure_reason r, wrow_observed_at = wq_observed_at r\<rparr>)"

definition row_to_utxo :: "vault_utxo_row \<Rightarrow> vault_utxo" where
  "row_to_utxo r = \<lparr>vu_txid = vx_txid r, vu_txid_hex = vx_txid_hex r, vu_vout = vx_vout r,
     vu_amount_atomic = vx_amount_atomic r, vu_script_pubkey_hex = vx_script_pubkey_hex r,
     vu_confirmations = vx_confirmations r\<rparr>"

definition row_to_payout :: "withdrawal_payout_row \<Rightarrow> payout_row" where
  "row_to_payout r = \<lparr>prow_index = wp_index r,
     prow_quorum_indices = (case wp_quorum_indices r of None \<Rightarrow> [] | Some q \<Rightarrow> q),
     prow_quorum_attempt = wp_quorum_attempt r, prow_commitment_hash = wp_commitment_hash r,
     prow_fee_atomic = wp_fee_atomic r, prow_payout_atomic = wp_payout_atomic r,
     prow_change_atomic = wp_change_atomic r, prow_change_address = wp_change_address r,
     prow_unsigned_tx_hex = wp_unsigned_tx_hex r, prow_signed_tx_hex = wp_signed_tx_hex r,
     prow_txid_hex = wp_txid_hex r, prow_mined_block_hash = wp_mined_block_hash r,
     prow_mined_height = wp_mined_height r, prow_confirmations = wp_confirmations r,
     prow_completed_at = wp_completed_at r\<rparr>"

text \<open>The tables by their keys.\<close>

abbreviation request_at :: "withdrawal_db \<Rightarrow> i64 \<Rightarrow> withdrawal_request_row option" where
  "request_at d i \<equiv> row_at wq_index i (withdrawal_requests d)"

abbreviation payout_at :: "withdrawal_db \<Rightarrow> i64 \<Rightarrow> withdrawal_payout_row option" where
  "payout_at d i \<equiv> row_at wp_index i (withdrawal_payouts d)"

abbreviation outpoint_of :: "vault_utxo_row \<Rightarrow> bytes32 \<times> i64" where
  "outpoint_of r \<equiv> (vx_txid r, vx_vout r)"

abbreviation utxo_at :: "withdrawal_db \<Rightarrow> bytes32 \<Rightarrow> i64 \<Rightarrow> vault_utxo_row option" where
  "utxo_at d t v \<equiv> row_at outpoint_of (t, v) (vault_utxos d)"

definition all_ok :: "('a \<Rightarrow> ('b, 'e) result) \<Rightarrow> 'a list \<Rightarrow> ('b list, 'e) result" where
  "all_ok f xs = foldr (\<lambda>x acc. and_then (f x) (\<lambda>y. and_then acc (\<lambda>ys. Ok (y # ys)))) xs (Ok [])"

text \<open>A row of the state log without forensic columns; its foreign key is the withdrawal.\<close>

definition log_entry ::
  "i64 \<Rightarrow> string option \<Rightarrow> string \<Rightarrow> i64 \<Rightarrow> bytes option \<Rightarrow> withdrawal_log_row" where
  "log_entry index from to at reason = \<lparr>wl_index = index, wl_from_state = from, wl_to_state = to,
     wl_at = at, wl_reason = reason, wl_expected_commitment = None, wl_recomputed_commitment = None,
     wl_differing_fields = None\<rparr>"

definition insert_log ::
  "withdrawal_log_row \<Rightarrow> withdrawal_db \<Rightarrow> (withdrawal_db, db_error) result" where
  "insert_log l d =
     (if request_at d (wl_index l) = None
        then Err (Sqlite (ConstraintViolation ''FOREIGN KEY withdrawal_state_log''))
      else Ok (d\<lparr>withdrawal_state_log := withdrawal_state_log d @ [l]\<rparr>))"

definition set_request_state ::
  "i64 \<Rightarrow> string \<Rightarrow> withdrawal_db \<Rightarrow> withdrawal_db" where
  "set_request_state index st d = d\<lparr>withdrawal_requests :=
     update_where (\<lambda>r. wq_index r = index) (\<lambda>r. r\<lparr>wq_state := st\<rparr>) (withdrawal_requests d)\<rparr>"

section \<open>Observation and transitions\<close>

definition observe_withdrawal :: "new_withdrawal_request \<Rightarrow> (bool, withdrawal_db) db_op" where
  "observe_withdrawal w d =
     (if nw_index w \<in> wq_index ` set (withdrawal_requests d) \<or>
         nw_pda w \<in> wq_pda ` set (withdrawal_requests d)
      then (Ok False, d)
      else transact (
        let d1 = d\<lparr>withdrawal_requests := withdrawal_requests d @
              [\<lparr>wq_index = nw_index w, wq_pda = nw_pda w, wq_amount_atomic = nw_amount_atomic w,
                wq_requester = nw_requester w, wq_glc_address = nw_glc_address w,
                wq_hash160 = nw_hash160 w, wq_requested_at_slot = nw_requested_at_slot w,
                wq_protocol_version = nw_protocol_version w, wq_observed_at = nw_observed_at w,
                wq_observed_at_slot = nw_observed_at_slot w, wq_state = ws_as_str WObserved,
                wq_failure_reason = None\<rparr>]\<rparr>
        in and_then (insert_log (log_entry (nw_index w) None (ws_as_str WObserved) (nw_observed_at w)
             (Some (ascii ''observed at finalized commitment''))) d1) (\<lambda>d2. Ok (True, d2))) d)"

definition withdrawals_by_state ::
  "withdrawal_db \<Rightarrow> withdrawal_state \<Rightarrow> (withdrawal_row list, db_error) result" where
  "withdrawals_by_state d st =
     all_ok row_to_withdrawal
       (order_by (\<lambda>a b. wq_index a <s wq_index b)
         (filter (\<lambda>r. wq_state r = ws_as_str st) (withdrawal_requests d)))"

definition get_withdrawal :: "withdrawal_db \<Rightarrow> i64 \<Rightarrow> (withdrawal_row option, db_error) result" where
  "get_withdrawal d index =
     (case request_at d index of None \<Rightarrow> Ok None
      | Some r \<Rightarrow> and_then (row_to_withdrawal r) (\<lambda>w. Ok (Some w)))"

definition transition_withdrawal ::
  "i64 \<Rightarrow> withdrawal_state \<Rightarrow> i64 \<Rightarrow> bytes option \<Rightarrow> (unit, withdrawal_db) db_op" where
  "transition_withdrawal index to at reason d = transact (
     and_then (ok_or (WithdrawalNotFound index) (request_at d index)) (\<lambda>r.
     and_then (ws_parse (wq_state r)) (\<lambda>from.
     if from \<noteq> to \<and> \<not> may_transition_to from to
       then Err (UnknownWithdrawalState
              (''illegal transition '' @ ws_as_str from @ '' -> '' @ ws_as_str to))
     else let d1 = d\<lparr>withdrawal_requests := update_where (\<lambda>r. wq_index r = index)
            (\<lambda>r. r\<lparr>wq_state := ws_as_str to,
                    wq_failure_reason := coalesce reason (wq_failure_reason r)\<rparr>)
            (withdrawal_requests d)\<rparr>
       in and_then (insert_log (log_entry index (Some (wq_state r)) (ws_as_str to) at reason) d1)
            (\<lambda>d2. Ok ((), d2))))) d"

section \<open>Vault outputs\<close>

text \<open>The upsert of one observed output.\<close>

definition upsert_utxo :: "i64 \<Rightarrow> i64 \<Rightarrow> observed_utxo \<Rightarrow> vault_utxo_row list \<Rightarrow> vault_utxo_row list" where
  "upsert_utxo min_confirmations at u rows =
     (let st = (if min_confirmations \<le>s ou_confirmations u then ''Available'' else ''Unconfirmed'')
      in if row_at outpoint_of (ou_txid u, ou_vout u) rows = None then
           rows @ [\<lparr>vx_txid = ou_txid u, vx_vout = ou_vout u, vx_txid_hex = hex_encode (le_bytes (ou_txid u)),
             vx_amount_atomic = ou_amount_atomic u, vx_script_pubkey_hex = ou_script_pubkey_hex u,
             vx_confirmations = ou_confirmations u, vx_first_seen_at = at, vx_state = st,
             vx_reserved_by = None, vx_reserved_at = None, vx_spent_by_txid_hex = None\<rparr>]
         else update_where (\<lambda>r. outpoint_of r = (ou_txid u, ou_vout u))
           (\<lambda>r. r\<lparr>vx_confirmations := ou_confirmations u,
                   vx_state := (if vx_state r \<in> {''Reserved'', ''Spent''} then vx_state r else st)\<rparr>) rows)"

definition sync_vault_utxos :: "observed_utxo list \<Rightarrow> i64 \<Rightarrow> i64 \<Rightarrow> (unit, withdrawal_db) db_op" where
  "sync_vault_utxos observed min_confirmations at d =
     (Ok (), d\<lparr>vault_utxos :=
        foldl (\<lambda>rows u. upsert_utxo min_confirmations at u rows) (vault_utxos d) observed\<rparr>)"

text \<open>The presence test is by transaction id alone, as in the source.\<close>

definition missing_utxo :: "bytes32 list \<Rightarrow> vault_utxo_row \<Rightarrow> bool" where
  "missing_utxo present r \<longleftrightarrow> vx_state r \<in> {''Available'', ''Unconfirmed''} \<and>
     vx_txid_hex r \<notin> set (map (\<lambda>t. hex_encode (le_bytes t)) present)"

definition mark_missing_utxos_spent :: "bytes32 list \<Rightarrow> (nat, withdrawal_db) db_op" where
  "mark_missing_utxos_spent present d =
     (let tracked = filter (missing_utxo present) (vault_utxos d)
      in (Ok (length tracked), d\<lparr>vault_utxos := foldl (\<lambda>rows t.
            update_where (\<lambda>r. vx_txid_hex r = vx_txid_hex t \<and> vx_vout r = vx_vout t)
              (\<lambda>r. r\<lparr>vx_state := ''Spent''\<rparr>) rows) (vault_utxos d) tracked\<rparr>))"

fun reserve_loop ::
  "i64 \<Rightarrow> i64 \<Rightarrow> vault_utxo list \<Rightarrow> withdrawal_db \<Rightarrow> (withdrawal_db, db_error) result" where
  "reserve_loop index at [] d = Ok d"
| "reserve_loop index at (u # us) d =
     (let hit = (\<lambda>r. outpoint_of r = (vu_txid u, vu_vout u) \<and> vx_state r = ''Available'') in
      if length (filter hit (vault_utxos d)) \<noteq> 1
        then Err (ReservationInvalid index ''outpoint no longer Available at reservation time'')
      else if request_at d index = None
        then Err (Sqlite (ConstraintViolation ''FOREIGN KEY vault_utxos.reserved_by''))
      else reserve_loop index at us (d\<lparr>vault_utxos := update_where hit
             (\<lambda>r. r\<lparr>vx_state := ''Reserved'', vx_reserved_by := Some index, vx_reserved_at := Some at\<rparr>)
             (vault_utxos d)\<rparr>))"

definition reserve_utxos :: "i64 \<Rightarrow> vault_utxo list \<Rightarrow> i64 \<Rightarrow> (unit, withdrawal_db) db_op" where
  "reserve_utxos index outpoints at d =
     transact (and_then (reserve_loop index at outpoints d) (\<lambda>d'. Ok ((), d'))) d"

definition reserved_for :: "i64 \<Rightarrow> vault_utxo_row \<Rightarrow> bool" where
  "reserved_for index r \<longleftrightarrow> vx_reserved_by r = Some index \<and> vx_state r = ''Reserved''"

definition release_reservation :: "i64 \<Rightarrow> (nat, withdrawal_db) db_op" where
  "release_reservation index d =
     (if payout_at d index \<noteq> None
        then (Err (ReservationInvalid index
               ''a payout already commits these inputs; they are never released''), d)
      else (Ok (length (filter (reserved_for index) (vault_utxos d))),
        d\<lparr>vault_utxos := update_where (reserved_for index)
          (\<lambda>r. r\<lparr>vx_state := ''Available'', vx_reserved_by := None, vx_reserved_at := None\<rparr>)
          (vault_utxos d)\<rparr>))"

text \<open>\<open>COALESCE(MIN(reserved_at), 0) < cutoff\<close>: MIN ignores NULL.\<close>

definition reservation_is_stale :: "withdrawal_db \<Rightarrow> i64 \<Rightarrow> i64 \<Rightarrow> bool" where
  "reservation_is_stale d index cutoff =
     (let ats = map sint (List.map_filter vx_reserved_at
          (filter (\<lambda>r. vx_reserved_by r = Some index) (vault_utxos d)))
      in (case ats of [] \<Rightarrow> 0 | a # as \<Rightarrow> foldl min a as) < sint cutoff)"

definition reserved_utxos :: "withdrawal_db \<Rightarrow> i64 \<Rightarrow> vault_utxo list" where
  "reserved_utxos d index = map row_to_utxo
     (order_by (\<lambda>a b. bytes_less (vx_txid_hex a) (vx_txid_hex b) \<or>
         vx_txid_hex a = vx_txid_hex b \<and> vx_vout a <s vx_vout b)
       (filter (reserved_for index) (vault_utxos d)))"

text \<open>
  ORDER BY amount_atomic DESC, txid_hex ASC, vout ASC.  The column is a BLOB that holds the
  amount in little-endian order, and SQLite compares BLOBs byte by byte from the first.
\<close>

definition available_less :: "vault_utxo_row \<Rightarrow> vault_utxo_row \<Rightarrow> bool" where
  "available_less a b \<longleftrightarrow>
     bytes_less (le_bytes (vx_amount_atomic b)) (le_bytes (vx_amount_atomic a)) \<or>
     vx_amount_atomic a = vx_amount_atomic b \<and>
       (bytes_less (vx_txid_hex a) (vx_txid_hex b) \<or>
        vx_txid_hex a = vx_txid_hex b \<and> vx_vout a <s vx_vout b)"

definition available_utxos :: "withdrawal_db \<Rightarrow> i64 \<Rightarrow> vault_utxo list" where
  "available_utxos d min_confirmations = map row_to_utxo
     (order_by available_less
       (filter (\<lambda>r. vx_state r = ''Available'' \<and> min_confirmations \<le>s vx_confirmations r)
         (vault_utxos d)))"

section \<open>Payouts\<close>

fun insert_inputs ::
  "i64 \<Rightarrow> nat \<Rightarrow> vault_utxo list \<Rightarrow> payout_input_row list \<Rightarrow> (payout_input_row list, db_error) result" where
  "insert_inputs index i [] rows = Ok rows"
| "insert_inputs index i (u # us) rows =
     (if (index, i) \<in> (\<lambda>r. (pi_index r, pi_order r)) ` set rows
        then Err (Sqlite (ConstraintViolation ''PRIMARY KEY withdrawal_payout_inputs''))
      else if (vu_txid u, vu_vout u) \<in> (\<lambda>r. (pi_txid r, pi_vout r)) ` set rows
        then Err (Sqlite (ConstraintViolation ''UNIQUE withdrawal_payout_inputs (txid, vout)''))
      else insert_inputs index (i + 1) us (rows @
             [\<lparr>pi_index = index, pi_order = i, pi_txid = vu_txid u, pi_vout = vu_vout u,
               pi_amount_atomic = vu_amount_atomic u\<rparr>]))"

definition new_payout_row :: "new_payout \<Rightarrow> withdrawal_payout_row" where
  "new_payout_row p =
     \<lparr>wp_index = np_index p, wp_commitment_hash = np_commitment_hash p,
      wp_intent_bytes = np_intent_bytes p, wp_fee_atomic = np_fee_atomic p,
      wp_payout_atomic = np_payout_atomic p, wp_change_atomic = np_change_atomic p,
      wp_change_address = np_change_address p, wp_unsigned_tx_hex = np_unsigned_tx_hex p,
      wp_signed_tx_hex = None, wp_txid = None, wp_txid_hex = None, wp_built_at = np_built_at p,
      wp_signed_at = None, wp_broadcast_at = None, wp_mined_block_hash = None,
      wp_mined_height = None, wp_confirmations = 0, wp_completed_at = None,
      wp_vault_script_hash = Some (np_vault_script_hash p),
      wp_quorum_attempt = np_quorum_attempt p, wp_quorum_indices = Some (np_quorum_indices p),
      wp_onchain_completed_at = None, wp_onchain_completion_signature = None\<rparr>"

definition create_payout :: "new_payout \<Rightarrow> (unit, withdrawal_db) db_op" where
  "create_payout p d = transact (
     if payout_at d (np_index p) \<noteq> None
       then Err (Sqlite (ConstraintViolation ''PRIMARY KEY withdrawal_payouts''))
     else if request_at d (np_index p) = None
       then Err (Sqlite (ConstraintViolation ''FOREIGN KEY withdrawal_payouts''))
     else and_then (insert_inputs (np_index p) 0 (np_inputs p) (withdrawal_payout_inputs d)) (\<lambda>ins.
       Ok ((), d\<lparr>withdrawal_payouts := withdrawal_payouts d @ [new_payout_row p],
                 withdrawal_payout_inputs := ins\<rparr>))) d"

definition get_payout :: "withdrawal_db \<Rightarrow> i64 \<Rightarrow> payout_row option" where
  "get_payout d index = map_option row_to_payout (payout_at d index)"

definition input_rows :: "withdrawal_db \<Rightarrow> i64 \<Rightarrow> payout_input_row list" where
  "input_rows d index = order_by (\<lambda>a b. pi_order a < pi_order b)
     (filter (\<lambda>r. pi_index r = index) (withdrawal_payout_inputs d))"

text \<open>The committed inputs, with script and confirmations from \<open>vault_utxos\<close> when still there.\<close>

definition payout_inputs :: "withdrawal_db \<Rightarrow> i64 \<Rightarrow> vault_utxo list" where
  "payout_inputs d index = map (\<lambda>r.
     let v = utxo_at d (pi_txid r) (pi_vout r) in
     \<lparr>vu_txid = pi_txid r, vu_txid_hex = hex_encode (le_bytes (pi_txid r)), vu_vout = pi_vout r,
      vu_amount_atomic = pi_amount_atomic r,
      vu_script_pubkey_hex = (case v of None \<Rightarrow> [] | Some x \<Rightarrow> vx_script_pubkey_hex x),
      vu_confirmations = (case v of None \<Rightarrow> 0 | Some x \<Rightarrow> vx_confirmations x)\<rparr>) (input_rows d index)"

section \<open>The guards before signing\<close>

text \<open>
  The closure \<open>halt\<close>: the withdrawal is halted and the halt is committed, then the error is
  returned.
\<close>

definition halt_withdrawal ::
  "withdrawal_request_row \<Rightarrow> i64 \<Rightarrow> string \<Rightarrow> bytes32 option \<Rightarrow> bytes32 option \<Rightarrow> string option
   \<Rightarrow> withdrawal_db \<Rightarrow> withdrawal_db" where
  "halt_withdrawal w at reason expected recomputed diff d =
     d\<lparr>withdrawal_requests := update_where (\<lambda>r. wq_index r = wq_index w)
         (\<lambda>r. r\<lparr>wq_state := ws_as_str WIntegrityHalted, wq_failure_reason := Some (ascii reason)\<rparr>)
         (withdrawal_requests d),
       withdrawal_state_log := withdrawal_state_log d @
         [\<lparr>wl_index = wq_index w, wl_from_state = Some (wq_state w),
           wl_to_state = ws_as_str WIntegrityHalted, wl_at = at, wl_reason = Some (ascii reason),
           wl_expected_commitment = expected, wl_recomputed_commitment = recomputed,
           wl_differing_fields = diff\<rparr>]\<rparr>"

definition change_hash160_of ::
  "sha256 \<Rightarrow> i64 \<Rightarrow> withdrawal_payout_row \<Rightarrow> (bytes20, db_error) result" where
  "change_hash160_of sha256 index p =
     (case wp_change_address p of
        None \<Rightarrow> Ok 0
      | Some a \<Rightarrow> and_then (map_err (\<lambda>_. PayoutIntegrityMismatch index ''change_address_undecodable'')
                    (base58check_decode sha256 a)) (\<lambda>(_, h). Ok h))"

text \<open>
  Guards 5 and 6 over the committed inputs; the error carries the reason of the halt.
\<close>

fun check_committed ::
  "withdrawal_db \<Rightarrow> i64 \<Rightarrow> payout_input_row list \<Rightarrow> (vault_utxo list, string \<times> db_error) result" where
  "check_committed d index [] = Ok []"
| "check_committed d index (c # cs) =
     (case utxo_at d (pi_txid c) (pi_vout c) of
        None \<Rightarrow> Err (''reserved_utxo_no_longer_exists'', ReservationInvalid index
                 ''a committed input is no longer present in vault_utxos'')
      | Some u \<Rightarrow>
          if vx_state u \<noteq> ''Reserved'' then Err (''reserved_utxo_not_reserved'',
            ReservationInvalid index ''a committed input is no longer in the Reserved state'')
          else if vx_reserved_by u \<noteq> Some index then Err (''reservation_belongs_to_another_withdrawal'',
            ReservationInvalid index ''a committed input is reserved by a different withdrawal'')
          else if vx_amount_atomic u \<noteq> pi_amount_atomic c then Err (''reserved_utxo_amount_changed'',
            ReservationInvalid index ''a committed input's amount changed after commitment'')
          else and_then (check_committed d index cs) (\<lambda>ins.
            Ok (\<lparr>vu_txid = pi_txid c, vu_txid_hex = hex_encode (le_bytes (pi_txid c)),
                 vu_vout = pi_vout c, vu_amount_atomic = pi_amount_atomic c,
                 vu_script_pubkey_hex = vx_script_pubkey_hex u,
                 vu_confirmations = vx_confirmations u\<rparr> # ins)))"

definition verify_and_load_signable_payout ::
  "sha256 \<Rightarrow> i64 \<Rightarrow> i64 \<Rightarrow> (signable_payout, withdrawal_db) db_op" where
  "verify_and_load_signable_payout sha256 index at d =
     (case request_at d index of None \<Rightarrow> (Err (WithdrawalNotFound index), d)
      | Some w \<Rightarrow>
     (case payout_at d index of None \<Rightarrow> (Err (MissingPayout index), d)
      | Some p \<Rightarrow>
     (case (wp_vault_script_hash p, wp_quorum_indices p) of
        (None, _) \<Rightarrow> (Err (Sqlite (InvalidColumn ''vault_script_hash'')), d)
      | (Some _, None) \<Rightarrow> (Err (Sqlite (InvalidColumn ''quorum_indices'')), d)
      | (Some vault_hash, Some quorum) \<Rightarrow>
     if wp_completed_at p \<noteq> None then
       (Err (PayoutAlreadyCompleted index),
        halt_withdrawal w at ''payout_already_completed'' None None None d)
     else if 0 <s wp_confirmations p then
       (Err (PayoutAlreadyConfirmed index),
        halt_withdrawal w at ''payout_already_confirmed'' None None None d)
     else if wp_signed_tx_hex p \<noteq> None then
       (Err (PayoutAlreadyConfirmed index),
        halt_withdrawal w at ''payout_already_signed'' None None None d)
     else let committed = input_rows d index in
     if committed = [] then
       (Err (ReservationInvalid index ''payout has no committed inputs''),
        halt_withdrawal w at ''payout_has_no_committed_inputs'' None None None d)
     else case check_committed d index committed of
       Err (reason, e) \<Rightarrow> (Err e, halt_withdrawal w at reason None None None d)
     | Ok inputs \<Rightarrow>
     (case change_hash160_of sha256 index p of
        Err e \<Rightarrow> (Err e, d)
      | Ok change_hash160 \<Rightarrow>
     let recomputed = canonical_payout_intent (wq_protocol_version w) index vault_hash (wq_hash160 w)
           (wp_payout_atomic p) (wp_fee_atomic p) (wp_change_atomic p) change_hash160
           (wp_quorum_attempt p) quorum inputs;
         recomputed_hash = payout_commitment sha256 recomputed in
     if payout_commitment sha256 (wp_intent_bytes p) \<noteq> wp_commitment_hash p then
       (Err (PayoutIntegrityMismatch index ''payout_commitment_self_inconsistent''),
        halt_withdrawal w at ''payout_commitment_self_inconsistent'' (Some (wp_commitment_hash p))
          (Some (payout_commitment sha256 (wp_intent_bytes p))) None d)
     else if recomputed \<noteq> wp_intent_bytes p then
       (Err (PayoutIntegrityMismatch index ''payout_commitment_mismatch''),
        halt_withdrawal w at ''payout_commitment_mismatch'' (Some (wp_commitment_hash p))
          (Some recomputed_hash) (diff_payout_fields recomputed (wp_intent_bytes p)) d)
     else if wp_payout_atomic p \<noteq> wq_amount_atomic w then
       (Err (PayoutIntegrityMismatch index ''payout_atomic''),
        halt_withdrawal w at ''payout_amount_not_equal_to_burned_amount'' None None None d)
     else (Ok \<lparr>sp_index = index, sp_unsigned_tx_hex = wp_unsigned_tx_hex p,
        sp_payout_atomic = wp_payout_atomic p, sp_fee_atomic = wp_fee_atomic p,
        sp_change_atomic = wp_change_atomic p, sp_change_address = wp_change_address p,
        sp_hash160 = wq_hash160 w, sp_vault_script_hash = vault_hash, sp_quorum_indices = quorum,
        sp_quorum_attempt = wp_quorum_attempt p, sp_inputs = inputs,
        sp_commitment_hash = wp_commitment_hash p, sp_intent_bytes = recomputed\<rparr>, d)))))"

section \<open>After signing\<close>

abbreviation update_payout ::
  "i64 \<Rightarrow> (withdrawal_payout_row \<Rightarrow> withdrawal_payout_row) \<Rightarrow> withdrawal_db \<Rightarrow> withdrawal_db" where
  "update_payout index f d \<equiv> d\<lparr>withdrawal_payouts :=
     update_where (\<lambda>r. wp_index r = index) f (withdrawal_payouts d)\<rparr>"

definition record_signed_payout :: "i64 \<Rightarrow> bytes \<Rightarrow> bytes32 \<Rightarrow> i64 \<Rightarrow> (unit, withdrawal_db) db_op" where
  "record_signed_payout index signed_tx_hex txid at d = transact (
     let d1 = d\<lparr>withdrawal_payouts := update_where (\<lambda>r. wp_index r = index \<and> wp_signed_tx_hex r = None)
           (\<lambda>r. r\<lparr>wp_signed_tx_hex := Some signed_tx_hex, wp_txid := Some txid,
                   wp_txid_hex := Some (hex_encode (le_bytes txid)), wp_signed_at := Some at\<rparr>)
           (withdrawal_payouts d)\<rparr>;
         d2 = set_request_state index (ws_as_str WBroadcast) d1
     in and_then (insert_log (log_entry index (Some (ws_as_str WSigning)) (ws_as_str WBroadcast) at
          (Some (ascii ''signed; txid '' @ hex_encode (le_bytes txid)))) d2) (\<lambda>d3. Ok ((), d3))) d"

definition record_broadcast :: "i64 \<Rightarrow> i64 \<Rightarrow> (unit, withdrawal_db) db_op" where
  "record_broadcast index at d =
     (Ok (), update_payout index (\<lambda>r. r\<lparr>wp_broadcast_at := coalesce (wp_broadcast_at r) (Some at)\<rparr>) d)"

definition record_confirmations ::
  "i64 \<Rightarrow> i64 \<Rightarrow> bytes32 option \<Rightarrow> i64 option \<Rightarrow> (unit, withdrawal_db) db_op" where
  "record_confirmations index confirmations mined_block_hash mined_height d =
     (Ok (), update_payout index (\<lambda>r. r\<lparr>wp_confirmations := confirmations,
        wp_mined_block_hash := coalesce mined_block_hash (wp_mined_block_hash r),
        wp_mined_height := coalesce mined_height (wp_mined_height r)\<rparr>) d)"

definition complete_payout :: "i64 \<Rightarrow> i64 \<Rightarrow> (unit, withdrawal_db) db_op" where
  "complete_payout index at d = transact (
     and_then (ok_or (Sqlite QueryReturnedNoRows) (payout_at d index)) (\<lambda>p.
     let d1 = update_payout index (\<lambda>r. r\<lparr>wp_completed_at := Some at\<rparr>) d;
         d2 = d1\<lparr>vault_utxos := update_where (\<lambda>r. vx_reserved_by r = Some index)
           (\<lambda>r. r\<lparr>vx_state := ''Spent'', vx_spent_by_txid_hex := wp_txid_hex p,
                   vx_reserved_by := None, vx_reserved_at := None\<rparr>) (vault_utxos d1)\<rparr>;
         d3 = set_request_state index (ws_as_str WCompleted) d2
     in and_then (insert_log (log_entry index (Some (ws_as_str WConfirming)) (ws_as_str WCompleted) at
          (Some (ascii ''payout confirmed at required depth''))) d3) (\<lambda>d4. Ok ((), d4)))) d"

definition reassign_payout_quorum ::
  "i64 \<Rightarrow> bytes \<Rightarrow> bytes32 \<Rightarrow> bytes \<Rightarrow> bytes \<Rightarrow> bytes \<Rightarrow> i64 \<Rightarrow> (u32, withdrawal_db) db_op" where
  "reassign_payout_quorum index new_quorum new_commitment new_intent new_unsigned_tx_hex reason at d =
     (if str_trim reason = [] then (Err (WithdrawalOperatorNoteRequired index), d)
      else transact (
        and_then (ok_or (MissingPayout index) (payout_at d index)) (\<lambda>p.
        and_then (ok_or (Sqlite (InvalidColumn ''quorum_indices'')) (wp_quorum_indices p)) (\<lambda>old_quorum.
        if wp_signed_tx_hex p \<noteq> None then Err (ReservationInvalid index
          ''payout is already signed; its txid is durable and must be rebroadcast, not re-designated'')
        else and_then (ok_or (ReservationInvalid index ''quorum attempt counter overflow'')
               (checked_add (wp_quorum_attempt p) 1)) (\<lambda>next.
        if request_at d index = None
          then Err (Sqlite (ConstraintViolation ''FOREIGN KEY withdrawal_quorum_history''))
        else if (index, wp_quorum_attempt p) \<in>
            (\<lambda>h. (qh_index h, qh_attempt h)) ` set (withdrawal_quorum_history d)
          then Err (Sqlite (ConstraintViolation ''UNIQUE withdrawal_quorum_history''))
        else let d1 = d\<lparr>withdrawal_quorum_history := withdrawal_quorum_history d @
               [\<lparr>qh_index = index, qh_attempt = wp_quorum_attempt p, qh_quorum_indices = old_quorum,
                 qh_commitment_hash = wp_commitment_hash p, qh_superseded_at = at, qh_reason = reason\<rparr>]\<rparr>;
               d2 = update_payout index (\<lambda>r. r\<lparr>wp_quorum_indices := Some new_quorum,
                 wp_quorum_attempt := next, wp_commitment_hash := new_commitment,
                 wp_intent_bytes := new_intent, wp_unsigned_tx_hex := new_unsigned_tx_hex\<rparr>) d1
        in and_then (insert_log (log_entry index (Some (ws_as_str WSigning)) (ws_as_str WSigning) at
             (Some (ascii ''quorum reassigned to attempt '' @ decimal (unat next) @ ascii '': '' @ reason))) d2)
             (\<lambda>d3. Ok (next, d3)))))) d)"

definition quorum_history :: "withdrawal_db \<Rightarrow> i64 \<Rightarrow> (u32 \<times> bytes \<times> bytes) list" where
  "quorum_history d index =
     map (\<lambda>h. (qh_attempt h, qh_quorum_indices h, qh_reason h))
       (order_by (\<lambda>a b. qh_attempt a < qh_attempt b)
         (filter (\<lambda>h. qh_index h = index) (withdrawal_quorum_history d)))"

definition operator_clear_withdrawal_halt ::
  "i64 \<Rightarrow> withdrawal_state \<Rightarrow> bytes \<Rightarrow> i64 \<Rightarrow> (unit, withdrawal_db) db_op" where
  "operator_clear_withdrawal_halt index to operator_note at d =
     (if str_trim operator_note = [] then (Err (WithdrawalOperatorNoteRequired index), d)
      else if to \<notin> {WValidated, WFailed}
        then (Err (InvalidWithdrawalRecoveryTarget index (ws_as_str to)), d)
      else transact (
        and_then (ok_or (WithdrawalNotFound index) (request_at d index)) (\<lambda>r.
        if wq_state r \<noteq> ws_as_str WIntegrityHalted
          then Err (NotWithdrawalIntegrityHalted index (wq_state r))
        else let d1 = d\<lparr>withdrawal_requests := update_where (\<lambda>r. wq_index r = index)
               (\<lambda>r. r\<lparr>wq_state := ws_as_str to, wq_failure_reason := Some operator_note\<rparr>)
               (withdrawal_requests d)\<rparr>
        in and_then (insert_log (log_entry index (Some (wq_state r)) (ws_as_str to) at
             (Some (ascii ''operator_recovery: '' @ operator_note))) d1) (\<lambda>d2. Ok ((), d2)))) d)"

section \<open>Totals and completion on the other chain\<close>

definition vault_utxo_stats :: "withdrawal_db \<Rightarrow> (nat \<times> u64, db_error) result" where
  "vault_utxo_stats d =
     (let rows = filter (\<lambda>r. vx_state r = ''Available'') (vault_utxos d)
      in Ok (length rows, sum_list (map vx_amount_atomic rows)))"

text \<open>The column \<open>column\<close> of the payouts whose withdrawal is Completed.\<close>

definition sum_payout_column ::
  "(withdrawal_payout_row \<Rightarrow> u64) \<Rightarrow> withdrawal_db \<Rightarrow> (u64, db_error) result" where
  "sum_payout_column column d = Ok (sum_list (map column
     (filter (\<lambda>p. case request_at d (wp_index p) of None \<Rightarrow> False
                  | Some w \<Rightarrow> wq_state w = ''Completed'') (withdrawal_payouts d))))"

definition completed_payout_total :: "withdrawal_db \<Rightarrow> (u64, db_error) result" where
  "completed_payout_total d = sum_payout_column wp_payout_atomic d"

definition vault_fees_paid_total :: "withdrawal_db \<Rightarrow> (u64, db_error) result" where
  "vault_fees_paid_total d = sum_payout_column wp_fee_atomic d"

definition withdrawal_eligible_since :: "withdrawal_db \<Rightarrow> i64 \<Rightarrow> (i64, db_error) result" where
  "withdrawal_eligible_since d index =
     and_then (ok_or (Sqlite QueryReturnedNoRows) (request_at d index)) (\<lambda>w.
     Ok (foldl (\<lambda>m l. if m \<le>s wl_at l then wl_at l else m) (wq_observed_at w)
       (filter (\<lambda>l. wl_index l = index) (withdrawal_state_log d))))"

definition payouts_awaiting_onchain_completion :: "withdrawal_db \<Rightarrow> i64 list" where
  "payouts_awaiting_onchain_completion d =
     map wq_index (order_by (\<lambda>a b. wq_index a <s wq_index b)
       (filter (\<lambda>w. wq_state w = ''Completed'' \<and>
           (case payout_at d (wq_index w) of None \<Rightarrow> False
            | Some p \<Rightarrow> wp_onchain_completed_at p = None)) (withdrawal_requests d)))"

definition record_onchain_completion :: "i64 \<Rightarrow> bytes option \<Rightarrow> i64 \<Rightarrow> (unit, withdrawal_db) db_op" where
  "record_onchain_completion index signature at d =
     (Ok (), update_payout index (\<lambda>r. r\<lparr>wp_onchain_completed_at := Some at,
        wp_onchain_completion_signature := signature\<rparr>) d)"

definition is_onchain_completed :: "withdrawal_db \<Rightarrow> i64 \<Rightarrow> bool" where
  "is_onchain_completed d index =
     (case payout_at d index of None \<Rightarrow> False | Some p \<Rightarrow> wp_onchain_completed_at p \<noteq> None)"

end
