(* ===== verification/Transactions.thy ===== *)
theory Transactions
  imports Vault
begin

text \<open>
  Legacy Goldcoin transactions and the assembly of a multisig spend, after
  \<^verbatim>\<open>relayer/src/withdrawal/multisig.rs\<close>.  The cursor of the parser is the position that every
  reader takes and returns; SHA-256 and the secp256k1 library are parameters.  The properties
  rest on \<open>reader\<close>, the interface between an encoder and the reader that undoes it.
\<close>

section \<open>Data\<close>

definition SIGHASH_ALL :: u8 where "SIGHASH_ALL = 0x01"

definition OP_0 :: u8 where "OP_0 = 0x00"

definition MAX_DER_SIG_LEN :: nat where "MAX_DER_SIG_LEN = 73"

datatype multisig_error =
    NotHex
  | Truncated nat
  | InputCountMismatch nat
  | SignerNotInVault bytes
  | RepeatedSigner bytes nat
  | ThresholdNotMet nat nat nat
  | TooManySignatures nat nat nat
  | MalformedSignature nat bytes string
  | SignatureDoesNotVerify nat bytes
  | VarIntTooLarge nat
  | NoInputs

record tx_input =
  ti_prev_txid :: bytes32
  ti_prev_vout :: u32
  ti_script_sig :: bytes
  ti_sequence :: u32

record tx_output =
  to_value :: u64
  to_script_pubkey :: bytes

record transaction =
  tx_version :: u32
  tx_inputs :: "tx_input list"
  tx_outputs :: "tx_output list"
  tx_lock_time :: u32

section \<open>The cursor\<close>

type_synonym 'a reader = "bytes \<Rightarrow> nat \<Rightarrow> ('a \<times> nat, multisig_error) result"

text \<open>An overflow of \<open>pos + n\<close> is reported like a range past the end, so it needs no case.\<close>

definition cur_take :: "nat \<Rightarrow> bytes reader" where
  "cur_take n data pos =
     (if length data < pos + n then Err (Truncated pos) else Ok (take n (drop pos data), pos + n))"

definition u16_le :: "u16 reader" where
  "u16_le data pos = and_then (cur_take 2 data pos) (\<lambda>(b, pos). Ok (from_le b, pos))"

definition u32_le :: "u32 reader" where
  "u32_le data pos = and_then (cur_take 4 data pos) (\<lambda>(b, pos). Ok (from_le b, pos))"

definition u64_le :: "u64 reader" where
  "u64_le data pos = and_then (cur_take 8 data pos) (\<lambda>(b, pos). Ok (from_le b, pos))"

definition hash_le :: "bytes32 reader" where
  "hash_le data pos = and_then (cur_take 32 data pos) (\<lambda>(b, pos). Ok (from_le b, pos))"

definition varint :: "u64 reader" where
  "varint data pos =
     and_then (cur_take 1 data pos) (\<lambda>(b, pos).
     let first = hd b in
     if first = 0xfd then and_then (u16_le data pos) (\<lambda>(n, pos). Ok (ucast n, pos))
     else if first = 0xfe then and_then (u32_le data pos) (\<lambda>(n, pos). Ok (ucast n, pos))
     else if first = 0xff then u64_le data pos
     else Ok (ucast first, pos))"

definition put_varint :: "u64 \<Rightarrow> bytes" where
  "put_varint n =
     (if n \<le> 0xfc then [ucast n]
      else if n \<le> 0xffff then 0xfd # le_bytes (ucast n :: u16)
      else if n \<le> 0xffffffff then 0xfe # le_bytes (ucast n :: u32)
      else 0xff # le_bytes n)"

definition push_data :: "bytes \<Rightarrow> bytes" where
  "push_data data =
     (let n = length data in
      if n < 0x4c then [word_of_nat n] @ data
      else if n \<le> 0xff then [0x4c, word_of_nat n] @ data
      else [0x4d] @ le_bytes (word_of_nat n :: u16) @ data)"

section \<open>Transactions as bytes\<close>

definition read_script :: "bytes reader" where
  "read_script data pos =
     and_then (varint data pos) (\<lambda>(slen, pos). cur_take (unat slen) data pos)"

definition read_input :: "tx_input reader" where
  "read_input data pos =
     and_then (hash_le data pos) (\<lambda>(prev_txid, pos).
     and_then (u32_le data pos) (\<lambda>(prev_vout, pos).
     and_then (read_script data pos) (\<lambda>(script_sig, pos).
     and_then (u32_le data pos) (\<lambda>(seq, pos).
     Ok (\<lparr>ti_prev_txid = prev_txid, ti_prev_vout = prev_vout, ti_script_sig = script_sig,
          ti_sequence = seq\<rparr>, pos)))))"

definition read_output :: "tx_output reader" where
  "read_output data pos =
     and_then (u64_le data pos) (\<lambda>(value, pos).
     and_then (read_script data pos) (\<lambda>(script_pubkey, pos).
     Ok (\<lparr>to_value = value, to_script_pubkey = script_pubkey\<rparr>, pos)))"

fun read_n :: "nat \<Rightarrow> 'a reader \<Rightarrow> 'a list reader" where
  "read_n 0 r data pos = Ok ([], pos)"
| "read_n (Suc n) r data pos =
     and_then (r data pos) (\<lambda>(x, pos).
     and_then (read_n n r data pos) (\<lambda>(xs, pos). Ok (x # xs, pos)))"

definition parse :: "bytes \<Rightarrow> (transaction, multisig_error) result" where
  "parse raw =
     and_then (u32_le raw 0) (\<lambda>(version, pos).
     and_then (varint raw pos) (\<lambda>(n_in, pos).
     if n_in = 0 then Err NoInputs
     else if n_in > 10000 then Err (VarIntTooLarge pos)
     else and_then (read_n (unat n_in) read_input raw pos) (\<lambda>(inputs, pos).
     and_then (varint raw pos) (\<lambda>(n_out, pos).
     if n_out > 10000 then Err (VarIntTooLarge pos)
     else and_then (read_n (unat n_out) read_output raw pos) (\<lambda>(outputs, pos).
     and_then (u32_le raw pos) (\<lambda>(lock_time, pos).
     Ok \<lparr>tx_version = version, tx_inputs = inputs, tx_outputs = outputs,
         tx_lock_time = lock_time\<rparr>))))))"

definition parse_hex :: "bytes \<Rightarrow> (transaction, multisig_error) result" where
  "parse_hex s = and_then (map_err (\<lambda>_. NotHex) (decode_vec s)) parse"

definition put_script :: "bytes \<Rightarrow> bytes" where
  "put_script s = put_varint (word_of_nat (length s)) @ s"

definition put_input :: "tx_input \<Rightarrow> bytes" where
  "put_input i = le_bytes (ti_prev_txid i) @ le_bytes (ti_prev_vout i) @
     put_script (ti_script_sig i) @ le_bytes (ti_sequence i)"

definition put_output :: "tx_output \<Rightarrow> bytes" where
  "put_output out = le_bytes (to_value out) @ put_script (to_script_pubkey out)"

definition serialize :: "transaction \<Rightarrow> bytes" where
  "serialize t = le_bytes (tx_version t) @
     put_varint (word_of_nat (length (tx_inputs t))) @ concat (map put_input (tx_inputs t)) @
     put_varint (word_of_nat (length (tx_outputs t))) @ concat (map put_output (tx_outputs t)) @
     le_bytes (tx_lock_time t)"

definition serialize_hex :: "transaction \<Rightarrow> bytes" where
  "serialize_hex t = hex_encode (serialize t)"

definition sha256d :: "sha256 \<Rightarrow> bytes \<Rightarrow> bytes32" where
  "sha256d sha256 data = sha256 (le_bytes (sha256 data))"

definition txid :: "sha256 \<Rightarrow> transaction \<Rightarrow> bytes32" where
  "txid sha256 t = sha256d sha256 (serialize t)"

definition txid_hex :: "sha256 \<Rightarrow> transaction \<Rightarrow> bytes" where
  "txid_hex sha256 t = hex_encode (rev (le_bytes (txid sha256 t)))"

text \<open>The scripts of the copy that is signed: the redeem script in one input, none elsewhere.\<close>

fun set_scripts :: "nat \<Rightarrow> bytes \<Rightarrow> nat \<Rightarrow> tx_input list \<Rightarrow> tx_input list" where
  "set_scripts input_index redeem i [] = []"
| "set_scripts input_index redeem i (inp # inps) =
     inp\<lparr>ti_script_sig := (if i = input_index then redeem else [])\<rparr> #
     set_scripts input_index redeem (Suc i) inps"

definition sighash_all :: "sha256 \<Rightarrow> transaction \<Rightarrow> nat \<Rightarrow> bytes \<Rightarrow> bytes32" where
  "sighash_all sha256 t input_index redeem_script =
     sha256d sha256 (serialize (t\<lparr>tx_inputs := set_scripts input_index redeem_script 0 (tx_inputs t)\<rparr>)
       @ le_bytes (ucast SIGHASH_ALL :: u32))"

section \<open>Assembly\<close>

record partial_signature =
  ps_vault_pubkey :: bytes33
  ps_signatures :: "bytes list"

text \<open>The secp256k1 library: a DER parser, a parser of compressed keys and ECDSA verification.\<close>

record ('sig, 'key) secp256k1 =
  parse_der :: "bytes \<Rightarrow> 'sig option"
  parse_compressed :: "bytes33 \<Rightarrow> 'key option"
  ecdsa_verify :: "bytes32 \<Rightarrow> 'sig \<Rightarrow> 'key \<Rightarrow> bool"

definition hexs :: "bytes33 \<Rightarrow> bytes" where
  "hexs pk = hex_encode (le_bytes pk)"

definition verify_partial ::
  "('sig, 'key) secp256k1 \<Rightarrow> nat \<Rightarrow> bytes33 \<Rightarrow> bytes \<Rightarrow> bytes32 \<Rightarrow> (unit, multisig_error) result" where
  "verify_partial secp input pubkey der_with_hashtype sighash =
     (if der_with_hashtype = [] \<or> MAX_DER_SIG_LEN < length der_with_hashtype
        then Err (MalformedSignature input (hexs pubkey) ''implausible signature length'')
      else if last der_with_hashtype \<noteq> SIGHASH_ALL
        then Err (MalformedSignature input (hexs pubkey) ''sighash type is not SIGHASH_ALL'')
      else and_then (ok_or (MalformedSignature input (hexs pubkey) ''not a valid DER ECDSA signature'')
             (parse_der secp (butlast der_with_hashtype))) (\<lambda>sig.
           and_then (ok_or (MalformedSignature input (hexs pubkey)
               ''not a valid compressed secp256k1 public key'')
             (parse_compressed secp pubkey)) (\<lambda>pk.
           if ecdsa_verify secp sighash sig pk then Ok ()
           else Err (SignatureDoesNotVerify input (hexs pubkey)))))"

fun check_counts :: "nat \<Rightarrow> partial_signature list \<Rightarrow> (unit, multisig_error) result" where
  "check_counts n [] = Ok ()"
| "check_counts n (p # ps) =
     (if length (ps_signatures p) \<noteq> n then Err (InputCountMismatch (length (ps_signatures p)))
      else check_counts n ps)"

fun place ::
  "bytes33 list \<Rightarrow> (nat \<times> partial_signature) list \<Rightarrow> partial_signature list
   \<Rightarrow> ((nat \<times> partial_signature) list, multisig_error) result" where
  "place keys placed [] = Ok placed"
| "place keys placed (p # ps) =
     and_then (ok_or (SignerNotInVault (hexs (ps_vault_pubkey p)))
       (position (\<lambda>k. k = ps_vault_pubkey p) keys)) (\<lambda>pos.
     case find (\<lambda>(i, _). i = pos) placed of
       Some (_, prev) \<Rightarrow> Err (RepeatedSigner (hexs (ps_vault_pubkey prev)) 2)
     | None \<Rightarrow> place keys (placed @ [(pos, p)]) ps)"

text \<open>The inner loop: every signature is verified before it is pushed.\<close>

fun push_signatures ::
  "('sig, 'key) secp256k1 \<Rightarrow> nat \<Rightarrow> bytes32 \<Rightarrow> bytes \<Rightarrow> (nat \<times> partial_signature) list
   \<Rightarrow> (bytes, multisig_error) result" where
  "push_signatures secp input sighash script [] = Ok script"
| "push_signatures secp input sighash script ((_, p) # placed) =
     (let sig = ps_signatures p ! input in
      and_then (verify_partial secp input (ps_vault_pubkey p) sig sighash) (\<lambda>_.
      push_signatures secp input sighash (script @ push_data sig) placed))"

fun sign_inputs ::
  "sha256 \<Rightarrow> ('sig, 'key) secp256k1 \<Rightarrow> transaction \<Rightarrow> multisig_vault \<Rightarrow> (nat \<times> partial_signature) list
   \<Rightarrow> nat \<Rightarrow> tx_input list \<Rightarrow> (tx_input list, multisig_error) result" where
  "sign_inputs sha256 secp utx vault placed i [] = Ok []"
| "sign_inputs sha256 secp utx vault placed i (inp # inps) =
     (if length placed < mv_threshold vault
        then Err (ThresholdNotMet i (length placed) (mv_threshold vault))
      else if length placed > mv_threshold vault
        then Err (TooManySignatures i (length placed) (mv_threshold vault))
      else and_then (push_signatures secp i (sighash_all sha256 utx i (mv_redeem_script vault))
             [OP_0] placed) (\<lambda>script.
           and_then (sign_inputs sha256 secp utx vault placed (Suc i) inps) (\<lambda>rest.
           Ok (inp\<lparr>ti_script_sig := script @ push_data (mv_redeem_script vault)\<rparr> # rest))))"

definition assemble ::
  "sha256 \<Rightarrow> ('sig, 'key) secp256k1 \<Rightarrow> transaction \<Rightarrow> multisig_vault \<Rightarrow> partial_signature list
   \<Rightarrow> (transaction, multisig_error) result" where
  "assemble sha256 secp utx vault partials =
     (if tx_inputs utx = [] then Err NoInputs
      else and_then (check_counts (length (tx_inputs utx)) partials) (\<lambda>_.
           and_then (place (mv_signer_pubkeys vault) [] partials) (\<lambda>placed.
           and_then (sign_inputs sha256 secp utx vault (sort_key fst placed) 0
             (tx_inputs utx)) (\<lambda>inputs.
           Ok (utx\<lparr>tx_inputs := inputs\<rparr>)))))"

section \<open>Reading a script back\<close>

definition push_length :: "bytes \<Rightarrow> nat \<Rightarrow> (nat \<times> nat, multisig_error) result" where
  "push_length script i =
     (let op = script ! i; i = Suc i in
      if op = 0 then Ok (0, i)
      else if 1 \<le> op \<and> op \<le> 0x4b then Ok (unat op, i)
      else if op = 0x4c then
        and_then (ok_or (Truncated i) (get_at script i)) (\<lambda>n. Ok (unat n, Suc i))
      else if op = 0x4d then
        and_then (ok_or (Truncated i) (slice_get script i (i + 2))) (\<lambda>b.
        Ok (unat (from_le b :: u16), i + 2))
      else Err (Truncated i))"

lemma push_length_pos: "push_length script i = Ok (n, j) \<Longrightarrow> i < j"
  by (auto simp: push_length_def Let_def split: if_splits)

function (sequential) pushes_from :: "bytes \<Rightarrow> nat \<Rightarrow> (bytes list, multisig_error) result" where
  "pushes_from script i =
     (if i < length script then
        (case push_length script i of Err e \<Rightarrow> Err e
         | Ok (n, j) \<Rightarrow>
             if length script < j + n then Err (Truncated j)
             else and_then (pushes_from script (j + n)) (\<lambda>items.
               Ok (take n (drop j script) # items)))
      else Ok [])"
  by pat_completeness auto
termination
  by (relation "measure (\<lambda>(script, i). length script - i)") (auto dest: push_length_pos)

declare pushes_from.simps [simp del]

definition parse_script_pushes :: "bytes \<Rightarrow> (bytes list, multisig_error) result" where
  "parse_script_pushes script = pushes_from script 0"

fun extract_from :: "bytes \<Rightarrow> nat \<Rightarrow> tx_input list \<Rightarrow> (bytes list, multisig_error) result" where
  "extract_from redeem i [] = Ok []"
| "extract_from redeem i (inp # inps) =
     and_then (parse_script_pushes (ti_script_sig inp)) (\<lambda>items.
     and_then (ok_or (MalformedSignature i [] ''partial scriptSig contains no signature'')
       (find (\<lambda>it. it \<noteq> [] \<and> it \<noteq> redeem) items)) (\<lambda>sig.
     and_then (extract_from redeem (Suc i) inps) (\<lambda>out. Ok (sig # out))))"

definition extract_signatures :: "transaction \<Rightarrow> bytes \<Rightarrow> (bytes list, multisig_error) result" where
  "extract_signatures partial redeem_script = extract_from redeem_script 0 (tx_inputs partial)"

end
