(* ===== verification/Executor.thy ===== *)
theory Executor
  imports Effects Rpc WithdrawalDb Payout Assignment Transactions
begin

text \<open>
  The withdrawal executor (\<^verbatim>\<open>relayer/src/withdrawal/executor.rs\<close>), its validated configuration
  (\<^verbatim>\<open>withdrawal/config.rs\<close>) and the observation of the validator epoch (\<^verbatim>\<open>solana/epoch.rs\<close>).

  Everything outside the process is an environment: the Goldcoin node, the collection of partial
  signatures, the status on Solana and the clock are functions that read and change an opaque
  world.  An operation of the executor maps its state (database, world and report) to a
  result and the state after it; what it did to the database before an error stays done.
  \<open>ex_sent\<close> records the transactions handed to the node; the code never reads it.
\<close>

section \<open>Configuration\<close>

datatype commitment_level = Processed | Confirmed | Finalized

datatype withdrawal_config_error =
    EmptyField string
  | ZeroFeeRate
  | InvalidVault vault_error
  | ChangeAddressNotVault bytes bytes
  | ZeroConfirmationDepth
  | ZeroMaxInputs
  | NonFinalizedCommitment bytes

record raw_withdrawal_config =
  raw_vault_redeem_script_hex :: bytes
  raw_vault_address :: bytes
  raw_change_address :: bytes
  raw_fee_rate_per_kb :: u64
  raw_dust_threshold_atomic :: u64
  raw_vault_min_confirmations :: i64
  raw_confirmation_depth :: i64
  raw_max_inputs_per_payout :: nat
  raw_reservation_timeout_secs :: i64
  raw_discovery_commitment :: bytes
  raw_poll_interval_ms :: u64

record withdrawal_config =
  wc_vault :: multisig_vault
  wc_vault_address :: bytes
  wc_vault_hash160 :: bytes20
  wc_change_address :: bytes
  wc_change_hash160 :: bytes20
  wc_fee_rate_per_kb :: u64
  wc_dust_threshold_atomic :: u64
  wc_vault_min_confirmations :: i64
  wc_confirmation_depth :: i64
  wc_max_inputs_per_payout :: nat
  wc_reservation_timeout_secs :: i64
  wc_discovery_commitment :: commitment_level
  wc_poll_interval_ms :: u64

definition validate_withdrawal_config ::
  "sha256 \<Rightarrow> ripemd160 \<Rightarrow> raw_withdrawal_config \<Rightarrow> (withdrawal_config, withdrawal_config_error) result" where
  "validate_withdrawal_config sha256 ripemd160 raw =
     (if raw_vault_address raw = [] then Err (EmptyField ''vault_address'')
      else if raw_change_address raw = [] then Err (EmptyField ''change_address'')
      else and_then (map_err InvalidVault
             (from_redeem_script_hex sha256 ripemd160 (raw_vault_redeem_script_hex raw))) (\<lambda>vault.
      and_then (map_err InvalidVault (require_address vault (raw_vault_address raw))) (\<lambda>_.
      if raw_change_address raw \<noteq> mv_address vault
        then Err (ChangeAddressNotVault (mv_address vault) (raw_change_address raw))
      else if raw_fee_rate_per_kb raw = 0 then Err ZeroFeeRate
      else if raw_confirmation_depth raw <s 1 then Err ZeroConfirmationDepth
      else if raw_max_inputs_per_payout raw = 0 then Err ZeroMaxInputs
      else if raw_discovery_commitment raw \<noteq> ascii ''finalized''
        then Err (NonFinalizedCommitment (raw_discovery_commitment raw))
      else Ok \<lparr>wc_vault = vault, wc_vault_address = raw_vault_address raw,
          wc_vault_hash160 = mv_script_hash160 vault, wc_change_address = raw_change_address raw,
          wc_change_hash160 = mv_script_hash160 vault, wc_fee_rate_per_kb = raw_fee_rate_per_kb raw,
          wc_dust_threshold_atomic = raw_dust_threshold_atomic raw,
          wc_vault_min_confirmations = raw_vault_min_confirmations raw,
          wc_confirmation_depth = raw_confirmation_depth raw,
          wc_max_inputs_per_payout = raw_max_inputs_per_payout raw,
          wc_reservation_timeout_secs = raw_reservation_timeout_secs raw,
          wc_discovery_commitment = Finalized, wc_poll_interval_ms = raw_poll_interval_ms raw\<rparr>)))"

section \<open>The epoch observation\<close>

record epoch_observation =
  eo_epoch :: u64
  eo_observed_at :: i64

definition MAX_VIEW_STALENESS :: i64 where
  "MAX_VIEW_STALENESS = 60"

definition seeded :: "u64 \<Rightarrow> i64 \<Rightarrow> epoch_observation" where
  "seeded epoch at_unix = \<lparr>eo_epoch = epoch, eo_observed_at = at_unix\<rparr>"

definition record_epoch :: "u64 \<Rightarrow> i64 \<Rightarrow> epoch_observation \<Rightarrow> epoch_observation" where
  "record_epoch epoch at_unix v = v\<lparr>eo_epoch := epoch, eo_observed_at := at_unix\<rparr>"

definition is_fresh_at :: "epoch_observation \<Rightarrow> i64 \<Rightarrow> bool" where
  "is_fresh_at v now =
     (let age = saturating_sub_i64 now (eo_observed_at v)
      in 0 \<le>s age \<and> age \<le>s MAX_VIEW_STALENESS)"

section \<open>The environment\<close>

record tx_status =
  ts_confirmations :: i64
  ts_block_hash_hex :: "bytes option"
  ts_block_height :: "i64 option"

datatype executor_error =
    NodeUnavailable rpc_error
  | Rpc rpc_error
  | DbErr db_error
  | VerifyErr verify_error
  | Assembly multisig_error

record withdrawal_tick_report =
  tr_observed :: nat
  tr_validated :: nat
  tr_awaiting_funds :: nat
  tr_built :: nat
  tr_signed :: nat
  tr_broadcast :: nat
  tr_confirming :: nat
  tr_completed :: nat
  tr_halted :: nat
  tr_failed :: nat
  tr_orphaned :: nat

definition default_report :: withdrawal_tick_report where
  "default_report = \<lparr>tr_observed = 0, tr_validated = 0, tr_awaiting_funds = 0, tr_built = 0,
     tr_signed = 0, tr_broadcast = 0, tr_confirming = 0, tr_completed = 0, tr_halted = 0,
     tr_failed = 0, tr_orphaned = 0\<rparr>"

text \<open>
  The interfaces the executor is built with: \<open>PayoutRpc\<close>, \<open>PayoutPartialCollector\<close>,
  \<open>OnChainWithdrawalStatus\<close>, the clock, the shared epoch observation, and the texts of the
  errors that end up in the audit log.
\<close>

record ('w, 'sig, 'key) executor_env =
  en_sha256 :: sha256
  en_secp :: "('sig, 'key) secp256k1"
  en_config :: withdrawal_config
  en_assignment :: "operator_assignment option"
  list_unspent :: "i64 \<Rightarrow> bytes list \<Rightarrow> 'w \<Rightarrow> (observed_utxo list, rpc_error) result \<times> 'w"
  create_raw_transaction :: "(bytes \<times> i64) list \<Rightarrow> (bytes \<times> u64) list \<Rightarrow> 'w \<Rightarrow> (bytes, rpc_error) result \<times> 'w"
  decode_raw_transaction :: "bytes \<Rightarrow> 'w \<Rightarrow> (decoded_tx, rpc_error) result \<times> 'w"
  send_raw_transaction :: "bytes \<Rightarrow> 'w \<Rightarrow> (broadcast_outcome, rpc_error) result \<times> 'w"
  transaction_confirmations :: "bytes \<Rightarrow> 'w \<Rightarrow> (tx_status option, rpc_error) result \<times> 'w"
  block_on_main_chain :: "bytes \<Rightarrow> 'w \<Rightarrow> (bool, rpc_error) result \<times> 'w"
  collect_payout_partials ::
    "u64 \<Rightarrow> u64 \<Rightarrow> u32 \<Rightarrow> bytes \<Rightarrow> bytes \<Rightarrow> bytes \<Rightarrow> 'w \<Rightarrow> partial_signature list \<times> 'w"
  en_onchain :: "(u64 \<Rightarrow> 'w \<Rightarrow> (bool, bytes) result \<times> 'w) option"
  en_now_unix :: "'w \<Rightarrow> i64 \<times> 'w"
  en_epoch :: "'w \<Rightarrow> epoch_observation"
  show_address_error :: "address_error \<Rightarrow> bytes"
  show_verify_error :: "verify_error \<Rightarrow> bytes"
  show_multisig_error :: "multisig_error \<Rightarrow> bytes"
  show_vault_error :: "vault_error \<Rightarrow> bytes"
  show_hex_error :: "hex_error \<Rightarrow> bytes"

record 'w ex_state =
  ex_db :: withdrawal_db
  ex_world :: 'w
  ex_report :: withdrawal_tick_report
  ex_sent :: "(i64 \<times> bytes) list"

type_synonym ('w, 'a) exec = "('w ex_state, 'a, executor_error) io"

definition classify :: "rpc_error \<Rightarrow> executor_error" where
  "classify e = (if is_retriable e then NodeUnavailable e else Rpc e)"

section \<open>Calls to the database and to the environment\<close>

text \<open>A database operation with the question mark, and one whose result is inspected.\<close>

definition edb :: "('a, withdrawal_db) db_op \<Rightarrow> ('w, 'a) exec" where
  "edb m s = (case m (ex_db s) of (r, d) \<Rightarrow> (map_err DbErr r, s\<lparr>ex_db := d\<rparr>))"

definition etry :: "('a, withdrawal_db) db_op \<Rightarrow> ('w, ('a, db_error) result) exec" where
  "etry m s = (case m (ex_db s) of (r, d) \<Rightarrow> (Ok r, s\<lparr>ex_db := d\<rparr>))"

definition equery :: "(withdrawal_db \<Rightarrow> ('a, db_error) result) \<Rightarrow> ('w, 'a) exec" where
  "equery q s = (map_err DbErr (q (ex_db s)), s)"

definition erpc :: "('w \<Rightarrow> ('a, rpc_error) result \<times> 'w) \<Rightarrow> ('w, 'a) exec" where
  "erpc call s = (case call (ex_world s) of (r, w) \<Rightarrow> (map_err classify r, s\<lparr>ex_world := w\<rparr>))"

definition eworld :: "('w \<Rightarrow> 'a \<times> 'w) \<Rightarrow> ('w, 'a) exec" where
  "eworld call s = (case call (ex_world s) of (x, w) \<Rightarrow> (Ok x, s\<lparr>ex_world := w\<rparr>))"

definition ereport :: "(withdrawal_tick_report \<Rightarrow> withdrawal_tick_report) \<Rightarrow> ('w, unit) exec" where
  "ereport f s = (Ok (), s\<lparr>ex_report := f (ex_report s)\<rparr>)"

definition esent :: "i64 \<Rightarrow> bytes \<Rightarrow> ('w, unit) exec" where
  "esent index hex s = (Ok (), s\<lparr>ex_sent := ex_sent s @ [(index, hex)]\<rparr>)"

definition transition ::
  "('w, 'sig, 'key) executor_env \<Rightarrow> i64 \<Rightarrow> withdrawal_state \<Rightarrow> bytes option \<Rightarrow> ('w, unit) exec" where
  "transition env index to reason =
     ebind (eworld (en_now_unix env)) (\<lambda>now. edb (transition_withdrawal index to now reason))"

definition require_withdrawal :: "i64 \<Rightarrow> ('w, withdrawal_row) exec" where
  "require_withdrawal index =
     ebind (equery (\<lambda>d. get_withdrawal d index)) (\<lambda>w.
     elift (ok_or (DbErr (WithdrawalNotFound index)) w))"

section \<open>The executor\<close>

definition executor_may_build :: "('w, 'sig, 'key) executor_env \<Rightarrow> i64 \<Rightarrow> i64 \<Rightarrow> ('w, bool) exec" where
  "executor_may_build env index eligible_since =
     (case en_assignment env of
        None \<Rightarrow> eret True
      | Some a \<Rightarrow> ebind (eworld (en_now_unix env)) (\<lambda>now. eret (may_build a index eligible_since now)))"

definition safe_to_broadcast :: "('w, 'sig, 'key) executor_env \<Rightarrow> i64 \<Rightarrow> ('w, bool) exec" where
  "safe_to_broadcast env index =
     (case en_onchain env of
        None \<Rightarrow> eret True
      | Some is_completed \<Rightarrow> ebind (eworld (is_completed index)) (\<lambda>r.
          eret (case r of Ok b \<Rightarrow> \<not> b | Err _ \<Rightarrow> False)))"

fun ingest_discovered :: "new_withdrawal_request list \<Rightarrow> ('w, nat) exec" where
  "ingest_discovered [] = eret 0"
| "ingest_discovered (w # ws) =
     ebind (edb (observe_withdrawal w)) (\<lambda>inserted.
     ebind (ingest_discovered ws) (\<lambda>n. eret (if inserted then n + 1 else n)))"

definition sync_vault :: "('w, 'sig, 'key) executor_env \<Rightarrow> ('w, unit) exec" where
  "sync_vault env =
     (let cfg = en_config env in
      ebind (erpc (list_unspent env (wc_vault_min_confirmations cfg) [wc_vault_address cfg])) (\<lambda>obs.
      ebind (eworld (en_now_unix env)) (\<lambda>now.
      ebind (edb (sync_vault_utxos obs (wc_vault_min_confirmations cfg) now)) (\<lambda>_.
      ebind (edb (mark_missing_utxos_spent (map ou_txid obs))) (\<lambda>_. eret ())))))"

definition reclaim_one :: "i64 \<Rightarrow> withdrawal_row \<Rightarrow> ('w, unit) exec" where
  "reclaim_one cutoff w =
     ebind (equery (\<lambda>d. Ok (get_payout d (wrow_index w)))) (\<lambda>p.
     if p \<noteq> None then eret ()
     else ebind (equery (\<lambda>d. Ok (reserved_utxos d (wrow_index w)))) (\<lambda>reserved.
     if reserved = [] then eret ()
     else ebind (equery (\<lambda>d. Ok (reservation_is_stale d (wrow_index w) cutoff))) (\<lambda>stale.
     if stale then ebind (edb (release_reservation (wrow_index w))) (\<lambda>_. eret ()) else eret ())))"

text \<open>The subtraction wraps around for a timeout far out of range.\<close>

definition reclaim_abandoned_reservations :: "('w, 'sig, 'key) executor_env \<Rightarrow> ('w, unit) exec" where
  "reclaim_abandoned_reservations env =
     ebind (eworld (en_now_unix env)) (\<lambda>now.
     let cutoff = now - wc_reservation_timeout_secs (en_config env) in
     efor [WValidated, WAwaitingFunds, WBuilding] (\<lambda>st.
       ebind (equery (\<lambda>d. withdrawals_by_state d st)) (\<lambda>ws. efor ws (reclaim_one cutoff))))"

definition validate_withdrawal :: "('w, 'sig, 'key) executor_env \<Rightarrow> i64 \<Rightarrow> ('w, unit) exec" where
  "validate_withdrawal env index =
     ebind (require_withdrawal index) (\<lambda>w.
     case decode_p2pkh_hash160 (en_sha256 env) (wrow_glc_address w) of
       Err e \<Rightarrow>
         ebind (transition env index WFailed
           (Some (ascii ''undecodable destination address: '' @ show_address_error env e))) (\<lambda>_.
         ereport (\<lambda>r. r\<lparr>tr_failed := tr_failed r + 1\<rparr>))
     | Ok h \<Rightarrow>
         if h \<noteq> wrow_hash160 w then
           ebind (transition env index WIntegrityHalted
             (Some (ascii ''stored address and hash160 disagree''))) (\<lambda>_.
           ereport (\<lambda>r. r\<lparr>tr_halted := tr_halted r + 1\<rparr>))
         else if wrow_amount_atomic w < wc_dust_threshold_atomic (en_config env) then
           ebind (transition env index WFailed
             (Some (ascii ''amount is below the dust threshold and can never be paid out''))) (\<lambda>_.
           ereport (\<lambda>r. r\<lparr>tr_failed := tr_failed r + 1\<rparr>))
         else
           ebind (transition env index WValidated None) (\<lambda>_.
           ereport (\<lambda>r. r\<lparr>tr_validated := tr_validated r + 1\<rparr>)))"

text \<open>The part of \<open>build\<close> that follows the reservation.\<close>

definition build_payout ::
  "('w, 'sig, 'key) executor_env \<Rightarrow> i64 \<Rightarrow> withdrawal_row \<Rightarrow> selection \<Rightarrow> ('w, unit) exec" where
  "build_payout env index w sel =
     (let cfg = en_config env; vault = wc_vault cfg; has_change = se_change_atomic sel > 0;
          outputs = (wrow_glc_address w, wrow_amount_atomic w) #
            (if has_change then [(wc_change_address cfg, se_change_atomic sel)] else []);
          ins = map (\<lambda>u. (vu_txid_hex u, vu_vout u)) (se_inputs sel)
      in
      ebind (erpc (create_raw_transaction env ins outputs)) (\<lambda>unsigned_hex.
      ebind (erpc (decode_raw_transaction env unsigned_hex)) (\<lambda>decoded.
      let plan = \<lparr>pp_dest_hash160 = wrow_hash160 w, pp_payout_atomic = wrow_amount_atomic w,
            pp_change_script_hex = (if has_change then Some (script_pubkey_hex vault) else None),
            pp_change_atomic = se_change_atomic sel, pp_fee_atomic = se_fee_atomic sel,
            pp_inputs = se_inputs sel\<rparr>
      in case verify_payout_tx decoded plan of
        Err e \<Rightarrow>
          ebind (transition env index WIntegrityHalted
            (Some (ascii ''output verification failed: '' @ show_verify_error env e))) (\<lambda>_.
          ereport (\<lambda>r. r\<lparr>tr_halted := tr_halted r + 1\<rparr>))
      | Ok _ \<Rightarrow>
      let quorum = designate_quorum index (signer_count vault) (mv_threshold vault) in
      ebind (elift (map_err (\<lambda>e. Rpc (Malformed (show_vault_error env e)))
        (validate_quorum vault quorum))) (\<lambda>_.
      let intent = canonical_payout_intent (wrow_protocol_version w) index (mv_script_hash160 vault)
            (wrow_hash160 w) (wrow_amount_atomic w) (se_fee_atomic sel) (se_change_atomic sel)
            (if has_change then wc_change_hash160 cfg else 0) 0 quorum (se_inputs sel)
      in
      ebind (eworld (en_now_unix env)) (\<lambda>now.
      ebind (edb (create_payout \<lparr>np_index = index, np_vault_script_hash = mv_script_hash160 vault,
          np_quorum_indices = quorum, np_quorum_attempt = 0,
          np_commitment_hash = payout_commitment (en_sha256 env) intent, np_intent_bytes = intent,
          np_fee_atomic = se_fee_atomic sel, np_payout_atomic = wrow_amount_atomic w,
          np_change_atomic = se_change_atomic sel,
          np_change_address = (if has_change then Some (wc_change_address cfg) else None),
          np_unsigned_tx_hex = unsigned_hex, np_inputs = se_inputs sel, np_built_at = now\<rparr>)) (\<lambda>_.
      ebind (transition env index WSigning None) (\<lambda>_.
      ereport (\<lambda>r. r\<lparr>tr_built := tr_built r + 1\<rparr>))))))))"

definition build :: "('w, 'sig, 'key) executor_env \<Rightarrow> i64 \<Rightarrow> ('w, unit) exec" where
  "build env index =
     (let cfg = en_config env in
      ebind (equery (\<lambda>d. Ok (get_payout d index))) (\<lambda>p.
      if p \<noteq> None then transition env index WSigning None
      else ebind (require_withdrawal index) (\<lambda>w.
      ebind (equery (\<lambda>d. Ok (available_utxos d (wc_vault_min_confirmations cfg)))) (\<lambda>candidates.
      case select candidates (wrow_amount_atomic w) (wc_fee_rate_per_kb cfg)
             (wc_dust_threshold_atomic cfg) (wc_max_inputs_per_payout cfg) of
        Err _ \<Rightarrow>
          ebind (if wrow_state w \<noteq> WAwaitingFunds
                 then transition env index WAwaitingFunds (Some (ascii ''insufficient spendable vault funds''))
                 else eret ()) (\<lambda>_.
          ereport (\<lambda>r. r\<lparr>tr_awaiting_funds := tr_awaiting_funds r + 1\<rparr>))
      | Ok sel \<Rightarrow>
      ebind (if wrow_state w = WAwaitingFunds then transition env index WValidated None else eret ()) (\<lambda>_.
      ebind (eworld (en_now_unix env)) (\<lambda>now.
      ebind (etry (reserve_utxos index (se_inputs sel) now)) (\<lambda>reserved.
      case reserved of
        Err _ \<Rightarrow> ereport (\<lambda>r. r\<lparr>tr_awaiting_funds := tr_awaiting_funds r + 1\<rparr>)
      | Ok _ \<Rightarrow>
      ebind (transition env index WBuilding None) (\<lambda>_.
      build_payout env index w sel))))))))"

definition halt_payout :: "('w, 'sig, 'key) executor_env \<Rightarrow> i64 \<Rightarrow> bytes \<Rightarrow> ('w, unit) exec" where
  "halt_payout env index reason =
     ebind (transition env index WIntegrityHalted (Some reason)) (\<lambda>_.
     ereport (\<lambda>r. r\<lparr>tr_halted := tr_halted r + 1\<rparr>))"

text \<open>The part of \<open>sign\<close> that follows the assembly.\<close>

definition record_assembled ::
  "('w, 'sig, 'key) executor_env \<Rightarrow> i64 \<Rightarrow> signable_payout \<Rightarrow> transaction \<Rightarrow> ('w, unit) exec" where
  "record_assembled env index signable stx =
     (let signed_hex = serialize_hex stx in
      ebind (erpc (decode_raw_transaction env signed_hex)) (\<lambda>signed_decoded.
      if dt_txid_hex signed_decoded \<noteq> txid_hex (en_sha256 env) stx then
        halt_payout env index (ascii ''assembled txid disagrees with the node's decoding'')
      else ebind (erpc (decode_raw_transaction env (sp_unsigned_tx_hex signable))) (\<lambda>unsigned_decoded.
      case verify_signing_preserved_outputs unsigned_decoded signed_decoded of
        Err e \<Rightarrow> halt_payout env index (show_verify_error env e)
      | Ok _ \<Rightarrow>
      ebind (elift (map_err (\<lambda>e. Rpc (Malformed (show_hex_error env e)))
        (decode_exact 32 (dt_txid_hex signed_decoded)))) (\<lambda>tid.
      ebind (eworld (en_now_unix env)) (\<lambda>now.
      ebind (edb (record_signed_payout index signed_hex (from_le tid) now)) (\<lambda>_.
      ereport (\<lambda>r. r\<lparr>tr_signed := tr_signed r + 1\<rparr>)))))))"

definition sign :: "('w, 'sig, 'key) executor_env \<Rightarrow> i64 \<Rightarrow> ('w, unit) exec" where
  "sign env index =
     ebind (eworld (en_now_unix env)) (\<lambda>now.
     ebind (etry (verify_and_load_signable_payout (en_sha256 env) index now)) (\<lambda>verified.
     case verified of
       Err _ \<Rightarrow> ereport (\<lambda>r. r\<lparr>tr_halted := tr_halted r + 1\<rparr>)
     | Ok signable \<Rightarrow>
     ebind (eworld (en_now_unix env)) (\<lambda>now.
     ebind (eworld (\<lambda>w. (en_epoch env w, w))) (\<lambda>epoch.
     if \<not> is_fresh_at epoch now then eret ()
     else ebind (eworld (collect_payout_partials env (eo_epoch epoch) index (sp_quorum_attempt signable)
         (sp_intent_bytes signable) (sp_unsigned_tx_hex signable) (sp_quorum_indices signable))) (\<lambda>partials.
     if length partials < mv_threshold (wc_vault (en_config env)) then eret ()
     else ebind (elift (map_err Assembly (parse_hex (sp_unsigned_tx_hex signable)))) (\<lambda>utx.
     case assemble (en_sha256 env) (en_secp env) utx (wc_vault (en_config env)) partials of
       Err e \<Rightarrow> halt_payout env index (ascii ''multisig assembly failed: '' @ show_multisig_error env e)
     | Ok stx \<Rightarrow> record_assembled env index signable stx))))))"

definition orphan :: "('w, 'sig, 'key) executor_env \<Rightarrow> i64 \<Rightarrow> string \<Rightarrow> ('w, unit) exec" where
  "orphan env index reason =
     ebind (transition env index WOrphaned (Some (ascii reason))) (\<lambda>_.
     ereport (\<lambda>r. r\<lparr>tr_orphaned := tr_orphaned r + 1\<rparr>))"

text \<open>The part of \<open>reconcile_broadcast\<close> for a transaction on the main chain.\<close>

definition settle_confirmations :: "('w, 'sig, 'key) executor_env \<Rightarrow> i64 \<Rightarrow> tx_status \<Rightarrow> ('w, unit) exec" where
  "settle_confirmations env index status =
     (let block_hash = (case ts_block_hash_hex status of None \<Rightarrow> None
        | Some h \<Rightarrow> (case decode_exact 32 h of Ok b \<Rightarrow> Some (from_le b) | Err _ \<Rightarrow> None))
      in
      ebind (edb (record_confirmations index (ts_confirmations status) block_hash (ts_block_height status))) (\<lambda>_.
      ebind (require_withdrawal index) (\<lambda>w.
      ebind (if wrow_state w = WBroadcast then transition env index WConfirming None else eret ()) (\<lambda>_.
      if wc_confirmation_depth (en_config env) \<le>s ts_confirmations status then
        ebind (eworld (en_now_unix env)) (\<lambda>now.
        ebind (edb (complete_payout index now)) (\<lambda>_.
        ereport (\<lambda>r. r\<lparr>tr_completed := tr_completed r + 1\<rparr>)))
      else ereport (\<lambda>r. r\<lparr>tr_confirming := tr_confirming r + 1\<rparr>)))))"

definition reconcile_broadcast :: "('w, 'sig, 'key) executor_env \<Rightarrow> i64 \<Rightarrow> ('w, unit) exec" where
  "reconcile_broadcast env index =
     ebind (equery (\<lambda>d. Ok (get_payout d index))) (\<lambda>p.
     case (case p of None \<Rightarrow> None | Some p \<Rightarrow> prow_txid_hex p) of
       None \<Rightarrow> eret ()
     | Some tid \<Rightarrow>
     ebind (erpc (transaction_confirmations env tid)) (\<lambda>status.
     case status of
       None \<Rightarrow> orphan env index ''payout transaction unknown to the node''
     | Some status \<Rightarrow>
     (case ts_block_hash_hex status of
        None \<Rightarrow> settle_confirmations env index status
      | Some bh \<Rightarrow>
          ebind (erpc (block_on_main_chain env bh)) (\<lambda>on_main.
          if \<not> on_main then orphan env index ''payout block orphaned by a reorg''
          else settle_confirmations env index status))))"

definition rebroadcast :: "('w, 'sig, 'key) executor_env \<Rightarrow> i64 \<Rightarrow> ('w, unit) exec" where
  "rebroadcast env index =
     ebind (equery (\<lambda>d. Ok (get_payout d index))) (\<lambda>p.
     case (case p of None \<Rightarrow> None | Some p \<Rightarrow> prow_signed_tx_hex p) of
       None \<Rightarrow> eret ()
     | Some stx \<Rightarrow>
     ebind (safe_to_broadcast env index) (\<lambda>safe.
     if \<not> safe then eret ()
     else ebind (esent index stx) (\<lambda>_.
     ebind (erpc (send_raw_transaction env stx)) (\<lambda>outcome.
     if outcome = MissingInputs then reconcile_broadcast env index
     else
       ebind (eworld (en_now_unix env)) (\<lambda>now.
       ebind (edb (record_broadcast index now)) (\<lambda>_.
       ebind (equery (\<lambda>d. get_withdrawal d index)) (\<lambda>w.
       ebind (if (case w of None \<Rightarrow> False | Some w \<Rightarrow> wrow_state w = WOrphaned)
              then transition env index WBroadcast (Some (ascii ''rebroadcast identical bytes after orphaning''))
              else eret ()) (\<lambda>_.
       ebind (ereport (\<lambda>r. r\<lparr>tr_broadcast := tr_broadcast r + 1\<rparr>)) (\<lambda>_.
       reconcile_broadcast env index)))))))))"

text \<open>One loop of \<open>tick\<close>: the withdrawals of a state are read once, before its first iteration.\<close>

definition for_state :: "withdrawal_state \<Rightarrow> (i64 \<Rightarrow> ('w, unit) exec) \<Rightarrow> ('w, unit) exec" where
  "for_state st f =
     ebind (equery (\<lambda>d. withdrawals_by_state d st)) (\<lambda>ws. efor (map wrow_index ws) f)"

definition build_if_eligible :: "('w, 'sig, 'key) executor_env \<Rightarrow> i64 \<Rightarrow> ('w, unit) exec" where
  "build_if_eligible env index =
     ebind (equery (\<lambda>d. withdrawal_eligible_since d index)) (\<lambda>eligible_since.
     ebind (executor_may_build env index eligible_since) (\<lambda>may.
     if may then build env index else eret ()))"

definition first_broadcast :: "('w, 'sig, 'key) executor_env \<Rightarrow> i64 \<Rightarrow> ('w, unit) exec" where
  "first_broadcast env index =
     ebind (equery (\<lambda>d. Ok (get_payout d index))) (\<lambda>p.
     if (case p of None \<Rightarrow> False | Some p \<Rightarrow> prow_confirmations p = 0) then rebroadcast env index
     else eret ())"

definition tick :: "('w, 'sig, 'key) executor_env \<Rightarrow> ('w, withdrawal_tick_report) exec" where
  "tick env =
     ebind (sync_vault env) (\<lambda>_.
     ebind (reclaim_abandoned_reservations env) (\<lambda>_.
     ebind (ereport (\<lambda>_. default_report)) (\<lambda>_.
     ebind (for_state WBroadcast (reconcile_broadcast env)) (\<lambda>_.
     ebind (for_state WConfirming (reconcile_broadcast env)) (\<lambda>_.
     ebind (for_state WOrphaned (rebroadcast env)) (\<lambda>_.
     ebind (for_state WObserved (validate_withdrawal env)) (\<lambda>_.
     ebind (efor [WAwaitingFunds, WValidated] (\<lambda>st. for_state st (build_if_eligible env))) (\<lambda>_.
     ebind (for_state WSigning (sign env)) (\<lambda>_.
     ebind (for_state WBroadcast (first_broadcast env)) (\<lambda>_.
     (\<lambda>s. (Ok (ex_report s), s))))))))))))"

end
