(* ===== verification/WithdrawalStore.thy ===== *)
theory WithdrawalStore
  imports WithdrawalDb Systems
begin

text \<open>
  What the withdrawal tables guarantee whatever the callers do: the tables as a transition
  system whose steps are the database operations with arbitrary arguments, the invariant the
  schema and the operations maintain together, and what is never taken back.
\<close>

section \<open>The tables as a transition system\<close>

datatype wdb_call =
    ObserveWithdrawal new_withdrawal_request
  | TransitionWithdrawal i64 withdrawal_state i64 "bytes option"
  | SyncVaultUtxos "observed_utxo list" i64 i64
  | MarkMissingUtxosSpent "bytes32 list"
  | ReserveUtxos i64 "vault_utxo list" i64
  | ReleaseReservation i64
  | CreatePayout new_payout
  | VerifyAndLoadSignablePayout i64 i64
  | RecordSignedPayout i64 bytes bytes32 i64
  | RecordBroadcast i64 i64
  | RecordConfirmations i64 i64 "bytes32 option" "i64 option"
  | CompletePayout i64 i64
  | ReassignPayoutQuorum i64 bytes bytes32 bytes bytes bytes i64
  | OperatorClearWithdrawalHalt i64 withdrawal_state bytes i64
  | RecordOnchainCompletion i64 "bytes option" i64

fun wdb_exec :: "sha256 \<Rightarrow> wdb_call \<Rightarrow> withdrawal_db \<Rightarrow> withdrawal_db" where
  "wdb_exec H (ObserveWithdrawal w) d = snd (observe_withdrawal w d)"
| "wdb_exec H (TransitionWithdrawal i to at reason) d = snd (transition_withdrawal i to at reason d)"
| "wdb_exec H (SyncVaultUtxos us m at) d = snd (sync_vault_utxos us m at d)"
| "wdb_exec H (MarkMissingUtxosSpent ts) d = snd (mark_missing_utxos_spent ts d)"
| "wdb_exec H (ReserveUtxos i us at) d = snd (reserve_utxos i us at d)"
| "wdb_exec H (ReleaseReservation i) d = snd (release_reservation i d)"
| "wdb_exec H (CreatePayout p) d = snd (create_payout p d)"
| "wdb_exec H (VerifyAndLoadSignablePayout i at) d = snd (verify_and_load_signable_payout H i at d)"
| "wdb_exec H (RecordSignedPayout i tx t at) d = snd (record_signed_payout i tx t at d)"
| "wdb_exec H (RecordBroadcast i at) d = snd (record_broadcast i at d)"
| "wdb_exec H (RecordConfirmations i c b h) d = snd (record_confirmations i c b h d)"
| "wdb_exec H (CompletePayout i at) d = snd (complete_payout i at d)"
| "wdb_exec H (ReassignPayoutQuorum i q c n u r at) d = snd (reassign_payout_quorum i q c n u r at d)"
| "wdb_exec H (OperatorClearWithdrawalHalt i to note at) d =
     snd (operator_clear_withdrawal_halt i to note at d)"
| "wdb_exec H (RecordOnchainCompletion i s at) d = snd (record_onchain_completion i s at d)"

definition wdb_init :: "withdrawal_db \<Rightarrow> bool" where
  "wdb_init d \<longleftrightarrow> d = empty_withdrawal_db"

definition wdb_step :: "sha256 \<Rightarrow> withdrawal_db \<Rightarrow> wdb_call \<Rightarrow> withdrawal_db \<Rightarrow> bool" where
  "wdb_step H d c d' \<longleftrightarrow> d' = wdb_exec H c d"

section \<open>The invariant\<close>

text \<open>The columns \<open>state\<close> hold names of states.\<close>

definition state_name :: "string \<Rightarrow> bool" where
  "state_name s \<longleftrightarrow> (\<exists>st. s = ws_as_str st)"

lemma state_name_as_str [simp]: "state_name (ws_as_str st)"
  by (auto simp: state_name_def)

lemma ws_parse_as_str [simp]: "ws_parse (ws_as_str st) = Ok st"
  by (cases st) (simp_all add: ws_parse_def)

lemma ws_parse_Ok: "ws_parse s = Ok st \<longleftrightarrow> s = ws_as_str st"
proof
  assume "ws_parse s = Ok st"
  then show "s = ws_as_str st" by (auto simp: ws_parse_def split: if_splits)
qed simp

lemma ws_as_str_inject [simp]: "ws_as_str a = ws_as_str b \<longleftrightarrow> a = b"
  by (metis result.inject(1) ws_parse_as_str)

declare ws_as_str.simps [simp del]

definition request_ok :: "withdrawal_request_row \<Rightarrow> bool" where
  "request_ok r \<longleftrightarrow> state_name (wq_state r)"

text \<open>The CHECK constraints of \<open>vault_utxos\<close> and \<open>withdrawal_payouts\<close>.\<close>

definition utxo_row_ok :: "vault_utxo_row \<Rightarrow> bool" where
  "utxo_row_ok r \<longleftrightarrow>
     vx_state r \<in> {''Available'', ''Reserved'', ''Spent'', ''Unconfirmed''} \<and>
     (vx_state r = ''Reserved'' \<longleftrightarrow> vx_reserved_by r \<noteq> None) \<and>
     vx_txid_hex r = hex_encode (le_bytes (vx_txid r))"

definition payout_row_ok :: "withdrawal_payout_row \<Rightarrow> bool" where
  "payout_row_ok p \<longleftrightarrow> (wp_signed_tx_hex p = None \<longleftrightarrow> wp_txid p = None) \<and>
     wp_txid_hex p = map_option (\<lambda>t. hex_encode (le_bytes t)) (wp_txid p)"

abbreviation input_outpoint :: "payout_input_row \<Rightarrow> bytes32 \<times> i64" where
  "input_outpoint r \<equiv> (pi_txid r, pi_vout r)"

definition requests_inv :: "withdrawal_request_row list \<Rightarrow> bool" where
  "requests_inv rs \<longleftrightarrow> distinct (map wq_index rs) \<and> distinct (map wq_pda rs) \<and> list_all request_ok rs"

definition payouts_inv :: "withdrawal_payout_row list \<Rightarrow> bool" where
  "payouts_inv ps \<longleftrightarrow> distinct (map wp_index ps) \<and> list_all payout_row_ok ps"

definition utxos_inv :: "vault_utxo_row list \<Rightarrow> bool" where
  "utxos_inv us \<longleftrightarrow> distinct (map outpoint_of us) \<and> list_all utxo_row_ok us"

definition inputs_inv :: "payout_input_row list \<Rightarrow> bool" where
  "inputs_inv ins \<longleftrightarrow> distinct (map input_outpoint ins)"

text \<open>Foreign keys, and the attempts of superseded quorums.\<close>

definition links_inv :: "withdrawal_db \<Rightarrow> bool" where
  "links_inv d \<longleftrightarrow>
     wp_index ` set (withdrawal_payouts d) \<subseteq> wq_index ` set (withdrawal_requests d) \<and>
     pi_index ` set (withdrawal_payout_inputs d) \<subseteq> wp_index ` set (withdrawal_payouts d) \<and>
     (\<forall>u \<in> set (vault_utxos d). \<forall>i. vx_reserved_by u = Some i \<longrightarrow>
        i \<in> wq_index ` set (withdrawal_requests d)) \<and>
     wl_index ` set (withdrawal_state_log d) \<subseteq> wq_index ` set (withdrawal_requests d) \<and>
     (\<forall>h \<in> set (withdrawal_quorum_history d). \<exists>p \<in> set (withdrawal_payouts d).
        wp_index p = qh_index h \<and> qh_attempt h < wp_quorum_attempt p)"

definition wdb_inv :: "withdrawal_db \<Rightarrow> bool" where
  "wdb_inv d \<longleftrightarrow> requests_inv (withdrawal_requests d) \<and> payouts_inv (withdrawal_payouts d) \<and>
     utxos_inv (vault_utxos d) \<and> inputs_inv (withdrawal_payout_inputs d) \<and> links_inv d"

section \<open>Preservation, table by table\<close>

lemma requests_inv_update:
  assumes "requests_inv rs"
    and "\<And>r. wq_index (f r) = wq_index r" "\<And>r. wq_pda (f r) = wq_pda r"
    and "\<And>r. request_ok r \<Longrightarrow> P r \<Longrightarrow> request_ok (f r)"
  shows "requests_inv (update_where P f rs)"
proof -
  have "map wq_index (update_where P f rs) = map wq_index rs"
    "map wq_pda (update_where P f rs) = map wq_pda rs"
    using assms(2,3) by (simp_all add: map_update_where)
  then show ?thesis
    using assms(1,4) by (auto simp: requests_inv_def list_all_iff set_update_where)
qed

lemma payouts_inv_update:
  assumes "payouts_inv ps"
    and "\<And>r. wp_index (f r) = wp_index r" "\<And>r. payout_row_ok r \<Longrightarrow> P r \<Longrightarrow> payout_row_ok (f r)"
  shows "payouts_inv (update_where P f ps)"
  using assms map_update_where [of P wp_index f ps]
  by (auto simp: payouts_inv_def list_all_iff set_update_where)

lemma utxos_inv_update:
  assumes "utxos_inv us"
    and "\<And>r. outpoint_of (f r) = outpoint_of r" "\<And>r. utxo_row_ok r \<Longrightarrow> P r \<Longrightarrow> utxo_row_ok (f r)"
  shows "utxos_inv (update_where P f us)"
  using assms map_update_where [of P outpoint_of f us]
  by (auto simp: utxos_inv_def list_all_iff set_update_where)

lemma links_inv_requests:
  assumes "links_inv d" "\<And>r. wq_index (f r) = wq_index r"
  shows "links_inv (d\<lparr>withdrawal_requests := update_where P f (withdrawal_requests d)\<rparr>)"
  using assms by (simp add: links_inv_def image_update_where)

lemma links_inv_payouts:
  assumes "links_inv d" "\<And>r. wp_index (f r) = wp_index r"
    and "\<And>r. P r \<Longrightarrow> wp_quorum_attempt r \<le> wp_quorum_attempt (f r)"
  shows "links_inv (d\<lparr>withdrawal_payouts := update_where P f (withdrawal_payouts d)\<rparr>)"
proof -
  have "\<exists>p \<in> set (update_where P f ps). wp_index p = i \<and> a < wp_quorum_attempt p"
    if "\<exists>p \<in> set ps. wp_index p = i \<and> a < wp_quorum_attempt p" for ps i a
  proof -
    from that obtain p where p: "p \<in> set ps" "wp_index p = i" "a < wp_quorum_attempt p" by blast
    then have "(if P p then f p else p) \<in> set (update_where P f ps)" by (auto simp: set_update_where)
    moreover have "a < wp_quorum_attempt (if P p then f p else p)"
      using p(3) assms(3) [of p] by (auto intro: less_le_trans)
    ultimately show ?thesis using p(2) assms(2) by (intro bexI) auto
  qed
  then show ?thesis
    using assms(1,2) by (simp add: links_inv_def image_update_where)
qed

lemma links_inv_utxos:
  assumes "links_inv d"
    and "\<And>u i. u \<in> set us \<Longrightarrow> vx_reserved_by u = Some i \<Longrightarrow> i \<in> wq_index ` set (withdrawal_requests d)"
  shows "links_inv (d\<lparr>vault_utxos := us\<rparr>)"
  using assms by (simp add: links_inv_def)

lemma insert_log_Ok:
  "insert_log l d = Ok d' \<longleftrightarrow> wl_index l \<in> wq_index ` set (withdrawal_requests d) \<and>
     d' = d\<lparr>withdrawal_state_log := withdrawal_state_log d @ [l]\<rparr>"
  by (auto simp: insert_log_def row_at_None)

lemma wdb_inv_log:
  "wdb_inv d \<Longrightarrow> wl_index l \<in> wq_index ` set (withdrawal_requests d) \<Longrightarrow>
     wdb_inv (d\<lparr>withdrawal_state_log := withdrawal_state_log d @ [l]\<rparr>)"
  by (auto simp: wdb_inv_def links_inv_def)

lemma wdb_inv_requests:
  assumes "wdb_inv d" "\<And>r. wq_index (f r) = wq_index r" "\<And>r. wq_pda (f r) = wq_pda r"
    and "\<And>r. state_name (wq_state (f r))"
  shows "wdb_inv (d\<lparr>withdrawal_requests := update_where P f (withdrawal_requests d)\<rparr>)"
  using assms links_inv_requests [of d f P] requests_inv_update [of "withdrawal_requests d" f P]
  by (simp add: wdb_inv_def request_ok_def)

lemma wdb_inv_payouts:
  assumes "wdb_inv d" "\<And>r. wp_index (f r) = wp_index r"
    and "\<And>r. P r \<Longrightarrow> wp_quorum_attempt r \<le> wp_quorum_attempt (f r)"
    and "\<And>r. payout_row_ok r \<Longrightarrow> P r \<Longrightarrow> payout_row_ok (f r)"
  shows "wdb_inv (d\<lparr>withdrawal_payouts := update_where P f (withdrawal_payouts d)\<rparr>)"
  using assms links_inv_payouts [of d f P] payouts_inv_update [of "withdrawal_payouts d" f P]
  by (simp add: wdb_inv_def)

lemma wdb_inv_utxos:
  assumes "wdb_inv d" "\<And>r. outpoint_of (f r) = outpoint_of r"
    and "\<And>r. utxo_row_ok r \<Longrightarrow> P r \<Longrightarrow> utxo_row_ok (f r)"
    and "\<And>r i. vx_reserved_by (f r) = Some i \<Longrightarrow>
      vx_reserved_by r = Some i \<or> i \<in> wq_index ` set (withdrawal_requests d)"
  shows "wdb_inv (d\<lparr>vault_utxos := update_where P f (vault_utxos d)\<rparr>)"
proof -
  have "i \<in> wq_index ` set (withdrawal_requests d)"
    if "u \<in> set (update_where P f (vault_utxos d))" "vx_reserved_by u = Some i" for u i
  proof -
    from that(1) obtain r where r: "r \<in> set (vault_utxos d)" "u = (if P r then f r else r)"
      by (auto simp: set_update_where)
    from assms(1) r(1) have "vx_reserved_by r = Some i \<longrightarrow> i \<in> wq_index ` set (withdrawal_requests d)"
      by (simp add: wdb_inv_def links_inv_def)
    with r(2) that(2) assms(4) [of r i] show ?thesis by (cases "P r") auto
  qed
  then show ?thesis
    using assms(1-3) utxos_inv_update [of "vault_utxos d" f P] links_inv_utxos [of d]
    by (simp add: wdb_inv_def)
qed

section \<open>What each operation does\<close>

lemma transition_withdrawal_Ok:
  "transition_withdrawal i to at reason d = (Ok (), d') \<longleftrightarrow>
     (\<exists>r from. request_at d i = Some r \<and> wq_state r = ws_as_str from \<and>
        (from = to \<or> may_transition_to from to) \<and>
        d' = d\<lparr>withdrawal_requests := update_where (\<lambda>r. wq_index r = i)
                 (\<lambda>r. r\<lparr>wq_state := ws_as_str to,
                         wq_failure_reason := coalesce reason (wq_failure_reason r)\<rparr>)
                 (withdrawal_requests d),
               withdrawal_state_log := withdrawal_state_log d @
                 [log_entry i (Some (wq_state r)) (ws_as_str to) at reason]\<rparr>)"
  by (auto simp: transition_withdrawal_def transact_Ok Let_def insert_log_Ok ws_parse_Ok
      image_update_where log_entry_def dest: row_at_key)

lemma transition_withdrawal_Err: "transition_withdrawal i to at reason d = (Err e, d') \<Longrightarrow> d' = d"
  unfolding transition_withdrawal_def by (rule transact_Err)

lemma record_signed_payout_Ok:
  "record_signed_payout i tx t at d = (Ok (), d') \<longleftrightarrow>
     i \<in> wq_index ` set (withdrawal_requests d) \<and>
     d' = d\<lparr>withdrawal_requests := update_where (\<lambda>r. wq_index r = i)
              (\<lambda>r. r\<lparr>wq_state := ws_as_str WBroadcast\<rparr>) (withdrawal_requests d),
            withdrawal_payouts := update_where (\<lambda>r. wp_index r = i \<and> wp_signed_tx_hex r = None)
              (\<lambda>r. r\<lparr>wp_signed_tx_hex := Some tx, wp_txid := Some t,
                      wp_txid_hex := Some (hex_encode (le_bytes t)), wp_signed_at := Some at\<rparr>)
              (withdrawal_payouts d),
            withdrawal_state_log := withdrawal_state_log d @
              [log_entry i (Some (ws_as_str WSigning)) (ws_as_str WBroadcast) at
                (Some (ascii ''signed; txid '' @ hex_encode (le_bytes t)))]\<rparr>"
  by (auto simp: record_signed_payout_def transact_Ok Let_def insert_log_Ok set_request_state_def
      image_update_where log_entry_def)

lemma record_signed_payout_Err: "record_signed_payout i tx t at d = (Err e, d') \<Longrightarrow> d' = d"
  unfolding record_signed_payout_def by (rule transact_Err)

definition completed_db :: "i64 \<Rightarrow> i64 \<Rightarrow> withdrawal_payout_row \<Rightarrow> withdrawal_db \<Rightarrow> withdrawal_db" where
  "completed_db i at p d =
     d\<lparr>withdrawal_requests := update_where (\<lambda>r. wq_index r = i)
         (\<lambda>r. r\<lparr>wq_state := ws_as_str WCompleted\<rparr>) (withdrawal_requests d),
       withdrawal_payouts := update_where (\<lambda>r. wp_index r = i)
         (\<lambda>r. r\<lparr>wp_completed_at := Some at\<rparr>) (withdrawal_payouts d),
       vault_utxos := update_where (\<lambda>r. vx_reserved_by r = Some i)
         (\<lambda>r. r\<lparr>vx_state := ''Spent'', vx_spent_by_txid_hex := wp_txid_hex p,
                 vx_reserved_by := None, vx_reserved_at := None\<rparr>) (vault_utxos d),
       withdrawal_state_log := withdrawal_state_log d @
         [log_entry i (Some (ws_as_str WConfirming)) (ws_as_str WCompleted) at
           (Some (ascii ''payout confirmed at required depth''))]\<rparr>"

lemma complete_payout_Ok:
  "complete_payout i at d = (Ok (), d') \<longleftrightarrow>
     (\<exists>p. payout_at d i = Some p \<and> i \<in> wq_index ` set (withdrawal_requests d) \<and>
       d' = completed_db i at p d)"
  by (auto simp: complete_payout_def completed_db_def transact_Ok Let_def insert_log_Ok
      set_request_state_def image_update_where log_entry_def)

lemma complete_payout_Err: "complete_payout i at d = (Err e, d') \<Longrightarrow> d' = d"
  unfolding complete_payout_def by (rule transact_Err)

lemma clear_halt_Ok:
  "operator_clear_withdrawal_halt i to note at d = (Ok (), d') \<Longrightarrow>
     \<exists>r. request_at d i = Some r \<and> wq_state r = ws_as_str WIntegrityHalted \<and> to \<in> {WValidated, WFailed} \<and>
       d' = d\<lparr>withdrawal_requests := update_where (\<lambda>r. wq_index r = i)
                (\<lambda>r. r\<lparr>wq_state := ws_as_str to, wq_failure_reason := Some note\<rparr>) (withdrawal_requests d),
              withdrawal_state_log := withdrawal_state_log d @
                [log_entry i (Some (wq_state r)) (ws_as_str to) at
                  (Some (ascii ''operator_recovery: '' @ note))]\<rparr>"
  by (auto simp: operator_clear_withdrawal_halt_def transact_Ok Let_def insert_log_Ok split: if_splits
     )

lemma clear_halt_Err: "operator_clear_withdrawal_halt i to note at d = (Err e, d') \<Longrightarrow> d' = d"
  by (auto simp: operator_clear_withdrawal_halt_def dest: transact_Err split: if_splits)

lemma reassign_Ok:
  assumes "reassign_payout_quorum i q c n u reason at d = (Ok a, d')"
  obtains p old where "payout_at d i = Some p" "wp_signed_tx_hex p = None" "wp_quorum_indices p = Some old"
    "checked_add (wp_quorum_attempt p) 1 = Some a" "i \<in> wq_index ` set (withdrawal_requests d)"
    "d' = d\<lparr>withdrawal_quorum_history := withdrawal_quorum_history d @
             [\<lparr>qh_index = i, qh_attempt = wp_quorum_attempt p, qh_quorum_indices = old,
               qh_commitment_hash = wp_commitment_hash p, qh_superseded_at = at, qh_reason = reason\<rparr>],
           withdrawal_payouts := update_where (\<lambda>r. wp_index r = i)
             (\<lambda>r. r\<lparr>wp_quorum_indices := Some q, wp_quorum_attempt := a, wp_commitment_hash := c,
                     wp_intent_bytes := n, wp_unsigned_tx_hex := u\<rparr>) (withdrawal_payouts d),
           withdrawal_state_log := withdrawal_state_log d @
             [log_entry i (Some (ws_as_str WSigning)) (ws_as_str WSigning) at
               (Some (ascii ''quorum reassigned to attempt '' @ decimal (unat a) @ ascii '': '' @ reason))]\<rparr>"
  using assms
  by (auto simp: reassign_payout_quorum_def transact_Ok Let_def insert_log_Ok row_at_None
      split: if_splits)

lemma reassign_Err: "reassign_payout_quorum i q c n u reason at d = (Err e, d') \<Longrightarrow> d' = d"
  by (auto simp: reassign_payout_quorum_def dest: transact_Err split: if_splits)

text \<open>Verification changes the database only by halting the withdrawal.\<close>

definition kept_or_halted :: "withdrawal_db \<Rightarrow> i64 \<Rightarrow> withdrawal_db \<Rightarrow> bool" where
  "kept_or_halted d i d' \<longleftrightarrow> d' = d \<or>
     (\<exists>w at reason ex re diff. request_at d i = Some w \<and> d' = halt_withdrawal w at reason ex re diff d)"

lemma kept_or_halted_intros [simp]:
  "kept_or_halted d i d"
  "request_at d i = Some w \<Longrightarrow> kept_or_halted d i (halt_withdrawal w at reason ex re diff d)"
  unfolding kept_or_halted_def by blast+

lemma verify_effect: "kept_or_halted d i (snd (verify_and_load_signable_payout H i at d))"
  unfolding verify_and_load_signable_payout_def Let_def
  by (simp split: option.split result.split prod.split)

section \<open>Preservation, operation by operation\<close>

lemma op_cases:
  "(\<And>x d'. op = (Ok x, d') \<Longrightarrow> P d') \<Longrightarrow> (\<And>e d'. op = (Err e, d') \<Longrightarrow> P d') \<Longrightarrow> P (snd op)"
  by (metis prod.collapse result.exhaust)

lemma inv_observe:
  assumes "wdb_inv d"
  shows "wdb_inv (snd (observe_withdrawal w d))"
proof (cases "nw_index w \<in> wq_index ` set (withdrawal_requests d) \<or>
    nw_pda w \<in> wq_pda ` set (withdrawal_requests d)")
  case False
  then show ?thesis
    using assms
    by (auto simp: observe_withdrawal_def Let_def insert_log_def row_at_None log_entry_def
        wdb_inv_def links_inv_def requests_inv_def request_ok_def)
qed (use assms in \<open>simp add: observe_withdrawal_def\<close>)

text \<open>A change of the state column together with its log entry.\<close>

lemma wdb_inv_moved:
  assumes "wdb_inv d" "\<And>r. wq_index (f r) = wq_index r" "\<And>r. wq_pda (f r) = wq_pda r"
    and "\<And>r. state_name (wq_state (f r))" "wl_index l \<in> wq_index ` set (withdrawal_requests d)"
  shows "wdb_inv (d\<lparr>withdrawal_requests := update_where P f (withdrawal_requests d),
    withdrawal_state_log := withdrawal_state_log d @ [l]\<rparr>)"
  using wdb_inv_log [OF wdb_inv_requests [of d f P], of l] assms by (simp add: image_update_where)

lemma inv_transition:
  assumes "wdb_inv d"
  shows "wdb_inv (snd (transition_withdrawal i to at reason d))"
proof (rule op_cases)
  fix x d' assume "transition_withdrawal i to at reason d = (Ok x, d')"
  then show "wdb_inv d'"
    using assms by (auto simp: transition_withdrawal_Ok log_entry_def dest: row_at_key intro!: wdb_inv_moved)
qed (use assms transition_withdrawal_Err in blast)

lemma inv_clear_halt:
  assumes "wdb_inv d"
  shows "wdb_inv (snd (operator_clear_withdrawal_halt i to note at d))"
proof (rule op_cases)
  fix x d' assume "operator_clear_withdrawal_halt i to note at d = (Ok x, d')"
  then show "wdb_inv d'"
    using assms by (auto simp: log_entry_def dest!: clear_halt_Ok dest: row_at_key intro!: wdb_inv_moved)
qed (use assms clear_halt_Err in blast)

lemma inv_halt: "wdb_inv d \<Longrightarrow> request_at d i = Some w \<Longrightarrow> wdb_inv (halt_withdrawal w at reason ex re diff d)"
  unfolding halt_withdrawal_def by (rule wdb_inv_moved) (auto dest: row_at_Some)

lemma inv_verify: "wdb_inv d \<Longrightarrow> wdb_inv (snd (verify_and_load_signable_payout H i at d))"
  using verify_effect [of d i H at] inv_halt by (auto simp: kept_or_halted_def)

lemma inv_record_signed:
  assumes "wdb_inv d"
  shows "wdb_inv (snd (record_signed_payout i tx t at d))"
proof (rule op_cases)
  fix x d' assume "record_signed_payout i tx t at d = (Ok x, d')"
  then have mem: "i \<in> wq_index ` set (withdrawal_requests d)" and d': "d' =
      (d\<lparr>withdrawal_payouts := update_where (\<lambda>r. wp_index r = i \<and> wp_signed_tx_hex r = None)
          (\<lambda>r. r\<lparr>wp_signed_tx_hex := Some tx, wp_txid := Some t,
             wp_txid_hex := Some (hex_encode (le_bytes t)), wp_signed_at := Some at\<rparr>)
          (withdrawal_payouts d)\<rparr>)
      \<lparr>withdrawal_requests := update_where (\<lambda>r. wq_index r = i)
         (\<lambda>r. r\<lparr>wq_state := ws_as_str WBroadcast\<rparr>) (withdrawal_requests d),
       withdrawal_state_log := withdrawal_state_log d @
         [log_entry i (Some (ws_as_str WSigning)) (ws_as_str WBroadcast) at
           (Some (ascii ''signed; txid '' @ hex_encode (le_bytes t)))]\<rparr>"
    by (auto simp: record_signed_payout_Ok)
  have "wdb_inv (d\<lparr>withdrawal_payouts := update_where (\<lambda>r. wp_index r = i \<and> wp_signed_tx_hex r = None)
          (\<lambda>r. r\<lparr>wp_signed_tx_hex := Some tx, wp_txid := Some t,
             wp_txid_hex := Some (hex_encode (le_bytes t)), wp_signed_at := Some at\<rparr>)
          (withdrawal_payouts d)\<rparr>)"
    using assms by (rule wdb_inv_payouts) (simp_all add: payout_row_ok_def)
  from wdb_inv_moved [OF this, of "\<lambda>r. r\<lparr>wq_state := ws_as_str WBroadcast\<rparr>"] mem
  show "wdb_inv d'" unfolding d' by (simp add: log_entry_def)
qed (use assms record_signed_payout_Err in blast)

lemma inv_payout_only:
  assumes "wdb_inv d" "\<And>r. wp_index (f r) = wp_index r" "\<And>r. wp_quorum_attempt (f r) = wp_quorum_attempt r"
    and "\<And>r. payout_row_ok (f r) = payout_row_ok r"
  shows "wdb_inv (update_payout i f d)"
  using assms by (intro wdb_inv_payouts) simp_all

lemma inv_record:
  "wdb_inv d \<Longrightarrow> wdb_inv (snd (record_broadcast i at d))"
  "wdb_inv d \<Longrightarrow> wdb_inv (snd (record_confirmations i c b h d))"
  "wdb_inv d \<Longrightarrow> wdb_inv (snd (record_onchain_completion i s at d))"
  unfolding record_broadcast_def record_confirmations_def record_onchain_completion_def snd_conv
  by (rule inv_payout_only; simp add: payout_row_ok_def)+

lemma inv_complete:
  assumes "wdb_inv d"
  shows "wdb_inv (snd (complete_payout i at d))"
proof (rule op_cases)
  fix x d' assume "complete_payout i at d = (Ok x, d')"
  then obtain p where mem: "i \<in> wq_index ` set (withdrawal_requests d)"
    and d0: "d' = completed_db i at p d"
    by (auto simp: complete_payout_Ok)
  then have d': "d' =
      (update_payout i (\<lambda>r. r\<lparr>wp_completed_at := Some at\<rparr>)
        (d\<lparr>vault_utxos := update_where (\<lambda>r. vx_reserved_by r = Some i)
          (\<lambda>r. r\<lparr>vx_state := ''Spent'', vx_spent_by_txid_hex := wp_txid_hex p,
             vx_reserved_by := None, vx_reserved_at := None\<rparr>) (vault_utxos d)\<rparr>))
      \<lparr>withdrawal_requests := update_where (\<lambda>r. wq_index r = i)
         (\<lambda>r. r\<lparr>wq_state := ws_as_str WCompleted\<rparr>) (withdrawal_requests d),
       withdrawal_state_log := withdrawal_state_log d @
         [log_entry i (Some (ws_as_str WConfirming)) (ws_as_str WCompleted) at
           (Some (ascii ''payout confirmed at required depth''))]\<rparr>"
    by (simp add: completed_db_def)
  let ?d1 = "d\<lparr>vault_utxos := update_where (\<lambda>r. vx_reserved_by r = Some i)
          (\<lambda>r. r\<lparr>vx_state := ''Spent'', vx_spent_by_txid_hex := wp_txid_hex p,
             vx_reserved_by := None, vx_reserved_at := None\<rparr>) (vault_utxos d)\<rparr>"
  have "wdb_inv ?d1" using assms by (rule wdb_inv_utxos) (auto simp: utxo_row_ok_def)
  then have "wdb_inv (update_payout i (\<lambda>r. r\<lparr>wp_completed_at := Some at\<rparr>) ?d1)"
    by (rule inv_payout_only) (simp_all add: payout_row_ok_def)
  from wdb_inv_moved [OF this, of "\<lambda>r. r\<lparr>wq_state := ws_as_str WCompleted\<rparr>"] mem
  show "wdb_inv d'" unfolding d' by (simp add: log_entry_def)
qed (use assms complete_payout_Err in blast)

lemma inv_reassign:
  assumes inv: "wdb_inv d"
  shows "wdb_inv (snd (reassign_payout_quorum i q c n u reason at d))"
proof (rule op_cases)
  fix a d' assume "reassign_payout_quorum i q c n u reason at d = (Ok a, d')"
  then show "wdb_inv d'"
  proof (rule reassign_Ok, goal_cases)
    case (1 p old)
    let ?f = "\<lambda>r. r\<lparr>wp_quorum_indices := Some q, wp_quorum_attempt := a, wp_commitment_hash := c,
       wp_intent_bytes := n, wp_unsigned_tx_hex := u\<rparr>"
    let ?ps = "update_where (\<lambda>r. wp_index r = i) ?f (withdrawal_payouts d)"
    from 1(4) have lt: "wp_quorum_attempt p < a"
      by (auto simp: word_less_nat_alt dest!: unat_checked_add)
    from 1(1) have p: "p \<in> set (withdrawal_payouts d)" "wp_index p = i" by (auto dest: row_at_Some)
    have only: "r = p" if "r \<in> set (withdrawal_payouts d)" "wp_index r = i" for r
      using key_unique [of wp_index "withdrawal_payouts d" r p] that p inv
      by (simp add: wdb_inv_def payouts_inv_def)
    have ps: "payouts_inv ?ps"
      using inv by (intro payouts_inv_update) (simp_all add: wdb_inv_def payout_row_ok_def)
    have hist: "\<exists>r \<in> set ?ps. wp_index r = qh_index h \<and> qh_attempt h < wp_quorum_attempt r"
      if old: "h \<in> set (withdrawal_quorum_history d)" for h
    proof -
      from old inv obtain r where r: "r \<in> set (withdrawal_payouts d)" "wp_index r = qh_index h"
        "qh_attempt h < wp_quorum_attempt r" by (auto simp: wdb_inv_def links_inv_def)
      then have "(if wp_index r = i then ?f r else r) \<in> set ?ps" by (auto simp: set_update_where)
      moreover have "qh_attempt h < wp_quorum_attempt (if wp_index r = i then ?f r else r)"
        using r(3) lt only [OF r(1)] by (auto intro: less_trans)
      ultimately show ?thesis using r(2) by (intro bexI) auto
    qed
    have "?f p \<in> set ?ps" using p by (auto simp: set_update_where)
    then have new: "\<exists>r \<in> set ?ps. wp_index r = i \<and> wp_quorum_attempt p < wp_quorum_attempt r"
      using p(2) lt by (intro bexI) auto
    have keys: "wp_index ` set ?ps = wp_index ` set (withdrawal_payouts d)"
      by (rule image_update_where) simp
    have "links_inv d'"
      using inv 1(5) hist new
      unfolding links_inv_def wdb_inv_def 1(6) by (simp add: keys log_entry_def)
    then show ?case using inv ps unfolding 1(6) by (simp add: wdb_inv_def)
  qed
qed (use inv reassign_Err in blast)

text \<open>Outputs: insertion, reservation and release.\<close>

lemma utxos_inv_upsert:
  assumes "utxos_inv us"
  shows "utxos_inv (upsert_utxo m at u us)"
proof (cases "row_at outpoint_of (ou_txid u, ou_vout u) us = None")
  case True
  then have "(ou_txid u, ou_vout u) \<notin> outpoint_of ` set us" by (simp add: row_at_None)
  with True assms show ?thesis
    by (simp add: upsert_utxo_def Let_def utxos_inv_def utxo_row_ok_def image_iff)
next
  case False
  then show ?thesis
    unfolding upsert_utxo_def Let_def
    using assms by (auto intro!: utxos_inv_update simp: utxo_row_ok_def)
qed

lemma reserved_by_upsert:
  "v \<in> set (upsert_utxo m at u us) \<Longrightarrow> vx_reserved_by v = Some i \<Longrightarrow> \<exists>v' \<in> set us. vx_reserved_by v' = Some i"
  by (auto simp: upsert_utxo_def Let_def set_update_where split: if_splits)

lemma inv_sync:
  assumes "wdb_inv d"
  shows "wdb_inv (snd (sync_vault_utxos us m at d))"
proof -
  have "utxos_inv (foldl (\<lambda>rows u. upsert_utxo m at u rows) rows us) \<and>
      (\<forall>v \<in> set (foldl (\<lambda>rows u. upsert_utxo m at u rows) rows us). \<forall>i. vx_reserved_by v = Some i \<longrightarrow>
        i \<in> wq_index ` set (withdrawal_requests d))"
    if "utxos_inv rows" "\<forall>v \<in> set rows. \<forall>i. vx_reserved_by v = Some i \<longrightarrow>
        i \<in> wq_index ` set (withdrawal_requests d)" for rows
    using that
  proof (induction us arbitrary: rows)
    case (Cons u us)
    have "\<forall>v \<in> set (upsert_utxo m at u rows). \<forall>i. vx_reserved_by v = Some i \<longrightarrow>
        i \<in> wq_index ` set (withdrawal_requests d)"
      using Cons.prems(2) reserved_by_upsert by blast
    with Cons.IH [OF utxos_inv_upsert [OF Cons.prems(1)]] show ?case by simp
  qed simp
  then show ?thesis
    using assms by (auto simp: sync_vault_utxos_def wdb_inv_def links_inv_def)
qed

lemma inv_mark_missing:
  assumes "wdb_inv d"
  shows "wdb_inv (snd (mark_missing_utxos_spent ts d))"
proof -
  let ?mark = "\<lambda>rows t. update_where (\<lambda>r. vx_txid_hex r = vx_txid_hex t \<and> vx_vout r = vx_vout t)
      (\<lambda>r. r\<lparr>vx_state := ''Spent''\<rparr>) rows"
  have main: "wdb_inv (e\<lparr>vault_utxos := foldl ?mark (vault_utxos e) tracked\<rparr>)"
    if "wdb_inv e" "\<forall>t \<in> set tracked. \<forall>r \<in> set (vault_utxos e). vx_txid_hex r = vx_txid_hex t \<longrightarrow>
      vx_vout r = vx_vout t \<longrightarrow> vx_reserved_by r = None" for e tracked
    using that
  proof (induction tracked arbitrary: e)
    case (Cons t tracked)
    let ?e = "e\<lparr>vault_utxos := ?mark (vault_utxos e) t\<rparr>"
    have rows: "utxos_inv (?mark (vault_utxos e) t)"
      using Cons.prems by (auto simp: wdb_inv_def utxos_inv_def list_all_iff set_update_where
          map_update_where utxo_row_ok_def split: if_splits)
    have "wdb_inv ?e"
      using Cons.prems(1) rows by (auto simp: wdb_inv_def links_inv_def set_update_where)
    moreover have "\<forall>t' \<in> set tracked. \<forall>r \<in> set (vault_utxos ?e). vx_txid_hex r = vx_txid_hex t' \<longrightarrow>
        vx_vout r = vx_vout t' \<longrightarrow> vx_reserved_by r = None"
      using Cons.prems(2) by (auto simp: set_update_where)
    ultimately show ?case using Cons.IH [of ?e] by simp
  qed simp
  have "vx_reserved_by r = None"
    if "t \<in> set (filter (missing_utxo ts) (vault_utxos d))" "r \<in> set (vault_utxos d)"
      "vx_txid_hex r = vx_txid_hex t" "vx_vout r = vx_vout t" for t r
  proof -
    from that assms have ok: "utxo_row_ok t" "utxo_row_ok r" "distinct (map outpoint_of (vault_utxos d))"
      by (auto simp: wdb_inv_def utxos_inv_def list_all_iff)
    with that(3) have "vx_txid r = vx_txid t" by (simp add: utxo_row_ok_def hex_encode_inject)
    with that have "r = t" by (intro key_unique [OF ok(3)]) simp_all
    with that(1) ok(1) show ?thesis by (auto simp: missing_utxo_def utxo_row_ok_def)
  qed
  then show ?thesis
    unfolding mark_missing_utxos_spent_def Let_def snd_conv by (intro main [OF assms]) blast
qed

lemma reserve_loop_inv:
  "reserve_loop i at us d = Ok d' \<Longrightarrow> wdb_inv d \<Longrightarrow> wdb_inv d'"
proof (induction us arbitrary: d)
  case (Cons u us)
  let ?hit = "\<lambda>r. outpoint_of r = (vu_txid u, vu_vout u) \<and> vx_state r = ''Available''"
  let ?d = "d\<lparr>vault_utxos := update_where ?hit
     (\<lambda>r. r\<lparr>vx_state := ''Reserved'', vx_reserved_by := Some i, vx_reserved_at := Some at\<rparr>) (vault_utxos d)\<rparr>"
  from Cons.prems have mem: "i \<in> wq_index ` set (withdrawal_requests d)"
    and rest: "reserve_loop i at us ?d = Ok d'"
    by (auto simp: Let_def row_at_None split: if_splits)
  have "wdb_inv ?d"
    using Cons.prems(2) by (rule wdb_inv_utxos) (use mem in \<open>auto simp: utxo_row_ok_def\<close>)
  with Cons.IH [OF rest] show ?case by blast
qed simp

lemma reserve_utxos_Err: "reserve_utxos i us at d = (Err e, d') \<Longrightarrow> d' = d"
  unfolding reserve_utxos_def by (rule transact_Err)

lemma inv_reserve:
  assumes "wdb_inv d"
  shows "wdb_inv (snd (reserve_utxos i us at d))"
proof (rule op_cases)
  fix x d' assume "reserve_utxos i us at d = (Ok x, d')"
  then show "wdb_inv d'"
    using assms by (auto simp: reserve_utxos_def transact_Ok elim: reserve_loop_inv)
qed (use assms reserve_utxos_Err in blast)

lemma inv_release: "wdb_inv d \<Longrightarrow> wdb_inv (snd (release_reservation i d))"
  unfolding release_reservation_def
  by (auto intro!: wdb_inv_utxos simp: utxo_row_ok_def)

lemma insert_inputs_Ok:
  "insert_inputs i k us rows = Ok rows' \<Longrightarrow>
     \<exists>new. rows' = rows @ new \<and> pi_index ` set new \<subseteq> {i} \<and> map input_outpoint new = map (\<lambda>u. (vu_txid u, vu_vout u)) us \<and>
       map pi_amount_atomic new = map vu_amount_atomic us \<and> map pi_order new = [k..<k + length us] \<and>
       (inputs_inv rows \<longrightarrow> inputs_inv rows')"
proof (induction us arbitrary: k rows)
  case (Cons u us)
  let ?r = "\<lparr>pi_index = i, pi_order = k, pi_txid = vu_txid u, pi_vout = vu_vout u,
     pi_amount_atomic = vu_amount_atomic u\<rparr>"
  from Cons.prems have fresh: "(vu_txid u, vu_vout u) \<notin> input_outpoint ` set rows"
    and rest: "insert_inputs i (k + 1) us (rows @ [?r]) = Ok rows'"
    by (auto split: if_splits)
  from Cons.IH [OF rest] obtain new where new: "rows' = (rows @ [?r]) @ new" "pi_index ` set new \<subseteq> {i}"
    "map input_outpoint new = map (\<lambda>u. (vu_txid u, vu_vout u)) us"
    "map pi_amount_atomic new = map vu_amount_atomic us"
    "map pi_order new = [k + 1..<k + 1 + length us]"
    "inputs_inv (rows @ [?r]) \<longrightarrow> inputs_inv rows'" by blast
  have "inputs_inv rows \<longrightarrow> inputs_inv (rows @ [?r])"
    using fresh by (auto simp: inputs_inv_def)
  with new show ?case
    by (intro exI [of _ "?r # new"]) (simp add: upt_conv_Cons del: upt_Suc)
qed simp

lemma create_payout_Ok:
  "create_payout p d = (Ok (), d') \<longleftrightarrow> payout_at d (np_index p) = None \<and>
     np_index p \<in> wq_index ` set (withdrawal_requests d) \<and>
     (\<exists>ins. insert_inputs (np_index p) 0 (np_inputs p) (withdrawal_payout_inputs d) = Ok ins \<and>
       d' = d\<lparr>withdrawal_payouts := withdrawal_payouts d @ [new_payout_row p],
              withdrawal_payout_inputs := ins\<rparr>)"
  by (auto simp: create_payout_def transact_Ok row_at_None)

lemma create_payout_Err: "create_payout p d = (Err e, d') \<Longrightarrow> d' = d"
  unfolding create_payout_def by (rule transact_Err)

lemma inv_create_payout:
  assumes "wdb_inv d"
  shows "wdb_inv (snd (create_payout p d))"
proof (rule op_cases)
  fix x d' assume "create_payout p d = (Ok x, d')"
  then obtain ins where fresh: "np_index p \<notin> wp_index ` set (withdrawal_payouts d)"
      "np_index p \<in> wq_index ` set (withdrawal_requests d)"
    and ins: "insert_inputs (np_index p) 0 (np_inputs p) (withdrawal_payout_inputs d) = Ok ins"
    and d': "d' = d\<lparr>withdrawal_payouts := withdrawal_payouts d @ [new_payout_row p],
      withdrawal_payout_inputs := ins\<rparr>"
    unfolding row_at_None [symmetric] using create_payout_Ok [of p d d'] by (cases x) auto
  have row: "wp_index (new_payout_row p) = np_index p" "payout_row_ok (new_payout_row p)"
    by (simp_all add: new_payout_row_def payout_row_ok_def)
  from insert_inputs_Ok [OF ins] obtain new where new: "ins = withdrawal_payout_inputs d @ new"
    "pi_index ` set new \<subseteq> {np_index p}" "inputs_inv ins"
    using assms by (auto simp: wdb_inv_def)
  show "wdb_inv d'"
    using assms new fresh row unfolding d'
    by (auto simp: wdb_inv_def links_inv_def payouts_inv_def)
qed (use assms create_payout_Err in blast)

lemmas wdb_op_invs = inv_observe inv_transition inv_sync inv_mark_missing inv_reserve inv_release
  inv_create_payout inv_verify inv_record_signed inv_record inv_complete inv_reassign inv_clear_halt

lemma wdb_exec_inv: "wdb_inv d \<Longrightarrow> wdb_inv (wdb_exec H c d)"
  by (cases c) (simp_all add: wdb_op_invs)

interpretation wdb: inv_system wdb_init "wdb_step H" wdb_inv
  for H
proof unfold_locales
  show "wdb_init d \<Longrightarrow> wdb_inv d" for d
    by (simp add: wdb_init_def empty_withdrawal_db_def wdb_inv_def requests_inv_def payouts_inv_def
        utxos_inv_def inputs_inv_def links_inv_def)
qed (auto simp: wdb_step_def wdb_exec_inv)

end
