(* ===== verification/WithdrawalSafety.thy ===== *)
theory WithdrawalSafety
  imports WithdrawalStore Payout Assignment
begin

text \<open>
  What the withdrawal tables never take back, and the guarantees that rest on it: no outpoint
  funds two payouts, a signed payout is frozen, and what the guard before signing lets through.
\<close>

section \<open>What is never taken back\<close>

definition request_le :: "withdrawal_request_row \<Rightarrow> withdrawal_request_row \<Rightarrow> bool" where
  "request_le r r' \<longleftrightarrow> r' = r\<lparr>wq_state := wq_state r', wq_failure_reason := wq_failure_reason r'\<rparr>"

text \<open>The columns a signed payout is reconciled by.\<close>

definition signed_part ::
  "withdrawal_payout_row \<Rightarrow> bytes option \<times> bytes32 option \<times> bytes option \<times> bytes \<times> bytes option \<times> u32 \<times> bytes32 \<times> bytes" where
  "signed_part p = (wp_signed_tx_hex p, wp_txid p, wp_txid_hex p, wp_unsigned_tx_hex p,
     wp_quorum_indices p, wp_quorum_attempt p, wp_commitment_hash p, wp_intent_bytes p)"

definition payout_le :: "withdrawal_payout_row \<Rightarrow> withdrawal_payout_row \<Rightarrow> bool" where
  "payout_le p p' \<longleftrightarrow>
     wp_payout_atomic p' = wp_payout_atomic p \<and> wp_fee_atomic p' = wp_fee_atomic p \<and>
     wp_change_atomic p' = wp_change_atomic p \<and> wp_change_address p' = wp_change_address p \<and>
     wp_vault_script_hash p' = wp_vault_script_hash p \<and>
     wp_quorum_attempt p \<le> wp_quorum_attempt p' \<and>
     (wp_signed_tx_hex p \<noteq> None \<longrightarrow> signed_part p' = signed_part p)"

definition utxo_le :: "vault_utxo_row \<Rightarrow> vault_utxo_row \<Rightarrow> bool" where
  "utxo_le u u' \<longleftrightarrow> vx_amount_atomic u' = vx_amount_atomic u \<and>
     vx_script_pubkey_hex u' = vx_script_pubkey_hex u \<and> (vx_state u = ''Spent'' \<longrightarrow> vx_state u' = ''Spent'')"

definition rows_le :: "('r \<Rightarrow> 'k) \<Rightarrow> ('r \<Rightarrow> 'r \<Rightarrow> bool) \<Rightarrow> 'r list \<Rightarrow> 'r list \<Rightarrow> bool" where
  "rows_le key le rows rows' \<longleftrightarrow> (\<forall>k. opt_le le (row_at key k rows) (row_at key k rows'))"

definition inputs_of :: "i64 \<Rightarrow> withdrawal_db \<Rightarrow> payout_input_row list" where
  "inputs_of i d = filter (\<lambda>r. pi_index r = i) (withdrawal_payout_inputs d)"

definition wdb_le :: "withdrawal_db \<Rightarrow> withdrawal_db \<Rightarrow> bool" where
  "wdb_le d d' \<longleftrightarrow>
     rows_le wq_index request_le (withdrawal_requests d) (withdrawal_requests d') \<and>
     rows_le wp_index payout_le (withdrawal_payouts d) (withdrawal_payouts d') \<and>
     rows_le outpoint_of utxo_le (vault_utxos d) (vault_utxos d') \<and>
     (\<forall>i. payout_at d i \<noteq> None \<longrightarrow> inputs_of i d' = inputs_of i d) \<and>
     (\<exists>l. withdrawal_state_log d' = withdrawal_state_log d @ l) \<and>
     (\<exists>h. withdrawal_quorum_history d' = withdrawal_quorum_history d @ h)"

lemmas row_les = request_le_def payout_le_def utxo_le_def signed_part_def

lemma row_le_refl [simp]: "request_le r r" "payout_le p p" "utxo_le u u"
  by (simp_all add: row_les)

lemma row_le_trans:
  "request_le r r' \<Longrightarrow> request_le r' r'' \<Longrightarrow> request_le r r''"
  "payout_le p p' \<Longrightarrow> payout_le p' p'' \<Longrightarrow> payout_le p p''"
  "utxo_le u u' \<Longrightarrow> utxo_le u' u'' \<Longrightarrow> utxo_le u u''"
proof -
  show "request_le r r' \<Longrightarrow> request_le r' r'' \<Longrightarrow> request_le r r''"
    by (cases r; cases r'; cases r'') (simp add: request_le_def)
  show "payout_le p p' \<Longrightarrow> payout_le p' p'' \<Longrightarrow> payout_le p p''"
    unfolding payout_le_def by (auto simp: signed_part_def)
  show "utxo_le u u' \<Longrightarrow> utxo_le u' u'' \<Longrightarrow> utxo_le u u''"
    by (auto simp: utxo_le_def)
qed

lemma rows_le_refl: "(\<And>r. le r r) \<Longrightarrow> rows_le key le rows rows"
  by (simp add: rows_le_def opt_le_refl)

lemma rows_le_trans:
  "rows_le key le xs ys \<Longrightarrow> rows_le key le ys zs \<Longrightarrow> (\<And>a b c. le a b \<Longrightarrow> le b c \<Longrightarrow> le a c) \<Longrightarrow>
     rows_le key le xs zs"
  unfolding rows_le_def by (meson opt_le_trans)

lemma rows_le_append: "(\<And>r. le r r) \<Longrightarrow> rows_le key le xs (xs @ ys)"
  by (auto simp: rows_le_def opt_le_def row_at_append)

lemma rows_le_update:
  assumes "\<And>r. r \<in> set rows \<Longrightarrow> P r \<Longrightarrow> le r (f r)" "\<And>r. P r \<Longrightarrow> key (f r) = key r" "\<And>r. le r r"
  shows "rows_le key le rows (update_where P f rows)"
  using assms by (auto simp: rows_le_def opt_le_def row_at_update dest!: row_at_Some)

lemma payout_kept:
  "rows_le wp_index payout_le (withdrawal_payouts d) (withdrawal_payouts d') \<Longrightarrow>
     payout_at d i \<noteq> None \<Longrightarrow> payout_at d' i \<noteq> None"
  by (fastforce simp: rows_le_def opt_le_def)

lemma wdb_le_refl: "wdb_le d d"
  by (simp add: wdb_le_def rows_le_refl)

lemma wdb_le_trans:
  assumes "wdb_le d d'" "wdb_le d' d''"
  shows "wdb_le d d''"
proof -
  note le = assms [unfolded wdb_le_def]
  have "rows_le wq_index request_le (withdrawal_requests d) (withdrawal_requests d'')"
    using le row_le_trans(1) rows_le_trans by blast
  moreover have "rows_le wp_index payout_le (withdrawal_payouts d) (withdrawal_payouts d'')"
    using le row_le_trans(2) rows_le_trans by blast
  moreover have "rows_le outpoint_of utxo_le (vault_utxos d) (vault_utxos d'')"
    using le row_le_trans(3) rows_le_trans by blast
  moreover have "inputs_of i d'' = inputs_of i d" if "payout_at d i \<noteq> None" for i
    using le that payout_kept by metis
  moreover have "(\<exists>l. withdrawal_state_log d'' = withdrawal_state_log d @ l) \<and>
      (\<exists>h. withdrawal_quorum_history d'' = withdrawal_quorum_history d @ h)"
    using le by (elim conjE exE) simp
  ultimately show ?thesis by (simp add: wdb_le_def)
qed

text \<open>Operations that keep the payout inputs.\<close>

lemma wdb_leI:
  assumes "rows_le wq_index request_le (withdrawal_requests d) (withdrawal_requests d')"
    "rows_le wp_index payout_le (withdrawal_payouts d) (withdrawal_payouts d')"
    "rows_le outpoint_of utxo_le (vault_utxos d) (vault_utxos d')"
    "withdrawal_payout_inputs d' = withdrawal_payout_inputs d"
    "withdrawal_state_log d' = withdrawal_state_log d @ l"
    "withdrawal_quorum_history d' = withdrawal_quorum_history d @ h"
  shows "wdb_le d d'"
  using assms by (simp add: wdb_le_def inputs_of_def)

lemmas le_simps = rows_le_refl rows_le_append row_les

lemma le_observe: "wdb_le d (snd (observe_withdrawal w d))"
  by (auto simp: observe_withdrawal_def Let_def insert_log_def wdb_le_refl wdb_le_def inputs_of_def
      le_simps split: if_splits)

lemma le_moved:
  "(\<And>r. request_le r (f r)) \<Longrightarrow> (\<And>r. wq_index (f r) = wq_index r) \<Longrightarrow>
     wdb_le d (d\<lparr>withdrawal_requests := update_where P f (withdrawal_requests d),
       withdrawal_state_log := withdrawal_state_log d @ l\<rparr>)"
  by (rule wdb_leI [where l = l and h = "[]"]) (simp_all add: rows_le_refl rows_le_update)

lemma le_transition: "wdb_le d (snd (transition_withdrawal i to at reason d))"
proof (rule op_cases)
  fix x d' assume "transition_withdrawal i to at reason d = (Ok x, d')"
  then show "wdb_le d d'"
    by (auto simp: transition_withdrawal_Ok request_le_def intro!: le_moved)
qed (use wdb_le_refl transition_withdrawal_Err in blast)

lemma le_clear_halt: "wdb_le d (snd (operator_clear_withdrawal_halt i to note at d))"
proof (rule op_cases)
  fix x d' assume "operator_clear_withdrawal_halt i to note at d = (Ok x, d')"
  then have "operator_clear_withdrawal_halt i to note at d = (Ok (), d')" by simp
  from clear_halt_Ok [OF this] show "wdb_le d d'"
    by (elim exE conjE) (simp add: request_le_def le_moved)
qed (use wdb_le_refl clear_halt_Err in blast)

lemma le_verify: "wdb_le d (snd (verify_and_load_signable_payout H i at d))"
proof -
  have "wdb_le d (halt_withdrawal w at reason ex re diff d)" for w at reason ex re diff
    unfolding halt_withdrawal_def by (rule le_moved) (simp_all add: request_le_def)
  then show ?thesis
    using verify_effect [of d i H at] wdb_le_refl by (auto simp: kept_or_halted_def)
qed

lemma le_record_signed: "wdb_le d (snd (record_signed_payout i tx t at d))"
proof (rule op_cases)
  fix x d' assume "record_signed_payout i tx t at d = (Ok x, d')"
  then have "record_signed_payout i tx t at d = (Ok (), d')" by simp
  then show "wdb_le d d'"
    unfolding record_signed_payout_Ok
    by (intro wdb_leI [where h = "[]"]) (auto simp: row_les intro!: rows_le_update rows_le_refl)
qed (use wdb_le_refl record_signed_payout_Err in blast)

lemma le_payouts:
  assumes "\<And>r. wp_index (f r) = wp_index r" "\<And>r. payout_le r (f r)"
  shows "wdb_le d (update_payout i f d)"
  using assms by (intro wdb_leI [where l = "[]" and h = "[]"]) (simp_all add: rows_le_refl rows_le_update)

lemma le_record:
  "wdb_le d (snd (record_broadcast i at d))"
  "wdb_le d (snd (record_confirmations i c b h d))"
  "wdb_le d (snd (record_onchain_completion i s at d))"
  unfolding record_broadcast_def record_confirmations_def record_onchain_completion_def snd_conv
  by (rule le_payouts; simp add: row_les)+

lemma reserved_not_spent:
  "wdb_inv d \<Longrightarrow> u \<in> set (vault_utxos d) \<Longrightarrow> vx_reserved_by u \<noteq> None \<Longrightarrow> vx_state u = ''Reserved''"
  by (auto simp: wdb_inv_def utxos_inv_def list_all_iff utxo_row_ok_def)

lemma le_complete:
  assumes "wdb_inv d"
  shows "wdb_le d (snd (complete_payout i at d))"
proof (rule op_cases)
  fix x d' assume "complete_payout i at d = (Ok x, d')"
  then have "complete_payout i at d = (Ok (), d')" by simp
  then obtain p where "d' = completed_db i at p d" by (auto simp: complete_payout_Ok)
  then show "wdb_le d d'"
    using reserved_not_spent [OF assms]
    by (intro wdb_leI [where h = "[]"])
      (auto simp: completed_db_def row_les intro!: rows_le_update rows_le_refl)
qed (use wdb_le_refl complete_payout_Err in blast)

lemma le_reassign:
  assumes "wdb_inv d"
  shows "wdb_le d (snd (reassign_payout_quorum i q c n u reason at d))"
proof (rule op_cases)
  fix a d' assume "reassign_payout_quorum i q c n u reason at d = (Ok a, d')"
  then show "wdb_le d d'"
  proof (rule reassign_Ok, goal_cases)
    case (1 p old)
    have only: "r = p" if "r \<in> set (withdrawal_payouts d)" "wp_index r = i" for r
      using that assms row_at_Some [OF 1(1)]
      by (intro key_unique [of wp_index "withdrawal_payouts d"]) (simp_all add: wdb_inv_def payouts_inv_def)
    have "wp_quorum_attempt p \<le> a"
      using unat_checked_add [OF 1(4)] by (simp add: word_le_nat_alt)
    with only 1(2) show ?case
      unfolding 1(6)
      by (intro wdb_leI) (auto simp: row_les intro!: rows_le_update rows_le_refl)
  qed
qed (use wdb_le_refl reassign_Err in blast)

lemma le_create_payout: "wdb_le d (snd (create_payout p d))"
proof (rule op_cases)
  fix x d' assume "create_payout p d = (Ok x, d')"
  then have "create_payout p d = (Ok (), d')" by simp
  then obtain ins where fresh: "payout_at d (np_index p) = None"
    and ins: "insert_inputs (np_index p) 0 (np_inputs p) (withdrawal_payout_inputs d) = Ok ins"
    and d': "d' = d\<lparr>withdrawal_payouts := withdrawal_payouts d @ [new_payout_row p],
      withdrawal_payout_inputs := ins\<rparr>"
    by (auto simp: create_payout_Ok)
  from insert_inputs_Ok [OF ins] obtain new where "ins = withdrawal_payout_inputs d @ new"
    "pi_index ` set new \<subseteq> {np_index p}" by blast
  then have "inputs_of i d' = inputs_of i d" if "payout_at d i \<noteq> None" for i
    using that fresh d' by (auto simp: inputs_of_def filter_empty_conv image_subset_iff)
  then show "wdb_le d d'"
    unfolding d' by (simp add: wdb_le_def rows_le_refl rows_le_append)
qed (use wdb_le_refl create_payout_Err in blast)

lemma le_utxos: "rows_le outpoint_of utxo_le (vault_utxos d) us \<Longrightarrow> wdb_le d (d\<lparr>vault_utxos := us\<rparr>)"
  by (rule wdb_leI [where l = "[]" and h = "[]"]) (simp_all add: rows_le_refl)

lemma rows_le_foldl:
  assumes "\<And>rows x. rows_le outpoint_of utxo_le rows (f rows x)"
  shows "rows_le outpoint_of utxo_le rows (foldl f rows xs)"
proof (induction xs arbitrary: rows)
  case (Cons x xs)
  then show ?case using rows_le_trans [OF assms, of rows x] row_le_trans(3) by auto
qed (simp add: rows_le_refl)

lemma upsert_le: "rows_le outpoint_of utxo_le rows (upsert_utxo m at u rows)"
  by (auto simp: upsert_utxo_def Let_def utxo_le_def intro!: rows_le_append rows_le_update)

lemma le_sync: "wdb_le d (snd (sync_vault_utxos us m at d))"
  unfolding sync_vault_utxos_def snd_conv by (intro le_utxos rows_le_foldl upsert_le)

lemma le_mark_missing: "wdb_le d (snd (mark_missing_utxos_spent ts d))"
  unfolding mark_missing_utxos_spent_def Let_def snd_conv
  by (intro le_utxos rows_le_foldl rows_le_update) (simp_all add: utxo_le_def)

lemma reserve_loop_le: "reserve_loop i at us d = Ok d' \<Longrightarrow> wdb_le d d'"
proof (induction us arbitrary: d)
  case (Cons u us)
  let ?hit = "\<lambda>r. outpoint_of r = (vu_txid u, vu_vout u) \<and> vx_state r = ''Available''"
  let ?d = "d\<lparr>vault_utxos := update_where ?hit
     (\<lambda>r. r\<lparr>vx_state := ''Reserved'', vx_reserved_by := Some i, vx_reserved_at := Some at\<rparr>) (vault_utxos d)\<rparr>"
  have "wdb_le d ?d" by (intro le_utxos rows_le_update) (auto simp: utxo_le_def)
  moreover have "wdb_le ?d d'" using Cons by (auto simp: Let_def split: if_splits)
  ultimately show ?case by (rule wdb_le_trans)
qed (simp add: wdb_le_refl)

lemma le_reserve: "wdb_le d (snd (reserve_utxos i us at d))"
proof (rule op_cases)
  fix x d' assume "reserve_utxos i us at d = (Ok x, d')"
  then show "wdb_le d d'" by (auto simp: reserve_utxos_def transact_Ok elim: reserve_loop_le)
qed (use wdb_le_refl reserve_utxos_Err in blast)

lemma le_release: "wdb_le d (snd (release_reservation i d))"
  unfolding release_reservation_def
  by (auto intro!: le_utxos rows_le_update wdb_le_refl simp: utxo_le_def reserved_for_def)

lemmas wdb_op_les = le_observe le_transition le_sync le_mark_missing le_reserve le_release
  le_create_payout le_verify le_record_signed le_record le_complete le_reassign le_clear_halt

lemma wdb_exec_le: "wdb_inv d \<Longrightarrow> wdb_le d (wdb_exec H c d)"
  by (cases c) (simp_all add: wdb_op_les)

interpretation wdb: progress_order wdb_init "wdb_step H" wdb_inv wdb_le
  for H
  by unfold_locales (auto simp: wdb_step_def wdb_exec_le wdb_le_refl elim: wdb_le_trans)

section \<open>Never paying twice\<close>

text \<open>
  C14: Whatever sequence of database operations is run, with whatever arguments, a withdrawal has at
  most one payout, an outpoint is committed as an input at most once over all payouts, every
  payout belongs to an observed withdrawal, and an output is reserved exactly when it names the
  withdrawal it is reserved for.
\<close>

theorem outpoint_funds_one_payout:
  assumes "wdb.reachable H d"
  shows "(\<forall>p \<in> set (withdrawal_payouts d). \<forall>q \<in> set (withdrawal_payouts d). wp_index p = wp_index q \<longrightarrow> p = q) \<and>
    (\<forall>r \<in> set (withdrawal_payout_inputs d). \<forall>s \<in> set (withdrawal_payout_inputs d).
       input_outpoint r = input_outpoint s \<longrightarrow> r = s) \<and>
    (\<forall>p \<in> set (withdrawal_payouts d). request_at d (wp_index p) \<noteq> None) \<and>
    (\<forall>u \<in> set (vault_utxos d). vx_state u = ''Reserved'' \<longleftrightarrow> (\<exists>i. vx_reserved_by u = Some i \<and> request_at d i \<noteq> None))"
proof -
  have inv: "wdb_inv d" using assms by (rule wdb.reachable_inv)
  then have k: "distinct (map wp_index (withdrawal_payouts d))"
    "distinct (map input_outpoint (withdrawal_payout_inputs d))"
    by (simp_all add: wdb_inv_def payouts_inv_def inputs_inv_def)
  show ?thesis
  proof (intro conjI ballI impI)
    fix p q assume "p \<in> set (withdrawal_payouts d)" "q \<in> set (withdrawal_payouts d)" "wp_index p = wp_index q"
    then show "p = q" by (rule key_unique [OF k(1)])
  next
    fix r s assume "r \<in> set (withdrawal_payout_inputs d)" "s \<in> set (withdrawal_payout_inputs d)"
      "input_outpoint r = input_outpoint s"
    then show "r = s" by (rule key_unique [OF k(2)])
  next
    fix p assume "p \<in> set (withdrawal_payouts d)"
    with inv show "request_at d (wp_index p) \<noteq> None"
      by (auto simp: wdb_inv_def links_inv_def row_at_None)
  next
    fix u assume u: "u \<in> set (vault_utxos d)"
    with inv have "utxo_row_ok u" "\<forall>i. vx_reserved_by u = Some i \<longrightarrow> request_at d i \<noteq> None"
      by (auto simp: wdb_inv_def links_inv_def utxos_inv_def list_all_iff row_at_None)
    then show "vx_state u = ''Reserved'' \<longleftrightarrow> (\<exists>i. vx_reserved_by u = Some i \<and> request_at d i \<noteq> None)"
      by (auto simp: utxo_row_ok_def)
  qed
qed

text \<open>
  C15: Once a payout is signed it is frozen: in every later state of the database, after any further
  operations, the same withdrawal still has that payout, with the same signed bytes, transaction
  id, unsigned transaction, quorum, commitment, amounts and inputs.  Rebroadcasting after a crash
  therefore always resends the identical transaction.
\<close>

theorem signed_payout_frozen:
  assumes "wdb.reachable H d" "wdb.run H d calls d'"
    and "payout_at d i = Some p" "wp_signed_tx_hex p = Some tx"
  shows "\<exists>p'. payout_at d' i = Some p' \<and> wp_signed_tx_hex p' = Some tx \<and> signed_part p' = signed_part p \<and>
    wp_payout_atomic p' = wp_payout_atomic p \<and> wp_fee_atomic p' = wp_fee_atomic p \<and>
    wp_change_atomic p' = wp_change_atomic p \<and> input_rows d' i = input_rows d i"
proof -
  have le: "wdb_le d d'" using assms(1,2) by (rule wdb.le_reachable)
  then have "rows_le wp_index payout_le (withdrawal_payouts d) (withdrawal_payouts d')"
    by (simp add: wdb_le_def)
  with assms(3) obtain p' where p': "payout_at d' i = Some p'" "payout_le p p'"
    by (auto simp: rows_le_def opt_le_def)
  from le assms(3) have "inputs_of i d' = inputs_of i d" by (simp add: wdb_le_def)
  then have "input_rows d' i = input_rows d i" by (simp add: input_rows_def inputs_of_def)
  with p' assms(4) show ?thesis
    by (auto simp: payout_le_def signed_part_def)
qed

section \<open>The guard before signing\<close>

lemma check_committed_Ok:
  "check_committed d i cs = Ok ins \<Longrightarrow>
     map committed_input ins = map (\<lambda>c. (pi_txid c, ucast (pi_vout c), pi_amount_atomic c)) cs \<and>
     (\<forall>c \<in> set cs. \<exists>u. utxo_at d (pi_txid c) (pi_vout c) = Some u \<and> reserved_for i u \<and>
        vx_amount_atomic u = pi_amount_atomic c)"
  by (induction cs arbitrary: ins)
    (auto simp: committed_input_def reserved_for_def split: option.splits if_splits)

lemma verify_Ok:
  assumes "verify_and_load_signable_payout H i at d = (Ok sp, d')"
  obtains w p change where "request_at d i = Some w" "payout_at d i = Some p"
    "wp_vault_script_hash p = Some (sp_vault_script_hash sp)" "wp_quorum_indices p = Some (sp_quorum_indices sp)"
    "wp_completed_at p = None" "\<not> 0 <s wp_confirmations p" "wp_signed_tx_hex p = None"
    "input_rows d i \<noteq> []" "check_committed d i (input_rows d i) = Ok (sp_inputs sp)"
    "change_hash160_of H i p = Ok change"
    "sp_intent_bytes sp = canonical_payout_intent (wq_protocol_version w) i (sp_vault_script_hash sp)
       (wq_hash160 w) (wp_payout_atomic p) (wp_fee_atomic p) (wp_change_atomic p) change
       (wp_quorum_attempt p) (sp_quorum_indices sp) (sp_inputs sp)"
    "payout_commitment H (wp_intent_bytes p) = wp_commitment_hash p"
    "sp_intent_bytes sp = wp_intent_bytes p" "wp_payout_atomic p = wq_amount_atomic w"
    "sp_payout_atomic sp = wp_payout_atomic p" "sp_unsigned_tx_hex sp = wp_unsigned_tx_hex p"
    "sp_hash160 sp = wq_hash160 w" "d' = d"
  using assms unfolding verify_and_load_signable_payout_def Let_def
  by (auto split: option.splits result.splits prod.splits if_splits)

text \<open>
  What the guard before signing lets through is exact.  When it returns a payout to sign, the
  database is unchanged, the payout has not been signed, confirmed or completed, it pays exactly
  the burned amount to the hash recorded with the withdrawal, every committed input is still
  tracked, reserved by this very withdrawal and of the committed amount, and the bytes to attest
  are the intent recomputed from all of this, whose hash is the stored commitment.
\<close>

theorem signable_payout_exact:
  assumes "verify_and_load_signable_payout H i at d = (Ok sp, d')"
  shows "d' = d \<and> (\<exists>w p change. request_at d i = Some w \<and> payout_at d i = Some p \<and>
    wp_signed_tx_hex p = None \<and> wp_completed_at p = None \<and> wp_confirmations p \<le>s 0 \<and>
    sp_payout_atomic sp = wq_amount_atomic w \<and> sp_hash160 sp = wq_hash160 w \<and>
    sp_unsigned_tx_hex sp = wp_unsigned_tx_hex p \<and>
    input_rows d i \<noteq> [] \<and>
    map committed_input (sp_inputs sp) =
      map (\<lambda>c. (pi_txid c, ucast (pi_vout c), pi_amount_atomic c)) (input_rows d i) \<and>
    (\<forall>c \<in> set (input_rows d i). \<exists>u. utxo_at d (pi_txid c) (pi_vout c) = Some u \<and>
       vx_state u = ''Reserved'' \<and> vx_reserved_by u = Some i \<and> vx_amount_atomic u = pi_amount_atomic c) \<and>
    sp_intent_bytes sp = canonical_payout_intent (wq_protocol_version w) i (sp_vault_script_hash sp)
      (sp_hash160 sp) (sp_payout_atomic sp) (wp_fee_atomic p) (wp_change_atomic p) change
      (wp_quorum_attempt p) (sp_quorum_indices sp) (sp_inputs sp) \<and>
    H (sp_intent_bytes sp) = wp_commitment_hash p)"
proof -
  obtain w p change where v: "request_at d i = Some w" "payout_at d i = Some p"
    "wp_completed_at p = None" "\<not> 0 <s wp_confirmations p" "wp_signed_tx_hex p = None"
    "input_rows d i \<noteq> []" "check_committed d i (input_rows d i) = Ok (sp_inputs sp)"
    "sp_intent_bytes sp = canonical_payout_intent (wq_protocol_version w) i (sp_vault_script_hash sp)
       (wq_hash160 w) (wp_payout_atomic p) (wp_fee_atomic p) (wp_change_atomic p) change
       (wp_quorum_attempt p) (sp_quorum_indices sp) (sp_inputs sp)"
    "payout_commitment H (wp_intent_bytes p) = wp_commitment_hash p"
    "sp_intent_bytes sp = wp_intent_bytes p" "wp_payout_atomic p = wq_amount_atomic w"
    "sp_payout_atomic sp = wp_payout_atomic p" "sp_unsigned_tx_hex sp = wp_unsigned_tx_hex p"
    "sp_hash160 sp = wq_hash160 w" "d' = d"
    by (rule verify_Ok [OF assms])
  have "wp_confirmations p \<le>s 0" using v(4) by (simp add: word_sless_alt word_sle_eq)
  moreover have "H (sp_intent_bytes sp) = wp_commitment_hash p"
    using v(9,10) by (simp add: payout_commitment_def)
  ultimately show ?thesis
    using v check_committed_Ok [OF v(7)] by (auto simp: reserved_for_def)
qed

definition readable_payout :: "withdrawal_db \<Rightarrow> i64 \<Rightarrow> withdrawal_payout_row \<Rightarrow> bool" where
  "readable_payout d i p \<longleftrightarrow> payout_at d i = Some p \<and> wp_vault_script_hash p \<noteq> None \<and> wp_quorum_indices p \<noteq> None"

definition halted_at :: "withdrawal_db \<Rightarrow> i64 \<Rightarrow> withdrawal_db \<Rightarrow> bool" where
  "halted_at d i d' \<longleftrightarrow> (\<exists>w l. request_at d' i = Some w \<and> wq_state w = ws_as_str WIntegrityHalted \<and>
     withdrawal_state_log d' = withdrawal_state_log d @ [l] \<and> wl_index l = i \<and> wl_to_state l = ws_as_str WIntegrityHalted \<and>
     withdrawal_payouts d' = withdrawal_payouts d \<and> withdrawal_payout_inputs d' = withdrawal_payout_inputs d \<and>
     vault_utxos d' = vault_utxos d)"

lemma halt_withdrawal_halts: "request_at d i = Some w \<Longrightarrow> halted_at d i (halt_withdrawal w at reason ex re diff d)"
  using row_at_Some [of wq_index i "withdrawal_requests d" w] by (auto simp: halted_at_def halt_withdrawal_def row_at_update)

lemma change_hash160_Err:
  "change_hash160_of H i p = Err e \<Longrightarrow> e = PayoutIntegrityMismatch i ''change_address_undecodable'' \<and>
     (\<exists>a x. wp_change_address p = Some a \<and> base58check_decode H a = Err x)"
  by (auto simp: change_hash160_of_def and_then_Err_iff split: option.splits)


end
