(* ===== verification/ExecutorLogic.thy ===== *)
theory ExecutorLogic
  imports Executor WithdrawalSafety
begin

text \<open>
  Reasoning about the withdrawal executor.  The locale \<open>executor_invariant\<close> is the contract
  between the executor and its database: a property of the states that survives the calls the
  executor makes, the environment and the report holds after every operation of the executor and
  after every tick.  Its clients are the guarantees about broadcasting and about withdrawals that
  make no progress.
\<close>

section \<open>The calls of the executor\<close>

text \<open>The bytes are the serialization of a spend that was assembled from the stored payout.\<close>

definition assembled_from ::
  "('w, 'sig, 'key) executor_env \<Rightarrow> withdrawal_db \<Rightarrow> i64 \<Rightarrow> bytes \<Rightarrow> bool" where
  "assembled_from env d i b \<longleftrightarrow>
     (\<exists>p utx partials tx. payout_at d i = Some p \<and> parse_hex (wp_unsigned_tx_hex p) = Ok utx \<and>
        assemble (en_sha256 env) (en_secp env) utx (wc_vault (en_config env)) partials = Ok tx \<and>
        b = serialize_hex tx)"

text \<open>A height that the node reports for some transaction.\<close>

definition reported_height :: "('w, 'sig, 'key) executor_env \<Rightarrow> i64 option \<Rightarrow> bool" where
  "reported_height env h \<longleftrightarrow>
     (\<exists>t w status w'. transaction_confirmations env t w = (Ok (Some status), w') \<and> ts_block_height status = h)"

text \<open>
  The database calls the executor makes when it works on the withdrawals of \<open>idx\<close>.
\<close>

fun executor_call ::
  "('w, 'sig, 'key) executor_env \<Rightarrow> (i64 \<Rightarrow> bool) \<Rightarrow> withdrawal_db \<Rightarrow> wdb_call \<Rightarrow> bool" where
  "executor_call env idx d (ObserveWithdrawal w) = True"
| "executor_call env idx d (TransitionWithdrawal i to at reason) = idx i"
| "executor_call env idx d (SyncVaultUtxos us m at) = True"
| "executor_call env idx d (MarkMissingUtxosSpent ts) = True"
| "executor_call env idx d (ReserveUtxos i us at) = idx i"
| "executor_call env idx d (ReleaseReservation i) = True"
| "executor_call env idx d (CreatePayout p) = idx (np_index p)"
| "executor_call env idx d (VerifyAndLoadSignablePayout i at) = idx i"
| "executor_call env idx d (RecordSignedPayout i b t at) = (idx i \<and> assembled_from env d i b)"
| "executor_call env idx d (RecordBroadcast i at) = idx i"
| "executor_call env idx d (RecordConfirmations i c b h) = (idx i \<and> reported_height env h)"
| "executor_call env idx d (CompletePayout i at) = idx i"
| "executor_call env idx d _ = False"

section \<open>The contract\<close>

locale executor_invariant = io_invariant I ex_db
  for I :: "'w ex_state \<Rightarrow> bool" +
  fixes env :: "('w, 'sig, 'key) executor_env"
    and idx :: "i64 \<Rightarrow> bool"
    and work :: "withdrawal_state \<Rightarrow> bool"
  assumes I_db: "I s \<Longrightarrow> executor_call env idx (ex_db s) c \<Longrightarrow>
      I (s\<lparr>ex_db := wdb_exec (en_sha256 env) c (ex_db s)\<rparr>)"
    and I_world: "I s \<Longrightarrow> I (s\<lparr>ex_world := world\<rparr>)"
    and I_report: "I s \<Longrightarrow> I (s\<lparr>ex_report := r\<rparr>)"
    and I_sent: "I s \<Longrightarrow> payout_at (ex_db s) i = Some p \<Longrightarrow> wp_signed_tx_hex p = Some b \<Longrightarrow>
      I (s\<lparr>ex_sent := ex_sent s @ [(i, b)]\<rparr>)"
    and I_visits: "I s \<Longrightarrow> withdrawals_by_state (ex_db s) st = Ok ws \<Longrightarrow> work st \<Longrightarrow>
      w \<in> set ws \<Longrightarrow> idx (wrow_index w)"
begin

lemma triple_query: "triple p (equery g) (\<lambda>x d. p d \<and> g d = Ok x)"
  by (auto simp: triple_def equery_def)

lemma triple_world: "triple p (eworld c) (\<lambda>_ d. p d)"
  by (auto simp: triple_def eworld_def I_world split: prod.splits)

lemma triple_rpc: "triple p (erpc c) (\<lambda>_ d. p d)"
  by (auto simp: triple_def erpc_def I_world split: prod.splits)

lemma triple_rpc_result: "triple p (erpc c) (\<lambda>x d. p d \<and> (\<exists>w w'. c w = (Ok x, w')))"
  by (auto simp: triple_def erpc_def I_world split: prod.splits)

lemma triple_pure: "(P \<Longrightarrow> triple p m q) \<Longrightarrow> triple (\<lambda>d. p d \<and> P) m q"
  by (auto simp: triple_def)

lemma triple_report: "triple p (ereport f) (\<lambda>_ d. p d)"
  by (auto simp: triple_def ereport_def I_report)

lemma triple_sent:
  "(\<And>d. p d \<Longrightarrow> \<exists>pr. payout_at d i = Some pr \<and> wp_signed_tx_hex pr = Some b) \<Longrightarrow>
     triple p (esent i b) (\<lambda>_ d. p d)"
  by (fastforce simp: triple_def esent_def intro: I_sent)

lemma triple_db:
  assumes "\<And>d. snd (m d) = wdb_exec (en_sha256 env) c d" "\<And>d. p d \<Longrightarrow> executor_call env idx d c"
  shows "triple p (edb m) (\<lambda>_ _. True)"
  unfolding triple_def
proof (intro allI impI)
  fix s r s'
  assume I: "I s" "p (ex_db s)" and m: "edb m s = (r, s')"
  then have "s' = s\<lparr>ex_db := wdb_exec (en_sha256 env) c (ex_db s)\<rparr>"
    using assms(1) [of "ex_db s"] by (auto simp: edb_def split: prod.splits)
  with I_db [OF I(1) assms(2) [OF I(2)]] show "I s' \<and> (\<forall>x. r = Ok x \<longrightarrow> True)" by simp
qed

lemma triple_try:
  assumes "\<And>d. snd (m d) = wdb_exec (en_sha256 env) c d" "\<And>d. p d \<Longrightarrow> executor_call env idx d c"
    "\<And>d x d'. p d \<Longrightarrow> m d = (x, d') \<Longrightarrow> q x d'"
  shows "triple p (etry m) q"
  unfolding triple_def
proof (intro allI impI)
  fix s r s'
  assume I: "I s" "p (ex_db s)" and m: "etry m s = (r, s')"
  obtain x d' where x: "m (ex_db s) = (x, d')" by (cases "m (ex_db s)")
  with m have s': "s' = s\<lparr>ex_db := d'\<rparr>" "r = Ok x" by (simp_all add: etry_def)
  moreover from x assms(1) [of "ex_db s"] have "d' = wdb_exec (en_sha256 env) c (ex_db s)" by simp
  ultimately have "I s'" using I_db [OF I(1) assms(2) [OF I(2)]] by simp
  with s' assms(3) [OF I(2) x] show "I s' \<and> (\<forall>x. r = Ok x \<longrightarrow> q x (ex_db s'))" by simp
qed

text \<open>Steps that need nothing of the database.\<close>

lemma keeps_db:
  "(\<And>d. snd (m d) = wdb_exec (en_sha256 env) c d) \<Longrightarrow> (\<And>d. executor_call env idx d c) \<Longrightarrow>
     triple p (edb m) (\<lambda>_ _. True)"
  by (rule triple_db)

lemma keeps_simple:
  "triple p (eret x) (\<lambda>_ _. True)" "triple p (elift r) (\<lambda>_ _. True)" "triple p (equery g) (\<lambda>_ _. True)"
  "triple p (eworld c) (\<lambda>_ _. True)" "triple p (erpc c') (\<lambda>_ _. True)" "triple p (ereport f) (\<lambda>_ _. True)"
  by (auto intro: triple_ret triple_weaken [OF triple_lift] triple_weaken [OF triple_query]
      triple_weaken [OF triple_world] triple_weaken [OF triple_rpc] triple_weaken [OF triple_report])

lemma keeps_transition: "idx i \<Longrightarrow> triple p (transition env i to reason) (\<lambda>_ _. True)"
  unfolding transition_def
  by (intro keeps_bind keeps_simple keeps_db [where c = "TransitionWithdrawal i to _ reason"]) auto

lemma keeps_calls:
  "triple p (edb (observe_withdrawal w)) (\<lambda>_ _. True)"
  "triple p (edb (sync_vault_utxos us m at)) (\<lambda>_ _. True)"
  "triple p (edb (mark_missing_utxos_spent ts)) (\<lambda>_ _. True)"
  "triple p (edb (release_reservation i)) (\<lambda>_ _. True)"
  by (rule keeps_db [where c = "ObserveWithdrawal w"] keeps_db [where c = "SyncVaultUtxos us m at"]
      keeps_db [where c = "MarkMissingUtxosSpent ts"] keeps_db [where c = "ReleaseReservation i"]; simp)+

lemma keeps_indexed_calls:
  assumes "idx i"
  shows "triple p (etry (reserve_utxos i us at)) (\<lambda>_ _. True)"
    and "np_index np = i \<Longrightarrow> triple p (edb (create_payout np)) (\<lambda>_ _. True)"
    and "triple p (edb (record_broadcast i at)) (\<lambda>_ _. True)"
    and "reported_height env h \<Longrightarrow> triple p (edb (record_confirmations i n b h)) (\<lambda>_ _. True)"
    and "triple p (edb (complete_payout i at)) (\<lambda>_ _. True)"
proof -
  show "triple p (etry (reserve_utxos i us at)) (\<lambda>_ _. True)"
    by (rule triple_try [where c = "ReserveUtxos i us at"]) (simp_all add: assms)
  show "np_index np = i \<Longrightarrow> triple p (edb (create_payout np)) (\<lambda>_ _. True)"
    by (rule keeps_db [where c = "CreatePayout np"]) (simp_all add: assms)
  show "triple p (edb (record_broadcast i at)) (\<lambda>_ _. True)"
    by (rule keeps_db [where c = "RecordBroadcast i at"]) (simp_all add: assms)
  show "reported_height env h \<Longrightarrow> triple p (edb (record_confirmations i n b h)) (\<lambda>_ _. True)"
    by (rule keeps_db [where c = "RecordConfirmations i n b h"]) (simp_all add: assms)
  show "triple p (edb (complete_payout i at)) (\<lambda>_ _. True)"
    by (rule keeps_db [where c = "CompletePayout i at"]) (simp_all add: assms)
qed

lemma keeps_selection:
  "triple p m q \<Longrightarrow> triple p (case e of Insufficient _ _ \<Rightarrow> m | TooManyInputs _ _ \<Rightarrow> m) q"
  by (cases e) simp_all

lemmas keeps_intros = keeps_let keeps_bind keeps_if keeps_option keeps_result keeps_selection keeps_simple keeps_calls

section \<open>Every operation keeps the invariant\<close>

lemma keeps_require: "keeps (require_withdrawal i)"
  unfolding require_withdrawal_def by (intro keeps_intros)

lemma keeps_ingest: "keeps (ingest_discovered ws)"
proof (induction ws)
  case (Cons w ws)
  then show ?case by simp (intro keeps_intros)
qed (simp add: keeps_simple)

lemma keeps_sync: "keeps (sync_vault env)"
  unfolding sync_vault_def by (intro keeps_intros)

lemma keeps_reclaim_one: "keeps (reclaim_one cutoff w)"
  unfolding reclaim_one_def by (intro keeps_intros)

lemma keeps_reclaim: "keeps (reclaim_abandoned_reservations env)"
  unfolding reclaim_abandoned_reservations_def
  by (intro keeps_intros keeps_for keeps_reclaim_one)

lemma keeps_validate: "idx i \<Longrightarrow> keeps (validate_withdrawal env i)"
  unfolding validate_withdrawal_def
  by (intro keeps_intros keeps_require keeps_transition)

lemma keeps_build_payout: "idx i \<Longrightarrow> keeps (build_payout env i w sel)"
  unfolding build_payout_def
  by (intro keeps_intros keeps_transition keeps_indexed_calls) simp_all

lemma keeps_build: "idx i \<Longrightarrow> keeps (build env i)"
  unfolding build_def
  by (intro keeps_intros keeps_require keeps_transition keeps_indexed_calls keeps_build_payout)

lemma keeps_may_build: "keeps (executor_may_build env i since)"
  unfolding executor_may_build_def by (intro keeps_intros)

lemma keeps_halt: "idx i \<Longrightarrow> triple p (halt_payout env i reason) (\<lambda>_ _. True)"
  unfolding halt_payout_def by (intro keeps_intros keeps_transition)

text \<open>
  Between the guard and the recording of the signature only the environment acts, so the
  payout that was verified is the one whose signature is recorded.
\<close>

lemmas carry = triple_bind [OF triple_world] triple_bind [OF triple_rpc] triple_bind [OF triple_lift]

lemma keeps_record_assembled:
  assumes "idx i"
  shows "triple (\<lambda>d. assembled_from env d i (serialize_hex tx)) (record_assembled env i sp tx) (\<lambda>_ _. True)"
  unfolding record_assembled_def Let_def
  by (intro carry keeps_if keeps_result keeps_halt [OF assms] keeps_simple
      keeps_bind [OF triple_db [where c = "RecordSignedPayout i (serialize_hex tx) _ _"]])
    (simp_all add: assms)

lemma verify_keeps_payout:
  assumes "verify_and_load_signable_payout H i at d = (Ok sp, d')"
  shows "\<exists>p. payout_at d' i = Some p \<and> wp_unsigned_tx_hex p = sp_unsigned_tx_hex sp"
  by (rule verify_Ok [OF assms]) simp

lemma keeps_sign:
  assumes "idx i"
  shows "keeps (sign env i)"
proof -
  define loaded :: "(signable_payout, db_error) result \<Rightarrow> withdrawal_db \<Rightarrow> bool"
    where "loaded = (\<lambda>r d. \<forall>sp. r = Ok sp \<longrightarrow>
    (\<exists>p. payout_at d i = Some p \<and> wp_unsigned_tx_hex p = sp_unsigned_tx_hex sp))"
  have guard: "triple p (etry (verify_and_load_signable_payout (en_sha256 env) i now)) loaded" for p now
    by (rule triple_try [where c = "VerifyAndLoadSignablePayout i now"])
      (auto simp: assms loaded_def dest: verify_keeps_payout)
  have asm: "triple (\<lambda>d. loaded (Ok sp) d \<and> parse_hex (sp_unsigned_tx_hex sp) = Ok utx)
      (record_assembled env i sp tx) (\<lambda>_ _. True)"
    if "assemble (en_sha256 env) (en_secp env) utx (wc_vault (en_config env)) partials = Ok tx"
    for sp utx tx partials
    using that by (intro triple_weaken [OF keeps_record_assembled [OF assms]])
      (fastforce simp: loaded_def assembled_from_def)+
  show ?thesis
    unfolding sign_def
    by (intro triple_bind [OF triple_world] triple_bind [OF guard])
      (auto split: result.split intro!: keeps_simple carry keeps_halt [OF assms] asm)
qed

lemma keeps_orphan: "idx i \<Longrightarrow> keeps (orphan env i reason)"
  unfolding orphan_def by (intro keeps_intros keeps_transition)

lemma keeps_settle:
  "idx i \<Longrightarrow> reported_height env (ts_block_height status) \<Longrightarrow> keeps (settle_confirmations env i status)"
  unfolding settle_confirmations_def
  by (intro keeps_intros keeps_require keeps_transition keeps_indexed_calls)

lemma keeps_reconcile:
  assumes "idx i"
  shows "keeps (reconcile_broadcast env i)"
proof -
  have status: "triple (\<lambda>d. True \<and> (\<exists>w w'. transaction_confirmations env t w = (Ok status, w')))
      (case status of None \<Rightarrow> orphan env i ''payout transaction unknown to the node''
       | Some status \<Rightarrow> (case ts_block_hash_hex status of
           None \<Rightarrow> settle_confirmations env i status
         | Some bh \<Rightarrow> ebind (erpc (block_on_main_chain env bh)) (\<lambda>on_main.
             if \<not> on_main then orphan env i ''payout block orphaned by a reorg''
             else settle_confirmations env i status))) (\<lambda>_ _. True)" for t status
    by (intro triple_pure keeps_intros keeps_orphan keeps_settle assms) (auto simp: reported_height_def)
  show ?thesis
    unfolding reconcile_broadcast_def
    by (intro keeps_bind keeps_simple keeps_option triple_bind [OF triple_rpc_result] status)
qed

lemma keeps_safe: "triple p (safe_to_broadcast env i) (\<lambda>_ d. p d)"
  unfolding safe_to_broadcast_def
  by (auto split: option.split intro!: triple_ret triple_bind [OF triple_world])

lemma keeps_rebroadcast:
  assumes "idx i"
  shows "keeps (rebroadcast env i)"
proof -
  have sent: "triple (\<lambda>d. True \<and> (Ok (get_payout d i) :: (payout_row option, db_error) result) = Ok p) (esent i b)
      (\<lambda>_ d. True \<and> (Ok (get_payout d i) :: (payout_row option, db_error) result) = Ok p)"
    if "(case p of None \<Rightarrow> None | Some p \<Rightarrow> prow_signed_tx_hex p) = Some b" for p b
    by (rule triple_sent) (use that in \<open>auto simp: get_payout_def row_to_payout_def split: option.splits\<close>)
  show ?thesis
    unfolding rebroadcast_def
    by (intro triple_bind [OF triple_query] keeps_option keeps_simple triple_bind [OF keeps_safe]
        keeps_if triple_bind [OF sent] triple_bind [OF triple_rpc] keeps_bind
        keeps_transition [OF assms] keeps_indexed_calls [OF assms]
        triple_weaken [OF keeps_reconcile [OF assms]]) simp_all
qed

lemma keeps_for_state:
  assumes "work st" "\<And>i. idx i \<Longrightarrow> keeps (f i)"
  shows "keeps (for_state st f)"
  unfolding for_state_def triple_def
proof (intro allI impI)
  fix s :: "'w ex_state" and r s'
  assume I: "I s" and run: "ebind (equery (\<lambda>d. withdrawals_by_state d st)) (\<lambda>ws. efor (map wrow_index ws) f) s = (r, s')"
  show "I s' \<and> (\<forall>x. r = Ok x \<longrightarrow> True)"
  proof (cases "withdrawals_by_state (ex_db s) st")
    case (Ok ws)
    with run have "efor (map wrow_index ws) f s = (r, s')" by (simp add: ebind_def equery_def)
    moreover have "keeps (efor (map wrow_index ws) f)"
      using I_visits [OF I Ok assms(1)] assms(2) by (intro keeps_for) auto
    ultimately show ?thesis using I unfolding triple_def by blast
  next
    case (Err e)
    with run I show ?thesis by (auto simp: ebind_def equery_def)
  qed
qed

lemma keeps_build_if_eligible: "idx i \<Longrightarrow> keeps (build_if_eligible env i)"
  unfolding build_if_eligible_def by (intro keeps_intros keeps_may_build keeps_build)

lemma keeps_first_broadcast: "idx i \<Longrightarrow> keeps (first_broadcast env i)"
  unfolding first_broadcast_def by (intro keeps_intros keeps_rebroadcast)

text \<open>
  A tick visits every state but \<open>Building\<close>.
\<close>

lemma keeps_tick:
  assumes "\<And>st. st \<notin> {WBuilding, WValidated} \<Longrightarrow> work st"
    and validated: "keeps (for_state WValidated (build_if_eligible env))"
  shows "keeps (tick env)"
proof -
  have report: "keeps (\<lambda>s. (Ok (ex_report s), s))" by (simp add: triple_def)
  have "keeps (for_state WAwaitingFunds (build_if_eligible env))"
    by (intro keeps_for_state keeps_build_if_eligible assms(1)) auto
  with validated have loop: "keeps (efor [WAwaitingFunds, WValidated] (\<lambda>st. for_state st (build_if_eligible env)))"
    by (intro keeps_for) auto
  show ?thesis
    unfolding tick_def
    by (intro keeps_bind keeps_simple report loop keeps_sync keeps_reclaim keeps_for_state assms(1)
        keeps_reconcile keeps_rebroadcast keeps_validate keeps_sign keeps_first_broadcast) simp_all
qed

lemma tick_keeps:
  assumes "\<And>st. st \<noteq> WBuilding \<Longrightarrow> work st" "I s"
  shows "I (snd (tick env s))"
proof -
  have "keeps (tick env)"
    by (intro keeps_tick keeps_for_state keeps_build_if_eligible assms(1)) auto
  then show ?thesis using assms(2) by (rule keeps_run)
qed

lemma ingest_keeps: "I s \<Longrightarrow> I (snd (ingest_discovered ws s))"
  by (rule keeps_run [OF keeps_ingest])

end

end
