(* ===== verification/Multisig.thy ===== *)
theory Multisig
  imports Transactions "HOL-Library.Multiset"
begin

text \<open>
  What the transaction parser and the multisig assembly guarantee: reading a serialized
  transaction gives it back, reading a script gives back its pushes, and an assembled
  transaction is the unsigned one with, in every input, exactly the threshold number of
  verified signatures in the order of the redeem script's keys.
\<close>

section \<open>Readers\<close>

text \<open>The length of a slice fits a \<open>usize\<close>.\<close>

definition fits_usize :: "bytes \<Rightarrow> bool" where
  "fits_usize bs \<longleftrightarrow> length bs < 2 ^ 64"

text \<open>
  The contract between an encoder and its reader: the reader gives back what was written,
  wherever it stands, and what it returns can be written.
\<close>

locale reader =
  fixes put :: "'a \<Rightarrow> bytes"
    and get :: "'a reader"
    and ok :: "'a \<Rightarrow> bool"
  assumes get_put: "ok x \<Longrightarrow> get (pre @ put x @ post) (length pre) = Ok (x, length pre + length (put x))"
    and get_ok: "get data pos = Ok (x, pos') \<Longrightarrow> fits_usize data \<Longrightarrow> ok x"
begin

lemma get_here: "ok x \<Longrightarrow> data = pre @ put x @ post \<Longrightarrow> pos = length pre \<Longrightarrow>
    get data pos = Ok (x, pos + length (put x))"
  by (simp add: get_put)

lemma read_n_put:
  "\<forall>x \<in> set xs. ok x \<Longrightarrow> read_n (length xs) get (pre @ concat (map put xs) @ post) (length pre) =
     Ok (xs, length pre + length (concat (map put xs)))"
proof (induction xs arbitrary: pre)
  case (Cons x xs)
  have "get (pre @ put x @ concat (map put xs) @ post) (length pre) = Ok (x, length pre + length (put x))"
    using Cons.prems by (simp add: get_put)
  with Cons.prems Cons.IH [of "pre @ put x"] show ?case by simp
qed simp

lemma read_n_ok:
  "read_n n get data pos = Ok (xs, pos') \<Longrightarrow> fits_usize data \<Longrightarrow>
     length xs = n \<and> (\<forall>x \<in> set xs. ok x)"
  by (induction n arbitrary: pos xs) (auto dest: get_ok)

end

lemma cur_take_here: "n = length bs \<Longrightarrow> cur_take n (pre @ bs @ post) (length pre) = Ok (bs, length pre + length bs)"
  by (simp add: cur_take_def)

lemma cur_take_Ok:
  "cur_take n data pos = Ok (bs, pos') \<longleftrightarrow>
     pos + n \<le> length data \<and> bs = take n (drop pos data) \<and> pos' = pos + n"
  by (auto simp: cur_take_def)

interpretation u16r: reader "le_bytes :: u16 \<Rightarrow> bytes" u16_le "\<lambda>_. True"
  by unfold_locales (simp_all add: u16_le_def cur_take_here from_le_le_bytes)

interpretation u32r: reader "le_bytes :: u32 \<Rightarrow> bytes" u32_le "\<lambda>_. True"
  by unfold_locales (simp_all add: u32_le_def cur_take_here from_le_le_bytes)

interpretation u64r: reader "le_bytes :: u64 \<Rightarrow> bytes" u64_le "\<lambda>_. True"
  by unfold_locales (simp_all add: u64_le_def cur_take_here from_le_le_bytes)

interpretation hashr: reader "le_bytes :: bytes32 \<Rightarrow> bytes" hash_le "\<lambda>_. True"
  by unfold_locales (simp_all add: hash_le_def cur_take_here from_le_le_bytes)

lemma unat_ucast: "unat (ucast (n :: 'a::len word) :: 'b::len word) = unat n mod 2 ^ LENGTH('b)"
  by transfer (simp add: take_bit_eq_mod nat_mod_distrib nat_power_eq)

lemma ucast_ucast_small:
  assumes "unat (n :: 'a::len word) < 2 ^ LENGTH('b::len)"
  shows "ucast (ucast n :: 'b word) = n"
  using assms by (simp add: word_unat_eq_iff unat_ucast)

lemma varint_put: "varint (pre @ put_varint n @ post) (length pre) = Ok (n, length pre + length (put_varint n))"
proof -
  have first: "cur_take 1 (pre @ (b # bs) @ post) (length pre) = Ok ([b], length pre + 1)" for b bs
    by (simp add: cur_take_def)
  consider "n \<le> 0xfc" | "\<not> n \<le> 0xfc" "n \<le> 0xffff" | "\<not> n \<le> 0xffff" "n \<le> 0xffffffff"
    | "\<not> n \<le> 0xffffffff" by blast
  then show ?thesis
  proof cases
    case 1
    then have "unat n \<le> 0xfc" by (simp add: word_le_nat_alt)
    then have "unat (ucast n :: u8) \<le> 0xfc" "ucast (ucast n :: u8) = n"
      by (simp_all add: unat_ucast ucast_ucast_small)
    then have "(ucast n :: u8) \<noteq> 0xfd" "(ucast n :: u8) \<noteq> 0xfe" "(ucast n :: u8) \<noteq> 0xff"
      by (auto simp: word_unat_eq_iff)
    with 1 \<open>ucast (ucast n :: u8) = n\<close> show ?thesis
      using first [of "ucast n" "[]"] by (simp add: varint_def put_varint_def)
  next
    case 2
    then have "unat n < 2 ^ LENGTH(16)" by (simp add: word_le_nat_alt)
    with 2 show ?thesis
      using first [of "0xfd" "le_bytes (ucast n :: u16)"]
        u16r.get_here [OF TrueI, of _ "pre @ [0xfd]" "ucast n" post]
      by (simp add: varint_def put_varint_def ucast_ucast_small)
  next
    case 3
    then have "unat n < 2 ^ LENGTH(32)" "\<not> n \<le> 0xfc" by (simp_all add: word_le_nat_alt)
    with 3 show ?thesis
      using first [of "0xfe" "le_bytes (ucast n :: u32)"]
        u32r.get_here [OF TrueI, of _ "pre @ [0xfe]" "ucast n" post]
      by (simp add: varint_def put_varint_def ucast_ucast_small)
  next
    case 4
    then have "\<not> n \<le> 0xffff" "\<not> n \<le> 0xfc" by (simp_all add: word_le_nat_alt)
    with 4 show ?thesis
      using first [of "0xff" "le_bytes n"] u64r.get_here [OF TrueI, of _ "pre @ [0xff]" n post]
      by (simp add: varint_def put_varint_def)
  qed
qed

interpretation varr: reader put_varint varint "\<lambda>_. True"
  by unfold_locales (simp_all add: varint_put)

interpretation scriptr: reader put_script read_script fits_usize
proof unfold_locales
  fix s pre post :: bytes
  assume "fits_usize s"
  then have "unat (word_of_nat (length s) :: u64) = length s" by (simp add: fits_usize_def unat_of_nat)
  then show "read_script (pre @ put_script s @ post) (length pre) = Ok (s, length pre + length (put_script s))"
    using varint_put [of pre "word_of_nat (length s)" "s @ post"]
      cur_take_here [of "length s" s "pre @ put_varint (word_of_nat (length s))" post]
    by (simp add: read_script_def put_script_def)
qed (auto simp: read_script_def cur_take_Ok fits_usize_def)

interpretation inputr: reader put_input read_input "\<lambda>i. fits_usize (ti_script_sig i)"
proof unfold_locales
  fix i :: tx_input and pre post :: bytes
  assume ok: "fits_usize (ti_script_sig i)"
  define data where "data = pre @ put_input i @ post"
  let ?a = "le_bytes (ti_prev_txid i)" and ?b = "le_bytes (ti_prev_vout i)"
  let ?c = "put_script (ti_script_sig i)"
  have "hash_le data (length pre) = Ok (ti_prev_txid i, length pre + length ?a)"
    by (rule hashr.get_here [where pre = pre]) (simp_all add: data_def put_input_def)
  moreover have "u32_le data (length pre + length ?a) = Ok (ti_prev_vout i, length pre + length ?a + length ?b)"
    by (rule u32r.get_here [where pre = "pre @ ?a"]) (simp_all add: data_def put_input_def)
  moreover have "read_script data (length pre + length ?a + length ?b) =
      Ok (ti_script_sig i, length pre + length ?a + length ?b + length ?c)"
    by (rule scriptr.get_here [where pre = "pre @ ?a @ ?b", OF ok]) (simp_all add: data_def put_input_def)
  moreover have "u32_le data (length pre + length ?a + length ?b + length ?c) =
      Ok (ti_sequence i, length pre + length ?a + length ?b + length ?c + length (le_bytes (ti_sequence i)))"
    by (rule u32r.get_here [where pre = "pre @ ?a @ ?b @ ?c"]) (simp_all add: data_def put_input_def)
  ultimately have "read_input data (length pre) = Ok (i, length pre + length (put_input i))"
    by (simp add: read_input_def put_input_def)
  then show "read_input (pre @ put_input i @ post) (length pre) = Ok (i, length pre + length (put_input i))"
    by (simp add: data_def)
qed (auto simp: read_input_def dest!: scriptr.get_ok)

interpretation outputr: reader put_output read_output "\<lambda>out. fits_usize (to_script_pubkey out)"
proof unfold_locales
  fix out :: tx_output and pre post :: bytes
  assume ok: "fits_usize (to_script_pubkey out)"
  show "read_output (pre @ put_output out @ post) (length pre) = Ok (out, length pre + length (put_output out))"
    using u64r.get_here [OF TrueI, of _ pre "to_value out" "put_script (to_script_pubkey out) @ post"]
      scriptr.get_put [OF ok, of "pre @ le_bytes (to_value out)" post]
    by (simp add: read_output_def put_output_def)
qed (auto simp: read_output_def dest!: scriptr.get_ok)

section \<open>Transactions\<close>

definition wf_transaction :: "transaction \<Rightarrow> bool" where
  "wf_transaction t \<longleftrightarrow> tx_inputs t \<noteq> [] \<and> length (tx_inputs t) \<le> 10000 \<and> length (tx_outputs t) \<le> 10000 \<and>
     (\<forall>i \<in> set (tx_inputs t). fits_usize (ti_script_sig i)) \<and>
     (\<forall>out \<in> set (tx_outputs t). fits_usize (to_script_pubkey out))"

lemma small_count: "n \<le> 10000 \<Longrightarrow> unat (word_of_nat n :: u64) = n"
  by (simp add: unat_of_nat)

lemma parse_serialize:
  assumes wf: "wf_transaction t"
  shows "parse (serialize t @ rest) = Ok t"
proof -
  define data where "data = serialize t @ rest"
  let ?v = "le_bytes (tx_version t)" and ?ins = "concat (map put_input (tx_inputs t))"
  let ?ni = "put_varint (word_of_nat (length (tx_inputs t)))"
  let ?no = "put_varint (word_of_nat (length (tx_outputs t)))"
  let ?outs = "concat (map put_output (tx_outputs t))"
  have "u32_le data 0 = Ok (tx_version t, 0 + length ?v)"
    by (rule u32r.get_here [where pre = "[]"]) (simp_all add: data_def serialize_def)
  moreover have "varint data (length ?v) = Ok (word_of_nat (length (tx_inputs t)), length ?v + length ?ni)"
    by (rule varr.get_here [where pre = ?v]) (simp_all add: data_def serialize_def)
  moreover have "read_n (length (tx_inputs t)) read_input data (length ?v + length ?ni) =
      Ok (tx_inputs t, length ?v + length ?ni + length ?ins)"
    using inputr.read_n_put [of "tx_inputs t" "?v @ ?ni"] wf
    by (simp add: data_def serialize_def wf_transaction_def)
  moreover have "varint data (length ?v + length ?ni + length ?ins) =
      Ok (word_of_nat (length (tx_outputs t)), length ?v + length ?ni + length ?ins + length ?no)"
    by (rule varr.get_here [where pre = "?v @ ?ni @ ?ins"]) (simp_all add: data_def serialize_def)
  moreover have "read_n (length (tx_outputs t)) read_output data
      (length ?v + length ?ni + length ?ins + length ?no) =
      Ok (tx_outputs t, length ?v + length ?ni + length ?ins + length ?no + length ?outs)"
    using outputr.read_n_put [of "tx_outputs t" "?v @ ?ni @ ?ins @ ?no"] wf
    by (simp add: data_def serialize_def wf_transaction_def add.assoc)
  moreover have "\<exists>p. u32_le data (length ?v + length ?ni + length ?ins + length ?no + length ?outs) =
      Ok (tx_lock_time t, p)"
    by (intro exI, rule u32r.get_here [where pre = "?v @ ?ni @ ?ins @ ?no @ ?outs" and post = rest])
      (simp_all add: data_def serialize_def)
  moreover have "unat (word_of_nat (length (tx_inputs t)) :: u64) = length (tx_inputs t)"
    "unat (word_of_nat (length (tx_outputs t)) :: u64) = length (tx_outputs t)"
    using wf by (simp_all add: wf_transaction_def small_count)
  ultimately have "parse data = Ok t"
    using wf by (auto simp: parse_def wf_transaction_def word_less_nat_alt word_unat_eq_iff)
  then show ?thesis by (simp add: data_def)
qed

lemma parse_wf:
  assumes "parse raw = Ok t" "fits_usize raw"
  shows "wf_transaction t"
  using assms
  by (auto simp: parse_def wf_transaction_def word_less_nat_alt word_unat_eq_iff
      dest!: inputr.read_n_ok outputr.read_n_ok)

section \<open>Scripts\<close>

lemma pushes_step:
  assumes "push_length script i = Ok (n, j)" "i < length script" "j + n \<le> length script"
  shows "pushes_from script i =
    and_then (pushes_from script (j + n)) (\<lambda>items. Ok (take n (drop j script) # items))"
  using assms by (subst pushes_from.simps) simp

lemma pushes_push:
  assumes "length d < 65536"
  shows "pushes_from (pre @ push_data d @ post) (length pre) =
    and_then (pushes_from (pre @ push_data d @ post) (length pre + length (push_data d)))
      (\<lambda>items. Ok (d # items))"
proof -
  consider "length d < 0x4c" | "0x4c \<le> length d" "length d \<le> 0xff" | "0xff < length d" by linarith
  then show ?thesis
  proof cases
    case 1
    define op :: u8 where "op = word_of_nat (length d)"
    from 1 have op: "unat op = length d" by (simp add: op_def unat_of_nat)
    from op 1 have "op = 0 \<longleftrightarrow> d = []" "1 \<le> op \<and> op \<le> 0x4b \<longleftrightarrow> d \<noteq> []"
      by (auto simp: word_le_nat_alt word_unat_eq_iff simp flip: length_greater_0_conv)
    with op have "push_length (pre @ [op] @ d @ post) (length pre) = Ok (length d, Suc (length pre))"
      by (auto simp: push_length_def nth_append)
    from pushes_step [OF this] 1 show ?thesis
      by (simp add: push_data_def op_def)
  next
    case 2
    define op :: u8 where "op = word_of_nat (length d)"
    from 2 have op: "unat op = length d" by (simp add: op_def unat_of_nat)
    then have "push_length (pre @ [0x4c, op] @ d @ post) (length pre) = Ok (length d, length pre + 2)"
      by (simp add: push_length_def nth_append get_at_def)
    from pushes_step [OF this] 2 show ?thesis
      by (simp add: push_data_def op_def)
  next
    case 3
    define op :: u16 where "op = word_of_nat (length d)"
    from assms have op: "unat op = length d" by (simp add: op_def unat_of_nat)
    have "slice_get (pre @ [0x4d] @ le_bytes op @ d @ post) (Suc (length pre)) (Suc (length pre) + 2) =
        Some (le_bytes op)"
      using slice_get_append [of "pre @ [0x4d]" _ _ "le_bytes op" "d @ post"] by simp
    then have "push_length (pre @ [0x4d] @ le_bytes op @ d @ post) (length pre) = Ok (length d, Suc (length pre) + 2)"
      by (simp add: push_length_def nth_append op from_le_le_bytes)
    from pushes_step [OF this] 3 show ?thesis
      by (simp add: push_data_def op_def)
  qed
qed

lemma parse_pushes:
  "\<forall>d \<in> set ds. length d < 65536 \<Longrightarrow> pushes_from (pre @ concat (map push_data ds)) (length pre) = Ok ds"
proof (induction ds arbitrary: pre)
  case Nil
  show ?case by (subst pushes_from.simps) simp
next
  case (Cons d ds)
  then show ?case
    using pushes_push [of d pre "concat (map push_data ds)"] Cons.IH [of "pre @ push_data d"] by simp
qed

lemma push_data_Nil: "push_data [] = [OP_0]"
  by (simp add: push_data_def OP_0_def)

section \<open>Assembly\<close>

definition pos_of :: "bytes33 list \<Rightarrow> partial_signature \<Rightarrow> nat" where
  "pos_of keys p = the (position (\<lambda>k. k = ps_vault_pubkey p) keys)"

lemma pos_of_key:
  "ps_vault_pubkey p \<in> set keys \<Longrightarrow> pos_of keys p < length keys \<and> keys ! pos_of keys p = ps_vault_pubkey p"
  using position_eq_mem [of "ps_vault_pubkey p" keys] position_Some_nth
  by (fastforce simp: pos_of_def)

lemma find_placed: "find (\<lambda>(i, _). i = pos) placed = None \<longleftrightarrow> pos \<notin> fst ` set placed"
  by (auto simp: find_None_iff image_iff)

lemma place_Ok:
  "distinct (map fst acc) \<Longrightarrow> place keys acc ps = Ok placed \<longleftrightarrow>
     (\<forall>p \<in> set ps. ps_vault_pubkey p \<in> set keys) \<and> distinct (map fst acc @ map (pos_of keys) ps) \<and>
     placed = acc @ map (\<lambda>p. (pos_of keys p, p)) ps"
proof (induction ps arbitrary: acc)
  case (Cons p ps)
  show ?case
  proof (cases "ps_vault_pubkey p \<in> set keys")
    case True
    then obtain pos where pos: "position (\<lambda>k. k = ps_vault_pubkey p) keys = Some pos"
      using position_eq_mem by metis
    then have pos_of: "pos_of keys p = pos" by (simp add: pos_of_def)
    show ?thesis
    proof (cases "pos \<in> fst ` set acc")
      case False
      with Cons True show ?thesis
        by (auto simp: pos pos_of find_placed [THEN iffD2])
    next
      case rep: True
      then obtain q where "find (\<lambda>(i, _). i = pos) acc = Some q"
        using find_placed [of pos acc] by (cases "find (\<lambda>(i, _). i = pos) acc") auto
      with rep show ?thesis by (auto simp: pos pos_of split: prod.splits)
    qed
  next
    case False
    then have "position (\<lambda>k. k = ps_vault_pubkey p) keys = None"
      by (auto simp: position_None_iff)
    with False show ?thesis by simp
  qed
qed auto

abbreviation placed_pushes :: "nat \<Rightarrow> (nat \<times> partial_signature) list \<Rightarrow> bytes list" where
  "placed_pushes i placed \<equiv> map (\<lambda>q. ps_signatures (snd q) ! i) placed"

abbreviation placed_verify ::
  "('sig, 'key) secp256k1 \<Rightarrow> nat \<Rightarrow> bytes32 \<Rightarrow> (nat \<times> partial_signature) list \<Rightarrow> bool" where
  "placed_verify secp i sighash placed \<equiv> \<forall>q \<in> set placed.
     verify_partial secp i (ps_vault_pubkey (snd q)) (ps_signatures (snd q) ! i) sighash = Ok ()"

lemma push_signatures_Ok:
  "push_signatures secp i sighash script placed = Ok s \<longleftrightarrow>
     placed_verify secp i sighash placed \<and> s = script @ concat (map push_data (placed_pushes i placed))"
proof (induction placed arbitrary: script)
  case (Cons q placed)
  then show ?case by (cases q) (simp add: Let_def)
qed auto

text \<open>The script of an assembled input.\<close>

definition spend_script :: "multisig_vault \<Rightarrow> nat \<Rightarrow> (nat \<times> partial_signature) list \<Rightarrow> bytes" where
  "spend_script vault i placed =
     concat (map push_data ([] # placed_pushes i placed @ [mv_redeem_script vault]))"

lemma sign_inputs_Ok:
  "sign_inputs sha256 secp utx vault placed i inps = Ok res \<longleftrightarrow>
     (inps \<noteq> [] \<longrightarrow> length placed = mv_threshold vault) \<and>
     (\<forall>j \<in> {i..<i + length inps}.
        placed_verify secp j (sighash_all sha256 utx j (mv_redeem_script vault)) placed) \<and>
     res = map2 (\<lambda>j inp. inp\<lparr>ti_script_sig := spend_script vault j placed\<rparr>) [i..<i + length inps] inps"
proof (induction inps arbitrary: i res)
  case (Cons inp inps)
  have upt: "[i..<i + length (inp # inps)] = i # [Suc i..<Suc i + length inps]"
    by (subst upt_rec) simp
  have set: "{i..<i + length (inp # inps)} = insert i {Suc i..<Suc i + length inps}" by auto
  show ?case
    unfolding upt set
    by (auto simp: Cons.IH push_signatures_Ok spend_script_def push_data_Nil)
qed auto

lemma check_counts_Ok: "check_counts n ps = Ok u \<longleftrightarrow> (\<forall>p \<in> set ps. length (ps_signatures p) = n)"
  by (induction ps) auto

lemma assemble_Ok:
  "assemble sha256 secp utx vault partials = Ok tx \<longleftrightarrow>
     (let n = length (tx_inputs utx); keys = mv_signer_pubkeys vault;
          placed = sort_key fst (map (\<lambda>p. (pos_of keys p, p)) partials) in
      tx_inputs utx \<noteq> [] \<and> (\<forall>p \<in> set partials. length (ps_signatures p) = n) \<and>
      (\<forall>p \<in> set partials. ps_vault_pubkey p \<in> set keys) \<and> distinct (map (pos_of keys) partials) \<and>
      length partials = mv_threshold vault \<and>
      (\<forall>j < n. placed_verify secp j (sighash_all sha256 utx j (mv_redeem_script vault)) placed) \<and>
      tx = utx\<lparr>tx_inputs := map2 (\<lambda>j inp. inp\<lparr>ti_script_sig := spend_script vault j placed\<rparr>)
        [0..<n] (tx_inputs utx)\<rparr>)"
  by (auto simp: assemble_def check_counts_Ok place_Ok sign_inputs_Ok Let_def o_def)

section \<open>What a signature covers\<close>

text \<open>Two input lists that spend the same outputs: only the scripts may differ.\<close>

abbreviation same_outpoints :: "tx_input list \<Rightarrow> tx_input list \<Rightarrow> bool" where
  "same_outpoints ins ins' \<equiv>
     map (\<lambda>i. i\<lparr>ti_script_sig := []\<rparr>) ins = map (\<lambda>i. i\<lparr>ti_script_sig := []\<rparr>) ins'"

lemma set_scripts_cong:
  "same_outpoints ins ins' \<Longrightarrow> set_scripts k redeem i ins = set_scripts k redeem i ins'"
proof (induction ins arbitrary: ins' i)
  case (Cons a ins)
  then obtain b bs where bs: "ins' = b # bs" "a\<lparr>ti_script_sig := []\<rparr> = b\<lparr>ti_script_sig := []\<rparr>"
    "same_outpoints ins bs" by (cases ins') auto
  from bs(2) have "a\<lparr>ti_script_sig := x\<rparr> = b\<lparr>ti_script_sig := x\<rparr>" for x
    by (cases a, cases b) simp
  with bs Cons.IH show ?case by simp
qed simp

lemma sighash_all_cong:
  "same_outpoints (tx_inputs utx) ins \<Longrightarrow>
     sighash_all sha256 (utx\<lparr>tx_inputs := ins\<rparr>) i redeem = sighash_all sha256 utx i redeem"
  using set_scripts_cong [of "tx_inputs utx" ins i redeem 0] by (simp add: sighash_all_def)

lemma same_outpoints_map2:
  "same_outpoints (map2 (\<lambda>j inp. inp\<lparr>ti_script_sig := f j\<rparr>) [n..<n + length ins] ins) ins"
proof (induction ins arbitrary: n)
  case (Cons i ins)
  have "[n..<n + length (i # ins)] = n # [Suc n..<Suc n + length ins]" by (subst upt_rec) simp
  with Cons [of "Suc n"] show ?case by simp
qed simp

lemma verify_partial_length: "verify_partial secp i pk sig h = Ok u \<Longrightarrow> length sig < 65536"
  by (auto simp: verify_partial_def MAX_DER_SIG_LEN_def)

lemma placed_sorted:
  assumes "distinct (map (pos_of keys) partials)"
  shows "sorted_wrt (<) (map fst (sort_key fst (map (\<lambda>p. (pos_of keys p, p)) partials)))"
proof -
  let ?l = "map (\<lambda>p. (pos_of keys p, p)) partials"
  have "mset (map fst (sort_key fst ?l)) = mset (map (pos_of keys) partials)"
    by (simp add: image_mset.compositionality o_def)
  with assms have "distinct (map fst (sort_key fst ?l))" by (metis mset_eq_imp_distinct_iff)
  with sorted_sort_key [of fst ?l] show ?thesis by (simp add: strict_sorted_iff)
qed

text \<open>
  The signatures of one input: as many as the threshold, each of another key of the vault, in
  the order of the keys in the redeem script, each verified over the hash of the transaction
  that is broadcast.
\<close>

definition quorum_signatures ::
  "sha256 \<Rightarrow> ('sig, 'key) secp256k1 \<Rightarrow> multisig_vault \<Rightarrow> transaction \<Rightarrow> nat \<Rightarrow> bytes list \<Rightarrow> bool" where
  "quorum_signatures sha256 secp vault tx i sigs \<longleftrightarrow>
     (\<exists>ps. length ps = mv_threshold vault \<and> length sigs = mv_threshold vault \<and> sorted_wrt (<) ps \<and>
        (\<forall>j < mv_threshold vault. ps ! j < length (mv_signer_pubkeys vault) \<and>
           verify_partial secp i (mv_signer_pubkeys vault ! (ps ! j)) (sigs ! j)
             (sighash_all sha256 tx i (mv_redeem_script vault)) = Ok ()))"

text \<open>
  C19: An assembled transaction spends the same outputs, pays the same outputs and has the same
  version and lock time as the unsigned one, and the script of every input reads back as the
  dummy push, exactly the threshold number of signatures by different vault keys, in the order
  of the keys in the redeem script and valid for the assembled transaction itself, and the redeem script.
\<close>

theorem assembled_spends_vault:
  assumes "assemble sha256 secp utx vault partials = Ok tx" "length (mv_redeem_script vault) < 65536"
  shows "tx = utx\<lparr>tx_inputs := tx_inputs tx\<rparr> \<and> same_outpoints (tx_inputs utx) (tx_inputs tx) \<and>
    (\<forall>i < length (tx_inputs tx). \<exists>sigs.
       parse_script_pushes (ti_script_sig (tx_inputs tx ! i)) = Ok ([] # sigs @ [mv_redeem_script vault]) \<and>
       quorum_signatures sha256 secp vault tx i sigs)"
proof -
  define keys where "keys = mv_signer_pubkeys vault"
  define placed where "placed = sort_key fst (map (\<lambda>p. (pos_of keys p, p)) partials)"
  define n where "n = length (tx_inputs utx)"
  from assms(1) have len: "length partials = mv_threshold vault"
    and mem: "\<forall>p \<in> set partials. ps_vault_pubkey p \<in> set keys"
    and dist: "distinct (map (pos_of keys) partials)"
    and ver: "\<forall>j < n. placed_verify secp j (sighash_all sha256 utx j (mv_redeem_script vault)) placed"
    and tx: "tx = utx\<lparr>tx_inputs := map2 (\<lambda>j inp. inp\<lparr>ti_script_sig := spend_script vault j placed\<rparr>)
      [0..<n] (tx_inputs utx)\<rparr>"
    by (simp_all add: assemble_Ok Let_def keys_def placed_def n_def)
  have same: "same_outpoints (tx_inputs utx) (tx_inputs tx)"
    using same_outpoints_map2 [of "\<lambda>j. spend_script vault j placed" 0 "tx_inputs utx"]
    by (simp add: tx n_def)
  have hash: "sighash_all sha256 tx i r = sighash_all sha256 utx i r" for i r
    using sighash_all_cong [OF same] tx by simp
  have script: "\<exists>sigs. parse_script_pushes (ti_script_sig (tx_inputs tx ! i)) =
        Ok ([] # sigs @ [mv_redeem_script vault]) \<and> quorum_signatures sha256 secp vault tx i sigs"
    if i: "i < n" for i
  proof (intro exI conjI)
    let ?sigs = "placed_pushes i placed"
    from ver i have v: "placed_verify secp i (sighash_all sha256 tx i (mv_redeem_script vault)) placed"
      by (simp add: hash)
    have "ti_script_sig (tx_inputs tx ! i) = spend_script vault i placed"
      using i by (simp add: tx n_def)
    moreover have "\<forall>d \<in> set ([] # ?sigs @ [mv_redeem_script vault]). length d < 65536"
      using v assms(2) by (auto dest: verify_partial_length)
    ultimately show "parse_script_pushes (ti_script_sig (tx_inputs tx ! i)) =
        Ok ([] # ?sigs @ [mv_redeem_script vault])"
      using parse_pushes [of "[] # ?sigs @ [mv_redeem_script vault]" "[]"]
      unfolding parse_script_pushes_def spend_script_def by simp
    have plen: "length placed = mv_threshold vault" by (simp add: placed_def len)
    have "fst q < length keys \<and> keys ! fst q = ps_vault_pubkey (snd q)" if "q \<in> set placed" for q
      using that mem pos_of_key by (auto simp: placed_def)
    with v plen have "\<forall>j < mv_threshold vault. map fst placed ! j < length keys \<and>
        verify_partial secp i (keys ! (map fst placed ! j)) (?sigs ! j)
          (sighash_all sha256 tx i (mv_redeem_script vault)) = Ok ()"
      by simp
    then show "quorum_signatures sha256 secp vault tx i ?sigs"
      unfolding quorum_signatures_def keys_def [symmetric]
      using plen placed_sorted [OF dist] by (intro exI [of _ "map fst placed"]) (simp add: placed_def)
  qed
  from tx have "length (tx_inputs tx) = n" by (simp add: n_def)
  with same script show ?thesis by (simp add: tx)
qed

text \<open>
  The order in which the partial signatures arrive does not matter.
\<close>

theorem assemble_order_irrelevant:
  assumes "assemble sha256 secp utx vault ps = Ok tx" "mset qs = mset ps"
  shows "assemble sha256 secp utx vault qs = Ok tx"
proof -
  define keys where "keys = mv_signer_pubkeys vault"
  let ?f = "\<lambda>p. (pos_of keys p, p)"
  from assms(2) have set: "set qs = set ps" by (metis set_mset_mset)
  from assms(2) have len: "length qs = length ps" by (metis size_mset)
  from assms(1) have d: "distinct (map (pos_of keys) ps)"
    by (simp add: assemble_Ok Let_def keys_def)
  moreover from assms(2) have "mset (map (pos_of keys) qs) = mset (map (pos_of keys) ps)" by simp
  ultimately have d': "distinct (map (pos_of keys) qs)" by (metis mset_eq_imp_distinct_iff)
  have "inj_on fst (set (map ?f qs))"
    using d' by (auto simp: inj_on_def distinct_map)
  then have "sort_key fst (map ?f qs) = sort_key fst (map ?f ps)"
    using assms(2) by (intro sort_key_inj_key_eq) simp_all
  with assms(1) set len d' show ?thesis
    by (simp add: assemble_Ok Let_def keys_def)
qed

text \<open>
  Reading a serialized transaction gives it back, whatever follows it in the buffer, and a
  transaction that was read from any encoding is unchanged by serializing and reading it again.
\<close>

theorem transaction_roundtrip:
  assumes "wf_transaction t \<or> (\<exists>raw. fits_usize raw \<and> parse raw = Ok t)"
  shows "parse (serialize t @ rest) = Ok t \<and> parse_hex (serialize_hex t) = Ok t"
proof -
  from assms have "wf_transaction t" using parse_wf by blast
  then show ?thesis
    using parse_serialize [of t rest] parse_serialize [of t "[]"]
    by (simp add: parse_hex_def serialize_hex_def decode_vec_encode)
qed

section \<open>A spend of a vault of two\<close>

definition sample_secp :: "(bytes, bytes33) secp256k1" where
  "sample_secp = \<lparr>parse_der = Some, parse_compressed = Some, ecdsa_verify = \<lambda>h sig pk. hd sig = ucast pk\<rparr>"

definition sample_vault2 :: multisig_vault where
  "sample_vault2 = \<lparr>mv_threshold = 2, mv_signer_pubkeys = [7, 8, 9], mv_redeem_script = [1, 2],
     mv_script_hash160 = 0, mv_address = []\<rparr>"

definition sample_tx :: transaction where
  "sample_tx = \<lparr>tx_version = 1, tx_inputs = [\<lparr>ti_prev_txid = 5, ti_prev_vout = 0, ti_script_sig = [],
       ti_sequence = 0\<rparr>],
     tx_outputs = [\<lparr>to_value = 100, to_script_pubkey = [3]\<rparr>], tx_lock_time = 0\<rparr>"

definition sample_partials :: "partial_signature list" where
  "sample_partials = [\<lparr>ps_vault_pubkey = 9, ps_signatures = [[9, 1]]\<rparr>,
     \<lparr>ps_vault_pubkey = 7, ps_signatures = [[7, 1]]\<rparr>]"

definition sample_signed :: transaction where
  "sample_signed = sample_tx\<lparr>tx_inputs := [\<lparr>ti_prev_txid = 5, ti_prev_vout = 0,
     ti_script_sig = [0, 2, 7, 1, 2, 9, 1, 2, 1, 2], ti_sequence = 0\<rparr>]\<rparr>"

lemma sample_assemble:
  "assemble (\<lambda>_. 0) sample_secp sample_tx sample_vault2 sample_partials = Ok sample_signed"
  by (simp add: assemble_def sample_secp_def sample_tx_def sample_vault2_def sample_partials_def
      sample_signed_def verify_partial_def push_data_def OP_0_def SIGHASH_ALL_def MAX_DER_SIG_LEN_def Let_def)

theorem assembled_spends_vault_witness:
  "(\<exists>sigs. parse_script_pushes [0, 2, 7, 1, 2, 9, 1, 2, 1, 2] = Ok ([] # sigs @ [[1, 2]]) \<and>
     quorum_signatures (\<lambda>_. 0) sample_secp sample_vault2 sample_signed 0 sigs)"
  using assembled_spends_vault [OF sample_assemble]
  by (simp add: sample_vault2_def sample_signed_def)

theorem transaction_roundtrip_witness:
  "parse (serialize sample_signed @ [1, 2, 3]) = Ok sample_signed"
proof -
  have "wf_transaction sample_signed"
    by (simp add: wf_transaction_def sample_signed_def sample_tx_def fits_usize_def)
  then show ?thesis using transaction_roundtrip [of sample_signed "[1, 2, 3]"] by blast
qed

end
