(* ===== verification/ExecutorSafety.thy ===== *)
theory ExecutorSafety
  imports ExecutorLogic Multisig
begin

text \<open>
  The guarantees of the withdrawal executor: at most one transaction is ever broadcast for a
  withdrawal, and it is a correctly signed spend of the vault; and two ways in which the executor
  stops making progress.
\<close>

section \<open>What a call changes\<close>

lemma reserve_loop_frame:
  "reserve_loop i at us d = Ok d' \<Longrightarrow>
     withdrawal_requests d' = withdrawal_requests d \<and> withdrawal_payouts d' = withdrawal_payouts d"
  by (induction us arbitrary: d) (auto simp: Let_def split: if_splits)

lemma same_tables:
  "withdrawal_requests (snd (sync_vault_utxos us m at d)) = withdrawal_requests d"
  "withdrawal_payouts (snd (sync_vault_utxos us m at d)) = withdrawal_payouts d"
  "withdrawal_requests (snd (mark_missing_utxos_spent ts d)) = withdrawal_requests d"
  "withdrawal_payouts (snd (mark_missing_utxos_spent ts d)) = withdrawal_payouts d"
  "withdrawal_requests (snd (release_reservation i d)) = withdrawal_requests d"
  "withdrawal_payouts (snd (release_reservation i d)) = withdrawal_payouts d"
  "withdrawal_requests (snd (reserve_utxos i vs at d)) = withdrawal_requests d"
  "withdrawal_payouts (snd (reserve_utxos i vs at d)) = withdrawal_payouts d"
  by (auto simp: sync_vault_utxos_def mark_missing_utxos_spent_def release_reservation_def Let_def
      reserve_utxos_def transact_def dest: reserve_loop_frame split: result.splits prod.splits)

lemma same_payouts:
  "withdrawal_payouts (snd (observe_withdrawal w d)) = withdrawal_payouts d"
  "withdrawal_payouts (snd (transition_withdrawal i to at reason d)) = withdrawal_payouts d"
  "withdrawal_payouts (snd (verify_and_load_signable_payout H i at d)) = withdrawal_payouts d"
  "withdrawal_payouts (snd (operator_clear_withdrawal_halt i to note at d)) = withdrawal_payouts d"
proof -
  show "withdrawal_payouts (snd (observe_withdrawal w d)) = withdrawal_payouts d"
    by (auto simp: observe_withdrawal_def Let_def insert_log_def)
  show "withdrawal_payouts (snd (transition_withdrawal i to at reason d)) = withdrawal_payouts d"
    by (rule op_cases) (auto simp: transition_withdrawal_Ok dest: transition_withdrawal_Err)
  show "withdrawal_payouts (snd (verify_and_load_signable_payout H i at d)) = withdrawal_payouts d"
    using verify_effect [of d i H at] by (auto simp: kept_or_halted_def halt_withdrawal_def)
  show "withdrawal_payouts (snd (operator_clear_withdrawal_halt i to note at d)) = withdrawal_payouts d"
    by (rule op_cases) (auto dest!: clear_halt_Ok clear_halt_Err)
qed

text \<open>
  A row of the payout table after a call: a new payout is not signed, and only
  \<open>record_signed_payout\<close> signs one.
\<close>

definition payout_step :: "wdb_call \<Rightarrow> i64 \<Rightarrow> withdrawal_payout_row option \<Rightarrow> withdrawal_payout_row option \<Rightarrow> bool" where
  "payout_step c i p p' \<longleftrightarrow> p' = p \<or>
     (case p' of None \<Rightarrow> False | Some r' \<Rightarrow>
       (case p of None \<Rightarrow> wp_signed_tx_hex r' = None
        | Some r \<Rightarrow> wp_signed_tx_hex r' = wp_signed_tx_hex r \<or>
            (\<exists>b t at. c = RecordSignedPayout i b t at \<and> wp_signed_tx_hex r' = Some b \<and>
               wp_unsigned_tx_hex r' = wp_unsigned_tx_hex r)))"

lemma exec_payout: "payout_step c i (payout_at d i) (payout_at (wdb_exec H c d) i)"
proof (cases c)
  case (CreatePayout np)
  have "payout_step c i (payout_at d i) (payout_at (snd (create_payout np d)) i)"
    by (rule op_cases) (auto simp: create_payout_Ok payout_step_def row_at_append new_payout_row_def
        dest: create_payout_Err split: option.splits if_splits)
  with CreatePayout show ?thesis by simp
next
  case (RecordSignedPayout j b t at)
  have "payout_step c i (payout_at d i) (payout_at (snd (record_signed_payout j b t at d)) i)"
    by (rule op_cases) (auto simp: record_signed_payout_Ok payout_step_def row_at_update
        RecordSignedPayout dest: record_signed_payout_Err row_at_Some split: option.splits)
  with RecordSignedPayout show ?thesis by simp
next
  case (CompletePayout j at)
  have "payout_step c i (payout_at d i) (payout_at (snd (complete_payout j at d)) i)"
    by (rule op_cases) (auto simp: complete_payout_Ok completed_db_def payout_step_def row_at_update
        dest: complete_payout_Err split: option.splits)
  with CompletePayout show ?thesis by simp
next
  case (ReassignPayoutQuorum j q h n u reason at)
  have "payout_step c i (payout_at d i) (payout_at (snd (reassign_payout_quorum j q h n u reason at d)) i)"
    by (rule op_cases) (auto simp: payout_step_def row_at_update dest: reassign_Err elim!: reassign_Ok
        split: option.splits)
  with ReassignPayoutQuorum show ?thesis by simp
qed (auto simp: same_tables same_payouts payout_step_def record_broadcast_def record_confirmations_def
    record_onchain_completion_def row_at_update split: option.splits)

section \<open>The executor as a system\<close>

definition signed_as :: "withdrawal_db \<Rightarrow> i64 \<Rightarrow> bytes \<Rightarrow> bool" where
  "signed_as d i b \<longleftrightarrow> (\<exists>p. payout_at d i = Some p \<and> wp_signed_tx_hex p = Some b)"

definition ex_safe :: "('w, 'sig, 'key) executor_env \<Rightarrow> 'w ex_state \<Rightarrow> bool" where
  "ex_safe env s \<longleftrightarrow> wdb.reachable (en_sha256 env) (ex_db s) \<and>
     (\<forall>i b. (i, b) \<in> set (ex_sent s) \<longrightarrow> signed_as (ex_db s) i b) \<and>
     (\<forall>i b. signed_as (ex_db s) i b \<longrightarrow> assembled_from env (ex_db s) i b)"

text \<open>
  The executor runs ticks and takes in discovered withdrawals; an operator may reassign a quorum,
  clear a halt or record a completion, and the rest of the world changes on its own.
\<close>

datatype 'w ex_label = Tick | Ingest "new_withdrawal_request list" | Operator wdb_call | Elsewhere 'w

fun operator_call :: "wdb_call \<Rightarrow> bool" where
  "operator_call (ReassignPayoutQuorum i q c n u r at) = True"
| "operator_call (OperatorClearWithdrawalHalt i to note at) = True"
| "operator_call (RecordOnchainCompletion i g at) = True"
| "operator_call _ = False"

definition ex_init :: "'w ex_state \<Rightarrow> bool" where
  "ex_init s \<longleftrightarrow> ex_db s = empty_withdrawal_db \<and> ex_sent s = []"

definition ex_step :: "('w, 'sig, 'key) executor_env \<Rightarrow> 'w ex_state \<Rightarrow> 'w ex_label \<Rightarrow> 'w ex_state \<Rightarrow> bool" where
  "ex_step env s l s' =
     (case l of
        Tick \<Rightarrow> s' = snd (tick env s)
      | Ingest ws \<Rightarrow> s' = snd (ingest_discovered ws s)
      | Operator c \<Rightarrow> operator_call c \<and> s' = s\<lparr>ex_db := wdb_exec (en_sha256 env) c (ex_db s)\<rparr>
      | Elsewhere w \<Rightarrow> s' = s\<lparr>ex_world := w\<rparr>)"

lemma assembled_from_cong:
  "assembled_from env d i b \<Longrightarrow> payout_at d i = Some p \<Longrightarrow> payout_at d' i = Some p' \<Longrightarrow>
     wp_unsigned_tx_hex p' = wp_unsigned_tx_hex p \<Longrightarrow> assembled_from env d' i b"
  by (auto simp: assembled_from_def)

lemma signed_kept:
  assumes "wdb_inv d" "payout_at d i = Some p" "wp_signed_tx_hex p = Some b"
  obtains p' where "payout_at (wdb_exec H c d) i = Some p'" "wp_signed_tx_hex p' = Some b"
    "wp_unsigned_tx_hex p' = wp_unsigned_tx_hex p"
proof -
  have "rows_le wp_index payout_le (withdrawal_payouts d) (withdrawal_payouts (wdb_exec H c d))"
    using wdb_exec_le [OF assms(1)] by (simp add: wdb_le_def)
  with assms(2) obtain p' where "payout_at (wdb_exec H c d) i = Some p'" "payout_le p p'"
    by (auto simp: rows_le_def opt_le_def)
  with assms(3) that show ?thesis by (auto simp: payout_le_def signed_part_def)
qed

lemma ex_safe_db:
  assumes safe: "ex_safe env s"
    and call: "\<And>i b t at. c = RecordSignedPayout i b t at \<Longrightarrow> assembled_from env (ex_db s) i b"
  shows "ex_safe env (s\<lparr>ex_db := wdb_exec (en_sha256 env) c (ex_db s)\<rparr>)"
proof -
  define d where "d = ex_db s"
  define d' where "d' = wdb_exec (en_sha256 env) c d"
  from safe have r: "wdb.reachable (en_sha256 env) d" by (simp add: ex_safe_def d_def)
  then have inv: "wdb_inv d" by (rule wdb.reachable_inv)
  have "wdb.reachable (en_sha256 env) d'"
    using r by (rule wdb.reachable_step) (simp add: wdb_step_def d'_def)
  moreover have kept: "signed_as d' i b" if "signed_as d i b" for i b
    using that signed_kept [OF inv] unfolding signed_as_def d'_def by metis
  moreover have "assembled_from env d' i b" if "signed_as d' i b" for i b
  proof -
    from that obtain p' where p': "payout_at d' i = Some p'" "wp_signed_tx_hex p' = Some b"
      by (auto simp: signed_as_def)
    show ?thesis
    proof (cases "signed_as d i b")
      case True
      with safe have a: "assembled_from env d i b" by (simp add: ex_safe_def d_def)
      from True obtain p where p: "payout_at d i = Some p" "wp_signed_tx_hex p = Some b"
        by (auto simp: signed_as_def)
      from signed_kept [OF inv p, of "en_sha256 env" c] p' have "wp_unsigned_tx_hex p' = wp_unsigned_tx_hex p"
        by (metis d'_def option.inject)
      with a p(1) p'(1) show ?thesis by (rule assembled_from_cong)
    next
      case False
      with exec_payout [of c i d "en_sha256 env"] p' obtain p t at where
        "payout_at d i = Some p" "c = RecordSignedPayout i b t at" "wp_unsigned_tx_hex p' = wp_unsigned_tx_hex p"
        by (auto simp: payout_step_def signed_as_def d'_def split: option.splits)
      with call p'(1) show ?thesis by (auto simp: d_def intro: assembled_from_cong)
    qed
  qed
  ultimately show ?thesis
    using safe by (simp add: ex_safe_def d_def d'_def)
qed

interpretation safe: executor_invariant "ex_safe env" env "\<lambda>_. True" "\<lambda>_. True"
  for env :: "('w, 'sig, 'key) executor_env"
proof unfold_locales
  fix s c
  assume s: "ex_safe env s" and c: "executor_call env (\<lambda>_. True) (ex_db s) c"
  show "ex_safe env (s\<lparr>ex_db := wdb_exec (en_sha256 env) c (ex_db s)\<rparr>)"
    using s by (rule ex_safe_db) (use c in auto)
qed (auto simp: ex_safe_def signed_as_def)

interpretation ex: inv_system ex_init "ex_step env" "ex_safe env"
  for env :: "('w, 'sig, 'key) executor_env"
proof unfold_locales
  fix s :: "'w ex_state"
  assume "ex_init s"
  then show "ex_safe env s"
    by (auto simp: ex_init_def ex_safe_def signed_as_def empty_withdrawal_db_def wdb_init_def
        intro!: wdb.reachable_init)
next
  fix s l s'
  assume s: "ex_safe env s" and "ex_step env s l s'"
  then show "ex_safe env s'"
    by (cases l) (auto simp: ex_step_def safe.tick_keeps safe.ingest_keeps safe.I_world
        intro!: ex_safe_db)
qed

abbreviation ex_reachable :: "('w, 'sig, 'key) executor_env \<Rightarrow> 'w ex_state \<Rightarrow> bool" where
  "ex_reachable env \<equiv> transition_system.reachable ex_init (ex_step env)"

abbreviation ex_run ::
  "('w, 'sig, 'key) executor_env \<Rightarrow> 'w ex_state \<Rightarrow> 'w ex_label list \<Rightarrow> 'w ex_state \<Rightarrow> bool" where
  "ex_run env \<equiv> transition_system.run (ex_step env)"

section \<open>One transaction per withdrawal\<close>

text \<open>
  C17: Whatever the node, the co-signers, the clock and the operator do, every transaction the
  executor ever hands to the node for one withdrawal is the same: the bytes recorded as the signed
  payout of that withdrawal, and they are the serialization of a spend assembled from the payout
  that the database stores.
\<close>

theorem one_transaction_per_withdrawal:
  assumes "ex_reachable env s" "(i, b) \<in> set (ex_sent s)" "(i, b') \<in> set (ex_sent s)"
  shows "b' = b \<and> (\<exists>p utx partials tx. payout_at (ex_db s) i = Some p \<and> wp_signed_tx_hex p = Some b \<and>
    parse_hex (wp_unsigned_tx_hex p) = Ok utx \<and>
    assemble (en_sha256 env) (en_secp env) utx (wc_vault (en_config env)) partials = Ok tx \<and>
    b = serialize_hex tx)"
proof -
  have safe: "ex_safe env s" using assms(1) by (rule ex.reachable_inv)
  with assms(2,3) have sent: "signed_as (ex_db s) i b" "signed_as (ex_db s) i b'"
    by (auto simp: ex_safe_def)
  with safe have "assembled_from env (ex_db s) i b" by (simp add: ex_safe_def)
  with sent show ?thesis by (fastforce simp: signed_as_def assembled_from_def)
qed

section \<open>Withdrawals that make no progress\<close>

text \<open>Work on other withdrawals leaves a withdrawal and its payout alone.\<close>

lemma requests_frame:
  assumes "request_at d i = Some r" "j \<noteq> i" "\<And>r. wq_index (f r) = wq_index r"
  shows "row_at wq_index i (update_where (\<lambda>r. wq_index r = j) f (withdrawal_requests d)) = Some r"
  using assms by (auto simp: row_at_update dest: row_at_Some)

lemma payouts_frame:
  assumes "\<And>r. P r \<Longrightarrow> wp_index r \<noteq> i" "\<And>r. wp_index (f r) = wp_index r"
  shows "row_at wp_index i (update_where P f (withdrawal_payouts d)) = payout_at d i"
  using assms by (cases "payout_at d i") (auto simp: row_at_update dest: row_at_Some)

lemma exec_frame:
  assumes "executor_call env (\<lambda>j. j \<noteq> i) d c" and r: "request_at d i = Some r"
  shows "request_at (wdb_exec H c d) i = Some r \<and> payout_at (wdb_exec H c d) i = payout_at d i"
proof (cases c)
  case (ObserveWithdrawal w)
  with r show ?thesis
    by (auto simp: observe_withdrawal_def Let_def insert_log_def row_at_append)
next
  case (TransitionWithdrawal j to at reason)
  have "request_at (snd (transition_withdrawal j to at reason d)) i = Some r"
    by (rule op_cases) (use TransitionWithdrawal assms(1) r in
      \<open>auto simp: transition_withdrawal_Ok requests_frame [OF r] dest: transition_withdrawal_Err\<close>)
  with TransitionWithdrawal show ?thesis by (simp add: same_payouts)
next
  case (VerifyAndLoadSignablePayout j at)
  have "wq_index w = j" if "request_at d j = Some w" for w
    using row_at_Some [OF that] by simp
  with VerifyAndLoadSignablePayout have "request_at (snd (verify_and_load_signable_payout H j at d)) i = Some r"
    using assms verify_effect [of d j H at]
    by (auto simp: kept_or_halted_def halt_withdrawal_def requests_frame [OF r])
  with VerifyAndLoadSignablePayout show ?thesis by (simp add: same_payouts)
next
  case (CreatePayout np)
  have "request_at (snd (create_payout np d)) i = Some r \<and>
      payout_at (snd (create_payout np d)) i = payout_at d i"
    by (rule op_cases) (use CreatePayout assms(1) r in \<open>auto simp: create_payout_Ok row_at_append
        new_payout_row_def dest: create_payout_Err split: option.splits\<close>)
  with CreatePayout show ?thesis by simp
next
  case (RecordSignedPayout j b t at)
  have "request_at (snd (record_signed_payout j b t at d)) i = Some r \<and>
      payout_at (snd (record_signed_payout j b t at d)) i = payout_at d i"
    by (rule op_cases) (use RecordSignedPayout assms(1) r in \<open>auto simp: record_signed_payout_Ok
        requests_frame [OF r] intro!: payouts_frame dest: record_signed_payout_Err\<close>)
  with RecordSignedPayout show ?thesis by simp
next
  case (CompletePayout j at)
  have "request_at (snd (complete_payout j at d)) i = Some r \<and>
      payout_at (snd (complete_payout j at d)) i = payout_at d i"
    by (rule op_cases) (use CompletePayout assms(1) r in \<open>auto simp: complete_payout_Ok completed_db_def
        requests_frame [OF r] payouts_frame dest: complete_payout_Err\<close>)
  with CompletePayout show ?thesis by simp
next
  case (RecordBroadcast j at)
  with assms show ?thesis by (simp add: record_broadcast_def payouts_frame)
next
  case (RecordConfirmations j n b h)
  with assms show ?thesis by (auto simp: record_confirmations_def intro!: payouts_frame)
qed (use assms in \<open>auto simp: same_tables\<close>)

text \<open>The withdrawal \<open>i\<close> has the row \<open>r\<close> and the payout \<open>p\<close>.\<close>

definition frozen ::
  "('w, 'sig, 'key) executor_env \<Rightarrow> i64 \<Rightarrow> withdrawal_request_row \<Rightarrow> withdrawal_payout_row option \<Rightarrow> 'w ex_state \<Rightarrow> bool" where
  "frozen env i r p s \<longleftrightarrow> ex_safe env s \<and> request_at (ex_db s) i = Some r \<and> payout_at (ex_db s) i = p"

lemma all_ok_mem: "all_ok f xs = Ok ys \<Longrightarrow> y \<in> set ys \<Longrightarrow> \<exists>x \<in> set xs. f x = Ok y"
  by (induction xs arbitrary: ys) (auto simp: all_ok_def)

lemma by_state_rows:
  assumes "withdrawals_by_state d st = Ok ws" "w \<in> set ws"
  shows "\<exists>r \<in> set (withdrawal_requests d). wq_index r = wrow_index w \<and> wq_state r = ws_as_str st"
proof -
  from all_ok_mem [OF assms(1) [unfolded withdrawals_by_state_def] assms(2)] obtain r where
    "r \<in> set (withdrawal_requests d)" "wq_state r = ws_as_str st" "row_to_withdrawal r = Ok w" by auto
  then show ?thesis by (auto simp: row_to_withdrawal_def)
qed

lemma by_state_visits:
  assumes "wdb_inv d" "withdrawals_by_state d st = Ok ws" "w \<in> set ws" "request_at d (wrow_index w) = Some r"
  shows "wq_state r = ws_as_str st"
proof -
  obtain r' where r': "r' \<in> set (withdrawal_requests d)" "wq_index r' = wrow_index w" "wq_state r' = ws_as_str st"
    using by_state_rows [OF assms(2,3)] by blast
  from assms(1) have "distinct (map wq_index (withdrawal_requests d))"
    by (simp add: wdb_inv_def requests_inv_def)
  from row_at_unique [OF this r'(1)] r'(2,3) assms(4) show ?thesis by simp
qed

interpretation frozen: executor_invariant "frozen env i r p" env "\<lambda>j. j \<noteq> i" "\<lambda>st. wq_state r \<noteq> ws_as_str st"
  for env :: "('w, 'sig, 'key) executor_env" and i r p
proof unfold_locales
  fix s c
  assume s: "frozen env i r p s" and c: "executor_call env (\<lambda>j. j \<noteq> i) (ex_db s) c"
  have "ex_safe env (s\<lparr>ex_db := wdb_exec (en_sha256 env) c (ex_db s)\<rparr>)"
    using s c by (intro ex_safe_db) (auto simp: frozen_def)
  with s exec_frame [OF c, of r "en_sha256 env"]
  show "frozen env i r p (s\<lparr>ex_db := wdb_exec (en_sha256 env) c (ex_db s)\<rparr>)"
    by (simp add: frozen_def)
next
  fix s st ws w
  assume s: "frozen env i r p s" and ws: "withdrawals_by_state (ex_db s) st = Ok ws"
    and st: "wq_state r \<noteq> ws_as_str st" and w: "w \<in> set ws"
  from s have "wdb_inv (ex_db s)" by (auto simp: frozen_def ex_safe_def intro: wdb.reachable_inv)
  from by_state_visits [OF this ws w, of r] s st show "wrow_index w \<noteq> i" by (auto simp: frozen_def)
qed (auto simp: frozen_def safe.I_world safe.I_report safe.I_sent)

text \<open>The steps that no operator takes.\<close>

definition automatic :: "'w ex_label \<Rightarrow> bool" where
  "automatic l \<longleftrightarrow> (\<forall>c. l \<noteq> Operator c)"

lemma frozen_run:
  assumes "ex_run env s ls s'" "\<forall>l \<in> set ls. automatic l" "frozen env i r p s"
    and tick: "\<And>s. frozen env i r p s \<Longrightarrow> frozen env i r p (snd (tick env s))"
  shows "frozen env i r p s'"
  using assms(1-3)
proof (induction ls arbitrary: s)
  case Nil
  then show ?case by (simp add: ex.run_Nil_iff)
next
  case (Cons l ls)
  then obtain s1 where s1: "ex_step env s l s1" "ex_run env s1 ls s'"
    by (auto simp: ex.run_Cons_iff)
  from s1(1) Cons.prems have "frozen env i r p s1"
    by (cases l) (auto simp: ex_step_def automatic_def tick frozen.ingest_keeps frozen.I_world)
  with Cons.IH [OF s1(2)] Cons.prems show ?case by simp
qed

text \<open>
  C18: A withdrawal whose state is \<open>Building\<close> when a tick begins is never touched again: no number of
  ticks, newly discovered withdrawals and changes in the world ever changes its row or its
  payout.  A tick leaves a withdrawal in that state whenever the node fails or the process stops
  between the reservation of its inputs and the end of \<open>build\<close>.
\<close>

theorem building_is_never_resumed:
  assumes "ex_reachable env s" "request_at (ex_db s) i = Some r" "wq_state r = ws_as_str WBuilding"
    and "ex_run env s ls s'" "\<forall>l \<in> set ls. automatic l"
  shows "request_at (ex_db s') i = Some r \<and> payout_at (ex_db s') i = payout_at (ex_db s) i"
proof -
  have start: "frozen env i r (payout_at (ex_db s) i) s"
    using assms(1,2) ex.reachable_inv by (auto simp: frozen_def)
  have tick: "frozen env i r p t \<Longrightarrow> frozen env i r p (snd (tick env t))" for p t
    by (rule frozen.tick_keeps) (simp_all add: assms(3) del: ws_as_str.simps)
  from frozen_run [OF assms(4,5) start tick] show ?thesis by (simp add: frozen_def)
qed

section \<open>A recovered withdrawal that stops every tick\<close>

lemma build_with_payout:
  assumes "request_at (ex_db s) i = Some r" "wq_state r = ws_as_str WValidated" "payout_at (ex_db s) i = Some p"
  shows "\<exists>w. build env i s = (Err (DbErr (UnknownWithdrawalState ''illegal transition Validated -> Signing'')),
    s\<lparr>ex_world := w\<rparr>)"
proof -
  obtain now w where w: "en_now_unix env (ex_world s) = (now, w)" by (cases "en_now_unix env (ex_world s)")
  have "transition_withdrawal i WSigning now None (ex_db s) =
      (Err (UnknownWithdrawalState ''illegal transition Validated -> Signing''), ex_db s)"
    using assms by (simp add: transition_withdrawal_def ws_parse_def may_transition_to_def)
  with assms(3) w show ?thesis
    by (intro exI [of _ w])
      (simp add: build_def Let_def ebind_def equery_def get_payout_def transition_def eworld_def edb_def)
qed

text \<open>The withdrawal is \<open>Validated\<close> and its payout row exists, as after a cleared halt.\<close>

definition wedged :: "('w, 'sig, 'key) executor_env \<Rightarrow> i64 \<Rightarrow> withdrawal_request_row \<Rightarrow> withdrawal_payout_row \<Rightarrow> 'w ex_state \<Rightarrow> bool" where
  "wedged env i r p s \<longleftrightarrow> frozen env i r (Some p) s \<and> wq_state r = ws_as_str WValidated"

lemma wedged_build:
  assumes "wedged env i r p s" "en_assignment env = None"
  shows "\<exists>e w. build_if_eligible env i s = (Err e, s\<lparr>ex_world := w\<rparr>)"
proof -
  from assms(1) have r: "request_at (ex_db s) i = Some r" "wq_state r = ws_as_str WValidated"
      "payout_at (ex_db s) i = Some p" by (simp_all add: wedged_def frozen_def)
  then show ?thesis
    using build_with_payout [OF r, of env] assms(2)
    by (auto simp: build_if_eligible_def ebind_def equery_def executor_may_build_def eret_def
        withdrawal_eligible_since_def)
qed

lemma wedged_loop:
  assumes "wedged env i r p s" "en_assignment env = None" "i \<in> set is" "efor is (build_if_eligible env) s = (res, s')"
  shows "(\<exists>e. res = Err e) \<and> wedged env i r p s'"
  using assms
proof (induction "is" arbitrary: s)
  case (Cons j js)
  show ?case
  proof (cases "j = i")
    case True
    from wedged_build [OF Cons.prems(1,2)] obtain e w where "build_if_eligible env i s = (Err e, s\<lparr>ex_world := w\<rparr>)"
      by blast
    with True Cons.prems(4) have "res = Err e" "s' = s\<lparr>ex_world := w\<rparr>" by (simp_all add: ebind_def)
    with Cons.prems(1) show ?thesis by (simp add: wedged_def frozen.I_world)
  next
    case False
    obtain r1 s1 where s1: "build_if_eligible env j s = (r1, s1)" by (cases "build_if_eligible env j s")
    have "frozen env i r (Some p) s1"
      using frozen.keeps_build_if_eligible [of j i env r "Some p"] False Cons.prems(1) s1
      unfolding frozen.triple_def wedged_def by blast
    with Cons.prems(1) have w1: "wedged env i r p s1" by (simp add: wedged_def)
    show ?thesis
    proof (cases r1)
      case (Ok x)
      with s1 Cons.prems(4) have "efor js (build_if_eligible env) s1 = (res, s')" by (simp add: ebind_def)
      with Cons.IH [OF w1 Cons.prems(2)] False Cons.prems(3) show ?thesis by simp
    next
      case (Err e)
      with s1 Cons.prems(4) w1 show ?thesis by (auto simp: ebind_def)
    qed
  qed
qed simp

lemma all_ok_image: "all_ok f xs = Ok ys \<Longrightarrow> x \<in> set xs \<Longrightarrow> \<exists>y \<in> set ys. f x = Ok y"
  by (induction xs arbitrary: ys) (auto simp: all_ok_def)

lemma by_state_contains:
  assumes "withdrawals_by_state d st = Ok ws" "request_at d i = Some r" "wq_state r = ws_as_str st"
  shows "i \<in> wrow_index ` set ws"
proof -
  from row_at_Some [OF assms(2)] assms(3)
  have "r \<in> set (order_by (\<lambda>a b. wq_index a <s wq_index b)
      (filter (\<lambda>r. wq_state r = ws_as_str st) (withdrawal_requests d)))" "wq_index r = i" by auto
  with all_ok_image [OF assms(1) [unfolded withdrawals_by_state_def]] obtain w where
    w: "w \<in> set ws" "row_to_withdrawal r = Ok w" by blast
  with \<open>wq_index r = i\<close> have "i = wrow_index w" by (auto simp: row_to_withdrawal_def)
  with w(1) show ?thesis by (rule rev_image_eqI)
qed

lemma wedged_for_state:
  assumes "wedged env i r p s" "en_assignment env = None"
    and "for_state WValidated (build_if_eligible env) s = (res, s')"
  shows "(\<exists>e. res = Err e) \<and> wedged env i r p s'"
proof (cases "withdrawals_by_state (ex_db s) WValidated")
  case (Ok ws)
  with assms(1) have "i \<in> set (map wrow_index ws)"
    using by_state_contains [OF Ok, of i r] by (simp add: wedged_def frozen_def)
  moreover from assms(3) Ok have "efor (map wrow_index ws) (build_if_eligible env) s = (res, s')"
    by (simp add: for_state_def ebind_def equery_def)
  ultimately show ?thesis by (rule wedged_loop [OF assms(1,2)])
next
  case (Err e)
  with assms show ?thesis by (auto simp: for_state_def ebind_def equery_def)
qed

lemma wedged_keeps:
  assumes "wq_state r = ws_as_str WValidated" "en_assignment env = None"
  shows "io_invariant.triple (frozen env i r (Some p)) ex_db (\<lambda>_. True) (for_state WValidated (build_if_eligible env)) (\<lambda>_ _. True)"
  using wedged_for_state [of env i r p] assms
  unfolding frozen.triple_def wedged_def by blast

lemma wedged_tick:
  assumes "wedged env i r p s" "en_assignment env = None"
  shows "wedged env i r p (snd (tick env s))"
proof -
  from assms(1) have r: "wq_state r = ws_as_str WValidated" "frozen env i r (Some p) s"
    by (simp_all add: wedged_def)
  have "io_invariant.triple (frozen env i r (Some p)) ex_db (\<lambda>_. True) (tick env) (\<lambda>_ _. True)"
    by (rule frozen.keeps_tick [OF _ wedged_keeps [OF r(1) assms(2)]])
      (auto simp: r(1) simp del: ws_as_str.simps)
  with r show ?thesis unfolding frozen.triple_def wedged_def by (metis prod.collapse)
qed

lemma frozen_after:
  "io_invariant.triple (frozen env i r p) ex_db (\<lambda>_. True) m (\<lambda>_ _. True) \<Longrightarrow> frozen env i r p s \<Longrightarrow>
     frozen env i r p (snd (m s))"
  unfolding frozen.triple_def by (metis prod.collapse)

lemma frozen_after_state:
  assumes "\<And>j. j \<noteq> i \<Longrightarrow> io_invariant.triple (frozen env i r p) ex_db (\<lambda>_. True) (f j) (\<lambda>_ _. True)"
    and "frozen env i r p s" "for_state st f s = (res, s')" "wq_state r \<noteq> ws_as_str st"
  shows "frozen env i r p s'"
  using frozen_after [OF frozen.keeps_for_state assms(2)] assms by (metis snd_conv)

lemma wedged_tick_fails:
  assumes "wedged env i r p s" "en_assignment env = None"
  shows "\<exists>e. fst (tick env s) = Err e"
proof (rule ccontr)
  assume "\<nexists>e. fst (tick env s) = Err e"
  then obtain x s' where "tick env s = (Ok x, s')"
    by (metis fst_conv result.exhaust surj_pair)
  then obtain t1 t2 t3 t4 t5 t6 t7 t8 t9 where t:
    "sync_vault env s = (Ok (), t1)" "reclaim_abandoned_reservations env t1 = (Ok (), t2)"
    "ereport (\<lambda>_. default_report) t2 = (Ok (), t3)"
    "for_state WBroadcast (reconcile_broadcast env) t3 = (Ok (), t4)"
    "for_state WConfirming (reconcile_broadcast env) t4 = (Ok (), t5)"
    "for_state WOrphaned (rebroadcast env) t5 = (Ok (), t6)"
    "for_state WObserved (validate_withdrawal env) t6 = (Ok (), t7)"
    "for_state WAwaitingFunds (build_if_eligible env) t7 = (Ok (), t8)"
    "for_state WValidated (build_if_eligible env) t8 = (Ok (), t9)"
    by (auto simp: tick_def ebind_Ok)
  have r: "wq_state r = ws_as_str WValidated" "frozen env i r (Some p) s"
    using assms(1) by (simp_all add: wedged_def)
  have ne: "wq_state r \<noteq> ws_as_str st" if "st \<noteq> WValidated" for st
    using that r(1) by (simp del: ws_as_str.simps)
  have "frozen env i r (Some p) t1" "frozen env i r (Some p) t2" "frozen env i r (Some p) t3"
    using frozen_after [OF frozen.keeps_sync r(2)] frozen_after [OF frozen.keeps_reclaim, of env i r "Some p" t1]
      frozen_after [OF frozen.keeps_simple(6), of env i r "Some p" t2] t(1-3) by (metis snd_conv)+
  then have "frozen env i r (Some p) t4"
    by (intro frozen_after_state [OF frozen.keeps_reconcile _ t(4) ne]) auto
  then have "frozen env i r (Some p) t5"
    by (intro frozen_after_state [OF frozen.keeps_reconcile _ t(5) ne]) auto
  then have "frozen env i r (Some p) t6"
    by (intro frozen_after_state [OF frozen.keeps_rebroadcast _ t(6) ne]) auto
  then have "frozen env i r (Some p) t7"
    by (intro frozen_after_state [OF frozen.keeps_validate _ t(7) ne]) auto
  then have "frozen env i r (Some p) t8"
    by (intro frozen_after_state [OF frozen.keeps_build_if_eligible _ t(8) ne]) auto
  with r(1) wedged_for_state [OF _ assms(2) t(9), of i r p] show False by (simp add: wedged_def)
qed

text \<open>
  A withdrawal that an operator returns to \<open>Validated\<close> after its payout was built stops the
  executor for all withdrawals: as long as no operator intervenes again, its row and its payout
  never change and every tick fails, without signing or broadcasting anything that became ready.
\<close>

theorem recovered_withdrawal_stops_ticks:
  assumes "ex_reachable env s" "en_assignment env = None"
    and "request_at (ex_db s) i = Some r" "wq_state r = ws_as_str WValidated" "payout_at (ex_db s) i = Some p"
    and "ex_run env s ls s'" "\<forall>l \<in> set ls. automatic l"
  shows "(\<exists>e. fst (tick env s') = Err e) \<and> request_at (ex_db s') i = Some r \<and> payout_at (ex_db s') i = Some p"
proof -
  have start: "frozen env i r (Some p) s"
    using assms(1,3,5) ex.reachable_inv by (auto simp: frozen_def)
  have "frozen env i r (Some p) (snd (tick env t))" if "frozen env i r (Some p) t" for t
    using wedged_tick [of env i r p t] that assms(2,4) by (simp add: wedged_def)
  from frozen_run [OF assms(6,7) start this] have end_state: "frozen env i r (Some p) s'" .
  with assms(4) have "wedged env i r p s'" by (simp add: wedged_def)
  from wedged_tick_fails [OF this assms(2)] end_state show ?thesis by (simp add: frozen_def)
qed

end
