(* ===== verification/WithdrawalDemo.thy ===== *)
theory WithdrawalDemo
  imports WithdrawalSafety
begin

text \<open>
  A concrete life of a withdrawal in the database, used as the witness of the guarantees of the
  withdrawal tables, and two runs that show where the tables do not do what their callers expect:
  the order of the spendable outputs and the detection of spent outputs.
\<close>

section \<open>A withdrawal from observation to signature\<close>

definition demo_request :: new_withdrawal_request where
  "demo_request = \<lparr>nw_index = 5, nw_pda = 9, nw_amount_atomic = 100, nw_requester = 7,
     nw_glc_address = [], nw_hash160 = 3, nw_requested_at_slot = 1, nw_protocol_version = 1,
     nw_observed_at = 10, nw_observed_at_slot = 1\<rparr>"

definition demo_observed :: "nat \<Rightarrow> u64 \<Rightarrow> observed_utxo" where
  "demo_observed t amount = \<lparr>ou_txid = word_of_nat t, ou_vout = 0, ou_amount_atomic = amount,
     ou_script_pubkey_hex = [], ou_confirmations = 6\<rparr>"

definition demo_input :: "nat \<Rightarrow> u64 \<Rightarrow> vault_utxo" where
  "demo_input t amount = \<lparr>vu_txid = word_of_nat t, vu_txid_hex = hex_encode (le_bytes (word_of_nat t :: bytes32)),
     vu_vout = 0, vu_amount_atomic = amount, vu_script_pubkey_hex = [], vu_confirmations = 6\<rparr>"

definition demo_intent :: bytes where
  "demo_intent = canonical_payout_intent 1 5 2 3 100 10 890 0 0 [0, 1] [demo_input 1 1000]"

definition demo_payout :: new_payout where
  "demo_payout = \<lparr>np_index = 5, np_vault_script_hash = 2, np_quorum_indices = [0, 1],
     np_quorum_attempt = 0, np_commitment_hash = 0, np_intent_bytes = demo_intent,
     np_fee_atomic = 10, np_payout_atomic = 100, np_change_atomic = 890, np_change_address = None,
     np_unsigned_tx_hex = [1], np_inputs = [demo_input 1 1000], np_built_at = 12\<rparr>"

definition demo_calls :: "wdb_call list" where
  "demo_calls = [ObserveWithdrawal demo_request, SyncVaultUtxos [demo_observed 1 1000] 1 11,
     ReserveUtxos 5 [demo_input 1 1000] 11, CreatePayout demo_payout]"

abbreviation demo_sha :: sha256 where
  "demo_sha \<equiv> \<lambda>_. 0"

definition exec_calls :: "sha256 \<Rightarrow> wdb_call list \<Rightarrow> withdrawal_db \<Rightarrow> withdrawal_db" where
  "exec_calls H calls d = foldl (\<lambda>d c. wdb_exec H c d) d calls"

lemma exec_calls_simps [simp]:
  "exec_calls H [] d = d" "exec_calls H (c # cs) d = exec_calls H cs (wdb_exec H c d)"
  by (simp_all add: exec_calls_def)

lemma run_exec_calls: "wdb.run H d calls (exec_calls H calls d)"
  by (induction calls arbitrary: d) (simp_all add: wdb.run_Nil wdb.run_Cons_iff wdb_step_def)

lemma reachable_exec_calls: "wdb.reachable H (exec_calls H calls empty_withdrawal_db)"
  by (rule wdb.reachable_run [OF wdb.reachable_init run_exec_calls]) (simp add: wdb_init_def)

definition demo_db :: withdrawal_db where
  "demo_db = exec_calls demo_sha demo_calls empty_withdrawal_db"

definition demo_signed_db :: withdrawal_db where
  "demo_signed_db = wdb_exec demo_sha (RecordSignedPayout 5 [2] 4 13) demo_db"

lemmas demo_defs = demo_calls_def demo_request_def demo_observed_def demo_input_def demo_payout_def
  empty_withdrawal_db_def observe_withdrawal_def sync_vault_utxos_def upsert_utxo_def
  reserve_utxos_def create_payout_def new_payout_row_def insert_log_def log_entry_def Let_def

lemma demo_db_eq:
  "demo_db = \<lparr>withdrawal_requests =
      [\<lparr>wq_index = 5, wq_pda = 9, wq_amount_atomic = 100, wq_requester = 7, wq_glc_address = [],
        wq_hash160 = 3, wq_requested_at_slot = 1, wq_protocol_version = 1, wq_observed_at = 10,
        wq_observed_at_slot = 1, wq_state = ws_as_str WObserved, wq_failure_reason = None\<rparr>],
    withdrawal_payouts = [new_payout_row demo_payout],
    vault_utxos =
      [\<lparr>vx_txid = 1, vx_vout = 0, vx_txid_hex = hex_encode (le_bytes (1 :: bytes32)),
        vx_amount_atomic = 1000, vx_script_pubkey_hex = [], vx_confirmations = 6,
        vx_first_seen_at = 11, vx_state = ''Reserved'', vx_reserved_by = Some 5,
        vx_reserved_at = Some 11, vx_spent_by_txid_hex = None\<rparr>],
    withdrawal_payout_inputs =
      [\<lparr>pi_index = 5, pi_order = 0, pi_txid = 1, pi_vout = 0, pi_amount_atomic = 1000\<rparr>],
    withdrawal_state_log =
      [log_entry 5 None (ws_as_str WObserved) 10 (Some (ascii ''observed at finalized commitment''))],
    withdrawal_quorum_history = []\<rparr>"
  by (simp add: demo_db_def demo_defs word_sle_eq)

theorem outpoint_funds_one_payout_witness:
  "\<exists>u p. u \<in> set (vault_utxos demo_db) \<and> vx_state u = ''Reserved'' \<and>
     (\<exists>i. vx_reserved_by u = Some i \<and> request_at demo_db i \<noteq> None) \<and>
     p \<in> set (withdrawal_payouts demo_db) \<and> request_at demo_db (wp_index p) \<noteq> None"
proof -
  have "\<exists>u p. u \<in> set (vault_utxos demo_db) \<and> vx_state u = ''Reserved'' \<and> p \<in> set (withdrawal_payouts demo_db)"
    by (simp add: demo_db_eq)
  then show ?thesis
    using outpoint_funds_one_payout [OF reachable_exec_calls, of demo_sha demo_calls]
    unfolding demo_db_def by meson
qed

theorem signed_payout_frozen_witness:
  "\<exists>p'. payout_at (wdb_exec demo_sha (RecordSignedPayout 5 [99] 8 20) demo_signed_db) 5 = Some p' \<and>
     wp_signed_tx_hex p' = Some [2]"
proof -
  have "wdb.reachable demo_sha demo_signed_db"
    unfolding demo_signed_db_def demo_db_def
    using reachable_exec_calls [of demo_sha "demo_calls @ [RecordSignedPayout 5 [2] 4 13]"]
    by (simp add: exec_calls_def)
  moreover have "wdb.run demo_sha demo_signed_db [RecordSignedPayout 5 [99] 8 20]
      (wdb_exec demo_sha (RecordSignedPayout 5 [99] 8 20) demo_signed_db)"
    using run_exec_calls [of demo_sha demo_signed_db "[RecordSignedPayout 5 [99] 8 20]"] by simp
  moreover have "\<exists>p. payout_at demo_signed_db 5 = Some p \<and> wp_signed_tx_hex p = Some [2]"
    by (simp add: demo_signed_db_def demo_db_eq record_signed_payout_def set_request_state_def
        insert_log_def log_entry_def Let_def new_payout_row_def demo_payout_def)
  ultimately show ?thesis using signed_payout_frozen by blast
qed

definition demo_signable :: signable_payout where
  "demo_signable = \<lparr>sp_index = 5, sp_unsigned_tx_hex = [1], sp_payout_atomic = 100,
     sp_fee_atomic = 10, sp_change_atomic = 890, sp_change_address = None, sp_hash160 = 3,
     sp_vault_script_hash = 2, sp_quorum_indices = [0, 1], sp_quorum_attempt = 0,
     sp_inputs = [demo_input 1 1000], sp_commitment_hash = 0, sp_intent_bytes = demo_intent\<rparr>"

lemma demo_verify:
  "verify_and_load_signable_payout demo_sha 5 14 demo_db = (Ok demo_signable, demo_db)"
  by (simp add: verify_and_load_signable_payout_def demo_db_eq new_payout_row_def demo_payout_def
      input_rows_def order_by_def change_hash160_of_def payout_commitment_def demo_intent_def
      demo_input_def demo_signable_def Let_def)

theorem signable_payout_exact_witness:
  "\<exists>w p. request_at demo_db 5 = Some w \<and> payout_at demo_db 5 = Some p \<and>
     sp_payout_atomic demo_signable = wq_amount_atomic w \<and> wp_signed_tx_hex p = None"
  using signable_payout_exact [OF demo_verify] by blast

definition bad_change_db :: withdrawal_db where
  "bad_change_db = update_payout 5 (\<lambda>p. p\<lparr>wp_change_address := Some []\<rparr>) demo_db"


section \<open>The order of the spendable outputs\<close>

text \<open>
  The amounts are stored as little-endian blobs, and SQLite compares blobs byte by byte from the
  first, least significant one: three outputs of 255 units come before two of 655360.
\<close>

definition order_calls :: "wdb_call list" where
  "order_calls = [SyncVaultUtxos [demo_observed 1 655360, demo_observed 2 655360,
     demo_observed 3 255, demo_observed 4 255, demo_observed 5 255] 1 11]"

definition order_db :: withdrawal_db where
  "order_db = exec_calls demo_sha order_calls empty_withdrawal_db"

definition order_by_value :: "vault_utxo list" where
  "order_by_value = [demo_input 1 655360, demo_input 2 655360, demo_input 3 255, demo_input 4 255,
     demo_input 5 255]"

lemma bytes_less_irrefl [simp]: "\<not> bytes_less xs xs"
  by (induction xs) auto

text \<open>The first byte decides the comparisons below.\<close>

lemma le_bytes_first:
  "le_bytes (w :: u64) = ucast w # map (\<lambda>i. ucast (drop_bit (8 * i) w)) [1..<8]"
  "le_bytes (v :: bytes32) = ucast v # map (\<lambda>i. ucast (drop_bit (8 * i) v)) [1..<32]"
  by (simp_all add: le_bytes_def upt_conv_Cons)

lemma demo_amount_order:
  "bytes_less (le_bytes (655360 :: u64)) (le_bytes (255 :: u64))"
  "\<not> bytes_less (le_bytes (255 :: u64)) (le_bytes (655360 :: u64))"
  by (simp_all add: le_bytes_first)

lemma hex_digit_order:
  assumes "a < 10" "b < 10"
  shows "hex_digit a < hex_digit b \<longleftrightarrow> a < b" "hex_digit a = hex_digit b \<longleftrightarrow> a = b"
proof -
  from assms have "unat (hex_digit a) = 48 + a" "unat (hex_digit b) = 48 + b"
    by (simp_all add: hex_digit_def unat_of_nat del: of_nat_add)
  then show "hex_digit a < hex_digit b \<longleftrightarrow> a < b" "hex_digit a = hex_digit b \<longleftrightarrow> a = b"
    by (simp_all add: word_less_nat_alt word_unat_eq_iff)
qed

lemma demo_txid_order:
  assumes "a < 10" "b < 10"
  shows "bytes_less (hex_encode (le_bytes (word_of_nat a :: bytes32)))
      (hex_encode (le_bytes (word_of_nat b :: bytes32))) \<longleftrightarrow> a < b"
proof (cases "a = b")
  case False
  from assms have "ucast (word_of_nat a :: bytes32) = (word_of_nat a :: u8)"
    "ucast (word_of_nat b :: bytes32) = (word_of_nat b :: u8)"
    "unat (word_of_nat a :: u8) = a" "unat (word_of_nat b :: u8) = b"
    by (simp_all add: unat_of_nat word_unat_eq_iff unsigned_ucast_eq take_bit_nat_eq_self)
  with False assms show ?thesis
    by (simp add: le_bytes_first hex_digit_order)
qed simp

lemma order_db_available:
  "available_utxos order_db 1 = [demo_input 3 255, demo_input 4 255, demo_input 5 255,
     demo_input 1 655360, demo_input 2 655360]"
  using demo_txid_order [of 1 2] demo_txid_order [of 2 1] demo_txid_order [of 3 4]
    demo_txid_order [of 4 3] demo_txid_order [of 4 5] demo_txid_order [of 5 4]
    demo_txid_order [of 3 5] demo_txid_order [of 5 3]
  by (simp add: order_db_def order_calls_def demo_observed_def demo_input_def empty_withdrawal_db_def
      sync_vault_utxos_def upsert_utxo_def available_utxos_def order_by_def available_less_def
      row_to_utxo_def demo_amount_order word_sle_eq Let_def)

text \<open>
  The list of spendable outputs that the database hands to coin selection is not ordered by
  value, although coin selection relies on that order: there is a reachable database and a payout
  for which the selection on that list fails with too many inputs, while the selection on the same
  outputs in the documented order succeeds.
\<close>

theorem available_not_by_value:
  "\<exists>d cs s. wdb.reachable demo_sha d \<and> mset cs = mset (available_utxos d 1) \<and> by_value cs \<and>
     select cs 1000000 10000 5400 2 = Ok s \<and>
     \<not> by_value (available_utxos d 1) \<and>
     select (available_utxos d 1) 1000000 10000 5400 2 = Err (TooManyInputs 3 2)"
proof -
  have "wdb.reachable demo_sha order_db" unfolding order_db_def by (rule reachable_exec_calls)
  moreover have "mset order_by_value = mset (available_utxos order_db 1)"
    by (simp add: order_db_available order_by_value_def)
  moreover have "by_value order_by_value" by (simp add: order_by_value_def demo_input_def)
  moreover have "\<exists>s. select order_by_value 1000000 10000 5400 2 = Ok s"
    by (simp add: select_eval order_by_value_def demo_input_def)
  moreover have "\<not> by_value (available_utxos order_db 1)"
    by (simp add: order_db_available demo_input_def)
  moreover have "select (available_utxos order_db 1) 1000000 10000 5400 2 = Err (TooManyInputs 3 2)"
    by (simp add: select_eval order_db_available demo_input_def)
  ultimately show ?thesis by blast
qed

section \<open>Outputs that are no longer reported\<close>

lemma fold_mark_keeps:
  assumes "r \<in> set rows" "\<And>t. t \<in> set tracked \<Longrightarrow> vx_txid_hex t \<noteq> vx_txid_hex r"
  shows "r \<in> set (foldl (\<lambda>rows t. update_where (\<lambda>r. vx_txid_hex r = vx_txid_hex t \<and> vx_vout r = vx_vout t)
    (\<lambda>r. r\<lparr>vx_state := ''Spent''\<rparr>) rows) rows tracked)"
  using assms
proof (induction tracked arbitrary: rows)
  case (Cons t tracked)
  from Cons.prems have "r \<in> set (update_where (\<lambda>r. vx_txid_hex r = vx_txid_hex t \<and> vx_vout r = vx_vout t)
      (\<lambda>r. r\<lparr>vx_state := ''Spent''\<rparr>) rows)"
    by (force simp: update_where_def)
  with Cons show ?case by simp
qed simp

text \<open>
  The node reports outpoints, but the marking compares transaction ids only: an output that the
  node no longer reports stays spendable as long as another output of its transaction is reported.
\<close>

theorem mark_missing_ignores_vout:
  assumes "r \<in> set (vault_utxos d)" "t \<in> set present" "vx_txid_hex r = hex_encode (le_bytes t)"
  shows "r \<in> set (vault_utxos (snd (mark_missing_utxos_spent present d)))"
  using assms
  by (auto simp: mark_missing_utxos_spent_def missing_utxo_def Let_def intro!: fold_mark_keeps)

end
