(* ===== verification/ExecutorDemo.thy ===== *)
theory ExecutorDemo
  imports ExecutorSafety WithdrawalDemo
begin

text \<open>
  Concrete runs of the executor from an empty database, the witnesses of its guarantees: a node
  that fails while a payout is built, a payout whose signature cannot be assembled and that an
  operator recovers, and a payout that is signed and broadcast.
\<close>

section \<open>A node that fails while a payout is built\<close>

definition demo_config :: withdrawal_config where
  "demo_config = \<lparr>wc_vault = sample_vault2, wc_vault_address = [], wc_vault_hash160 = 0,
     wc_change_address = [], wc_change_hash160 = 0, wc_fee_rate_per_kb = 0,
     wc_dust_threshold_atomic = 1, wc_vault_min_confirmations = 1, wc_confirmation_depth = 1,
     wc_max_inputs_per_payout = 5, wc_reservation_timeout_secs = 10,
     wc_discovery_commitment = Finalized, wc_poll_interval_ms = 0\<rparr>"

definition demo_env :: "(unit, bytes, bytes33) executor_env" where
  "demo_env = \<lparr>en_sha256 = demo_sha, en_secp = sample_secp, en_config = demo_config,
     en_assignment = None,
     list_unspent = \<lambda>_ _ w. (Ok [demo_observed 1 100], w),
     create_raw_transaction = \<lambda>_ _ w. (Err (Transport []), w),
     decode_raw_transaction = \<lambda>_ w. (Err (Transport []), w),
     send_raw_transaction = \<lambda>_ w. (Ok (Accepted []), w),
     transaction_confirmations = \<lambda>_ w. (Ok None, w),
     block_on_main_chain = \<lambda>_ w. (Ok True, w),
     collect_payout_partials = \<lambda>_ _ _ _ _ _ w. ([], w),
     en_onchain = None, en_now_unix = \<lambda>w. (20, w), en_epoch = \<lambda>_. seeded 1 20,
     show_address_error = \<lambda>_. [], show_verify_error = \<lambda>_. [], show_multisig_error = \<lambda>_. [],
     show_vault_error = \<lambda>_. [], show_hex_error = \<lambda>_. []\<rparr>"

definition demo_discovered :: new_withdrawal_request where
  "demo_discovered = demo_request\<lparr>nw_glc_address := encode_p2pkh demo_sha 3\<rparr>"

definition demo_start :: "unit ex_state" where
  "demo_start = \<lparr>ex_db = empty_withdrawal_db, ex_world = (), ex_report = default_report, ex_sent = []\<rparr>"

lemma demo_address: "decode_p2pkh_hash160 demo_sha (encode_p2pkh demo_sha 3) = Ok 3"
  by (simp add: decode_p2pkh_hash160_def encode_p2pkh_def base58check_decode_encode)

definition demo_ingested :: "unit ex_state" where
  "demo_ingested = snd (ingest_discovered [demo_discovered] demo_start)"

lemma demo_ingested_eq:
  "demo_ingested = demo_start\<lparr>ex_db := empty_withdrawal_db\<lparr>withdrawal_requests :=
      [\<lparr>wq_index = 5, wq_pda = 9, wq_amount_atomic = 100, wq_requester = 7,
        wq_glc_address = encode_p2pkh demo_sha 3,
        wq_hash160 = 3, wq_requested_at_slot = 1, wq_protocol_version = 1, wq_observed_at = 10,
        wq_observed_at_slot = 1, wq_state = ws_as_str WObserved, wq_failure_reason = None\<rparr>],
    withdrawal_state_log :=
      [log_entry 5 None (ws_as_str WObserved) 10 (Some (ascii ''observed at finalized commitment''))]\<rparr>\<rparr>"
  by (simp add: demo_ingested_def demo_discovered_def demo_start_def demo_defs ebind_def edb_def eret_def)

lemmas exec_eval = ebind_def edb_def etry_def equery_def erpc_def eworld_def ereport_def esent_def
  eret_def elift_def transition_def require_withdrawal_def for_state_def

lemmas db_eval = empty_withdrawal_db_def withdrawals_by_state_def all_ok_def row_to_withdrawal_def
  order_by_def get_withdrawal_def get_payout_def transition_withdrawal_def ws_parse_def
  may_transition_to_def insert_log_def log_entry_def coalesce_def sync_vault_utxos_def
  upsert_utxo_def mark_missing_utxos_spent_def missing_utxo_def reserved_utxos_def
  withdrawal_eligible_since_def available_utxos_def row_to_utxo_def reserve_utxos_def

lemma demo_tick_building:
  "\<exists>r. request_at (ex_db (snd (tick demo_env demo_ingested))) 5 = Some r \<and> wq_state r = ws_as_str WBuilding"
  by (simp add: demo_ingested_eq demo_start_def tick_def exec_eval db_eval demo_env_def demo_config_def
      sync_vault_def reclaim_abandoned_reservations_def validate_withdrawal_def
      demo_address build_if_eligible_def executor_may_build_def build_def select_eval
      build_payout_def classify_def is_retriable_def demo_observed_def word_sle_eq word_sless_alt)

lemma demo_reachable_ingested: "ex_reachable env demo_ingested"
proof -
  have "ex_step env demo_start (Ingest [demo_discovered]) demo_ingested"
    by (simp add: ex_step_def demo_ingested_def)
  moreover have "ex_init demo_start" by (simp add: ex_init_def demo_start_def)
  ultimately show ?thesis using ex.reachable_init ex.reachable_step by blast
qed

lemma tick_reachable: "ex_reachable env s \<Longrightarrow> ex_reachable env (snd (tick env s))"
  by (erule ex.reachable_step [where l = Tick]) (simp add: ex_step_def)

lemma tick_run: "ex_run env s [Tick] (snd (tick env s))"
  by (rule ex.run_one) (simp add: ex_step_def)

theorem building_is_never_resumed_witness:
  "\<exists>r. request_at (ex_db (snd (tick demo_env (snd (tick demo_env demo_ingested))))) 5 = Some r \<and>
     wq_state r = ws_as_str WBuilding"
proof -
  obtain r where r: "request_at (ex_db (snd (tick demo_env demo_ingested))) 5 = Some r"
    "wq_state r = ws_as_str WBuilding" using demo_tick_building by blast
  from building_is_never_resumed [OF tick_reachable [OF demo_reachable_ingested] r tick_run] r(2)
  show ?thesis by (simp add: automatic_def)
qed

section \<open>A payout that is built and signed\<close>

definition demo_decoded :: decoded_tx where
  "demo_decoded = \<lparr>dt_txid_hex = hex_encode (rev (le_bytes (0 :: bytes32))),
     dt_inputs = [\<lparr>di_txid_hex = hex_encode (le_bytes (1 :: bytes32)), di_vout = 0\<rparr>],
     dt_outputs = [\<lparr>do_value_atomic = 100, do_script_pubkey_hex = p2pkh_script_hex 3\<rparr>]\<rparr>"

definition paying_env :: "partial_signature list \<Rightarrow> (unit, bytes, bytes33) executor_env" where
  "paying_env partials = demo_env\<lparr>
     create_raw_transaction := \<lambda>_ _ w. (Ok (serialize_hex sample_tx), w),
     decode_raw_transaction := \<lambda>_ w. (Ok demo_decoded, w),
     collect_payout_partials := \<lambda>_ _ _ _ _ _ w. (partials, w)\<rparr>"

lemma demo_parse: "parse_hex (serialize_hex sample_tx) = Ok sample_tx"
  using parse_serialize [of sample_tx "[]"]
  by (simp add: parse_hex_def serialize_hex_def decode_vec_encode wf_transaction_def sample_tx_def fits_usize_def)

definition useless_partials :: "partial_signature list" where
  "useless_partials = [\<lparr>ps_vault_pubkey = 1, ps_signatures = []\<rparr>, \<lparr>ps_vault_pubkey = 2, ps_signatures = []\<rparr>]"

lemma partials_length: "length useless_partials = 2" "length sample_partials = 2"
  by (simp_all add: useless_partials_def sample_partials_def)

lemma useless_assemble:
  "assemble H secp sample_tx v useless_partials = Err (InputCountMismatch 0)"
  by (simp add: assemble_def useless_partials_def sample_tx_def)

lemma demo_quorum: "designate_quorum 5 (Suc (Suc (Suc 0))) 2 = [0, 2]"
  by (simp add: designate_quorum_def numeral_2_eq_2)

lemma demo_verify_plan:
  "verify_payout_tx demo_decoded \<lparr>pp_dest_hash160 = 3, pp_payout_atomic = 100,
     pp_change_script_hex = None, pp_change_atomic = 0, pp_fee_atomic = 0, pp_inputs =
     [\<lparr>vu_txid = 1, vu_txid_hex = hex_encode (le_bytes (1 :: bytes32)), vu_vout = 0,
       vu_amount_atomic = 100, vu_script_pubkey_hex = [], vu_confirmations = 6\<rparr>]\<rparr> = Ok ()"
  by (simp add: verify_payout_tx_def demo_decoded_def eq_ignore_refl sum_amounts_def
      saturating_add_def)

lemmas tick_eval = demo_ingested_eq demo_start_def tick_def exec_eval db_eval demo_env_def demo_config_def
  sync_vault_def reclaim_abandoned_reservations_def validate_withdrawal_def
  demo_address build_if_eligible_def executor_may_build_def build_def select_eval
  build_payout_def demo_observed_def word_sle_eq word_sless_alt paying_env_def
  signer_count_def sample_vault2_def demo_quorum demo_verify_plan validate_quorum_def create_payout_def
  new_payout_row_def default_report_def

lemma demo_tick_halted:
  "\<exists>r p. request_at (ex_db (snd (tick (paying_env useless_partials) demo_ingested))) 5 = Some r \<and>
     wq_state r = ws_as_str WIntegrityHalted \<and>
     payout_at (ex_db (snd (tick (paying_env useless_partials) demo_ingested))) 5 = Some p"
  by (simp add: tick_eval sign_def verify_and_load_signable_payout_def input_rows_def
      change_hash160_of_def payout_commitment_def is_fresh_at_def seeded_def MAX_VIEW_STALENESS_def
      saturating_sub_i64_def demo_parse useless_assemble partials_length is_terminal_def halt_payout_def)

definition demo_recovered :: "unit ex_state" where
  "demo_recovered = (let s = snd (tick (paying_env useless_partials) demo_ingested) in
     s\<lparr>ex_db := wdb_exec demo_sha (OperatorClearWithdrawalHalt 5 WValidated [65] 30) (ex_db s)\<rparr>)"

lemma recovered_reachable: "ex_reachable (paying_env useless_partials) demo_recovered"
proof -
  let ?s = "snd (tick (paying_env useless_partials) demo_ingested)"
  have "ex_step (paying_env useless_partials) ?s
      (Operator (OperatorClearWithdrawalHalt 5 WValidated [65] 30)) demo_recovered"
    by (simp add: ex_step_def demo_recovered_def Let_def paying_env_def demo_env_def)
  with tick_reachable [OF demo_reachable_ingested] show ?thesis by (rule ex.reachable_step)
qed

lemma demo_note: "str_trim [65] = [65]"
  by code_simp

lemma recovered_rows:
  "\<exists>r p. request_at (ex_db demo_recovered) 5 = Some r \<and> wq_state r = ws_as_str WValidated \<and>
     payout_at (ex_db demo_recovered) 5 = Some p"
proof -
  obtain r p where r: "request_at (ex_db (snd (tick (paying_env useless_partials) demo_ingested))) 5 = Some r"
    "wq_state r = ws_as_str WIntegrityHalted"
    "payout_at (ex_db (snd (tick (paying_env useless_partials) demo_ingested))) 5 = Some p"
    using demo_tick_halted by blast
  from row_at_Some [OF r(1)] have "wq_index r = 5" by simp
  with r show ?thesis
    by (auto simp: demo_recovered_def Let_def operator_clear_withdrawal_halt_def demo_note
        insert_log_def row_at_update log_entry_def)
qed

theorem recovered_withdrawal_stops_ticks_witness:
  "\<exists>e. fst (tick (paying_env useless_partials) (snd (tick (paying_env useless_partials) demo_recovered))) = Err e"
proof -
  have "en_assignment (paying_env useless_partials) = None" by (simp add: paying_env_def demo_env_def)
  moreover obtain r p where "request_at (ex_db demo_recovered) 5 = Some r" "wq_state r = ws_as_str WValidated"
    "payout_at (ex_db demo_recovered) 5 = Some p" using recovered_rows by blast
  ultimately show ?thesis
    using recovered_withdrawal_stops_ticks [OF recovered_reachable _ _ _ _ tick_run]
    by (simp add: automatic_def)
qed

section \<open>A payout that is broadcast\<close>

lemma demo_txid:
  "dt_txid_hex demo_decoded = txid_hex demo_sha sample_signed"
  "decode_exact 32 (txid_hex demo_sha sample_signed) = Ok (rev (le_bytes (0 :: bytes32)))"
  using decode_exact_encode [of "rev (le_bytes (0 :: bytes32))"]
  by (simp_all add: demo_decoded_def txid_hex_def txid_def sha256d_def)

lemma demo_tick_sent:
  "\<exists>b. (5, b) \<in> set (ex_sent (snd (tick (paying_env sample_partials) demo_ingested)))"
  by (simp add: tick_eval sign_def verify_and_load_signable_payout_def input_rows_def
      change_hash160_of_def payout_commitment_def is_fresh_at_def seeded_def MAX_VIEW_STALENESS_def
      saturating_sub_i64_def demo_parse sample_assemble [unfolded sample_vault2_def] partials_length
      record_assembled_def demo_txid verify_signing_preserved_outputs_def record_signed_payout_def
      set_request_state_def first_broadcast_def rebroadcast_def row_to_payout_def safe_to_broadcast_def
      record_broadcast_def reconcile_broadcast_def orphan_def)

theorem one_transaction_per_withdrawal_witness:
  "\<exists>p b. payout_at (ex_db (snd (tick (paying_env sample_partials) demo_ingested))) 5 = Some p \<and>
     (5, b) \<in> set (ex_sent (snd (tick (paying_env sample_partials) demo_ingested))) \<and>
     wp_signed_tx_hex p = Some b"
proof -
  obtain b where b: "(5, b) \<in> set (ex_sent (snd (tick (paying_env sample_partials) demo_ingested)))"
    using demo_tick_sent by blast
  with one_transaction_per_withdrawal [OF tick_reachable [OF demo_reachable_ingested] b b]
  show ?thesis by blast
qed

end
