(* ===== verification/DepositDb.thy ===== *)
theory DepositDb
  imports PayoutIntent Tables Messages Vault
begin

text \<open>
  The deposit side of the relayer's database (\<^verbatim>\<open>relayer/src/glc/db.rs\<close>): the tables of schema
  versions 1 to 3, every operation on them, and the ladder of migrations.  As on the withdrawal
  side, a TEXT column that holds a state name is a string, other text is its UTF-8 bytes and a
  BLOB of fixed size is a word.  SHA-256 is a parameter.
\<close>

section \<open>The lifecycle of a deposit\<close>

datatype deposit_state =
    DCandidate | DConfirming | DReadyForSignature | DOrphaned | DSubmitted | DMinted | DFailed
  | DIntegrityHalted

fun ds_as_str :: "deposit_state \<Rightarrow> string" where
  "ds_as_str DCandidate = ''Candidate''"
| "ds_as_str DConfirming = ''Confirming''"
| "ds_as_str DReadyForSignature = ''ReadyForSignature''"
| "ds_as_str DOrphaned = ''Orphaned''"
| "ds_as_str DSubmitted = ''Submitted''"
| "ds_as_str DMinted = ''Minted''"
| "ds_as_str DFailed = ''Failed''"
| "ds_as_str DIntegrityHalted = ''IntegrityHalted''"

definition ds_parse :: "string \<Rightarrow> (deposit_state, db_error) result" where
  "ds_parse s =
     (if s = ''Candidate'' then Ok DCandidate
      else if s = ''Confirming'' then Ok DConfirming
      else if s = ''ReadyForSignature'' then Ok DReadyForSignature
      else if s = ''Orphaned'' then Ok DOrphaned
      else if s = ''Submitted'' then Ok DSubmitted
      else if s = ''Minted'' then Ok DMinted
      else if s = ''Failed'' then Ok DFailed
      else if s = ''IntegrityHalted'' then Ok DIntegrityHalted
      else Err (UnknownState s))"

definition is_active :: "deposit_state \<Rightarrow> bool" where
  "is_active s \<longleftrightarrow> s = DCandidate \<or> s = DConfirming \<or> s = DReadyForSignature \<or> s = DSubmitted"

section \<open>Tables\<close>

record indexed_block =
  ib_height :: i64
  ib_hash :: bytes32
  ib_prev_hash :: bytes32
  ib_block_time :: i64
  ib_indexed_at :: i64

record deposit_candidate_row =
  cd_id :: i64
  cd_txid :: bytes32
  cd_txid_hex :: bytes
  cd_vout :: i64
  cd_amount_atomic :: u64
  cd_recipient :: bytes32
  cd_block_height :: i64
  cd_block_hash :: bytes32
  cd_raw_tx_hex :: bytes
  cd_state :: string
  cd_discovered_at :: i64
  cd_ready_at :: "i64 option"
  cd_failure_reason :: "bytes option"
  cd_submitted_signature :: "bytes option"

record deposit_log_row =
  dl_deposit_id :: i64
  dl_from_state :: "string option"
  dl_to_state :: string
  dl_at :: i64
  dl_reason :: "bytes option"
  dl_block_hash :: bytes32
  dl_expected_message_hash :: "bytes32 option"
  dl_recomputed_message_hash :: "bytes32 option"
  dl_differing_fields :: "string option"

record reorg_event =
  re_detected_at :: i64
  re_fork_height :: i64
  re_old_tip_height :: i64
  re_old_tip_hash :: bytes32
  re_new_tip_height :: i64
  re_new_tip_hash :: bytes32
  re_orphaned_count :: i64

record claim_artifact =
  ca_deposit_id :: i64
  ca_canonical_message :: bytes
  ca_message_hash :: bytes32
  ca_protocol_version :: u8
  ca_validator_epoch :: u64
  ca_program_id :: bytes32
  ca_wrapped_mint :: bytes32
  ca_created_at :: i64

text \<open>
  \<open>deposit_sequence\<close> is the largest id handed out so far (AUTOINCREMENT); \<open>chain_state\<close> has at
  most one row.
\<close>

record deposit_db =
  indexed_blocks :: "indexed_block list"
  chain_state :: "(i64 \<times> bytes32) option"
  deposit_candidates :: "deposit_candidate_row list"
  deposit_sequence :: i64
  deposit_state_log :: "deposit_log_row list"
  reorg_events :: "reorg_event list"
  claim_artifacts :: "claim_artifact list"

definition empty_deposit_db :: deposit_db where
  "empty_deposit_db = \<lparr>indexed_blocks = [], chain_state = None, deposit_candidates = [],
     deposit_sequence = 0, deposit_state_log = [], reorg_events = [], claim_artifacts = []\<rparr>"

section \<open>Rows as the code reads and writes them\<close>

record new_candidate =
  nc_txid :: bytes32
  nc_vout :: i64
  nc_amount_atomic :: u64
  nc_recipient :: bytes32
  nc_block_height :: i64
  nc_block_hash :: bytes32
  nc_raw_tx_hex :: bytes
  nc_discovered_at :: i64
  nc_initial_state :: deposit_state
  nc_failure_reason :: "bytes option"

record deposit_row =
  dr_id :: i64
  dr_txid :: bytes32
  dr_txid_hex :: bytes
  dr_vout :: i64
  dr_amount_atomic :: u64
  dr_recipient :: bytes32
  dr_block_height :: i64
  dr_block_hash :: bytes32
  dr_raw_tx_hex :: bytes
  dr_state :: deposit_state
  dr_discovered_at :: i64
  dr_ready_at :: "i64 option"
  dr_failure_reason :: "bytes option"
  dr_submitted_signature :: "bytes option"

record stored_claim =
  st_deposit_id :: i64
  st_txid :: bytes32
  st_vout :: i64
  st_amount_atomic :: u64
  st_recipient :: bytes32
  st_state :: string
  st_canonical_message :: bytes
  st_message_hash :: bytes32
  st_protocol_version :: u8
  st_validator_epoch :: u64
  st_program_id :: bytes32
  st_wrapped_mint :: bytes32

record signable_claim =
  sc_deposit_id :: i64
  sc_message :: bytes
  sc_txid :: bytes32
  sc_vout :: u32
  sc_amount_atomic :: u64
  sc_recipient :: bytes32
  sc_program_id :: bytes32
  sc_wrapped_mint :: bytes32
  sc_validator_epoch :: u64

text \<open>A state name nobody knows reads as \<open>Failed\<close>.\<close>

definition row_to_deposit :: "deposit_candidate_row \<Rightarrow> deposit_row" where
  "row_to_deposit r = \<lparr>dr_id = cd_id r, dr_txid = cd_txid r, dr_txid_hex = cd_txid_hex r,
     dr_vout = cd_vout r, dr_amount_atomic = cd_amount_atomic r, dr_recipient = cd_recipient r,
     dr_block_height = cd_block_height r, dr_block_hash = cd_block_hash r,
     dr_raw_tx_hex = cd_raw_tx_hex r,
     dr_state = (case ds_parse (cd_state r) of Ok s \<Rightarrow> s | Err _ \<Rightarrow> DFailed),
     dr_discovered_at = cd_discovered_at r, dr_ready_at = cd_ready_at r,
     dr_failure_reason = cd_failure_reason r, dr_submitted_signature = cd_submitted_signature r\<rparr>"

abbreviation deposit_at :: "deposit_db \<Rightarrow> i64 \<Rightarrow> deposit_candidate_row option" where
  "deposit_at d i \<equiv> row_at cd_id i (deposit_candidates d)"

abbreviation deposit_key :: "deposit_candidate_row \<Rightarrow> bytes32 \<times> i64 \<times> bytes32" where
  "deposit_key r \<equiv> (cd_txid r, cd_vout r, cd_block_hash r)"

abbreviation deposit_keyed :: "deposit_db \<Rightarrow> bytes32 \<times> i64 \<times> bytes32 \<Rightarrow> deposit_candidate_row option" where
  "deposit_keyed d k \<equiv> row_at deposit_key k (deposit_candidates d)"

abbreviation artifact_at :: "deposit_db \<Rightarrow> i64 \<Rightarrow> claim_artifact option" where
  "artifact_at d i \<equiv> row_at ca_deposit_id i (claim_artifacts d)"

abbreviation block_at :: "deposit_db \<Rightarrow> i64 \<Rightarrow> indexed_block option" where
  "block_at d h \<equiv> row_at ib_height h (indexed_blocks d)"

text \<open>A row of the state log without forensic columns; its foreign key is the deposit.\<close>

definition deposit_log_entry ::
  "i64 \<Rightarrow> string option \<Rightarrow> string \<Rightarrow> i64 \<Rightarrow> bytes option \<Rightarrow> bytes32 \<Rightarrow> deposit_log_row" where
  "deposit_log_entry i from to at reason hash = \<lparr>dl_deposit_id = i, dl_from_state = from,
     dl_to_state = to, dl_at = at, dl_reason = reason, dl_block_hash = hash,
     dl_expected_message_hash = None, dl_recomputed_message_hash = None, dl_differing_fields = None\<rparr>"

definition insert_deposit_log :: "deposit_log_row \<Rightarrow> deposit_db \<Rightarrow> (deposit_db, db_error) result" where
  "insert_deposit_log l d =
     (if deposit_at d (dl_deposit_id l) = None
        then Err (Sqlite (ConstraintViolation ''FOREIGN KEY deposit_state_log''))
      else Ok (d\<lparr>deposit_state_log := deposit_state_log d @ [l]\<rparr>))"

definition update_deposit ::
  "i64 \<Rightarrow> (deposit_candidate_row \<Rightarrow> deposit_candidate_row) \<Rightarrow> deposit_db \<Rightarrow> deposit_db" where
  "update_deposit i f d =
     d\<lparr>deposit_candidates := update_where (\<lambda>r. cd_id r = i) f (deposit_candidates d)\<rparr>"

section \<open>Migrations\<close>

definition CURRENT_SCHEMA_VERSION :: int where "CURRENT_SCHEMA_VERSION = 6"

text \<open>
  The version row of the database and the schema steps executed on it so far.  A step creates
  tables or adds columns, so executing it a second time is an error; a step that is not defined
  is the \<open>unreachable!\<close> of the code.
\<close>

record schema_state =
  sch_version :: "int option"
  sch_applied :: "int list"

definition apply_schema :: "int \<Rightarrow> int list \<Rightarrow> (int list, db_error) result" where
  "apply_schema step applied =
     (if step < 1 \<or> 6 < step then Err (Sqlite Panic)
      else if step \<in> set applied then Err (Sqlite (ConstraintViolation ''duplicate schema object''))
      else Ok (applied @ [step]))"

fun apply_ladder :: "int list \<Rightarrow> int list \<Rightarrow> (int list, db_error) result" where
  "apply_ladder [] applied = Ok applied"
| "apply_ladder (step # steps) applied = and_then (apply_schema step applied) (apply_ladder steps)"

definition run_migrations :: "(unit, schema_state) db_op" where
  "run_migrations s =
     (if (case sch_version s of None \<Rightarrow> False | Some v \<Rightarrow> CURRENT_SCHEMA_VERSION < v)
        then (Err (UnsupportedSchemaVersion (word_of_int (the (sch_version s)))
               (word_of_int CURRENT_SCHEMA_VERSION)), s)
      else let from_version = (case sch_version s of None \<Rightarrow> 0 | Some v \<Rightarrow> v) in
        transact (and_then (apply_ladder [from_version + 1..CURRENT_SCHEMA_VERSION] (sch_applied s)) (\<lambda>applied.
          Ok ((), \<lparr>sch_version = Some CURRENT_SCHEMA_VERSION, sch_applied = applied\<rparr>))) s)"

section \<open>Blocks and reorganizations\<close>

text \<open>INSERT OR IGNORE: a block whose height or hash is taken changes nothing.\<close>

definition insert_block :: "indexed_block \<Rightarrow> deposit_db \<Rightarrow> deposit_db" where
  "insert_block b d =
     (if ib_height b \<in> ib_height ` set (indexed_blocks d) \<or> ib_hash b \<in> ib_hash ` set (indexed_blocks d)
      then d else d\<lparr>indexed_blocks := indexed_blocks d @ [b]\<rparr>)"

text \<open>
  INSERT OR IGNORE on the key \<open>(txid, vout, block_hash)\<close>.  A new row gets the next id; when
  the ids are used up SQLite fails.
\<close>

definition insert_candidate :: "new_candidate \<Rightarrow> deposit_db \<Rightarrow> (deposit_db, db_error) result" where
  "insert_candidate c d =
     (if (nc_txid c, nc_vout c, nc_block_hash c) \<in> deposit_key ` set (deposit_candidates d) then Ok d
      else if sint (deposit_sequence d) = 2 ^ 63 - 1
        then Err (Sqlite (ConstraintViolation ''FULL deposit_candidates''))
      else let i = deposit_sequence d + 1 in
        Ok (d\<lparr>deposit_sequence := i, deposit_candidates := deposit_candidates d @
          [\<lparr>cd_id = i, cd_txid = nc_txid c, cd_txid_hex = hex_encode (le_bytes (nc_txid c)),
            cd_vout = nc_vout c, cd_amount_atomic = nc_amount_atomic c, cd_recipient = nc_recipient c,
            cd_block_height = nc_block_height c, cd_block_hash = nc_block_hash c,
            cd_raw_tx_hex = nc_raw_tx_hex c, cd_state = ds_as_str (nc_initial_state c),
            cd_discovered_at = nc_discovered_at c, cd_ready_at = None,
            cd_failure_reason = nc_failure_reason c, cd_submitted_signature = None\<rparr>]\<rparr>))"

definition ingest_candidate :: "new_candidate \<Rightarrow> deposit_db \<Rightarrow> (i64 \<times> deposit_db, db_error) result" where
  "ingest_candidate c d =
     and_then (insert_candidate c d) (\<lambda>d.
     and_then (ok_or (Sqlite QueryReturnedNoRows)
       (deposit_keyed d (nc_txid c, nc_vout c, nc_block_hash c))) (\<lambda>r.
     and_then (insert_deposit_log (deposit_log_entry (cd_id r) None (ds_as_str (nc_initial_state c))
       (nc_discovered_at c) (nc_failure_reason c) (nc_block_hash c)) d) (\<lambda>d.
     Ok (cd_id r, d))))"

fun ingest_candidates ::
  "new_candidate list \<Rightarrow> deposit_db \<Rightarrow> (i64 list \<times> deposit_db, db_error) result" where
  "ingest_candidates [] d = Ok ([], d)"
| "ingest_candidates (c # cs) d =
     and_then (ingest_candidate c d) (\<lambda>(i, d).
     and_then (ingest_candidates cs d) (\<lambda>(ids, d). Ok (i # ids, d)))"

definition ingest_block :: "indexed_block \<Rightarrow> new_candidate list \<Rightarrow> (i64 list, deposit_db) db_op" where
  "ingest_block block candidates d = transact (
     ingest_candidates candidates
       ((insert_block block d)\<lparr>chain_state := Some (ib_height block, ib_hash block)\<rparr>)) d"

definition active_above :: "i64 \<Rightarrow> deposit_candidate_row \<Rightarrow> bool" where
  "active_above fork_height r \<longleftrightarrow> fork_height <s cd_block_height r \<and>
     cd_state r \<in> {''Candidate'', ''Confirming'', ''ReadyForSignature'', ''Submitted''}"

text \<open>The loop over the rows found: one UPDATE and one log row each.\<close>

fun orphan_rows :: "i64 \<Rightarrow> deposit_candidate_row list \<Rightarrow> deposit_db \<Rightarrow> (deposit_db, db_error) result" where
  "orphan_rows at [] d = Ok d"
| "orphan_rows at (r # rs) d =
     and_then (insert_deposit_log (deposit_log_entry (cd_id r) (Some (cd_state r)) ''Orphaned'' at
         (Some (ascii ''reorg_rollback'')) (cd_block_hash r))
       (update_deposit (cd_id r) (\<lambda>r. r\<lparr>cd_state := ''Orphaned''\<rparr>) d)) (orphan_rows at rs)"

definition rollback_reorg ::
  "i64 \<Rightarrow> i64 \<Rightarrow> bytes32 \<Rightarrow> i64 \<Rightarrow> bytes32 \<Rightarrow> i64 \<Rightarrow> (i64, deposit_db) db_op" where
  "rollback_reorg fork_height new_tip_height new_tip_hash old_tip_height old_tip_hash at d = transact (
     let rows = filter (active_above fork_height) (deposit_candidates d);
         orphaned_count = word_of_nat (length rows)
     in and_then (orphan_rows at rows d) (\<lambda>d. Ok (orphaned_count,
       d\<lparr>indexed_blocks := filter (\<lambda>b. \<not> fork_height <s ib_height b) (indexed_blocks d),
         chain_state := Some (new_tip_height, new_tip_hash),
         reorg_events := reorg_events d @
           [\<lparr>re_detected_at = at, re_fork_height = fork_height, re_old_tip_height = old_tip_height,
             re_old_tip_hash = old_tip_hash, re_new_tip_height = new_tip_height,
             re_new_tip_hash = new_tip_hash, re_orphaned_count = orphaned_count\<rparr>]\<rparr>))) d"

section \<open>Transitions\<close>

definition insert_artifact :: "claim_artifact \<Rightarrow> deposit_db \<Rightarrow> (deposit_db, db_error) result" where
  "insert_artifact a d =
     (if deposit_at d (ca_deposit_id a) = None
        then Err (Sqlite (ConstraintViolation ''FOREIGN KEY claim_artifacts''))
      else if artifact_at d (ca_deposit_id a) \<noteq> None
        then Err (Sqlite (ConstraintViolation ''UNIQUE claim_artifacts (deposit_id)''))
      else if length (ca_canonical_message a) \<noteq> 166
        then Err (Sqlite (ConstraintViolation ''CHECK claim_artifacts''))
      else Ok (d\<lparr>claim_artifacts := claim_artifacts d @ [a]\<rparr>))"

definition transition_state ::
  "i64 \<Rightarrow> deposit_state \<Rightarrow> i64 \<Rightarrow> bytes option \<Rightarrow> claim_artifact option \<Rightarrow> (unit, deposit_db) db_op" where
  "transition_state i to at reason artifact d = transact (
     and_then (ok_or (Sqlite QueryReturnedNoRows) (deposit_at d i)) (\<lambda>r.
     let ready_at = (if to = DReadyForSignature then Some at else None);
         d1 = update_deposit i (\<lambda>r. r\<lparr>cd_state := ds_as_str to,
                cd_ready_at := coalesce ready_at (cd_ready_at r),
                cd_failure_reason := coalesce reason (cd_failure_reason r)\<rparr>) d
     in and_then (insert_deposit_log (deposit_log_entry i (Some (cd_state r)) (ds_as_str to) at reason
          (cd_block_hash r)) d1) (\<lambda>d2.
        and_then (case artifact of None \<Rightarrow> Ok d2 | Some a \<Rightarrow> insert_artifact a d2) (\<lambda>d3.
        Ok ((), d3))))) d"

definition mark_submitted :: "i64 \<Rightarrow> bytes \<Rightarrow> i64 \<Rightarrow> (unit, deposit_db) db_op" where
  "mark_submitted i signature at d = transact (
     and_then (ok_or (Sqlite QueryReturnedNoRows) (deposit_at d i)) (\<lambda>r.
     let d1 = update_deposit i (\<lambda>r. r\<lparr>cd_state := ds_as_str DSubmitted,
                cd_submitted_signature := Some signature\<rparr>) d
     in and_then (insert_deposit_log (deposit_log_entry i (Some (cd_state r)) (ds_as_str DSubmitted) at
          (Some signature) (cd_block_hash r)) d1) (\<lambda>d2. Ok ((), d2)))) d"

definition mark_minted :: "i64 \<Rightarrow> i64 \<Rightarrow> (unit, deposit_db) db_op" where
  "mark_minted i at = transition_state i DMinted at None None"

section \<open>The signing guard\<close>

definition CLAIM_FIELD_LAYOUT :: "(string \<times> nat \<times> nat) list" where
  "CLAIM_FIELD_LAYOUT = [(''domain_tag'', 0, 16), (''protocol_version'', 16, 17),
     (''program_id'', 17, 49), (''validator_epoch'', 49, 57), (''action_type'', 57, 58),
     (''txid'', 58, 90), (''vout'', 90, 94), (''amount_atomic'', 94, 102), (''recipient'', 102, 134),
     (''wrapped_mint'', 134, 166)]"

definition diff_claim_fields :: "bytes \<Rightarrow> bytes \<Rightarrow> string option" where
  "diff_claim_fields recomputed stored =
     (if length stored \<noteq> length recomputed \<or> length stored \<noteq> 166 then None
      else let differing = differing_fields CLAIM_FIELD_LAYOUT recomputed stored
           in if differing = [] then None else Some (join_comma differing))"

definition build_claim_message ::
  "u8 \<Rightarrow> bytes32 \<Rightarrow> u64 \<Rightarrow> bytes32 \<Rightarrow> u32 \<Rightarrow> u64 \<Rightarrow> bytes32 \<Rightarrow> bytes32 \<Rightarrow> bytes" where
  "build_claim_message protocol_version program_id epoch txid vout amount_atomic recipient wrapped_mint =
     deposit_claim_message protocol_version program_id epoch txid vout amount_atomic recipient wrapped_mint"

text \<open>
  On a mismatch the halt is committed before the error is returned, so the result carries the
  new database.
\<close>

definition verify_and_load_signable_message ::
  "sha256 \<Rightarrow> i64 \<Rightarrow> i64 \<Rightarrow> (signable_claim, deposit_db) db_op" where
  "verify_and_load_signable_message sha256 i at d =
     (case deposit_at d i of None \<Rightarrow> (Err (MissingClaimArtifact i), d)
      | Some r \<Rightarrow>
     (case artifact_at d i of None \<Rightarrow> (Err (MissingClaimArtifact i), d)
      | Some a \<Rightarrow>
     let self_consistent = (sha256 (ca_canonical_message a) = ca_message_hash a);
         recomputed = build_claim_message (ca_protocol_version a) (ca_program_id a)
           (ca_validator_epoch a) (cd_txid r) (ucast (cd_vout r)) (cd_amount_atomic r) (cd_recipient r)
           (ca_wrapped_mint a);
         recomputed_matches_stored = (recomputed = ca_canonical_message a) in
     if \<not> self_consistent \<or> \<not> recomputed_matches_stored then
       let reason = (if \<not> self_consistent then ''claim_artifact_self_inconsistent''
                     else ''claim_message_recomputed_mismatch'') in
       (Err (MessageIntegrityMismatch i reason),
        (update_deposit i (\<lambda>r. r\<lparr>cd_state := ds_as_str DIntegrityHalted,
           cd_failure_reason := Some (ascii reason)\<rparr>) d)
        \<lparr>deposit_state_log := deposit_state_log d @
          [(deposit_log_entry i (Some (cd_state r)) (ds_as_str DIntegrityHalted) at
             (Some (ascii reason)) (cd_block_hash r))
           \<lparr>dl_expected_message_hash := Some (ca_message_hash a),
             dl_recomputed_message_hash := Some (sha256 recomputed),
             dl_differing_fields := diff_claim_fields recomputed (ca_canonical_message a)\<rparr>]\<rparr>)
     else
       (Ok \<lparr>sc_deposit_id = i, sc_message = recomputed, sc_txid = cd_txid r,
          sc_vout = ucast (cd_vout r), sc_amount_atomic = cd_amount_atomic r,
          sc_recipient = cd_recipient r, sc_program_id = ca_program_id a,
          sc_wrapped_mint = ca_wrapped_mint a, sc_validator_epoch = ca_validator_epoch a\<rparr>, d)))"

definition operator_clear_integrity_halt ::
  "i64 \<Rightarrow> deposit_state \<Rightarrow> bytes \<Rightarrow> i64 \<Rightarrow> (unit, deposit_db) db_op" where
  "operator_clear_integrity_halt i to operator_note at d =
     (if str_trim operator_note = [] then (Err (OperatorNoteRequired i), d)
      else if to \<notin> {DReadyForSignature, DFailed}
        then (Err (InvalidIntegrityRecoveryTarget i (ds_as_str to)), d)
      else transact (
        and_then (ok_or (MissingClaimArtifact i) (deposit_at d i)) (\<lambda>r.
        if cd_state r \<noteq> ds_as_str DIntegrityHalted then Err (NotIntegrityHalted i (cd_state r))
        else let d1 = update_deposit i (\<lambda>r. r\<lparr>cd_state := ds_as_str to,
                 cd_failure_reason := Some operator_note\<rparr>) d
        in and_then (insert_deposit_log (deposit_log_entry i (Some (cd_state r)) (ds_as_str to) at
             (Some (ascii ''operator_recovery: '' @ operator_note)) (cd_block_hash r)) d1) (\<lambda>d2.
           Ok ((), d2)))) d)"

section \<open>Queries\<close>

definition chain_tip :: "deposit_db \<Rightarrow> (i64 \<times> bytes32) option" where
  "chain_tip d = chain_state d"

definition block_hash_at_height :: "deposit_db \<Rightarrow> i64 \<Rightarrow> bytes32 option" where
  "block_hash_at_height d h = map_option ib_hash (block_at d h)"

text \<open>Queries without ORDER BY visit the rows by id.\<close>

definition candidates_by_state :: "deposit_db \<Rightarrow> deposit_state \<Rightarrow> deposit_row list" where
  "candidates_by_state d st =
     map row_to_deposit (filter (\<lambda>r. cd_state r = ds_as_str st) (deposit_candidates d))"

definition history_for :: "deposit_db \<Rightarrow> bytes32 \<Rightarrow> i64 \<Rightarrow> deposit_row list" where
  "history_for d txid vout =
     map row_to_deposit (filter (\<lambda>r. cd_txid r = txid \<and> cd_vout r = vout) (deposit_candidates d))"

definition get_by_id :: "deposit_db \<Rightarrow> i64 \<Rightarrow> deposit_row option" where
  "get_by_id d i = map_option row_to_deposit (deposit_at d i)"

definition all_claim_artifacts :: "deposit_db \<Rightarrow> stored_claim list" where
  "all_claim_artifacts d = concat (map (\<lambda>r. map (\<lambda>a.
       \<lparr>st_deposit_id = cd_id r, st_txid = cd_txid r, st_vout = cd_vout r,
        st_amount_atomic = cd_amount_atomic r, st_recipient = cd_recipient r, st_state = cd_state r,
        st_canonical_message = ca_canonical_message a, st_message_hash = ca_message_hash a,
        st_protocol_version = ca_protocol_version a, st_validator_epoch = ca_validator_epoch a,
        st_program_id = ca_program_id a, st_wrapped_mint = ca_wrapped_mint a\<rparr>)
       (filter (\<lambda>a. ca_deposit_id a = cd_id r) (claim_artifacts d)))
     (order_by (\<lambda>a b. cd_id a <s cd_id b) (deposit_candidates d)))"

text \<open>\<open>sum()\<close> is modulo \<open>2^64\<close>.\<close>

definition ready_amount_sum_since :: "deposit_db \<Rightarrow> i64 \<Rightarrow> (u64, db_error) result" where
  "ready_amount_sum_since d since = Ok (sum_list (map cd_amount_atomic
     (filter (\<lambda>r. case cd_ready_at r of None \<Rightarrow> False | Some t \<Rightarrow> since \<le>s t) (deposit_candidates d))))"

definition minted_deposit_total :: "deposit_db \<Rightarrow> (u64, db_error) result" where
  "minted_deposit_total d = Ok (sum_list (map cd_amount_atomic
     (filter (\<lambda>r. cd_state r = ''Minted'') (deposit_candidates d))))"

definition deposit_counts_by_state :: "deposit_db \<Rightarrow> (string \<times> nat) list" where
  "deposit_counts_by_state d =
     map (\<lambda>s. (s, length (filter (\<lambda>r. cd_state r = s) (deposit_candidates d))))
       (remdups (map cd_state (deposit_candidates d)))"

end
