(* ===== verification/DepositStore.thy ===== *)
theory DepositStore
  imports DepositDb Systems
begin

text \<open>
  What the deposit tables guarantee whatever the callers do.  Every operation is a sequence of
  elementary changes: a new deposit, an update of the mutable columns of one deposit, a row
  appended to the log or to the artifacts, a change of the block tables.  Each elementary change
  keeps the invariant of the tables and the order of what is never taken back; the operations and
  the runs inherit both.
\<close>

section \<open>Names of states\<close>

lemma ds_parse_as_str [simp]: "ds_parse (ds_as_str st) = Ok st"
  by (cases st) (simp_all add: ds_parse_def)

lemma ds_parse_Ok: "ds_parse s = Ok st \<longleftrightarrow> s = ds_as_str st"
proof
  assume "ds_parse s = Ok st"
  then show "s = ds_as_str st" by (auto simp: ds_parse_def split: if_splits)
qed simp

lemma ds_as_str_inject [simp]: "ds_as_str a = ds_as_str b \<longleftrightarrow> a = b"
  by (metis ds_parse_as_str result.inject(1))

definition known_state :: "string \<Rightarrow> bool" where
  "known_state s \<longleftrightarrow> (\<exists>st. s = ds_as_str st)"

lemma known_state_as_str [simp]: "known_state (ds_as_str st)"
  by (auto simp: known_state_def)

lemma known_states [simp]: "known_state ''Orphaned''" "known_state ''Submitted''" "known_state ''IntegrityHalted''"
  using known_state_as_str [of DOrphaned] known_state_as_str [of DSubmitted] known_state_as_str [of DIntegrityHalted]
  by simp_all

section \<open>The invariant and the order\<close>

definition candidate_ok :: "i64 \<Rightarrow> deposit_candidate_row \<Rightarrow> bool" where
  "candidate_ok seqno r \<longleftrightarrow> 0 < sint (cd_id r) \<and> sint (cd_id r) \<le> sint seqno \<and>
     cd_txid_hex r = hex_encode (le_bytes (cd_txid r)) \<and> known_state (cd_state r)"

definition deposit_inv :: "deposit_db \<Rightarrow> bool" where
  "deposit_inv d \<longleftrightarrow>
     0 \<le> sint (deposit_sequence d) \<and>
     distinct (map cd_id (deposit_candidates d)) \<and> distinct (map deposit_key (deposit_candidates d)) \<and>
     (\<forall>r \<in> set (deposit_candidates d). candidate_ok (deposit_sequence d) r) \<and>
     distinct (map ca_deposit_id (claim_artifacts d)) \<and>
     (\<forall>a \<in> set (claim_artifacts d). ca_deposit_id a \<in> cd_id ` set (deposit_candidates d) \<and>
        length (ca_canonical_message a) = 166) \<and>
     (\<forall>l \<in> set (deposit_state_log d). dl_deposit_id l \<in> cd_id ` set (deposit_candidates d)) \<and>
     distinct (map ib_height (indexed_blocks d)) \<and> distinct (map ib_hash (indexed_blocks d))"

text \<open>The columns of a deposit that no operation writes.\<close>

definition deposit_facts ::
  "deposit_candidate_row \<Rightarrow> i64 \<times> bytes32 \<times> bytes \<times> i64 \<times> u64 \<times> bytes32 \<times> i64 \<times> bytes32 \<times> bytes \<times> i64" where
  "deposit_facts r = (cd_id r, cd_txid r, cd_txid_hex r, cd_vout r, cd_amount_atomic r, cd_recipient r,
     cd_block_height r, cd_block_hash r, cd_raw_tx_hex r, cd_discovered_at r)"

text \<open>Deposits, the log of their states and the frozen claims are only ever added to.\<close>

definition deposit_le :: "deposit_db \<Rightarrow> deposit_db \<Rightarrow> bool" where
  "deposit_le d d' \<longleftrightarrow>
     (\<exists>rs. map deposit_facts (deposit_candidates d') = map deposit_facts (deposit_candidates d) @ rs) \<and>
     (\<exists>ls. deposit_state_log d' = deposit_state_log d @ ls) \<and>
     (\<exists>as. claim_artifacts d' = claim_artifacts d @ as)"

lemma deposit_le_refl: "deposit_le d d"
  by (simp add: deposit_le_def)

lemma deposit_le_trans: "deposit_le d d' \<Longrightarrow> deposit_le d' d'' \<Longrightarrow> deposit_le d d''"
  unfolding deposit_le_def by (metis append_assoc)

section \<open>Elementary changes\<close>

inductive change :: "deposit_db \<Rightarrow> deposit_db \<Rightarrow> bool" where
  change_touch: "(\<And>r. deposit_facts (f r) = deposit_facts r) \<Longrightarrow> (\<And>r. known_state (cd_state (f r)))
    \<Longrightarrow> change d (update_deposit i f d)"
| change_log: "dl_deposit_id l \<in> cd_id ` set (deposit_candidates d)
    \<Longrightarrow> change d (d\<lparr>deposit_state_log := deposit_state_log d @ [l]\<rparr>)"
| change_artifact: "ca_deposit_id a \<in> cd_id ` set (deposit_candidates d)
    \<Longrightarrow> ca_deposit_id a \<notin> ca_deposit_id ` set (claim_artifacts d) \<Longrightarrow> length (ca_canonical_message a) = 166
    \<Longrightarrow> change d (d\<lparr>claim_artifacts := claim_artifacts d @ [a]\<rparr>)"
| change_insert: "insert_candidate c d = Ok d' \<Longrightarrow> change d d'"
| change_blocks: "(distinct (map ib_height (indexed_blocks d)) \<and> distinct (map ib_hash (indexed_blocks d))
      \<Longrightarrow> distinct (map ib_height bs) \<and> distinct (map ib_hash bs))
    \<Longrightarrow> change d (d\<lparr>indexed_blocks := bs, chain_state := t, reorg_events := es\<rparr>)"

lemma facts_columns:
  assumes "deposit_facts r = deposit_facts s"
  shows "cd_id r = cd_id s" "deposit_key r = deposit_key s" "cd_txid_hex r = cd_txid_hex s"
  using assms by (simp_all add: deposit_facts_def)

lemma insert_candidate_cases:
  assumes "insert_candidate c d = Ok d'"
  obtains (old) "d' = d" "(nc_txid c, nc_vout c, nc_block_hash c) \<in> deposit_key ` set (deposit_candidates d)"
  | (new) r where "deposit_key r = (nc_txid c, nc_vout c, nc_block_hash c)"
      "deposit_key r \<notin> deposit_key ` set (deposit_candidates d)" "cd_id r = deposit_sequence d + 1"
      "sint (deposit_sequence d) < 2 ^ 63 - 1" "cd_txid_hex r = hex_encode (le_bytes (cd_txid r))"
      "cd_state r = ds_as_str (nc_initial_state c)" "cd_ready_at r = None"
      "cd_amount_atomic r = nc_amount_atomic c" "cd_recipient r = nc_recipient c"
      "cd_block_height r = nc_block_height c"
      "d' = d\<lparr>deposit_sequence := deposit_sequence d + 1, deposit_candidates := deposit_candidates d @ [r]\<rparr>"
proof (cases "(nc_txid c, nc_vout c, nc_block_hash c) \<in> deposit_key ` set (deposit_candidates d)")
  case True
  with assms old show ?thesis by (simp add: insert_candidate_def)
next
  case False
  with assms have "sint (deposit_sequence d) \<noteq> 2 ^ 63 - 1"
    by (auto simp: insert_candidate_def split: if_splits)
  with sint_u64_bounds(2) [of "deposit_sequence d"] have "sint (deposit_sequence d) < 2 ^ 63 - 1" by linarith
  with False assms show ?thesis
    by (intro new) (auto simp: insert_candidate_def Let_def split: if_splits)
qed

lemma sint_next: "sint (n :: i64) < 2 ^ 63 - 1 \<Longrightarrow> sint (n + 1) = sint n + 1"
  using sint_u64_of_int [of "sint n + 1"] sint_u64_bounds(1) [of n] by simp

lemma change_le: "change d d' \<Longrightarrow> deposit_le d d'"
proof (induction rule: change.induct)
  case (change_touch f d i)
  then show ?case
    using map_update_where [of "\<lambda>r. cd_id r = i" deposit_facts f "deposit_candidates d"]
    by (simp add: deposit_le_def update_deposit_def)
next
  case (change_insert c d d')
  then show ?case by (cases rule: insert_candidate_cases) (simp_all add: deposit_le_def)
qed (simp_all add: deposit_le_def)

lemma inv_insert:
  assumes inv: "deposit_inv d" and ins: "insert_candidate c d = Ok d'"
  shows "deposit_inv d'"
  using ins
proof (cases rule: insert_candidate_cases)
  case (new r)
  note top = sint_next [OF new(4)]
  have "cd_id r \<notin> cd_id ` set (deposit_candidates d)"
  proof
    assume "cd_id r \<in> cd_id ` set (deposit_candidates d)"
    then have "sint (cd_id r) \<le> sint (deposit_sequence d)"
      using inv by (auto simp: deposit_inv_def candidate_ok_def)
    with new(3) top show False by simp
  qed
  moreover have "candidate_ok (deposit_sequence d + 1) s" if "s \<in> set (deposit_candidates d)" for s
    using that inv top by (force simp: deposit_inv_def candidate_ok_def)
  moreover have "candidate_ok (deposit_sequence d + 1) r"
    using new(3,5,6) top inv by (auto simp: candidate_ok_def deposit_inv_def)
  ultimately show ?thesis
    using inv new(2,11) top by (auto simp: deposit_inv_def)
qed (use inv in simp)

lemma change_inv: "change d d' \<Longrightarrow> deposit_inv d \<Longrightarrow> deposit_inv d'"
proof (induction rule: change.induct)
  case (change_touch f d i)
  let ?P = "\<lambda>r. cd_id r = i"
  have cols: "map cd_id (update_where ?P f rs) = map cd_id rs"
    "map deposit_key (update_where ?P f rs) = map deposit_key rs"
    "cd_id ` set (update_where ?P f rs) = cd_id ` set rs" for rs
    using facts_columns [OF change_touch(1)] by (simp_all add: map_update_where image_update_where)
  have "candidate_ok n r \<Longrightarrow> candidate_ok n (f r)" for n r
    using change_touch(1) [of r] change_touch(2) [of r] by (auto simp: candidate_ok_def deposit_facts_def)
  with change_touch(3) have "\<forall>r \<in> set (update_where ?P f (deposit_candidates d)).
      candidate_ok (deposit_sequence d) r"
    by (intro update_where_ball) (auto simp: deposit_inv_def)
  with change_touch(3) show ?case by (simp add: deposit_inv_def update_deposit_def cols)
next
  case (change_insert c d d')
  then show ?case using inv_insert by blast
qed (auto simp: deposit_inv_def)

lemma changes_le: "change\<^sup>*\<^sup>* d d' \<Longrightarrow> deposit_le d d'"
  by (induction rule: rtranclp_induct) (auto intro: deposit_le_refl deposit_le_trans change_le)

lemma changes_inv: "change\<^sup>*\<^sup>* d d' \<Longrightarrow> deposit_inv d \<Longrightarrow> deposit_inv d'"
  by (induction rule: rtranclp_induct) (auto intro: change_inv)

section \<open>Every operation is a sequence of elementary changes\<close>

lemma changes_refl: "change\<^sup>*\<^sup>* d d"
  by simp

lemma changes_step: "change d d' \<Longrightarrow> change\<^sup>*\<^sup>* d' d'' \<Longrightarrow> change\<^sup>*\<^sup>* d d''"
  by (rule converse_rtranclp_into_rtranclp)

lemma deposit_at_member: "deposit_at d i = Some r \<Longrightarrow> i \<in> cd_id ` set (deposit_candidates d)"
  by (rule row_at_key)

lemma insert_deposit_log_Ok:
  "insert_deposit_log l d = Ok d' \<longleftrightarrow> dl_deposit_id l \<in> cd_id ` set (deposit_candidates d) \<and>
     d' = d\<lparr>deposit_state_log := deposit_state_log d @ [l]\<rparr>"
  by (auto simp: insert_deposit_log_def row_at_None)

lemma log_change: "insert_deposit_log l d = Ok d' \<Longrightarrow> change d d'"
  by (auto simp: insert_deposit_log_Ok intro: change_log)

lemma insert_artifact_Ok:
  "insert_artifact a d = Ok d' \<longleftrightarrow> ca_deposit_id a \<in> cd_id ` set (deposit_candidates d) \<and>
     ca_deposit_id a \<notin> ca_deposit_id ` set (claim_artifacts d) \<and> length (ca_canonical_message a) = 166 \<and>
     d' = d\<lparr>claim_artifacts := claim_artifacts d @ [a]\<rparr>"
  by (auto simp: insert_artifact_def row_at_None)

lemma touch_then_log:
  assumes "\<And>r. deposit_facts (f r) = deposit_facts r" "\<And>r. known_state (cd_state (f r))"
    and "insert_deposit_log l (update_deposit i f d) = Ok d'"
  shows "change\<^sup>*\<^sup>* d d'"
  using change_touch [OF assms(1,2)] log_change [OF assms(3)] by (meson changes_refl changes_step)

lemma changes_orphan_rows: "orphan_rows at rs d = Ok d' \<Longrightarrow> change\<^sup>*\<^sup>* d d'"
proof (induction rs arbitrary: d)
  case (Cons r rs)
  then obtain d1 where 1: "insert_deposit_log (deposit_log_entry (cd_id r) (Some (cd_state r)) ''Orphaned'' at
         (Some (ascii ''reorg_rollback'')) (cd_block_hash r))
       (update_deposit (cd_id r) (\<lambda>r. r\<lparr>cd_state := ''Orphaned''\<rparr>) d) = Ok d1" "orphan_rows at rs d1 = Ok d'"
    by auto
  have "change\<^sup>*\<^sup>* d d1"
    by (rule touch_then_log [OF _ _ 1(1)]) (simp_all add: deposit_facts_def)
  with Cons.IH [OF 1(2)] show ?case by auto
qed simp

lemma changes_ingest_candidate: "ingest_candidate c d = Ok (i, d') \<Longrightarrow> change\<^sup>*\<^sup>* d d'"
  by (auto simp: ingest_candidate_def dest!: change_insert log_change intro: changes_step changes_refl)

lemma changes_ingest_candidates: "ingest_candidates cs d = Ok (is, d') \<Longrightarrow> change\<^sup>*\<^sup>* d d'"
  by (induction cs arbitrary: d "is") (fastforce dest: changes_ingest_candidate)+

lemma transition_state_Ok:
  "transition_state i to at reason artifact d = (Ok u, d') \<longleftrightarrow>
     (\<exists>r d1. deposit_at d i = Some r \<and>
        insert_deposit_log (deposit_log_entry i (Some (cd_state r)) (ds_as_str to) at reason (cd_block_hash r))
          (update_deposit i (\<lambda>r. r\<lparr>cd_state := ds_as_str to,
                cd_ready_at := coalesce (if to = DReadyForSignature then Some at else None) (cd_ready_at r),
                cd_failure_reason := coalesce reason (cd_failure_reason r)\<rparr>) d) = Ok d1 \<and>
        (case artifact of None \<Rightarrow> d' = d1 | Some a \<Rightarrow> insert_artifact a d1 = Ok d'))"
  by (auto simp: transition_state_def transact_Ok Let_def split: option.splits)

lemma changes_transition: "change\<^sup>*\<^sup>* d (snd (transition_state i to at reason artifact d))"
proof (cases "transition_state i to at reason artifact d")
  case (Pair res d')
  show ?thesis
  proof (cases res)
    case (Ok u)
    from Pair [unfolded Ok transition_state_Ok] obtain r d1 where "deposit_at d i = Some r" and d1:
      "insert_deposit_log (deposit_log_entry i (Some (cd_state r)) (ds_as_str to) at reason (cd_block_hash r))
          (update_deposit i (\<lambda>r. r\<lparr>cd_state := ds_as_str to,
                cd_ready_at := coalesce (if to = DReadyForSignature then Some at else None) (cd_ready_at r),
                cd_failure_reason := coalesce reason (cd_failure_reason r)\<rparr>) d) = Ok d1"
      "case artifact of None \<Rightarrow> d' = d1 | Some a \<Rightarrow> insert_artifact a d1 = Ok d'"
      by (elim exE conjE)
    have "change\<^sup>*\<^sup>* d d1" by (rule touch_then_log [OF _ _ d1(1)]) (auto simp: deposit_facts_def)
    moreover have "change\<^sup>*\<^sup>* d1 d'"
      using d1(2) by (auto simp: insert_artifact_Ok split: option.splits intro: change_artifact)
    ultimately show ?thesis using Pair by simp
  next
    case (Err e)
    with Pair have "d' = d" unfolding transition_state_def by (auto dest: transact_Err)
    with Pair show ?thesis by simp
  qed
qed

lemma changes_submitted: "change\<^sup>*\<^sup>* d (snd (mark_submitted i sig at d))"
  unfolding mark_submitted_def
proof (rule snd_transact)
  fix x d'
  assume "and_then (ok_or (Sqlite QueryReturnedNoRows) (deposit_at d i)) (\<lambda>r.
     let d1 = update_deposit i (\<lambda>r. r\<lparr>cd_state := ds_as_str DSubmitted,
                cd_submitted_signature := Some sig\<rparr>) d
     in and_then (insert_deposit_log (deposit_log_entry i (Some (cd_state r)) (ds_as_str DSubmitted) at
          (Some sig) (cd_block_hash r)) d1) (\<lambda>d2. Ok ((), d2))) = Ok (x, d')"
  then show "change\<^sup>*\<^sup>* d d'"
    by (auto simp: Let_def deposit_facts_def elim!: touch_then_log [rotated 2])
qed simp

lemma changes_verify: "change\<^sup>*\<^sup>* d (snd (verify_and_load_signable_message H i at d))"
proof -
  have "change\<^sup>*\<^sup>* d ((update_deposit i f d)\<lparr>deposit_state_log := deposit_state_log d @ [l]\<rparr>)"
    if "deposit_at d i = Some r" "dl_deposit_id l = i" "f = (\<lambda>r. r\<lparr>cd_state := ds_as_str DIntegrityHalted,
           cd_failure_reason := m\<rparr>)" for f l r m
    using that deposit_at_member [OF that(1)] touch_then_log [of f l i d]
    by (auto simp: insert_deposit_log_Ok update_deposit_def deposit_facts_def image_update_where)
  then show ?thesis
    by (auto simp: verify_and_load_signable_message_def deposit_log_entry_def Let_def split: option.splits)
qed

lemma operator_clear_Ok:
  "operator_clear_integrity_halt i to note at d = (Ok u, d') \<longleftrightarrow>
     str_trim note \<noteq> [] \<and> to \<in> {DReadyForSignature, DFailed} \<and>
     (\<exists>r. deposit_at d i = Some r \<and> cd_state r = ds_as_str DIntegrityHalted \<and>
        insert_deposit_log (deposit_log_entry i (Some (cd_state r)) (ds_as_str to) at
            (Some (ascii ''operator_recovery: '' @ note)) (cd_block_hash r))
          (update_deposit i (\<lambda>r. r\<lparr>cd_state := ds_as_str to, cd_failure_reason := Some note\<rparr>) d) = Ok d')"
  unfolding operator_clear_integrity_halt_def
  by (simp add: transact_Ok Let_def)

lemma operator_clear_Err: "operator_clear_integrity_halt i to note at d = (Err e, d') \<Longrightarrow> d' = d"
  unfolding operator_clear_integrity_halt_def by (auto split: if_splits dest: transact_Err)

lemma changes_clear: "change\<^sup>*\<^sup>* d (snd (operator_clear_integrity_halt i to note at d))"
proof (cases "operator_clear_integrity_halt i to note at d")
  case (Pair res d')
  show ?thesis
  proof (cases res)
    case (Ok u)
    from Pair [unfolded Ok operator_clear_Ok] obtain r where "deposit_at d i = Some r" and *:
      "insert_deposit_log (deposit_log_entry i (Some (cd_state r)) (ds_as_str to) at
            (Some (ascii ''operator_recovery: '' @ note)) (cd_block_hash r))
          (update_deposit i (\<lambda>r. r\<lparr>cd_state := ds_as_str to, cd_failure_reason := Some note\<rparr>) d) = Ok d'"
      by (elim exE conjE)
    from touch_then_log [OF _ _ *] Pair show ?thesis by (simp add: deposit_facts_def)
  next
    case (Err e)
    with Pair operator_clear_Err have "d' = d" by blast
    with Pair show ?thesis by simp
  qed
qed

lemma changes_ingest: "change\<^sup>*\<^sup>* d (snd (ingest_block b cs d))"
  unfolding ingest_block_def
proof (rule snd_transact)
  fix x d'
  assume "ingest_candidates cs ((insert_block b d)\<lparr>chain_state := Some (ib_height b, ib_hash b)\<rparr>) = Ok (x, d')"
  then have "change\<^sup>*\<^sup>* ((insert_block b d)\<lparr>chain_state := Some (ib_height b, ib_hash b)\<rparr>) d'"
    by (rule changes_ingest_candidates)
  moreover have "change d ((insert_block b d)\<lparr>chain_state := Some (ib_height b, ib_hash b)\<rparr>)"
  proof -
    have "(insert_block b d)\<lparr>chain_state := Some (ib_height b, ib_hash b)\<rparr> =
        d\<lparr>indexed_blocks := indexed_blocks (insert_block b d), chain_state := Some (ib_height b, ib_hash b),
          reorg_events := reorg_events d\<rparr>"
      by (simp add: insert_block_def)
    then show ?thesis by (simp only:) (rule change_blocks, simp add: insert_block_def)
  qed
  ultimately show "change\<^sup>*\<^sup>* d d'" by (rule changes_step [rotated])
qed simp

lemma changes_rollback: "change\<^sup>*\<^sup>* d (snd (rollback_reorg f nh nb oh ob at d))"
proof -
  have "change\<^sup>*\<^sup>* d (d'\<lparr>indexed_blocks := filter P (indexed_blocks d'), chain_state := t, reorg_events := es\<rparr>)"
    if "orphan_rows at rs d = Ok d'" for rs d' P t es
    using changes_orphan_rows [OF that] change_blocks [of d' "filter P (indexed_blocks d')" es t]
    by (simp add: distinct_map_filter)
  note rolled = this
  show ?thesis unfolding rollback_reorg_def Let_def
    by (rule snd_transact) (auto intro: rolled)
qed

section \<open>The tables as a transition system\<close>

datatype ddb_call =
    IngestBlock indexed_block "new_candidate list"
  | RollbackReorg i64 i64 bytes32 i64 bytes32 i64
  | TransitionState i64 deposit_state i64 "bytes option" "claim_artifact option"
  | MarkSubmitted i64 bytes i64
  | VerifyAndLoadSignableMessage i64 i64
  | OperatorClearIntegrityHalt i64 deposit_state bytes i64

fun ddb_exec :: "sha256 \<Rightarrow> ddb_call \<Rightarrow> deposit_db \<Rightarrow> deposit_db" where
  "ddb_exec H (IngestBlock b cs) d = snd (ingest_block b cs d)"
| "ddb_exec H (RollbackReorg f nh nb oh ob at) d = snd (rollback_reorg f nh nb oh ob at d)"
| "ddb_exec H (TransitionState i to at reason a) d = snd (transition_state i to at reason a d)"
| "ddb_exec H (MarkSubmitted i sig at) d = snd (mark_submitted i sig at d)"
| "ddb_exec H (VerifyAndLoadSignableMessage i at) d = snd (verify_and_load_signable_message H i at d)"
| "ddb_exec H (OperatorClearIntegrityHalt i to note at) d = snd (operator_clear_integrity_halt i to note at d)"

lemma exec_changes: "change\<^sup>*\<^sup>* d (ddb_exec H c d)"
  by (cases c) (simp_all add: changes_ingest changes_rollback changes_transition changes_submitted
      changes_verify changes_clear)

definition ddb_init :: "deposit_db \<Rightarrow> bool" where
  "ddb_init d \<longleftrightarrow> d = empty_deposit_db"

definition ddb_step :: "sha256 \<Rightarrow> deposit_db \<Rightarrow> ddb_call \<Rightarrow> deposit_db \<Rightarrow> bool" where
  "ddb_step H d c d' \<longleftrightarrow> d' = ddb_exec H c d"

lemma deposit_inv_empty: "deposit_inv empty_deposit_db"
  by (simp add: deposit_inv_def empty_deposit_db_def)

interpretation ddb: progress_order ddb_init "ddb_step H" deposit_inv deposit_le
  for H :: sha256
proof unfold_locales
  fix d c d' d''
  show "deposit_inv d" if "ddb_init d" using that by (simp add: ddb_init_def deposit_inv_empty)
  show "deposit_inv d'" if "deposit_inv d" "ddb_step H d c d'"
    using that changes_inv [OF exec_changes] by (simp add: ddb_step_def)
  show "deposit_le d d" by (rule deposit_le_refl)
  show "deposit_le d d''" if "deposit_le d d'" "deposit_le d' d''" using that by (rule deposit_le_trans)
  show "deposit_le d d'" if "deposit_inv d" "ddb_step H d c d'"
    using that changes_le [OF exec_changes] by (simp add: ddb_step_def)
qed

abbreviation ddb_reachable :: "sha256 \<Rightarrow> deposit_db \<Rightarrow> bool" where
  "ddb_reachable H \<equiv> transition_system.reachable ddb_init (ddb_step H)"

abbreviation ddb_run :: "sha256 \<Rightarrow> deposit_db \<Rightarrow> ddb_call list \<Rightarrow> deposit_db \<Rightarrow> bool" where
  "ddb_run H \<equiv> transition_system.run (ddb_step H)"

section \<open>Properties\<close>

text \<open>
  C23: Whatever the callers do, the deposit tables stay well-formed: ids are positive, unique and
  never reused, a transaction output is recorded at most once per block, every column that holds
  a state holds the name of one (so that no row is ever read with the fallback state), the two
  forms of the transaction id agree, frozen claims and log entries belong to existing deposits
  and a deposit has at most one frozen claim, whose message has 166 bytes.
\<close>

theorem deposit_tables_well_formed:
  assumes "ddb_reachable H d"
  shows "distinct (map cd_id (deposit_candidates d)) \<and> distinct (map deposit_key (deposit_candidates d)) \<and>
     distinct (map ca_deposit_id (claim_artifacts d)) \<and>
     list_all (\<lambda>r. 0 < sint (cd_id r) \<and> sint (cd_id r) \<le> sint (deposit_sequence d) \<and>
        cd_txid_hex r = hex_encode (le_bytes (cd_txid r)) \<and> is_ok (ds_parse (cd_state r)) \<and>
        ds_as_str (dr_state (row_to_deposit r)) = cd_state r) (deposit_candidates d) \<and>
     list_all (\<lambda>a. deposit_at d (ca_deposit_id a) \<noteq> None \<and> length (ca_canonical_message a) = 166)
       (claim_artifacts d) \<and>
     list_all (\<lambda>l. deposit_at d (dl_deposit_id l) \<noteq> None) (deposit_state_log d)"
proof -
  from assms have inv: "deposit_inv d" by (rule ddb.reachable_inv)
  have "is_ok (ds_parse s) \<and> ds_as_str (case ds_parse s of Ok st \<Rightarrow> st | Err _ \<Rightarrow> DFailed) = s"
    if "known_state s" for s
    using that by (auto simp: known_state_def)
  then show ?thesis
    using inv by (simp add: deposit_inv_def candidate_ok_def list_all_iff row_at_None row_to_deposit_def)
qed

text \<open>
  History is never rewritten: along every run the deposits keep their place and what was
  recorded about them (output, amount, recipient, block, time of discovery), and the log of state
  changes and the frozen claims are only appended to.
\<close>

theorem deposit_history_append_only:
  assumes "ddb_reachable H d" "ddb_run H d cs d'"
  shows "\<exists>rs ls as. map deposit_facts (deposit_candidates d') = map deposit_facts (deposit_candidates d) @ rs \<and>
     deposit_state_log d' = deposit_state_log d @ ls \<and> claim_artifacts d' = claim_artifacts d @ as"
  using ddb.le_reachable [OF assms] by (auto simp: deposit_le_def)

end
