(* ===== verification/Wire.thy ===== *)
theory Wire
  imports Bridge
begin

text \<open>
  The two sides of an instruction on the wire.  The relayer encodes instructions by hand
  (\<^verbatim>\<open>relayer/src/solana/instruction.rs\<close>): an eight-byte discriminator, the arguments in Borsh
  and a list of accounts.  The program declares its arguments in \<^verbatim>\<open>lib.rs\<close> and its accounts in
  the \<open>Accounts\<close> structs of the handlers, and Anchor dispatches on the discriminator.  The two
  workspaces share no code; the property is that they agree.

  What the code takes from the Solana SDK (SHA-256, derivation of addresses, well-known ids) is
  the record \<open>sdk\<close>.
\<close>

record sdk =
  sk_sha256 :: "bytes \<Rightarrow> bytes32"
  sk_find_program_address :: "bytes list \<Rightarrow> pubkey \<Rightarrow> pubkey \<times> u8"
  sk_associated_token_address :: "pubkey \<Rightarrow> pubkey \<Rightarrow> pubkey"
  sk_token_program :: pubkey
  sk_instructions_sysvar :: pubkey
  sk_system_program :: pubkey
  sk_rent_sysvar :: pubkey
  sk_bpf_loader_upgradeable :: pubkey

record account_meta =
  am_pubkey :: pubkey
  am_is_signer :: bool
  am_is_writable :: bool

record solana_ix =
  si_program_id :: pubkey
  si_accounts :: "account_meta list"
  si_data :: bytes

definition meta_new :: "pubkey \<Rightarrow> bool \<Rightarrow> account_meta" where
  "meta_new k signer = \<lparr>am_pubkey = k, am_is_signer = signer, am_is_writable = True\<rparr>"

definition meta_new_readonly :: "pubkey \<Rightarrow> bool \<Rightarrow> account_meta" where
  "meta_new_readonly k signer = \<lparr>am_pubkey = k, am_is_signer = signer, am_is_writable = False\<rparr>"

definition anchor_discriminator :: "sdk \<Rightarrow> string \<Rightarrow> bytes" where
  "anchor_discriminator sdk name = take 8 (le_bytes (sk_sha256 sdk (ascii (''global:'' @ name))))"

section \<open>The relayer's builders (instruction.rs)\<close>

definition IX_SEED_BRIDGE_CONFIG :: bytes where "IX_SEED_BRIDGE_CONFIG = ascii ''bridge_config''"
definition IX_SEED_VALIDATOR_SET :: bytes where "IX_SEED_VALIDATOR_SET = ascii ''validator_set''"
definition IX_SEED_MINT_AUTHORITY :: bytes where "IX_SEED_MINT_AUTHORITY = ascii ''mint_authority''"
definition IX_SEED_DEPOSIT_CLAIM :: bytes where "IX_SEED_DEPOSIT_CLAIM = ascii ''deposit_claim''"
definition IX_SEED_GOVERNANCE_ACTION :: bytes where
  "IX_SEED_GOVERNANCE_ACTION = ascii ''governance_action''"
definition IX_SEED_WITHDRAWAL :: bytes where "IX_SEED_WITHDRAWAL = ascii ''withdrawal''"

definition bridge_config_pda :: "sdk \<Rightarrow> pubkey \<Rightarrow> pubkey \<times> u8" where
  "bridge_config_pda sdk program_id = sk_find_program_address sdk [IX_SEED_BRIDGE_CONFIG] program_id"

definition validator_set_pda :: "sdk \<Rightarrow> pubkey \<Rightarrow> pubkey \<times> u8" where
  "validator_set_pda sdk program_id = sk_find_program_address sdk [IX_SEED_VALIDATOR_SET] program_id"

definition mint_authority_pda :: "sdk \<Rightarrow> pubkey \<Rightarrow> pubkey \<times> u8" where
  "mint_authority_pda sdk program_id = sk_find_program_address sdk [IX_SEED_MINT_AUTHORITY] program_id"

definition deposit_claim_pda :: "sdk \<Rightarrow> pubkey \<Rightarrow> bytes32 \<Rightarrow> u32 \<Rightarrow> pubkey \<times> u8" where
  "deposit_claim_pda sdk program_id txid vout =
     sk_find_program_address sdk [IX_SEED_DEPOSIT_CLAIM, le_bytes txid, le_bytes vout] program_id"

record mint_wrapped_accounts =
  mw_submitter :: pubkey
  mw_bridge_config :: pubkey
  mw_validator_set :: pubkey
  mw_deposit_claim :: pubkey
  mw_wrapped_mint :: pubkey
  mw_mint_authority :: pubkey
  mw_recipient :: pubkey
  mw_recipient_token_account :: pubkey

definition mint_wrapped_instruction ::
  "sdk \<Rightarrow> pubkey \<Rightarrow> mint_wrapped_accounts \<Rightarrow> bytes32 \<Rightarrow> u32 \<Rightarrow> u64 \<Rightarrow> u64 \<Rightarrow> solana_ix" where
  "mint_wrapped_instruction sdk program_id accounts txid vout amount epoch =
     \<lparr>si_program_id = program_id,
      si_accounts =
        [meta_new (mw_submitter accounts) True,
         meta_new_readonly (mw_bridge_config accounts) False,
         meta_new_readonly (mw_validator_set accounts) False,
         meta_new (mw_deposit_claim accounts) False,
         meta_new (mw_wrapped_mint accounts) False,
         meta_new_readonly (mw_mint_authority accounts) False,
         meta_new_readonly (mw_recipient accounts) False,
         meta_new (mw_recipient_token_account accounts) False,
         meta_new_readonly (sk_instructions_sysvar sdk) False,
         meta_new_readonly (sk_token_program sdk) False,
         meta_new_readonly (sk_system_program sdk) False],
      si_data = anchor_discriminator sdk ''mint_wrapped'' @ le_bytes txid @ le_bytes vout @ le_bytes amount
        @ le_bytes epoch\<rparr>"

record complete_withdrawal_accounts =
  cw_submitter :: pubkey
  cw_bridge_config :: pubkey
  cw_validator_set :: pubkey
  cw_withdrawal :: pubkey

definition withdrawal_pda :: "sdk \<Rightarrow> pubkey \<Rightarrow> u64 \<Rightarrow> pubkey \<times> u8" where
  "withdrawal_pda sdk program_id index =
     sk_find_program_address sdk [ascii ''withdrawal'', le_bytes index] program_id"

definition complete_withdrawal_instruction ::
  "sdk \<Rightarrow> pubkey \<Rightarrow> complete_withdrawal_accounts \<Rightarrow> u64 \<Rightarrow> bytes32 \<Rightarrow> u64 \<Rightarrow> u64 \<Rightarrow> solana_ix" where
  "complete_withdrawal_instruction sdk program_id accounts index payout_txid payout_height epoch =
     \<lparr>si_program_id = program_id,
      si_accounts =
        [meta_new (cw_submitter accounts) True,
         meta_new_readonly (cw_bridge_config accounts) False,
         meta_new_readonly (cw_validator_set accounts) False,
         meta_new (cw_withdrawal accounts) False,
         meta_new_readonly (sk_instructions_sysvar sdk) False],
      si_data = anchor_discriminator sdk ''complete_withdrawal'' @ le_bytes index @ le_bytes payout_txid
        @ le_bytes payout_height @ le_bytes epoch\<rparr>"

definition destination_commitment :: "sdk \<Rightarrow> bytes \<Rightarrow> bytes32" where
  "destination_commitment sdk glc_address_bytes = sk_sha256 sdk glc_address_bytes"

definition governance_action_pda :: "sdk \<Rightarrow> pubkey \<Rightarrow> pubkey \<times> u8" where
  "governance_action_pda sdk program_id = sk_find_program_address sdk [IX_SEED_GOVERNANCE_ACTION] program_id"

definition admin_config_metas :: "sdk \<Rightarrow> pubkey \<Rightarrow> pubkey \<Rightarrow> account_meta list" where
  "admin_config_metas sdk admin program_id =
     [meta_new_readonly admin True, meta_new (fst (bridge_config_pda sdk program_id)) False]"

definition set_paused_instruction :: "sdk \<Rightarrow> pubkey \<Rightarrow> pubkey \<Rightarrow> bool \<Rightarrow> solana_ix" where
  "set_paused_instruction sdk program_id admin paused =
     \<lparr>si_program_id = program_id, si_accounts = admin_config_metas sdk admin program_id,
      si_data = anchor_discriminator sdk ''set_paused'' @ [if paused then 1 else 0]\<rparr>"

definition lower_supply_cap_instruction :: "sdk \<Rightarrow> pubkey \<Rightarrow> pubkey \<Rightarrow> u64 \<Rightarrow> solana_ix" where
  "lower_supply_cap_instruction sdk program_id admin new_max =
     \<lparr>si_program_id = program_id, si_accounts = admin_config_metas sdk admin program_id,
      si_data = anchor_discriminator sdk ''lower_wrapped_supply_cap'' @ le_bytes new_max\<rparr>"

definition propose_metas :: "sdk \<Rightarrow> pubkey \<Rightarrow> pubkey \<Rightarrow> account_meta list" where
  "propose_metas sdk proposer program_id =
     [meta_new proposer True,
      meta_new_readonly (fst (bridge_config_pda sdk program_id)) False,
      meta_new_readonly (fst (validator_set_pda sdk program_id)) False,
      meta_new (fst (governance_action_pda sdk program_id)) False,
      meta_new_readonly (sk_instructions_sysvar sdk) False,
      meta_new_readonly (sk_system_program sdk) False]"

definition execute_metas :: "sdk \<Rightarrow> pubkey \<Rightarrow> pubkey \<Rightarrow> bool \<Rightarrow> account_meta list" where
  "execute_metas sdk executor program_id config_writable =
     (let config = fst (bridge_config_pda sdk program_id) in
      [meta_new executor True,
       (if config_writable then meta_new config False else meta_new_readonly config False),
       (if config_writable then meta_new_readonly (fst (validator_set_pda sdk program_id)) False
        else meta_new (fst (validator_set_pda sdk program_id)) False),
       meta_new (fst (governance_action_pda sdk program_id)) False])"

text \<open>\<open>validators.len() as u32\<close> truncates.\<close>

definition borsh_keys :: "pubkey list \<Rightarrow> bytes" where
  "borsh_keys validators = le_bytes (word_of_nat (length validators) :: u32) @ concat (map le_bytes validators)"

definition borsh_string :: "bytes \<Rightarrow> bytes" where
  "borsh_string s = le_bytes (word_of_nat (length s) :: u32) @ s"

definition propose_rotation_instruction :: "sdk \<Rightarrow> pubkey \<Rightarrow> pubkey \<Rightarrow> pubkey list \<Rightarrow> u8 \<Rightarrow> solana_ix" where
  "propose_rotation_instruction sdk program_id proposer validators threshold =
     \<lparr>si_program_id = program_id, si_accounts = propose_metas sdk proposer program_id,
      si_data = anchor_discriminator sdk ''propose_validator_rotation'' @ borsh_keys validators @ [threshold]\<rparr>"

definition execute_rotation_instruction :: "sdk \<Rightarrow> pubkey \<Rightarrow> pubkey \<Rightarrow> solana_ix" where
  "execute_rotation_instruction sdk program_id executor =
     \<lparr>si_program_id = program_id, si_accounts = execute_metas sdk executor program_id False,
      si_data = anchor_discriminator sdk ''execute_validator_rotation''\<rparr>"

definition cancel_rotation_instruction :: "sdk \<Rightarrow> pubkey \<Rightarrow> pubkey \<Rightarrow> solana_ix" where
  "cancel_rotation_instruction sdk program_id canceller =
     \<lparr>si_program_id = program_id,
      si_accounts =
        [meta_new canceller True,
         meta_new_readonly (fst (bridge_config_pda sdk program_id)) False,
         meta_new_readonly (fst (validator_set_pda sdk program_id)) False,
         meta_new (fst (governance_action_pda sdk program_id)) False,
         meta_new_readonly (sk_instructions_sysvar sdk) False],
      si_data = anchor_discriminator sdk ''cancel_validator_rotation''\<rparr>"

definition propose_cap_raise_instruction :: "sdk \<Rightarrow> pubkey \<Rightarrow> pubkey \<Rightarrow> u64 \<Rightarrow> solana_ix" where
  "propose_cap_raise_instruction sdk program_id proposer new_max =
     \<lparr>si_program_id = program_id, si_accounts = propose_metas sdk proposer program_id,
      si_data = anchor_discriminator sdk ''propose_wrapped_supply_cap_raise'' @ le_bytes new_max\<rparr>"

definition execute_cap_raise_instruction :: "sdk \<Rightarrow> pubkey \<Rightarrow> pubkey \<Rightarrow> solana_ix" where
  "execute_cap_raise_instruction sdk program_id executor =
     \<lparr>si_program_id = program_id, si_accounts = execute_metas sdk executor program_id True,
      si_data = anchor_discriminator sdk ''execute_wrapped_supply_cap_raise''\<rparr>"

definition program_data_address :: "sdk \<Rightarrow> pubkey \<Rightarrow> pubkey" where
  "program_data_address sdk program_id =
     fst (sk_find_program_address sdk [le_bytes program_id] (sk_bpf_loader_upgradeable sdk))"

definition initialize_instruction ::
  "sdk \<Rightarrow> pubkey \<Rightarrow> pubkey \<Rightarrow> pubkey list \<Rightarrow> u8 \<Rightarrow> u64 \<Rightarrow> u64 \<Rightarrow> i64 \<Rightarrow> u64 \<Rightarrow> solana_ix" where
  "initialize_instruction sdk program_id authority validators threshold min_deposit min_withdrawal
      governance_timelock_seconds max_wrapped_supply =
     \<lparr>si_program_id = program_id,
      si_accounts =
        [meta_new authority True,
         meta_new (fst (bridge_config_pda sdk program_id)) False,
         meta_new (fst (validator_set_pda sdk program_id)) False,
         meta_new_readonly program_id False,
         meta_new_readonly (program_data_address sdk program_id) False,
         meta_new_readonly (sk_system_program sdk) False],
      si_data = anchor_discriminator sdk ''initialize'' @ borsh_keys validators @ [threshold]
        @ le_bytes min_deposit @ le_bytes min_withdrawal @ le_bytes governance_timelock_seconds
        @ le_bytes max_wrapped_supply\<rparr>"

definition create_wrapped_mint_instruction :: "sdk \<Rightarrow> pubkey \<Rightarrow> pubkey \<Rightarrow> pubkey \<Rightarrow> solana_ix" where
  "create_wrapped_mint_instruction sdk program_id admin wrapped_mint =
     \<lparr>si_program_id = program_id,
      si_accounts =
        [meta_new admin True,
         meta_new (fst (bridge_config_pda sdk program_id)) False,
         meta_new_readonly (fst (mint_authority_pda sdk program_id)) False,
         meta_new wrapped_mint True,
         meta_new_readonly (sk_token_program sdk) False,
         meta_new_readonly (sk_system_program sdk) False],
      si_data = anchor_discriminator sdk ''create_wrapped_mint''\<rparr>"

definition transfer_admin_instruction :: "sdk \<Rightarrow> pubkey \<Rightarrow> pubkey \<Rightarrow> pubkey \<Rightarrow> solana_ix" where
  "transfer_admin_instruction sdk program_id admin new_admin =
     \<lparr>si_program_id = program_id, si_accounts = admin_config_metas sdk admin program_id,
      si_data = anchor_discriminator sdk ''transfer_admin'' @ le_bytes new_admin\<rparr>"

definition accept_admin_instruction :: "sdk \<Rightarrow> pubkey \<Rightarrow> pubkey \<Rightarrow> solana_ix" where
  "accept_admin_instruction sdk program_id new_admin =
     \<lparr>si_program_id = program_id,
      si_accounts = [meta_new_readonly new_admin True, meta_new (fst (bridge_config_pda sdk program_id)) False],
      si_data = anchor_discriminator sdk ''accept_admin''\<rparr>"

definition token_metadata_pda :: "sdk \<Rightarrow> pubkey \<Rightarrow> pubkey \<times> u8" where
  "token_metadata_pda sdk mint =
     sk_find_program_address sdk [ascii ''metadata'', le_bytes TOKEN_METADATA_PROGRAM_ID, le_bytes mint]
       TOKEN_METADATA_PROGRAM_ID"

definition create_token_metadata_instruction :: "sdk \<Rightarrow> pubkey \<Rightarrow> pubkey \<Rightarrow> pubkey \<Rightarrow> bytes \<Rightarrow> solana_ix" where
  "create_token_metadata_instruction sdk program_id admin wrapped_mint uri =
     \<lparr>si_program_id = program_id,
      si_accounts =
        [meta_new admin True,
         meta_new_readonly (fst (bridge_config_pda sdk program_id)) False,
         meta_new_readonly (fst (mint_authority_pda sdk program_id)) False,
         meta_new_readonly wrapped_mint False,
         meta_new (fst (token_metadata_pda sdk wrapped_mint)) False,
         meta_new_readonly TOKEN_METADATA_PROGRAM_ID False,
         meta_new_readonly (sk_system_program sdk) False,
         meta_new_readonly (sk_rent_sysvar sdk) False],
      si_data = anchor_discriminator sdk ''create_token_metadata'' @ borsh_string uri\<rparr>"

definition update_token_metadata_instruction ::
  "sdk \<Rightarrow> pubkey \<Rightarrow> pubkey \<Rightarrow> pubkey \<Rightarrow> bytes \<Rightarrow> bytes \<Rightarrow> bytes \<Rightarrow> solana_ix" where
  "update_token_metadata_instruction sdk program_id admin wrapped_mint name symbol uri =
     \<lparr>si_program_id = program_id,
      si_accounts =
        [meta_new_readonly admin True,
         meta_new_readonly (fst (bridge_config_pda sdk program_id)) False,
         meta_new_readonly (fst (mint_authority_pda sdk program_id)) False,
         meta_new (fst (token_metadata_pda sdk wrapped_mint)) False,
         meta_new_readonly TOKEN_METADATA_PROGRAM_ID False],
      si_data = anchor_discriminator sdk ''update_token_metadata'' @ concat (map borsh_string [name, symbol, uri])\<rparr>"

definition token_account_amount :: "bytes \<Rightarrow> u64 option" where
  "token_account_amount data = map_option from_le (slice_get data 64 72)"

definition withdrawal_request_pda :: "sdk \<Rightarrow> pubkey \<Rightarrow> u64 \<Rightarrow> pubkey \<times> u8" where
  "withdrawal_request_pda sdk program_id index =
     sk_find_program_address sdk [IX_SEED_WITHDRAWAL, le_bytes index] program_id"

record burn_wrapped_accounts =
  bw_user :: pubkey
  bw_bridge_config :: pubkey
  bw_wrapped_mint :: pubkey
  bw_user_token_account :: pubkey
  bw_withdrawal :: pubkey

definition burn_wrapped_instruction ::
  "sdk \<Rightarrow> pubkey \<Rightarrow> burn_wrapped_accounts \<Rightarrow> u64 \<Rightarrow> bytes \<Rightarrow> solana_ix" where
  "burn_wrapped_instruction sdk program_id accounts amount_atomic glc_address =
     \<lparr>si_program_id = program_id,
      si_accounts =
        [meta_new (bw_user accounts) True,
         meta_new (bw_bridge_config accounts) False,
         meta_new (bw_wrapped_mint accounts) False,
         meta_new (bw_user_token_account accounts) False,
         meta_new (bw_withdrawal accounts) False,
         meta_new_readonly (sk_token_program sdk) False,
         meta_new_readonly (sk_system_program sdk) False],
      si_data = anchor_discriminator sdk ''burn_wrapped'' @ le_bytes amount_atomic @ borsh_string glc_address\<rparr>"

section \<open>The program's accounts\<close>

text \<open>
  The \<open>Accounts\<close> structs of the handlers: \<open>Signer\<close> fields sign, \<open>mut\<close> and \<open>init\<close> fields are
  writable, and an \<open>init\<close> field without seeds signs for its own creation.
\<close>

definition program_pda :: "sdk \<Rightarrow> pda \<Rightarrow> pubkey" where
  "program_pda sdk p = fst (sk_find_program_address sdk (pda_seeds p) PROGRAM_ID)"

definition AdminConfig_accounts :: "sdk \<Rightarrow> pubkey \<Rightarrow> account_meta list" where
  "AdminConfig_accounts sdk admin =
     [meta_new_readonly admin True, meta_new (program_pda sdk BridgeConfigPda) False]"

definition AcceptAdmin_accounts :: "sdk \<Rightarrow> pubkey \<Rightarrow> account_meta list" where
  "AcceptAdmin_accounts sdk new_admin =
     [meta_new_readonly new_admin True, meta_new (program_pda sdk BridgeConfigPda) False]"

definition BurnWrapped_accounts :: "sdk \<Rightarrow> pubkey \<Rightarrow> pubkey \<Rightarrow> u64 \<Rightarrow> account_meta list" where
  "BurnWrapped_accounts sdk user wrapped_mint withdrawal_count =
     [meta_new user True,
      meta_new (program_pda sdk BridgeConfigPda) False,
      meta_new wrapped_mint False,
      meta_new (sk_associated_token_address sdk user wrapped_mint) False,
      meta_new (program_pda sdk (WithdrawalPda withdrawal_count)) False,
      meta_new_readonly (sk_token_program sdk) False,
      meta_new_readonly (sk_system_program sdk) False]"

definition CompleteWithdrawal_accounts :: "sdk \<Rightarrow> pubkey \<Rightarrow> u64 \<Rightarrow> account_meta list" where
  "CompleteWithdrawal_accounts sdk submitter index =
     [meta_new submitter True,
      meta_new_readonly (program_pda sdk BridgeConfigPda) False,
      meta_new_readonly (program_pda sdk ValidatorSetPda) False,
      meta_new (program_pda sdk (WithdrawalPda index)) False,
      meta_new_readonly (sk_instructions_sysvar sdk) False]"

definition CreateWrappedMint_accounts :: "sdk \<Rightarrow> pubkey \<Rightarrow> pubkey \<Rightarrow> account_meta list" where
  "CreateWrappedMint_accounts sdk admin wrapped_mint =
     [meta_new admin True,
      meta_new (program_pda sdk BridgeConfigPda) False,
      meta_new_readonly (program_pda sdk MintAuthorityPda) False,
      meta_new wrapped_mint True,
      meta_new_readonly (sk_token_program sdk) False,
      meta_new_readonly (sk_system_program sdk) False]"

definition ProposeGovernanceAction_accounts :: "sdk \<Rightarrow> pubkey \<Rightarrow> account_meta list" where
  "ProposeGovernanceAction_accounts sdk proposer =
     [meta_new proposer True,
      meta_new_readonly (program_pda sdk BridgeConfigPda) False,
      meta_new_readonly (program_pda sdk ValidatorSetPda) False,
      meta_new (program_pda sdk GovernanceActionPda) False,
      meta_new_readonly (sk_instructions_sysvar sdk) False,
      meta_new_readonly (sk_system_program sdk) False]"

definition ExecuteGovernanceAction_accounts :: "sdk \<Rightarrow> pubkey \<Rightarrow> account_meta list" where
  "ExecuteGovernanceAction_accounts sdk executor =
     [meta_new executor True,
      meta_new_readonly (program_pda sdk BridgeConfigPda) False,
      meta_new (program_pda sdk ValidatorSetPda) False,
      meta_new (program_pda sdk GovernanceActionPda) False]"

definition ExecuteCapRaise_accounts :: "sdk \<Rightarrow> pubkey \<Rightarrow> account_meta list" where
  "ExecuteCapRaise_accounts sdk executor =
     [meta_new executor True,
      meta_new (program_pda sdk BridgeConfigPda) False,
      meta_new_readonly (program_pda sdk ValidatorSetPda) False,
      meta_new (program_pda sdk GovernanceActionPda) False]"

definition CancelGovernanceAction_accounts :: "sdk \<Rightarrow> pubkey \<Rightarrow> account_meta list" where
  "CancelGovernanceAction_accounts sdk canceller =
     [meta_new canceller True,
      meta_new_readonly (program_pda sdk BridgeConfigPda) False,
      meta_new_readonly (program_pda sdk ValidatorSetPda) False,
      meta_new (program_pda sdk GovernanceActionPda) False,
      meta_new_readonly (sk_instructions_sysvar sdk) False]"

definition Initialize_accounts :: "sdk \<Rightarrow> pubkey \<Rightarrow> pubkey \<Rightarrow> account_meta list" where
  "Initialize_accounts sdk authority program_data =
     [meta_new authority True,
      meta_new (program_pda sdk BridgeConfigPda) False,
      meta_new (program_pda sdk ValidatorSetPda) False,
      meta_new_readonly PROGRAM_ID False,
      meta_new_readonly program_data False,
      meta_new_readonly (sk_system_program sdk) False]"

definition MintWrapped_accounts ::
  "sdk \<Rightarrow> pubkey \<Rightarrow> pubkey \<Rightarrow> pubkey \<Rightarrow> bytes32 \<Rightarrow> u32 \<Rightarrow> account_meta list" where
  "MintWrapped_accounts sdk submitter wrapped_mint recipient txid vout =
     [meta_new submitter True,
      meta_new_readonly (program_pda sdk BridgeConfigPda) False,
      meta_new_readonly (program_pda sdk ValidatorSetPda) False,
      meta_new (program_pda sdk (DepositClaimPda txid vout)) False,
      meta_new wrapped_mint False,
      meta_new_readonly (program_pda sdk MintAuthorityPda) False,
      meta_new_readonly recipient False,
      meta_new (sk_associated_token_address sdk recipient wrapped_mint) False,
      meta_new_readonly (sk_instructions_sysvar sdk) False,
      meta_new_readonly (sk_token_program sdk) False,
      meta_new_readonly (sk_system_program sdk) False]"

definition CreateTokenMetadata_accounts ::
  "sdk \<Rightarrow> pubkey \<Rightarrow> pubkey \<Rightarrow> pubkey \<Rightarrow> account_meta list" where
  "CreateTokenMetadata_accounts sdk admin wrapped_mint metadata =
     [meta_new admin True,
      meta_new_readonly (program_pda sdk BridgeConfigPda) False,
      meta_new_readonly (program_pda sdk MintAuthorityPda) False,
      meta_new_readonly wrapped_mint False,
      meta_new metadata False,
      meta_new_readonly TOKEN_METADATA_PROGRAM_ID False,
      meta_new_readonly (sk_system_program sdk) False,
      meta_new_readonly (sk_rent_sysvar sdk) False]"

definition UpdateTokenMetadata_accounts :: "sdk \<Rightarrow> pubkey \<Rightarrow> pubkey \<Rightarrow> account_meta list" where
  "UpdateTokenMetadata_accounts sdk admin metadata =
     [meta_new_readonly admin True,
      meta_new_readonly (program_pda sdk BridgeConfigPda) False,
      meta_new_readonly (program_pda sdk MintAuthorityPda) False,
      meta_new metadata False,
      meta_new_readonly TOKEN_METADATA_PROGRAM_ID False]"

section \<open>The program's dispatch\<close>

text \<open>Borsh: read a value and go on with the rest.\<close>

definition read_word :: "bytes \<Rightarrow> ('a::len word \<times> bytes) option" where
  "read_word bs = (if LENGTH('a) div 8 \<le> length bs
     then Some (from_le (take (LENGTH('a) div 8) bs), drop (LENGTH('a) div 8) bs) else None)"

fun read_keys :: "nat \<Rightarrow> bytes \<Rightarrow> (pubkey list \<times> bytes) option" where
  "read_keys 0 bs = Some ([], bs)"
| "read_keys (Suc n) bs =
     (case read_word bs of None \<Rightarrow> None
      | Some (k, bs) \<Rightarrow> (case read_keys n bs of None \<Rightarrow> None | Some (ks, bs) \<Rightarrow> Some (k # ks, bs)))"

definition read_vec_keys :: "bytes \<Rightarrow> (pubkey list \<times> bytes) option" where
  "read_vec_keys bs = (case read_word bs of None \<Rightarrow> None | Some (n :: u32, bs) \<Rightarrow> read_keys (unat n) bs)"

definition read_vec_u8 :: "bytes \<Rightarrow> (bytes \<times> bytes) option" where
  "read_vec_u8 bs = (case read_word bs of None \<Rightarrow> None
     | Some (n :: u32, bs) \<Rightarrow> if unat n \<le> length bs then Some (take (unat n) bs, drop (unat n) bs) else None)"

definition read_string :: "bytes \<Rightarrow> (bytes \<times> bytes) option" where
  "read_string bs = (case read_vec_u8 bs of None \<Rightarrow> None
     | Some (s, bs) \<Rightarrow> if utf8_valid s then Some (s, bs) else None)"

definition read_bool :: "bytes \<Rightarrow> (bool \<times> bytes) option" where
  "read_bool bs = (case bs of [] \<Rightarrow> None
     | b # bs \<Rightarrow> if b = 0 then Some (False, bs) else if b = 1 then Some (True, bs) else None)"

definition arg :: "(bytes \<Rightarrow> ('a \<times> bytes) option) \<Rightarrow> ('a \<Rightarrow> bytes \<Rightarrow> 'b option) \<Rightarrow> bytes \<Rightarrow> 'b option" where
  "arg rd k bs = (case rd bs of None \<Rightarrow> None | Some (x, bs') \<Rightarrow> k x bs')"

definition finish :: "'b \<Rightarrow> bytes \<Rightarrow> 'b option" where
  "finish x bs = Some x"

definition acct :: "pubkey list \<Rightarrow> nat \<Rightarrow> (pubkey \<Rightarrow> bytes \<Rightarrow> 'b option) \<Rightarrow> bytes \<Rightarrow> 'b option" where
  "acct accounts i k bs = (case get_at accounts i of None \<Rightarrow> None | Some a \<Rightarrow> k a bs)"

text \<open>The handlers of \<^verbatim>\<open>lib.rs\<close> by name, with the arguments of their signatures in order.\<close>

definition handlers :: "(string \<times> (pubkey list \<Rightarrow> bytes \<Rightarrow> instruction option)) list" where
  "handlers =
    [(''initialize'', \<lambda>as. acct as 4 (\<lambda>pd. arg read_vec_keys (\<lambda>vs. arg read_word (\<lambda>th. arg read_word (\<lambda>md.
        arg read_word (\<lambda>mw. arg read_word (\<lambda>lock. arg read_word (\<lambda>cap. finish (Initialize pd vs th md mw lock cap))))))))),
     (''set_paused'', \<lambda>as. arg read_bool (\<lambda>p. finish (SetPaused p))),
     (''propose_validator_rotation'', \<lambda>as. arg read_vec_keys (\<lambda>vs. arg read_word (\<lambda>th.
        finish (ProposeValidatorRotation vs th)))),
     (''execute_validator_rotation'', \<lambda>as. finish ExecuteValidatorRotation),
     (''cancel_validator_rotation'', \<lambda>as. finish CancelValidatorRotation),
     (''transfer_admin'', \<lambda>as. arg read_word (\<lambda>a. finish (TransferAdmin a))),
     (''accept_admin'', \<lambda>as. finish AcceptAdmin),
     (''create_wrapped_mint'', \<lambda>as. acct as 3 (\<lambda>m. finish (CreateWrappedMint m))),
     (''mint_wrapped'', \<lambda>as. acct as 4 (\<lambda>m. acct as 6 (\<lambda>r. arg read_word (\<lambda>txid. arg read_word (\<lambda>vout.
        arg read_word (\<lambda>amount. arg read_word (\<lambda>epoch. finish (MintWrapped m r txid vout amount epoch)))))))),
     (''burn_wrapped'', \<lambda>as. acct as 2 (\<lambda>m. arg read_word (\<lambda>amount. arg read_vec_u8 (\<lambda>addr.
        finish (BurnWrapped m amount addr))))),
     (''lower_wrapped_supply_cap'', \<lambda>as. arg read_word (\<lambda>m. finish (LowerWrappedSupplyCap m))),
     (''propose_wrapped_supply_cap_raise'', \<lambda>as. arg read_word (\<lambda>m. finish (ProposeWrappedSupplyCapRaise m))),
     (''execute_wrapped_supply_cap_raise'', \<lambda>as. finish ExecuteWrappedSupplyCapRaise),
     (''create_token_metadata'', \<lambda>as. acct as 3 (\<lambda>m. acct as 4 (\<lambda>md. acct as 5 (\<lambda>prog.
        arg read_string (\<lambda>uri. finish (CreateTokenMetadata m md prog uri)))))),
     (''update_token_metadata'', \<lambda>as. acct as 3 (\<lambda>md. acct as 4 (\<lambda>prog. arg read_string (\<lambda>name.
        arg read_string (\<lambda>symbol. arg read_string (\<lambda>uri. finish (UpdateTokenMetadata md prog name symbol uri))))))),
     (''complete_withdrawal'', \<lambda>as. arg read_word (\<lambda>i. arg read_word (\<lambda>txid. arg read_word (\<lambda>h.
        arg read_word (\<lambda>e. finish (CompleteWithdrawal i txid h e))))))]"

definition dispatch :: "sdk \<Rightarrow> pubkey list \<Rightarrow> bytes \<Rightarrow> instruction option" where
  "dispatch sdk accounts data =
     (case find (\<lambda>(name, _). anchor_discriminator sdk name = take 8 data) handlers of
        None \<Rightarrow> None
      | Some (_, decode) \<Rightarrow> decode accounts (drop 8 data))"

section \<open>Reading back what was written\<close>

lemma read_word_enc: "8 dvd LENGTH('a) \<Longrightarrow> read_word (le_bytes (w :: 'a::len word) @ bs) = Some (w, bs)"
  by (simp add: read_word_def from_le_le_bytes)

lemma read_u8_enc: "read_word (b # bs) = Some (b :: u8, bs)"
  by (simp add: read_word_def)

lemma read_keys_enc: "read_keys (length ks) (concat (map le_bytes ks) @ bs) = Some (ks, bs)"
  by (induction ks) (simp_all add: read_word_enc)

lemma unat_u32: "n < 2 ^ 32 \<Longrightarrow> unat (word_of_nat n :: u32) = n"
  by (simp add: unat_of_nat)

lemma read_vec_keys_enc: "length ks < 2 ^ 32 \<Longrightarrow> read_vec_keys (borsh_keys ks @ bs) = Some (ks, bs)"
  by (simp add: read_vec_keys_def borsh_keys_def read_word_enc unat_u32 read_keys_enc)

lemma read_vec_u8_enc: "length s < 2 ^ 32 \<Longrightarrow> read_vec_u8 (borsh_string s @ bs) = Some (s, bs)"
  by (simp add: read_vec_u8_def borsh_string_def read_word_enc unat_u32)

lemma read_string_enc: "length s < 2 ^ 32 \<Longrightarrow> utf8_valid s \<Longrightarrow> read_string (borsh_string s @ bs) = Some (s, bs)"
  by (simp add: read_string_def read_vec_u8_enc)

lemma read_last:
  "8 dvd LENGTH('a) \<Longrightarrow> read_word (le_bytes (w :: 'a::len word)) = Some (w, [])"
  "length s < 2 ^ 32 \<Longrightarrow> read_vec_u8 (borsh_string s) = Some (s, [])"
  "length s < 2 ^ 32 \<Longrightarrow> utf8_valid s \<Longrightarrow> read_string (borsh_string s) = Some (s, [])"
  using read_word_enc [of w "[]"] read_vec_u8_enc [of s "[]"] read_string_enc [of s "[]"] by simp_all

lemma arg_read: "rd bs = Some (x, bs') \<Longrightarrow> arg rd k bs = k x bs'"
  by (simp add: arg_def)

lemmas wire_reads = arg_def acct_def get_at_def finish_def read_bool_def read_word_enc read_u8_enc
  read_vec_keys_enc read_vec_u8_enc read_string_enc read_last

lemma length_discriminator [simp]: "length (anchor_discriminator sdk name) = 8"
  by (simp add: anchor_discriminator_def)

text \<open>What the code relies on: the discriminators of the handlers are different.\<close>

definition distinct_discriminators :: "sdk \<Rightarrow> bool" where
  "distinct_discriminators sdk \<longleftrightarrow> distinct (map (\<lambda>h. anchor_discriminator sdk (fst h)) handlers)"

lemma find_distinct:
  assumes "distinct (map f xs)" "x \<in> set xs"
  shows "find (\<lambda>y. f y = f x) xs = Some x"
  using assms by (induction xs) (auto simp: image_iff)

lemma dispatch_to:
  assumes "distinct_discriminators sdk" "map_of handlers name = Some decode"
  shows "dispatch sdk accounts (anchor_discriminator sdk name @ args) = decode accounts args"
proof -
  have "find (\<lambda>h. anchor_discriminator sdk (fst h) = anchor_discriminator sdk (fst (name, decode))) handlers
      = Some (name, decode)"
    using assms by (intro find_distinct map_of_SomeD) (simp_all add: distinct_discriminators_def)
  then show ?thesis by (simp add: dispatch_def case_prod_unfold)
qed

lemma dispatch_to_bare:
  "distinct_discriminators sdk \<Longrightarrow> map_of handlers name = Some decode \<Longrightarrow>
     dispatch sdk accounts (anchor_discriminator sdk name) = decode accounts []"
  using dispatch_to [where args = "[]"] by simp

section \<open>Agreement\<close>

text \<open>
  The instruction the relayer's tools build for an operation of the program, signed by \<open>signer\<close>,
  when the program has recorded \<open>n\<close> withdrawals.  The accounts of a mint and of a completion
  are filled in as the orchestrator and the completion worker do.
\<close>

primrec client_build :: "sdk \<Rightarrow> pubkey \<Rightarrow> u64 \<Rightarrow> pubkey \<Rightarrow> instruction \<Rightarrow> solana_ix" where
  "client_build sdk signer n mint (Initialize pd vs th md mw lock cap) =
     initialize_instruction sdk PROGRAM_ID signer vs th md mw lock cap"
| "client_build sdk signer n mint (SetPaused p) = set_paused_instruction sdk PROGRAM_ID signer p"
| "client_build sdk signer n mint (ProposeValidatorRotation vs th) =
     propose_rotation_instruction sdk PROGRAM_ID signer vs th"
| "client_build sdk signer n mint ExecuteValidatorRotation = execute_rotation_instruction sdk PROGRAM_ID signer"
| "client_build sdk signer n mint CancelValidatorRotation = cancel_rotation_instruction sdk PROGRAM_ID signer"
| "client_build sdk signer n mint (TransferAdmin a) = transfer_admin_instruction sdk PROGRAM_ID signer a"
| "client_build sdk signer n mint AcceptAdmin = accept_admin_instruction sdk PROGRAM_ID signer"
| "client_build sdk signer n mint (CreateWrappedMint m) = create_wrapped_mint_instruction sdk PROGRAM_ID signer m"
| "client_build sdk signer n mint (MintWrapped m r txid vout a e) =
     mint_wrapped_instruction sdk PROGRAM_ID
       \<lparr>mw_submitter = signer, mw_bridge_config = fst (bridge_config_pda sdk PROGRAM_ID),
        mw_validator_set = fst (validator_set_pda sdk PROGRAM_ID),
        mw_deposit_claim = fst (deposit_claim_pda sdk PROGRAM_ID txid vout), mw_wrapped_mint = m,
        mw_mint_authority = fst (mint_authority_pda sdk PROGRAM_ID), mw_recipient = r,
        mw_recipient_token_account = sk_associated_token_address sdk r m\<rparr> txid vout a e"
| "client_build sdk signer n mint (BurnWrapped m a addr) =
     burn_wrapped_instruction sdk PROGRAM_ID
       \<lparr>bw_user = signer, bw_bridge_config = fst (bridge_config_pda sdk PROGRAM_ID), bw_wrapped_mint = m,
        bw_user_token_account = sk_associated_token_address sdk signer m,
        bw_withdrawal = fst (withdrawal_request_pda sdk PROGRAM_ID n)\<rparr> a addr"
| "client_build sdk signer n mint (LowerWrappedSupplyCap m) = lower_supply_cap_instruction sdk PROGRAM_ID signer m"
| "client_build sdk signer n mint (ProposeWrappedSupplyCapRaise m) =
     propose_cap_raise_instruction sdk PROGRAM_ID signer m"
| "client_build sdk signer n mint ExecuteWrappedSupplyCapRaise = execute_cap_raise_instruction sdk PROGRAM_ID signer"
| "client_build sdk signer n mint (CreateTokenMetadata m md prog uri) =
     create_token_metadata_instruction sdk PROGRAM_ID signer m uri"
| "client_build sdk signer n mint (UpdateTokenMetadata md prog name symbol uri) =
     update_token_metadata_instruction sdk PROGRAM_ID signer mint name symbol uri"
| "client_build sdk signer n mint (CompleteWithdrawal i txid h e) =
     complete_withdrawal_instruction sdk PROGRAM_ID
       \<lparr>cw_submitter = signer, cw_bridge_config = fst (bridge_config_pda sdk PROGRAM_ID),
        cw_validator_set = fst (validator_set_pda sdk PROGRAM_ID),
        cw_withdrawal = fst (withdrawal_pda sdk PROGRAM_ID i)\<rparr> i txid h e"

text \<open>The accounts the program demands for it.\<close>

primrec program_accounts :: "sdk \<Rightarrow> pubkey \<Rightarrow> u64 \<Rightarrow> instruction \<Rightarrow> account_meta list" where
  "program_accounts sdk signer n (Initialize pd vs th md mw lock cap) = Initialize_accounts sdk signer pd"
| "program_accounts sdk signer n (SetPaused p) = AdminConfig_accounts sdk signer"
| "program_accounts sdk signer n (ProposeValidatorRotation vs th) = ProposeGovernanceAction_accounts sdk signer"
| "program_accounts sdk signer n ExecuteValidatorRotation = ExecuteGovernanceAction_accounts sdk signer"
| "program_accounts sdk signer n CancelValidatorRotation = CancelGovernanceAction_accounts sdk signer"
| "program_accounts sdk signer n (TransferAdmin a) = AdminConfig_accounts sdk signer"
| "program_accounts sdk signer n AcceptAdmin = AcceptAdmin_accounts sdk signer"
| "program_accounts sdk signer n (CreateWrappedMint m) = CreateWrappedMint_accounts sdk signer m"
| "program_accounts sdk signer n (MintWrapped m r txid vout a e) = MintWrapped_accounts sdk signer m r txid vout"
| "program_accounts sdk signer n (BurnWrapped m a addr) = BurnWrapped_accounts sdk signer m n"
| "program_accounts sdk signer n (LowerWrappedSupplyCap m) = AdminConfig_accounts sdk signer"
| "program_accounts sdk signer n (ProposeWrappedSupplyCapRaise m) = ProposeGovernanceAction_accounts sdk signer"
| "program_accounts sdk signer n ExecuteWrappedSupplyCapRaise = ExecuteCapRaise_accounts sdk signer"
| "program_accounts sdk signer n (CreateTokenMetadata m md prog uri) = CreateTokenMetadata_accounts sdk signer m md"
| "program_accounts sdk signer n (UpdateTokenMetadata md prog name symbol uri) = UpdateTokenMetadata_accounts sdk signer md"
| "program_accounts sdk signer n (CompleteWithdrawal i txid h e) = CompleteWithdrawal_accounts sdk signer i"

text \<open>
  What the builders presuppose: lengths fit their prefix, texts are UTF-8, and the accounts the
  tools derive themselves are the ones meant.
\<close>

primrec wire_ok :: "sdk \<Rightarrow> pubkey \<Rightarrow> instruction \<Rightarrow> bool" where
  "wire_ok sdk mint (Initialize pd vs th md mw lock cap) \<longleftrightarrow>
     pd = program_data_address sdk PROGRAM_ID \<and> length vs < 2 ^ 32"
| "wire_ok sdk mint (SetPaused p) \<longleftrightarrow> True"
| "wire_ok sdk mint (ProposeValidatorRotation vs th) \<longleftrightarrow> length vs < 2 ^ 32"
| "wire_ok sdk mint ExecuteValidatorRotation \<longleftrightarrow> True"
| "wire_ok sdk mint CancelValidatorRotation \<longleftrightarrow> True"
| "wire_ok sdk mint (TransferAdmin a) \<longleftrightarrow> True"
| "wire_ok sdk mint AcceptAdmin \<longleftrightarrow> True"
| "wire_ok sdk mint (CreateWrappedMint m) \<longleftrightarrow> True"
| "wire_ok sdk mint (MintWrapped m r txid vout a e) \<longleftrightarrow> True"
| "wire_ok sdk mint (BurnWrapped m a addr) \<longleftrightarrow> length addr < 2 ^ 32"
| "wire_ok sdk mint (LowerWrappedSupplyCap m) \<longleftrightarrow> True"
| "wire_ok sdk mint (ProposeWrappedSupplyCapRaise m) \<longleftrightarrow> True"
| "wire_ok sdk mint ExecuteWrappedSupplyCapRaise \<longleftrightarrow> True"
| "wire_ok sdk mint (CreateTokenMetadata m md prog uri) \<longleftrightarrow> md = fst (token_metadata_pda sdk m) \<and>
     prog = TOKEN_METADATA_PROGRAM_ID \<and> utf8_valid uri \<and> length uri < 2 ^ 32"
| "wire_ok sdk mint (UpdateTokenMetadata md prog name symbol uri) \<longleftrightarrow> md = fst (token_metadata_pda sdk mint) \<and>
     prog = TOKEN_METADATA_PROGRAM_ID \<and> list_all (\<lambda>s. utf8_valid s \<and> length s < 2 ^ 32) [name, symbol, uri]"
| "wire_ok sdk mint (CompleteWithdrawal i txid h e) \<longleftrightarrow> True"

lemmas client_pdas = bridge_config_pda_def validator_set_pda_def mint_authority_pda_def deposit_claim_pda_def
  withdrawal_pda_def withdrawal_request_pda_def governance_action_pda_def program_pda_def
  IX_SEED_BRIDGE_CONFIG_def IX_SEED_VALIDATOR_SET_def IX_SEED_MINT_AUTHORITY_def IX_SEED_DEPOSIT_CLAIM_def
  IX_SEED_GOVERNANCE_ACTION_def IX_SEED_WITHDRAWAL_def seed_defs

lemmas client_builders = initialize_instruction_def set_paused_instruction_def propose_rotation_instruction_def
  execute_rotation_instruction_def cancel_rotation_instruction_def transfer_admin_instruction_def
  accept_admin_instruction_def create_wrapped_mint_instruction_def mint_wrapped_instruction_def
  burn_wrapped_instruction_def lower_supply_cap_instruction_def propose_cap_raise_instruction_def
  execute_cap_raise_instruction_def create_token_metadata_instruction_def update_token_metadata_instruction_def
  complete_withdrawal_instruction_def admin_config_metas_def propose_metas_def execute_metas_def

lemmas program_structs = Initialize_accounts_def AdminConfig_accounts_def ProposeGovernanceAction_accounts_def
  ExecuteGovernanceAction_accounts_def CancelGovernanceAction_accounts_def AcceptAdmin_accounts_def
  CreateWrappedMint_accounts_def MintWrapped_accounts_def BurnWrapped_accounts_def ExecuteCapRaise_accounts_def
  CreateTokenMetadata_accounts_def UpdateTokenMetadata_accounts_def CompleteWithdrawal_accounts_def

lemma accounts_agree: "wire_ok sdk mint i \<Longrightarrow> si_accounts (client_build sdk signer n mint i) = program_accounts sdk signer n i"
  by (cases i) (simp_all add: client_builders program_structs client_pdas)

lemma dispatch_agree:
  assumes "distinct_discriminators sdk" "wire_ok sdk mint i"
  shows "dispatch sdk (map am_pubkey (program_accounts sdk signer n i)) (si_data (client_build sdk signer n mint i)) = Some i"
  using assms(2)
  by (cases i)
    (simp_all add: client_builders program_structs dispatch_to [OF assms(1)] dispatch_to_bare [OF assms(1)]
      handlers_def wire_reads meta_new_def meta_new_readonly_def)

text \<open>
  C24: The relayer's hand-written encodings and the program agree on every instruction: the bytes
  a builder produces are dispatched by the program to the intended handler with exactly the
  intended arguments and accounts, and the account list (order, addresses, signers, writability)
  is the one the handler's account struct demands.
\<close>

theorem client_program_agree:
  assumes "distinct_discriminators sdk" "wire_ok sdk mint i"
  shows "dispatch sdk (map am_pubkey (si_accounts (client_build sdk signer n mint i)))
       (si_data (client_build sdk signer n mint i)) = Some i \<and>
     si_accounts (client_build sdk signer n mint i) = program_accounts sdk signer n i \<and>
     si_program_id (client_build sdk signer n mint i) = PROGRAM_ID"
proof -
  have "si_program_id (client_build sdk signer n mint i) = PROGRAM_ID"
    by (cases i) (simp_all add: client_builders)
  then show ?thesis
    using dispatch_agree [OF assms] accounts_agree [OF assms(2)] by simp
qed

text \<open>A toy hash that tells the names of the handlers apart.\<close>

definition demo_sdk :: sdk where
  "demo_sdk = \<lparr>sk_sha256 = (\<lambda>bs. from_le [word_of_nat (length bs), bs ! 7, last bs]),
     sk_find_program_address = (\<lambda>seeds prog. (from_le (take 32 (concat seeds)), 255)),
     sk_associated_token_address = (\<lambda>w m. w + m), sk_token_program = 101, sk_instructions_sysvar = 102,
     sk_system_program = 103, sk_rent_sysvar = 104, sk_bpf_loader_upgradeable = 105\<rparr>"

lemma demo_discriminators: "distinct_discriminators demo_sdk"
  unfolding distinct_discriminators_def handlers_def anchor_discriminator_def demo_sdk_def
  by (simp add: ascii_def le_bytes_def upt_rec)

theorem client_program_agree_witness:
  "dispatch demo_sdk (map am_pubkey (si_accounts (client_build demo_sdk 7 0 0 (MintWrapped 5 6 11 2 500 1))))
       (si_data (client_build demo_sdk 7 0 0 (MintWrapped 5 6 11 2 500 1))) = Some (MintWrapped 5 6 11 2 500 1)"
  by (rule client_program_agree [OF demo_discriminators, THEN conjunct1]) simp

end
