(* ===== verification/Indexer.thy ===== *)
theory Indexer
  imports Effects Rpc DepositDb Payout Wire
begin

text \<open>
  The Goldcoin indexer: the extraction of deposits (\<^verbatim>\<open>relayer/src/glc/deposit.rs\<close>), the validated
  configuration (\<^verbatim>\<open>glc/config.rs\<close>) and the tick loop (\<^verbatim>\<open>glc/indexer.rs\<close>).  The node and the clock
  are functions that read and change an opaque world.  Amounts arrive as 64-bit floats; their
  type and \<open>glc_to_atomic\<close>, which multiplies by a hundred million and rounds, are parameters.
  A slice that panics in the code is an error of the model; heights and times wrap around.
\<close>

section \<open>Deposits in a transaction (deposit.rs)\<close>

record 'f decoded_vout =
  dv_value :: 'f
  dv_n :: u32
  dv_script_hex :: bytes

record 'f node_tx =
  nt_txid :: bytes
  nt_vout :: "'f decoded_vout list"
  nt_confirmations :: "i64 option"

datatype binding_error = NoOpReturn | MultipleOpReturn | WrongPushSize nat | BindingPanic

fun reason_code :: "binding_error \<Rightarrow> string" where
  "reason_code NoOpReturn = ''no_recipient_binding''"
| "reason_code MultipleOpReturn = ''ambiguous_recipient_binding''"
| "reason_code (WrongPushSize _) = ''malformed_recipient_binding''"
| "reason_code BindingPanic = ''''"

record vault_output_candidate =
  vo_vout :: u32
  vo_amount_atomic :: u64

record vault_deposit =
  vd_vout :: u32
  vd_amount_atomic :: u64
  vd_recipient :: bytes32

definition is_vault_output :: "bytes \<Rightarrow> bytes \<Rightarrow> bool" where
  "is_vault_output script_pub_key_hex vault_script_hex =
     eq_ignore_ascii_case script_pub_key_hex vault_script_hex"

definition OP_RETURN :: u8 where "OP_RETURN = 0x6a"

text \<open>The loop over the outputs, with the binding found so far and the number of OP_RETURN outputs.\<close>

fun binding_loop :: "'f decoded_vout list \<Rightarrow> bytes32 option \<Rightarrow> nat \<Rightarrow> (bytes32, binding_error) result" where
  "binding_loop [] found seen = ok_or NoOpReturn found"
| "binding_loop (v # vs) found seen =
     (case decode_vec (dv_script_hex v) of
        Err SlicePanic \<Rightarrow> Err BindingPanic
      | Err _ \<Rightarrow> binding_loop vs found seen
      | Ok script \<Rightarrow>
          if get_at script 0 \<noteq> Some OP_RETURN then binding_loop vs found seen
          else if seen + 1 > 1 then Err MultipleOpReturn
          else let payload_len = (case get_at script 1 of None \<Rightarrow> 0 | Some b \<Rightarrow> unat b);
                   payload = (if 2 \<le> length script then Some (drop 2 script) else None);
                   actual_len = (case payload of None \<Rightarrow> 0 | Some p \<Rightarrow> length p) in
               if payload_len \<noteq> 32 \<or> actual_len \<noteq> 32 then Err (WrongPushSize actual_len)
               else binding_loop vs (Some (from_le (drop 2 script))) (seen + 1))"

definition extract_recipient_binding :: "'f node_tx \<Rightarrow> (bytes32, binding_error) result" where
  "extract_recipient_binding tx = binding_loop (nt_vout tx) None 0"

definition vault_output_candidates ::
  "('f \<Rightarrow> u64) \<Rightarrow> 'f node_tx \<Rightarrow> bytes \<Rightarrow> vault_output_candidate list" where
  "vault_output_candidates glc_to_atomic tx vault_script_hex =
     map (\<lambda>v. \<lparr>vo_vout = dv_n v, vo_amount_atomic = glc_to_atomic (dv_value v)\<rparr>)
       (filter (\<lambda>v. is_vault_output (dv_script_hex v) vault_script_hex) (nt_vout tx))"

definition find_vault_outputs ::
  "('f \<Rightarrow> u64) \<Rightarrow> 'f node_tx \<Rightarrow> bytes \<Rightarrow> (vault_deposit list, binding_error) result" where
  "find_vault_outputs glc_to_atomic tx vault_script_hex =
     (let vault_vouts = filter (\<lambda>v. is_vault_output (dv_script_hex v) vault_script_hex) (nt_vout tx) in
      if vault_vouts = [] then Ok []
      else and_then (extract_recipient_binding tx) (\<lambda>recipient.
        Ok (map (\<lambda>v. \<lparr>vd_vout = dv_n v, vd_amount_atomic = glc_to_atomic (dv_value v),
                       vd_recipient = recipient\<rparr>) vault_vouts)))"

section \<open>Configuration (config.rs)\<close>

datatype config_error =
    ConfigEmpty string
  | ConfigInvalidHex string bytes
  | ConfigWrongLength string nat nat
  | NotP2pkh
  | ConfigZeroConfirmationDepth
  | ReorgDepthTooSmall u32 u32
  | RollingWindowMisconfigured
  | ConfigPanic

record rolling_window =
  rw_window_seconds :: u64
  rw_cap_atomic :: u64

record value_caps =
  vc_max_deposit_atomic :: "u64 option"
  vc_rolling_window :: "rolling_window option"

record rpc_config =
  rc_url :: bytes
  rc_user :: bytes
  rc_password :: bytes
  rc_connect_timeout_ms :: u64
  rc_read_timeout_ms :: u64

record raw_indexer_config =
  ri_rpc :: rpc_config
  ri_db_path :: bytes
  ri_vault_script_pubkey_hex :: bytes
  ri_confirmation_depth :: u32
  ri_max_reorg_depth :: u32
  ri_min_deposit_atomic :: u64
  ri_value_caps :: value_caps
  ri_protocol_version :: u8
  ri_program_id_hex :: bytes
  ri_validator_epoch :: u64
  ri_wrapped_mint_hex :: bytes
  ri_node_unavailable_retry_interval_ms :: u64
  ri_poll_interval_ms :: u64

record indexer_config =
  ic_rpc :: rpc_config
  ic_db_path :: bytes
  ic_vault_script_pubkey :: bytes
  ic_confirmation_depth :: u32
  ic_max_reorg_depth :: u32
  ic_min_deposit_atomic :: u64
  ic_value_caps :: value_caps
  ic_protocol_version :: u8
  ic_program_id :: bytes32
  ic_validator_epoch :: u64
  ic_wrapped_mint :: bytes32
  ic_node_unavailable_retry_interval_ms :: u64
  ic_poll_interval_ms :: u64

definition P2PKH_SCRIPT_LEN :: nat where "P2PKH_SCRIPT_LEN = 25"

text \<open>\<open>show_hex\<close> is the text of a hex error.\<close>

definition decode_hex_exact ::
  "(hex_error \<Rightarrow> bytes) \<Rightarrow> nat \<Rightarrow> string \<Rightarrow> bytes \<Rightarrow> (bytes, config_error) result" where
  "decode_hex_exact show_hex n field s =
     (if s = [] then Err (ConfigEmpty field)
      else map_err (\<lambda>e. case e of
          WrongLength expected _ actual \<Rightarrow> ConfigWrongLength field expected actual
        | SlicePanic \<Rightarrow> ConfigPanic
        | other \<Rightarrow> ConfigInvalidHex field (show_hex other)) (decode_exact n s))"

definition is_p2pkh :: "bytes \<Rightarrow> bool" where
  "is_p2pkh script \<longleftrightarrow> script ! 0 = 0x76 \<and> script ! 1 = 0xa9 \<and> script ! 2 = 0x14 \<and>
     script ! 23 = 0x88 \<and> script ! 24 = 0xac"

definition validate_indexer_config ::
  "(hex_error \<Rightarrow> bytes) \<Rightarrow> raw_indexer_config \<Rightarrow> (indexer_config, config_error) result" where
  "validate_indexer_config show_hex raw =
     (if rc_url (ri_rpc raw) = [] then Err (ConfigEmpty ''rpc.url'')
      else if rc_user (ri_rpc raw) = [] then Err (ConfigEmpty ''rpc.user'')
      else if rc_password (ri_rpc raw) = [] then Err (ConfigEmpty ''rpc.password'')
      else and_then (decode_hex_exact show_hex P2PKH_SCRIPT_LEN ''vault_script_pubkey_hex''
             (ri_vault_script_pubkey_hex raw)) (\<lambda>vault_script_pubkey.
      if \<not> is_p2pkh vault_script_pubkey then Err NotP2pkh
      else if ri_confirmation_depth raw = 0 then Err ConfigZeroConfirmationDepth
      else if ri_max_reorg_depth raw < ri_confirmation_depth raw
        then Err (ReorgDepthTooSmall (ri_max_reorg_depth raw) (ri_confirmation_depth raw))
      else if (case vc_rolling_window (ri_value_caps raw) of None \<Rightarrow> False
               | Some w \<Rightarrow> rw_window_seconds w = 0) then Err RollingWindowMisconfigured
      else and_then (decode_hex_exact show_hex 32 ''program_id_hex'' (ri_program_id_hex raw)) (\<lambda>program_id.
      and_then (decode_hex_exact show_hex 32 ''wrapped_mint_hex'' (ri_wrapped_mint_hex raw)) (\<lambda>wrapped_mint.
      Ok \<lparr>ic_rpc = ri_rpc raw, ic_db_path = ri_db_path raw,
          ic_vault_script_pubkey = vault_script_pubkey,
          ic_confirmation_depth = ri_confirmation_depth raw,
          ic_max_reorg_depth = ri_max_reorg_depth raw,
          ic_min_deposit_atomic = ri_min_deposit_atomic raw, ic_value_caps = ri_value_caps raw,
          ic_protocol_version = ri_protocol_version raw, ic_program_id = from_le program_id,
          ic_validator_epoch = ri_validator_epoch raw, ic_wrapped_mint = from_le wrapped_mint,
          ic_node_unavailable_retry_interval_ms = ri_node_unavailable_retry_interval_ms raw,
          ic_poll_interval_ms = ri_poll_interval_ms raw\<rparr>))))"

section \<open>The environment of the deposit side\<close>

record block_header =
  bh_hash :: bytes
  bh_confirmations :: i64
  bh_height :: i64
  bh_time :: i64
  bh_previousblockhash :: "bytes option"
  bh_tx :: "bytes list"

record ('w, 'f) indexer_env =
  ie_sha256 :: sha256
  ie_config :: indexer_config
  get_block_count :: "'w \<Rightarrow> (i64, rpc_error) result \<times> 'w"
  get_block_hash :: "i64 \<Rightarrow> 'w \<Rightarrow> (bytes, rpc_error) result \<times> 'w"
  get_block :: "bytes \<Rightarrow> 'w \<Rightarrow> (block_header, rpc_error) result \<times> 'w"
  get_raw_transaction :: "bytes \<Rightarrow> 'w \<Rightarrow> ('f node_tx, rpc_error) result \<times> 'w"
  get_raw_transaction_hex :: "bytes \<Rightarrow> 'w \<Rightarrow> (bytes, rpc_error) result \<times> 'w"
  get_tx_out_confirmed :: "bytes \<Rightarrow> u32 \<Rightarrow> 'w \<Rightarrow> (i64 option, rpc_error) result \<times> 'w"
  ie_now_unix :: "'w \<Rightarrow> i64 \<times> 'w"
  ie_glc_to_atomic :: "'f \<Rightarrow> u64"
  ie_show_hex :: "hex_error \<Rightarrow> bytes"

text \<open>
  The database is shared by the indexer and the orchestrator; \<open>de_halted\<close> is the indexer's flag.
  \<open>de_submitted\<close> records the mint transactions handed to Solana; the code never reads it.
\<close>

record submission =
  sb_claim :: signable_claim
  sb_signatures :: "(pubkey \<times> signature) list"
  sb_instructions :: "solana_ix list"

record 'w dep_state =
  de_db :: deposit_db
  de_world :: 'w
  de_halted :: bool
  de_submitted :: "submission list"

definition ddb :: "(db_error \<Rightarrow> 'e) \<Rightarrow> ('a, deposit_db) db_op \<Rightarrow> ('w dep_state, 'a, 'e) io" where
  "ddb wrap m s = (case m (de_db s) of (r, d) \<Rightarrow> (map_err wrap r, s\<lparr>de_db := d\<rparr>))"

definition dtry :: "('a, deposit_db) db_op \<Rightarrow> ('w dep_state, ('a, db_error) result, 'e) io" where
  "dtry m s = (case m (de_db s) of (r, d) \<Rightarrow> (Ok r, s\<lparr>de_db := d\<rparr>))"

definition dquery :: "(deposit_db \<Rightarrow> ('a, 'e) result) \<Rightarrow> ('w dep_state, 'a, 'e) io" where
  "dquery q s = (q (de_db s), s)"

definition dworld :: "('w \<Rightarrow> 'a \<times> 'w) \<Rightarrow> ('w dep_state, 'a, 'e) io" where
  "dworld call s = (case call (de_world s) of (x, w) \<Rightarrow> (Ok x, s\<lparr>de_world := w\<rparr>))"

section \<open>The indexer (indexer.rs)\<close>

datatype indexer_error =
    IndexerNodeUnavailable rpc_error
  | IndexerRpc rpc_error
  | IndexerDb db_error
  | IndexerPanic

record reorg_summary =
  rs_fork_height :: i64
  rs_old_tip_height :: i64
  rs_orphaned_count :: i64

datatype tick_outcome = Progressed nat "reorg_summary option" | Halted i64

type_synonym ('w, 'a) ix = "('w dep_state, 'a, indexer_error) io"

definition INNER_RETRY_ATTEMPTS :: nat where "INNER_RETRY_ATTEMPTS = 3"

definition indexer_classify :: "rpc_error \<Rightarrow> indexer_error" where
  "indexer_classify e = (if is_retriable e then IndexerNodeUnavailable e else IndexerRpc e)"

definition indexer_call :: "('w \<Rightarrow> ('a, rpc_error) result \<times> 'w) \<Rightarrow> ('w, 'a) ix" where
  "indexer_call f s = (case call_with_retry INNER_RETRY_ATTEMPTS f (de_world s) of
     (r, w) \<Rightarrow> (map_err indexer_classify r, s\<lparr>de_world := w\<rparr>))"

definition decode_hash :: "('w, 'f) indexer_env \<Rightarrow> bytes \<Rightarrow> (bytes32, indexer_error) result" where
  "decode_hash env hex =
     (case decode_exact 32 hex of
        Ok b \<Rightarrow> Ok (from_le b)
      | Err SlicePanic \<Rightarrow> Err IndexerPanic
      | Err e \<Rightarrow> Err (IndexerRpc (Malformed (ie_show_hex env e))))"

text \<open>\<open>self.config.max_reorg_depth as i64\<close>.\<close>

definition max_depth :: "('w, 'f) indexer_env \<Rightarrow> i64" where
  "max_depth env = ucast (ic_max_reorg_depth (ie_config env))"

lemma sint_pred: "\<not> h <s 0 \<Longrightarrow> sint (h - 1 :: i64) = sint h - 1"
proof -
  assume "\<not> h <s 0"
  then have "0 \<le> sint h" by (simp add: word_sless_alt)
  then show ?thesis
    using sint_u64_of_int [of "sint h - 1"] sint_u64_bounds [of h] by simp
qed

function fork_walk :: "('w, 'f) indexer_env \<Rightarrow> i64 \<Rightarrow> i64 \<Rightarrow> ('w, i64 option) ix" where
  "fork_walk env from_height h =
     (if h <s 0 then eret None
      else ebind (indexer_call (get_block_hash env h)) (\<lambda>live_hash_hex.
        ebind (elift (decode_hash env live_hash_hex)) (\<lambda>live_hash.
        ebind (dquery (\<lambda>d. Ok (block_hash_at_height d h))) (\<lambda>local_hash.
        if local_hash = Some live_hash then eret (Some h)
        else let depth = from_height - (h - 1) in
          if max_depth env <s depth then eret None
          else fork_walk env from_height (h - 1)))))"
  by auto

termination
  by (relation "measure (\<lambda>(_, _, h). nat (sint h + 1))")
    (auto simp: sint_pred word_sless_alt)

declare fork_walk.simps [simp del]

definition find_fork_point :: "('w, 'f) indexer_env \<Rightarrow> i64 \<Rightarrow> ('w, i64 option) ix" where
  "find_fork_point env from_height = fork_walk env from_height from_height"

text \<open>What a vault output becomes, given the binding of its transaction.\<close>

definition classify_output ::
  "u64 \<Rightarrow> (bytes32, binding_error) result \<Rightarrow> u64 \<Rightarrow> deposit_state \<times> bytes option \<times> bytes32" where
  "classify_output min_deposit_atomic binding amount_atomic =
     (case binding of
        Err e \<Rightarrow> (DFailed, Some (ascii (reason_code e)), 0)
      | Ok recipient \<Rightarrow>
          if amount_atomic < min_deposit_atomic
          then (DFailed, Some (ascii ''below_min_deposit''), recipient)
          else (DCandidate, None, recipient))"

definition output_candidate ::
  "('w, 'f) indexer_env \<Rightarrow> i64 \<Rightarrow> bytes32 \<Rightarrow> i64 \<Rightarrow> bytes32 \<Rightarrow> bytes \<Rightarrow> (bytes32, binding_error) result
   \<Rightarrow> vault_output_candidate \<Rightarrow> new_candidate" where
  "output_candidate env height hash discovered_at txid raw_tx_hex binding out =
     (case classify_output (ic_min_deposit_atomic (ie_config env)) binding (vo_amount_atomic out) of
        (initial_state, failure_reason, recipient) \<Rightarrow>
          \<lparr>nc_txid = txid, nc_vout = ucast (vo_vout out), nc_amount_atomic = vo_amount_atomic out,
           nc_recipient = recipient, nc_block_height = height, nc_block_hash = hash,
           nc_raw_tx_hex = raw_tx_hex, nc_discovered_at = discovered_at,
           nc_initial_state = initial_state, nc_failure_reason = failure_reason\<rparr>)"

definition vault_script_hex :: "('w, 'f) indexer_env \<Rightarrow> bytes" where
  "vault_script_hex env = hex_encode (ic_vault_script_pubkey (ie_config env))"

text \<open>The loop over the transactions of a block.\<close>

fun collect_candidates ::
  "('w, 'f) indexer_env \<Rightarrow> i64 \<Rightarrow> bytes32 \<Rightarrow> i64 \<Rightarrow> bytes list \<Rightarrow> ('w, new_candidate list) ix" where
  "collect_candidates env height hash discovered_at [] = eret []"
| "collect_candidates env height hash discovered_at (txid_hex # txids) =
     ebind (indexer_call (get_raw_transaction env txid_hex)) (\<lambda>decoded.
     ebind (indexer_call (get_raw_transaction_hex env txid_hex)) (\<lambda>raw_tx_hex.
     let vault_outputs = vault_output_candidates (ie_glc_to_atomic env) decoded (vault_script_hex env) in
     if vault_outputs = [] then collect_candidates env height hash discovered_at txids
     else ebind (elift (decode_hash env txid_hex)) (\<lambda>txid.
       let binding = extract_recipient_binding decoded in
       if binding = Err BindingPanic then elift (Err IndexerPanic)
       else ebind (collect_candidates env height hash discovered_at txids) (\<lambda>rest.
         eret (map (output_candidate env height hash discovered_at txid raw_tx_hex binding) vault_outputs
           @ rest)))))"

text \<open>The transactions of the genesis block are not looked at.\<close>

definition index_block :: "('w, 'f) indexer_env \<Rightarrow> i64 \<Rightarrow> ('w, unit) ix" where
  "index_block env height =
     ebind (indexer_call (get_block_hash env height)) (\<lambda>hash_hex.
     ebind (elift (decode_hash env hash_hex)) (\<lambda>hash.
     ebind (indexer_call (get_block env hash_hex)) (\<lambda>header.
     ebind (elift (case bh_previousblockhash header of None \<Rightarrow> Ok 0 | Some p \<Rightarrow> decode_hash env p)) (\<lambda>prev_hash.
     ebind (dworld (ie_now_unix env)) (\<lambda>discovered_at.
     ebind (collect_candidates env height hash discovered_at (if height = 0 then [] else bh_tx header))
       (\<lambda>candidates.
     ebind (ddb IndexerDb (ingest_block \<lparr>ib_height = height, ib_hash = hash, ib_prev_hash = prev_hash,
         ib_block_time = bh_time header, ib_indexed_at = discovered_at\<rparr> candidates)) (\<lambda>_. eret ())))))))"

definition advance_new_candidates_to_confirming :: "('w, 'f) indexer_env \<Rightarrow> ('w, unit) ix" where
  "advance_new_candidates_to_confirming env =
     ebind (dquery (\<lambda>d. Ok (candidates_by_state d DCandidate))) (\<lambda>fresh.
     ebind (dworld (ie_now_unix env)) (\<lambda>at.
     efor fresh (\<lambda>row. ddb IndexerDb (transition_state (dr_id row) DConfirming at None None))))"

text \<open>Whether the rolling window still has room for the deposit.\<close>

definition window_has_room ::
  "('w, 'f) indexer_env \<Rightarrow> rolling_window option \<Rightarrow> u64 \<Rightarrow> ('w, bool) ix" where
  "window_has_room env window amount_atomic =
     (case window of None \<Rightarrow> eret True
      | Some w \<Rightarrow>
          ebind (dworld (ie_now_unix env)) (\<lambda>now.
          ebind (dquery (\<lambda>d. map_err IndexerDb (ready_amount_sum_since d (now - rw_window_seconds w)))) (\<lambda>already_ready_sum.
          eret (\<not> rw_cap_atomic w < saturating_add already_ready_sum amount_atomic))))"

definition claim_artifact_for :: "('w, 'f) indexer_env \<Rightarrow> deposit_row \<Rightarrow> i64 \<Rightarrow> claim_artifact" where
  "claim_artifact_for env row created_at =
     (let cfg = ie_config env;
          message = build_claim_message (ic_protocol_version cfg) (ic_program_id cfg)
            (ic_validator_epoch cfg) (dr_txid row) (ucast (dr_vout row)) (dr_amount_atomic row)
            (dr_recipient row) (ic_wrapped_mint cfg)
      in \<lparr>ca_deposit_id = dr_id row, ca_canonical_message = message,
          ca_message_hash = ie_sha256 env message, ca_protocol_version = ic_protocol_version cfg,
          ca_validator_epoch = ic_validator_epoch cfg, ca_program_id = ic_program_id cfg,
          ca_wrapped_mint = ic_wrapped_mint cfg, ca_created_at = created_at\<rparr>)"

text \<open>The arithmetic of heights wraps around.\<close>

definition deposit_depth :: "i64 \<Rightarrow> i64 \<Rightarrow> i64" where
  "deposit_depth tip_height block_height = tip_height - block_height + 1"

definition promote_one :: "('w, 'f) indexer_env \<Rightarrow> i64 \<Rightarrow> deposit_row \<Rightarrow> ('w, unit) ix" where
  "promote_one env tip_height row =
     (let depth = deposit_depth tip_height (dr_block_height row) in
     if depth <s ucast (ic_confirmation_depth (ie_config env)) then eret ()
     else ebind (indexer_call (get_tx_out_confirmed env (dr_txid_hex row) (ucast (dr_vout row)))) (\<lambda>out.
     if out = None then
       ebind (dworld (ie_now_unix env)) (\<lambda>now.
       ddb IndexerDb (transition_state (dr_id row) DFailed now (Some (ascii ''vault_output_spent'')) None))
     else if (case vc_max_deposit_atomic (ic_value_caps (ie_config env)) of None \<Rightarrow> False
              | Some cap \<Rightarrow> cap < dr_amount_atomic row) then eret ()
     else ebind (window_has_room env (vc_rolling_window (ic_value_caps (ie_config env)))
                   (dr_amount_atomic row)) (\<lambda>room.
     if \<not> room then eret ()
     else ebind (dworld (ie_now_unix env)) (\<lambda>created_at.
       ebind (dworld (ie_now_unix env)) (\<lambda>now.
       ddb IndexerDb (transition_state (dr_id row) DReadyForSignature now None
         (Some (claim_artifact_for env row created_at))))))))"

definition promote_confirming :: "('w, 'f) indexer_env \<Rightarrow> i64 \<Rightarrow> ('w, unit) ix" where
  "promote_confirming env tip_height =
     ebind (dquery (\<lambda>d. Ok (candidates_by_state d DConfirming))) (\<lambda>confirming.
     efor confirming (promote_one env tip_height))"

definition set_halted :: "('w, unit) ix" where
  "set_halted s = (Ok (), s\<lparr>de_halted := True\<rparr>)"

text \<open>Where indexing starts, after undoing a reorganization; \<open>None\<close> when it halts.\<close>

definition resolve_fork ::
  "('w, 'f) indexer_env \<Rightarrow> ('w, (i64 \<times> reorg_summary option) option) ix" where
  "resolve_fork env =
     ebind (dquery (\<lambda>d. Ok (chain_tip d))) (\<lambda>tip.
     case tip of None \<Rightarrow> eret (Some (0, None))
     | Some (local_height, local_hash) \<Rightarrow>
         ebind (find_fork_point env local_height) (\<lambda>fork.
         case fork of None \<Rightarrow> ebind set_halted (\<lambda>_. eret None)
         | Some fork_height \<Rightarrow>
             if fork_height = local_height then
               eret (Some (local_height + 1, None))
             else
               ebind (indexer_call (get_block_hash env fork_height)) (\<lambda>fork_hash_hex.
               ebind (elift (decode_hash env fork_hash_hex)) (\<lambda>fork_hash.
               ebind (dworld (ie_now_unix env)) (\<lambda>now.
               ebind (ddb IndexerDb (rollback_reorg fork_height fork_height fork_hash local_height
                 local_hash now)) (\<lambda>orphaned_count.
               eret (Some (fork_height + 1, Some \<lparr>rs_fork_height = fork_height, rs_old_tip_height = local_height,
                 rs_orphaned_count = orphaned_count\<rparr>))))))))"

definition heights :: "i64 \<Rightarrow> i64 \<Rightarrow> i64 list" where
  "heights start tip = map word_of_int [sint start..sint tip]"

definition indexer_tick :: "('w, 'f) indexer_env \<Rightarrow> ('w, tick_outcome) ix" where
  "indexer_tick env =
     ebind (\<lambda>s. (Ok (de_halted s), s)) (\<lambda>halted.
     if halted then eret (Halted (max_depth env + 1))
     else ebind (indexer_call (get_block_count env)) (\<lambda>live_tip_height.
     ebind (resolve_fork env) (\<lambda>start.
     case start of None \<Rightarrow> eret (Halted (max_depth env + 1))
     | Some (start_height, reorg) \<Rightarrow>
         ebind (efor (heights start_height live_tip_height) (index_block env)) (\<lambda>_.
         ebind (advance_new_candidates_to_confirming env) (\<lambda>_.
         ebind (promote_confirming env live_tip_height) (\<lambda>_.
         eret (Progressed (length (heights start_height live_tip_height)) reorg)))))))"

end
