(* ===== verification/DepositSafety.thy ===== *)
theory DepositSafety
  imports DepositStore Indexer
begin

text \<open>
  What a call of the deposit database does to one deposit and to the frozen claims, and the
  safety of the calls the relayer makes: a claim, once frozen, is exactly the canonical message of
  its deposit, and no deposit is ever halted.  The indexer, the orchestrator and an operator run
  as separate tasks on one database; the calls may interleave in any order.
\<close>

section \<open>The effect of a call on one deposit\<close>

lemma update_deposit_at:
  assumes "\<And>r. cd_id (f r) = cd_id r"
  shows "deposit_at (update_deposit j f d) i = (if i = j then map_option f (deposit_at d i) else deposit_at d i)"
proof -
  have "deposit_at (update_deposit j f d) i = map_option (\<lambda>r. if cd_id r = j then f r else r) (deposit_at d i)"
    unfolding update_deposit_def by (simp add: row_at_update assms)
  also have "\<dots> = (if i = j then map_option f (deposit_at d i) else deposit_at d i)"
    by (cases "deposit_at d i") (auto dest: row_at_Some)
  finally show ?thesis .
qed

lemma update_deposit_artifacts [simp]: "claim_artifacts (update_deposit j f d) = claim_artifacts d"
  by (simp add: update_deposit_def)

abbreviation transitioned ::
  "deposit_state \<Rightarrow> i64 \<Rightarrow> bytes option \<Rightarrow> deposit_candidate_row \<Rightarrow> deposit_candidate_row" where
  "transitioned to at reason r \<equiv> r\<lparr>cd_state := ds_as_str to,
     cd_ready_at := coalesce (if to = DReadyForSignature then Some at else None) (cd_ready_at r),
     cd_failure_reason := coalesce reason (cd_failure_reason r)\<rparr>"

lemma transition_effect:
  assumes "transition_state j to at reason a d = (res, d')"
  obtains (failed) e where "res = Err e" "d' = d"
  | (success) r where "res = Ok ()" "deposit_at d j = Some r"
      "\<And>i. deposit_at d' i = (if i = j then Some (transitioned to at reason r) else deposit_at d i)"
      "claim_artifacts d' = claim_artifacts d @ (case a of None \<Rightarrow> [] | Some x \<Rightarrow> [x])"
proof (cases res)
  case (Err e)
  with assms have "d' = d" unfolding transition_state_def by (auto dest: transact_Err)
  with Err failed show ?thesis by blast
next
  case (Ok u)
  from assms [unfolded Ok transition_state_Ok] obtain r d1 where r: "deposit_at d j = Some r" and d1:
    "insert_deposit_log (deposit_log_entry j (Some (cd_state r)) (ds_as_str to) at reason (cd_block_hash r))
        (update_deposit j (transitioned to at reason) d) = Ok d1"
    "case a of None \<Rightarrow> d' = d1 | Some x \<Rightarrow> insert_artifact x d1 = Ok d'"
    by (elim exE conjE)
  have "deposit_at d1 i = (if i = j then Some (transitioned to at reason r) else deposit_at d i)"
    "claim_artifacts d1 = claim_artifacts d" for i
    using d1(1) r update_deposit_at [of "transitioned to at reason" i j d] by (auto simp: insert_deposit_log_Ok)
  with d1(2) r Ok success show ?thesis by (auto simp: insert_artifact_Ok split: option.splits)
qed

lemma submitted_effect:
  assumes "mark_submitted j sig at d = (res, d')"
  obtains (failed) e where "res = Err e" "d' = d"
  | (success) r where "res = Ok ()" "deposit_at d j = Some r"
      "\<And>i. deposit_at d' i = (if i = j then Some (r\<lparr>cd_state := ds_as_str DSubmitted,
          cd_submitted_signature := Some sig\<rparr>) else deposit_at d i)"
      "claim_artifacts d' = claim_artifacts d"
proof (cases res)
  case (Err e)
  with assms have "d' = d" unfolding mark_submitted_def by (auto dest: transact_Err)
  with Err failed show ?thesis by blast
next
  case (Ok u)
  let ?f = "\<lambda>r. r\<lparr>cd_state := ds_as_str DSubmitted, cd_submitted_signature := Some sig\<rparr>"
  from assms [unfolded Ok mark_submitted_def transact_Ok Let_def] obtain r where r: "deposit_at d j = Some r"
    "insert_deposit_log (deposit_log_entry j (Some (cd_state r)) (ds_as_str DSubmitted) at (Some sig)
       (cd_block_hash r)) (update_deposit j ?f d) = Ok d'"
    by auto
  then show ?thesis
    using Ok update_deposit_at [of ?f _ j d] by (intro success) (auto simp: insert_deposit_log_Ok)
qed

lemma orphan_rows_effect:
  "orphan_rows at rs d = Ok d' \<Longrightarrow> claim_artifacts d' = claim_artifacts d \<and>
     deposit_at d' i = (if i \<in> cd_id ` set rs then map_option (\<lambda>r. r\<lparr>cd_state := ''Orphaned''\<rparr>) (deposit_at d i)
       else deposit_at d i)"
proof (induction rs arbitrary: d)
  case (Cons x rs)
  let ?f = "\<lambda>r. r\<lparr>cd_state := ''Orphaned''\<rparr>"
  from Cons.prems obtain d1 where 1: "insert_deposit_log (deposit_log_entry (cd_id x) (Some (cd_state x))
       ''Orphaned'' at (Some (ascii ''reorg_rollback'')) (cd_block_hash x))
       (update_deposit (cd_id x) ?f d) = Ok d1" "orphan_rows at rs d1 = Ok d'"
    by auto
  have "claim_artifacts d1 = claim_artifacts d" "deposit_at d1 i =
      (if i = cd_id x then map_option ?f (deposit_at d i) else deposit_at d i)"
    using 1(1) update_deposit_at [of ?f i "cd_id x" d] by (auto simp: insert_deposit_log_Ok)
  with Cons.IH [OF 1(2)] show ?case by (auto simp: option.map_comp comp_def)
qed simp

lemma rollback_effect:
  assumes "rollback_reorg f nh nb oh ob at d = (res, d')" "distinct (map cd_id (deposit_candidates d))"
  shows "claim_artifacts d' = claim_artifacts d \<and> (deposit_at d' i = deposit_at d i \<or>
     (\<exists>r. deposit_at d i = Some r \<and> active_above f r \<and> deposit_at d' i = Some (r\<lparr>cd_state := ''Orphaned''\<rparr>)))"
proof (cases res)
  case (Err e)
  with assms(1) have "d' = d" unfolding rollback_reorg_def Let_def by (auto dest: transact_Err)
  then show ?thesis by simp
next
  case (Ok n)
  let ?rs = "filter (active_above f) (deposit_candidates d)"
  from assms(1) Ok obtain d1 where 1: "orphan_rows at ?rs d = Ok d1"
    "claim_artifacts d' = claim_artifacts d1" "deposit_candidates d' = deposit_candidates d1"
    by (auto simp: rollback_reorg_def Let_def transact_Ok)
  note effect = orphan_rows_effect [OF 1(1), of i]
  show ?thesis
  proof (cases "i \<in> cd_id ` set ?rs")
    case True
    then obtain r where "r \<in> set (deposit_candidates d)" "active_above f r" "cd_id r = i" by auto
    with row_at_unique [OF assms(2)] have "deposit_at d i = Some r" "active_above f r" by auto
    with True effect 1(2,3) show ?thesis by auto
  next
    case False
    with effect 1(2,3) show ?thesis by auto
  qed
qed

text \<open>A deposit that is not there before a block is ingested and is there afterwards.\<close>

definition ingested_from :: "new_candidate list \<Rightarrow> deposit_candidate_row \<Rightarrow> bool" where
  "ingested_from cs r \<longleftrightarrow> (\<exists>c \<in> set cs. cd_state r = ds_as_str (nc_initial_state c) \<and> cd_ready_at r = None \<and>
     cd_amount_atomic r = nc_amount_atomic c \<and> cd_recipient r = nc_recipient c \<and>
     deposit_key r = (nc_txid c, nc_vout c, nc_block_hash c))"

lemma insert_candidate_effect:
  assumes "insert_candidate c d = Ok d'"
  shows "claim_artifacts d' = claim_artifacts d \<and>
     (deposit_at d' i = deposit_at d i \<or> deposit_at d i = None \<and> (\<exists>r. deposit_at d' i = Some r \<and> ingested_from [c] r))"
  using assms
proof (cases rule: insert_candidate_cases)
  case (new r)
  then have "ingested_from [c] r" by (simp add: ingested_from_def)
  with new(11) show ?thesis by (auto simp: row_at_append split: option.splits)
qed simp

lemma ingest_candidates_effect:
  "ingest_candidates cs d = Ok (ids, d') \<Longrightarrow> claim_artifacts d' = claim_artifacts d \<and>
     (deposit_at d' i = deposit_at d i \<or> deposit_at d i = None \<and> (\<exists>r. deposit_at d' i = Some r \<and> ingested_from cs r))"
proof (induction cs arbitrary: d ids)
  case (Cons c cs)
  from Cons.prems obtain k d1 ids' where 1: "ingest_candidate c d = Ok (k, d1)"
    "ingest_candidates cs d1 = Ok (ids', d')" by auto
  from 1(1) obtain d0 where 0: "insert_candidate c d = Ok d0" "claim_artifacts d1 = claim_artifacts d0"
    "deposit_candidates d1 = deposit_candidates d0"
    by (auto simp: ingest_candidate_def insert_deposit_log_Ok)
  have "ingested_from cs r \<Longrightarrow> ingested_from (c # cs) r" "ingested_from [c] r \<Longrightarrow> ingested_from (c # cs) r" for r
    by (auto simp: ingested_from_def)
  with insert_candidate_effect [OF 0(1), of i] 0(2,3) Cons.IH [OF 1(2)] show ?case by auto
qed simp

lemma ingest_effect:
  assumes "ingest_block b cs d = (res, d')"
  shows "claim_artifacts d' = claim_artifacts d \<and>
     (deposit_at d' i = deposit_at d i \<or> deposit_at d i = None \<and> (\<exists>r. deposit_at d' i = Some r \<and> ingested_from cs r))"
proof (cases res)
  case (Err e)
  with assms have "d' = d" unfolding ingest_block_def by (auto dest: transact_Err)
  then show ?thesis by simp
next
  case (Ok ids)
  with assms have "ingest_candidates cs ((insert_block b d)\<lparr>chain_state := Some (ib_height b, ib_hash b)\<rparr>) = Ok (ids, d')"
    by (simp add: ingest_block_def transact_Ok)
  from ingest_candidates_effect [OF this, of i] show ?thesis by (simp add: insert_block_def split: if_splits)
qed


lemma clear_effect:
  assumes "operator_clear_integrity_halt j to note at d = (res, d')"
  shows "d' = d \<or> (\<exists>r. deposit_at d j = Some r \<and> cd_state r = ''IntegrityHalted'')"
proof (cases res)
  case (Err e)
  with assms operator_clear_Err show ?thesis by blast
next
  case (Ok u)
  with assms [unfolded Ok operator_clear_Ok] show ?thesis by auto
qed

section \<open>The signing guard\<close>

text \<open>The claim of a deposit and what is frozen with it.\<close>

definition recomputed_message :: "deposit_candidate_row \<Rightarrow> claim_artifact \<Rightarrow> bytes" where
  "recomputed_message r a = deposit_claim_message (ca_protocol_version a) (ca_program_id a)
     (ca_validator_epoch a) (cd_txid r) (ucast (cd_vout r)) (cd_amount_atomic r) (cd_recipient r) (ca_wrapped_mint a)"

definition claim_consistent :: "sha256 \<Rightarrow> deposit_candidate_row \<Rightarrow> claim_artifact \<Rightarrow> bool" where
  "claim_consistent H r a \<longleftrightarrow> ca_canonical_message a = recomputed_message r a \<and>
     ca_message_hash a = H (ca_canonical_message a)"

definition claim_of :: "i64 \<Rightarrow> deposit_candidate_row \<Rightarrow> claim_artifact \<Rightarrow> signable_claim" where
  "claim_of i r a = \<lparr>sc_deposit_id = i, sc_message = recomputed_message r a, sc_txid = cd_txid r,
     sc_vout = ucast (cd_vout r), sc_amount_atomic = cd_amount_atomic r, sc_recipient = cd_recipient r,
     sc_program_id = ca_program_id a, sc_wrapped_mint = ca_wrapped_mint a,
     sc_validator_epoch = ca_validator_epoch a\<rparr>"

lemma verify_cases:
  obtains (missing) "deposit_at d i = None \<or> artifact_at d i = None"
      "verify_and_load_signable_message H i at d = (Err (MissingClaimArtifact i), d)"
  | (loaded) r a where "deposit_at d i = Some r" "artifact_at d i = Some a" "claim_consistent H r a"
      "verify_and_load_signable_message H i at d = (Ok (claim_of i r a), d)"
  | (halted) r a reason d' where "deposit_at d i = Some r" "artifact_at d i = Some a" "\<not> claim_consistent H r a"
      "verify_and_load_signable_message H i at d = (Err (MessageIntegrityMismatch i reason), d')"
      "deposit_at d' i = Some (r\<lparr>cd_state := ''IntegrityHalted'', cd_failure_reason := Some (ascii reason)\<rparr>)"
      "\<exists>l. deposit_state_log d' = deposit_state_log d @ [l] \<and> dl_deposit_id l = i \<and>
         dl_to_state l = ''IntegrityHalted'' \<and> dl_expected_message_hash l = Some (ca_message_hash a) \<and>
         dl_recomputed_message_hash l = Some (H (recomputed_message r a)) \<and>
         dl_differing_fields l = diff_claim_fields (recomputed_message r a) (ca_canonical_message a)"
proof (cases "deposit_at d i")
  case None
  then show ?thesis by (intro missing) (simp_all add: verify_and_load_signable_message_def)
next
  case (Some r)
  note r = this
  show ?thesis
  proof (cases "artifact_at d i")
    case None
    with r show ?thesis by (intro missing) (simp_all add: verify_and_load_signable_message_def)
  next
    case (Some a)
    note defs = verify_and_load_signable_message_def build_claim_message_def Let_def
      recomputed_message_def [symmetric]
    show ?thesis
    proof (cases "claim_consistent H r a")
      case True
      with r Some show ?thesis
        by (intro loaded) (auto simp: defs claim_consistent_def claim_of_def)
    next
      case False
      define reason where "reason = (if H (ca_canonical_message a) \<noteq> ca_message_hash a
        then ''claim_artifact_self_inconsistent'' else ''claim_message_recomputed_mismatch'')"
      let ?f = "\<lambda>r. r\<lparr>cd_state := ds_as_str DIntegrityHalted, cd_failure_reason := Some (ascii reason)\<rparr>"
      let ?l = "(deposit_log_entry i (Some (cd_state r)) (ds_as_str DIntegrityHalted) at
             (Some (ascii reason)) (cd_block_hash r))
           \<lparr>dl_expected_message_hash := Some (ca_message_hash a),
             dl_recomputed_message_hash := Some (H (recomputed_message r a)),
             dl_differing_fields := diff_claim_fields (recomputed_message r a) (ca_canonical_message a)\<rparr>"
      let ?d = "(update_deposit i ?f d)\<lparr>deposit_state_log := deposit_state_log d @ [?l]\<rparr>"
      show ?thesis
      proof (rule halted [OF r Some False])
        show "verify_and_load_signable_message H i at d = (Err (MessageIntegrityMismatch i reason), ?d)"
          using r Some False by (auto simp: defs claim_consistent_def reason_def)
        show "deposit_at ?d i = Some (r\<lparr>cd_state := ''IntegrityHalted'', cd_failure_reason := Some (ascii reason)\<rparr>)"
          using update_deposit_at [of ?f i i d] r by simp
        show "\<exists>l. deposit_state_log ?d = deposit_state_log d @ [l] \<and> dl_deposit_id l = i \<and>
            dl_to_state l = ''IntegrityHalted'' \<and> dl_expected_message_hash l = Some (ca_message_hash a) \<and>
            dl_recomputed_message_hash l = Some (H (recomputed_message r a)) \<and>
            dl_differing_fields l = diff_claim_fields (recomputed_message r a) (ca_canonical_message a)"
          by (rule exI [of _ ?l]) (simp add: deposit_log_entry_def)
      qed
    qed
  qed
qed

section \<open>The calls of the relayer\<close>

text \<open>What the indexer freezes for a deposit, up to the time of freezing.\<close>

definition exact_artifact :: "('w, 'f) indexer_env \<Rightarrow> deposit_candidate_row \<Rightarrow> claim_artifact \<Rightarrow> bool" where
  "exact_artifact env r a \<longleftrightarrow> a = claim_artifact_for env (row_to_deposit r) (ca_created_at a)"

text \<open>The calls made when the deposits of \<open>idx\<close> are worked on.\<close>

fun deposit_call :: "('w, 'f) indexer_env \<Rightarrow> (i64 \<Rightarrow> bool) \<Rightarrow> deposit_db \<Rightarrow> ddb_call \<Rightarrow> bool" where
  "deposit_call env idx d (IngestBlock b cs) =
     list_all (\<lambda>c. nc_initial_state c = DCandidate \<or> nc_initial_state c = DFailed) cs"
| "deposit_call env idx d (RollbackReorg f nh nb oh ob at) = True"
| "deposit_call env idx d (TransitionState i to at reason artifact) = (idx i \<and>
     (case artifact of
        None \<Rightarrow> to = DConfirming \<or> to = DFailed \<or> to = DMinted \<and> artifact_at d i \<noteq> None
      | Some a \<Rightarrow> to = DReadyForSignature \<and> (\<exists>r. deposit_at d i = Some r \<and> exact_artifact env r a)))"
| "deposit_call env idx d (MarkSubmitted i sig at) = (idx i \<and> artifact_at d i \<noteq> None)"
| "deposit_call env idx d (VerifyAndLoadSignableMessage i at) = True"
| "deposit_call env idx d (OperatorClearIntegrityHalt i to note at) = True"

abbreviation claimed_states :: "string set" where
  "claimed_states \<equiv> {''ReadyForSignature'', ''Submitted'', ''Minted''}"

definition dep_safe :: "('w, 'f) indexer_env \<Rightarrow> deposit_db \<Rightarrow> bool" where
  "dep_safe env d \<longleftrightarrow> deposit_inv d \<and>
     (\<forall>i r. deposit_at d i = Some r \<longrightarrow> cd_state r \<noteq> ''IntegrityHalted'' \<and>
        (cd_state r \<in> claimed_states \<longrightarrow> artifact_at d i \<noteq> None)) \<and>
     (\<forall>i a. artifact_at d i = Some a \<longrightarrow> (\<exists>r. deposit_at d i = Some r \<and> exact_artifact env r a))"

lemma exact_artifact_id: "exact_artifact env r a \<Longrightarrow> ca_deposit_id a = cd_id r"
  unfolding exact_artifact_def
  by (erule ssubst) (simp add: claim_artifact_for_def row_to_deposit_def Let_def)

lemma exact_consistent:
  assumes "exact_artifact env r a"
  shows "claim_consistent (ie_sha256 env) r a"
  unfolding claim_consistent_def recomputed_message_def
  by (subst (1 2 3 4 5 6 7) assms [unfolded exact_artifact_def])
    (simp add: claim_artifact_for_def row_to_deposit_def build_claim_message_def Let_def)

lemma exact_facts: "deposit_facts r = deposit_facts r' \<Longrightarrow> exact_artifact env r a \<Longrightarrow> exact_artifact env r' a"
  by (simp add: exact_artifact_def claim_artifact_for_def row_to_deposit_def deposit_facts_def Let_def)

text \<open>Along the order of the tables a deposit stays the same deposit.\<close>

lemma find_append_Some: "find P xs = Some x \<Longrightarrow> find P (xs @ ys) = Some x"
  by (induction xs) (auto split: if_splits)

lemma deposit_at_facts:
  "map_option deposit_facts (row_at cd_id i rs) = find (\<lambda>f. fst f = i) (map deposit_facts rs)"
  by (induction rs) (auto simp: row_at_def deposit_facts_def)

lemma le_deposit_at:
  assumes "deposit_le d d'" "deposit_at d i = Some r"
  shows "\<exists>r'. deposit_at d' i = Some r' \<and> deposit_facts r' = deposit_facts r"
proof -
  have "find (\<lambda>f. fst f = i) (map deposit_facts (deposit_candidates d)) = Some (deposit_facts r)"
    using deposit_at_facts [of i "deposit_candidates d"] assms(2) by simp
  moreover from assms(1) obtain rs where "map deposit_facts (deposit_candidates d') =
      map deposit_facts (deposit_candidates d) @ rs" by (auto simp: deposit_le_def)
  ultimately have "map_option deposit_facts (deposit_at d' i) = Some (deposit_facts r)"
    unfolding deposit_at_facts by (simp only: find_append_Some)
  then show ?thesis by auto
qed

lemma le_artifact_at: "deposit_le d d' \<Longrightarrow> artifact_at d i = Some a \<Longrightarrow> artifact_at d' i = Some a"
  by (auto simp: deposit_le_def row_at_append)


section \<open>The calls keep the tables safe\<close>

text \<open>
  Safety after a change of the tables: the deposits that changed, and the claims that are new.
\<close>

lemma dep_safe_change:
  assumes safe: "dep_safe env d" and changes: "change\<^sup>*\<^sup>* d d'"
    and rows: "\<And>i r. deposit_at d' i = Some r \<Longrightarrow> deposit_at d i \<noteq> Some r \<Longrightarrow>
       cd_state r \<noteq> ''IntegrityHalted'' \<and> (cd_state r \<in> claimed_states \<longrightarrow> artifact_at d' i \<noteq> None)"
    and new: "\<And>i a. artifact_at d' i = Some a \<Longrightarrow> artifact_at d i = None \<Longrightarrow>
       \<exists>r. deposit_at d' i = Some r \<and> exact_artifact env r a"
  shows "dep_safe env d'"
  unfolding dep_safe_def
proof (intro conjI allI impI)
  have le: "deposit_le d d'" by (rule changes_le [OF changes])
  show "deposit_inv d'" using changes_inv [OF changes] safe by (simp add: dep_safe_def)
  have kept: "artifact_at d i \<noteq> None \<Longrightarrow> artifact_at d' i \<noteq> None" for i
    using le_artifact_at [OF le] by blast
  fix i
  show "cd_state r \<noteq> ''IntegrityHalted''" if "deposit_at d' i = Some r" for r
    using that rows safe unfolding dep_safe_def by blast
  show "artifact_at d' i \<noteq> None" if "deposit_at d' i = Some r" "cd_state r \<in> claimed_states" for r
    using that rows [of i r] safe kept unfolding dep_safe_def by blast
  show "\<exists>r. deposit_at d' i = Some r \<and> exact_artifact env r a" if a: "artifact_at d' i = Some a" for a
  proof (cases "artifact_at d i")
    case None
    with a new show ?thesis by blast
  next
    case (Some a0)
    with le_artifact_at [OF le Some] a have "a0 = a" by simp
    with Some safe obtain r where r: "deposit_at d i = Some r" "exact_artifact env r a"
      unfolding dep_safe_def by blast
    with le_deposit_at [OF le] exact_facts show ?thesis by metis
  qed
qed

lemma dep_safe_inv: "dep_safe env d \<Longrightarrow> deposit_inv d"
  by (simp add: dep_safe_def)

lemma dep_safe_distinct: "dep_safe env d \<Longrightarrow> distinct (map cd_id (deposit_candidates d))"
  by (simp add: dep_safe_def deposit_inv_def)

text \<open>In safe tables the guard never halts a deposit.\<close>

lemma safe_verify:
  assumes "dep_safe env d"
  shows "verify_and_load_signable_message (ie_sha256 env) i at d = (case (deposit_at d i, artifact_at d i) of
     (Some r, Some a) \<Rightarrow> (Ok (claim_of i r a), d) | _ \<Rightarrow> (Err (MissingClaimArtifact i), d))"
proof (cases rule: verify_cases [where d = d and i = i and H = "ie_sha256 env" and at = at])
  case (halted r a reason d')
  with assms obtain r' where "deposit_at d i = Some r'" "exact_artifact env r' a"
    unfolding dep_safe_def by blast
  with halted exact_consistent show ?thesis by force
qed (auto split: option.splits)

lemma safe_ingest:
  assumes "dep_safe env d" "deposit_call env idx d (IngestBlock b cs)"
  shows "dep_safe env (snd (ingest_block b cs d))"
proof (rule dep_safe_change [OF assms(1) changes_ingest])
  let ?d = "snd (ingest_block b cs d)"
  note eff = ingest_effect [of b cs d "fst (ingest_block b cs d)" ?d, unfolded prod.collapse, OF refl]
  show "\<exists>r. deposit_at ?d i = Some r \<and> exact_artifact env r a"
    if "artifact_at ?d i = Some a" "artifact_at d i = None" for i a
    using that eff [of i] by simp
  show "cd_state r \<noteq> ''IntegrityHalted'' \<and> (cd_state r \<in> claimed_states \<longrightarrow> artifact_at ?d i \<noteq> None)"
    if "deposit_at ?d i = Some r" "deposit_at d i \<noteq> Some r" for i r
  proof -
    from that eff [of i] have "ingested_from cs r" by auto
    with assms(2) have "cd_state r \<in> {''Candidate'', ''Failed''}" by (auto simp: ingested_from_def list_all_iff)
    then show ?thesis by auto
  qed
qed

lemma safe_rollback:
  assumes "dep_safe env d"
  shows "dep_safe env (snd (rollback_reorg f nh nb oh ob at d))"
proof (rule dep_safe_change [OF assms changes_rollback])
  let ?d = "snd (rollback_reorg f nh nb oh ob at d)"
  note eff = rollback_effect [of f nh nb oh ob at d "fst (rollback_reorg f nh nb oh ob at d)" ?d,
      unfolded prod.collapse, OF refl dep_safe_distinct [OF assms]]
  show "\<exists>r. deposit_at ?d i = Some r \<and> exact_artifact env r a"
    if "artifact_at ?d i = Some a" "artifact_at d i = None" for i a
    using that eff [of i] by simp
  show "cd_state r \<noteq> ''IntegrityHalted'' \<and> (cd_state r \<in> claimed_states \<longrightarrow> artifact_at ?d i \<noteq> None)"
    if "deposit_at ?d i = Some r" "deposit_at d i \<noteq> Some r" for i r
    using that eff [of i] by auto
qed

lemma safe_transition:
  assumes "dep_safe env d" "deposit_call env idx d (TransitionState j to at reason artifact)"
  shows "dep_safe env (snd (transition_state j to at reason artifact d))"
proof -
  let ?d = "snd (transition_state j to at reason artifact d)"
  have "transition_state j to at reason artifact d = (fst (transition_state j to at reason artifact d), ?d)" by simp
  then show ?thesis
  proof (cases rule: transition_effect)
    case (failed e)
    with assms(1) show ?thesis by simp
  next
    case (success r)
    have arts: "artifact_at ?d i = (case artifact_at d i of Some x \<Rightarrow> Some x | None \<Rightarrow>
        (case artifact of None \<Rightarrow> None | Some x \<Rightarrow> if ca_deposit_id x = i then Some x else None))" for i
      unfolding success(4) by (auto simp: row_at_append split: option.splits)
    have exact: "exact_artifact env r a \<and> ca_deposit_id a = j \<and> to = DReadyForSignature" if "artifact = Some a" for a
      using that assms(2) success(2) by (auto dest: exact_artifact_id row_at_Some)
    show ?thesis
    proof (rule dep_safe_change [OF assms(1) changes_transition])
      show "cd_state r' \<noteq> ''IntegrityHalted'' \<and> (cd_state r' \<in> claimed_states \<longrightarrow> artifact_at ?d i \<noteq> None)"
        if "deposit_at ?d i = Some r'" "deposit_at d i \<noteq> Some r'" for i r'
      proof -
        from that success(3) [of i] have i: "i = j" "cd_state r' = ds_as_str to" by (auto split: if_splits)
        show ?thesis
          using assms(2) exact arts [of j] unfolding i by (cases artifact) (auto split: option.splits)
      qed
      show "\<exists>r. deposit_at ?d i = Some r \<and> exact_artifact env r a"
        if "artifact_at ?d i = Some a" "artifact_at d i = None" for i a
      proof -
        from that have "artifact = Some a" "ca_deposit_id a = i"
          using arts [of i] by (auto split: option.splits if_splits)
        with exact have "exact_artifact env r a" "i = j" by auto
        with success(3) [of i] exact_facts [of r "transitioned to at reason r"] show ?thesis
          by (auto simp: deposit_facts_def)
      qed
    qed
  qed
qed

lemma safe_submitted:
  assumes "dep_safe env d" "artifact_at d j \<noteq> None"
  shows "dep_safe env (snd (mark_submitted j sig at d))"
proof -
  let ?d = "snd (mark_submitted j sig at d)"
  have "mark_submitted j sig at d = (fst (mark_submitted j sig at d), ?d)" by simp
  then show ?thesis
  proof (cases rule: submitted_effect)
    case (failed e)
    with assms(1) show ?thesis by simp
  next
    case (success r)
    show ?thesis
    proof (rule dep_safe_change [OF assms(1) changes_submitted])
      show "cd_state r' \<noteq> ''IntegrityHalted'' \<and> (cd_state r' \<in> claimed_states \<longrightarrow> artifact_at ?d i \<noteq> None)"
        if "deposit_at ?d i = Some r'" "deposit_at d i \<noteq> Some r'" for i r'
        using that success(3) [of i] assms(2) unfolding success(4) by (auto split: if_splits)
    qed (use success(4) in auto)
  qed
qed

lemma dep_safe_exec:
  assumes safe: "dep_safe env d" and call: "deposit_call env idx d c"
  shows "dep_safe env (ddb_exec (ie_sha256 env) c d)"
proof (cases c)
  case (OperatorClearIntegrityHalt j to why at)
  with clear_effect [of j to why at d "fst (operator_clear_integrity_halt j to why at d)"
      "ddb_exec (ie_sha256 env) c d"] safe
  have "ddb_exec (ie_sha256 env) c d = d" by (auto simp: dep_safe_def)
  with safe show ?thesis by simp
next
  case (VerifyAndLoadSignableMessage j at)
  with safe show ?thesis by (simp add: safe_verify [OF safe] split: option.splits)
qed (use call safe_ingest [OF safe] safe_rollback [OF safe] safe_transition [OF safe] safe_submitted [OF safe] in auto)

end
