(* ===== verification/AccountDecoding.thy ===== *)
theory AccountDecoding
  imports Safety Payout WithdrawalDb Demo
begin

text \<open>
  How the relayer reads the program's accounts: the hand-written decoders of
  \<^verbatim>\<open>relayer/src/solana/rpc.rs\<close>, the discovery of withdrawal requests
  (\<^verbatim>\<open>relayer/src/withdrawal/discovery.rs\<close>) and the status check before a broadcast
  (\<^verbatim>\<open>withdrawal/status.rs\<close>).  The program writes its accounts with an eight-byte discriminator and
  the Borsh encodings of \<open>Accounts\<close>; the decoders read exactly what was written.
\<close>

section \<open>Account snapshots (rpc.rs)\<close>

datatype solana_rpc_error = SolanaTransport bytes | SolanaMethod bytes | SolanaMalformed string

definition solana_is_retriable :: "solana_rpc_error \<Rightarrow> bool" where
  "solana_is_retriable e = (case e of SolanaTransport _ \<Rightarrow> True | _ \<Rightarrow> False)"

record validator_set_snapshot =
  vss_epoch :: u64
  vss_threshold :: u8
  vss_validators :: "pubkey list"

record bridge_config_snapshot =
  bcs_protocol_version :: u8
  bcs_admin :: pubkey
  bcs_pending_admin :: "pubkey option"
  bcs_paused :: bool
  bcs_withdrawal_count :: u64
  bcs_min_deposit :: u64
  bcs_min_withdrawal :: u64
  bcs_wrapped_mint :: pubkey
  bcs_governance_timelock_seconds :: i64
  bcs_max_wrapped_supply :: u64

record pending_action_snapshot =
  pas_action :: u8
  pas_proposed_under_epoch :: u64
  pas_eta :: i64
  pas_threshold :: u8
  pas_validators :: "pubkey list"
  pas_proposed_max_wrapped_supply :: u64

definition mint_is_configured :: "bridge_config_snapshot \<Rightarrow> bool" where
  "mint_is_configured c \<longleftrightarrow> bcs_wrapped_mint c \<noteq> default_pubkey"

text \<open>\<open>data.get(8..)\<close>.\<close>

definition account_body :: "bytes \<Rightarrow> (bytes, solana_rpc_error) result" where
  "account_body data = (if 8 \<le> length data then Ok (drop 8 data)
     else Err (SolanaMalformed ''account shorter than discriminator''))"

text \<open>\<open>body.get(a..a + n)\<close> as a word, and \<open>body.get(a)\<close>.\<close>

definition word_at :: "string \<Rightarrow> bytes \<Rightarrow> nat \<Rightarrow> ('a::len word, solana_rpc_error) result" where
  "word_at what body off =
     (case slice_get body off (off + LENGTH('a) div 8) of None \<Rightarrow> Err (SolanaMalformed what) | Some b \<Rightarrow> Ok (from_le b))"

definition byte_at :: "string \<Rightarrow> bytes \<Rightarrow> nat \<Rightarrow> (u8, solana_rpc_error) result" where
  "byte_at what body off = ok_or (SolanaMalformed what) (get_at body off)"

fun keys_at :: "string \<Rightarrow> bytes \<Rightarrow> nat \<Rightarrow> nat \<Rightarrow> (pubkey list, solana_rpc_error) result" where
  "keys_at what body off 0 = Ok []"
| "keys_at what body off (Suc n) =
     and_then (word_at what body off) (\<lambda>k. and_then (keys_at what body (off + 32) n) (\<lambda>ks. Ok (k # ks)))"

definition decode_validator_set :: "bytes \<Rightarrow> (validator_set_snapshot, solana_rpc_error) result" where
  "decode_validator_set data =
     and_then (account_body data) (\<lambda>body.
     and_then (word_at ''missing epoch'' body 0) (\<lambda>epoch.
     and_then (byte_at ''missing threshold'' body 8) (\<lambda>threshold.
     and_then (word_at ''missing validators length'' body 10) (\<lambda>vec_len :: u32.
     and_then (keys_at ''truncated validators list'' body 14 (unat vec_len)) (\<lambda>validators.
     Ok \<lparr>vss_epoch = epoch, vss_threshold = threshold, vss_validators = validators\<rparr>)))))"

text \<open>The optional key shifts every later field by 32 bytes.\<close>

definition decode_bridge_config :: "bytes \<Rightarrow> (bridge_config_snapshot, solana_rpc_error) result" where
  "decode_bridge_config data =
     and_then (account_body data) (\<lambda>body.
     and_then (byte_at ''bridge config: missing protocol version'' body 0) (\<lambda>protocol_version.
     and_then (word_at ''bridge config: missing admin'' body 1) (\<lambda>admin.
     and_then (byte_at ''bridge config: missing pending admin tag'' body 33) (\<lambda>tag.
     and_then (if tag = 0 then Ok (None, 34)
               else if tag = 1 then and_then (word_at ''bridge config: missing pending admin'' body 34) (\<lambda>k. Ok (Some k, 66))
               else Err (SolanaMalformed ''bridge config: pending_admin has an invalid Borsh option tag''))
       (\<lambda>(pending_admin, off).
     and_then (byte_at ''bridge config: missing paused'' body off) (\<lambda>paused.
     and_then (word_at ''bridge config: missing withdrawal count'' body (off + 1)) (\<lambda>withdrawal_count.
     and_then (word_at ''bridge config: missing min deposit'' body (off + 9)) (\<lambda>min_deposit.
     and_then (word_at ''bridge config: missing min withdrawal'' body (off + 17)) (\<lambda>min_withdrawal.
     and_then (word_at ''bridge config: missing wrapped mint'' body (off + 26)) (\<lambda>wrapped_mint.
     and_then (word_at ''bridge config: missing governance timelock'' body (off + 59)) (\<lambda>timelock.
     and_then (word_at ''bridge config: missing max wrapped supply'' body (off + 67)) (\<lambda>max_wrapped_supply.
     Ok \<lparr>bcs_protocol_version = protocol_version, bcs_admin = admin, bcs_pending_admin = pending_admin,
        bcs_paused = (paused \<noteq> 0), bcs_withdrawal_count = withdrawal_count, bcs_min_deposit = min_deposit,
        bcs_min_withdrawal = min_withdrawal, bcs_wrapped_mint = wrapped_mint,
        bcs_governance_timelock_seconds = timelock, bcs_max_wrapped_supply = max_wrapped_supply\<rparr>))))))))))))"

definition decode_pending_action :: "bytes \<Rightarrow> (pending_action_snapshot, solana_rpc_error) result" where
  "decode_pending_action data =
     and_then (account_body data) (\<lambda>body.
     and_then (byte_at ''pending action: missing action'' body 0) (\<lambda>action.
     and_then (word_at ''pending action: missing epoch'' body 1) (\<lambda>proposed_under_epoch.
     and_then (word_at ''pending action: missing eta'' body 9) (\<lambda>eta.
     and_then (byte_at ''pending action: missing threshold'' body 17) (\<lambda>threshold.
     and_then (word_at ''pending action: missing validators length'' body 18) (\<lambda>vec_len :: u32.
     and_then (keys_at ''pending action: missing a validator'' body 22 (unat vec_len)) (\<lambda>validators.
     and_then (word_at ''pending action: missing proposed max wrapped supply'' body (22 + 32 * unat vec_len + 1))
       (\<lambda>proposed_max.
     Ok \<lparr>pas_action = action, pas_proposed_under_epoch = proposed_under_epoch, pas_eta = eta,
        pas_threshold = threshold, pas_validators = validators,
        pas_proposed_max_wrapped_supply = proposed_max\<rparr>))))))))"

section \<open>Discovery (discovery.rs) and status (status.rs)\<close>

definition WITHDRAWAL_ACCOUNT_LEN :: nat where "WITHDRAWAL_ACCOUNT_LEN = 180"
definition DISCOVERY_STATUS_COMPLETED :: u8 where "DISCOVERY_STATUS_COMPLETED = 2"

datatype discovery_error =
    DiscoveryWrongLength nat
  | WrongOwner pubkey pubkey
  | PdaMismatch pubkey pubkey u64
  | BumpMismatch u8 u8
  | AddressLengthOutOfRange u8
  | NonAsciiAddress
  | NonZeroAddressPadding
  | UnusableAddress address_error
  | ZeroAmount

record decoded_withdrawal =
  dw_index :: u64
  dw_pda :: pubkey
  dw_amount_atomic :: u64
  dw_requester :: pubkey
  dw_glc_address :: bytes
  dw_hash160 :: bytes20
  dw_requested_at_slot :: u64
  dw_protocol_version :: u8
  dw_status_tag :: u8

text \<open>\<open>find_pda\<close> is \<open>Pubkey::find_program_address\<close>.\<close>

definition discovery_withdrawal_pda ::
  "(bytes list \<Rightarrow> pubkey \<Rightarrow> pubkey \<times> u8) \<Rightarrow> pubkey \<Rightarrow> u64 \<Rightarrow> pubkey \<times> u8" where
  "discovery_withdrawal_pda find_pda program_id index =
     find_pda [ascii ''withdrawal'', le_bytes index] program_id"

text \<open>A range of bytes inside the account, whose length has been checked.\<close>

abbreviation field :: "bytes \<Rightarrow> nat \<Rightarrow> nat \<Rightarrow> bytes" where
  "field body a b \<equiv> take (b - a) (drop a body)"

definition decode_withdrawal ::
  "sha256 \<Rightarrow> (bytes list \<Rightarrow> pubkey \<Rightarrow> pubkey \<times> u8) \<Rightarrow> pubkey \<Rightarrow> pubkey \<Rightarrow> pubkey \<Rightarrow> bytes
   \<Rightarrow> (decoded_withdrawal, discovery_error) result" where
  "decode_withdrawal sha256 find_pda program_id address owner data =
     (if owner \<noteq> program_id then Err (WrongOwner owner program_id)
      else if length data \<noteq> WITHDRAWAL_ACCOUNT_LEN then Err (DiscoveryWrongLength (length data))
      else let body = drop 8 data;
               index = from_le (field body 0 8);
               amount_atomic = from_le (field body 8 16) :: u64;
               addr_bytes = field body 48 112;
               addr_len = body ! 112;
               stored_bump = body ! 123;
               (expected_pda, canonical_bump) = discovery_withdrawal_pda find_pda program_id index in
      if address \<noteq> expected_pda then Err (PdaMismatch address expected_pda index)
      else if stored_bump \<noteq> canonical_bump then Err (BumpMismatch stored_bump canonical_bump)
      else if amount_atomic = 0 then Err ZeroAmount
      else if addr_len = 0 \<or> unat addr_len > 64 then Err (AddressLengthOutOfRange addr_len)
      else let used = take (unat addr_len) addr_bytes in
      if \<not> list_all (\<lambda>b. b < 0x80) used then Err NonAsciiAddress
      else if list_ex (\<lambda>b. b \<noteq> 0) (drop (unat addr_len) addr_bytes) then Err NonZeroAddressPadding
      else and_then (map_err UnusableAddress (decode_p2pkh_hash160 sha256 used)) (\<lambda>hash160.
        Ok \<lparr>dw_index = index, dw_pda = address, dw_amount_atomic = amount_atomic,
            dw_requester = from_le (field body 16 48), dw_glc_address = used, dw_hash160 = hash160,
            dw_requested_at_slot = from_le (field body 114 122), dw_protocol_version = body ! 122,
            dw_status_tag = body ! 113\<rparr>))"

text \<open>The accounts the node returned, each with its address, owner and data.\<close>

record program_account =
  pa_address :: pubkey
  pa_owner :: pubkey
  pa_data :: bytes

definition discovered ::
  "sha256 \<Rightarrow> (bytes list \<Rightarrow> pubkey \<Rightarrow> pubkey \<times> u8) \<Rightarrow> pubkey \<Rightarrow> i64 \<Rightarrow> i64 \<Rightarrow> program_account
   \<Rightarrow> new_withdrawal_request option" where
  "discovered sha256 find_pda program_id observed_at observed_at_slot a =
     (case decode_withdrawal sha256 find_pda program_id (pa_address a) (pa_owner a) (pa_data a) of
        Err _ \<Rightarrow> None
      | Ok w \<Rightarrow> if dw_status_tag w = DISCOVERY_STATUS_COMPLETED then None
               else Some \<lparr>nw_index = dw_index w, nw_pda = dw_pda w, nw_amount_atomic = dw_amount_atomic w,
                  nw_requester = dw_requester w, nw_glc_address = dw_glc_address w, nw_hash160 = dw_hash160 w,
                  nw_requested_at_slot = dw_requested_at_slot w,
                  nw_protocol_version = dw_protocol_version w, nw_observed_at = observed_at,
                  nw_observed_at_slot = observed_at_slot\<rparr>)"

definition scan_withdrawals ::
  "sha256 \<Rightarrow> (bytes list \<Rightarrow> pubkey \<Rightarrow> pubkey \<times> u8) \<Rightarrow> pubkey \<Rightarrow> i64 \<Rightarrow> i64 \<Rightarrow> program_account list
   \<Rightarrow> new_withdrawal_request list" where
  "scan_withdrawals sha256 find_pda program_id observed_at observed_at_slot accounts =
     order_by (\<lambda>a b. nw_index a <s nw_index b)
       (List.map_filter (discovered sha256 find_pda program_id observed_at observed_at_slot) accounts)"

definition STATUS_OFFSET :: nat where "STATUS_OFFSET = 8 + 113"

text \<open>The account of the withdrawal as the node returned it.\<close>

definition is_completed :: "(bytes option, string) result \<Rightarrow> (bool, string) result" where
  "is_completed fetched =
     and_then fetched (\<lambda>account.
     and_then (ok_or ''no on-chain account for withdrawal'' account) (\<lambda>data.
     and_then (ok_or ''withdrawal account is too short to carry a status'' (get_at data STATUS_OFFSET)) (\<lambda>status.
     Ok (status = DISCOVERY_STATUS_COMPLETED))))"

section \<open>The decoders read what the program writes\<close>

lemma word_at_append:
  "8 dvd LENGTH('a) \<Longrightarrow> length pre = off \<Longrightarrow> word_at what (pre @ le_bytes (w :: 'a::len word) @ suf) off = Ok w"
  by (simp add: word_at_def slice_get_def from_le_le_bytes)

lemma byte_at_append: "length pre = off \<Longrightarrow> byte_at what (pre @ b # suf) off = Ok b"
  by (simp add: byte_at_def get_at_def nth_append)

lemma keys_at_append:
  "length pre = off \<Longrightarrow> keys_at what (pre @ concat (map le_bytes ks) @ suf) off (length ks) = Ok ks"
proof (induction ks arbitrary: pre off)
  case (Cons k ks)
  have "keys_at what ((pre @ le_bytes k) @ concat (map le_bytes ks) @ suf) (off + 32) (length ks) = Ok ks"
    by (rule Cons.IH) (simp add: Cons.prems)
  with word_at_append [of pre off what k "concat (map le_bytes ks) @ suf"] Cons.prems show ?case by simp
qed simp

lemma account_body_append: "length disc = 8 \<Longrightarrow> account_body (disc @ body) = Ok body"
  by (simp add: account_body_def)

lemma unat_key_count: "n < 2 ^ 32 \<Longrightarrow> unat (word_of_nat n :: u32) = n"
  by (simp add: unat_of_nat)

lemma decode_validator_set_exact:
  assumes "length disc = 8" "length (vs_validators v) < 2 ^ 32"
  shows "decode_validator_set (disc @ borsh_validator_set v @ pad) =
    Ok \<lparr>vss_epoch = vs_epoch v, vss_threshold = vs_threshold v, vss_validators = vs_validators v\<rparr>"
proof -
  let ?ks = "vs_validators v"
  let ?tail = "vs_reserved v @ pad"
  let ?n = "word_of_nat (length ?ks) :: u32"
  let ?body = "borsh_validator_set v @ pad"
  have "word_at w ?body 0 = Ok (vs_epoch v)" "byte_at w ?body 8 = Ok (vs_threshold v)"
    "word_at w ?body 10 = Ok ?n" "keys_at w ?body 14 (length ?ks) = Ok ?ks" for w
    using word_at_append [of "[]" 0 w "vs_epoch v"] byte_at_append [of "le_bytes (vs_epoch v)" 8 w "vs_threshold v"]
      word_at_append [of "le_bytes (vs_epoch v) @ [vs_threshold v, vs_bump v]" 10 w ?n]
      keys_at_append [of "le_bytes (vs_epoch v) @ [vs_threshold v, vs_bump v] @ le_bytes ?n" 14 w ?ks ?tail]
    by (simp_all add: borsh_validator_set_def borsh_pubkeys_def)
  then show ?thesis
    using assms by (simp add: decode_validator_set_def account_body_append unat_key_count)
qed

lemma decode_pending_action_exact:
  assumes "length disc = 8" "length (pga_validators p) < 2 ^ 32"
  shows "decode_pending_action (disc @ borsh_pending_action p @ pad) =
    Ok \<lparr>pas_action = pga_action p, pas_proposed_under_epoch = pga_proposed_under_epoch p, pas_eta = pga_eta p,
        pas_threshold = pga_threshold p, pas_validators = pga_validators p,
        pas_proposed_max_wrapped_supply = pga_proposed_max_wrapped_supply p\<rparr>"
proof -
  let ?ks = "pga_validators p"
  let ?n = "word_of_nat (length ?ks) :: u32"
  let ?body = "borsh_pending_action p @ pad"
  let ?p1 = "[pga_action p]" let ?p2 = "?p1 @ le_bytes (pga_proposed_under_epoch p)"
  let ?p3 = "?p2 @ le_bytes (pga_eta p)" let ?p4 = "?p3 @ [pga_threshold p]" let ?p5 = "?p4 @ le_bytes ?n"
  let ?p6 = "?p5 @ concat (map le_bytes ?ks) @ [pga_bump p]"
  have "byte_at w ?body 0 = Ok (pga_action p)" "word_at w ?body 1 = Ok (pga_proposed_under_epoch p)"
    "word_at w ?body 9 = Ok (pga_eta p)" "byte_at w ?body 17 = Ok (pga_threshold p)" "word_at w ?body 18 = Ok ?n"
    "keys_at w ?body 22 (length ?ks) = Ok ?ks"
    "word_at w ?body (22 + 32 * length ?ks + 1) = Ok (pga_proposed_max_wrapped_supply p)" for w
    using byte_at_append [of "[]" 0 w "pga_action p"] word_at_append [of ?p1 1 w "pga_proposed_under_epoch p"]
      word_at_append [of ?p2 9 w "pga_eta p"] byte_at_append [of ?p3 17 w "pga_threshold p"]
      word_at_append [of ?p4 18 w ?n] keys_at_append [of ?p5 22 w ?ks]
      word_at_append [of ?p6 "22 + 32 * length ?ks + 1" w "pga_proposed_max_wrapped_supply p"]
    by (simp_all add: borsh_pending_action_def borsh_pubkeys_def keyc.length_concat_enc)
  then show ?thesis
    using assms by (simp add: decode_pending_action_def account_body_append unat_key_count)
qed

text \<open>The fields after the optional key, for either position of it.\<close>

lemma config_tail:
  assumes "length pre = off" "body = pre @ borsh_bool (cfg_paused c) @ le_bytes (cfg_withdrawal_count c)
       @ le_bytes (cfg_min_deposit c) @ le_bytes (cfg_min_withdrawal c) @ [cfg_bump c]
       @ le_bytes (cfg_wrapped_mint c) @ [cfg_mint_authority_bump c]
       @ le_bytes (cfg_governance_timelock_seconds c) @ le_bytes (cfg_max_wrapped_supply c) @ suf"
  shows "byte_at w body off = Ok (if cfg_paused c then 1 else 0)"
    "word_at w body (off + 1) = Ok (cfg_withdrawal_count c)"
    "word_at w body (off + 9) = Ok (cfg_min_deposit c)" "word_at w body (off + 17) = Ok (cfg_min_withdrawal c)"
    "word_at w body (off + 26) = Ok (cfg_wrapped_mint c)"
    "word_at w body (off + 59) = Ok (cfg_governance_timelock_seconds c)"
    "word_at w body (off + 67) = Ok (cfg_max_wrapped_supply c)"
proof -
  let ?p1 = "pre @ [if cfg_paused c then 1 else 0]" let ?p2 = "?p1 @ le_bytes (cfg_withdrawal_count c)"
  let ?p3 = "?p2 @ le_bytes (cfg_min_deposit c)"
  let ?p4 = "?p3 @ le_bytes (cfg_min_withdrawal c) @ [cfg_bump c]"
  let ?p5 = "?p4 @ le_bytes (cfg_wrapped_mint c) @ [cfg_mint_authority_bump c]"
  let ?p6 = "?p5 @ le_bytes (cfg_governance_timelock_seconds c)"
  show "byte_at w body off = Ok (if cfg_paused c then 1 else 0)"
    "word_at w body (off + 1) = Ok (cfg_withdrawal_count c)"
    "word_at w body (off + 9) = Ok (cfg_min_deposit c)" "word_at w body (off + 17) = Ok (cfg_min_withdrawal c)"
    "word_at w body (off + 26) = Ok (cfg_wrapped_mint c)"
    "word_at w body (off + 59) = Ok (cfg_governance_timelock_seconds c)"
    "word_at w body (off + 67) = Ok (cfg_max_wrapped_supply c)"
    using assms byte_at_append [of pre off w] word_at_append [of ?p1 "off + 1" w "cfg_withdrawal_count c"]
      word_at_append [of ?p2 "off + 9" w "cfg_min_deposit c"]
      word_at_append [of ?p3 "off + 17" w "cfg_min_withdrawal c"]
      word_at_append [of ?p4 "off + 26" w "cfg_wrapped_mint c"]
      word_at_append [of ?p5 "off + 59" w "cfg_governance_timelock_seconds c"]
      word_at_append [of ?p6 "off + 67" w "cfg_max_wrapped_supply c"]
    by (simp_all add: borsh_bool_def)
qed

lemma decode_bridge_config_exact:
  assumes "length disc = 8"
  shows "decode_bridge_config (disc @ borsh_bridge_config c @ pad) =
    Ok \<lparr>bcs_protocol_version = cfg_protocol_version c, bcs_admin = cfg_admin c,
        bcs_pending_admin = cfg_pending_admin c, bcs_paused = cfg_paused c,
        bcs_withdrawal_count = cfg_withdrawal_count c, bcs_min_deposit = cfg_min_deposit c,
        bcs_min_withdrawal = cfg_min_withdrawal c, bcs_wrapped_mint = cfg_wrapped_mint c,
        bcs_governance_timelock_seconds = cfg_governance_timelock_seconds c,
        bcs_max_wrapped_supply = cfg_max_wrapped_supply c\<rparr>"
proof -
  let ?body = "borsh_bridge_config c @ pad"
  let ?p1 = "[cfg_protocol_version c]" let ?p2 = "?p1 @ le_bytes (cfg_admin c)"
  have head: "byte_at w ?body 0 = Ok (cfg_protocol_version c)" "word_at w ?body 1 = Ok (cfg_admin c)" for w
    using byte_at_append [of "[]" 0 w "cfg_protocol_version c"] word_at_append [of ?p1 1 w "cfg_admin c"]
    by (simp_all add: borsh_bridge_config_def)
  show ?thesis
  proof (cases "cfg_pending_admin c")
    case None
    have "byte_at w ?body 33 = Ok 0" for w
      using byte_at_append [of ?p2 33 w 0] None by (simp add: borsh_bridge_config_def borsh_option_pubkey_def)
    moreover note config_tail [where pre = "?p2 @ [0]" and off = 34 and body = ?body and c = c and suf = "cfg_reserved c @ pad"]
    ultimately show ?thesis
      using head None assms
      by (simp add: decode_bridge_config_def account_body_append borsh_bridge_config_def borsh_option_pubkey_def)
  next
    case (Some k)
    have "byte_at w ?body 33 = Ok 1" "word_at w ?body 34 = Ok k" for w
      using byte_at_append [of ?p2 33 w 1] word_at_append [of "?p2 @ [1]" 34 w k] Some
      by (simp_all add: borsh_bridge_config_def borsh_option_pubkey_def)
    moreover note config_tail [where pre = "?p2 @ [1] @ le_bytes k" and off = 66 and body = ?body and c = c and suf = "cfg_reserved c @ pad"]
    ultimately show ?thesis
      using head Some assms
      by (simp add: decode_bridge_config_def account_body_append borsh_bridge_config_def borsh_option_pubkey_def)
  qed
qed


section \<open>A withdrawal request as discovery reads it\<close>

text \<open>Only ASCII text decodes as an address, so the separate check for it refuses nothing more.\<close>

lemma base58_loop_chars: "base58_decode_loop s num = Ok out \<Longrightarrow> set s \<subseteq> set B58"
proof (induction s arbitrary: num)
  case (Cons ch s)
  then obtain digit where pos: "position (\<lambda>c. c = ch) B58 = Some digit"
    and rest: "base58_decode_loop s (rev (mul_add 256 58 (rev num) digit)) = Ok out"
    by (auto split: option.splits)
  from position_Some_nth [OF pos] have "ch \<in> set B58" by (auto simp: in_set_conv_nth)
  with Cons.IH [OF rest] show ?case by simp
qed simp

lemma B58_ascii: "list_all (\<lambda>b. b < 0x80) B58"
  by (simp add: B58_def ascii_def)

lemma address_is_ascii: "decode_p2pkh_hash160 H s = Ok h \<Longrightarrow> list_all (\<lambda>b. b < 0x80) s"
  using base58_loop_chars B58_ascii
  by (fastforce simp: decode_p2pkh_hash160_def base58check_decode_def base58_decode_def list_all_iff
      split: if_splits)

text \<open>The fields of the account at the offsets of the decoder.\<close>

lemma withdrawal_fields:
  assumes "wf_withdrawal_request r"
  defines "body \<equiv> borsh_withdrawal_request r"
  shows "take 8 body = le_bytes (wr_index r)" "take 8 (drop 8 body) = le_bytes (wr_amount r)"
    "take 32 (drop 16 body) = le_bytes (wr_requester r)" "take 64 (drop 48 body) = wr_glc_address r"
    "body ! 112 = wr_glc_address_len r" "body ! 113 = status_tag (wr_status r)"
    "take 8 (drop 114 body) = le_bytes (wr_requested_at_slot r)" "body ! 122 = wr_protocol_version r"
    "body ! 123 = wr_bump r"
  unfolding body_def borsh_withdrawal_request_def
  using assms(1) by (simp_all add: nth_append wf_withdrawal_request_def)

lemma withdrawal_account_length:
  "wf_withdrawal_request r \<Longrightarrow> length disc = 8 \<Longrightarrow> length (disc @ borsh_withdrawal_request r) = 180"
  by (simp add: wf_withdrawal_request_def borsh_withdrawal_request_def)

text \<open>The request a pending account with a decodable address becomes.\<close>

definition request_of ::
  "'w external \<Rightarrow> withdrawal_request \<Rightarrow> bytes20 \<Rightarrow> i64 \<Rightarrow> i64 \<Rightarrow> new_withdrawal_request" where
  "request_of ex r h at slot = \<lparr>nw_index = wr_index r, nw_pda = pda_address ex (WithdrawalPda (wr_index r)),
     nw_amount_atomic = wr_amount r, nw_requester = wr_requester r, nw_glc_address = stored_address r,
     nw_hash160 = h, nw_requested_at_slot = wr_requested_at_slot r,
     nw_protocol_version = wr_protocol_version r, nw_observed_at = at, nw_observed_at_slot = slot\<rparr>"

lemma discovered_exact:
  assumes "withdrawal_inv ex i r" "length disc = 8"
  shows "discovered H (ex_find_program_address ex) PROGRAM_ID at slot
       \<lparr>pa_address = pda_address ex (WithdrawalPda i), pa_owner = PROGRAM_ID,
        pa_data = disc @ borsh_withdrawal_request r\<rparr> =
     (case decode_p2pkh_hash160 H (stored_address r) of Err _ \<Rightarrow> None
      | Ok h \<Rightarrow> if wr_status r = Completed then None else Some (request_of ex r h at slot))"
proof -
  from assms(1) have inv: "wf_withdrawal_request r" "wr_index r = i" "0 < wr_amount r"
    "1 \<le> unat (wr_glc_address_len r)" "unat (wr_glc_address_len r) \<le> 64"
    "list_all (\<lambda>b. b = 0) (drop (unat (wr_glc_address_len r)) (wr_glc_address r))"
    "wr_bump r = pda_bump ex (WithdrawalPda i)"
    by (simp_all add: withdrawal_inv_def MAX_GLC_ADDRESS_LEN_def)
  note fields = withdrawal_fields [OF inv(1)]
  have pda: "discovery_withdrawal_pda (ex_find_program_address ex) PROGRAM_ID i =
      (pda_address ex (WithdrawalPda i), pda_bump ex (WithdrawalPda i))"
    by (simp add: discovery_withdrawal_pda_def pda_address_def pda_bump_def pda_seeds_def SEED_WITHDRAWAL_def)
  have pad: "\<not> list_ex (\<lambda>b. b \<noteq> 0) (drop (unat (wr_glc_address_len r)) (wr_glc_address r))"
    using inv(6) by (auto simp: list_all_iff list_ex_iff)
  have len: "wr_glc_address_len r \<noteq> 0" "wr_amount r \<noteq> 0" using inv(3,4) by auto
  have decode: "decode_withdrawal H (ex_find_program_address ex) PROGRAM_ID
       (pda_address ex (WithdrawalPda i)) PROGRAM_ID (disc @ borsh_withdrawal_request r) =
     (if \<not> list_all (\<lambda>b. b < 0x80) (stored_address r) then Err NonAsciiAddress
      else and_then (map_err UnusableAddress (decode_p2pkh_hash160 H (stored_address r))) (\<lambda>h.
        Ok \<lparr>dw_index = i, dw_pda = pda_address ex (WithdrawalPda i), dw_amount_atomic = wr_amount r,
            dw_requester = wr_requester r, dw_glc_address = stored_address r, dw_hash160 = h,
            dw_requested_at_slot = wr_requested_at_slot r, dw_protocol_version = wr_protocol_version r,
            dw_status_tag = status_tag (wr_status r)\<rparr>))"
    unfolding decode_withdrawal_def WITHDRAWAL_ACCOUNT_LEN_def
    using withdrawal_account_length [OF inv(1) assms(2)] assms(2) inv(2,3,5,7) len pad
    by (simp add: fields from_le_le_bytes pda stored_address_def Let_def)
  show ?thesis
  proof (cases "decode_p2pkh_hash160 H (stored_address r)")
    case (Ok h)
    from address_is_ascii [OF Ok] show ?thesis
      using Ok inv(2) by (cases "wr_status r")
        (simp_all add: discovered_def decode request_of_def DISCOVERY_STATUS_COMPLETED_def)
  next
    case (Err e)
    then show ?thesis by (simp add: discovered_def decode)
  qed
qed

lemma is_completed_exact:
  assumes "wf_withdrawal_request r" "length disc = 8"
  shows "is_completed (Ok (Some (disc @ borsh_withdrawal_request r))) = Ok (wr_status r = Completed)"
proof -
  have "get_at (disc @ borsh_withdrawal_request r) STATUS_OFFSET = Some (status_tag (wr_status r))"
    using withdrawal_fields(6) [OF assms(1)] withdrawal_account_length [OF assms] assms(2)
    by (simp add: get_at_def STATUS_OFFSET_def nth_append)
  then show ?thesis
    by (cases "wr_status r") (simp_all add: is_completed_def DISCOVERY_STATUS_COMPLETED_def)
qed

section \<open>Properties\<close>

text \<open>
  The relayer's hand-written decoders read back exactly what the program stored: a validator
  set, a bridge configuration (with and without a pending administrator, which shifts every later
  field) and a queued governance action decode to their own fields, whatever the discriminator is
  and whatever padding follows.
\<close>

theorem account_snapshots_exact:
  assumes "length disc = 8" "length (vs_validators v) < 2 ^ 32" "length (pga_validators p) < 2 ^ 32"
  shows "decode_validator_set (disc @ borsh_validator_set v @ pad) =
      Ok \<lparr>vss_epoch = vs_epoch v, vss_threshold = vs_threshold v, vss_validators = vs_validators v\<rparr> \<and>
    decode_bridge_config (disc @ borsh_bridge_config c @ pad) =
      Ok \<lparr>bcs_protocol_version = cfg_protocol_version c, bcs_admin = cfg_admin c,
        bcs_pending_admin = cfg_pending_admin c, bcs_paused = cfg_paused c,
        bcs_withdrawal_count = cfg_withdrawal_count c, bcs_min_deposit = cfg_min_deposit c,
        bcs_min_withdrawal = cfg_min_withdrawal c, bcs_wrapped_mint = cfg_wrapped_mint c,
        bcs_governance_timelock_seconds = cfg_governance_timelock_seconds c,
        bcs_max_wrapped_supply = cfg_max_wrapped_supply c\<rparr> \<and>
    decode_pending_action (disc @ borsh_pending_action p @ pad) =
      Ok \<lparr>pas_action = pga_action p, pas_proposed_under_epoch = pga_proposed_under_epoch p,
        pas_eta = pga_eta p, pas_threshold = pga_threshold p, pas_validators = pga_validators p,
        pas_proposed_max_wrapped_supply = pga_proposed_max_wrapped_supply p\<rparr>"
  by (intro conjI decode_validator_set_exact decode_bridge_config_exact decode_pending_action_exact assms)

theorem account_snapshots_exact_witness:
  "decode_validator_set (replicate 8 0 @ borsh_validator_set demo_vset @ []) =
     Ok \<lparr>vss_epoch = vs_epoch demo_vset, vss_threshold = vs_threshold demo_vset,
         vss_validators = vs_validators demo_vset\<rparr>"
  using account_snapshots_exact [of "replicate 8 0" demo_vset demo_pending "[]"]
  by (simp add: demo_vset_def demo_pending_def)

text \<open>
  Discovery recovers the outstanding queue from the chain alone: the account of a recorded
  withdrawal becomes a request with exactly its index, amount, requester and destination when it
  is pending and its address decodes, and is skipped when it is completed.  A request whose
  address does not decode is skipped too: its tokens are burned and no payout ever follows.
\<close>

theorem discovery_exact:
  assumes "bridge.reachable ex others s" "ch_withdrawals s i = Some r" "length disc = 8"
  shows "discovered H (ex_find_program_address ex) PROGRAM_ID at slot
       \<lparr>pa_address = pda_address ex (WithdrawalPda i), pa_owner = PROGRAM_ID,
        pa_data = disc @ borsh_withdrawal_request r\<rparr> =
     (case decode_p2pkh_hash160 H (stored_address r) of Err _ \<Rightarrow> None
      | Ok h \<Rightarrow> if wr_status r = Completed then None
          else Some \<lparr>nw_index = i, nw_pda = pda_address ex (WithdrawalPda i),
            nw_amount_atomic = wr_amount r, nw_requester = wr_requester r,
            nw_glc_address = stored_address r, nw_hash160 = h,
            nw_requested_at_slot = wr_requested_at_slot r,
            nw_protocol_version = wr_protocol_version r, nw_observed_at = at,
            nw_observed_at_slot = slot\<rparr>) \<and>
     is_completed (Ok (Some (disc @ borsh_withdrawal_request r))) = Ok (wr_status r = Completed)"
proof -
  from inv_withdrawal [OF bridge.reachable_inv [OF assms(1)] assms(2)]
  have inv: "withdrawal_inv ex i r" by blast
  then have "wr_index r = i" "wf_withdrawal_request r" by (simp_all add: withdrawal_inv_def)
  with discovered_exact [OF inv assms(3)] is_completed_exact [OF _ assms(3)] show ?thesis
    by (cases "decode_p2pkh_hash160 H (stored_address r)") (simp_all add: request_of_def)
qed

theorem discovery_exact_witness:
  "discovered (\<lambda>_. 0) (ex_find_program_address demo_ex) PROGRAM_ID 5 6
     \<lparr>pa_address = pda_address demo_ex (WithdrawalPda 0), pa_owner = PROGRAM_ID,
      pa_data = replicate 8 0 @ borsh_withdrawal_request demo_request\<rparr> = None \<and>
   is_completed (Ok (Some (replicate 8 0 @ borsh_withdrawal_request demo_request))) = Ok False"
proof -
  have "decode_p2pkh_hash160 (\<lambda>_. 0) (stored_address demo_request) = Err (AddressWrongLength 2)"
    by (simp add: stored_address_def demo_request_def) code_simp
  with discovery_exact [OF demo_reachable(4), of 0 demo_request "replicate 8 0" "\<lambda>_. 0" 5 6]
  show ?thesis by (simp add: demo4_def demo_request_def)
qed

end
