(* ===== verification/Orchestrator.thy ===== *)
theory Orchestrator
  imports Indexer AccountDecoding Aggregate
begin

text \<open>
  The mint pipeline (\<^verbatim>\<open>relayer/src/orchestrator.rs\<close>): for every deposit that is ready or submitted,
  look for the claim account, reload and verify the claim, collect the federation's signatures,
  check the threshold and submit the mint.  The Solana node, the co-signers and the clock are
  functions that read and change an opaque world.
\<close>

section \<open>Environment\<close>

text \<open>
  A transaction signed by its payer.  The message it carries is what the node executes; the
  payer's own signature is outside the model.
\<close>

record solana_tx =
  stx_instructions :: "solana_ix list"
  stx_payer :: pubkey
  stx_blockhash :: bytes32

record 'w orchestrator_env =
  oe_sdk :: sdk
  oe_ed25519_program :: pubkey
  oe_program_id :: pubkey
  oe_submitter :: pubkey
  get_account :: "pubkey \<Rightarrow> 'w \<Rightarrow> (bytes option, solana_rpc_error) result \<times> 'w"
  get_latest_blockhash :: "'w \<Rightarrow> (bytes32, solana_rpc_error) result \<times> 'w"
  send_transaction :: "solana_tx \<Rightarrow> 'w \<Rightarrow> (bytes, solana_rpc_error) result \<times> 'w"
  collect_mint_signatures :: "u64 \<Rightarrow> bytes \<Rightarrow> bytes32 \<Rightarrow> u32 \<Rightarrow> 'w \<Rightarrow> (pubkey \<times> signature) list \<times> 'w"
  oe_now_unix :: "'w \<Rightarrow> i64 \<times> 'w"

datatype orchestrator_error =
    OrchNodeUnavailable solana_rpc_error
  | OrchRpc solana_rpc_error
  | OrchDb db_error
  | ValidatorSetMissing

datatype deposit_outcome = OutMinted | OutSubmitted | OutInsufficientSignatures | OutIntegrityHalted

record tick_report =
  tr_minted :: nat
  tr_submitted :: nat
  tr_insufficient :: nat
  tr_halted :: nat

type_synonym ('w, 'a) orch = "('w dep_state, 'a, orchestrator_error) io"

section \<open>Calls\<close>

definition solana_call_with_retry ::
  "nat \<Rightarrow> ('w \<Rightarrow> ('a, solana_rpc_error) result \<times> 'w) \<Rightarrow> 'w \<Rightarrow> ('a, solana_rpc_error) result \<times> 'w" where
  "solana_call_with_retry = retry solana_is_retriable"

definition ORCH_RETRY_ATTEMPTS :: nat where "ORCH_RETRY_ATTEMPTS = 3"

definition orch_classify :: "solana_rpc_error \<Rightarrow> orchestrator_error" where
  "orch_classify e = (if solana_is_retriable e then OrchNodeUnavailable e else OrchRpc e)"

definition orch_call :: "('w \<Rightarrow> ('a, solana_rpc_error) result \<times> 'w) \<Rightarrow> ('w, 'a) orch" where
  "orch_call f s = (case solana_call_with_retry ORCH_RETRY_ATTEMPTS f (de_world s) of
     (r, w) \<Rightarrow> (map_err orch_classify r, s\<lparr>de_world := w\<rparr>))"

text \<open>What is handed to the node is remembered before it is sent.\<close>

definition note_submission :: "submission \<Rightarrow> ('w, unit) orch" where
  "note_submission sb s = (Ok (), s\<lparr>de_submitted := de_submitted s @ [sb]\<rparr>)"

section \<open>One deposit\<close>

definition mint_accounts_for :: "'w orchestrator_env \<Rightarrow> signable_claim \<Rightarrow> pubkey \<Rightarrow> mint_wrapped_accounts" where
  "mint_accounts_for env claim claim_pda =
     \<lparr>mw_submitter = oe_submitter env,
      mw_bridge_config = fst (bridge_config_pda (oe_sdk env) (oe_program_id env)),
      mw_validator_set = fst (validator_set_pda (oe_sdk env) (oe_program_id env)),
      mw_deposit_claim = claim_pda, mw_wrapped_mint = sc_wrapped_mint claim,
      mw_mint_authority = fst (mint_authority_pda (oe_sdk env) (oe_program_id env)),
      mw_recipient = sc_recipient claim,
      mw_recipient_token_account =
        sk_associated_token_address (oe_sdk env) (sc_recipient claim) (sc_wrapped_mint claim)\<rparr>"

definition mint_instructions ::
  "'w orchestrator_env \<Rightarrow> signable_claim \<Rightarrow> pubkey \<Rightarrow> (pubkey \<times> signature) list \<Rightarrow> solana_ix list" where
  "mint_instructions env claim claim_pda sigs =
     (let (ed_program, ed_data) = build_ed25519_instruction (oe_ed25519_program env) sigs (sc_message claim) in
      [\<lparr>si_program_id = ed_program, si_accounts = [], si_data = ed_data\<rparr>,
       mint_wrapped_instruction (oe_sdk env) (oe_program_id env) (mint_accounts_for env claim claim_pda)
         (sc_txid claim) (sc_vout claim) (sc_amount_atomic claim) (sc_validator_epoch claim)])"

text \<open>From the collected signatures to the submission.\<close>

definition submit_claim ::
  "'w orchestrator_env \<Rightarrow> deposit_row \<Rightarrow> pubkey \<Rightarrow> signable_claim \<Rightarrow> ('w, deposit_outcome) orch" where
  "submit_claim env row claim_pda claim =
     ebind (dworld (collect_mint_signatures env (sc_validator_epoch claim) (sc_message claim)
       (sc_txid claim) (sc_vout claim))) (\<lambda>sigs.
     ebind (orch_call (get_account env (fst (validator_set_pda (oe_sdk env) (oe_program_id env))))) (\<lambda>account.
     ebind (elift (ok_or ValidatorSetMissing account)) (\<lambda>data.
     ebind (elift (map_err OrchRpc (decode_validator_set data))) (\<lambda>snapshot.
     if \<not> is_ok (count_unique_threshold_signers sigs (vss_validators snapshot) (vss_threshold snapshot))
     then eret OutInsufficientSignatures
     else
       let instructions = mint_instructions env claim claim_pda sigs in
       ebind (orch_call (get_latest_blockhash env)) (\<lambda>blockhash.
       ebind (note_submission \<lparr>sb_claim = claim, sb_signatures = sigs, sb_instructions = instructions\<rparr>) (\<lambda>_.
       ebind (orch_call (send_transaction env \<lparr>stx_instructions = instructions,
         stx_payer = oe_submitter env, stx_blockhash = blockhash\<rparr>)) (\<lambda>signature.
       ebind (dworld (oe_now_unix env)) (\<lambda>now.
       ebind (ddb OrchDb (mark_submitted (dr_id row) signature now)) (\<lambda>_.
       eret OutSubmitted)))))))))"

definition process_one :: "'w orchestrator_env \<Rightarrow> deposit_row \<Rightarrow> ('w, deposit_outcome) orch" where
  "process_one env row =
     (let claim_pda = fst (deposit_claim_pda (oe_sdk env) (oe_program_id env) (dr_txid row)
            (ucast (dr_vout row))) in
      ebind (orch_call (get_account env claim_pda)) (\<lambda>existing.
      if existing \<noteq> None then
        ebind (dworld (oe_now_unix env)) (\<lambda>now.
        ebind (ddb OrchDb (mark_minted (dr_id row) now)) (\<lambda>_. eret OutMinted))
      else
        ebind (dworld (oe_now_unix env)) (\<lambda>now.
        ebind (dtry (verify_and_load_signable_message (sk_sha256 (oe_sdk env)) (dr_id row) now)) (\<lambda>loaded.
        case loaded of
          Err (MessageIntegrityMismatch i f) \<Rightarrow> eret OutIntegrityHalted
        | Err e \<Rightarrow> elift (Err (OrchDb e))
        | Ok claim \<Rightarrow>
            if sc_program_id claim \<noteq> oe_program_id env then eret OutIntegrityHalted
            else submit_claim env row claim_pda claim))))"

section \<open>The tick\<close>

fun count_outcome :: "deposit_outcome \<Rightarrow> tick_report \<Rightarrow> tick_report" where
  "count_outcome OutMinted r = r\<lparr>tr_minted := tr_minted r + 1\<rparr>"
| "count_outcome OutSubmitted r = r\<lparr>tr_submitted := tr_submitted r + 1\<rparr>"
| "count_outcome OutInsufficientSignatures r = r\<lparr>tr_insufficient := tr_insufficient r + 1\<rparr>"
| "count_outcome OutIntegrityHalted r = r\<lparr>tr_halted := tr_halted r + 1\<rparr>"

fun process_rows :: "'w orchestrator_env \<Rightarrow> deposit_row list \<Rightarrow> tick_report \<Rightarrow> ('w, tick_report) orch" where
  "process_rows env [] report = eret report"
| "process_rows env (row # rows) report =
     ebind (process_one env row) (\<lambda>outcome. process_rows env rows (count_outcome outcome report))"

definition orchestrator_tick :: "'w orchestrator_env \<Rightarrow> ('w, tick_report) orch" where
  "orchestrator_tick env =
     ebind (dquery (\<lambda>d. Ok (candidates_by_state d DReadyForSignature))) (\<lambda>ready.
     ebind (dquery (\<lambda>d. Ok (candidates_by_state d DSubmitted))) (\<lambda>submitted.
     process_rows env (ready @ submitted)
       \<lparr>tr_minted = 0, tr_submitted = 0, tr_insufficient = 0, tr_halted = 0\<rparr>))"

end
