(* ===== verification/DepositLogic.thy ===== *)
theory DepositLogic
  imports DepositSafety Orchestrator
begin

text \<open>
  Reasoning about the indexer and the orchestrator.  The locale \<open>deposit_invariant\<close> is their
  contract with the database: a property of the states that survives the calls they make, the
  environment and what they note holds after every operation and every tick.  Its assertions are
  the stable ones, which hold for ever once they hold: the facts of a deposit and its frozen claim.
\<close>

section \<open>Stable assertions\<close>

definition stable :: "(deposit_db \<Rightarrow> bool) \<Rightarrow> bool" where
  "stable p \<longleftrightarrow> (\<forall>d d'. deposit_le d d' \<longrightarrow> p d \<longrightarrow> p d')"

text \<open>The row that was read is still the deposit with that id, whatever its state has become.\<close>

definition same_deposit :: "deposit_row \<Rightarrow> deposit_db \<Rightarrow> bool" where
  "same_deposit row d \<longleftrightarrow>
     (\<exists>r r0. deposit_at d (dr_id row) = Some r \<and> row = row_to_deposit r0 \<and> deposit_facts r = deposit_facts r0)"

definition has_claim :: "deposit_row \<Rightarrow> deposit_db \<Rightarrow> bool" where
  "has_claim row d \<longleftrightarrow> artifact_at d (dr_id row) \<noteq> None"

lemma stable_True: "stable (\<lambda>_. True)"
  by (simp add: stable_def)

lemma stable_conj: "stable p \<Longrightarrow> stable q \<Longrightarrow> stable (\<lambda>d. p d \<and> q d)"
  by (auto simp: stable_def)

lemma stable_all: "(\<And>x. x \<in> A \<Longrightarrow> stable (p x)) \<Longrightarrow> stable (\<lambda>d. \<forall>x \<in> A. p x d)"
  unfolding stable_def by blast

lemma stable_same_deposit: "stable (same_deposit row)"
  unfolding stable_def same_deposit_def by (metis le_deposit_at)

lemma stable_has_claim: "stable (has_claim row)"
  unfolding stable_def has_claim_def using le_artifact_at by fastforce

text \<open>The claim the guard hands out, as a stable fact about the deposit it is for.\<close>

definition claim_frozen :: "('w, 'f) indexer_env \<Rightarrow> signable_claim \<Rightarrow> deposit_db \<Rightarrow> bool" where
  "claim_frozen env c d \<longleftrightarrow> (\<exists>r a. deposit_at d (sc_deposit_id c) = Some r \<and>
     artifact_at d (sc_deposit_id c) = Some a \<and> exact_artifact env r a \<and> c = claim_of (sc_deposit_id c) r a)"

lemma claim_of_facts: "deposit_facts r = deposit_facts r' \<Longrightarrow> claim_of i r a = claim_of i r' a"
  by (simp add: claim_of_def recomputed_message_def deposit_facts_def)

lemma stable_claim_frozen: "stable (claim_frozen env c)"
  unfolding stable_def claim_frozen_def
proof (intro allI impI, elim exE conjE)
  fix d d' r a
  assume le: "deposit_le d d'" and r: "deposit_at d (sc_deposit_id c) = Some r"
    and a: "artifact_at d (sc_deposit_id c) = Some a" "exact_artifact env r a" "c = claim_of (sc_deposit_id c) r a"
  obtain r' where r': "deposit_at d' (sc_deposit_id c) = Some r'" "deposit_facts r' = deposit_facts r"
    using le_deposit_at [OF le r] by blast
  with a le_artifact_at [OF le a(1)] exact_facts [OF r'(2) [symmetric] a(2)] claim_of_facts [OF r'(2)]
  show "\<exists>r a. deposit_at d' (sc_deposit_id c) = Some r \<and> artifact_at d' (sc_deposit_id c) = Some a \<and>
     exact_artifact env r a \<and> c = claim_of (sc_deposit_id c) r a" by metis
qed

lemma candidates_by_state_row:
  assumes "distinct (map cd_id (deposit_candidates d))" "row \<in> set (candidates_by_state d st)"
  obtains r where "deposit_at d (dr_id row) = Some r" "row = row_to_deposit r" "cd_state r = ds_as_str st"
proof -
  from assms(2) obtain r where r: "r \<in> set (deposit_candidates d)" "cd_state r = ds_as_str st" "row = row_to_deposit r"
    by (auto simp: candidates_by_state_def)
  with row_at_unique [OF assms(1) r(1)] that show ?thesis by (simp add: row_to_deposit_def)
qed

section \<open>The contract\<close>

text \<open>The state around the database: the nodes, the clock and the halt flag.\<close>

locale deposit_view = io_invariant I de_db
  for I :: "'w dep_state \<Rightarrow> bool" +
  assumes I_world: "I s \<Longrightarrow> I (s\<lparr>de_world := world\<rparr>)"
    and I_halted: "I s \<Longrightarrow> I (s\<lparr>de_halted := b\<rparr>)"
begin

text \<open>The operation keeps the invariant and every stable assertion it may assume.\<close>

abbreviation holds :: "(deposit_db \<Rightarrow> bool) \<Rightarrow> ('w dep_state, 'a, 'e) io \<Rightarrow> bool" where
  "holds p m \<equiv> triple p m (\<lambda>_. p)"

lemma holds_bind: "holds p m \<Longrightarrow> (\<And>x. holds p (f x)) \<Longrightarrow> holds p (ebind m f)"
  by (rule triple_bind)

lemma holds_ret: "holds p (eret x)"
  by (rule triple_ret)

lemma holds_lift: "holds p (elift r)"
  by (auto simp: triple_def elift_def)

lemma holds_query: "holds p (dquery q)"
  by (auto simp: triple_def dquery_def)

lemma triple_query: "triple p (dquery q) (\<lambda>x d. p d \<and> q d = Ok x)"
  by (auto simp: triple_def dquery_def)

lemma holds_world: "holds p (dworld c)"
  by (auto simp: triple_def dworld_def I_world split: prod.splits)

lemma holds_calls: "holds p (indexer_call c)" "holds p (orch_call c')"
  by (auto simp: triple_def indexer_call_def orch_call_def I_world split: prod.splits)

lemma holds_halt: "holds p set_halted"
  by (auto simp: triple_def set_halted_def I_halted)

lemma holds_for: "(\<And>x. x \<in> set xs \<Longrightarrow> holds p (f x)) \<Longrightarrow> holds p (efor xs f)"
  by (induction xs) (auto intro: holds_ret holds_bind)

lemmas holds_simple = holds_ret holds_lift holds_query holds_world holds_calls holds_halt

lemma triple_pure: "(b \<Longrightarrow> triple p m q) \<Longrightarrow> triple (\<lambda>d. b \<and> p d) m q"
  by (auto simp: triple_def)

lemma holds_if: "(b \<Longrightarrow> holds p m) \<Longrightarrow> (\<not> b \<Longrightarrow> holds p m') \<Longrightarrow> holds p (if b then m else m')"
  by simp

lemma holds_window: "holds p (window_has_room env w a)"
  unfolding window_has_room_def
  by (rule keeps_option) (intro holds_bind holds_simple)+

end

text \<open>The contract of the components that share the database.\<close>

locale deposit_invariant = deposit_view I
  for I :: "'w dep_state \<Rightarrow> bool" +
  fixes env :: "('w, 'f) indexer_env"
    and oenv :: "'w orchestrator_env"
    and idx :: "i64 \<Rightarrow> bool"
  assumes I_hash: "I s \<Longrightarrow> sk_sha256 (oe_sdk oenv) = ie_sha256 env"
    and I_safe: "I s \<Longrightarrow> dep_safe env (de_db s)"
    and I_db: "I s \<Longrightarrow> deposit_call env idx (de_db s) c \<Longrightarrow>
      I (s\<lparr>de_db := ddb_exec (ie_sha256 env) c (de_db s)\<rparr>)"
    and I_submitted: "I s \<Longrightarrow> claim_frozen env (sb_claim sb) (de_db s) \<Longrightarrow> idx (sc_deposit_id (sb_claim sb)) \<Longrightarrow>
      sc_program_id (sb_claim sb) = oe_program_id oenv \<Longrightarrow>
      sb_instructions sb = mint_instructions oenv (sb_claim sb) (fst (deposit_claim_pda (oe_sdk oenv)
        (oe_program_id oenv) (sc_txid (sb_claim sb)) (sc_vout (sb_claim sb)))) (sb_signatures sb) \<Longrightarrow>
      I (s\<lparr>de_submitted := de_submitted s @ [sb]\<rparr>)"
    and I_visits: "I s \<Longrightarrow> row \<in> set (candidates_by_state (de_db s) st) \<Longrightarrow> is_active st \<Longrightarrow> idx (dr_id row)"
begin

lemma holds_db:
  assumes "\<And>d. snd (m d) = ddb_exec (ie_sha256 env) c d"
    and "\<And>d. dep_safe env d \<Longrightarrow> p d \<Longrightarrow> deposit_call env idx d c" and "stable p"
  shows "holds p (ddb wrap m)"
  unfolding triple_def
proof (intro allI impI)
  fix s r s'
  assume I: "I s" "p (de_db s)" and m: "ddb wrap m s = (r, s')"
  then have s': "s' = s\<lparr>de_db := ddb_exec (ie_sha256 env) c (de_db s)\<rparr>"
    using assms(1) [of "de_db s"] by (auto simp: ddb_def split: prod.splits)
  have "deposit_le (de_db s) (de_db s')" unfolding s' by (simp add: changes_le [OF exec_changes])
  with I s' assms(3) I_db [OF I(1) assms(2) [OF I_safe [OF I(1)] I(2)]]
  show "I s' \<and> (\<forall>x. r = Ok x \<longrightarrow> p (de_db s'))" by (auto simp: stable_def)
qed

subsection \<open>Reading the deposits to work on\<close>

definition visited :: "deposit_state \<Rightarrow> deposit_row list \<Rightarrow> deposit_db \<Rightarrow> bool" where
  "visited st rows d \<longleftrightarrow> (\<forall>row \<in> set rows. same_deposit row d \<and>
     (ds_as_str st \<in> claimed_states \<longrightarrow> has_claim row d))"

lemma stable_visited: "stable (visited st rows)"
  unfolding visited_def
  by (rule stable_all) (auto simp: stable_def dest: stable_same_deposit [unfolded stable_def, rule_format]
      stable_has_claim [unfolded stable_def, rule_format])

lemma triple_visit:
  assumes "is_active st"
  shows "triple p (dquery (\<lambda>d. Ok (candidates_by_state d st)))
     (\<lambda>rows d. list_all (\<lambda>row. idx (dr_id row)) rows \<and> p d \<and> visited st rows d)"
  unfolding triple_def dquery_def
proof (intro allI impI)
  fix s r s'
  assume I: "I s" "p (de_db s)" and "(Ok (candidates_by_state (de_db s) st), s) = (r, s')"
  then have r: "r = Ok (candidates_by_state (de_db s) st)" "s' = s" by auto
  have safe: "dep_safe env (de_db s)" by (rule I_safe [OF I(1)])
  have "same_deposit row (de_db s) \<and> (ds_as_str st \<in> claimed_states \<longrightarrow> has_claim row (de_db s))"
    if row: "row \<in> set (candidates_by_state (de_db s) st)" for row
  proof -
    obtain r where "deposit_at (de_db s) (dr_id row) = Some r" "row = row_to_deposit r" "cd_state r = ds_as_str st"
      by (rule candidates_by_state_row [OF dep_safe_distinct [OF safe] row])
    with safe show ?thesis by (auto simp: same_deposit_def has_claim_def dep_safe_def)
  qed
  with I r I_visits [OF I(1) _ assms]
  show "I s' \<and> (\<forall>x. r = Ok x \<longrightarrow> list_all (\<lambda>row. idx (dr_id row)) x \<and> p (de_db s') \<and> visited st x (de_db s'))"
    by (auto simp: visited_def list_all_iff)
qed

subsection \<open>The indexer\<close>

lemma holds_fork_walk: "holds p (fork_walk e start h)"
proof (induction e start h rule: fork_walk.induct)
  case (1 e start h)
  show ?case
    unfolding fork_walk.simps [of e start h] Let_def
    by (intro holds_if holds_bind holds_simple) (rule 1, auto)
qed

definition fresh_candidates :: "new_candidate list \<Rightarrow> bool" where
  "fresh_candidates cs \<longleftrightarrow> list_all (\<lambda>c. nc_initial_state c = DCandidate \<or> nc_initial_state c = DFailed) cs"

lemma fresh_output: "fresh_candidates (map (output_candidate env' h hash at txid raw b) outs)"
  by (auto simp: fresh_candidates_def list_all_iff output_candidate_def classify_output_def
      split: result.splits prod.splits if_splits)

lemma triple_collect: "triple p (collect_candidates env h hash at txids) (\<lambda>cs d. fresh_candidates cs \<and> p d)"
proof (induction txids)
  case Nil
  show ?case by (auto intro!: triple_ret simp: fresh_candidates_def)
next
  case (Cons txid_hex txids)
  show ?case
    unfolding collect_candidates.simps Let_def
  proof (rule triple_bind [OF holds_calls(1)], rule triple_bind [OF holds_calls(1)], rule keeps_if [OF Cons.IH],
      rule triple_bind [OF holds_lift], rule keeps_if)
    show "triple p (elift (Err IndexerPanic)) (\<lambda>cs d. fresh_candidates cs \<and> p d)"
      by (auto simp: triple_def elift_def)
    fix decoded raw txid
    show "triple p (ebind (collect_candidates env h hash at txids) (\<lambda>rest. eret (map (output_candidate env h hash at
        txid raw (extract_recipient_binding decoded)) (vault_output_candidates (ie_glc_to_atomic env) decoded
        (vault_script_hex env)) @ rest))) (\<lambda>cs d. fresh_candidates cs \<and> p d)"
      using fresh_output by (intro triple_bind [OF Cons.IH] triple_ret) (auto simp: fresh_candidates_def)
  qed
qed

lemma holds_ingest: "stable p \<Longrightarrow> fresh_candidates cs \<Longrightarrow> holds p (ddb wrap (ingest_block b cs))"
  by (rule holds_db [where c = "IngestBlock b cs"]) (simp_all add: fresh_candidates_def)

lemma holds_index_block: "stable p \<Longrightarrow> holds p (index_block env h)"
  unfolding index_block_def
  by (rule holds_bind [OF holds_calls(1)], rule holds_bind [OF holds_lift], rule holds_bind [OF holds_calls(1)],
      rule holds_bind [OF holds_lift], rule holds_bind [OF holds_world], rule triple_bind [OF triple_collect],
      rule triple_pure, intro holds_bind holds_ingest holds_ret)

lemma keeps_visit:
  assumes "is_active st"
    and "\<And>rows. list_all (\<lambda>row. idx (dr_id row)) rows \<Longrightarrow> holds (visited st rows) (f rows)"
  shows "keeps (ebind (dquery (\<lambda>d. Ok (candidates_by_state d st))) f)"
proof (rule triple_bind [OF triple_visit [OF assms(1)]], rule triple_pure)
  fix rows :: "deposit_row list"
  assume "list_all (\<lambda>row. idx (dr_id row)) rows"
  from assms(2) [OF this]
  show "triple (\<lambda>d. True \<and> visited st rows d) (f rows) (\<lambda>_ _. True)" by (rule triple_weaken) auto
qed

lemma keeps_advance: "keeps (advance_new_candidates_to_confirming env)"
  unfolding advance_new_candidates_to_confirming_def
proof (rule keeps_visit)
  fix rows :: "deposit_row list"
  assume "list_all (\<lambda>row. idx (dr_id row)) rows"
  then have "holds (visited DCandidate rows) (ddb IndexerDb (transition_state (dr_id row) DConfirming at None None))"
    if "row \<in> set rows" for row at
    using that by (intro holds_db [where c = "TransitionState (dr_id row) DConfirming at None None"])
      (simp_all add: list_all_iff stable_visited)
  then show "holds (visited DCandidate rows) (ebind (dworld (ie_now_unix env)) (\<lambda>at.
      efor rows (\<lambda>row. ddb IndexerDb (transition_state (dr_id row) DConfirming at None None))))"
    by (intro holds_bind holds_world holds_for)
qed (simp add: is_active_def)

lemma same_deposit_exact:
  assumes "same_deposit row d"
  shows "\<exists>r. deposit_at d (dr_id row) = Some r \<and> exact_artifact env r (claim_artifact_for env row at)"
proof -
  from assms obtain r r0 where "deposit_at d (dr_id row) = Some r" "row = row_to_deposit r0"
    "deposit_facts r = deposit_facts r0" by (auto simp: same_deposit_def)
  moreover then have "exact_artifact env r (claim_artifact_for env row at)"
    by (simp add: exact_artifact_def claim_artifact_for_def row_to_deposit_def deposit_facts_def Let_def)
  ultimately show ?thesis by blast
qed

lemma holds_promote_one:
  assumes "stable p" "idx (dr_id row)" "\<And>d. p d \<Longrightarrow> same_deposit row d"
  shows "holds p (promote_one env tip row)"
proof -
  have "holds p (ddb IndexerDb (transition_state (dr_id row) DFailed at reason None))" for at reason
    by (rule holds_db [where c = "TransitionState (dr_id row) DFailed at reason None"]) (simp_all add: assms)
  moreover have "holds p (ddb IndexerDb (transition_state (dr_id row) DReadyForSignature at None
      (Some (claim_artifact_for env row t))))" for at t
    using same_deposit_exact [OF assms(3), of _ t]
    by (intro holds_db [where c = "TransitionState (dr_id row) DReadyForSignature at None
        (Some (claim_artifact_for env row t))"]) (simp_all add: assms)
  ultimately show ?thesis
    unfolding promote_one_def Let_def by (intro holds_bind holds_if holds_simple holds_window)
qed

lemma keeps_promote: "keeps (promote_confirming env tip)"
  unfolding promote_confirming_def
  by (rule keeps_visit) (auto simp: is_active_def list_all_iff visited_def
      intro!: holds_for holds_promote_one stable_visited)

lemma holds_rollback: "stable p \<Longrightarrow> holds p (ddb wrap (rollback_reorg f nh nb oh ob at))"
  by (rule holds_db [where c = "RollbackReorg f nh nb oh ob at"]) simp_all

lemma holds_resolve: "stable p \<Longrightarrow> holds p (resolve_fork env)"
  unfolding resolve_fork_def find_fork_point_def
  by (rule holds_bind [OF holds_query], rule keeps_option, rule holds_ret, clarsimp split: prod.splits,
      rule holds_bind [OF holds_fork_walk], rule keeps_option,
      (intro holds_bind holds_if holds_simple holds_rollback; assumption)+)

lemma indexer_keeps: "keeps (indexer_tick env)"
proof -
  have "holds (\<lambda>_. True) (\<lambda>s. (Ok (de_halted s), s))" by (auto simp: triple_def)
  then show ?thesis
    unfolding indexer_tick_def
    by (intro holds_bind holds_if holds_simple)
      (auto intro!: holds_bind holds_simple holds_resolve stable_True holds_for holds_index_block keeps_advance
        keeps_promote keeps_option split: prod.splits)
qed

subsection \<open>The orchestrator\<close>

abbreviation claim_address :: "bytes32 \<Rightarrow> u32 \<Rightarrow> pubkey" where
  "claim_address txid vout \<equiv> fst (deposit_claim_pda (oe_sdk oenv) (oe_program_id oenv) txid vout)"

lemma triple_verify:
  assumes "stable p" "\<And>d. p d \<Longrightarrow> same_deposit row d"
  shows "triple p (dtry (verify_and_load_signable_message (sk_sha256 (oe_sdk oenv)) (dr_id row) at))
     (\<lambda>x d. p d \<and> (\<forall>c. x = Ok c \<longrightarrow> claim_frozen env c d \<and> sc_deposit_id c = dr_id row \<and>
        sc_txid c = dr_txid row \<and> sc_vout c = ucast (dr_vout row)))"
  unfolding triple_def
proof (intro allI impI)
  fix s r s'
  assume I: "I s" "p (de_db s)"
    and m: "dtry (verify_and_load_signable_message (sk_sha256 (oe_sdk oenv)) (dr_id row) at) s = (r, s')"
  let ?d = "de_db s" and ?i = "dr_id row"
  have safe: "dep_safe env ?d" by (rule I_safe [OF I(1)])
  from m have s': "s' = s" and r: "r = Ok (case (deposit_at ?d ?i, artifact_at ?d ?i) of
     (Some r, Some a) \<Rightarrow> Ok (claim_of ?i r a) | _ \<Rightarrow> Err (MissingClaimArtifact ?i))"
    by (auto simp: dtry_def I_hash [OF I(1)] safe_verify [OF safe] split: option.splits)
  have "claim_frozen env c ?d \<and> sc_deposit_id c = ?i \<and> sc_txid c = dr_txid row \<and> sc_vout c = ucast (dr_vout row)"
    if "r = Ok (Ok c)" for c
  proof -
    from that r obtain r1 a where ra: "deposit_at ?d ?i = Some r1" "artifact_at ?d ?i = Some a" "c = claim_of ?i r1 a"
      by (auto split: option.splits)
    with safe have "exact_artifact env r1 a" unfolding dep_safe_def by fastforce
    with ra assms(2) [OF I(2)] show ?thesis
      by (auto simp: claim_frozen_def claim_of_def same_deposit_def row_to_deposit_def deposit_facts_def)
  qed
  with I s' show "I s' \<and> (\<forall>x. r = Ok x \<longrightarrow> p (de_db s') \<and> (\<forall>c. x = Ok c \<longrightarrow> claim_frozen env c (de_db s') \<and>
      sc_deposit_id c = ?i \<and> sc_txid c = dr_txid row \<and> sc_vout c = ucast (dr_vout row)))" by auto
qed

lemma holds_note:
  assumes "\<And>d. p d \<Longrightarrow> claim_frozen env (sb_claim sb) d" "idx (sc_deposit_id (sb_claim sb))"
    and "sc_program_id (sb_claim sb) = oe_program_id oenv"
    and "sb_instructions sb = mint_instructions oenv (sb_claim sb)
      (claim_address (sc_txid (sb_claim sb)) (sc_vout (sb_claim sb))) (sb_signatures sb)"
  shows "holds p (note_submission sb)"
  using assms by (auto simp: triple_def note_submission_def intro!: I_submitted)

lemma holds_submit:
  assumes "stable p" "idx (dr_id row)" "\<And>d. p d \<Longrightarrow> has_claim row d \<and> claim_frozen env claim d"
    and "sc_deposit_id claim = dr_id row" "sc_program_id claim = oe_program_id oenv"
    and "claim_pda = claim_address (sc_txid claim) (sc_vout claim)"
  shows "holds p (submit_claim oenv row claim_pda claim)"
proof -
  have "holds p (ddb OrchDb (mark_submitted (dr_id row) sig at))" for sig at
    using assms(3) by (intro holds_db [where c = "MarkSubmitted (dr_id row) sig at"])
      (simp_all add: assms(1,2) has_claim_def)
  moreover have "holds p (note_submission \<lparr>sb_claim = claim, sb_signatures = sigs,
      sb_instructions = mint_instructions oenv claim claim_pda sigs\<rparr>)" for sigs
    by (rule holds_note) (simp_all add: assms)
  ultimately show ?thesis
    unfolding submit_claim_def Let_def by (intro holds_bind holds_if holds_simple)
qed

text \<open>The claim the guard handed out, together with what was known before.\<close>

lemma triple_loaded:
  assumes "stable p" "idx (dr_id row)" "\<And>d. p d \<Longrightarrow> same_deposit row d \<and> has_claim row d"
    and pda: "claim_pda = claim_address (dr_txid row) (ucast (dr_vout row))"
  shows "triple (\<lambda>d. p d \<and> (\<forall>c. x = Ok c \<longrightarrow> claim_frozen env c d \<and> sc_deposit_id c = dr_id row \<and>
        sc_txid c = dr_txid row \<and> sc_vout c = ucast (dr_vout row)))
     (case x of Err (MessageIntegrityMismatch i f) \<Rightarrow> eret OutIntegrityHalted
        | Err e \<Rightarrow> elift (Err (OrchDb e))
        | Ok claim \<Rightarrow> if sc_program_id claim \<noteq> oe_program_id oenv then eret OutIntegrityHalted
            else submit_claim oenv row claim_pda claim) (\<lambda>_. p)"
proof (cases x)
  case (Ok c)
  let ?p = "\<lambda>d. p d \<and> claim_frozen env c d"
  have "triple (\<lambda>d. (sc_deposit_id c = dr_id row \<and> sc_txid c = dr_txid row \<and> sc_vout c = ucast (dr_vout row)) \<and> ?p d)
      (if sc_program_id c \<noteq> oe_program_id oenv then eret OutIntegrityHalted
       else submit_claim oenv row claim_pda c) (\<lambda>_. p)"
  proof (rule triple_pure, rule triple_weaken [where p = ?p and q = "\<lambda>_. ?p"])
    assume "sc_deposit_id c = dr_id row \<and> sc_txid c = dr_txid row \<and> sc_vout c = ucast (dr_vout row)"
    then show "holds ?p (if sc_program_id c \<noteq> oe_program_id oenv then eret OutIntegrityHalted
       else submit_claim oenv row claim_pda c)"
      using assms(2,3) pda
      by (intro holds_if holds_ret holds_submit stable_conj assms(1) stable_claim_frozen) auto
  qed auto
  with Ok show ?thesis by (auto elim!: triple_weaken)
next
  case (Err e)
  have "triple q (elift (Err e' :: ('b, orchestrator_error) result)) (\<lambda>_. p)" for q e'
    by (auto simp: triple_def elift_def)
  with Err show ?thesis by (cases e) (auto intro: triple_ret)
qed

lemma holds_process_one:
  assumes "stable p" "idx (dr_id row)" "\<And>d. p d \<Longrightarrow> same_deposit row d \<and> has_claim row d"
  shows "holds p (process_one oenv row)"
proof -
  have minted: "holds p (ddb OrchDb (mark_minted (dr_id row) at))" for at
    using assms(3) by (intro holds_db [where c = "TransitionState (dr_id row) DMinted at None None"])
      (simp_all add: assms(1,2) has_claim_def mark_minted_def)
  have same: "same_deposit row d" if "p d" for d using assms(3) [OF that] ..
  show ?thesis
    unfolding process_one_def Let_def
  proof (rule holds_bind [OF holds_calls(2)], rule holds_if)
    show "holds p (ebind (dworld (oe_now_unix oenv)) (\<lambda>now.
        ebind (ddb OrchDb (mark_minted (dr_id row) now)) (\<lambda>_. eret OutMinted)))"
      by (intro holds_bind holds_simple minted)
  qed (rule holds_bind [OF holds_world], rule triple_bind, rule triple_verify [OF assms(1) same], assumption,
      rule triple_loaded [OF assms refl], assumption)
qed

lemma holds_process_rows:
  assumes "stable p" "\<And>row d. row \<in> set rows \<Longrightarrow> p d \<Longrightarrow> same_deposit row d \<and> has_claim row d"
    and "\<And>row. row \<in> set rows \<Longrightarrow> idx (dr_id row)"
  shows "holds p (process_rows oenv rows rep)"
  using assms(2,3)
proof (induction rows arbitrary: rep)
  case (Cons row rows)
  show ?case
    unfolding process_rows.simps
    by (intro holds_bind holds_process_one Cons.IH) (use assms(1) Cons.prems in auto)
qed (simp add: holds_ret)

lemma orchestrator_keeps: "keeps (orchestrator_tick oenv)"
  unfolding orchestrator_tick_def
proof (rule keeps_visit)
  fix ready :: "deposit_row list"
  assume ready: "list_all (\<lambda>row. idx (dr_id row)) ready"
  let ?rep = "\<lparr>tr_minted = 0, tr_submitted = 0, tr_insufficient = 0, tr_halted = 0\<rparr>"
  show "holds (visited DReadyForSignature ready)
     (ebind (dquery (\<lambda>d. Ok (candidates_by_state d DSubmitted))) (\<lambda>submitted. process_rows oenv (ready @ submitted) ?rep))"
  proof (rule triple_bind [OF triple_visit], simp add: is_active_def, rule triple_pure)
    fix submitted :: "deposit_row list"
    let ?p = "\<lambda>d. visited DReadyForSignature ready d \<and> visited DSubmitted submitted d"
    assume "list_all (\<lambda>row. idx (dr_id row)) submitted"
    with ready have "holds ?p (process_rows oenv (ready @ submitted) ?rep)"
      by (intro holds_process_rows stable_conj stable_visited) (auto simp: list_all_iff visited_def)
    then show "triple ?p (process_rows oenv (ready @ submitted) ?rep) (\<lambda>_. visited DReadyForSignature ready)"
      by (rule triple_weaken) auto
  qed
qed (simp add: is_active_def)

end

end
