(* ===== verification/DepositGuarantees.thy ===== *)
theory DepositGuarantees
  imports DepositLogic
begin

text \<open>
  The guarantees of the deposit side.  The indexer and the orchestrator tick in any order, an
  operator may clear a halt, the processes may restart, and the rest of the world changes on its
  own.  Whatever happens, only exact claims of recorded deposits are frozen and submitted; and a
  deposit orphaned while no task holds it is lost, however the calls of the two tasks interleave.
\<close>

section \<open>The deposit side as a system\<close>

datatype 'w dep_label =
    IndexerTick
  | OrchestratorTick
  | OperatorClears i64 deposit_state bytes i64
  | Restart
  | DepositElsewhere 'w

text \<open>The indexer and the orchestrator use the same hash function.\<close>

definition dep_init :: "('w, 'f) indexer_env \<Rightarrow> 'w orchestrator_env \<Rightarrow> 'w dep_state \<Rightarrow> bool" where
  "dep_init env oenv s \<longleftrightarrow> sk_sha256 (oe_sdk oenv) = ie_sha256 env \<and>
     de_db s = empty_deposit_db \<and> de_submitted s = []"

definition dep_step ::
  "('w, 'f) indexer_env \<Rightarrow> 'w orchestrator_env \<Rightarrow> 'w dep_state \<Rightarrow> 'w dep_label \<Rightarrow> 'w dep_state \<Rightarrow> bool" where
  "dep_step env oenv s l s' =
     (case l of
        IndexerTick \<Rightarrow> s' = snd (indexer_tick env s)
      | OrchestratorTick \<Rightarrow> s' = snd (orchestrator_tick oenv s)
      | OperatorClears i to operator_note at \<Rightarrow>
          s' = s\<lparr>de_db := snd (operator_clear_integrity_halt i to operator_note at (de_db s))\<rparr>
      | Restart \<Rightarrow> s' = s\<lparr>de_halted := False\<rparr>
      | DepositElsewhere w \<Rightarrow> s' = s\<lparr>de_world := w\<rparr>)"

section \<open>Safety\<close>

definition submission_exact ::
  "('w, 'f) indexer_env \<Rightarrow> 'w orchestrator_env \<Rightarrow> deposit_db \<Rightarrow> submission \<Rightarrow> bool" where
  "submission_exact env oenv d sb \<longleftrightarrow> claim_frozen env (sb_claim sb) d \<and>
     sc_program_id (sb_claim sb) = oe_program_id oenv \<and>
     sb_instructions sb = mint_instructions oenv (sb_claim sb) (fst (deposit_claim_pda (oe_sdk oenv)
        (oe_program_id oenv) (sc_txid (sb_claim sb)) (sc_vout (sb_claim sb)))) (sb_signatures sb)"

definition sys_safe :: "('w, 'f) indexer_env \<Rightarrow> 'w orchestrator_env \<Rightarrow> 'w dep_state \<Rightarrow> bool" where
  "sys_safe env oenv s \<longleftrightarrow> sk_sha256 (oe_sdk oenv) = ie_sha256 env \<and> dep_safe env (de_db s) \<and>
     (\<forall>sb \<in> set (de_submitted s). submission_exact env oenv (de_db s) sb)"

lemma submission_le: "deposit_le d d' \<Longrightarrow> submission_exact env oenv d sb \<Longrightarrow> submission_exact env oenv d' sb"
  using stable_claim_frozen [of env "sb_claim sb"] unfolding submission_exact_def stable_def by blast

lemma sys_safe_exec:
  assumes "sys_safe env oenv s" "deposit_call env idx (de_db s) c"
  shows "sys_safe env oenv (s\<lparr>de_db := ddb_exec (ie_sha256 env) c (de_db s)\<rparr>)"
  using assms dep_safe_exec [of env "de_db s" idx c]
    submission_le [OF changes_le [OF exec_changes], of env oenv "de_db s" _ "ie_sha256 env" c]
  by (auto simp: sys_safe_def)

interpretation dsafe: deposit_invariant "sys_safe env oenv" env oenv "\<lambda>_. True"
  for env :: "('w, 'f) indexer_env" and oenv :: "'w orchestrator_env"
proof unfold_locales
  fix s :: "'w dep_state" and c sb
  show "sys_safe env oenv (s\<lparr>de_db := ddb_exec (ie_sha256 env) c (de_db s)\<rparr>)"
    if "sys_safe env oenv s" "deposit_call env (\<lambda>_. True) (de_db s) c"
    using that by (rule sys_safe_exec)
qed (auto simp: sys_safe_def submission_exact_def)

lemma empty_safe: "dep_safe env empty_deposit_db"
  by (simp add: dep_safe_def deposit_inv_empty) (simp add: empty_deposit_db_def)

text \<open>The steps of the system keep whatever the contract keeps.\<close>

context deposit_invariant
begin

lemma step_keeps: "dep_step env oenv s l s' \<Longrightarrow> I s \<Longrightarrow> I s'"
proof (cases l)
  case (OperatorClears i to operator_note at)
  moreover assume "dep_step env oenv s l s'" "I s"
  ultimately show "I s'"
    using I_db [of s "OperatorClearIntegrityHalt i to operator_note at"] by (simp add: dep_step_def)
qed (auto simp: dep_step_def I_world I_halted intro: keeps_run indexer_keeps orchestrator_keeps)

end

interpretation dep: inv_system "dep_init env oenv" "dep_step env oenv" "sys_safe env oenv"
  for env :: "('w, 'f) indexer_env" and oenv :: "'w orchestrator_env"
proof unfold_locales
  fix s s' :: "'w dep_state" and l
  show "sys_safe env oenv s" if "dep_init env oenv s"
    using that empty_safe by (auto simp: dep_init_def sys_safe_def)
  show "sys_safe env oenv s'" if "sys_safe env oenv s" "dep_step env oenv s l s'"
    using that(2,1) by (rule dsafe.step_keeps)
qed

abbreviation dep_reachable :: "('w, 'f) indexer_env \<Rightarrow> 'w orchestrator_env \<Rightarrow> 'w dep_state \<Rightarrow> bool" where
  "dep_reachable env oenv \<equiv> transition_system.reachable (dep_init env oenv) (dep_step env oenv)"

abbreviation dep_run ::
  "('w, 'f) indexer_env \<Rightarrow> 'w orchestrator_env \<Rightarrow> 'w dep_state \<Rightarrow> 'w dep_label list \<Rightarrow> 'w dep_state \<Rightarrow> bool" where
  "dep_run env oenv \<equiv> transition_system.run (dep_step env oenv)"

section \<open>What is frozen and submitted\<close>

text \<open>The claim of a deposit under a configuration.\<close>

definition configured_message :: "('w, 'f) indexer_env \<Rightarrow> deposit_candidate_row \<Rightarrow> bytes" where
  "configured_message env r = deposit_claim_message (ic_protocol_version (ie_config env))
     (ic_program_id (ie_config env)) (ic_validator_epoch (ie_config env)) (cd_txid r) (ucast (cd_vout r))
     (cd_amount_atomic r) (cd_recipient r) (ic_wrapped_mint (ie_config env))"

lemma exact_artifact_columns:
  assumes "exact_artifact env r a"
  shows "ca_canonical_message a = configured_message env r" "ca_message_hash a = ie_sha256 env (configured_message env r)"
    "ca_protocol_version a = ic_protocol_version (ie_config env)"
    "ca_validator_epoch a = ic_validator_epoch (ie_config env)" "ca_program_id a = ic_program_id (ie_config env)"
    "ca_wrapped_mint a = ic_wrapped_mint (ie_config env)"
  by (subst assms [unfolded exact_artifact_def],
      simp add: claim_artifact_for_def row_to_deposit_def build_claim_message_def configured_message_def Let_def)+

text \<open>
  C21: Whatever the indexer, the orchestrator and the operators do, in any order and with any
  answers of the nodes: the frozen claim of a deposit is the canonical message of exactly that
  deposit under the configured version, program, epoch and mint, together with its hash; every
  deposit that is ready, submitted or minted has one; and no deposit is ever halted by the
  integrity check.
\<close>

theorem frozen_claims_exact:
  assumes "dep_reachable env oenv s" "deposit_at (de_db s) i = Some r"
  shows "cd_state r \<noteq> ''IntegrityHalted'' \<and>
     (cd_state r \<in> {''ReadyForSignature'', ''Submitted'', ''Minted''} \<longrightarrow> artifact_at (de_db s) i \<noteq> None) \<and>
     (\<forall>a. artifact_at (de_db s) i = Some a \<longrightarrow>
        ca_canonical_message a = deposit_claim_message (ic_protocol_version (ie_config env))
          (ic_program_id (ie_config env)) (ic_validator_epoch (ie_config env)) (cd_txid r) (ucast (cd_vout r))
          (cd_amount_atomic r) (cd_recipient r) (ic_wrapped_mint (ie_config env)) \<and>
        ca_message_hash a = ie_sha256 env (ca_canonical_message a))"
proof -
  have safe: "dep_safe env (de_db s)" using dep.reachable_inv [OF assms(1)] by (simp add: sys_safe_def)
  have "exact_artifact env r a" if "artifact_at (de_db s) i = Some a" for a
    using safe that assms(2) unfolding dep_safe_def by fastforce
  then have "ca_canonical_message a = configured_message env r \<and>
      ca_message_hash a = ie_sha256 env (ca_canonical_message a)" if "artifact_at (de_db s) i = Some a" for a
    using exact_artifact_columns that by metis
  with safe assms(2) show ?thesis unfolding dep_safe_def configured_message_def by blast
qed

text \<open>The two instructions of a mint for a recorded deposit.\<close>

definition mint_transaction ::
  "('w, 'f) indexer_env \<Rightarrow> 'w orchestrator_env \<Rightarrow> (pubkey \<times> signature) list \<Rightarrow> deposit_candidate_row \<Rightarrow> solana_ix list" where
  "mint_transaction env oenv sigs r =
     [\<lparr>si_program_id = oe_ed25519_program oenv, si_accounts = [],
       si_data = build_ed25519_data sigs (configured_message env r)\<rparr>,
      mint_wrapped_instruction (oe_sdk oenv) (oe_program_id oenv)
        \<lparr>mw_submitter = oe_submitter oenv,
         mw_bridge_config = fst (bridge_config_pda (oe_sdk oenv) (oe_program_id oenv)),
         mw_validator_set = fst (validator_set_pda (oe_sdk oenv) (oe_program_id oenv)),
         mw_deposit_claim = fst (deposit_claim_pda (oe_sdk oenv) (oe_program_id oenv) (cd_txid r) (ucast (cd_vout r))),
         mw_wrapped_mint = ic_wrapped_mint (ie_config env),
         mw_mint_authority = fst (mint_authority_pda (oe_sdk oenv) (oe_program_id oenv)),
         mw_recipient = cd_recipient r,
         mw_recipient_token_account =
           sk_associated_token_address (oe_sdk oenv) (cd_recipient r) (ic_wrapped_mint (ie_config env))\<rparr>
        (cd_txid r) (ucast (cd_vout r)) (cd_amount_atomic r) (ic_validator_epoch (ie_config env))]"

lemma submission_shape:
  assumes ex: "submission_exact env oenv d sb"
  shows "\<exists>r. deposit_at d (sc_deposit_id (sb_claim sb)) = Some r \<and>
     ic_program_id (ie_config env) = oe_program_id oenv \<and>
     sb_instructions sb = mint_transaction env oenv (sb_signatures sb) r"
proof -
  from ex obtain r a where r: "deposit_at d (sc_deposit_id (sb_claim sb)) = Some r"
    and a: "exact_artifact env r a" "sb_claim sb = claim_of (sc_deposit_id (sb_claim sb)) r a"
    by (auto simp: submission_exact_def claim_frozen_def)
  note cols = exact_artifact_columns [OF a(1)]
  have c: "sc_message (sb_claim sb) = recomputed_message r a" "sc_txid (sb_claim sb) = cd_txid r"
    "sc_vout (sb_claim sb) = ucast (cd_vout r)" "sc_amount_atomic (sb_claim sb) = cd_amount_atomic r"
    "sc_recipient (sb_claim sb) = cd_recipient r" "sc_program_id (sb_claim sb) = ca_program_id a"
    "sc_wrapped_mint (sb_claim sb) = ca_wrapped_mint a" "sc_validator_epoch (sb_claim sb) = ca_validator_epoch a"
    by (subst a(2), simp add: claim_of_def)+
  with ex cols have "ic_program_id (ie_config env) = oe_program_id oenv" by (simp add: submission_exact_def)
  with ex r c cols show ?thesis
    by (simp add: submission_exact_def mint_instructions_def mint_accounts_for_def build_ed25519_instruction_def
        recomputed_message_def mint_transaction_def configured_message_def)
qed

lemma submitted_exact: "dep_reachable env oenv s \<Longrightarrow> sb \<in> set (de_submitted s) \<Longrightarrow> submission_exact env oenv (de_db s) sb"
  using dep.reachable_inv by (auto simp: sys_safe_def)

text \<open>
  C20: Every mint the orchestrator submits is for a deposit in the table and carries exactly its
  data: the proof instruction is over the canonical message of that deposit, and the mint
  instruction names its transaction output, amount, epoch, recipient and claim account.
\<close>

theorem submissions_exact:
  assumes "dep_reachable env oenv s" "sb \<in> set (de_submitted s)"
  shows "\<exists>r. deposit_at (de_db s) (sc_deposit_id (sb_claim sb)) = Some r \<and>
     sb_instructions sb =
       [\<lparr>si_program_id = oe_ed25519_program oenv, si_accounts = [],
         si_data = build_ed25519_data (sb_signatures sb) (deposit_claim_message
           (ic_protocol_version (ie_config env)) (oe_program_id oenv) (ic_validator_epoch (ie_config env))
           (cd_txid r) (ucast (cd_vout r)) (cd_amount_atomic r) (cd_recipient r) (ic_wrapped_mint (ie_config env)))\<rparr>,
        mint_wrapped_instruction (oe_sdk oenv) (oe_program_id oenv)
          \<lparr>mw_submitter = oe_submitter oenv,
           mw_bridge_config = fst (bridge_config_pda (oe_sdk oenv) (oe_program_id oenv)),
           mw_validator_set = fst (validator_set_pda (oe_sdk oenv) (oe_program_id oenv)),
           mw_deposit_claim = fst (deposit_claim_pda (oe_sdk oenv) (oe_program_id oenv) (cd_txid r) (ucast (cd_vout r))),
           mw_wrapped_mint = ic_wrapped_mint (ie_config env),
           mw_mint_authority = fst (mint_authority_pda (oe_sdk oenv) (oe_program_id oenv)),
           mw_recipient = cd_recipient r,
           mw_recipient_token_account =
             sk_associated_token_address (oe_sdk oenv) (cd_recipient r) (ic_wrapped_mint (ie_config env))\<rparr>
          (cd_txid r) (ucast (cd_vout r)) (cd_amount_atomic r) (ic_validator_epoch (ie_config env))]"
  using submission_shape [OF submitted_exact [OF assms]]
  by (auto simp: mint_transaction_def configured_message_def)

text \<open>
  The signing guard on any database, however its rows came about: a claim it hands out is
  the canonical message recomputed from the deposit, equal to the frozen bytes, whose hash is the
  frozen hash; when either comparison fails it hands out nothing, halts the deposit and records
  both hashes and the differing fields; and it changes nothing else than that.
\<close>

theorem signing_guard_exact:
  shows "case verify_and_load_signable_message H i at d of
     (Ok c, d') \<Rightarrow> d' = d \<and> (\<exists>r a. deposit_at d i = Some r \<and> artifact_at d i = Some a \<and>
        sc_message c = ca_canonical_message a \<and> H (sc_message c) = ca_message_hash a \<and>
        sc_message c = deposit_claim_message (ca_protocol_version a) (sc_program_id c) (sc_validator_epoch c)
          (sc_txid c) (sc_vout c) (sc_amount_atomic c) (sc_recipient c) (sc_wrapped_mint c) \<and>
        (sc_txid c, sc_vout c, sc_amount_atomic c, sc_recipient c) =
          (cd_txid r, ucast (cd_vout r), cd_amount_atomic r, cd_recipient r))
   | (Err (MessageIntegrityMismatch j reason), d') \<Rightarrow> j = i \<and> (\<exists>r l. deposit_at d i = Some r \<and>
        deposit_at d' i = Some (r\<lparr>cd_state := ''IntegrityHalted'', cd_failure_reason := Some (ascii reason)\<rparr>) \<and>
        deposit_state_log d' = deposit_state_log d @ [l] \<and> dl_to_state l = ''IntegrityHalted'' \<and>
        dl_expected_message_hash l \<noteq> None \<and> dl_recomputed_message_hash l \<noteq> None)
   | (Err e, d') \<Rightarrow> d' = d \<and> e = MissingClaimArtifact i \<and> (deposit_at d i = None \<or> artifact_at d i = None)"
proof (cases rule: verify_cases [where d = d and i = i and H = H and at = at])
  case (loaded r a)
  then show ?thesis by (auto simp: claim_consistent_def claim_of_def recomputed_message_def)
next
  case (halted r a reason d')
  from halted(6) obtain l where "deposit_state_log d' = deposit_state_log d @ [l]"
    "dl_to_state l = ''IntegrityHalted''" "dl_expected_message_hash l \<noteq> None" "dl_recomputed_message_hash l \<noteq> None"
    by auto
  with halted(1,4,5) show ?thesis by auto
qed simp

section \<open>Orphaned deposits\<close>

definition orphaned :: "i64 \<Rightarrow> deposit_db \<Rightarrow> bool" where
  "orphaned i d \<longleftrightarrow> (\<exists>r. deposit_at d i = Some r \<and> cd_state r = ''Orphaned'')"

lemma orphaned_exec:
  assumes safe: "dep_safe env d" and orphan: "orphaned i d" and call: "deposit_call env (\<lambda>j. j \<noteq> i) d c"
  shows "orphaned i (ddb_exec (ie_sha256 env) c d)"
proof -
  let ?d = "ddb_exec (ie_sha256 env) c d"
  from orphan obtain r where r: "deposit_at d i = Some r" "cd_state r = ''Orphaned''" by (auto simp: orphaned_def)
  have "deposit_at ?d i = deposit_at d i"
  proof (cases c)
    case (IngestBlock b cs)
    with ingest_effect [of b cs d "fst (ingest_block b cs d)" ?d i] r show ?thesis by simp
  next
    case (RollbackReorg f nh nb oh ob at)
    with rollback_effect [of f nh nb oh ob at d "fst (rollback_reorg f nh nb oh ob at d)" ?d i] r
      dep_safe_distinct [OF safe]
    show ?thesis by (auto simp: active_above_def)
  next
    case (TransitionState j to at reason a)
    have "transition_state j to at reason a d = (fst (transition_state j to at reason a d), ?d)"
      using TransitionState by simp
    then show ?thesis by (cases rule: transition_effect) (use TransitionState call in auto)
  next
    case (MarkSubmitted j sig at)
    have "mark_submitted j sig at d = (fst (mark_submitted j sig at d), ?d)" using MarkSubmitted by simp
    then show ?thesis by (cases rule: submitted_effect) (use MarkSubmitted call in auto)
  next
    case (VerifyAndLoadSignableMessage j at)
    then show ?thesis by (simp add: safe_verify [OF safe] split: option.splits)
  next
    case (OperatorClearIntegrityHalt j to why at)
    with clear_effect [of j to why at d "fst (operator_clear_integrity_halt j to why at d)" ?d] safe
    show ?thesis by (auto simp: dep_safe_def)
  qed
  with r show ?thesis by (simp add: orphaned_def)
qed

text \<open>
  The two tasks run concurrently, each on its own connection.  A task works on the deposits it has
  listed, and the other one may change the tables between the listing and any later call; a call
  that names a deposit names one that its task has listed and not yet finished.  The state is the
  database and the deposits in the hands of the tasks.
\<close>

datatype task_label =
    TaskLists deposit_state
  | TaskFinishes i64
  | TaskCalls ddb_call

definition tasks_init :: "deposit_db \<times> i64 set \<Rightarrow> bool" where
  "tasks_init s \<longleftrightarrow> s = (empty_deposit_db, {})"

inductive tasks_step :: "('w, 'f) indexer_env \<Rightarrow> deposit_db \<times> i64 set \<Rightarrow> task_label \<Rightarrow> deposit_db \<times> i64 set \<Rightarrow> bool"
  for env :: "('w, 'f) indexer_env" where
  lists: "is_active st \<Longrightarrow> tasks_step env (d, A) (TaskLists st) (d, A \<union> dr_id ` set (candidates_by_state d st))"
| finishes: "tasks_step env (d, A) (TaskFinishes j) (d, A - {j})"
| calls: "deposit_call env (\<lambda>j. j \<in> A) d c \<Longrightarrow> tasks_step env (d, A) (TaskCalls c) (ddb_exec (ie_sha256 env) c d, A)"

interpretation tasks: inv_system tasks_init "tasks_step env" "\<lambda>(d, A). dep_safe env d"
  for env :: "('w, 'f) indexer_env"
proof unfold_locales
  show "case s of (d, A) \<Rightarrow> dep_safe env d" if "tasks_init s" for s
    using that by (simp add: tasks_init_def empty_safe)
  show "case s' of (d, A) \<Rightarrow> dep_safe env d" if "case s of (d, A) \<Rightarrow> dep_safe env d" "tasks_step env s l s'" for s l s'
    using that(2,1) by cases (auto intro: dep_safe_exec)
qed

abbreviation tasks_reachable :: "('w, 'f) indexer_env \<Rightarrow> deposit_db \<times> i64 set \<Rightarrow> bool" where
  "tasks_reachable env \<equiv> transition_system.reachable tasks_init (tasks_step env)"

abbreviation tasks_run ::
  "('w, 'f) indexer_env \<Rightarrow> deposit_db \<times> i64 set \<Rightarrow> task_label list \<Rightarrow> deposit_db \<times> i64 set \<Rightarrow> bool" where
  "tasks_run env \<equiv> transition_system.run (tasks_step env)"

text \<open>No listing of the tasks shows an orphaned deposit.\<close>

lemma orphaned_not_listed:
  assumes "dep_safe env d" "orphaned i d" "is_active st"
  shows "i \<notin> dr_id ` set (candidates_by_state d st)"
proof
  assume "i \<in> dr_id ` set (candidates_by_state d st)"
  then obtain row where row: "row \<in> set (candidates_by_state d st)" "i = dr_id row" by auto
  obtain r where "deposit_at d (dr_id row) = Some r" "cd_state r = ds_as_str st"
    by (rule candidates_by_state_row [OF dep_safe_distinct [OF assms(1)] row(1)])
  with assms(2) row(2) have "ds_as_str st = ds_as_str DOrphaned" by (simp add: orphaned_def)
  with assms(3) show False unfolding ds_as_str_inject by (simp add: is_active_def)
qed

definition left_alone :: "('w, 'f) indexer_env \<Rightarrow> i64 \<Rightarrow> deposit_db \<Rightarrow> deposit_db \<times> i64 set \<Rightarrow> bool" where
  "left_alone env i d0 = (\<lambda>(d, A). dep_safe env d \<and> orphaned i d \<and> i \<notin> A \<and> deposit_le d0 d)"

lemma deposit_call_mono: "deposit_call env idx d c \<Longrightarrow> (\<And>j. idx j \<Longrightarrow> idx' j) \<Longrightarrow> deposit_call env idx' d c"
  by (cases c) auto

interpretation lost: inv_system "left_alone env i d0" "tasks_step env" "left_alone env i d0"
  for env :: "('w, 'f) indexer_env" and i d0
proof unfold_locales
  show "left_alone env i d0 s'" if "left_alone env i d0 s" "tasks_step env s l s'" for s l s'
    using that(2,1)
  proof cases
    case (lists st d A)
    with that(1) orphaned_not_listed [of env d i st] show ?thesis by (auto simp: left_alone_def)
  next
    case (calls A d c)
    with that(1) have "deposit_call env (\<lambda>j. j \<noteq> i) d c" by (auto simp: left_alone_def elim: deposit_call_mono)
    with that(1) calls orphaned_exec [of env d i c] dep_safe_exec [of env d _ c]
      deposit_le_trans [OF _ changes_le [OF exec_changes], of d0 d "ie_sha256 env" c]
    show ?thesis by (auto simp: left_alone_def)
  qed (auto simp: left_alone_def)
qed

text \<open>
  A task that has listed the deposit before it was orphaned still moves it on: a submission in
  flight ends with the row Submitted.
\<close>

lemma submission_in_flight_revives:
  assumes "dep_safe env d" "orphaned i d"
  shows "\<exists>d' r'. mark_submitted i sig at d = (Ok (), d') \<and> deposit_at d' i = Some r' \<and> cd_state r' = ''Submitted''"
proof -
  obtain r where r: "deposit_at d i = Some r" using assms(2) by (auto simp: orphaned_def)
  then have member: "i \<in> cd_id ` set (deposit_candidates d)" by (rule deposit_at_member)
  obtain res d' where run: "mark_submitted i sig at d = (res, d')" by (cases "mark_submitted i sig at d")
  from run show ?thesis
  proof (cases rule: submitted_effect)
    case (failed e)
    with run r member show ?thesis
      by (auto simp: mark_submitted_def transact_def insert_deposit_log_def Let_def row_at_None update_deposit_def
            image_update_where deposit_log_entry_def
          split: result.splits prod.splits if_splits)
  next
    case (success r1)
    with run show ?thesis by auto
  qed
qed

text \<open>
  C22: A deposit that a reorganization orphaned is never minted, even when its block becomes part of
  the main chain again, unless a task had it in its hands at that moment.  The two tasks are
  interleaved between any two of their database calls.  From a state in which the deposit is
  orphaned and no task holds it, along every run its row stays orphaned with the same output, block,
  amount and recipient, no listing ever gives it to a task again, and the same output of the same
  block is never recorded under another row.
\<close>

theorem orphaned_deposit_is_lost:
  assumes "tasks_reachable env (d, A)" "deposit_at d i = Some r" "cd_state r = ''Orphaned''" "i \<notin> A"
    and "tasks_run env (d, A) ls (d', A')"
  shows "\<exists>r'. deposit_at d' i = Some r' \<and> cd_state r' = ''Orphaned'' \<and> deposit_facts r' = deposit_facts r \<and> i \<notin> A' \<and>
     list_all (\<lambda>r2. deposit_key r2 = deposit_key r' \<longrightarrow> r2 = r') (deposit_candidates d')"
proof -
  have "left_alone env i d (d, A)"
    using tasks.reachable_inv [OF assms(1)] assms(2-4) by (simp add: left_alone_def orphaned_def deposit_le_refl)
  from lost.inv_run [OF assms(5) this] have s': "dep_safe env d'" "orphaned i d'" "i \<notin> A'" "deposit_le d d'"
    by (simp_all add: left_alone_def)
  then obtain r' where r': "deposit_at d' i = Some r'" "cd_state r' = ''Orphaned''" by (auto simp: orphaned_def)
  from le_deposit_at [OF s'(4) assms(2)] r'(1) have "deposit_facts r' = deposit_facts r" by auto
  moreover from s'(1) have "distinct (map deposit_key (deposit_candidates d'))"
    by (auto simp: dep_safe_def deposit_inv_def)
  from key_unique [OF this] row_at_Some [OF r'(1)]
  have "list_all (\<lambda>r2. deposit_key r2 = deposit_key r' \<longrightarrow> r2 = r') (deposit_candidates d')"
    by (auto simp: list_all_iff)
  ultimately show ?thesis using r' s'(3) by blast
qed

end
