(* ===== verification/EndToEnd.thy ===== *)
theory EndToEnd
  imports DepositGuarantees Guarantees
begin

text \<open>
  The deposit side of the relayer against the program on chain: a mint the orchestrator submits is
  decoded, accepted and recorded by the program exactly as the deposit says, as long as the
  federation is the one the claim was frozen for; after a rotation no claim frozen before can be
  minted any more.
\<close>

section \<open>A submitted mint on chain\<close>

text \<open>What the federation's signatures must be.\<close>

definition quorum_signatures :: "(pubkey \<times> signature) list \<Rightarrow> validator_set \<Rightarrow> bool" where
  "quorum_signatures sigs v \<longleftrightarrow> distinct (map fst sigs) \<and> fst ` set sigs \<subseteq> set (vs_validators v) \<and>
     unat (vs_threshold v) \<le> length sigs"

lemma quorum_bounds:
  assumes "quorum_signatures sigs v" "valid_federation (vs_validators v) (vs_threshold v)"
  shows "sigs \<noteq> []" "length sigs \<le> 16"
proof -
  from assms show "sigs \<noteq> []" by (auto simp: quorum_signatures_def valid_federation_def)
  have "length sigs = card (fst ` set sigs)"
    using assms(1) by (metis distinct_card length_map quorum_signatures_def set_map)
  also have "\<dots> \<le> card (set (vs_validators v))"
    using assms(1) by (intro card_mono) (auto simp: quorum_signatures_def)
  also have "\<dots> \<le> length (vs_validators v)" by (rule card_length)
  finally show "length sigs \<le> 16" using assms(2) by (auto simp: valid_federation_def MAX_VALIDATORS_def)
qed

lemma quorum_approved:
  assumes "quorum_signatures sigs v" "valid_federation (vs_validators v) (vs_threshold v)"
    and "tx_prev t = Some (ex_ed25519_program ex, build_ed25519_data sigs msg)" "length msg < 1000"
  shows "federation_approved ex t v msg"
proof -
  note b = quorum_bounds [OF assms(1,2)]
  have "count_unique_validator_signers (build_ed25519_data sigs msg) msg (vs_validators v) = Ok (length sigs)"
    by (rule build_then_verify [THEN iffD2]) (use assms b in \<open>auto simp: quorum_signatures_def valid_federation_def\<close>)
  with assms show ?thesis by (auto simp: federation_approved_def quorum_signatures_def)
qed

text \<open>What the program demands of the mint besides the proof.\<close>

definition mint_open :: "'w external \<Rightarrow> 'w chain \<Rightarrow> bridge_config \<Rightarrow> deposit_candidate_row \<Rightarrow> bool" where
  "mint_open ex c cfg r \<longleftrightarrow> \<not> cfg_paused cfg \<and> ch_claims c (cd_txid r, ucast (cd_vout r)) = None \<and>
     cfg_wrapped_mint cfg \<noteq> default_pubkey \<and> 0 < cd_amount_atomic r \<and> cfg_min_deposit cfg \<le> cd_amount_atomic r \<and>
     ex_has_ata ex (ch_world c) (cfg_wrapped_mint cfg) (cd_recipient r) \<and>
     (\<exists>held. ex_mint_supply ex (ch_world c) (cfg_wrapped_mint cfg) = Some held \<and>
        unat held + unat (cd_amount_atomic r) \<le> unat (cfg_max_wrapped_supply cfg)) \<and>
     ex_mint_to_checked ex (ch_world c) (cfg_wrapped_mint cfg) (cd_recipient r) (pda_address ex MintAuthorityPda)
        (cd_amount_atomic r) WRAPPED_GLC_DECIMALS \<noteq> None"

lemma mint_open_accepts:
  assumes minting: "mint_open ex c cfg r" and c: "ch_config c = Some cfg" "ch_vset c = Some v"
    and approved: "federation_approved ex t v (deposit_claim_message (cfg_protocol_version cfg) PROGRAM_ID (vs_epoch v)
       (cd_txid r) (ucast (cd_vout r)) (cd_amount_atomic r) (cd_recipient r) (cfg_wrapped_mint cfg))"
  shows "\<exists>c' d. process ex t (MintWrapped (cfg_wrapped_mint cfg) (cd_recipient r) (cd_txid r) (ucast (cd_vout r))
       (cd_amount_atomic r) (vs_epoch v)) c = Ok c' \<and>
     ch_claims c' (cd_txid r, ucast (cd_vout r)) = Some d \<and> dc_amount d = cd_amount_atomic r \<and>
     dc_recipient d = cd_recipient r"
proof -
  from minting obtain held w where held: "ex_mint_supply ex (ch_world c) (cfg_wrapped_mint cfg) = Some held"
      "unat held + unat (cd_amount_atomic r) \<le> unat (cfg_max_wrapped_supply cfg)"
    and w: "ex_mint_to_checked ex (ch_world c) (cfg_wrapped_mint cfg) (cd_recipient r) (pda_address ex MintAuthorityPda)
        (cd_amount_atomic r) WRAPPED_GLC_DECIMALS = Some w"
    by (auto simp: mint_open_def)
  have fits: "unat held + unat (cd_amount_atomic r) < 2 ^ 64"
    by (rule le_less_trans [OF held(2)]) (use unsigned_less [where ?'a = nat and w = "cfg_max_wrapped_supply cfg"] in simp)
  then have "held + cd_amount_atomic r \<le> cfg_max_wrapped_supply cfg"
    using held(2) by (simp add: word_le_nat_alt unat_word_ariths)
  with minting c approved held(1) w fits show ?thesis
    by (simp add: mint_wrapped_Ok mint_open_def)
qed

text \<open>The mint instruction of a submission is the one the program declares.\<close>

lemma mint_dispatched:
  assumes "distinct_discriminators (oe_sdk oenv)" "oe_program_id oenv = PROGRAM_ID"
  shows "dispatch (oe_sdk oenv) (map am_pubkey (si_accounts (mint_transaction env oenv sigs r ! 1)))
       (si_data (mint_transaction env oenv sigs r ! 1)) =
     Some (MintWrapped (ic_wrapped_mint (ie_config env)) (cd_recipient r) (cd_txid r) (ucast (cd_vout r))
       (cd_amount_atomic r) (ic_validator_epoch (ie_config env)))"
proof -
  let ?i = "MintWrapped (ic_wrapped_mint (ie_config env)) (cd_recipient r) (cd_txid r) (ucast (cd_vout r))
       (cd_amount_atomic r) (ic_validator_epoch (ie_config env))"
  have "mint_transaction env oenv sigs r ! 1 = client_build (oe_sdk oenv) (oe_submitter oenv) 0 0 ?i"
    by (simp add: mint_transaction_def assms(2))
  moreover have "wire_ok (oe_sdk oenv) 0 ?i" by simp
  ultimately show ?thesis
    using dispatch_agree [OF assms(1), of 0 ?i] accounts_agree [of "oe_sdk oenv" 0 ?i] by simp
qed

text \<open>
  C25: From deposit to mint: a transaction the orchestrator submitted for a recorded deposit, with
  a quorum of the federation the claim was frozen for, is dispatched to the mint handler and
  accepted whenever the bridge is open for that amount, and the claim it records has exactly the
  deposit's output, amount and recipient.
\<close>

theorem submitted_mint_accepted:
  assumes "dep_reachable env oenv s" "sb \<in> set (de_submitted s)"
    and "deposit_at (de_db s) (sc_deposit_id (sb_claim sb)) = Some r"
    and "bridge.reachable ex others c" "ch_config c = Some cfg" "ch_vset c = Some v"
    and "distinct_discriminators (oe_sdk oenv)" "oe_program_id oenv = PROGRAM_ID"
      "oe_ed25519_program oenv = ex_ed25519_program ex"
    and "ic_protocol_version (ie_config env) = PROTOCOL_VERSION" "ic_validator_epoch (ie_config env) = vs_epoch v"
      "ic_wrapped_mint (ie_config env) = cfg_wrapped_mint cfg"
    and "quorum_signatures (sb_signatures sb) v" "mint_open ex c cfg r"
  shows "\<exists>proof_ix mint_ix i c' d. sb_instructions sb = [proof_ix, mint_ix] \<and>
     dispatch (oe_sdk oenv) (map am_pubkey (si_accounts mint_ix)) (si_data mint_ix) = Some i \<and>
     process ex \<lparr>tx_signer = oe_submitter oenv, tx_slot = slot, tx_time = time,
       tx_prev = Some (si_program_id proof_ix, si_data proof_ix)\<rparr> i c = Ok c' \<and>
     ch_claims c' (cd_txid r, ucast (cd_vout r)) = Some d \<and> dc_amount d = cd_amount_atomic r \<and>
     dc_recipient d = cd_recipient r"
proof -
  from submission_shape [OF submitted_exact [OF assms(1,2)]] assms(3,8)
  have prog: "ic_program_id (ie_config env) = PROGRAM_ID"
    and ixs: "sb_instructions sb = mint_transaction env oenv (sb_signatures sb) r" by auto
  let ?sigs = "sb_signatures sb"
  let ?ixs = "mint_transaction env oenv ?sigs r"
  let ?t = "\<lparr>tx_signer = oe_submitter oenv, tx_slot = slot, tx_time = time,
       tx_prev = Some (si_program_id (?ixs ! 0), si_data (?ixs ! 0))\<rparr>"
  have inv: "chain_inv ex c" by (rule bridge.reachable_inv [OF assms(4)])
  have version: "cfg_protocol_version cfg = PROTOCOL_VERSION"
    using chain_inv_config [OF inv assms(5)] by (simp add: config_inv_def)
  have "federation_approved ex ?t v (configured_message env r)"
    by (rule quorum_approved [OF assms(13) reachable_validators [OF inv assms(6)]])
      (simp_all add: mint_transaction_def assms(9) configured_message_def message_lengths CLAIM_MESSAGE_LEN_def)
  then have "federation_approved ex ?t v (deposit_claim_message (cfg_protocol_version cfg) PROGRAM_ID (vs_epoch v)
       (cd_txid r) (ucast (cd_vout r)) (cd_amount_atomic r) (cd_recipient r) (cfg_wrapped_mint cfg))"
    by (simp add: configured_message_def assms(10-12) prog version)
  from mint_open_accepts [OF assms(14,5,6) this] mint_dispatched [OF assms(7,8), of env ?sigs r] ixs assms(11,12)
  show ?thesis by (auto simp: mint_transaction_def)
qed

section \<open>Rotations\<close>

lemma claim_epoch:
  assumes "verify_and_load_signable_message H i at d = (Ok c, d')" "artifact_at d i = Some a"
  shows "sc_validator_epoch c = ca_validator_epoch a"
  using assms by (cases rule: verify_cases [where d = d and i = i and H = H and at = at]) (auto simp: claim_of_def)

text \<open>
  C26: A rotation strands every claim frozen before it.  Whatever is done to the database later,
  by whatever callers and under whatever configuration, the frozen claim stays as it is and every
  claim the signing guard hands out for the deposit has the old epoch; and from a state of the
  chain with a newer federation on, the program refuses every mint of that claim.
\<close>

theorem rotation_strands_claims:
  assumes "ddb_reachable H d" "artifact_at d i = Some a" "ddb_run H d calls d'"
    and "verify_and_load_signable_message H i at d' = (Ok claim, d'')"
    and "bridge.reachable ex others c" "ch_vset c = Some v" "ca_validator_epoch a < vs_epoch v"
      "bridge.run ex others c labels c'"
  shows "artifact_at d' i = Some a \<and> sc_validator_epoch claim = ca_validator_epoch a \<and>
     (\<exists>e. process ex t (MintWrapped m r (sc_txid claim) (sc_vout claim) (sc_amount_atomic claim)
        (sc_validator_epoch claim)) c' = Err e)"
proof -
  have a: "artifact_at d' i = Some a"
    by (rule le_artifact_at [OF ddb.le_reachable [OF assms(1,3)] assms(2)])
  note epoch = claim_epoch [OF assms(4) a]
  have "chain_le c c'" by (rule bridge.le_reachable [OF assms(5,8)])
  then obtain v' where v': "ch_vset c' = Some v'" "v' = v \<or> vs_epoch v < vs_epoch v'"
    using assms(6) by (auto simp: chain_le_def opt_le_def vset_le_def)
  with assms(7) have "sc_validator_epoch claim \<noteq> vs_epoch v'" unfolding epoch by auto
  then have "mint_wrapped ex t m r txid vout amount (sc_validator_epoch claim) c' \<noteq> Ok c''" for txid vout amount c''
    using v'(1) by (auto simp: mint_wrapped_Ok)
  then show ?thesis using a epoch by (simp, metis result.exhaust)
qed

end
