(* ===== verification/DepositDemo.thy ===== *)
theory DepositDemo
  imports DepositGuarantees
begin

text \<open>
  A concrete life of a deposit, the witness of the guarantees of the deposit side: a block with a
  vault payment is indexed, the claim is frozen, the mint is submitted; then another block takes
  the place of the first one and the deposit is orphaned.
\<close>

definition demo_hash :: "bytes32 \<Rightarrow> bytes" where
  "demo_hash n = hex_encode (le_bytes n)"

definition demo_vault :: bytes where
  "demo_vault = [0x76, 0xa9, 0x14] @ replicate 20 5 @ [0x88, 0xac]"

definition demo_binding :: bytes where
  "demo_binding = [0x6a, 0x20] @ le_bytes (42 :: bytes32)"

definition demo_node_tx :: "bytes \<Rightarrow> u64 node_tx" where
  "demo_node_tx t = \<lparr>nt_txid = t, nt_vout =
        [\<lparr>dv_value = 500, dv_n = 0, dv_script_hex = hex_encode demo_vault\<rparr>,
         \<lparr>dv_value = 0, dv_n = 1, dv_script_hex = hex_encode demo_binding\<rparr>],
        nt_confirmations = None\<rparr>"

definition demo_icfg :: indexer_config where
  "demo_icfg = \<lparr>ic_rpc = \<lparr>rc_url = [1], rc_user = [1], rc_password = [1], rc_connect_timeout_ms = 0, rc_read_timeout_ms = 0\<rparr>,
     ic_db_path = [], ic_vault_script_pubkey = demo_vault, ic_confirmation_depth = 1, ic_max_reorg_depth = 1,
     ic_min_deposit_atomic = 10, ic_value_caps = \<lparr>vc_max_deposit_atomic = None,
       vc_rolling_window = Some \<lparr>rw_window_seconds = 100, rw_cap_atomic = 1000\<rparr>\<rparr>,
     ic_protocol_version = 1, ic_program_id = PROGRAM_ID, ic_validator_epoch = 0, ic_wrapped_mint = 7,
     ic_node_unavailable_retry_interval_ms = 0, ic_poll_interval_ms = 0\<rparr>"

text \<open>The node's world is the number of the block at height one.\<close>

definition demo_ienv :: "(bytes32, u64) indexer_env" where
  "demo_ienv = \<lparr>ie_sha256 = sk_sha256 demo_sdk, ie_config = demo_icfg,
     get_block_count = \<lambda>w. (Ok 1, w),
     get_block_hash = \<lambda>h w. (Ok (demo_hash (if h = 0 then 100 else w)), w),
     get_block = \<lambda>h w. (Ok \<lparr>bh_hash = h, bh_confirmations = 1, bh_height = 0, bh_time = 5,
        bh_previousblockhash = None, bh_tx = (if h = demo_hash 101 then [demo_hash 11] else [])\<rparr>, w),
     get_raw_transaction = \<lambda>t w. (Ok (demo_node_tx t), w),
     get_raw_transaction_hex = \<lambda>t w. (Ok [], w), get_tx_out_confirmed = \<lambda>t v w. (Ok (Some 1), w),
     ie_now_unix = \<lambda>w. (50, w), ie_glc_to_atomic = id, ie_show_hex = \<lambda>_. []\<rparr>"

definition demo_oenv :: "bytes32 orchestrator_env" where
  "demo_oenv = \<lparr>oe_sdk = demo_sdk, oe_ed25519_program = 0xED, oe_program_id = PROGRAM_ID, oe_submitter = 77,
     get_account = \<lambda>k w. (Ok (if k = fst (validator_set_pda demo_sdk PROGRAM_ID)
        then Some (replicate 8 0 @ borsh_validator_set demo_vset) else None), w),
     get_latest_blockhash = \<lambda>w. (Ok 3, w), send_transaction = \<lambda>t w. (Ok [83], w),
     collect_mint_signatures = \<lambda>e m t v w. (demo_sigs, w), oe_now_unix = \<lambda>w. (60, w)\<rparr>"

definition demo_dep0 :: "bytes32 dep_state" where
  "demo_dep0 = \<lparr>de_db = empty_deposit_db, de_world = 101, de_halted = False, de_submitted = []\<rparr>"


section \<open>Evaluation\<close>

lemma indexer_call_ok: "f (de_world s) = (Ok x, w) \<Longrightarrow> indexer_call f s = (Ok x, s\<lparr>de_world := w\<rparr>)"
  using retry_once [of f "de_world s" "Ok x" w is_retriable INNER_RETRY_ATTEMPTS]
  by (simp add: indexer_call_def call_with_retry_def)

lemma orch_call_ok: "f (de_world s) = (Ok x, w) \<Longrightarrow> orch_call f s = (Ok x, s\<lparr>de_world := w\<rparr>)"
  using retry_once [of f "de_world s" "Ok x" w solana_is_retriable ORCH_RETRY_ATTEMPTS]
  by (simp add: orch_call_def solana_call_with_retry_def)

lemma demo_decode: "decode_hash env (demo_hash n) = Ok n"
  using decode_exact_encode [of "le_bytes n"] by (simp add: decode_hash_def demo_hash_def from_le_le_bytes)

lemma demo_hash_inject: "demo_hash a = demo_hash b \<longleftrightarrow> a = b"
  by (metis demo_decode result.inject(1))

lemmas io_eval = ebind_def eret_def elift_def ddb_def dtry_def dquery_def dworld_def

lemma demo_scripts:
  "get_at demo_vault 0 \<noteq> Some OP_RETURN" "get_at demo_binding 0 = Some OP_RETURN" "get_at demo_binding (Suc 0) = Some 32"
  "length demo_binding = 34" "drop 2 demo_binding = le_bytes (42 :: bytes32)" "length demo_vault = 25"
  by (simp_all add: demo_vault_def demo_binding_def get_at_def OP_RETURN_def)

lemma demo_recipient: "extract_recipient_binding (demo_node_tx t) = Ok 42"
  by (simp add: extract_recipient_binding_def demo_node_tx_def decode_vec_encode demo_scripts from_le_le_bytes)

lemma demo_outputs: "vault_output_candidates id (demo_node_tx t) (hex_encode demo_vault) =
    [\<lparr>vo_vout = 0, vo_amount_atomic = 500\<rparr>]"
proof -
  have "length (hex_encode demo_binding) \<noteq> length (hex_encode demo_vault)" by (simp add: demo_scripts)
  then have "\<not> is_vault_output (hex_encode demo_binding) (hex_encode demo_vault)"
    unfolding is_vault_output_def eq_ignore_ascii_case_def by (metis length_map)
  moreover have "is_vault_output (hex_encode demo_vault) (hex_encode demo_vault)"
    by (simp add: is_vault_output_def eq_ignore_ascii_case_def)
  ultimately show ?thesis by (simp add: vault_output_candidates_def demo_node_tx_def)
qed

definition demo_block :: "i64 \<Rightarrow> bytes32 \<Rightarrow> indexed_block" where
  "demo_block h n = \<lparr>ib_height = h, ib_hash = n, ib_prev_hash = 0, ib_block_time = 5, ib_indexed_at = 50\<rparr>"

definition demo_candidate :: new_candidate where
  "demo_candidate = \<lparr>nc_txid = 11, nc_vout = 0, nc_amount_atomic = 500, nc_recipient = 42, nc_block_height = 1,
     nc_block_hash = 101, nc_raw_tx_hex = [], nc_discovered_at = 50, nc_initial_state = DCandidate,
     nc_failure_reason = None\<rparr>"

text \<open>The parts of the environment.\<close>

lemma demo_env_simps:
  "ie_config demo_ienv = demo_icfg" "get_block_count demo_ienv w = (Ok 1, w)"
  "get_block_hash demo_ienv h w = (Ok (demo_hash (if h = 0 then 100 else w)), w)"
  "get_raw_transaction demo_ienv t w = (Ok (demo_node_tx t), w)" "get_raw_transaction_hex demo_ienv t w = (Ok [], w)"
  "get_tx_out_confirmed demo_ienv t v w = (Ok (Some 1), w)" "ie_now_unix demo_ienv w = (50, w)"
  "ie_glc_to_atomic demo_ienv = id" "vault_script_hex demo_ienv = hex_encode demo_vault"
  "get_block demo_ienv (demo_hash n) w = (Ok \<lparr>bh_hash = demo_hash n, bh_confirmations = 1, bh_height = 0, bh_time = 5,
     bh_previousblockhash = None, bh_tx = (if n = 101 then [demo_hash 11] else [])\<rparr>, w)"
  by (simp_all add: demo_ienv_def vault_script_hex_def demo_icfg_def demo_hash_inject)

lemma demo_output:
  "output_candidate demo_ienv 1 101 50 11 [] (Ok 42) \<lparr>vo_vout = 0, vo_amount_atomic = 500\<rparr> = demo_candidate"
  by (simp add: output_candidate_def classify_output_def demo_env_simps demo_icfg_def demo_candidate_def)

lemma same_world: "de_world s = w \<Longrightarrow> s\<lparr>de_world := w\<rparr> = s"
  by (cases s) simp

lemma demo_index_block:
  assumes "h = 0 \<or> h = 1" "de_world s \<in> {101, 201}"
  shows "index_block demo_ienv h s = ebind (ddb IndexerDb (ingest_block (demo_block h (if h = 0 then 100 else de_world s))
     (if h = 1 \<and> de_world s = 101 then [demo_candidate] else []))) (\<lambda>_. eret ()) s"
  using assms
  by (auto simp: index_block_def demo_env_simps indexer_call_ok demo_decode ebind_def eret_def elift_def dworld_def
      demo_block_def demo_outputs demo_recipient demo_output same_world)

definition demo_row :: "deposit_state \<Rightarrow> i64 option \<Rightarrow> bytes option \<Rightarrow> deposit_candidate_row" where
  "demo_row st ready sig = \<lparr>cd_id = 1, cd_txid = 11, cd_txid_hex = demo_hash 11, cd_vout = 0, cd_amount_atomic = 500,
     cd_recipient = 42, cd_block_height = 1, cd_block_hash = 101, cd_raw_tx_hex = [], cd_state = ds_as_str st,
     cd_discovered_at = 50, cd_ready_at = ready, cd_failure_reason = None, cd_submitted_signature = sig\<rparr>"

text \<open>The tables after the blocks were indexed, with the deposit in a given state.\<close>

definition demo_tables :: "indexed_block list \<Rightarrow> bytes32 \<Rightarrow> deposit_candidate_row \<Rightarrow> deposit_log_row list \<Rightarrow> reorg_event list
   \<Rightarrow> claim_artifact list \<Rightarrow> deposit_db" where
  "demo_tables blocks tip row log events claims = \<lparr>indexed_blocks = blocks, chain_state = Some (1, tip),
     deposit_candidates = [row], deposit_sequence = 1, deposit_state_log = log, reorg_events = events,
     claim_artifacts = claims\<rparr>"

lemma demo_ingest:
  "ingest_block (demo_block 0 100) [] empty_deposit_db =
     (Ok [], empty_deposit_db\<lparr>indexed_blocks := [demo_block 0 100], chain_state := Some (0, 100)\<rparr>)"
  "ingest_block (demo_block 1 101) [demo_candidate]
      (empty_deposit_db\<lparr>indexed_blocks := [demo_block 0 100], chain_state := Some (0, 100)\<rparr>) =
   (Ok [1], demo_tables [demo_block 0 100, demo_block 1 101] 101 (demo_row DCandidate None None)
      [deposit_log_entry 1 None ''Candidate'' 50 None 101] [] [])"
  by (simp_all add: ingest_block_def insert_block_def demo_block_def empty_deposit_db_def demo_candidate_def
      ingest_candidate_def insert_candidate_def insert_deposit_log_def deposit_log_entry_def demo_tables_def demo_row_def
      demo_hash_def Let_def)

definition demo_claim :: claim_artifact where
  "demo_claim = claim_artifact_for demo_ienv (row_to_deposit (demo_row DConfirming None None)) 50"

lemma demo_claim_simps: "ca_deposit_id demo_claim = 1" "length (ca_canonical_message demo_claim) = 166"
  by (simp_all add: demo_claim_def claim_artifact_for_def row_to_deposit_def demo_row_def Let_def
      build_claim_message_def message_lengths CLAIM_MESSAGE_LEN_def)

lemmas table_eval = demo_tables_def demo_row_def transition_state_def mark_submitted_def mark_minted_def
  update_deposit_def insert_deposit_log_def deposit_log_entry_def insert_artifact_def Let_def coalesce_def

definition demo_blocks :: "indexed_block list" where
  "demo_blocks = [demo_block 0 100, demo_block 1 101]"

definition demo_log :: "deposit_log_row list" where
  "demo_log = [deposit_log_entry 1 None ''Candidate'' 50 None 101,
     deposit_log_entry 1 (Some ''Candidate'') ''Confirming'' 50 None 101,
     deposit_log_entry 1 (Some ''Confirming'') ''ReadyForSignature'' 50 None 101]"

lemma demo_transitions:
  "transition_state 1 DConfirming 50 None None (demo_tables bs tip (demo_row DCandidate None None) log es cs) =
     (Ok (), demo_tables bs tip (demo_row DConfirming None None)
        (log @ [deposit_log_entry 1 (Some ''Candidate'') ''Confirming'' 50 None 101]) es cs)"
  "transition_state 1 DReadyForSignature 50 None (Some demo_claim) (demo_tables bs tip (demo_row DConfirming None None) log es []) =
     (Ok (), demo_tables bs tip (demo_row DReadyForSignature (Some 50) None)
        (log @ [deposit_log_entry 1 (Some ''Confirming'') ''ReadyForSignature'' 50 None 101]) es [demo_claim])"
  by (simp_all add: table_eval demo_claim_simps)

lemma demo_queries:
  "candidates_by_state (demo_tables bs tip (demo_row st ready sig) log es cs) st' =
     (if st' = st then [row_to_deposit (demo_row st ready sig)] else [])"
  "dr_id (row_to_deposit (demo_row st ready sig)) = 1"
  by (auto simp: candidates_by_state_def demo_tables_def demo_row_def row_to_deposit_def)

definition demo_ready :: "bytes32 dep_state" where
  "demo_ready = demo_dep0\<lparr>de_db := demo_tables demo_blocks 101 (demo_row DReadyForSignature (Some 50) None) demo_log [] [demo_claim]\<rparr>"

lemma demo_promote:
  assumes "de_db s = demo_tables bs tip (demo_row DConfirming None None) log es []"
  shows "promote_one demo_ienv 1 (row_to_deposit (demo_row DConfirming None None)) s =
    (Ok (), s\<lparr>de_db := demo_tables bs tip (demo_row DReadyForSignature (Some 50) None)
        (log @ [deposit_log_entry 1 (Some ''Confirming'') ''ReadyForSignature'' 50 None 101]) es [demo_claim]\<rparr>)"
proof -
  let ?row = "row_to_deposit (demo_row DConfirming None None)"
  have row: "dr_block_height ?row = 1" "dr_amount_atomic ?row = 500" "dr_id ?row = 1"
    by (simp_all add: row_to_deposit_def demo_row_def)
  have "deposit_depth 1 1 = 1" by (simp add: deposit_depth_def)
  moreover have "window_has_room demo_ienv (Some \<lparr>rw_window_seconds = 100, rw_cap_atomic = 1000\<rparr>) 500 s = (Ok True, s)"
    using assms by (simp add: window_has_room_def ebind_def dworld_def demo_env_simps dquery_def
        ready_amount_sum_since_def demo_tables_def demo_row_def eret_def saturating_add_def same_world)
  ultimately show ?thesis
    using assms by (simp add: promote_one_def row demo_env_simps demo_icfg_def elift_def ebind_def indexer_call_ok dworld_def
        ddb_def demo_transitions same_world demo_claim_def [symmetric])
qed

definition demo_at :: "deposit_db \<Rightarrow> bytes32 dep_state" where
  "demo_at d = demo_dep0\<lparr>de_db := d\<rparr>"

lemma demo_at_simps [simp]:
  "de_db (demo_at d) = d" "de_world (demo_at d) = 101" "demo_at d\<lparr>de_db := d'\<rparr> = demo_at d'" "\<not> de_halted (demo_at d)"
  by (simp_all add: demo_at_def demo_dep0_def)

lemma demo_dep0_at: "demo_dep0 = demo_at empty_deposit_db"
  by (simp add: demo_at_def demo_dep0_def)

lemma demo_advance:
  assumes "de_db s = demo_tables bs tip (demo_row DCandidate None None) log es cs"
  shows "advance_new_candidates_to_confirming demo_ienv s = (Ok (), s\<lparr>de_db := demo_tables bs tip
     (demo_row DConfirming None None) (log @ [deposit_log_entry 1 (Some ''Candidate'') ''Confirming'' 50 None 101]) es cs\<rparr>)"
  using assms by (simp add: advance_new_candidates_to_confirming_def ebind_def dquery_def dworld_def demo_queries
      demo_env_simps ddb_def demo_transitions same_world eret_def)

lemma demo_promote_confirming:
  assumes "de_db s = demo_tables bs tip (demo_row DConfirming None None) log es []"
  shows "promote_confirming demo_ienv 1 s =
    (Ok (), s\<lparr>de_db := demo_tables bs tip (demo_row DReadyForSignature (Some 50) None)
        (log @ [deposit_log_entry 1 (Some ''Confirming'') ''ReadyForSignature'' 50 None 101]) es [demo_claim]\<rparr>)"
  using demo_promote [OF assms] assms
  by (simp add: promote_confirming_def ebind_def dquery_def demo_queries eret_def)

lemma demo_tick1: "indexer_tick demo_ienv demo_dep0 = (Ok (Progressed 2 None), demo_ready)"
proof -
  have h: "heights 0 1 = [0, 1]" by (simp add: heights_def upto_rec1)
  have tip: "chain_tip empty_deposit_db = None" by (simp add: chain_tip_def empty_deposit_db_def)
  let ?d1 = "empty_deposit_db\<lparr>indexed_blocks := [demo_block 0 100], chain_state := Some (0, 100)\<rparr>"
  let ?d2 = "demo_tables demo_blocks 101 (demo_row DCandidate None None) [deposit_log_entry 1 None ''Candidate'' 50 None 101] [] []"
  have i0: "index_block demo_ienv 0 (demo_at empty_deposit_db) = (Ok (), demo_at ?d1)"
    by (simp add: demo_index_block ebind_def ddb_def demo_ingest eret_def)
  have i1: "index_block demo_ienv 1 (demo_at ?d1) = (Ok (), demo_at ?d2)"
    by (simp add: demo_index_block ebind_def ddb_def demo_ingest eret_def demo_blocks_def)
  show ?thesis
    by (simp add: demo_dep0_at indexer_tick_def resolve_fork_def ebind_def eret_def dquery_def tip indexer_call_ok
        demo_env_simps h i0 i1 demo_advance demo_promote_confirming same_world demo_ready_def demo_log_def demo_at_def [symmetric])
qed

section \<open>The mint is submitted\<close>

lemma demo_claim_pda: "fst (deposit_claim_pda demo_sdk PROGRAM_ID 11 0) \<noteq> fst (validator_set_pda demo_sdk PROGRAM_ID)"
  by (simp add: deposit_claim_pda_def validator_set_pda_def demo_sdk_def IX_SEED_DEPOSIT_CLAIM_def IX_SEED_VALIDATOR_SET_def
      ascii_def le_bytes_def upt_rec)

lemma demo_vset_account: "decode_validator_set (replicate 8 0 @ borsh_validator_set demo_vset) =
    Ok \<lparr>vss_epoch = 0, vss_threshold = 2, vss_validators = [1, 2, 3]\<rparr>"
  using decode_validator_set_exact [of "replicate 8 0" demo_vset "[]"] by (simp add: demo_vset_def)

lemma demo_dep_init: "dep_init demo_ienv demo_oenv demo_dep0"
  by (simp add: dep_init_def demo_dep0_def demo_ienv_def demo_oenv_def)

lemma demo_ready_reachable: "dep_reachable demo_ienv demo_oenv demo_ready"
  by (rule dep.reachable_step [OF dep.reachable_init [OF demo_dep_init], of IndexerTick])
    (simp add: dep_step_def demo_tick1)

lemma demo_ready_safe: "dep_safe demo_ienv (de_db demo_ready)"
  using dep.reachable_inv [OF demo_ready_reachable] by (simp add: sys_safe_def)

definition demo_signable :: signable_claim where
  "demo_signable = claim_of 1 (demo_row DReadyForSignature (Some 50) None) demo_claim"

definition demo_submission :: submission where
  "demo_submission = \<lparr>sb_claim = demo_signable, sb_signatures = demo_sigs, sb_instructions =
     mint_instructions demo_oenv demo_signable (fst (deposit_claim_pda demo_sdk PROGRAM_ID 11 0)) demo_sigs\<rparr>"

definition demo_submitted :: "bytes32 dep_state" where
  "demo_submitted = demo_ready\<lparr>de_db := snd (mark_submitted 1 [83] 60 (de_db demo_ready)), de_submitted := [demo_submission]\<rparr>"

lemma demo_oenv_simps:
  "oe_sdk demo_oenv = demo_sdk" "oe_program_id demo_oenv = PROGRAM_ID"
  "get_account demo_oenv k w = (Ok (if k = fst (validator_set_pda demo_sdk PROGRAM_ID)
     then Some (replicate 8 0 @ borsh_validator_set demo_vset) else None), w)"
  "get_latest_blockhash demo_oenv w = (Ok 3, w)" "send_transaction demo_oenv t w = (Ok [83], w)"
  "collect_mint_signatures demo_oenv e m x v w = (demo_sigs, w)" "oe_now_unix demo_oenv w = (60, w)"
  "sk_sha256 demo_sdk = ie_sha256 demo_ienv"
  by (simp_all add: demo_oenv_def demo_ienv_def)

lemma demo_mark: "mark_submitted 1 [83] 60 (de_db demo_ready) = (Ok (), de_db demo_submitted)"
  by (simp add: demo_submitted_def demo_ready_def table_eval)

lemma demo_guard: "verify_and_load_signable_message (ie_sha256 demo_ienv) 1 60 (de_db demo_ready) =
    (Ok demo_signable, de_db demo_ready)"
  unfolding safe_verify [OF demo_ready_safe]
  by (simp add: demo_ready_def demo_tables_def demo_claim_simps demo_signable_def) (simp add: demo_row_def)

lemma demo_process: "process_one demo_oenv (row_to_deposit (demo_row DReadyForSignature (Some 50) None)) demo_ready =
    (Ok OutSubmitted, demo_submitted)"
proof -
  let ?row = "row_to_deposit (demo_row DReadyForSignature (Some 50) None)"
  have row: "dr_id ?row = 1" "dr_txid ?row = 11" "dr_vout ?row = 0" by (simp_all add: row_to_deposit_def demo_row_def)
  have w: "de_world demo_ready = 101" "de_submitted demo_ready = []" by (simp_all add: demo_ready_def demo_dep0_def)
  have quorum: "is_ok (count_unique_threshold_signers demo_sigs [1, 2, 3] 2)"
    by (simp add: count_unique_threshold_signers_def demo_sigs_def)
  have program: "sc_program_id demo_signable = PROGRAM_ID"
    by (simp add: demo_signable_def claim_of_def demo_claim_def claim_artifact_for_def demo_env_simps demo_icfg_def Let_def)
  have submitted: "demo_ready\<lparr>de_submitted := [demo_submission], de_db := de_db demo_submitted\<rparr> = demo_submitted"
    by (simp add: demo_submitted_def)
  show ?thesis
    by (simp add: process_one_def Let_def row demo_oenv_simps orch_call_ok ebind_def w demo_claim_pda dworld_def same_world
        dtry_def demo_guard program submit_claim_def elift_def demo_vset_account quorum note_submission_def
        demo_submission_def [symmetric] ddb_def demo_mark eret_def submitted)
qed

lemma demo_tick2: "snd (orchestrator_tick demo_oenv demo_ready) = demo_submitted"
proof -
  have "de_db demo_ready = demo_tables demo_blocks 101 (demo_row DReadyForSignature (Some 50) None) demo_log [] [demo_claim]"
    by (simp add: demo_ready_def)
  then show ?thesis
    by (simp add: orchestrator_tick_def ebind_def dquery_def demo_queries demo_process eret_def)
qed

lemma demo_submitted_reachable: "dep_reachable demo_ienv demo_oenv demo_submitted"
  by (rule dep.reachable_step [OF demo_ready_reachable, of OrchestratorTick]) (simp add: dep_step_def demo_tick2)

section \<open>Another block takes the place of the first\<close>

definition demo_forked :: "bytes32 dep_state" where
  "demo_forked = demo_submitted\<lparr>de_world := 201\<rparr>"

definition demo_submitted_log :: "deposit_log_row list" where
  "demo_submitted_log = demo_log @ [deposit_log_entry 1 (Some ''ReadyForSignature'') ''Submitted'' 60 (Some [83]) 101]"

lemma demo_forked_db: "de_db demo_forked = demo_tables demo_blocks 101 (demo_row DSubmitted (Some 50) (Some [83])) demo_submitted_log [] [demo_claim]"
  using demo_mark by (simp add: demo_forked_def demo_ready_def table_eval demo_submitted_log_def)

lemma demo_fork_point: "find_fork_point demo_ienv 1 demo_forked = (Ok (Some 0), demo_forked)"
proof -
  have w: "de_world demo_forked = 201" by (simp add: demo_forked_def)
  have blocks: "block_hash_at_height (de_db demo_forked) 1 = Some 101" "block_hash_at_height (de_db demo_forked) 0 = Some 100"
    by (simp_all add: demo_forked_db block_hash_at_height_def demo_tables_def demo_blocks_def demo_block_def)
  have depth: "max_depth demo_ienv = 1" by (simp add: max_depth_def demo_env_simps demo_icfg_def)
  have "fork_walk demo_ienv 1 0 demo_forked = (Ok (Some 0), demo_forked)"
    by (simp add: fork_walk.simps [of demo_ienv 1 0] ebind_def indexer_call_ok demo_env_simps w demo_decode elift_def
        dquery_def blocks eret_def same_world)
  then show ?thesis
    by (simp add: find_fork_point_def fork_walk.simps [of demo_ienv 1 1] ebind_def indexer_call_ok demo_env_simps w
        demo_decode elift_def dquery_def blocks eret_def same_world depth word_sless_alt)
qed

definition demo_rolled_back :: deposit_db where
  "demo_rolled_back = snd (rollback_reorg 0 0 100 1 101 50 (de_db demo_forked))"

lemma demo_rollback: "rollback_reorg 0 0 100 1 101 50 (de_db demo_forked) = (Ok 1, demo_rolled_back)"
  by (simp add: demo_rolled_back_def rollback_reorg_def demo_forked_db demo_tables_def demo_row_def active_above_def
      word_sless_alt update_deposit_def insert_deposit_log_def deposit_log_entry_def)

lemma demo_rolled_back_row: "deposit_candidates demo_rolled_back = [demo_row DOrphaned (Some 50) (Some [83])]"
  by (simp add: demo_rolled_back_def rollback_reorg_def demo_forked_db demo_tables_def demo_row_def active_above_def
      word_sless_alt update_deposit_def insert_deposit_log_def deposit_log_entry_def)

definition demo_orphaned :: "bytes32 dep_state" where
  "demo_orphaned = snd (indexer_tick demo_ienv demo_forked)"

lemma demo_orphaned_row: "deposit_candidates (de_db demo_orphaned) = [demo_row DOrphaned (Some 50) (Some [83])]"
proof -
  have w: "de_world demo_forked = 201" "\<not> de_halted demo_forked"
    by (simp_all add: demo_forked_def demo_submitted_def demo_ready_def demo_dep0_def)
  have tip: "chain_tip (de_db demo_forked) = Some (1, 101)" by (simp add: demo_forked_db chain_tip_def demo_tables_def)
  let ?s1 = "demo_forked\<lparr>de_db := demo_rolled_back\<rparr>"
  obtain d2 where d2: "ingest_block (demo_block 1 201) [] demo_rolled_back = (Ok [], d2)"
    "deposit_candidates d2 = deposit_candidates demo_rolled_back"
    by (simp add: ingest_block_def insert_block_def)
  have start: "resolve_fork demo_ienv demo_forked = (Ok (Some (1, Some \<lparr>rs_fork_height = 0, rs_old_tip_height = 1,
      rs_orphaned_count = 1\<rparr>)), ?s1)"
    by (simp add: resolve_fork_def ebind_def dquery_def tip demo_fork_point indexer_call_ok demo_env_simps w demo_decode
        elift_def dworld_def ddb_def demo_rollback eret_def same_world)
  have h: "heights 1 1 = [1]" by (simp add: heights_def upto_rec1)
  have index: "index_block demo_ienv 1 ?s1 = (Ok (), ?s1\<lparr>de_db := d2\<rparr>)"
    by (simp add: demo_index_block w ebind_def ddb_def d2 eret_def)
  have none: "candidates_by_state d2 DCandidate = []" "candidates_by_state d2 DConfirming = []"
    by (simp_all add: candidates_by_state_def d2 demo_rolled_back_row demo_row_def)
  have "de_db (snd (indexer_tick demo_ienv demo_forked)) = d2"
    by (simp add: indexer_tick_def ebind_def w start h index indexer_call_ok demo_env_simps same_world
        advance_new_candidates_to_confirming_def promote_confirming_def dquery_def none eret_def dworld_def)
  with d2(2) demo_rolled_back_row show ?thesis by (simp add: demo_orphaned_def)
qed

lemma demo_orphaned_reachable: "dep_reachable demo_ienv demo_oenv demo_orphaned"
proof -
  have "dep_reachable demo_ienv demo_oenv demo_forked"
    by (rule dep.reachable_step [OF demo_submitted_reachable, of "DepositElsewhere 201"])
      (simp add: dep_step_def demo_forked_def)
  then show ?thesis by (rule dep.reachable_step [of _ _ _ IndexerTick]) (simp add: dep_step_def demo_orphaned_def)
qed

section \<open>Witnesses\<close>

theorem frozen_claims_exact_witness:
  "cd_state (demo_row DReadyForSignature (Some 50) None) \<noteq> ''IntegrityHalted'' \<and>
   artifact_at (de_db demo_ready) 1 = Some demo_claim \<and>
   ca_canonical_message demo_claim = deposit_claim_message 1 PROGRAM_ID 0 11 0 500 42 7"
proof -
  have r: "deposit_at (de_db demo_ready) 1 = Some (demo_row DReadyForSignature (Some 50) None)"
    and a: "artifact_at (de_db demo_ready) 1 = Some demo_claim"
    by (simp_all add: demo_ready_def demo_tables_def demo_claim_simps) (simp add: demo_row_def)
  from frozen_claims_exact [OF demo_ready_reachable r] a show ?thesis
    by (auto simp: demo_env_simps demo_icfg_def demo_row_def)
qed

theorem submissions_exact_witness:
  "de_submitted demo_submitted = [demo_submission] \<and>
   (\<exists>r. deposit_at (de_db demo_submitted) 1 = Some r \<and> length (sb_instructions demo_submission) = 2 \<and>
      si_data (sb_instructions demo_submission ! 0) = build_ed25519_data demo_sigs (deposit_claim_message 1 PROGRAM_ID 0
        (cd_txid r) (ucast (cd_vout r)) (cd_amount_atomic r) (cd_recipient r) 7))"
proof -
  have sb: "de_submitted demo_submitted = [demo_submission]" by (simp add: demo_submitted_def)
  have id: "sc_deposit_id (sb_claim demo_submission) = 1" "sb_signatures demo_submission = demo_sigs"
    by (simp_all add: demo_submission_def demo_signable_def claim_of_def)
  from submissions_exact [OF demo_submitted_reachable, of demo_submission] show ?thesis
    unfolding id by (auto simp: sb demo_env_simps demo_oenv_simps demo_icfg_def)
qed

definition demo_indexed :: deposit_db where
  "demo_indexed = demo_tables [demo_block 0 100, demo_block 1 101] 101 (demo_row DCandidate None None)
      [deposit_log_entry 1 None ''Candidate'' 50 None 101] [] []"

lemma demo_indexed_run:
  "ddb_run H empty_deposit_db [IngestBlock (demo_block 0 100) [], IngestBlock (demo_block 1 101) [demo_candidate]] demo_indexed"
  by (simp add: ddb.run_Cons_iff ddb.run_Nil_iff ddb_step_def demo_ingest demo_indexed_def)

definition demo_unwound :: deposit_db where
  "demo_unwound = snd (rollback_reorg 0 0 100 1 101 50 demo_indexed)"

lemma demo_unwound_row: "deposit_at demo_unwound 1 = Some (demo_row DOrphaned None None)"
  by (simp add: demo_unwound_def demo_indexed_def rollback_reorg_def demo_tables_def demo_row_def active_above_def
      word_sless_alt update_deposit_def insert_deposit_log_def deposit_log_entry_def)

lemma demo_unwound_reachable: "tasks_reachable demo_ienv (demo_unwound, {})"
proof (rule tasks.reachable_run)
  show "tasks_reachable demo_ienv (empty_deposit_db, {})" by (rule tasks.reachable_init) (simp add: tasks_init_def)
  have "nc_initial_state demo_candidate = DCandidate" by (simp add: demo_candidate_def)
  then show "tasks_run demo_ienv (empty_deposit_db, {}) [TaskCalls (IngestBlock (demo_block 0 100) []),
      TaskCalls (IngestBlock (demo_block 1 101) [demo_candidate]), TaskCalls (RollbackReorg 0 0 100 1 101 50)] (demo_unwound, {})"
    by (simp add: tasks.run_Cons_iff tasks.run_Nil_iff tasks_step.simps demo_ingest demo_unwound_def demo_indexed_def)
qed

text \<open>The block comes back and the indexer looks for candidates: the deposit stays lost.\<close>

theorem orphaned_deposit_is_lost_witness:
  "let d' = snd (ingest_block (demo_block 1 101) [demo_candidate] demo_unwound) in
   (\<exists>r'. deposit_at d' 1 = Some r' \<and> cd_state r' = ''Orphaned'') \<and> 1 \<notin> dr_id ` set (candidates_by_state d' DCandidate)"
proof -
  let ?d = "snd (ingest_block (demo_block 1 101) [demo_candidate] demo_unwound)"
  have "nc_initial_state demo_candidate = DCandidate" by (simp add: demo_candidate_def)
  then have run: "tasks_run demo_ienv (demo_unwound, {}) [TaskCalls (IngestBlock (demo_block 1 101) [demo_candidate]), TaskLists DCandidate]
      (?d, dr_id ` set (candidates_by_state ?d DCandidate))"
    by (simp add: tasks.run_Cons_iff tasks.run_Nil_iff tasks_step.simps is_active_def)
  have "cd_state (demo_row DOrphaned None None) = ''Orphaned''" by (simp add: demo_row_def)
  from orphaned_deposit_is_lost [OF demo_unwound_reachable demo_unwound_row this _ run] show ?thesis
    unfolding Let_def by blast
qed

lemma demo_empty_reachable: "ddb_reachable H empty_deposit_db"
  by (rule ddb.reachable_init) (simp add: ddb_init_def)

theorem deposit_tables_well_formed_witness:
  "distinct (map cd_id (deposit_candidates demo_indexed)) \<and>
   list_all (\<lambda>r. cd_txid_hex r = hex_encode (le_bytes (cd_txid r))) (deposit_candidates demo_indexed)"
  using deposit_tables_well_formed [OF ddb.reachable_run [OF demo_empty_reachable demo_indexed_run [of "\<lambda>_. 0"]]]
  by (auto simp: list_all_iff)

theorem deposit_history_append_only_witness:
  "\<exists>rs. map deposit_facts (deposit_candidates demo_indexed) = map deposit_facts (deposit_candidates empty_deposit_db) @ rs"
  using deposit_history_append_only [OF demo_empty_reachable demo_indexed_run [of "\<lambda>_. 0"]] by blast

end
