(* ===== verification/EndToEndDemo.thy ===== *)
theory EndToEndDemo
  imports EndToEnd DepositDemo
begin

text \<open>
  The deposit of the concrete run, on the concrete chain: the submitted mint is accepted before
  the rotation, and the frozen claim can not be minted after it.
\<close>

lemma demo_mint_open: "mint_open demo_ex demo2 demo_config2 (demo_row st ready sig)"
  by (simp add: mint_open_def demo_row_def demo_state_defs demo_ledger_simps default_pubkey_def)

lemma demo_submission_quorum: "quorum_signatures demo_sigs demo_vset"
  by (simp add: quorum_signatures_def demo_sigs_def demo_vset_def)

theorem submitted_mint_accepted_witness:
  "\<exists>proof_ix mint_ix i c' d. sb_instructions demo_submission = [proof_ix, mint_ix] \<and>
     dispatch demo_sdk (map am_pubkey (si_accounts mint_ix)) (si_data mint_ix) = Some i \<and>
     process demo_ex \<lparr>tx_signer = 77, tx_slot = 9, tx_time = 70,
       tx_prev = Some (si_program_id proof_ix, si_data proof_ix)\<rparr> i demo2 = Ok c' \<and>
     ch_claims c' (11, 0) = Some d \<and> dc_amount d = 500 \<and> dc_recipient d = 42"
proof -
  let ?r = "demo_row DSubmitted (Some 50) (Some [83])"
  have sb: "demo_submission \<in> set (de_submitted demo_submitted)" by (simp add: demo_submitted_def)
  have row: "deposit_at (de_db demo_submitted) (sc_deposit_id (sb_claim demo_submission)) = Some ?r"
    using demo_forked_db
    by (simp add: demo_forked_def demo_tables_def demo_submission_def demo_signable_def claim_of_def) (simp add: demo_row_def)
  have c: "ch_config demo2 = Some demo_config2" "ch_vset demo2 = Some demo_vset" by (simp_all add: demo2_def demo1_def)
  have parts: "oe_sdk demo_oenv = demo_sdk" "oe_program_id demo_oenv = PROGRAM_ID" "oe_submitter demo_oenv = 77"
      "oe_ed25519_program demo_oenv = ex_ed25519_program demo_ex" "ic_protocol_version (ie_config demo_ienv) = PROTOCOL_VERSION"
      "ic_validator_epoch (ie_config demo_ienv) = vs_epoch demo_vset" "ic_wrapped_mint (ie_config demo_ienv) = cfg_wrapped_mint demo_config2"
    by (simp_all add: demo_oenv_def demo_ienv_def demo_icfg_def demo_vset_def demo_config2_def PROTOCOL_VERSION_def)
  have sigs: "quorum_signatures (sb_signatures demo_submission) demo_vset"
    using demo_submission_quorum by (simp add: demo_submission_def)
  have facts: "cd_txid ?r = 11" "ucast (cd_vout ?r) = (0 :: u32)" "cd_amount_atomic ?r = 500" "cd_recipient ?r = 42"
    by (simp_all add: demo_row_def)
  show ?thesis
    using submitted_mint_accepted [OF demo_submitted_reachable sb row demo_reachable(2) c _ parts(2) parts(4-7) sigs demo_mint_open,
        where slot = 9 and time = 70]
    unfolding facts parts(1-3) by (simp add: demo_discriminators)
qed

lemma demo_frozen_run:
  "ddb_run H empty_deposit_db [IngestBlock (demo_block 0 100) [], IngestBlock (demo_block 1 101) [demo_candidate],
     TransitionState 1 DConfirming 50 None None, TransitionState 1 DReadyForSignature 50 None (Some demo_claim)] (de_db demo_ready)"
  by (simp add: ddb.run_Cons_iff ddb.run_Nil_iff ddb_step_def demo_ingest demo_transitions demo_ready_def demo_log_def demo_blocks_def)

theorem rotation_strands_claims_witness:
  "\<exists>e. process demo_ex (demo_tx 77 2000 []) (MintWrapped 7 42 11 0 500 0) demo7 = Err e"
proof -
  note frozen = ddb.reachable_run [OF demo_empty_reachable demo_frozen_run [of "ie_sha256 demo_ienv"]]
  have a: "artifact_at (de_db demo_ready) 1 = Some demo_claim"
    by (simp add: demo_ready_def demo_tables_def demo_claim_simps)
  have stays: "ddb_run (ie_sha256 demo_ienv) (de_db demo_ready) [] (de_db demo_ready)" by (simp add: ddb.run_Nil_iff)
  have chain: "bridge.reachable demo_ex demo_others demo7"
    by (rule bridge.reachable_step [OF demo_reachable(6) demo_steps(7)])
  have run: "bridge.run demo_ex demo_others demo7 [] demo7" by (simp add: bridge.run_Nil_iff)
  have epoch: "ca_validator_epoch demo_claim = 0"
    by (simp add: demo_claim_def claim_artifact_for_def demo_env_simps demo_icfg_def Let_def)
  then have claim: "sc_txid demo_signable = 11" "sc_vout demo_signable = 0" "sc_amount_atomic demo_signable = 500"
      "sc_validator_epoch demo_signable = 0"
    by (simp_all add: demo_signable_def claim_of_def demo_row_def)
  show ?thesis
    using rotation_strands_claims [OF frozen a stays demo_guard chain _ _ run, where m = 7 and r = 42 and t = "demo_tx 77 2000 []"]
    unfolding claim epoch by (simp add: demo7_def)
qed

end
