(* ===== verification/ForkPoint.thy ===== *)
theory ForkPoint
  imports DepositDemo
begin

text \<open>
  The search for the fork point at the start of an indexer tick: how many requests it makes of
  the node at most, whatever the node answers, and what it finds.
\<close>

section \<open>The number of requests\<close>

lemma indexer_call_counted:
  assumes "\<forall>w. requests (snd (f w)) \<le> Suc (requests w)" "indexer_call f s = (r, s')"
  shows "requests (de_world s') \<le> requests (de_world s) + INNER_RETRY_ATTEMPTS \<and> de_db s' = de_db s"
proof -
  obtain r1 w where call: "retry is_retriable INNER_RETRY_ATTEMPTS f (de_world s) = (r1, w)"
    by (cases "retry is_retriable INNER_RETRY_ATTEMPTS f (de_world s)")
  have "requests w \<le> requests (de_world s) + max 1 INNER_RETRY_ATTEMPTS"
    by (rule retry_bounded [OF _ call]) (metis assms(1) snd_conv)
  with call assms(2) show ?thesis
    by (auto simp: indexer_call_def call_with_retry_def INNER_RETRY_ATTEMPTS_def)
qed

lemma sint_max_depth: "sint (max_depth env) = uint (ic_max_reorg_depth (ie_config env))"
  unfolding max_depth_def sint_ucast_u32 by simp

text \<open>The remaining heights of a walk.\<close>

definition walk_left :: "('w, 'f) indexer_env \<Rightarrow> i64 \<Rightarrow> i64 \<Rightarrow> nat" where
  "walk_left env start h = nat (sint (max_depth env) - (sint start - sint h) + 1)"

lemma walk_sub:
  fixes h start :: i64
  assumes "\<not> h <s 0" "h \<le>s start" "sint start - sint h \<le> sint (max_depth env)"
  shows "sint (start - (h - 1)) = sint start - sint h + 1"
proof -
  have "sint (max_depth env) < 2 ^ 32"
    using unsigned_less [where ?'a = int and w = "ic_max_reorg_depth (ie_config env)"] by (simp add: sint_max_depth)
  with assms(2,3) have "signed_take_bit 63 (sint start - sint h + 1) = sint start - sint h + 1"
    by (intro signed_take_bit_int_eq_self) (simp_all add: word_sle_eq)
  moreover have "sint (start - (h - 1)) = signed_take_bit 63 (sint start - sint (h - 1))"
    unfolding sint_word_diff by simp
  moreover have "sint start - sint (h - 1) = sint start - sint h + 1" unfolding sint_pred [OF assms(1)] by simp
  ultimately show ?thesis by simp
qed

lemma walk_depth:
  assumes "\<not> h <s 0" "h \<le>s start" "sint start - sint h \<le> sint (max_depth env)"
    "\<not> max_depth env <s start - (h - 1)"
  shows "h - 1 \<le>s start" "sint start - sint (h - 1) \<le> sint (max_depth env)"
  using assms walk_sub [OF assms(1-3)] by (simp_all add: word_sle_eq word_sless_alt sint_pred [OF assms(1)])

lemma fork_walk_step:
  assumes "\<not> h <s 0"
  shows "(fork_walk env start h s = (r, s')) =
     (\<exists>hash s1. indexer_call (get_block_hash env h) s = (hash, s1) \<and>
       (case hash of Err e \<Rightarrow> r = Err e \<and> s' = s1
        | Ok hex \<Rightarrow> (case decode_hash env hex of Err e \<Rightarrow> r = Err e \<and> s' = s1
          | Ok live \<Rightarrow> if block_hash_at_height (de_db s1) h = Some live then r = Ok (Some h) \<and> s' = s1
             else if max_depth env <s start - (h - 1) then r = Ok None \<and> s' = s1
             else fork_walk env start (h - 1) s1 = (r, s'))))"
proof -
  obtain hash s1 where call: "indexer_call (get_block_hash env h) s = (hash, s1)"
    by (cases "indexer_call (get_block_hash env h) s")
  show ?thesis
    using assms by (subst fork_walk.simps)
      (auto simp: ebind_def call elift_def dquery_def eret_def Let_def split: result.split)
qed

lemma fork_walk_counted:
  assumes "\<forall>k w. requests (snd (get_block_hash env k w)) \<le> Suc (requests w)"
    and "h \<le>s start" "sint start - sint h \<le> sint (max_depth env)" "fork_walk env start h s = (r, s')"
  shows "requests (de_world s') \<le> requests (de_world s) + INNER_RETRY_ATTEMPTS * walk_left env start h \<and> de_db s' = de_db s"
  using assms
proof (induction "walk_left env start h" arbitrary: h s)
  case 0
  then show ?case by (simp add: walk_left_def word_sle_eq)
next
  case (Suc n)
  show ?case
  proof (cases "h <s 0")
    case True
    with Suc.prems(4) show ?thesis by (simp add: fork_walk.simps eret_def)
  next
    case False
    then obtain hash s1 where call: "indexer_call (get_block_hash env h) s = (hash, s1)"
      and rest: "(de_world s', de_db s') = (de_world s1, de_db s1) \<or>
         (fork_walk env start (h - 1) s1 = (r, s') \<and> \<not> max_depth env <s start - (h - 1))"
      using Suc.prems(4) unfolding fork_walk_step [OF False] by (elim exE conjE) (auto split: result.splits if_splits)
    have asked: "requests (de_world s1) \<le> requests (de_world s) + INNER_RETRY_ATTEMPTS" "de_db s1 = de_db s"
      using indexer_call_counted [OF spec [OF Suc.prems(1)] call] by auto
    from rest show ?thesis
    proof
      assume "(de_world s', de_db s') = (de_world s1, de_db s1)"
      with asked Suc.hyps(2) [symmetric] show ?thesis by simp
    next
      assume walk: "fork_walk env start (h - 1) s1 = (r, s') \<and> \<not> max_depth env <s start - (h - 1)"
      note next_h = walk_depth [OF False Suc.prems(2,3) conjunct2 [OF walk]]
      have "n = walk_left env start (h - 1)"
        using Suc.hyps(2) next_h by (simp add: walk_left_def sint_pred [OF False])
      from Suc.hyps(1) [OF this Suc.prems(1) next_h conjunct1 [OF walk]] asked
      show ?thesis by (simp add: algebra_simps flip: Suc.hyps(2) \<open>n = _\<close>)
    qed
  qed
qed

text \<open>
  C27: The search for the fork point always ends: whatever the node answers, and however often it
  fails, it asks for at most \<open>max_reorg_depth + 1\<close> heights with at most three attempts each, and it
  changes nothing in the database.
\<close>

theorem find_fork_point_bounded:
  assumes "\<forall>k w. requests (snd (get_block_hash env k w)) \<le> Suc (requests w)"
    and "find_fork_point env start s = (r, s')"
  shows "requests (de_world s') \<le> requests (de_world s) +
      INNER_RETRY_ATTEMPTS * (unat (ic_max_reorg_depth (ie_config env)) + 1) \<and> de_db s' = de_db s"
proof -
  have "walk_left env start start = unat (ic_max_reorg_depth (ie_config env)) + 1"
    by (simp add: walk_left_def sint_max_depth nat_add_distrib)
  moreover have "fork_walk env start start s = (r, s')" using assms(2) by (simp add: find_fork_point_def)
  ultimately show ?thesis
    using fork_walk_counted [OF assms(1), of start start s r s'] by (simp add: sint_max_depth word_sle_eq)
qed

section \<open>What it finds\<close>

definition agrees :: "deposit_db \<Rightarrow> (i64 \<Rightarrow> bytes32) \<Rightarrow> i64 \<Rightarrow> bool" where
  "agrees d live k \<longleftrightarrow> block_hash_at_height d k = Some (live k)"

text \<open>The greatest height up to \<open>h\<close>, at most the reorg depth below the start, where both chains agree.\<close>

definition fork_at :: "('w, 'f) indexer_env \<Rightarrow> deposit_db \<Rightarrow> (i64 \<Rightarrow> bytes32) \<Rightarrow> i64 \<Rightarrow> i64 \<Rightarrow> i64 \<Rightarrow> bool" where
  "fork_at env d live start h k \<longleftrightarrow> 0 \<le>s k \<and> k \<le>s h \<and> sint start - sint k \<le> uint (ic_max_reorg_depth (ie_config env)) \<and>
     agrees d live k \<and> (\<forall>j. k <s j \<and> j \<le>s h \<longrightarrow> \<not> agrees d live j)"

lemma fork_at_here: "agrees d live h \<Longrightarrow> 0 \<le>s h \<Longrightarrow> sint start - sint h \<le> sint (max_depth env) \<Longrightarrow>
    fork_at env d live start h k \<longleftrightarrow> k = h"
  by (auto simp: fork_at_def sint_max_depth word_sle_eq word_sless_alt intro!: sint_eqI dest!: spec [of _ h])

lemma fork_at_below:
  assumes "\<not> agrees d live h" "\<not> h <s 0"
  shows "fork_at env d live start h k \<longleftrightarrow> fork_at env d live start (h - 1) k"
proof -
  have "j \<le>s h \<longleftrightarrow> j = h \<or> j \<le>s h - 1" for j
    using sint_eqI [of j h] by (auto simp: word_sle_eq sint_pred [OF assms(2)])
  with assms(1) show ?thesis by (auto simp: fork_at_def)
qed

lemma fork_walk_exact:
  assumes "\<And>k w. 0 \<le>s k \<Longrightarrow> k \<le>s start \<Longrightarrow> get_block_hash env k w = (Ok (hex_encode (le_bytes (live k))), w)"
    and "h \<le>s start" "sint start - sint h \<le> sint (max_depth env)"
  shows "\<exists>x. fork_walk env start h s = (Ok x, s) \<and> (\<forall>k. x = Some k \<longleftrightarrow> fork_at env (de_db s) live start h k)"
  using assms
proof (induction "walk_left env start h" arbitrary: h)
  case 0
  then show ?case by (simp add: walk_left_def word_sle_eq)
next
  case (Suc n)
  show ?case
  proof (cases "h <s 0")
    case True
    then show ?thesis by (auto simp: fork_walk.simps eret_def fork_at_def word_sle_eq word_sless_alt)
  next
    case False
    then have pos: "0 \<le>s h" by (simp add: word_sle_eq word_sless_alt)
    have step: "fork_walk env start h s =
       (if agrees (de_db s) live h then (Ok (Some h), s)
        else if max_depth env <s start - (h - 1) then (Ok None, s) else fork_walk env start (h - 1) s)"
      using False Suc.prems(1) [OF pos Suc.prems(2)]
      by (simp add: fork_walk.simps [of env start h] ebind_def indexer_call_ok elift_def dquery_def eret_def Let_def
          demo_decode [unfolded demo_hash_def] agrees_def same_world)
    show ?thesis
    proof (cases "agrees (de_db s) live h")
      case True
      then show ?thesis unfolding step using fork_at_here [OF True pos Suc.prems(3)] by auto
    next
      case apart: False
      note below = fork_at_below [OF apart False, of env start]
      show ?thesis
      proof (cases "max_depth env <s start - (h - 1)")
        case True
        have "\<not> fork_at env (de_db s) live start (h - 1) k" for k
          using True walk_sub [OF False Suc.prems(2,3)]
          by (auto simp: fork_at_def word_sless_alt word_sle_eq sint_max_depth sint_pred [OF False])
        with True apart show ?thesis unfolding step below by simp
      next
        case goes_on: False
        note next_h = walk_depth [OF False Suc.prems(2,3) goes_on]
        have "n = walk_left env start (h - 1)"
          using Suc.hyps(2) next_h by (simp add: walk_left_def sint_pred [OF False])
        from Suc.hyps(1) [OF this Suc.prems(1) next_h] apart goes_on
        show ?thesis unfolding step below by simp
      qed
    qed
  qed
qed

text \<open>
  A node whose main chain does not change: it knows the blocks up to its tip and answers every other
  height with the same error of the method, as \<open>getblockhash\<close> does out of range.
\<close>

definition steady_node :: "('w, 'f) indexer_env \<Rightarrow> i64 \<Rightarrow> (i64 \<Rightarrow> bytes32) \<Rightarrow> i64 \<Rightarrow> bytes \<Rightarrow> bool" where
  "steady_node env tip live code message \<longleftrightarrow> 0 \<le>s tip \<and> (\<forall>k w. get_block_hash env k w =
     (if 0 \<le>s k \<and> k \<le>s tip then Ok (hex_encode (le_bytes (live k))) else Err (Method code message), w))"

lemma retry_same_error: "(\<And>w. f w = (Err e, w)) \<Longrightarrow> retry again n f w = (Err e, w)"
  by (induction n rule: less_induct) (subst retry.simps, simp)

lemma fork_walk_above:
  assumes "steady_node env tip live code message" "tip <s start"
  shows "fork_walk env start start s = (Err (IndexerRpc (Method code message)), s)"
proof -
  have "\<not> start <s 0" "get_block_hash env start w = (Err (Method code message), w)" for w
    using assms by (auto simp: steady_node_def word_sle_eq word_sless_alt)
  then show ?thesis
    by (simp add: fork_walk.simps [of env start start] ebind_def indexer_call_def call_with_retry_def retry_same_error same_world
        indexer_classify_def is_retriable_def)
qed

text \<open>
  C28: Against a node whose main chain does not change during the search and reaches the local tip,
  the fork point is exactly the greatest height up to the local tip, at most \<open>max_reorg_depth\<close> below
  it, at which the recorded block is the node's; the search answers that there is none exactly when
  there is none.  When the node's chain is shorter than the local one the search fails with the
  node's error and finds nothing, whatever the two chains share.  In every case it changes nothing.
\<close>

theorem find_fork_point_exact:
  assumes "steady_node env tip live code message"
  shows "if start \<le>s tip
     then \<exists>x. find_fork_point env start s = (Ok x, s) \<and> (\<forall>k. x = Some k \<longleftrightarrow> fork_at env (de_db s) live start start k)
     else find_fork_point env start s = (Err (IndexerRpc (Method code message)), s)"
proof (cases "start \<le>s tip")
  case True
  then have node: "get_block_hash env k w = (Ok (hex_encode (le_bytes (live k))), w)" if "0 \<le>s k" "k \<le>s start" for k w
    using assms that by (auto simp: steady_node_def word_sle_eq)
  have "\<exists>x. find_fork_point env start s = (Ok x, s) \<and> (\<forall>k. x = Some k \<longleftrightarrow> fork_at env (de_db s) live start start k)"
    unfolding find_fork_point_def by (rule fork_walk_exact) (simp_all add: node sint_max_depth word_sle_eq)
  with True show ?thesis by simp
next
  case False
  then show ?thesis
    using fork_walk_above [OF assms, of start s] by (simp add: find_fork_point_def word_sle_eq word_sless_alt)
qed

section \<open>Witnesses\<close>

text \<open>A node that never answers, and counts the requests.\<close>

definition demo_down :: "(bytes32, u64) indexer_env" where
  "demo_down = demo_ienv\<lparr>get_block_hash := \<lambda>h w. (Err (Method (- 8) []), w + 1)\<rparr>"

theorem find_fork_point_bounded_witness:
  "unat (de_world (snd (find_fork_point demo_down 1 (demo_dep0\<lparr>de_world := 0\<rparr>)))) \<le> 6"
proof -
  have "\<forall>k w. unat (snd (get_block_hash demo_down k w)) \<le> Suc (unat w)"
    by (simp add: demo_down_def unat_word_ariths)
  from find_fork_point_bounded [OF this prod.collapse [symmetric], of 1 "demo_dep0\<lparr>de_world := 0\<rparr>"] show ?thesis
    by (simp add: demo_down_def demo_env_simps demo_icfg_def INNER_RETRY_ATTEMPTS_def)
qed

text \<open>A node whose block at height one is another one, and a node that has only the first block.\<close>

definition demo_top :: "i64 \<Rightarrow> (bytes32, u64) indexer_env" where
  "demo_top tip = demo_ienv\<lparr>get_block_hash := \<lambda>h w.
     (if 0 \<le>s h \<and> h \<le>s tip then Ok (demo_hash (if h = 0 then 100 else 201)) else Err (Method (- 8) []), w)\<rparr>"

theorem find_fork_point_exact_witness:
  "find_fork_point (demo_top 1) 1 demo_forked = (Ok (Some 0), demo_forked) \<and>
   find_fork_point (demo_top 0) 1 demo_forked = (Err (IndexerRpc (Method (- 8) [])), demo_forked)"
proof
  let ?live = "\<lambda>h :: i64. if h = 0 then 100 else 201 :: bytes32"
  have live: "steady_node (demo_top tip) tip ?live (- 8) []" if "0 \<le>s tip" for tip
    using that by (simp add: steady_node_def demo_top_def demo_hash_def)
  have blocks: "block_hash_at_height (de_db demo_forked) 1 = Some 101" "block_hash_at_height (de_db demo_forked) 0 = Some 100"
    by (simp_all add: demo_forked_db block_hash_at_height_def demo_tables_def demo_blocks_def demo_block_def)
  have "\<not> agrees (de_db demo_forked) ?live j" if "0 <s j" "j \<le>s 1" for j :: i64
  proof -
    have "j = 1" using that by (intro sint_eqI) (simp add: word_sless_alt word_sle_eq)
    with blocks(1) show ?thesis by (simp add: agrees_def)
  qed
  moreover have "agrees (de_db demo_forked) ?live 0" using blocks(2) by (simp add: agrees_def)
  ultimately have "fork_at (demo_top 1) (de_db demo_forked) ?live 1 1 0"
    by (simp add: fork_at_def demo_top_def demo_env_simps demo_icfg_def word_sle_eq)
  moreover have "\<exists>x. find_fork_point (demo_top 1) 1 demo_forked = (Ok x, demo_forked) \<and>
      (\<forall>k. x = Some k \<longleftrightarrow> fork_at (demo_top 1) (de_db demo_forked) ?live 1 1 k)"
    using find_fork_point_exact [OF live, of 1 1 demo_forked] by (simp add: word_sle_eq)
  ultimately show "find_fork_point (demo_top 1) 1 demo_forked = (Ok (Some 0), demo_forked)" by metis
  show "find_fork_point (demo_top 0) 1 demo_forked = (Err (IndexerRpc (Method (- 8) [])), demo_forked)"
    using find_fork_point_exact [OF live, of 0 1 demo_forked] by (simp add: word_sle_eq)
qed

end
