(* ===== verification/Promotion.thy ===== *)
theory Promotion
  imports DepositDemo
begin

text \<open>
  When the indexer promotes a deposit to be signed: its depth, the node's word that the output is
  unspent, the cap on one deposit and the rolling cap on all of them.
\<close>

section \<open>The value made ready since a time\<close>

definition ready_since :: "i64 \<Rightarrow> deposit_candidate_row \<Rightarrow> bool" where
  "ready_since since r \<longleftrightarrow> (case cd_ready_at r of None \<Rightarrow> False | Some t \<Rightarrow> since \<le>s t)"

definition ready_value :: "i64 \<Rightarrow> deposit_candidate_row list \<Rightarrow> nat" where
  "ready_value since rs = sum_list (map (\<lambda>r. unat (cd_amount_atomic r)) (filter (ready_since since) rs))"

definition recorded_value :: "deposit_candidate_row list \<Rightarrow> nat" where
  "recorded_value rs = sum_list (map (\<lambda>r. unat (cd_amount_atomic r)) rs)"

lemma ready_value_le: "ready_value since rs \<le> recorded_value rs"
  by (induction rs) (auto simp: ready_value_def recorded_value_def)

lemma ready_value_antimono: "since \<le>s since' \<Longrightarrow> ready_value since' rs \<le> ready_value since rs"
  by (induction rs) (auto simp: ready_value_def ready_since_def split: option.splits)

lemma ready_sum:
  assumes "ready_amount_sum_since d since = Ok n" "recorded_value (deposit_candidates d) < 2 ^ 64"
  shows "unat n = ready_value since (deposit_candidates d)"
proof -
  have "ready_value since (deposit_candidates d) < 2 ^ 64"
    using ready_value_le assms(2) by (rule le_less_trans)
  then show ?thesis using assms(1)
    by (auto simp: ready_amount_sum_since_def ready_value_def ready_since_def [abs_def] unat_sum_list comp_def)
qed

lemma ready_value_other:
  "(\<And>r. r \<in> set rs \<Longrightarrow> P r \<Longrightarrow> cd_ready_at (f r) = cd_ready_at r \<and> cd_amount_atomic (f r) = cd_amount_atomic r) \<Longrightarrow>
     ready_value since (update_where P f rs) = ready_value since rs"
  by (induction rs) (auto simp: ready_value_def update_where_def ready_since_def)

lemma ready_value_update:
  assumes "distinct (map cd_id rs)" "row_at cd_id i rs = Some r" "\<And>r. cd_amount_atomic (f r) = cd_amount_atomic r"
  shows "ready_value since (update_where (\<lambda>r. cd_id r = i) f rs) \<le> ready_value since rs + unat (cd_amount_atomic r)"
  using assms(1,2)
proof (induction rs)
  case (Cons x rs)
  show ?case
  proof (cases "cd_id x = i")
    case True
    with Cons.prems have "x = r" "i \<notin> cd_id ` set rs" by auto
    then have "\<And>y. y \<in> set rs \<Longrightarrow> cd_id y \<noteq> i" by blast
    then have "update_where (\<lambda>r. cd_id r = i) f rs = rs" by (simp add: update_where_def map_idI)
    with True \<open>x = r\<close> show ?thesis by (simp add: ready_value_def update_where_def assms(3))
  next
    case False
    with Cons show ?thesis by (auto simp: ready_value_def update_where_def ready_since_def)
  qed
qed simp

section \<open>The promotion of one deposit\<close>

text \<open>What must hold of a deposit besides the rolling cap; \<open>unspent\<close> is what a positive answer of the node means.\<close>

definition justified :: "('w, 'f) indexer_env \<Rightarrow> (bytes \<Rightarrow> u32 \<Rightarrow> bool) \<Rightarrow> i64 \<Rightarrow> deposit_candidate_row \<Rightarrow> bool" where
  "justified env unspent tip r \<longleftrightarrow> int (unat (ic_confirmation_depth (ie_config env))) \<le> sint tip - sint (cd_block_height r) + 1 \<and>
     unspent (cd_txid_hex r) (ucast (cd_vout r)) \<and>
     (\<forall>cap. vc_max_deposit_atomic (ic_value_caps (ie_config env)) = Some cap \<longrightarrow> cd_amount_atomic r \<le> cap)"

text \<open>A cap of the greatest number is no cap, as the sum saturates there.\<close>

definition within_window :: "('w, 'f) indexer_env \<Rightarrow> i64 \<Rightarrow> nat \<Rightarrow> deposit_db \<Rightarrow> bool" where
  "within_window env now extra d \<longleftrightarrow> (\<forall>w. vc_rolling_window (ic_value_caps (ie_config env)) = Some w \<longrightarrow>
     rw_cap_atomic w \<noteq> - 1 \<longrightarrow>
     ready_value (now - rw_window_seconds w) (deposit_candidates d) + extra \<le> unat (rw_cap_atomic w))"

definition promoting :: "('w, 'f) indexer_env \<Rightarrow> (bytes \<Rightarrow> u32 \<Rightarrow> bool) \<Rightarrow> i64 \<Rightarrow> i64 \<Rightarrow> deposit_db \<Rightarrow> deposit_db \<Rightarrow> bool" where
  "promoting env unspent now tip d0 d \<longleftrightarrow> map deposit_facts (deposit_candidates d) = map deposit_facts (deposit_candidates d0) \<and>
     distinct (map cd_id (deposit_candidates d0)) \<and>
     (\<forall>i r r0. deposit_at d i = Some r \<longrightarrow> deposit_at d0 i = Some r0 \<longrightarrow> cd_state r = ''ReadyForSignature'' \<longrightarrow>
        cd_state r0 = ''ReadyForSignature'' \<or> justified env unspent tip r0) \<and>
     (map cd_ready_at (deposit_candidates d) = map cd_ready_at (deposit_candidates d0) \<or> within_window env now 0 d)"

interpretation promo: deposit_view "\<lambda>s :: 'w dep_state. promoting env unspent now tip d0 (de_db s)"
  for env :: "('w, 'f) indexer_env" and unspent now tip d0
  by unfold_locales simp_all

lemma facts_at:
  assumes "map deposit_facts (deposit_candidates d) = map deposit_facts (deposit_candidates d0)"
    "deposit_at d0 i = Some r0"
  obtains r where "deposit_at d i = Some r" "deposit_facts r = deposit_facts r0"
proof -
  have "map_option deposit_facts (deposit_at d i) = map_option deposit_facts (deposit_at d0 i)"
    unfolding deposit_at_facts assms(1) ..
  with assms(2) that show thesis by auto
qed

lemma facts_ids: "map deposit_facts rs = map deposit_facts rs' \<Longrightarrow> map cd_id rs = map cd_id rs'"
proof -
  assume "map deposit_facts rs = map deposit_facts rs'"
  then have "map (fst \<circ> deposit_facts) rs = map (fst \<circ> deposit_facts) rs'" by (simp flip: map_map)
  then show ?thesis by (simp add: deposit_facts_def comp_def)
qed

lemma facts_amounts:
  assumes "map deposit_facts rs = map deposit_facts rs'"
  shows "map (\<lambda>r. unat (cd_amount_atomic r)) rs = map (\<lambda>r. unat (cd_amount_atomic r)) rs'"
proof -
  let ?g = "\<lambda>(i, t, h, v, a, x). unat a"
  from assms have "map (?g \<circ> deposit_facts) rs = map (?g \<circ> deposit_facts) rs'" by (simp flip: map_map)
  then show ?thesis by (simp add: deposit_facts_def comp_def)
qed

lemma transition_rows:
  assumes "transition_state i to at reason a d = (Ok u, d')"
  shows "deposit_candidates d' = update_where (\<lambda>r. cd_id r = i) (transitioned to at reason) (deposit_candidates d)"
  using assms unfolding transition_state_Ok
  by (auto simp: insert_deposit_log_Ok insert_artifact_Ok update_deposit_def split: option.splits)

text \<open>Heights of a chain are not negative, so their difference does not wrap.\<close>

lemma depth_enough:
  assumes "\<not> deposit_depth tip h <s ucast n" "0 \<le> sint tip" "sint tip < 2 ^ 63 - 1" "0 \<le> sint h"
  shows "int (unat (n :: u32)) \<le> sint tip - sint h + 1"
proof -
  have "sint (tip - h) = sint tip - sint h"
    using assms(2-4) sint_u64_bounds [of h] by (intro sint_i64_sub) simp_all
  then have "sint (deposit_depth tip h) = sint tip - sint h + 1"
    using assms(2-4) sint_u64_bounds [of h] sint_i64_add [of "tip - h" 1] by (simp add: deposit_depth_def)
  then show ?thesis using assms(1) by (simp add: word_sless_alt sint_ucast_u32)
qed

lemma update_where_same: "(\<And>r. g (f r) = g r) \<Longrightarrow> map g (update_where P f rs) = map g rs"
  by (induction rs) auto

lemma promoting_transition:
  assumes inv: "promoting env unspent now tip d0 d" and r0: "deposit_at d0 i = Some r0"
    and ready: "to = DReadyForSignature \<Longrightarrow> justified env unspent tip r0 \<and> within_window env now (unat (cd_amount_atomic r0)) d"
    and run: "transition_state i to at reason a d = (res, d')"
  shows "promoting env unspent now tip d0 d'"
  using run
proof (cases rule: transition_effect)
  case failed
  with inv show ?thesis by simp
next
  case (success r)
  note rows = transition_rows [OF run [unfolded success(1)]]
  have facts: "map deposit_facts (deposit_candidates d') = map deposit_facts (deposit_candidates d)"
    unfolding rows by (rule update_where_same) (simp add: deposit_facts_def)
  have ids: "distinct (map cd_id (deposit_candidates d))"
    using inv facts_ids [of "deposit_candidates d" "deposit_candidates d0"] by (simp add: promoting_def)
  from inv r0 success(2) have r: "cd_amount_atomic r = cd_amount_atomic r0"
    by (auto simp: promoting_def deposit_facts_def elim!: facts_at)
  have window: "map cd_ready_at (deposit_candidates d') = map cd_ready_at (deposit_candidates d0) \<or> within_window env now 0 d'"
  proof (cases "to = DReadyForSignature")
    case True
    have "ready_value since (deposit_candidates d') \<le> ready_value since (deposit_candidates d) + unat (cd_amount_atomic r0)" for since
      unfolding rows r [symmetric] by (rule ready_value_update [OF ids success(2)]) simp
    with ready [OF True] show ?thesis by (auto simp: within_window_def intro: order.trans)
  next
    case False
    then have "map cd_ready_at (deposit_candidates d') = map cd_ready_at (deposit_candidates d)"
      unfolding rows by (intro update_where_same) (simp add: coalesce_def)
    moreover have "ready_value since (deposit_candidates d') = ready_value since (deposit_candidates d)" for since
      unfolding rows using False by (intro ready_value_other) (simp add: coalesce_def)
    ultimately show ?thesis using inv by (simp add: promoting_def within_window_def)
  qed
  have "cd_state r0' = ''ReadyForSignature'' \<or> justified env unspent tip r0'"
    if "deposit_at d' j = Some r'" "deposit_at d0 j = Some r0'" "cd_state r' = ''ReadyForSignature''" for j r' r0'
    using that success(3) [of j] inv r0 ready
    by (cases "j = i"; cases to) (auto simp: promoting_def)
  with inv facts window show ?thesis by (simp add: promoting_def)
qed

abbreviation promotes ::
  "('w, 'f) indexer_env \<Rightarrow> (bytes \<Rightarrow> u32 \<Rightarrow> bool) \<Rightarrow> i64 \<Rightarrow> i64 \<Rightarrow> deposit_db \<Rightarrow> (deposit_db \<Rightarrow> bool) \<Rightarrow>
     ('w, 'a) ix \<Rightarrow> ('a \<Rightarrow> deposit_db \<Rightarrow> bool) \<Rightarrow> bool" where
  "promotes env unspent now tip d0 \<equiv> io_invariant.triple (\<lambda>s. promoting env unspent now tip d0 (de_db s)) de_db"

text \<open>The clock reads no time before the epoch and none after \<open>now\<close>, and the window is not negative.\<close>

definition clock_until :: "('w, 'f) indexer_env \<Rightarrow> i64 \<Rightarrow> bool" where
  "clock_until env now \<longleftrightarrow> (\<forall>w. 0 \<le>s fst (ie_now_unix env w) \<and> fst (ie_now_unix env w) \<le>s now) \<and>
     (\<forall>w. vc_rolling_window (ic_value_caps (ie_config env)) = Some w \<longrightarrow> 0 \<le>s rw_window_seconds w)"

lemma promotes_clock:
  assumes "clock_until env now"
  shows "promotes env unspent now tip d0 p (dworld (ie_now_unix env)) (\<lambda>x _. 0 \<le>s x \<and> x \<le>s now)"
  unfolding promo.triple_def using assms
  by (auto simp: dworld_def clock_until_def split: prod.splits) (metis fst_conv)+

lemma since_mono:
  assumes "0 \<le>s x" "x \<le>s y" "0 \<le>s w" shows "x - w \<le>s y - (w :: i64)"
proof -
  have "sint (x - w) = sint x - sint w" "sint (y - w) = sint y - sint w"
    using assms sint_u64_bounds [of x] sint_u64_bounds [of y] sint_u64_bounds [of w]
    by (intro sint_i64_sub; simp add: word_sle_eq)+
  with assms show ?thesis by (simp add: word_sle_eq)
qed

lemma promotes_query:
  assumes "recorded_value (deposit_candidates d0) < 2 ^ 64"
  shows "promotes env unspent now tip d0 p (dquery (\<lambda>d. map_err IndexerDb (ready_amount_sum_since d since)))
      (\<lambda>n d. p d \<and> unat n = ready_value since (deposit_candidates d))"
  unfolding promo.triple_def
proof (intro allI impI)
  fix s r s'
  assume I: "promoting env unspent now tip d0 (de_db s)" "p (de_db s)"
    and run: "dquery (\<lambda>d. map_err IndexerDb (ready_amount_sum_since d since)) s = (r, s')"
  have "map (\<lambda>r. unat (cd_amount_atomic r)) (deposit_candidates (de_db s)) =
      map (\<lambda>r. unat (cd_amount_atomic r)) (deposit_candidates d0)"
    using I(1) by (intro facts_amounts) (simp add: promoting_def)
  then have small: "recorded_value (deposit_candidates (de_db s)) < 2 ^ 64" using assms by (simp add: recorded_value_def)
  show "promoting env unspent now tip d0 (de_db s') \<and>
      (\<forall>x. r = Ok x \<longrightarrow> p (de_db s') \<and> unat x = ready_value since (deposit_candidates (de_db s')))"
    using I run small by (cases "ready_amount_sum_since (de_db s) since") (auto simp: dquery_def ready_sum)
qed

lemma promotes_knowing:
  "(\<And>d. p d \<Longrightarrow> b) \<Longrightarrow> (b \<Longrightarrow> promotes env unspent now tip d0 (\<lambda>_. True) m q) \<Longrightarrow> promotes env unspent now tip d0 p m q"
  by (auto simp: promo.triple_def)

lemma room_within:
  assumes "\<not> rw_cap_atomic w < saturating_add n amount" "rw_cap_atomic w \<noteq> - 1"
  shows "unat n + unat amount \<le> unat (rw_cap_atomic w)"
proof -
  have "unat (rw_cap_atomic w) \<noteq> 2 ^ 64 - 1"
    using assms(2) by (simp add: word_unat_eq_iff unat_max_word)
  moreover have "unat (rw_cap_atomic w) < 2 ^ 64"
    using unsigned_less [where ?'a = nat and w = "rw_cap_atomic w"] by simp
  ultimately show ?thesis using assms(1) by (simp add: word_less_nat_alt unat_saturating_add)
qed

lemma promotes_window:
  assumes "clock_until env now" "recorded_value (deposit_candidates d0) < 2 ^ 64"
  shows "promotes env unspent now tip d0 (\<lambda>_. True)
     (window_has_room env (vc_rolling_window (ic_value_caps (ie_config env))) amount)
     (\<lambda>room d. room \<longrightarrow> within_window env now (unat amount) d)"
proof (cases "vc_rolling_window (ic_value_caps (ie_config env))")
  case None
  then show ?thesis
    by (auto simp: window_has_room_def within_window_def intro: promo.triple_ret)
next
  case (Some w)
  have bound: "ready_value (now - rw_window_seconds w) (deposit_candidates d) + unat amount \<le> unat (rw_cap_atomic w)"
    if "0 \<le>s x" "x \<le>s now" "unat n = ready_value (x - rw_window_seconds w) (deposit_candidates d)"
      "\<not> rw_cap_atomic w < saturating_add n amount" "rw_cap_atomic w \<noteq> - 1" for d n x
    using ready_value_antimono [OF since_mono [OF that(1,2)], of "rw_window_seconds w" "deposit_candidates d"]
      room_within [OF that(4,5)] that(3) assms(1) Some by (auto simp: clock_until_def)
  show ?thesis
    unfolding Some window_has_room_def option.case
    by (rule promo.triple_bind [OF promotes_clock [OF assms(1)]], rule promo.triple_bind [OF promotes_query [OF assms(2)]],
        rule promo.triple_ret) (auto simp: within_window_def Some bound)
qed

lemma promotes_transition:
  assumes "deposit_at d0 i = Some r0"
    "\<And>d. p d \<Longrightarrow> to = DReadyForSignature \<Longrightarrow> justified env unspent tip r0 \<and> within_window env now (unat (cd_amount_atomic r0)) d"
  shows "promotes env unspent now tip d0 p (ddb IndexerDb (transition_state i to at reason a)) (\<lambda>_ _. True)"
  unfolding promo.triple_def
proof (intro allI impI)
  fix s r s'
  assume I: "promoting env unspent now tip d0 (de_db s)" "p (de_db s)" and run: "ddb IndexerDb (transition_state i to at reason a) s = (r, s')"
  obtain res d' where "transition_state i to at reason a (de_db s) = (res, d')" by (cases "transition_state i to at reason a (de_db s)")
  with promoting_transition [OF I(1) assms(1) assms(2) [OF I(2)] this] run
  show "promoting env unspent now tip d0 (de_db s') \<and> (\<forall>x. r = Ok x \<longrightarrow> True)" by (auto simp: ddb_def)
qed

lemma promotes_unspent:
  assumes "\<forall>t v w. case get_tx_out_confirmed env t v w of (Ok (Some x), w') \<Rightarrow> unspent t v | _ \<Rightarrow> True"
  shows "promotes env unspent now tip d0 p (indexer_call (get_tx_out_confirmed env t v)) (\<lambda>out d. p d \<and> (out \<noteq> None \<longrightarrow> unspent t v))"
  unfolding promo.triple_def
proof (intro allI impI)
  fix s r s'
  assume I: "promoting env unspent now tip d0 (de_db s)" "p (de_db s)" and run: "indexer_call (get_tx_out_confirmed env t v) s = (r, s')"
  obtain r1 w where call: "retry is_retriable INNER_RETRY_ATTEMPTS (get_tx_out_confirmed env t v) (de_world s) = (r1, w)"
    by (cases "retry is_retriable INNER_RETRY_ATTEMPTS (get_tx_out_confirmed env t v) (de_world s)")
  have "True \<and> (\<forall>x. r1 = Ok (Some x) \<longrightarrow> unspent t v)"
    by (rule retry_keeps [OF _ _ call]) (use assms in \<open>force split: prod.splits result.splits option.splits\<close>)+
  with I run call show "promoting env unspent now tip d0 (de_db s') \<and> (\<forall>x. r = Ok x \<longrightarrow> p (de_db s') \<and> (x \<noteq> None \<longrightarrow> unspent t v))"
    by (cases r1) (auto simp: indexer_call_def call_with_retry_def)
qed

lemma promotes_one:
  assumes clock: "clock_until env now" and small: "recorded_value (deposit_candidates d0) < 2 ^ 64"
    and heights: "0 \<le> sint tip" "sint tip < 2 ^ 63 - 1" "0 \<le> sint (cd_block_height r0)"
    and node: "\<forall>t v w. case get_tx_out_confirmed env t v w of (Ok (Some x), w') \<Rightarrow> unspent t v | _ \<Rightarrow> True"
    and row: "deposit_at d0 i = Some r0" "row = row_to_deposit r0" "cd_id r0 = i"
  shows "promotes env unspent now tip d0 (\<lambda>_. True) (promote_one env tip row) (\<lambda>_ _. True)"
proof -
  have parts: "dr_id row = i" "dr_block_height row = cd_block_height r0" "dr_txid_hex row = cd_txid_hex r0"
      "dr_vout row = cd_vout r0" "dr_amount_atomic row = cd_amount_atomic r0"
    by (simp_all add: row row_to_deposit_def)
  let ?P = "promotes env unspent now tip d0"
  let ?room = "window_has_room env (vc_rolling_window (ic_value_caps (ie_config env))) (cd_amount_atomic r0)"
  have ready: "?P (\<lambda>_. True) (ebind ?room (\<lambda>room. if \<not> room then eret ()
      else ebind (dworld (ie_now_unix env)) (\<lambda>created_at. ebind (dworld (ie_now_unix env)) (\<lambda>now.
       ddb IndexerDb (transition_state i DReadyForSignature now None (Some (claim_artifact_for env row created_at)))))))
      (\<lambda>_ _. True)" if "justified env unspent tip r0"
    by (rule promo.triple_bind [OF promotes_window [OF clock small]], rule promo.keeps_if, rule promo.triple_ret, simp,
        rule promo.triple_bind [OF promo.holds_world], rule promo.triple_bind [OF promo.holds_world],
        rule promotes_transition [OF row(1)]) (simp add: that)
  have failed: "?P p (ebind (dworld (ie_now_unix env)) (\<lambda>now.
       ddb IndexerDb (transition_state i DFailed now (Some (ascii ''vault_output_spent'')) None))) (\<lambda>_ _. True)" for p
    by (rule promo.triple_bind [OF promo.holds_world], rule promotes_transition [OF row(1)]) simp
  show ?thesis
    unfolding promote_one_def parts Let_def
  proof (rule promo.keeps_if, goal_cases)
    case 1
    show ?case by (rule promo.triple_ret) simp
  next
    case 2
    note enough = depth_enough [OF 2 heights]
    show ?case
    proof (rule promo.triple_bind [OF promotes_unspent [OF node]],
        intro promo.keeps_if failed promo.triple_ret TrueI, goal_cases)
      case (1 out)
      then have "justified env unspent tip r0" if "unspent (cd_txid_hex r0) (ucast (cd_vout r0))"
        using that enough by (auto simp: justified_def not_less)
      with 1 show ?case by (intro promotes_knowing [OF _ ready]) auto
    qed
  qed
qed

section \<open>The promotions of a tick\<close>

text \<open>
  C29: The indexer promotes a deposit to be signed only when it is deep enough, the node reports
  its output as unspent and its value is within the cap on one deposit; and whenever it promotes
  any, the value made ready within the rolling window that ends at \<open>now\<close>, the deposits just promoted
  included, is within the rolling cap.  Here \<open>now\<close> is any time that the readings of the clock do not
  exceed.  The arithmetic of the code wraps, so the statement is for heights from zero up and a tip
  below the greatest number, for a clock past the epoch and a window that is not negative, and for
  recorded deposits worth less than \<open>2^64\<close> together; a rolling cap of the greatest number, where the
  sum saturates, is no cap.
\<close>

theorem promotion_justified:
  assumes "ddb_reachable H (de_db s)" "clock_until env now"
    and "recorded_value (deposit_candidates (de_db s)) < 2 ^ 64"
    and "0 \<le> sint tip" "sint tip < 2 ^ 63 - 1" "\<forall>r \<in> set (deposit_candidates (de_db s)). 0 \<le> sint (cd_block_height r)"
    and "\<forall>t v w. case get_tx_out_confirmed env t v w of (Ok (Some x), w') \<Rightarrow> unspent t v | _ \<Rightarrow> True"
    and "promote_confirming env tip s = (r, s')"
  shows "(\<forall>i r0 r1. deposit_at (de_db s) i = Some r0 \<and> deposit_at (de_db s') i = Some r1 \<and>
       cd_state r0 = ''Confirming'' \<and> cd_state r1 = ''ReadyForSignature'' \<longrightarrow> justified env unspent tip r0) \<and>
     (map cd_ready_at (deposit_candidates (de_db s')) = map cd_ready_at (deposit_candidates (de_db s)) \<or>
       within_window env now 0 (de_db s'))"
proof -
  let ?d = "de_db s"
  have ids: "distinct (map cd_id (deposit_candidates ?d))"
    using ddb.reachable_inv [OF assms(1)] by (simp add: deposit_inv_def)
  have rows: "promotes env unspent now tip ?d (\<lambda>_. True) (promote_one env tip row) (\<lambda>_ _. True)"
    if "row \<in> set (candidates_by_state ?d DConfirming)" for row
    using ids that
  proof (rule candidates_by_state_row)
    fix r0
    assume "deposit_at ?d (dr_id row) = Some r0" "row = row_to_deposit r0"
    then show ?thesis using assms(6)
      by (intro promotes_one [OF assms(2-5) _ assms(7)]) (auto simp: row_to_deposit_def dest: row_at_Some)
  qed
  have "promotes env unspent now tip ?d (\<lambda>_. True) (efor (candidates_by_state ?d DConfirming) (promote_one env tip)) (\<lambda>_ _. True)"
    by (rule promo.keeps_for) (rule rows)
  moreover have "promoting env unspent now tip ?d ?d" using ids by (simp add: promoting_def)
  moreover have "efor (candidates_by_state ?d DConfirming) (promote_one env tip) s = (r, s')"
    using assms(8) by (simp add: promote_confirming_def ebind_def dquery_def)
  ultimately have "promoting env unspent now tip ?d (de_db s')" unfolding promo.triple_def by blast
  note after = this [unfolded promoting_def]
  have "justified env unspent tip r0" if "deposit_at ?d i = Some r0" "deposit_at (de_db s') i = Some r1"
      "cd_state r0 = ''Confirming''" "cd_state r1 = ''ReadyForSignature''" for i r0 r1
  proof -
    have "cd_state r0 = ''ReadyForSignature'' \<or> justified env unspent tip r0" using after that by blast
    with that(3) show ?thesis by simp
  qed
  with after show ?thesis by blast
qed

section \<open>Witness\<close>

abbreviation demo_confirming_tables :: deposit_db where
  "demo_confirming_tables \<equiv> demo_tables demo_blocks 101 (demo_row DConfirming None None)
     [deposit_log_entry 1 None ''Candidate'' 50 None 101, deposit_log_entry 1 (Some ''Candidate'') ''Confirming'' 50 None 101] [] []"

lemma demo_confirming_run:
  "ddb_run H empty_deposit_db [IngestBlock (demo_block 0 100) [], IngestBlock (demo_block 1 101) [demo_candidate],
     TransitionState 1 DConfirming 50 None None] demo_confirming_tables"
  by (simp add: ddb.run_Cons_iff ddb.run_Nil_iff ddb_step_def demo_ingest demo_transitions demo_blocks_def)

theorem promotion_justified_witness:
  "justified demo_ienv (\<lambda>_ _. True) 1 (demo_row DConfirming None None) \<and>
   ready_value (50 - 100) (deposit_candidates (de_db (snd (promote_confirming demo_ienv 1 (demo_at demo_confirming_tables))))) \<le> 1000"
proof -
  let ?s = "demo_at demo_confirming_tables"
  note reach = ddb.reachable_run [OF demo_empty_reachable demo_confirming_run [of "ie_sha256 demo_ienv"]]
  have row: "deposit_candidates demo_confirming_tables = [demo_row DConfirming None None]" by (simp add: demo_tables_def)
  note run = demo_promote_confirming [of ?s, OF demo_at_simps(1)]
  let ?s' = "snd (promote_confirming demo_ienv 1 ?s)"
  have rows: "deposit_candidates (de_db ?s') = [demo_row DReadyForSignature (Some 50) None]" unfolding run by (simp add: demo_tables_def)
  have "ddb_reachable (ie_sha256 demo_ienv) (de_db ?s)" using reach by simp
  moreover have "clock_until demo_ienv 50"
    by (simp add: clock_until_def demo_env_simps demo_icfg_def word_sle_eq)
  moreover have "recorded_value (deposit_candidates (de_db ?s)) < 2 ^ 64" "0 \<le> sint (1 :: i64)"
    "sint (1 :: i64) < 2 ^ 63 - 1" "\<forall>r \<in> set (deposit_candidates (de_db ?s)). 0 \<le> sint (cd_block_height r)"
    by (simp_all add: row) (simp_all add: recorded_value_def demo_row_def)
  moreover have "\<forall>t v w. case get_tx_out_confirmed demo_ienv t v w of (Ok (Some x), w') \<Rightarrow> True | _ \<Rightarrow> True"
    by (simp split: prod.splits result.splits option.splits)
  moreover have "promote_confirming demo_ienv 1 ?s = (Ok (), ?s')" by (simp add: run)
  ultimately have promoted: "(\<forall>i r0 r1. deposit_at (de_db ?s) i = Some r0 \<and> deposit_at (de_db ?s') i = Some r1 \<and>
       cd_state r0 = ''Confirming'' \<and> cd_state r1 = ''ReadyForSignature'' \<longrightarrow> justified demo_ienv (\<lambda>_ _. True) 1 r0) \<and>
     (map cd_ready_at (deposit_candidates (de_db ?s')) = map cd_ready_at (deposit_candidates (de_db ?s)) \<or>
       within_window demo_ienv 50 0 (de_db ?s'))"
    by (rule promotion_justified)
  have "deposit_at (de_db ?s) 1 = Some (demo_row DConfirming None None)"
    "deposit_at (de_db ?s') 1 = Some (demo_row DReadyForSignature (Some 50) None)"
    unfolding rows by (simp_all add: row) (simp_all add: row_at_def demo_row_def)
  moreover have "cd_state (demo_row DConfirming None None) = ''Confirming''"
    "cd_state (demo_row DReadyForSignature (Some 50) None) = ''ReadyForSignature''" by (simp_all add: demo_row_def)
  ultimately have "justified demo_ienv (\<lambda>_ _. True) 1 (demo_row DConfirming None None)"
    using conjunct1 [OF promoted] by blast
  moreover have "within_window demo_ienv 50 0 (de_db ?s')"
    using conjunct2 [OF promoted] unfolding rows by (simp add: row) (simp add: demo_row_def)
  ultimately show ?thesis by (simp add: within_window_def demo_env_simps demo_icfg_def)
qed

end
