(* ===== verification/PayoutSigner.thy ===== *)
theory PayoutSigner
  imports Executor Multisig WithdrawalStore
begin

text \<open>
  The payout half of a validator's signer (\<open>p2p/payout_view.rs\<close>): what it signs with its vault
  key.  A proposal for a withdrawal it has not built itself is adopted after a check against its
  own tables; then the integrity guard of the database, the designated quorum and the two
  comparisons with the request decide.  The signer's own node produces the partial signature; it
  is the environment's, as is the text of an error.
\<close>

section \<open>The view\<close>

datatype payout_refusal =
    UnknownWithdrawal u64
  | NotSignable u64 string
  | QuorumAttemptMismatch u32 u32
  | IntentMismatch u64
  | UnsignedTxMismatch u64
  | NotDesignated u64 u32
  | PayoutIntegrityHalted u64 bytes
  | SigningFailed bytes
  | MalformedPartial bytes
  | PayoutIndexOutOfRange u64
  | NotTheDesignatedBuilder u64 nat
  | InputNotLocallyAvailable u64 bytes
  | InputAmountMismatch u64 bytes u64 u64
  | DestinationMismatch u64
  | AmountMismatch u64 u64 u64

record payout_partial =
  pt_vault_pubkey :: bytes33
  pt_signatures :: "bytes list"

record prev_tx =
  px_txid :: bytes
  px_vout :: i64
  px_script_pub_key :: bytes
  px_redeem_script :: bytes

record 'w payout_view =
  pv_sha256 :: sha256
  pv_config :: withdrawal_config
  pv_vault_signer_index :: u8
  pv_assignment :: "operator_assignment option"
  sign_partial :: "bytes \<Rightarrow> prev_tx list \<Rightarrow> 'w \<Rightarrow> (bytes, bytes) result \<times> 'w"
  pv_show_db_error :: "db_error \<Rightarrow> bytes"
  pv_show_multisig_error :: "multisig_error \<Rightarrow> bytes"
  pv_show_hex_error :: "hex_error \<Rightarrow> bytes"

abbreviation pv_vault :: "'w payout_view \<Rightarrow> multisig_vault" where
  "pv_vault v \<equiv> wc_vault (pv_config v)"

text \<open>The constructor refuses a position outside the vault.\<close>

definition payout_view_new :: "withdrawal_config \<Rightarrow> u8 \<Rightarrow> bool" where
  "payout_view_new cfg vault_signer_index \<longleftrightarrow> unat vault_signer_index < length (mv_signer_pubkeys (wc_vault cfg))"

definition proposal_is_timely :: "'w payout_view \<Rightarrow> u64 \<Rightarrow> nat \<Rightarrow> i64 \<Rightarrow> i64 \<Rightarrow> bool" where
  "proposal_is_timely v index proposer observed_at now =
     (case pv_assignment v of None \<Rightarrow> True | Some a \<Rightarrow> may_propose a proposer index observed_at now)"

definition view_vault_pubkey :: "'w payout_view \<Rightarrow> bytes33" where
  "view_vault_pubkey v = mv_signer_pubkeys (pv_vault v) ! unat (pv_vault_signer_index v)"

section \<open>State\<close>

record 'w signer_state =
  sg_db :: withdrawal_db
  sg_world :: 'w

type_synonym ('w, 'a) pv = "('w signer_state, 'a, payout_refusal) io"

definition pvdb :: "(db_error \<Rightarrow> payout_refusal) \<Rightarrow> ('a, withdrawal_db) db_op \<Rightarrow> ('w, 'a) pv" where
  "pvdb wrap m s = (case m (sg_db s) of (r, d) \<Rightarrow> (map_err wrap r, s\<lparr>sg_db := d\<rparr>))"

definition pvquery :: "(withdrawal_db \<Rightarrow> ('a, payout_refusal) result) \<Rightarrow> ('w, 'a) pv" where
  "pvquery q s = (q (sg_db s), s)"

definition pvworld :: "('w \<Rightarrow> ('a, payout_refusal) result \<times> 'w) \<Rightarrow> ('w, 'a) pv" where
  "pvworld call s = (case call (sg_world s) of (r, w) \<Rightarrow> (r, s\<lparr>sg_world := w\<rparr>))"

section \<open>Adopting a proposal\<close>

text \<open>Inputs are matched by the hexadecimal txid in display order; sums are modulo \<open>2^64\<close>.\<close>

definition display_txid :: "tx_input \<Rightarrow> bytes" where
  "display_txid vin = hex_encode (rev (le_bytes (ti_prev_txid vin)))"

fun adopt_inputs :: "vault_utxo list \<Rightarrow> u64 \<Rightarrow> tx_input list \<Rightarrow> (vault_utxo list, payout_refusal) result" where
  "adopt_inputs available idx [] = Ok []"
| "adopt_inputs available idx (vin # vins) =
     (let outpoint = display_txid vin @ ascii '':'' @ decimal (unat (ti_prev_vout vin)) in
      and_then (ok_or (InputNotLocallyAvailable idx outpoint)
        (find (\<lambda>u. vu_txid_hex u = display_txid vin \<and> vu_vout u = ucast (ti_prev_vout vin)) available)) (\<lambda>found.
      and_then (adopt_inputs available idx vins) (\<lambda>inputs. Ok (found # inputs))))"

definition sum_values :: "u64 list \<Rightarrow> u64" where
  "sum_values xs = sum_list xs"

definition adopted_payout ::
  "'w payout_view \<Rightarrow> withdrawal_row \<Rightarrow> bytes \<Rightarrow> i64 \<Rightarrow> u64 \<Rightarrow> u64 \<Rightarrow> u64 \<Rightarrow> vault_utxo list \<Rightarrow> new_payout" where
  "adopted_payout v w unsigned_tx_hex now paid fee change inputs =
     (let vault = pv_vault v; change_hash160 = wc_change_hash160 (pv_config v);
          quorum = designate_quorum (wrow_index w) (signer_count vault) (mv_threshold vault);
          intent = canonical_payout_intent (wrow_protocol_version w) (wrow_index w) (mv_script_hash160 vault)
            (wrow_hash160 w) paid fee change change_hash160 0 quorum inputs
      in \<lparr>np_index = wrow_index w, np_vault_script_hash = mv_script_hash160 vault, np_quorum_indices = quorum,
          np_quorum_attempt = 0, np_commitment_hash = payout_commitment (pv_sha256 v) intent,
          np_intent_bytes = intent, np_fee_atomic = fee, np_payout_atomic = paid, np_change_atomic = change,
          np_change_address = Some (encode_p2pkh (pv_sha256 v) change_hash160),
          np_unsigned_tx_hex = unsigned_tx_hex, np_inputs = inputs, np_built_at = now\<rparr>)"

definition adopt_proposal :: "'w payout_view \<Rightarrow> withdrawal_row \<Rightarrow> bytes \<Rightarrow> i64 \<Rightarrow> ('w, unit) pv" where
  "adopt_proposal v w unsigned_tx_hex now =
     (let index = wrow_index w; cfg = pv_config v;
          halted = (\<lambda>prefix e. PayoutIntegrityHalted index (prefix @ pv_show_db_error v e)) in
      ebind (elift (map_err (\<lambda>e. MalformedPartial (ascii ''proposed transaction is unparseable: '' @ pv_show_multisig_error v e))
        (parse_hex unsigned_tx_hex))) (\<lambda>tx.
      ebind (pvquery (\<lambda>d. Ok (available_utxos d (wc_vault_min_confirmations cfg)))) (\<lambda>available.
      ebind (elift (adopt_inputs available index (tx_inputs tx))) (\<lambda>inputs.
      ebind (elift (map_err (\<lambda>e. MalformedPartial (pv_show_hex_error v e))
        (decode_vec (p2pkh_script_hex (wrow_hash160 w))))) (\<lambda>dest_script.
      let paid = sum_values (map to_value (filter (\<lambda>out. to_script_pubkey out = dest_script) (tx_outputs tx))) in
      if paid = 0 then elift (Err (DestinationMismatch index))
      else if paid \<noteq> wrow_amount_atomic w then elift (Err (AmountMismatch index paid (wrow_amount_atomic w)))
      else
      let total_in = sum_values (map vu_amount_atomic inputs);
          total_out = sum_values (map to_value (tx_outputs tx));
          fee = saturating_sub total_in total_out;
          change = sum_values (map to_value (filter (\<lambda>out. to_script_pubkey out \<noteq> dest_script) (tx_outputs tx))) in
      ebind (pvdb (halted (ascii ''could not reserve the proposed inputs: '')) (reserve_utxos index inputs now)) (\<lambda>_.
      ebind (pvdb (halted (ascii ''could not persist the adopted payout: '')) (create_payout
        (adopted_payout v w unsigned_tx_hex now paid fee change inputs))) (\<lambda>_.
      ebind (if wrow_state w = WAwaitingFunds
             then pvdb (halted []) (transition_withdrawal index WValidated now None) else eret ()) (\<lambda>_.
      ebind (pvdb (halted []) (transition_withdrawal index WBuilding now None)) (\<lambda>_.
      pvdb (halted []) (transition_withdrawal index WSigning now None))))))))))"

section \<open>Signing\<close>

definition require_row :: "'w payout_view \<Rightarrow> u64 \<Rightarrow> ('w, withdrawal_row) pv" where
  "require_row v withdrawal_index = pvquery (\<lambda>d.
     and_then (map_err (\<lambda>e. PayoutIntegrityHalted withdrawal_index (pv_show_db_error v e))
       (get_withdrawal d withdrawal_index)) (ok_or (UnknownWithdrawal withdrawal_index)))"

definition view_sign_payout ::
  "'w payout_view \<Rightarrow> u64 \<Rightarrow> u32 \<Rightarrow> bytes \<Rightarrow> bytes \<Rightarrow> nat \<Rightarrow> i64 \<Rightarrow> ('w, payout_partial) pv" where
  "view_sign_payout v withdrawal_index quorum_attempt canonical_intent unsigned_tx_hex proposer_index now =
     (let halted = (\<lambda>e. PayoutIntegrityHalted withdrawal_index (pv_show_db_error v e)) in
      if withdrawal_index <s 0 then elift (Err (PayoutIndexOutOfRange withdrawal_index))
      else ebind (require_row v withdrawal_index) (\<lambda>w.
      ebind (pvquery (\<lambda>d. map_err halted (withdrawal_eligible_since d withdrawal_index))) (\<lambda>eligible_since.
      if \<not> proposal_is_timely v withdrawal_index proposer_index eligible_since now
        then elift (Err (NotTheDesignatedBuilder withdrawal_index proposer_index))
      else
      ebind (if wrow_state w = WValidated \<or> wrow_state w = WAwaitingFunds
             then adopt_proposal v w unsigned_tx_hex now else eret ()) (\<lambda>_.
      ebind (require_row v withdrawal_index) (\<lambda>w.
      if \<not> (wrow_state w = WBuilding \<or> wrow_state w = WSigning)
        then elift (Err (NotSignable withdrawal_index (ws_as_str (wrow_state w))))
      else
      ebind (pvdb halted (verify_and_load_signable_payout (pv_sha256 v) withdrawal_index now)) (\<lambda>signable.
      if sp_quorum_attempt signable \<noteq> quorum_attempt
        then elift (Err (QuorumAttemptMismatch quorum_attempt (sp_quorum_attempt signable)))
      else if pv_vault_signer_index v \<notin> set (sp_quorum_indices signable)
        then elift (Err (NotDesignated withdrawal_index quorum_attempt))
      else if sp_intent_bytes signable \<noteq> canonical_intent
        then elift (Err (IntentMismatch withdrawal_index))
      else if sp_unsigned_tx_hex signable \<noteq> unsigned_tx_hex
        then elift (Err (UnsignedTxMismatch withdrawal_index))
      else
      ebind (pvworld (\<lambda>w. map_prod (map_err SigningFailed) id (sign_partial v (sp_unsigned_tx_hex signable)
        (map (\<lambda>u. \<lparr>px_txid = vu_txid_hex u, px_vout = vu_vout u, px_script_pub_key = vu_script_pubkey_hex u,
           px_redeem_script = redeem_script_hex (pv_vault v)\<rparr>) (sp_inputs signable)) w))) (\<lambda>partial_hex.
      ebind (elift (map_err (\<lambda>e. MalformedPartial (pv_show_multisig_error v e)) (parse_hex partial_hex))) (\<lambda>partial.
      ebind (elift (map_err (\<lambda>e. MalformedPartial (pv_show_multisig_error v e))
        (extract_signatures partial (mv_redeem_script (pv_vault v))))) (\<lambda>signatures.
      eret \<lparr>pt_vault_pubkey = view_vault_pubkey v, pt_signatures = signatures\<rparr>)))))))))"

end
