(* ===== verification/PayoutAdoption.thy ===== *)
theory PayoutAdoption
  imports PayoutSigner
begin

text \<open>
  What a validator guarantees when it signs a payout it adopted from another operator, and what it
  does not: the outputs besides the withdrawal's own are only looked at as a total, so neither the
  destination of the change nor the fee is bound.
\<close>

section \<open>Proposals that differ in their bytes only\<close>

definition rehex :: "i64 \<Rightarrow> bytes \<Rightarrow> withdrawal_db \<Rightarrow> withdrawal_db" where
  "rehex i h d = update_payout i (\<lambda>r. r\<lparr>wp_unsigned_tx_hex := h\<rparr>) d"

lemma rehex_tables [simp]:
  "withdrawal_requests (rehex i h d) = withdrawal_requests d" "vault_utxos (rehex i h d) = vault_utxos d"
  "withdrawal_payout_inputs (rehex i h d) = withdrawal_payout_inputs d"
  "withdrawal_state_log (rehex i h d) = withdrawal_state_log d"
  by (simp_all add: rehex_def)

lemma rehex_payout: "payout_at (rehex i h d) i = map_option (\<lambda>r. r\<lparr>wp_unsigned_tx_hex := h\<rparr>) (payout_at d i)"
  by (cases "payout_at d i") (auto simp: rehex_def row_at_update dest: row_at_Some)

lemma update_absent: "row_at key k rows = None \<Longrightarrow> update_where (\<lambda>r. key r = k) f rows = rows"
  by (induction rows) (auto split: if_splits)

lemma create_rehex:
  assumes "create_payout p d = (Ok (), d')"
  shows "create_payout (p\<lparr>np_unsigned_tx_hex := h\<rparr>) d = (Ok (), rehex (np_index p) h d')"
proof -
  have "payout_at d (np_index p) = None" using assms by (simp add: create_payout_def split: if_splits)
  then have absent: "update_where (\<lambda>r. wp_index r = np_index p) f (withdrawal_payouts d) = withdrawal_payouts d" for f
    by (rule update_absent)
  have append: "update_where P f (xs @ ys) = update_where P f xs @ update_where P f ys" for P and f :: "withdrawal_payout_row \<Rightarrow> _" and xs ys
    by (simp add: update_where_def)
  from assms show ?thesis
    by (auto simp: create_payout_def rehex_def new_payout_row_def transact_Ok append absent split: if_splits)
qed

lemma transition_rehex:
  assumes "transition_withdrawal j to at reason d = (Ok u, d')"
  shows "transition_withdrawal j to at reason (rehex i h d) = (Ok u, rehex i h d')"
  using assms by (auto simp: transition_withdrawal_def transact_Ok insert_log_def Let_def rehex_def split: if_splits)

lemma check_rehex: "check_committed (rehex i h d) j cs = check_committed d j cs"
  by (induction cs) (simp_all only: check_committed.simps rehex_tables)

lemma verify_rehex:
  assumes "verify_and_load_signable_payout H i at d = (Ok sp, d')"
  shows "verify_and_load_signable_payout H i at (rehex i h d) = (Ok (sp\<lparr>sp_unsigned_tx_hex := h\<rparr>), rehex i h d')"
  using assms
  by (auto simp: verify_and_load_signable_payout_def rehex_payout check_rehex input_rows_def change_hash160_of_def Let_def
      split: option.splits if_splits result.splits)

section \<open>Adoption\<close>

lemma pvdb_Ok: "pvdb wrap m s = (Ok x, s') \<longleftrightarrow> (\<exists>d. m (sg_db s) = (Ok x, d) \<and> s' = s\<lparr>sg_db := d\<rparr>)"
  by (auto simp: pvdb_def split: prod.splits)

lemma bind_db_Ok:
  "ebind (pvdb wrap m) f s = (Ok y, s') \<longleftrightarrow> (\<exists>x d. m (sg_db s) = (Ok x, d) \<and> f x (s\<lparr>sg_db := d\<rparr>) = (Ok y, s'))"
  by (auto simp: ebind_Ok pvdb_Ok)

lemma bind_query_Ok: "ebind (pvquery q) f s = (Ok y, s') \<longleftrightarrow> (\<exists>x. q (sg_db s) = Ok x \<and> f x s = (Ok y, s'))"
  by (auto simp: ebind_Ok pvquery_def)

lemma bind_lift_Ok: "ebind (elift r) f s = (Ok y, s') \<longleftrightarrow> (\<exists>x. r = Ok x \<and> f x s = (Ok y, s'))"
  by (auto simp: ebind_Ok elift_def)

lemma bind_when_Ok:
  "ebind (if c then pvdb wrap m else eret ()) f s = (Ok y, s') \<longleftrightarrow>
     (\<exists>d. (if c then m (sg_db s) = (Ok (), d) else d = sg_db s) \<and> f () (s\<lparr>sg_db := d\<rparr>) = (Ok y, s'))"
  by (auto simp: ebind_Ok pvdb_Ok eret_def)

lemma eguard_Ok: "(if c then elift (Err e) else m) s = (Ok x, s') \<longleftrightarrow> \<not> c \<and> m s = (Ok x, s')"
  by (simp add: elift_def)

lemmas pv_Ok = bind_db_Ok bind_query_Ok bind_lift_Ok bind_when_Ok eguard_Ok pvdb_Ok

definition p2pkh_script :: "bytes20 \<Rightarrow> bytes" where
  "p2pkh_script h = [0x76, 0xa9, 0x14] @ le_bytes h @ [0x88, 0xac]"

lemma decode_p2pkh_script: "decode_vec (p2pkh_script_hex h) = Ok (p2pkh_script h)"
proof -
  have "p2pkh_script_hex h = hex_encode (p2pkh_script h)"
    by (simp add: p2pkh_script_hex_def p2pkh_script_def hex_digit_def ascii_def)
  then show ?thesis by (simp add: decode_vec_encode)
qed

definition paid_to :: "bytes \<Rightarrow> transaction \<Rightarrow> u64 list" where
  "paid_to script tx = map to_value (filter (\<lambda>out. to_script_pubkey out = script) (tx_outputs tx))"

definition paid_elsewhere :: "bytes \<Rightarrow> transaction \<Rightarrow> u64 list" where
  "paid_elsewhere script tx = map to_value (filter (\<lambda>out. to_script_pubkey out \<noteq> script) (tx_outputs tx))"

lemma adopt_Ok:
  "adopt_proposal v w hex now s = (Ok (), s') \<longleftrightarrow>
    (\<exists>tx inputs paid total_in total_out change d1 d2 d3 d4 d5.
      parse_hex hex = Ok tx \<and>
      adopt_inputs (available_utxos (sg_db s) (wc_vault_min_confirmations (pv_config v))) (wrow_index w) (tx_inputs tx) = Ok inputs \<and>
      sum_values (paid_to (p2pkh_script (wrow_hash160 w)) tx) = paid \<and> paid \<noteq> 0 \<and> paid = wrow_amount_atomic w \<and>
      sum_values (map vu_amount_atomic inputs) = total_in \<and> sum_values (map to_value (tx_outputs tx)) = total_out \<and>
      sum_values (paid_elsewhere (p2pkh_script (wrow_hash160 w)) tx) = change \<and>
      reserve_utxos (wrow_index w) inputs now (sg_db s) = (Ok (), d1) \<and>
      create_payout (adopted_payout v w hex now paid (saturating_sub total_in total_out) change inputs) d1 = (Ok (), d2) \<and>
      (if wrow_state w = WAwaitingFunds then transition_withdrawal (wrow_index w) WValidated now None d2 = (Ok (), d3) else d3 = d2) \<and>
      transition_withdrawal (wrow_index w) WBuilding now None d3 = (Ok (), d4) \<and>
      transition_withdrawal (wrow_index w) WSigning now None d4 = (Ok (), d5) \<and> s' = s\<lparr>sg_db := d5\<rparr>)"
  unfolding adopt_proposal_def Let_def
  by (simp add: pv_Ok decode_p2pkh_script flip: paid_to_def paid_elsewhere_def split del: if_split cong: if_cong)

lemma adoptI:
  assumes "parse_hex hex = Ok tx"
    and "adopt_inputs (available_utxos (sg_db s) (wc_vault_min_confirmations (pv_config v))) (wrow_index w) (tx_inputs tx) = Ok inputs"
    and "sum_values (paid_to (p2pkh_script (wrow_hash160 w)) tx) = paid" "paid \<noteq> 0" "paid = wrow_amount_atomic w"
    and "sum_values (map vu_amount_atomic inputs) = total_in" "sum_values (map to_value (tx_outputs tx)) = total_out"
    and "sum_values (paid_elsewhere (p2pkh_script (wrow_hash160 w)) tx) = change"
    and "reserve_utxos (wrow_index w) inputs now (sg_db s) = (Ok (), d1)"
    and "create_payout (adopted_payout v w hex now paid (saturating_sub total_in total_out) change inputs) d1 = (Ok (), d2)"
    and "if wrow_state w = WAwaitingFunds then transition_withdrawal (wrow_index w) WValidated now None d2 = (Ok (), d3) else d3 = d2"
    and "transition_withdrawal (wrow_index w) WBuilding now None d3 = (Ok (), d4)"
    and "transition_withdrawal (wrow_index w) WSigning now None d4 = (Ok (), d5)"
  shows "adopt_proposal v w hex now s = (Ok (), s\<lparr>sg_db := d5\<rparr>)"
  unfolding adopt_Ok using assms by blast

text \<open>A transaction that sends everything but the withdrawal's own outputs to another script.\<close>

definition redirect :: "bytes \<Rightarrow> bytes \<Rightarrow> transaction \<Rightarrow> transaction" where
  "redirect dest thief tx = tx\<lparr>tx_outputs := map (\<lambda>out. if to_script_pubkey out = dest then out
     else out\<lparr>to_script_pubkey := thief\<rparr>) (tx_outputs tx)\<rparr>"

lemma redirect_values:
  assumes "thief \<noteq> dest"
  shows "paid_to dest (redirect dest thief tx) = paid_to dest tx"
    "paid_elsewhere dest (redirect dest thief tx) = paid_elsewhere dest tx"
    "map to_value (tx_outputs (redirect dest thief tx)) = map to_value (tx_outputs tx)"
    "tx_inputs (redirect dest thief tx) = tx_inputs tx"
proof -
  have *: "map to_value (filter (\<lambda>out. to_script_pubkey out = dest) (map f outs)) = map to_value (filter (\<lambda>out. to_script_pubkey out = dest) outs)"
    "map to_value (filter (\<lambda>out. to_script_pubkey out \<noteq> dest) (map f outs)) = map to_value (filter (\<lambda>out. to_script_pubkey out \<noteq> dest) outs)"
    if "f = (\<lambda>out. if to_script_pubkey out = dest then out else out\<lparr>to_script_pubkey := thief\<rparr>)" for f outs
    using assms unfolding that by (induction outs) auto
  show "paid_to dest (redirect dest thief tx) = paid_to dest tx"
    "paid_elsewhere dest (redirect dest thief tx) = paid_elsewhere dest tx"
    unfolding redirect_def paid_to_def paid_elsewhere_def by (simp_all add: * [OF refl])
qed (simp_all add: redirect_def)

lemma adopted_payout_hex:
  "adopted_payout v w hex' now paid fee change inputs = (adopted_payout v w hex now paid fee change inputs)\<lparr>np_unsigned_tx_hex := hex'\<rparr>"
  "np_index (adopted_payout v w hex now paid fee change inputs) = wrow_index w"
  by (simp_all add: adopted_payout_def Let_def)

lemma adopt_redirected:
  assumes "adopt_proposal v w hex now s = (Ok (), s1)" "parse_hex hex = Ok tx" "parse_hex hex' = Ok (redirect dest thief tx)"
    and "dest = p2pkh_script (wrow_hash160 w)" "thief \<noteq> dest"
  shows "adopt_proposal v w hex' now s = (Ok (), s1\<lparr>sg_db := rehex (wrow_index w) hex' (sg_db s1)\<rparr>)"
proof -
  from assms(1,2) obtain inputs paid total_in total_out change d1 d2 d3 d4 d5 where
    a: "adopt_inputs (available_utxos (sg_db s) (wc_vault_min_confirmations (pv_config v))) (wrow_index w) (tx_inputs tx) = Ok inputs"
      "sum_values (paid_to dest tx) = paid" "paid \<noteq> 0" "paid = wrow_amount_atomic w"
      "sum_values (map vu_amount_atomic inputs) = total_in" "sum_values (map to_value (tx_outputs tx)) = total_out"
      "sum_values (paid_elsewhere dest tx) = change"
      "reserve_utxos (wrow_index w) inputs now (sg_db s) = (Ok (), d1)"
    and create: "create_payout (adopted_payout v w hex now paid (saturating_sub total_in total_out) change inputs) d1 = (Ok (), d2)"
    and t: "if wrow_state w = WAwaitingFunds then transition_withdrawal (wrow_index w) WValidated now None d2 = (Ok (), d3) else d3 = d2"
      "transition_withdrawal (wrow_index w) WBuilding now None d3 = (Ok (), d4)"
      "transition_withdrawal (wrow_index w) WSigning now None d4 = (Ok (), d5)" and s1: "s1 = s\<lparr>sg_db := d5\<rparr>"
    unfolding adopt_Ok assms(4) by auto
  let ?r = "rehex (wrow_index w) hex'"
  have "create_payout (adopted_payout v w hex' now paid (saturating_sub total_in total_out) change inputs) d1 = (Ok (), ?r d2)"
    using create_rehex [OF create, of hex']
    by (simp only: adopted_payout_hex(2) adopted_payout_hex(1) [where hex' = hex' and hex = hex])
  moreover have "if wrow_state w = WAwaitingFunds then transition_withdrawal (wrow_index w) WValidated now None (?r d2) = (Ok (), ?r d3) else ?r d3 = ?r d2"
    using t(1) transition_rehex [of "wrow_index w" WValidated now None d2 "()" d3 "wrow_index w" hex'] by presburger
  moreover note a(8)
  ultimately have "adopt_proposal v w hex' now s = (Ok (), s\<lparr>sg_db := ?r d5\<rparr>)"
    using a(1-7) transition_rehex [OF t(2), of "wrow_index w" hex'] transition_rehex [OF t(3), of "wrow_index w" hex']
    by (intro adoptI [OF assms(3)]) (simp_all only: redirect_values [OF assms(5)] not_False_eq_True flip: assms(4))
  then show ?thesis by (simp add: s1)
qed

section \<open>Signing an adopted payout\<close>

text \<open>The signer's node holds a vault key; this is what the signer needs of its answer.\<close>

definition node_signs :: "'w payout_view \<Rightarrow> bytes \<Rightarrow> prev_tx list \<Rightarrow> 'w \<Rightarrow> bool" where
  "node_signs v hex prevs w \<longleftrightarrow> (\<exists>partial tx sigs w'. sign_partial v hex prevs w = (Ok partial, w') \<and>
     parse_hex partial = Ok tx \<and> extract_signatures tx (mv_redeem_script (pv_vault v)) = Ok sigs)"

text \<open>Wherever the node signs the first transaction it signs the second one too.\<close>

definition signs_alike :: "'w payout_view \<Rightarrow> transaction \<Rightarrow> transaction \<Rightarrow> bool" where
  "signs_alike v tx tx' \<longleftrightarrow> (\<forall>prevs w. node_signs v (serialize_hex tx) prevs w \<longrightarrow> node_signs v (serialize_hex tx') prevs w)"

lemma require_row_Ok:
  "require_row v i s = (Ok w, s') \<longleftrightarrow> get_withdrawal (sg_db s) i = Ok (Some w) \<and> s' = s"
  by (auto simp: require_row_def pvquery_def)

lemma get_withdrawal_index: "get_withdrawal d i = Ok (Some w) \<Longrightarrow> wrow_index w = i"
  by (auto simp: get_withdrawal_def row_to_withdrawal_def split: option.splits dest: row_at_Some)

lemma sign_adopted:
  assumes "get_withdrawal (sg_db s) i = Ok (Some w)" "wrow_state w = WValidated \<or> wrow_state w = WAwaitingFunds"
  shows "(\<exists>p s'. view_sign_payout v i attempt intent hex proposer now s = (Ok p, s')) \<longleftrightarrow>
    \<not> i <s 0 \<and> (\<exists>since. withdrawal_eligible_since (sg_db s) i = Ok since \<and> proposal_is_timely v i proposer since now) \<and>
    (\<exists>s1 w1 sp d2. adopt_proposal v w hex now s = (Ok (), s1) \<and> get_withdrawal (sg_db s1) i = Ok (Some w1) \<and>
      (wrow_state w1 = WBuilding \<or> wrow_state w1 = WSigning) \<and>
      verify_and_load_signable_payout (pv_sha256 v) i now (sg_db s1) = (Ok sp, d2) \<and>
      sp_quorum_attempt sp = attempt \<and> pv_vault_signer_index v \<in> set (sp_quorum_indices sp) \<and>
      sp_intent_bytes sp = intent \<and> sp_unsigned_tx_hex sp = hex \<and>
      node_signs v hex (map (\<lambda>u. \<lparr>px_txid = vu_txid_hex u, px_vout = vu_vout u,
         px_script_pub_key = vu_script_pubkey_hex u, px_redeem_script = redeem_script_hex (pv_vault v)\<rparr>) (sp_inputs sp)) (sg_world s1))"
proof -
  have world: "ebind (pvworld (\<lambda>w. map_prod (map_err SigningFailed) id (f w))) g s = (Ok y, s') \<longleftrightarrow>
      (\<exists>x w'. f (sg_world s) = (Ok x, w') \<and> g x (s\<lparr>sg_world := w'\<rparr>) = (Ok y, s'))" for f g s y s'
    by (cases "f (sg_world s)") (auto simp: ebind_Ok pvworld_def)
  have adopt: "(if wrow_state w = WValidated \<or> wrow_state w = WAwaitingFunds then m else m') = m" for m m' using assms(2) by simp
  have row: "ebind (require_row v i) f t = (Ok y, t') \<longleftrightarrow> (\<exists>w. get_withdrawal (sg_db t) i = Ok (Some w) \<and> f w t = (Ok y, t'))" for f t y t'
    by (auto simp: ebind_Ok require_row_Ok)
  show ?thesis
    unfolding view_sign_payout_def Let_def node_signs_def
    by (simp add: eguard_Ok row assms(1) adopt bind_query_Ok bind_db_Ok bind_lift_Ok world ebind_Ok [of "adopt_proposal v w hex now"]
        eret_def split del: if_split) auto
qed

lemma adopt_inputs_Ok:
  "adopt_inputs available idx vins = Ok us \<Longrightarrow> list_all2 (\<lambda>vin u. u \<in> set available \<and> vu_txid_hex u = display_txid vin \<and>
     vu_vout u = ucast (ti_prev_vout vin)) vins us"
  by (induction vins arbitrary: us) (auto simp: find_Some_iff Let_def)

text \<open>
  C33: A validator signs a payout another operator proposed only when the proposal is timely, every
  input is an available output of its own vault table, the outputs to the recorded destination
  sum to the burned amount modulo \<open>2^64\<close>, as the code adds them up, and so are exactly the burned
  amount when they are worth less than \<open>2^64\<close>, and it is a member of the designated quorum.
\<close>

theorem adopted_payout_exact:
  assumes signed: "view_sign_payout v i attempt intent hex proposer now s = (Ok p, s')"
    and row: "get_withdrawal (sg_db s) i = Ok (Some w)" "wrow_state w = WValidated \<or> wrow_state w = WAwaitingFunds"
  shows "\<exists>tx us. parse_hex hex = Ok tx \<and>
     list_all2 (\<lambda>vin u. u \<in> set (available_utxos (sg_db s) (wc_vault_min_confirmations (pv_config v))) \<and>
       vu_txid_hex u = display_txid vin \<and> vu_vout u = ucast (ti_prev_vout vin)) (tx_inputs tx) us \<and>
     sum_list (map unat (paid_to (p2pkh_script (wrow_hash160 w)) tx)) mod 2 ^ 64 = unat (wrow_amount_atomic w) \<and>
     (sum_list (map unat (paid_to (p2pkh_script (wrow_hash160 w)) tx)) < 2 ^ 64 \<longrightarrow>
       sum_list (map unat (paid_to (p2pkh_script (wrow_hash160 w)) tx)) = unat (wrow_amount_atomic w)) \<and>
     pv_vault_signer_index v \<in> set (designate_quorum i (signer_count (pv_vault v)) (mv_threshold (pv_vault v))) \<and>
     (\<exists>since. withdrawal_eligible_since (sg_db s) i = Ok since \<and> proposal_is_timely v i proposer since now)"
proof -
  have "\<exists>p s'. view_sign_payout v i attempt intent hex proposer now s = (Ok p, s')" using signed by blast
  note ok = this [unfolded sign_adopted [OF row]]
  then obtain s1 sp d2 where adopt: "adopt_proposal v w hex now s = (Ok (), s1)"
    and verify: "verify_and_load_signable_payout (pv_sha256 v) i now (sg_db s1) = (Ok sp, d2)"
    and member: "pv_vault_signer_index v \<in> set (sp_quorum_indices sp)" by blast
  from adopt [unfolded adopt_Ok] obtain tx inputs d1 d2 d3 d4 d5 paid fee change where
    tx: "parse_hex hex = Ok tx" and
    ins: "adopt_inputs (available_utxos (sg_db s) (wc_vault_min_confirmations (pv_config v))) (wrow_index w) (tx_inputs tx) = Ok inputs" and
    paid: "sum_values (paid_to (p2pkh_script (wrow_hash160 w)) tx) = wrow_amount_atomic w" and
    create: "create_payout (adopted_payout v w hex now paid fee change inputs) d1 = (Ok (), d2)" and
    t: "if wrow_state w = WAwaitingFunds then transition_withdrawal (wrow_index w) WValidated now None d2 = (Ok (), d3) else d3 = d2"
      "transition_withdrawal (wrow_index w) WBuilding now None d3 = (Ok (), d4)"
      "transition_withdrawal (wrow_index w) WSigning now None d4 = (Ok (), d5)" and s1: "s1 = s\<lparr>sg_db := d5\<rparr>"
    by blast
  have same: "payout_at d' j = payout_at d j" if "transition_withdrawal k to now None d = (Ok (), d')" for k to d d' j
    using that by (auto simp: transition_withdrawal_def transact_Ok insert_log_def Let_def split: if_splits)
  have "payout_at d2 i = Some (new_payout_row (adopted_payout v w hex now paid fee change inputs))"
    using create get_withdrawal_index [OF row(1)]
    by (auto simp: create_payout_def transact_Ok adopted_payout_hex row_at_append new_payout_row_def split: if_splits)
  moreover have "payout_at d3 i = payout_at d2 i" using t(1) same [of "wrow_index w" WValidated d2 d3 i] by presburger
  ultimately have "payout_at d5 i = Some (new_payout_row (adopted_payout v w hex now paid fee change inputs))"
    using same [OF t(2)] same [OF t(3)] by simp
  then have "sp_quorum_indices sp = designate_quorum i (signer_count (pv_vault v)) (mv_threshold (pv_vault v))"
    using verify get_withdrawal_index [OF row(1)] unfolding s1
    by (auto simp: verify_and_load_signable_payout_def new_payout_row_def adopted_payout_def Let_def
        split: option.splits if_splits result.splits)
  moreover have "sum_list (map unat (paid_to (p2pkh_script (wrow_hash160 w)) tx)) mod 2 ^ 64 = unat (wrow_amount_atomic w)"
    unfolding paid [symmetric] by (simp add: sum_values_def unat_sum_list)
  ultimately show ?thesis using tx adopt_inputs_Ok [OF ins] member ok by auto
qed

text \<open>
  C34: A validator that signs a payout proposed by another operator does not bind where the change
  goes: whenever it signs a proposal, it signs every proposal that spends the same inputs and pays
  the withdrawal the same, with all the rest sent to any other script, for the same canonical
  intent.  Of the node only this is assumed, that it signs the redirected transaction where it
  signs the original one, with the same previous outputs.
\<close>

theorem adopted_change_unbound:
  assumes signed: "view_sign_payout v i attempt intent (serialize_hex tx) proposer now s = (Ok p, s')"
    and row: "get_withdrawal (sg_db s) i = Ok (Some w)" "wrow_state w = WValidated \<or> wrow_state w = WAwaitingFunds"
    and tx: "wf_transaction tx" "fits_usize thief" "thief \<noteq> p2pkh_script (wrow_hash160 w)"
    and node: "signs_alike v tx (redirect (p2pkh_script (wrow_hash160 w)) thief tx)"
  shows "\<exists>p' s''. view_sign_payout v i attempt intent (serialize_hex (redirect (p2pkh_script (wrow_hash160 w)) thief tx))
     proposer now s = (Ok p', s'')"
proof -
  let ?tx = "redirect (p2pkh_script (wrow_hash160 w)) thief tx"
  let ?hex = "serialize_hex ?tx"
  have wf: "wf_transaction ?tx" using tx(1,2) by (auto simp: wf_transaction_def redirect_def)
  have parse: "parse_hex (serialize_hex tx) = Ok tx" "parse_hex ?hex = Ok ?tx"
    using parse_serialize [OF tx(1), of "[]"] parse_serialize [OF wf, of "[]"]
    by (simp_all add: parse_hex_def serialize_hex_def decode_vec_encode)
  note index = get_withdrawal_index [OF row(1)]
  have "\<exists>p s'. view_sign_payout v i attempt intent (serialize_hex tx) proposer now s = (Ok p, s')" using signed by blast
  from this [unfolded sign_adopted [OF row]] obtain since s1 w1 sp d2 where
    ok: "\<not> i <s 0" "withdrawal_eligible_since (sg_db s) i = Ok since" "proposal_is_timely v i proposer since now"
      "get_withdrawal (sg_db s1) i = Ok (Some w1)" "wrow_state w1 = WBuilding \<or> wrow_state w1 = WSigning"
      "sp_quorum_attempt sp = attempt" "pv_vault_signer_index v \<in> set (sp_quorum_indices sp)" "sp_intent_bytes sp = intent"
      "node_signs v (serialize_hex tx) (map (\<lambda>u. \<lparr>px_txid = vu_txid_hex u, px_vout = vu_vout u,
         px_script_pub_key = vu_script_pubkey_hex u, px_redeem_script = redeem_script_hex (pv_vault v)\<rparr>) (sp_inputs sp)) (sg_world s1)"
    and adopt: "adopt_proposal v w (serialize_hex tx) now s = (Ok (), s1)"
    and verify: "verify_and_load_signable_payout (pv_sha256 v) i now (sg_db s1) = (Ok sp, d2)"
    by blast
  let ?s1 = "s1\<lparr>sg_db := rehex i ?hex (sg_db s1)\<rparr>" and ?sp = "sp\<lparr>sp_unsigned_tx_hex := ?hex\<rparr>"
  have "adopt_proposal v w ?hex now s = (Ok (), ?s1)"
    using adopt_redirected [OF adopt parse refl tx(3)] index by simp
  moreover have "get_withdrawal (sg_db ?s1) i = Ok (Some w1)" using ok(4) by (simp add: get_withdrawal_def)
  moreover have "verify_and_load_signable_payout (pv_sha256 v) i now (sg_db ?s1) = (Ok ?sp, rehex i ?hex d2)"
    using verify_rehex [OF verify] by simp
  moreover have "sp_quorum_attempt ?sp = attempt" "pv_vault_signer_index v \<in> set (sp_quorum_indices ?sp)"
    "sp_intent_bytes ?sp = intent" "sp_unsigned_tx_hex ?sp = ?hex" using ok by simp_all
  moreover have "node_signs v ?hex (map (\<lambda>u. \<lparr>px_txid = vu_txid_hex u, px_vout = vu_vout u,
      px_script_pub_key = vu_script_pubkey_hex u, px_redeem_script = redeem_script_hex (pv_vault v)\<rparr>) (sp_inputs ?sp)) (sg_world ?s1)"
    using ok(9) node unfolding signs_alike_def by simp
  ultimately show ?thesis
    unfolding sign_adopted [OF row] using ok(1-3,5) by blast
qed

end
