(* ===== verification/PayoutAdoptionDemo.thy ===== *)
theory PayoutAdoptionDemo
  imports PayoutAdoption
begin

text \<open>
  A proposal that a validator adopts and signs, the witness of what signing an adopted payout
  guarantees and of what it does not.
\<close>

text \<open>A withdrawal of 100, a vault output of 1000, and a proposal that returns 890 as change.\<close>

definition adopt_request :: "withdrawal_state \<Rightarrow> withdrawal_request_row" where
  "adopt_request st = \<lparr>wq_index = 5, wq_pda = 9, wq_amount_atomic = 100, wq_requester = 7, wq_glc_address = [],
     wq_hash160 = 3, wq_requested_at_slot = 1, wq_protocol_version = 1, wq_observed_at = 10,
     wq_observed_at_slot = 1, wq_state = ws_as_str st, wq_failure_reason = None\<rparr>"

definition adopt_utxo :: "string \<Rightarrow> i64 option \<Rightarrow> i64 option \<Rightarrow> vault_utxo_row" where
  "adopt_utxo st by_index at = \<lparr>vx_txid = 0, vx_vout = 0, vx_txid_hex = hex_encode (le_bytes (0 :: bytes32)),
     vx_amount_atomic = 1000, vx_script_pubkey_hex = [], vx_confirmations = 6, vx_first_seen_at = 11,
     vx_state = st, vx_reserved_by = by_index, vx_reserved_at = at, vx_spent_by_txid_hex = None\<rparr>"

definition adopt_state :: "unit signer_state" where
  "adopt_state = \<lparr>sg_db = empty_withdrawal_db\<lparr>withdrawal_requests := [adopt_request WValidated],
     vault_utxos := [adopt_utxo ''Available'' None None]\<rparr>, sg_world = ()\<rparr>"

definition adopt_tx :: transaction where
  "adopt_tx = \<lparr>tx_version = 1, tx_inputs = [\<lparr>ti_prev_txid = 0, ti_prev_vout = 0, ti_script_sig = [], ti_sequence = 0\<rparr>],
     tx_outputs = [\<lparr>to_value = 100, to_script_pubkey = p2pkh_script 3\<rparr>, \<lparr>to_value = 890, to_script_pubkey = [1]\<rparr>],
     tx_lock_time = 0\<rparr>"

definition adopt_view :: "unit payout_view" where
  "adopt_view = \<lparr>pv_sha256 = (\<lambda>_. 0), pv_config = \<lparr>wc_vault = sample_vault2, wc_vault_address = [], wc_vault_hash160 = 0,
     wc_change_address = [], wc_change_hash160 = 0, wc_fee_rate_per_kb = 0, wc_dust_threshold_atomic = 1,
     wc_vault_min_confirmations = 1, wc_confirmation_depth = 1, wc_max_inputs_per_payout = 5,
     wc_reservation_timeout_secs = 10, wc_discovery_commitment = Finalized, wc_poll_interval_ms = 0\<rparr>,
     pv_vault_signer_index = 0, pv_assignment = None, sign_partial = \<lambda>_ _ w. (Ok (serialize_hex sample_signed), w),
     pv_show_db_error = \<lambda>_. [], pv_show_multisig_error = \<lambda>_. [], pv_show_hex_error = \<lambda>_. []\<rparr>"

definition adopt_input :: vault_utxo where
  "adopt_input = row_to_utxo (adopt_utxo ''Available'' None None)"

definition adopt_intent :: bytes where
  "adopt_intent = canonical_payout_intent 1 5 0 3 100 10 890 0 0 [0, 2] [adopt_input]"

lemma adopt_node: "node_signs adopt_view hex prevs w"
proof -
  have "wf_transaction sample_signed" by (simp add: wf_transaction_def sample_signed_def sample_tx_def fits_usize_def)
  then have "parse_hex (serialize_hex sample_signed) = Ok sample_signed"
    using parse_serialize [of sample_signed "[]"] by (simp add: parse_hex_def serialize_hex_def decode_vec_encode)
  moreover have "extract_signatures sample_signed [1, 2] = Ok [[7, 1]]"
    by (simp add: extract_signatures_def sample_signed_def sample_tx_def parse_script_pushes_def pushes_from.simps push_length_def Let_def)
  ultimately show ?thesis by (simp add: node_signs_def adopt_view_def sample_vault2_def)
qed

lemma adopt_wf: "wf_transaction adopt_tx"
  by (simp add: wf_transaction_def adopt_tx_def fits_usize_def p2pkh_script_def)

lemma adopt_parse: "parse_hex (serialize_hex adopt_tx) = Ok adopt_tx"
  using parse_serialize [OF adopt_wf, of "[]"] by (simp add: parse_hex_def serialize_hex_def decode_vec_encode)

lemma adopt_quorum: "designate_quorum 5 3 2 = [0, 2]"
  by (simp add: designate_quorum_def upt_rec)

definition adopt_w :: withdrawal_row where
  "adopt_w = \<lparr>wrow_index = 5, wrow_pda = 9, wrow_amount_atomic = 100, wrow_requester = 7, wrow_glc_address = [],
     wrow_hash160 = 3, wrow_requested_at_slot = 1, wrow_protocol_version = 1, wrow_state = WValidated,
     wrow_failure_reason = None, wrow_observed_at = 10\<rparr>"

lemma adopt_rows: "row_to_withdrawal (adopt_request WValidated) = Ok adopt_w"
    "row_to_withdrawal (adopt_request WSigning) = Ok (adopt_w\<lparr>wrow_state := WSigning\<rparr>)"
  by (simp_all add: adopt_request_def row_to_withdrawal_def ws_parse_def adopt_w_def)

lemma adopt_index: "wq_index (adopt_request st) = 5"
  by (simp add: adopt_request_def)

lemma adopt_row: "get_withdrawal (sg_db adopt_state) 5 = Ok (Some adopt_w)"
  by (simp add: adopt_state_def get_withdrawal_def adopt_index adopt_rows)

lemma adopt_rev: "rev (le_bytes (0 :: bytes32)) = le_bytes (0 :: bytes32)"
  by (simp add: le_bytes_def upt_rec)

lemma adopt_vals: "p2pkh_script 3 \<noteq> [1]" by (simp add: p2pkh_script_def)

abbreviation adopted_db :: "withdrawal_state \<Rightarrow> withdrawal_log_row list \<Rightarrow> withdrawal_db" where
  "adopted_db st log \<equiv> \<lparr>withdrawal_requests = [adopt_request st],
     withdrawal_payouts = [new_payout_row (adopted_payout adopt_view adopt_w (serialize_hex adopt_tx) 20 100 10 890 [adopt_input])],
     vault_utxos = [adopt_utxo ''Reserved'' (Some 5) (Some 20)],
     withdrawal_payout_inputs = [\<lparr>pi_index = 5, pi_order = 0, pi_txid = 0, pi_vout = 0, pi_amount_atomic = 1000\<rparr>],
     withdrawal_state_log = log, withdrawal_quorum_history = []\<rparr>"

lemma adopt_adopts: "\<exists>log. adopt_proposal adopt_view adopt_w (serialize_hex adopt_tx) 20 adopt_state =
   (Ok (), adopt_state\<lparr>sg_db := adopted_db WSigning log\<rparr>)"
proof -
  have w: "wrow_hash160 adopt_w = 3" "wrow_index adopt_w = 5" "wrow_amount_atomic adopt_w = 100" "wrow_state adopt_w = WValidated"
    by (simp_all add: adopt_w_def)
  have avail: "available_utxos (sg_db adopt_state) 1 = [adopt_input]"
    by (simp add: adopt_state_def available_utxos_def order_by_def adopt_input_def adopt_utxo_def word_sle_eq)
  have input: "vu_txid_hex adopt_input = hex_encode (le_bytes (0 :: bytes32))" "vu_vout adopt_input = 0" "vu_amount_atomic adopt_input = 1000"
    "vu_txid adopt_input = 0"
    by (simp_all add: adopt_input_def adopt_utxo_def row_to_utxo_def)
  have ins: "adopt_inputs [adopt_input] 5 (tx_inputs adopt_tx) = Ok [adopt_input]"
    by (simp add: adopt_tx_def display_txid_def adopt_rev input Let_def)
  have sums: "sum_values (paid_to (p2pkh_script 3) adopt_tx) = 100" "sum_values (paid_elsewhere (p2pkh_script 3) adopt_tx) = 890"
      "sum_values (map vu_amount_atomic [adopt_input]) = 1000" "sum_values (map to_value (tx_outputs adopt_tx)) = 990"
    using adopt_vals by (simp_all add: sum_values_def paid_to_def paid_elsewhere_def adopt_tx_def input)
  have reserve: "reserve_utxos 5 [adopt_input] 20 (sg_db adopt_state) = (Ok (), (sg_db adopt_state)\<lparr>vault_utxos := [adopt_utxo ''Reserved'' (Some 5) (Some 20)]\<rparr>)"
    by (simp add: reserve_utxos_def Let_def adopt_state_def input) (simp add: adopt_utxo_def adopt_request_def)
  have create: "create_payout (adopted_payout adopt_view adopt_w (serialize_hex adopt_tx) 20 100 (saturating_sub 1000 990) 890 [adopt_input])
      ((sg_db adopt_state)\<lparr>vault_utxos := [adopt_utxo ''Reserved'' (Some 5) (Some 20)]\<rparr>) = (Ok (), adopted_db WValidated [])"
    by (simp add: create_payout_def adopted_payout_hex w adopt_state_def empty_withdrawal_db_def saturating_sub_def)
      (simp add: adopted_payout_def Let_def input adopt_request_def)
  let ?l1 = "[log_entry 5 (Some (ws_as_str WValidated)) (ws_as_str WBuilding) 20 None]"
  let ?l2 = "?l1 @ [log_entry 5 (Some (ws_as_str WBuilding)) (ws_as_str WSigning) 20 None]"
  have t: "transition_withdrawal 5 WBuilding 20 None (adopted_db WValidated []) = (Ok (), adopted_db WBuilding ?l1)"
      "transition_withdrawal 5 WSigning 20 None (adopted_db WBuilding ?l1) = (Ok (), adopted_db WSigning ?l2)"
    by (simp_all add: transition_withdrawal_def adopt_request_def ws_parse_def may_transition_to_def insert_log_def log_entry_def Let_def coalesce_def)
  have "wc_vault_min_confirmations (pv_config adopt_view) = 1" by (simp add: adopt_view_def)
  note adopted = adoptI [where w = adopt_w and s = adopt_state and v = adopt_view and now = 20, unfolded w this avail, OF adopt_parse ins sums(1)
      _ refl sums(3,4,2) reserve create _ t]
  show ?thesis by (rule exI, rule adopted) simp_all
qed

lemma adopt_signs: "\<exists>p s'. view_sign_payout adopt_view 5 0 adopt_intent (serialize_hex adopt_tx) 0 20 adopt_state = (Ok p, s')"
proof -
  let ?d = "\<lambda>log. adopted_db WSigning log"
  obtain log where adopt: "adopt_proposal adopt_view adopt_w (serialize_hex adopt_tx) 20 adopt_state = (Ok (), adopt_state\<lparr>sg_db := ?d log\<rparr>)"
    using adopt_adopts by blast
  have row: "get_withdrawal (?d log) 5 = Ok (Some (adopt_w\<lparr>wrow_state := WSigning\<rparr>))"
    by (simp add: get_withdrawal_def adopt_index adopt_rows)
  have q: "designate_quorum 5 (signer_count sample_vault2) (mv_threshold sample_vault2) = [0, 2]"
    using adopt_quorum by (simp add: signer_count_def sample_vault2_def numeral_3_eq_3)
  have "\<exists>sp. verify_and_load_signable_payout (\<lambda>_. 0) 5 20 (?d log) = (Ok sp, ?d log) \<and> sp_quorum_attempt sp = 0 \<and>
      sp_quorum_indices sp = [0, 2] \<and> sp_intent_bytes sp = adopt_intent \<and> sp_unsigned_tx_hex sp = serialize_hex adopt_tx"
  proof -
    have p: "adopted_payout adopt_view adopt_w hex 20 100 10 890 [adopt_input] = \<lparr>np_index = 5, np_vault_script_hash = 0,
        np_quorum_indices = [0, 2], np_quorum_attempt = 0, np_commitment_hash = 0, np_intent_bytes = adopt_intent,
        np_fee_atomic = 10, np_payout_atomic = 100, np_change_atomic = 890, np_change_address = Some (encode_p2pkh (\<lambda>_. 0) 0),
        np_unsigned_tx_hex = hex, np_inputs = [adopt_input], np_built_at = 20\<rparr>" for hex
      using q by (simp add: adopted_payout_def adopt_view_def adopt_w_def adopt_intent_def payout_commitment_def sample_vault2_def Let_def)
    have change: "base58check_decode (\<lambda>_. 0) (encode_p2pkh (\<lambda>_. 0) 0) = Ok (P2PKH_VERSION_REGTEST, 0)"
      by (simp add: encode_p2pkh_def base58check_decode_encode)
    have input: "adopt_input = \<lparr>vu_txid = 0, vu_txid_hex = hex_encode (le_bytes (0 :: bytes32)), vu_vout = 0, vu_amount_atomic = 1000,
        vu_script_pubkey_hex = [], vu_confirmations = 6\<rparr>"
      by (simp add: adopt_input_def adopt_utxo_def row_to_utxo_def)
    show ?thesis
      unfolding verify_and_load_signable_payout_def
      by (simp add: p new_payout_row_def change_hash160_of_def change input_rows_def order_by_def payout_commitment_def Let_def adopt_index)
        (simp add: adopt_utxo_def adopt_request_def adopt_intent_def input)
  qed
  moreover have "withdrawal_eligible_since (sg_db adopt_state) 5 = Ok 10" "proposal_is_timely adopt_view 5 0 10 20"
    by (simp_all add: withdrawal_eligible_since_def adopt_state_def adopt_request_def empty_withdrawal_db_def proposal_is_timely_def adopt_view_def)
  moreover have "pv_vault_signer_index adopt_view = 0" "pv_sha256 adopt_view = (\<lambda>_. 0)" by (simp_all add: adopt_view_def)
  moreover have "wrow_state adopt_w = WValidated" "\<not> (5 :: i64) <s 0" by (simp_all add: adopt_w_def word_sless_alt)
  ultimately show ?thesis
    using adopt row adopt_node sign_adopted [OF adopt_row, of adopt_view 0 adopt_intent "serialize_hex adopt_tx" 0 20] by auto
qed

theorem adopted_payout_exact_witness:
  "\<exists>tx. parse_hex (serialize_hex adopt_tx) = Ok tx \<and> sum_list (map unat (paid_to (p2pkh_script 3) tx)) = 100 \<and>
     0 \<in> set (designate_quorum 5 3 2)"
proof -
  obtain p s' where signed: "view_sign_payout adopt_view 5 0 adopt_intent (serialize_hex adopt_tx) 0 20 adopt_state = (Ok p, s')"
    using adopt_signs by blast
  have w: "wrow_hash160 adopt_w = 3" "wrow_amount_atomic adopt_w = 100" "wrow_state adopt_w = WValidated"
    "pv_vault_signer_index adopt_view = 0" "signer_count (pv_vault adopt_view) = 3" "mv_threshold (pv_vault adopt_view) = 2"
    by (simp_all add: adopt_w_def adopt_view_def sample_vault2_def signer_count_def)
  from adopted_payout_exact [OF signed adopt_row] obtain tx where tx: "parse_hex (serialize_hex adopt_tx) = Ok tx"
      "sum_list (map unat (paid_to (p2pkh_script 3) tx)) < 2 ^ 64 \<longrightarrow> sum_list (map unat (paid_to (p2pkh_script 3) tx)) = 100"
      "0 \<in> set (designate_quorum 5 3 2)" by (auto simp: w)
  then have "tx = adopt_tx" using adopt_parse by simp
  with tx show ?thesis using adopt_vals by (simp add: paid_to_def adopt_tx_def)
qed

theorem adopted_change_unbound_witness:
  "\<exists>p s'. view_sign_payout adopt_view 5 0 adopt_intent
     (serialize_hex (adopt_tx\<lparr>tx_outputs := [\<lparr>to_value = 100, to_script_pubkey = p2pkh_script 3\<rparr>,
        \<lparr>to_value = 890, to_script_pubkey = [6, 6, 6]\<rparr>]\<rparr>)) 0 20 adopt_state = (Ok p, s')"
proof -
  obtain p s' where signed: "view_sign_payout adopt_view 5 0 adopt_intent (serialize_hex adopt_tx) 0 20 adopt_state = (Ok p, s')"
    using adopt_signs by blast
  have "redirect (p2pkh_script 3) [6, 6, 6] adopt_tx = adopt_tx\<lparr>tx_outputs := [\<lparr>to_value = 100, to_script_pubkey = p2pkh_script 3\<rparr>,
        \<lparr>to_value = 890, to_script_pubkey = [6, 6, 6]\<rparr>]\<rparr>"
    using adopt_vals by (simp add: redirect_def adopt_tx_def)
  moreover have "signs_alike adopt_view adopt_tx (redirect (p2pkh_script (wrow_hash160 adopt_w)) [6, 6, 6] adopt_tx)"
    by (simp add: signs_alike_def adopt_node)
  ultimately show ?thesis
    using adopted_change_unbound [OF signed adopt_row _ adopt_wf, of "[6, 6, 6]"]
    by (simp add: adopt_w_def fits_usize_def p2pkh_script_def)
qed

end
