(* ===== verification/Texts.thy ===== *)
theory Texts
  imports Vault
begin

text \<open>
  The parts of Rust's standard library that the approval files need: splitting a text into lines
  and words, and the decimal form of the integer types, with the lemmas that a parser undoes the
  printer.
\<close>

section \<open>Text\<close>

text \<open>\<open>str::split\<close>, \<open>str::splitn\<close> and \<open>str::lines\<close> on bytes.\<close>

fun split_on :: "u8 \<Rightarrow> bytes \<Rightarrow> bytes list" where
  "split_on c [] = [[]]"
| "split_on c (x # xs) =
     (if x = c then [] # split_on c xs
      else case split_on c xs of [] \<Rightarrow> [[x]] | y # ys \<Rightarrow> (x # y) # ys)"

fun splitn :: "nat \<Rightarrow> u8 \<Rightarrow> bytes \<Rightarrow> bytes list" where
  "splitn 0 c s = []"
| "splitn (Suc 0) c s = [s]"
| "splitn (Suc (Suc n)) c s =
     (if c \<in> set s then takeWhile (\<lambda>x. x \<noteq> c) s # splitn (Suc n) c (tl (dropWhile (\<lambda>x. x \<noteq> c) s)) else [s])"

definition strip_cr :: "bytes \<Rightarrow> bytes" where
  "strip_cr l = (if l \<noteq> [] \<and> last l = 13 then butlast l else l)"

definition str_lines :: "bytes \<Rightarrow> bytes list" where
  "str_lines s = (let pieces = split_on 10 s in
     map strip_cr (butlast pieces) @ (if last pieces = [] then [] else [last pieces]))"

text \<open>\<open>str::parse\<close> of the integer types: an optional sign, then decimal digits within the range.\<close>

definition parse_digits :: "bytes \<Rightarrow> nat option" where
  "parse_digits s = (if s \<noteq> [] \<and> list_all (\<lambda>d. 48 \<le> d \<and> d \<le> 57) s
     then Some (foldl (\<lambda>n d. n * 10 + unat (d - 48)) 0 s) else None)"

definition parse_unsigned :: "bytes \<Rightarrow> ('a :: len) word option" where
  "parse_unsigned s = (case parse_digits (if s \<noteq> [] \<and> hd s = 43 then tl s else s) of
     None \<Rightarrow> None | Some n \<Rightarrow> if n < 2 ^ LENGTH('a) then Some (word_of_nat n) else None)"

definition parse_i64 :: "bytes \<Rightarrow> i64 option" where
  "parse_i64 s = (if s \<noteq> [] \<and> hd s = 45
     then case parse_digits (tl s) of None \<Rightarrow> None
       | Some n \<Rightarrow> if n \<le> 2 ^ 63 then Some (word_of_int (- int n)) else None
     else case parse_digits (if s \<noteq> [] \<and> hd s = 43 then tl s else s) of None \<Rightarrow> None
       | Some n \<Rightarrow> if n < 2 ^ 63 then Some (word_of_nat n) else None)"

definition decimal_i64 :: "i64 \<Rightarrow> bytes" where
  "decimal_i64 x = (if x <s 0 then 45 # decimal (nat (- sint x)) else decimal (nat (sint x)))"

section \<open>Round trips\<close>

text \<open>A word of a printed line: digits and lower-case hexadecimal digits, and the sign.\<close>

definition word_byte :: "u8 \<Rightarrow> bool" where
  "word_byte c \<longleftrightarrow> c = 45 \<or> 48 \<le> c \<and> c \<le> 57 \<or> 97 \<le> c \<and> c \<le> 102"

lemma digit_byte: "k < 10 \<Longrightarrow> 48 \<le> (word_of_nat (48 + k) :: u8) \<and> (word_of_nat (48 + k) :: u8) \<le> 57 \<and>
    unat ((word_of_nat (48 + k) :: u8) - 48) = k"
  by (simp add: word_le_nat_alt unat_of_nat unat_sub_if' of_nat_add [symmetric] del: of_nat_add)

lemma decimal_digits: "decimal n \<noteq> [] \<and> (\<forall>d \<in> set (decimal n). 48 \<le> d \<and> d \<le> 57) \<and>
    foldl (\<lambda>n d. n * 10 + unat (d - 48)) 0 (decimal n) = n"
proof (induction n rule: decimal.induct)
  case (1 n)
  show ?case
  proof (cases "n < 10")
    case True
    then show ?thesis using digit_byte [of n] by (simp add: decimal.simps [of n])
  next
    case False
    with 1 digit_byte [of "n mod 10"] show ?thesis by (simp add: decimal.simps [of n])
  qed
qed

lemma parse_digits_decimal [simp]: "parse_digits (decimal n) = Some n"
  using decimal_digits [of n] by (simp add: parse_digits_def list_all_iff)

lemma hd_decimal: "48 \<le> hd (decimal n)"
  using decimal_digits [of n] by (cases "decimal n") auto

lemma parse_unsigned_decimal: "parse_unsigned (decimal (unat w)) = Some (w :: 'a::len word)"
proof -
  have "hd (decimal (unat w)) \<noteq> 43" using hd_decimal [of "unat w"] by auto
  then show ?thesis using unsigned_less [of w] by (simp add: parse_unsigned_def)
qed

lemma parse_i64_decimal: "parse_i64 (decimal_i64 x) = Some x"
proof (cases "x <s 0")
  case True
  then have "nat (- sint x) \<le> 2 ^ 63" using sint_ge [of x] by (simp add: nat_le_iff)
  with True show ?thesis by (simp add: parse_i64_def decimal_i64_def word_sless_alt)
next
  case False
  then have "nat (sint x) < 2 ^ 63" using sint_lt [of x] by (simp add: nat_less_iff word_sless_alt)
  moreover have "hd (decimal (nat (sint x))) \<noteq> 45" "hd (decimal (nat (sint x))) \<noteq> 43"
    using hd_decimal [of "nat (sint x)"] by auto
  ultimately show ?thesis using False by (simp add: parse_i64_def decimal_i64_def word_sless_alt)
qed

lemma decimal_word_bytes: "\<forall>c \<in> set (decimal n). word_byte c"
  using decimal_digits [of n] by (auto simp: word_byte_def)

lemma decimal_i64_word_bytes: "decimal_i64 x \<noteq> [] \<and> (\<forall>c \<in> set (decimal_i64 x). word_byte c)"
  using decimal_digits decimal_word_bytes by (auto simp: decimal_i64_def word_byte_def)

lemma hex_word_bytes: "\<forall>c \<in> set (hex_encode bs). word_byte c"
proof -
  have "k < 16 \<Longrightarrow> word_byte (hex_digit k)" for k
    by (auto simp: hex_digit_def word_byte_def word_le_nat_alt unat_of_nat of_nat_add [symmetric] simp del: of_nat_add)
  moreover have "unat a div 16 < 16" for a :: u8
    using unsigned_less [of a, where 'a = nat] by (simp add: less_mult_imp_div_less)
  ultimately show ?thesis by (induction bs) auto
qed

lemma word_byte_not: "word_byte c \<Longrightarrow> c \<noteq> 32 \<and> c \<noteq> 10 \<and> c \<noteq> 13 \<and> c \<noteq> 35"
  by (auto simp: word_byte_def)

text \<open>Splitting at the first space, and at the end of the first line.\<close>

lemma splitn_word:
  assumes "\<forall>x \<in> set a. word_byte x"
  shows "splitn (Suc (Suc n)) 32 (a @ 32 # b) = a # splitn (Suc n) 32 b"
proof -
  have "\<forall>x \<in> set a. x \<noteq> 32" using assms word_byte_not by blast
  then have "takeWhile (\<lambda>x. x \<noteq> 32) (a @ 32 # b) = a" "dropWhile (\<lambda>x. x \<noteq> 32) (a @ 32 # b) = 32 # b"
    by (simp_all add: takeWhile_append2 dropWhile_append2)
  then show ?thesis by simp
qed

lemma splitn_last:
  assumes "\<forall>x \<in> set a. word_byte x" shows "splitn (Suc n) 32 a = [a]"
  using assms by (cases n) (auto dest: word_byte_not)

lemma split_on_line: "c \<notin> set l \<Longrightarrow> split_on c (l @ c # rest) = l # split_on c rest"
  by (induction l) auto

lemma split_on_nonempty: "split_on c s \<noteq> []"
  by (induction s) (auto split: list.splits)

lemma str_lines_Nil [simp]: "str_lines [] = []"
  by (simp add: str_lines_def)

lemma str_lines_line: "10 \<notin> set l \<Longrightarrow> str_lines (l @ 10 # rest) = strip_cr l # str_lines rest"
  using split_on_nonempty [of 10 rest] by (simp add: str_lines_def split_on_line Let_def)

text \<open>Trimming leaves a text alone that neither starts nor ends with a byte of a white-space character.\<close>

definition dark :: "u8 \<Rightarrow> bool" where
  "dark c \<longleftrightarrow> c \<notin> set (map hd white_space) \<union> set (map last white_space)"

lemma trim_start_dark:
  assumes "s = [] \<or> hd s \<notin> set (map hd ws)" shows "trim_start ws s = s"
proof -
  have "find (\<lambda>w. w \<noteq> [] \<and> take (length w) s = w) ws = None"
    using assms by (cases s) (force simp: find_None_iff neq_Nil_conv)+
  then show ?thesis by (simp add: trim_start.simps)
qed

lemma map_hd_rev: "[] \<notin> set ws \<Longrightarrow> map hd (map rev ws) = map last ws"
  by (induction ws) (auto simp: hd_rev)

lemma str_trim_dark:
  assumes "s \<noteq> []" "dark (hd s)" "dark (last s)" shows "str_trim s = s"
proof -
  have "[] \<notin> set white_space" by (auto simp: white_space_def)
  with assms show ?thesis
    by (simp add: str_trim_def trim_start_dark dark_def map_hd_rev hd_rev del: map_map)
qed

lemma str_trim_space:
  assumes "s \<noteq> []" "dark (hd s)" "dark (last s)" shows "str_trim (s @ [32]) = s"
proof -
  have "[] \<notin> set white_space" by (auto simp: white_space_def)
  moreover have "trim_start (map rev white_space) (32 # rev s) = trim_start (map rev white_space) (rev s)"
    by (simp add: trim_start.simps [of _ "32 # _"] white_space_def)
  ultimately show ?thesis using assms
    by (simp add: str_trim_def trim_start_dark dark_def map_hd_rev hd_rev del: map_map)
qed

lemma word_byte_dark: "word_byte c \<Longrightarrow> dark c"
  by (auto simp: word_byte_def dark_def white_space_def upt_rec)

text \<open>
  A note that survives its line: it has no line break and does not end like a white-space character.
\<close>

definition plain_note :: "bytes \<Rightarrow> bool" where
  "plain_note note \<longleftrightarrow> 10 \<notin> set note \<and> (note = [] \<or> dark (last note))"

text \<open>A line of words and a note: what the trimmed line is, and its parts.\<close>

lemma trim_noted_line:
  assumes "w \<noteq> []" "\<forall>c \<in> set w. word_byte c" "plain_note note" "word_byte b"
  shows "str_trim (strip_cr ((b # v) @ 32 # w @ 32 # note)) = (b # v) @ 32 # w @ (if note = [] then [] else 32 # note)"
proof -
  have "(13 :: u8) \<in> set (map last white_space)" by (simp add: white_space_def)
  with assms(3) have cr: "strip_cr ((b # v) @ 32 # w @ 32 # note) = (b # v) @ 32 # w @ 32 # note"
    by (auto simp: strip_cr_def plain_note_def dark_def)
  have b: "dark b" using assms(4) by (rule word_byte_dark)
  show ?thesis
  proof (cases "note = []")
    case True
    have "dark (last w)" using assms(1,2) word_byte_dark by simp
    with str_trim_space [of "(b # v) @ 32 # w"] b assms(1) show ?thesis using cr by (simp add: True)
  next
    case False
    with assms(3) str_trim_dark [of "(b # v) @ 32 # w @ 32 # note"] b show ?thesis
      using cr by (simp add: plain_note_def)
  qed
qed

lemma splitn_noted:
  assumes "\<forall>c \<in> set w. word_byte c"
  shows "splitn (Suc (Suc 0)) 32 (w @ (if note = [] then [] else 32 # note)) = w # (if note = [] then [] else [note])"
proof (cases "note = []")
  case True
  then show ?thesis using splitn_last [OF assms, of "Suc 0"] by (simp only: if_True append_Nil2 simp_thms)
next
  case False
  then show ?thesis using splitn_word [OF assms, of 0 "note"] by (simp only: if_False splitn.simps(2) simp_thms)
qed

lemma note_unchanged: "plain_note note \<Longrightarrow> map (\<lambda>c. if c = 10 then 32 else c) note = note"
  by (auto simp: plain_note_def intro!: map_idI)

end
