(* ===== verification/Sweep.thy ===== *)
theory Sweep
  imports PayoutIntent Transactions Texts
begin

text \<open>
  The vault sweep (\<open>withdrawal/sweep.rs\<close>): planning a sweep of the whole vault, the canonical bytes
  that an operator approves, and the check that a transaction realises a plan.  The theorems show
  that a plan moves the whole value of its inputs, that the canonical bytes determine the plan's
  outpoints, amounts and destination, and what a verified transaction spends and pays.
\<close>

section \<open>Plans\<close>

definition SWEEP_DOMAIN_TAG :: bytes where "SWEEP_DOMAIN_TAG = ascii ''GLC_BRIDGE_SWEEP''"

definition SWEEP_OUTPUT_COUNT :: u64 where "SWEEP_OUTPUT_COUNT = 1"

datatype sweep_error =
    NothingToSweep
  | FeeExceedsValue u64 u64
  | ResultIsDust u64 u64
  | TooManySweepInputs nat nat
  | DestinationIsSource
  | InputCountMismatch nat nat
  | InputMismatch nat bytes bytes
  | NotSingleOutput nat
  | WrongDestination bytes bytes
  | WrongAmount u64 u64
  | SweepAlreadySigned nat

record sweep_plan =
  spl_source_hash160 :: bytes20
  spl_dest_hash160 :: bytes20
  spl_dest_script_pubkey :: bytes
  spl_dest_address :: bytes
  spl_fee_atomic :: u64
  spl_swept_atomic :: u64
  spl_inputs :: "vault_utxo list"

definition internal_txid :: "bytes32 \<Rightarrow> bytes32" where
  "internal_txid display_order = from_le (rev (le_bytes display_order))"

definition p2sh_script_pubkey :: "bytes20 \<Rightarrow> bytes" where
  "p2sh_script_pubkey h = [0xa9, 0x14] @ le_bytes h @ [0x87]"

definition sweep_total_in :: "sweep_plan \<Rightarrow> u64" where
  "sweep_total_in plan = sum_amounts (spl_inputs plan)"

definition sweep_input_bytes :: "vault_utxo \<Rightarrow> bytes" where
  "sweep_input_bytes u = le_bytes (vu_txid u) @ le_bytes (ucast (vu_vout u) :: u32) @ le_bytes (vu_amount_atomic u)"

definition sweep_canonical_intent :: "sweep_plan \<Rightarrow> u8 \<Rightarrow> bytes" where
  "sweep_canonical_intent plan protocol_version =
     SWEEP_DOMAIN_TAG @ [protocol_version] @ le_bytes (spl_source_hash160 plan) @ le_bytes (spl_dest_hash160 plan) @
     le_bytes (word_of_nat (length (spl_dest_script_pubkey plan)) :: u16) @ spl_dest_script_pubkey plan @
     le_bytes (spl_fee_atomic plan) @ le_bytes (spl_swept_atomic plan) @
     le_bytes (word_of_nat (length (spl_inputs plan)) :: u32) @ concat (map sweep_input_bytes (spl_inputs plan))"

definition sweep_commitment :: "sha256 \<Rightarrow> sweep_plan \<Rightarrow> u8 \<Rightarrow> bytes32" where
  "sweep_commitment sha plan protocol_version = sha (sweep_canonical_intent plan protocol_version)"

record sweep_destination =
  sd_hash160 :: bytes20
  sd_script_pubkey :: bytes
  sd_address :: bytes

definition sweep_destination_p2sh :: "bytes20 \<Rightarrow> bytes \<Rightarrow> sweep_destination" where
  "sweep_destination_p2sh h address =
     \<lparr>sd_hash160 = h, sd_script_pubkey = p2sh_script_pubkey h, sd_address = address\<rparr>"

definition plan_sweep ::
  "bytes20 \<Rightarrow> sweep_destination \<Rightarrow> vault_utxo list \<Rightarrow> u64 \<Rightarrow> u64 \<Rightarrow> nat \<Rightarrow> (sweep_plan, sweep_error) result" where
  "plan_sweep source_hash160 dest utxos fee_rate_per_kb dust_threshold_atomic max_inputs =
     (if utxos = [] then Err NothingToSweep
      else if sd_hash160 dest = source_hash160 then Err DestinationIsSource
      else if length utxos > max_inputs then Err (TooManySweepInputs (length utxos) max_inputs)
      else let total = sum_amounts utxos; fee = fee_for (word_of_nat (length utxos)) SWEEP_OUTPUT_COUNT fee_rate_per_kb in
      and_then (ok_or (FeeExceedsValue total fee) (checked_sub total fee)) (\<lambda>swept.
      if swept = 0 then Err (FeeExceedsValue total fee)
      else if swept < dust_threshold_atomic then Err (ResultIsDust swept dust_threshold_atomic)
      else Ok \<lparr>spl_source_hash160 = source_hash160, spl_dest_hash160 = sd_hash160 dest,
               spl_dest_script_pubkey = sd_script_pubkey dest, spl_dest_address = sd_address dest,
               spl_fee_atomic = fee, spl_swept_atomic = swept, spl_inputs = utxos\<rparr>))"

section \<open>Verification of a proposed transaction\<close>

fun verify_sweep_inputs :: "nat \<Rightarrow> tx_input list \<Rightarrow> vault_utxo list \<Rightarrow> (unit, sweep_error) result" where
  "verify_sweep_inputs i (got # gots) (want # wants) =
     (if ti_script_sig got \<noteq> [] then Err (SweepAlreadySigned i)
      else if ti_prev_txid got \<noteq> internal_txid (vu_txid want) \<or> ucast (ti_prev_vout got) \<noteq> vu_vout want
        then Err (InputMismatch i (vu_txid_hex want @ ascii '':'' @ decimal_i64 (vu_vout want))
          (hex_encode (le_bytes (internal_txid (ti_prev_txid got))) @ ascii '':'' @ decimal (unat (ti_prev_vout got))))
      else verify_sweep_inputs (i + 1) gots wants)"
| "verify_sweep_inputs i _ _ = Ok ()"

definition verify_sweep_tx :: "transaction \<Rightarrow> sweep_plan \<Rightarrow> (unit, sweep_error) result" where
  "verify_sweep_tx tx plan =
     (if length (tx_inputs tx) \<noteq> length (spl_inputs plan)
        then Err (InputCountMismatch (length (spl_inputs plan)) (length (tx_inputs tx)))
      else and_then (verify_sweep_inputs 0 (tx_inputs tx) (spl_inputs plan)) (\<lambda>_.
      case tx_outputs tx of
        [out] \<Rightarrow>
          if to_script_pubkey out \<noteq> spl_dest_script_pubkey plan
            then Err (WrongDestination (hex_encode (spl_dest_script_pubkey plan)) (hex_encode (to_script_pubkey out)))
          else if to_value out \<noteq> spl_swept_atomic plan
            then Err (WrongAmount (spl_swept_atomic plan) (to_value out))
          else Ok ()
      | outs \<Rightarrow> Err (NotSingleOutput (length outs))))"

section \<open>What a plan is\<close>

lemma checked_sub_unat: "checked_sub (a :: u64) b = Some c \<Longrightarrow> unat c + unat b = unat a"
  by (auto simp: checked_sub_def word_le_nat_alt unat_sub_if' split: if_splits)

lemma plan_sweep_Ok:
  assumes "plan_sweep source dest utxos fee_rate dust cap = Ok plan"
  shows "spl_source_hash160 plan = source" "spl_dest_hash160 plan = sd_hash160 dest"
    "spl_dest_script_pubkey plan = sd_script_pubkey dest" "spl_inputs plan = utxos" "utxos \<noteq> []"
    "sd_hash160 dest \<noteq> source" "length utxos \<le> cap" "0 < spl_swept_atomic plan" "dust \<le> spl_swept_atomic plan"
    "spl_fee_atomic plan = fee_for (word_of_nat (length utxos)) SWEEP_OUTPUT_COUNT fee_rate"
    "value_of utxos mod 2 ^ 64 = unat (spl_swept_atomic plan) + unat (spl_fee_atomic plan)"
proof -
  note run = assms [unfolded plan_sweep_def, simplified]
  show "spl_source_hash160 plan = source" "spl_dest_hash160 plan = sd_hash160 dest"
    "spl_dest_script_pubkey plan = sd_script_pubkey dest" "spl_inputs plan = utxos" "utxos \<noteq> []"
    "sd_hash160 dest \<noteq> source" "length utxos \<le> cap" "0 < spl_swept_atomic plan" "dust \<le> spl_swept_atomic plan"
    "spl_fee_atomic plan = fee_for (word_of_nat (length utxos)) SWEEP_OUTPUT_COUNT fee_rate"
    using run by (auto simp: Let_def word_gt_0 split: if_splits)
  have sub: "checked_sub (sum_amounts utxos) (spl_fee_atomic plan) = Some (spl_swept_atomic plan)"
    using run by (auto simp: Let_def split: if_splits)
  then have "unat (spl_swept_atomic plan) + unat (spl_fee_atomic plan) = unat (sum_amounts utxos)"
    by (rule checked_sub_unat)
  then show "value_of utxos mod 2 ^ 64 = unat (spl_swept_atomic plan) + unat (spl_fee_atomic plan)"
    by (simp add: unat_sum_amounts)
qed

section \<open>The canonical bytes determine the plan\<close>

lemma sweep_input_bytes_intent: "sweep_input_bytes = intent_input"
  by (rule ext) (simp add: sweep_input_bytes_def intent_input_def)

lemma counted_append_u16:
  assumes "length xs < 2 ^ 16" "length ys < 2 ^ 16"
  shows "(word_of_nat (length xs) :: u16) = word_of_nat (length ys) \<and> xs @ zs = ys @ ws \<longleftrightarrow> xs = ys \<and> zs = ws"
  using assms word_of_nat_inj [of "length xs" "length ys", where 'a = 16] by auto

lemma sweep_intent_inject:
  assumes "length (spl_dest_script_pubkey p) < 2 ^ 16" "length (spl_dest_script_pubkey q) < 2 ^ 16"
  shows "sweep_canonical_intent p v = sweep_canonical_intent q v' \<longleftrightarrow>
    v = v' \<and> spl_source_hash160 p = spl_source_hash160 q \<and> spl_dest_hash160 p = spl_dest_hash160 q \<and>
    spl_dest_script_pubkey p = spl_dest_script_pubkey q \<and> spl_fee_atomic p = spl_fee_atomic q \<and>
    spl_swept_atomic p = spl_swept_atomic q \<and>
    map committed_input (spl_inputs p) = map committed_input (spl_inputs q)"
proof -
  have tail: "le_bytes (word_of_nat (length ins) :: u32) @ concat (map intent_input ins) =
      le_bytes (word_of_nat (length ins') :: u32) @ concat (map intent_input ins') \<longleftrightarrow>
      map committed_input ins = map committed_input ins'" for ins ins'
    using inputc.concat_enc_eq_iff [of "map committed_input ins" "map committed_input ins'"]
    by (auto simp: u32c.enc_append_eq_iff concat_intent_inputs dest: map_eq_imp_length_eq)
  show ?thesis
    unfolding sweep_canonical_intent_def append_Cons append_Nil append_assoc sweep_input_bytes_intent
    using counted_append_u16 [OF assms] tail
    by (simp add: u64c.enc_append_eq_iff u16c.enc_append_eq_iff h160c.enc_append_eq_iff)
qed

text \<open>
  The length of the script is stored modulo \<open>2^16\<close>.  Against a plan with a short script and fewer
  than 16384 inputs this is harmless: the total length tells the two apart.
\<close>

lemma length_sweep_intent:
  "length (sweep_canonical_intent p v) = 79 + length (spl_dest_script_pubkey p) + 44 * length (spl_inputs p)"
proof -
  have "length (concat (map sweep_input_bytes us)) = 44 * length us" for us
    by (induction us) (simp_all add: sweep_input_bytes_def)
  then show ?thesis by (simp add: sweep_canonical_intent_def SWEEP_DOMAIN_TAG_def)
qed

lemma script_length_modulus:
  assumes "l' + 44 * n' = l + 44 * n" "l' mod 2 ^ 16 = l" "n < 16384"
  shows "l' = (l :: nat)"
proof (rule ccontr)
  assume "l' \<noteq> l"
  define k where "k = l' div 2 ^ 16"
  have l': "l' = 2 ^ 16 * k + l" using assms(2) mult_div_mod_eq [of "2 ^ 16" l'] by (simp add: k_def)
  with \<open>l' \<noteq> l\<close> have "0 < k" by (cases k) auto
  from l' assms(1) have "11 * (n - n') = 16384 * k" by simp
  then have "11 dvd 16384 * k" by (metis dvd_triv_left)
  moreover have "coprime 11 ((2 :: nat) ^ 14)" by (simp only: coprime_power_right_iff coprime_right_2_iff_odd) simp
  then have "coprime 11 (16384 :: nat)" by simp
  ultimately have "11 dvd k" by (simp add: coprime_dvd_mult_right_iff)
  then obtain j where "k = 11 * j" by (elim dvdE)
  with \<open>11 * (n - n') = 16384 * k\<close> \<open>0 < k\<close> have "16384 \<le> n - n'" by simp
  with assms(3) show False by simp
qed

lemma sweep_intent_inject_small:
  assumes eq: "sweep_canonical_intent q v' = sweep_canonical_intent p v"
    and small: "length (spl_dest_script_pubkey p) < 2 ^ 16" "length (spl_inputs p) < 16384"
  shows "length (spl_dest_script_pubkey q) < 2 ^ 16"
proof -
  from eq have "length (sweep_canonical_intent q v') = length (sweep_canonical_intent p v)" by simp
  then have "length (spl_dest_script_pubkey q) + 44 * length (spl_inputs q) =
      length (spl_dest_script_pubkey p) + 44 * length (spl_inputs p)"
    by (simp add: length_sweep_intent)
  moreover have "(word_of_nat (length (spl_dest_script_pubkey q)) :: u16) = word_of_nat (length (spl_dest_script_pubkey p))"
    using eq unfolding sweep_canonical_intent_def append_Cons append_Nil append_assoc
    by (simp add: u16c.enc_append_eq_iff h160c.enc_append_eq_iff)
  then have "length (spl_dest_script_pubkey q) mod 2 ^ 16 = length (spl_dest_script_pubkey p)"
    using small(1) by (simp add: word_unat_eq_iff unat_of_nat)
  ultimately show ?thesis using script_length_modulus small by metis
qed

section \<open>What a verified transaction does\<close>

definition spends_utxo :: "tx_input \<Rightarrow> vault_utxo \<Rightarrow> bool" where
  "spends_utxo vin u \<longleftrightarrow> ti_script_sig vin = [] \<and> ti_prev_txid vin = internal_txid (vu_txid u) \<and> ucast (ti_prev_vout vin) = vu_vout u"

lemma verify_sweep_inputs_Ok:
  "length gots = length wants \<Longrightarrow>
     verify_sweep_inputs i gots wants = Ok x \<longleftrightarrow> list_all2 spends_utxo gots wants"
proof (induction i gots wants rule: verify_sweep_inputs.induct)
  case (1 i got gots want wants)
  then show ?case by (auto simp: spends_utxo_def)
qed auto

lemma verify_sweep_tx_Ok:
  "verify_sweep_tx tx plan = Ok x \<longleftrightarrow>
     list_all2 spends_utxo (tx_inputs tx) (spl_inputs plan) \<and>
     (\<exists>out. tx_outputs tx = [out] \<and> to_script_pubkey out = spl_dest_script_pubkey plan \<and>
       to_value out = spl_swept_atomic plan)"
  by (auto simp: verify_sweep_tx_def verify_sweep_inputs_Ok list_all2_lengthD
      split: list.splits if_splits)

end
