(* ===== verification/SweepSigner.thy ===== *)
theory SweepSigner
  imports Sweep PayoutSigner
begin

text \<open>
  The sweep half of a validator's signer (\<open>p2p/sweep_view.rs\<close>).  The plan of a proposed
  transaction is rebuilt from the validator's own table of vault outputs, and it is signed only
  when the operator has staged the commitment of that very plan.  The file of the approval and the
  signature of the validator's own node are the environment's.
\<close>

section \<open>Approvals\<close>

definition SWEEP_APPROVAL_TTL_SECONDS :: i64 where "SWEEP_APPROVAL_TTL_SECONDS = 6 * 60 * 60"

definition MAX_SWEEP_FEE_MULTIPLE :: u64 where "MAX_SWEEP_FEE_MULTIPLE = 10"

text \<open>A refusal that carries the text of another error carries that error here.\<close>

datatype sweep_refusal =
    SweepNotApproved
  | DifferentSweepApproved
  | SweepApprovalExpired i64 i64
  | AlreadySignedAnotherSweep
  | SweepStoreUnreadable bytes
  | MalformedSweep multisig_error
  | UnknownInput nat bytes
  | PlanMismatch sweep_error
  | FeeTooHigh u64 u64
  | OutputExceedsInputs
  | SweepSigningFailed bytes
  | MalformedSweepPartial multisig_error
  | SweepDbUnreadable bytes

record sweep_approval =
  sa_commitment :: bytes32
  sa_expiry_unix :: i64
  sa_note :: bytes

definition sweep_approval_to_text :: "sweep_approval \<Rightarrow> bytes" where
  "sweep_approval_to_text a = hex_encode (le_bytes (sa_commitment a)) @ [32] @ decimal_i64 (sa_expiry_unix a) @ [32] @
     map (\<lambda>c. if c = 10 then 32 else c) (sa_note a) @ [10]"

definition bad_sweep_line :: "nat \<Rightarrow> string \<Rightarrow> sweep_refusal" where
  "bad_sweep_line n what = SweepStoreUnreadable (ascii ''line '' @ decimal (n + 1) @ ascii '': '' @ ascii what)"

definition parse_sweep_approval :: "nat \<Rightarrow> bytes \<Rightarrow> (sweep_approval, sweep_refusal) result" where
  "parse_sweep_approval n line =
     (let parts = splitn 3 32 line; bad = bad_sweep_line n in
      and_then (ok_or (bad ''missing commitment'') (get_at parts 0)) (\<lambda>p0.
      and_then (map_err (\<lambda>_. bad ''commitment is not 32 hex bytes'') (decode_exact 32 p0)) (\<lambda>commitment.
      and_then (ok_or (bad ''missing expiry'') (get_at parts 1)) (\<lambda>p1.
      and_then (ok_or (bad ''expiry is not an i64'') (parse_i64 p1)) (\<lambda>expiry.
      Ok \<lparr>sa_commitment = from_le commitment, sa_expiry_unix = expiry,
          sa_note = (case get_at parts 2 of None \<Rightarrow> [] | Some x \<Rightarrow> x)\<rparr>)))))"

text \<open>The last approval of the file is the one in force.\<close>

fun read_sweep_approvals ::
  "nat \<Rightarrow> bytes list \<Rightarrow> sweep_approval option \<Rightarrow> (sweep_approval option, sweep_refusal) result" where
  "read_sweep_approvals n [] found = Ok found"
| "read_sweep_approvals n (l # ls) found =
     (let line = str_trim l in
      if line = [] \<or> hd line = 35 then read_sweep_approvals (n + 1) ls found
      else and_then (parse_sweep_approval n line) (\<lambda>a. read_sweep_approvals (n + 1) ls (Some a)))"

definition sweep_approval_from_text :: "bytes \<Rightarrow> (sweep_approval option, sweep_refusal) result" where
  "sweep_approval_from_text text = read_sweep_approvals 0 (str_lines text) None"

definition load_sweep_approval :: "(bytes option, bytes) result \<Rightarrow> (sweep_approval option, sweep_refusal) result" where
  "load_sweep_approval file = (case file of Err e \<Rightarrow> Err (SweepStoreUnreadable e)
     | Ok None \<Rightarrow> Ok None | Ok (Some text) \<Rightarrow> sweep_approval_from_text text)"

lemma sweep_approval_roundtrip:
  assumes "plain_note (sa_note a)"
  shows "sweep_approval_from_text (sweep_approval_to_text a) = Ok (Some a)"
proof -
  let ?h = "hex_encode (le_bytes (sa_commitment a))" and ?e = "decimal_i64 (sa_expiry_unix a)"
  let ?line = "?h @ 32 # ?e @ 32 # sa_note a"
  note h = hex_word_bytes [of "le_bytes (sa_commitment a)"] and e = decimal_i64_word_bytes [of "sa_expiry_unix a"]
  have len: "length ?h = 64" by simp
  then obtain b v where bv: "?h = b # v" by (cases ?h) auto
  with h have b: "word_byte b" by simp
  have printed: "sweep_approval_to_text a = ?line @ 10 # []"
    using assms by (simp add: sweep_approval_to_text_def note_unchanged)
  have "10 \<notin> set ws" if "\<forall>c \<in> set ws. word_byte c" for ws using that word_byte_not by blast
  with h e assms have "10 \<notin> set ?line" by (simp add: plain_note_def)
  then have lines: "str_lines (sweep_approval_to_text a) = [strip_cr ?line]"
    unfolding printed by (subst str_lines_line) simp_all
  have trim: "str_trim (strip_cr ?line) = ?h @ 32 # ?e @ (if sa_note a = [] then [] else 32 # sa_note a)"
    unfolding bv using e assms b by (intro trim_noted_line) auto
  have parts: "splitn 3 32 (?h @ 32 # ?e @ (if sa_note a = [] then [] else 32 # sa_note a)) =
      ?h # ?e # (if sa_note a = [] then [] else [sa_note a])"
    using splitn_word [OF h, of "Suc 0"] splitn_noted [of ?e "sa_note a"] e by (simp add: numeral_3_eq_3)
  have dec: "decode_exact 32 ?h = Ok (le_bytes (sa_commitment a))"
    using decode_exact_encode [of "le_bytes (sa_commitment a)"] by simp
  have "parse_sweep_approval 0 (str_trim (strip_cr ?line)) = Ok a"
    by (simp add: trim parts parse_sweep_approval_def Let_def dec get_at_def parse_i64_decimal from_le_le_bytes)
  moreover have "str_trim (strip_cr ?line) \<noteq> []" "hd (str_trim (strip_cr ?line)) \<noteq> 35"
    unfolding trim using b bv word_byte_not by auto
  ultimately show ?thesis by (simp add: sweep_approval_from_text_def lines Let_def)
qed

section \<open>The view\<close>

record 'w sweep_view =
  sw_sha256 :: sha256
  sw_config :: withdrawal_config
  sw_vault_signer_index :: u8
  sw_sign_partial :: "bytes \<Rightarrow> prev_tx list \<Rightarrow> 'w \<Rightarrow> (bytes, bytes) result \<times> 'w"
  sw_read_approvals :: "'w \<Rightarrow> (bytes option, bytes) result \<times> 'w"

abbreviation sw_vault :: "'w sweep_view \<Rightarrow> multisig_vault" where
  "sw_vault v \<equiv> wc_vault (sw_config v)"

definition sweep_view_new :: "withdrawal_config \<Rightarrow> u8 \<Rightarrow> bool" where
  "sweep_view_new cfg vault_signer_index \<longleftrightarrow> unat vault_signer_index < signer_count (wc_vault cfg)"

definition sweep_vault_pubkey :: "'w sweep_view \<Rightarrow> bytes33" where
  "sweep_vault_pubkey v = mv_signer_pubkeys (sw_vault v) ! unat (sw_vault_signer_index v)"

record sweep_partial =
  sp_partial :: payout_partial
  sp_swept_atomic :: u64
  sp_swept_inputs :: nat

text \<open>The hash a P2SH or P2PKH script pays; zeroes for any other script.\<close>

definition dest_hash160_of :: "bytes \<Rightarrow> bytes20" where
  "dest_hash160_of script =
     (if length script = 23 \<and> script ! 0 = 0xa9 \<and> script ! 1 = 0x14 \<and> script ! 22 = 0x87
        then from_le (take 20 (drop 2 script))
      else if length script = 25 \<and> script ! 0 = 0x76 \<and> script ! 1 = 0xa9 \<and> script ! 2 = 0x14 \<and>
          script ! 23 = 0x88 \<and> script ! 24 = 0xac
        then from_le (take 20 (drop 3 script))
      else 0)"

fun local_inputs :: "vault_utxo list \<Rightarrow> nat \<Rightarrow> tx_input list \<Rightarrow> (vault_utxo list, sweep_refusal) result" where
  "local_inputs available i [] = Ok []"
| "local_inputs available i (inp # inps) =
     and_then (ok_or (UnknownInput i (hex_encode (le_bytes (internal_txid (ti_prev_txid inp))) @ ascii '':'' @
         decimal (unat (ti_prev_vout inp))))
       (find (\<lambda>u. internal_txid (vu_txid u) = ti_prev_txid inp \<and> ucast (vu_vout u) = ti_prev_vout inp) available)) (\<lambda>found.
     and_then (local_inputs available (i + 1) inps) (\<lambda>inputs. Ok (found # inputs)))"

definition plan_from_local_view :: "'w sweep_view \<Rightarrow> withdrawal_db \<Rightarrow> transaction \<Rightarrow> (sweep_plan, sweep_refusal) result" where
  "plan_from_local_view v d tx =
     and_then (local_inputs (available_utxos d (wc_vault_min_confirmations (sw_config v))) 0 (tx_inputs tx)) (\<lambda>inputs.
     case tx_outputs tx of
       [out] \<Rightarrow>
         and_then (ok_or OutputExceedsInputs (checked_sub (sum_amounts inputs) (to_value out))) (\<lambda>fee.
         let ceiling = saturating_mul (fee_for (word_of_nat (length inputs)) SWEEP_OUTPUT_COUNT
               (wc_fee_rate_per_kb (sw_config v))) MAX_SWEEP_FEE_MULTIPLE in
         if fee > ceiling then Err (FeeTooHigh fee ceiling)
         else Ok \<lparr>spl_source_hash160 = mv_script_hash160 (sw_vault v),
                  spl_dest_hash160 = dest_hash160_of (to_script_pubkey out),
                  spl_dest_script_pubkey = to_script_pubkey out, spl_dest_address = [],
                  spl_fee_atomic = fee, spl_swept_atomic = to_value out, spl_inputs = inputs\<rparr>)
     | outs \<Rightarrow> Err (PlanMismatch (NotSingleOutput (length outs))))"

section \<open>Signing\<close>

record 'w sweep_state =
  ss_db :: withdrawal_db
  ss_world :: 'w
  ss_signed :: "bytes32 option"

type_synonym ('w, 'a) sw = "('w sweep_state, 'a, sweep_refusal) io"

definition swworld :: "('w \<Rightarrow> ('a, sweep_refusal) result \<times> 'w) \<Rightarrow> ('w, 'a) sw" where
  "swworld call s = (case call (ss_world s) of (r, w) \<Rightarrow> (r, s\<lparr>ss_world := w\<rparr>))"

text \<open>The guard against a second, different sweep.\<close>

definition guard_sweep :: "bytes32 \<Rightarrow> ('w, unit) sw" where
  "guard_sweep commitment s =
     (case ss_signed s of
        Some prev \<Rightarrow> if prev = commitment then (Ok (), s) else (Err AlreadySignedAnotherSweep, s)
      | None \<Rightarrow> (Ok (), s\<lparr>ss_signed := Some commitment\<rparr>))"

definition sweep_prevtxs :: "multisig_vault \<Rightarrow> vault_utxo list \<Rightarrow> prev_tx list" where
  "sweep_prevtxs vault inputs = map (\<lambda>u. \<lparr>px_txid = vu_txid_hex u, px_vout = vu_vout u,
     px_script_pub_key = vu_script_pubkey_hex u, px_redeem_script = redeem_script_hex vault\<rparr>) inputs"

definition sign_sweep :: "'w sweep_view \<Rightarrow> bytes \<Rightarrow> u8 \<Rightarrow> i64 \<Rightarrow> ('w, sweep_partial) sw" where
  "sign_sweep v unsigned_tx_hex protocol_version now =
     ebind (elift (map_err MalformedSweep (parse_hex unsigned_tx_hex))) (\<lambda>tx.
     ebind (\<lambda>s. (plan_from_local_view v (ss_db s) tx, s)) (\<lambda>plan.
     ebind (elift (map_err PlanMismatch (verify_sweep_tx tx plan))) (\<lambda>_.
     let commitment = sweep_commitment (sw_sha256 v) plan protocol_version in
     ebind (swworld (\<lambda>w. map_prod load_sweep_approval id (sw_read_approvals v w))) (\<lambda>staged.
     ebind (elift (ok_or SweepNotApproved staged)) (\<lambda>approval.
     if sa_commitment approval \<noteq> commitment then elift (Err DifferentSweepApproved)
     else if sa_expiry_unix approval <s now then elift (Err (SweepApprovalExpired (sa_expiry_unix approval) now))
     else
     ebind (guard_sweep commitment) (\<lambda>_.
     ebind (swworld (\<lambda>w. map_prod (map_err SweepSigningFailed) id
       (sw_sign_partial v unsigned_tx_hex (sweep_prevtxs (sw_vault v) (spl_inputs plan)) w))) (\<lambda>partial_hex.
     ebind (elift (map_err MalformedSweepPartial (parse_hex partial_hex))) (\<lambda>partial.
     ebind (elift (map_err MalformedSweepPartial (extract_signatures partial (mv_redeem_script (sw_vault v))))) (\<lambda>signatures.
     eret \<lparr>sp_partial = \<lparr>pt_vault_pubkey = sweep_vault_pubkey v, pt_signatures = signatures\<rparr>,
           sp_swept_atomic = spl_swept_atomic plan, sp_swept_inputs = length (spl_inputs plan)\<rparr>)))))))))"

section \<open>What is signed\<close>

lemma local_inputs_Ok:
  "local_inputs available i inps = Ok us \<Longrightarrow>
     set us \<subseteq> set available \<and>
     list_all2 (\<lambda>inp u. internal_txid (vu_txid u) = ti_prev_txid inp \<and> ucast (vu_vout u) = ti_prev_vout inp) inps us"
proof (induction inps arbitrary: i us)
  case (Cons inp inps)
  then obtain u us' where "find (\<lambda>u. internal_txid (vu_txid u) = ti_prev_txid inp \<and> ucast (vu_vout u) = ti_prev_vout inp) available = Some u"
      and rest: "local_inputs available (i + 1) inps = Ok us'" and us: "us = u # us'"
    by auto
  then have "u \<in> set available" "internal_txid (vu_txid u) = ti_prev_txid inp" "ucast (vu_vout u) = ti_prev_vout inp"
    by (auto simp: find_Some_iff)
  with Cons.IH [OF rest] us show ?case by simp
qed simp

lemma plan_from_local_view_Ok:
  assumes "plan_from_local_view v d tx = Ok plan"
  shows "spl_source_hash160 plan = mv_script_hash160 (sw_vault v)"
    "set (spl_inputs plan) \<subseteq> set (available_utxos d (wc_vault_min_confirmations (sw_config v)))"
    "value_of (spl_inputs plan) mod 2 ^ 64 = unat (spl_swept_atomic plan) + unat (spl_fee_atomic plan)"
    "spl_fee_atomic plan \<le> saturating_mul (fee_for (word_of_nat (length (spl_inputs plan))) SWEEP_OUTPUT_COUNT
       (wc_fee_rate_per_kb (sw_config v))) MAX_SWEEP_FEE_MULTIPLE"
proof -
  obtain out where out: "tx_outputs tx = [out]"
    using assms by (cases "tx_outputs tx" rule: remdups_adj.cases) (auto simp: plan_from_local_view_def)
  obtain inputs fee where run:
      "local_inputs (available_utxos d (wc_vault_min_confirmations (sw_config v))) 0 (tx_inputs tx) = Ok inputs"
      "checked_sub (sum_amounts inputs) (to_value out) = Some fee"
      "fee \<le> saturating_mul (fee_for (word_of_nat (length inputs)) SWEEP_OUTPUT_COUNT (wc_fee_rate_per_kb (sw_config v)))
         MAX_SWEEP_FEE_MULTIPLE"
      "spl_source_hash160 plan = mv_script_hash160 (sw_vault v)" "spl_inputs plan = inputs" "spl_fee_atomic plan = fee"
      "spl_swept_atomic plan = to_value out"
    using assms unfolding plan_from_local_view_def out by (auto simp: Let_def not_less split: if_splits)
  from run show "spl_source_hash160 plan = mv_script_hash160 (sw_vault v)"
      "set (spl_inputs plan) \<subseteq> set (available_utxos d (wc_vault_min_confirmations (sw_config v)))"
      "spl_fee_atomic plan \<le> saturating_mul (fee_for (word_of_nat (length (spl_inputs plan))) SWEEP_OUTPUT_COUNT
         (wc_fee_rate_per_kb (sw_config v))) MAX_SWEEP_FEE_MULTIPLE"
    using local_inputs_Ok [OF run(1)] by simp_all
  show "value_of (spl_inputs plan) mod 2 ^ 64 = unat (spl_swept_atomic plan) + unat (spl_fee_atomic plan)"
    using run checked_sub_unat [OF run(2)] by (simp add: unat_sum_amounts)
qed

lemma guard_sweep_Ok:
  "guard_sweep c s = (Ok u, s') \<Longrightarrow> ss_signed s' = Some c \<and> (ss_signed s = None \<or> ss_signed s = Some c) \<and>
     ss_world s' = ss_world s \<and> ss_db s' = ss_db s"
  by (auto simp: guard_sweep_def split: option.splits if_splits)

lemma sign_sweep_Ok:
  assumes "sign_sweep v hex pv now s = (Ok p, s')"
  obtains tx plan approval where "parse_hex hex = Ok tx" "plan_from_local_view v (ss_db s) tx = Ok plan"
    "verify_sweep_tx tx plan = Ok ()" "load_sweep_approval (fst (sw_read_approvals v (ss_world s))) = Ok (Some approval)"
    "sa_commitment approval = sweep_commitment (sw_sha256 v) plan pv" "\<not> sa_expiry_unix approval <s now"
    "ss_signed s = None \<or> ss_signed s = Some (sa_commitment approval)" "sp_swept_atomic p = spl_swept_atomic plan"
    "sp_swept_inputs p = length (spl_inputs plan)"
proof -
  obtain tx plan staged s1 where 1: "parse_hex hex = Ok tx" "plan_from_local_view v (ss_db s) tx = Ok plan"
      "verify_sweep_tx tx plan = Ok ()" "load_sweep_approval (fst (sw_read_approvals v (ss_world s))) = Ok staged"
      "s1 = s\<lparr>ss_world := snd (sw_read_approvals v (ss_world s))\<rparr>"
    and rest: "ebind (elift (ok_or SweepNotApproved staged)) (\<lambda>approval.
       if sa_commitment approval \<noteq> sweep_commitment (sw_sha256 v) plan pv then elift (Err DifferentSweepApproved)
       else if sa_expiry_unix approval <s now then elift (Err (SweepApprovalExpired (sa_expiry_unix approval) now))
       else
       ebind (guard_sweep (sweep_commitment (sw_sha256 v) plan pv)) (\<lambda>_.
       ebind (swworld (\<lambda>w. map_prod (map_err SweepSigningFailed) id
         (sw_sign_partial v hex (sweep_prevtxs (sw_vault v) (spl_inputs plan)) w))) (\<lambda>partial_hex.
       ebind (elift (map_err MalformedSweepPartial (parse_hex partial_hex))) (\<lambda>partial.
       ebind (elift (map_err MalformedSweepPartial (extract_signatures partial (mv_redeem_script (sw_vault v))))) (\<lambda>signatures.
       eret \<lparr>sp_partial = \<lparr>pt_vault_pubkey = sweep_vault_pubkey v, pt_signatures = signatures\<rparr>,
           sp_swept_atomic = spl_swept_atomic plan, sp_swept_inputs = length (spl_inputs plan)\<rparr>))))) s1 = (Ok p, s')"
    using assms by (auto simp: sign_sweep_def ebind_Ok elift_def swworld_def Let_def map_prod_def split: prod.splits)
  obtain approval where 2: "staged = Some approval" using rest by (cases staged) (auto simp: ebind_Ok elift_def)
  note run = rest [unfolded 2, simplified ebind_Ok elift_def ok_or_Ok]
  have 3: "sa_commitment approval = sweep_commitment (sw_sha256 v) plan pv" "\<not> sa_expiry_unix approval <s now"
    using run by (auto simp: ebind_Ok elift_def split: if_splits)
  from run 3 obtain s2 where "guard_sweep (sa_commitment approval) s1 = (Ok (), s2)"
    by (auto simp: ebind_Ok elift_def)
  with 1(5) have 4: "ss_signed s = None \<or> ss_signed s = Some (sa_commitment approval)" using guard_sweep_Ok by fastforce
  from run 3 have "sp_swept_atomic p = spl_swept_atomic plan" "sp_swept_inputs p = length (spl_inputs plan)"
    by (auto simp: ebind_Ok elift_def eret_def)
  with 1 2 3 4 that show thesis by simp
qed

text \<open>
  C32: What a validator signs as a vault sweep is the sweep its operator approved.  If the staged
  approval is the commitment of a plan (and no other bytes hash to that commitment), then the
  signed transaction spends exactly the outpoints of the plan, in its order, all of them available
  outputs in the validator's own table and of the amounts the operator saw; it has one output,
  which pays the planned amount to the planned script; and what the inputs are worth beyond that
  is the planned fee.  The sum of the inputs is modulo \<open>2^64\<close>, so the last part is exact when they are
  worth less than that.
\<close>

theorem sweep_as_approved:
  assumes signed_run: "sign_sweep v hex pv now s = (Ok p, s')"
    and staged: "load_sweep_approval (fst (sw_read_approvals v (ss_world s))) = Ok (Some a)"
    and approved: "sa_commitment a = sweep_commitment (sw_sha256 v) plan pv"
    and second_preimage: "\<And>b. sw_sha256 v b = sw_sha256 v (sweep_canonical_intent plan pv) \<Longrightarrow> b = sweep_canonical_intent plan pv"
    and small: "length (spl_dest_script_pubkey plan) < 2 ^ 16" "length (spl_inputs plan) < 16384"
  shows "\<exists>tx out own. parse_hex hex = Ok tx \<and> list_all2 spends_utxo (tx_inputs tx) own \<and>
     map committed_input own = map committed_input (spl_inputs plan) \<and>
     set own \<subseteq> set (available_utxos (ss_db s) (wc_vault_min_confirmations (sw_config v))) \<and>
     tx_outputs tx = [out] \<and> to_script_pubkey out = spl_dest_script_pubkey plan \<and>
     to_value out = spl_swept_atomic plan \<and>
     value_of own mod 2 ^ 64 = unat (spl_swept_atomic plan) + unat (spl_fee_atomic plan) \<and>
     (value_of own < 2 ^ 64 \<longrightarrow> value_of own = unat (spl_swept_atomic plan) + unat (spl_fee_atomic plan)) \<and>
     spl_source_hash160 plan = mv_script_hash160 (sw_vault v)"
proof -
  from signed_run obtain tx local approval where run: "parse_hex hex = Ok tx"
      "plan_from_local_view v (ss_db s) tx = Ok local" "verify_sweep_tx tx local = Ok ()"
      "load_sweep_approval (fst (sw_read_approvals v (ss_world s))) = Ok (Some approval)"
      "sa_commitment approval = sweep_commitment (sw_sha256 v) local pv"
    by (rule sign_sweep_Ok)
  from run(4,5) staged approved second_preimage have eq: "sweep_canonical_intent local pv = sweep_canonical_intent plan pv"
    by (simp add: sweep_commitment_def)
  note same = sweep_intent_inject [OF sweep_intent_inject_small [OF eq small] small(1), THEN iffD1, OF eq]
  from run(3) obtain out where "list_all2 spends_utxo (tx_inputs tx) (spl_inputs local)"
      "tx_outputs tx = [out]" "to_script_pubkey out = spl_dest_script_pubkey local" "to_value out = spl_swept_atomic local"
    by (auto simp: verify_sweep_tx_Ok)
  moreover from plan_from_local_view_Ok [OF run(2)]
  have "value_of (spl_inputs local) < 2 ^ 64 \<longrightarrow>
      value_of (spl_inputs local) = unat (spl_swept_atomic local) + unat (spl_fee_atomic local)"
    using mod_less [of "value_of (spl_inputs local)" "2 ^ 64"] by (simp del: mod_less)
  ultimately show ?thesis using run(1) same plan_from_local_view_Ok [OF run(2)]
    by (intro exI [of _ tx] exI [of _ out] exI [of _ "spl_inputs local"]) simp
qed

end
