(* ===== verification/GovernanceView.thy ===== *)
theory GovernanceView
  imports Texts Messages
begin

text \<open>
  The governance half of a validator's signer (\<open>p2p/governance_view.rs\<close>): the approvals an
  operator stages in a text file, how the file is written and read, and what the signer approves.
  Reading the file is the environment's; a missing file is an empty store.
\<close>

section \<open>Approvals\<close>

definition APPROVAL_TTL_SECONDS :: i64 where "APPROVAL_TTL_SECONDS = 24 * 60 * 60"

datatype governance_refusal =
    NotAGovernanceAction u8
  | NotApproved u8
  | ApprovalExpired u8 i64 i64
  | AlreadySignedAnother u8
  | GovernanceEpochMismatch u64 u64
  | StoreUnreadable bytes

record approval =
  ap_action :: u8
  ap_params_commitment :: bytes32
  ap_epoch :: u64
  ap_expiry_unix :: i64
  ap_note :: bytes

type_synonym approval_store = "u8 \<rightharpoonup> approval"

definition stage :: "approval \<Rightarrow> approval_store \<Rightarrow> approval_store" where
  "stage a store = store(ap_action a \<mapsto> a)"

definition approval_line :: "approval \<Rightarrow> bytes" where
  "approval_line ap = decimal (unat (ap_action ap)) @ [32] @ hex_encode (le_bytes (ap_params_commitment ap)) @ [32] @
     decimal (unat (ap_epoch ap)) @ [32] @ decimal_i64 (ap_expiry_unix ap) @ [32] @
     map (\<lambda>c. if c = 10 then 32 else c) (ap_note ap) @ [10]"

text \<open>The keys of the map, sorted.\<close>

definition to_text :: "approval_store \<Rightarrow> bytes" where
  "to_text store = concat (map (\<lambda>n. case store (word_of_nat n) of None \<Rightarrow> [] | Some ap \<Rightarrow> approval_line ap) [0..<256])"

definition bad_line :: "nat \<Rightarrow> string \<Rightarrow> governance_refusal" where
  "bad_line n what = StoreUnreadable (ascii ''line '' @ decimal (n + 1) @ ascii '': '' @ ascii what)"

definition parse_approval :: "nat \<Rightarrow> bytes \<Rightarrow> (approval, governance_refusal) result" where
  "parse_approval n line =
     (let parts = splitn 5 32 line; bad = bad_line n in
      and_then (ok_or (bad ''missing action'') (get_at parts 0)) (\<lambda>p0.
      and_then (ok_or (bad ''action is not a u8'') (parse_unsigned p0)) (\<lambda>action.
      and_then (ok_or (bad ''missing commitment'') (get_at parts 1)) (\<lambda>p1.
      and_then (map_err (\<lambda>_. bad ''commitment is not 32 hex bytes'') (decode_exact 32 p1)) (\<lambda>commitment.
      and_then (ok_or (bad ''missing epoch'') (get_at parts 2)) (\<lambda>p2.
      and_then (ok_or (bad ''epoch is not a u64'') (parse_unsigned p2)) (\<lambda>epoch.
      and_then (ok_or (bad ''missing expiry'') (get_at parts 3)) (\<lambda>p3.
      and_then (ok_or (bad ''expiry is not an i64'') (parse_i64 p3)) (\<lambda>expiry.
      Ok \<lparr>ap_action = action, ap_params_commitment = from_le commitment, ap_epoch = epoch,
          ap_expiry_unix = expiry, ap_note = (case get_at parts 4 of None \<Rightarrow> [] | Some x \<Rightarrow> x)\<rparr>)))))))))"

fun read_approvals :: "nat \<Rightarrow> bytes list \<Rightarrow> approval_store \<Rightarrow> (approval_store, governance_refusal) result" where
  "read_approvals n [] store = Ok store"
| "read_approvals n (l # ls) store =
     (let line = str_trim l in
      if line = [] \<or> hd line = 35 then read_approvals (n + 1) ls store
      else and_then (parse_approval n line) (\<lambda>ap. read_approvals (n + 1) ls (stage ap store)))"

definition from_text :: "bytes \<Rightarrow> (approval_store, governance_refusal) result" where
  "from_text text = read_approvals 0 (str_lines text) Map.empty"

text \<open>The text of the file, \<open>None\<close> when there is none; any other failure carries its message.\<close>

definition load_approvals :: "(bytes option, bytes) result \<Rightarrow> (approval_store, governance_refusal) result" where
  "load_approvals file = (case file of Err e \<Rightarrow> Err (StoreUnreadable e)
     | Ok None \<Rightarrow> Ok Map.empty | Ok (Some text) \<Rightarrow> from_text text)"

section \<open>The decision\<close>

definition is_governance_action :: "u8 \<Rightarrow> bool" where
  "is_governance_action action \<longleftrightarrow> action = ACTION_PROPOSE_ROTATION \<or> action = ACTION_CANCEL_ROTATION \<or>
     action = ACTION_PROPOSE_TVL_RAISE"

text \<open>
  The file is read on every request; \<open>already\<close> is the commitment signed for each action since the
  process started.
\<close>

definition approve ::
  "(approval_store, governance_refusal) result \<Rightarrow> u8 \<Rightarrow> bytes32 \<Rightarrow> u64 \<Rightarrow> u64 \<Rightarrow> i64 \<Rightarrow> (u8 \<rightharpoonup> bytes32)
     \<Rightarrow> (u8 \<rightharpoonup> bytes32, governance_refusal) result" where
  "approve file action commitment requested_epoch observed_epoch now already =
     (if \<not> is_governance_action action then Err (NotAGovernanceAction action)
      else if requested_epoch \<noteq> observed_epoch then Err (GovernanceEpochMismatch requested_epoch observed_epoch)
      else and_then file (\<lambda>store.
      and_then (ok_or (NotApproved action) (store action)) (\<lambda>approval.
      if ap_params_commitment approval \<noteq> commitment then Err (NotApproved action)
      else if ap_epoch approval \<noteq> observed_epoch then Err (GovernanceEpochMismatch (ap_epoch approval) observed_epoch)
      else if ap_expiry_unix approval <s now then Err (ApprovalExpired action (ap_expiry_unix approval) now)
      else case already action of
        None \<Rightarrow> Ok (already(action \<mapsto> commitment))
      | Some prev \<Rightarrow> if prev = commitment then Ok already else Err (AlreadySignedAnother action))))"

lemma approve_Ok:
  "approve file action commitment requested observed now already = Ok already' \<longleftrightarrow>
     is_governance_action action \<and> requested = observed \<and>
     (\<exists>store ap. file = Ok store \<and> store action = Some ap \<and> ap_params_commitment ap = commitment \<and>
       ap_epoch ap = observed \<and> \<not> ap_expiry_unix ap <s now) \<and>
     (already action = None \<or> already action = Some commitment) \<and> already' = already(action \<mapsto> commitment)"
  by (auto simp: approve_def map_upd_triv split: option.splits if_splits)

section \<open>The file keeps the approvals\<close>

lemma parse_approval_line:
  assumes "plain_note (ap_note a)"
  obtains line where "approval_line a = line @ [10]" "10 \<notin> set line"
    "str_trim (strip_cr line) \<noteq> []" "hd (str_trim (strip_cr line)) \<noteq> 35"
    "\<forall>n. parse_approval n (str_trim (strip_cr line)) = Ok a"
proof -
  let ?a = "decimal (unat (ap_action a))" and ?h = "hex_encode (le_bytes (ap_params_commitment a))"
    and ?p = "decimal (unat (ap_epoch a))" and ?e = "decimal_i64 (ap_expiry_unix a)"
  let ?line = "(?a @ 32 # ?h @ 32 # ?p) @ 32 # ?e @ 32 # ap_note a"
  let ?rest = "if ap_note a = [] then [] else 32 # ap_note a"
  note a = decimal_word_bytes [of "unat (ap_action a)"] and h = hex_word_bytes [of "le_bytes (ap_params_commitment a)"]
    and p = decimal_word_bytes [of "unat (ap_epoch a)"] and e = decimal_i64_word_bytes [of "ap_expiry_unix a"]
  obtain b v where bv: "?a = b # v" using decimal_digits [of "unat (ap_action a)"] by (cases ?a) auto
  with a have b: "word_byte b" by simp
  have trim: "str_trim (strip_cr ?line) = (?a @ 32 # ?h @ 32 # ?p) @ 32 # ?e @ ?rest"
    unfolding bv append_Cons using e assms b by (intro trim_noted_line [unfolded append_Cons]) auto
  have "splitn 5 32 ((?a @ 32 # ?h @ 32 # ?p) @ 32 # ?e @ ?rest) = ?a # ?h # ?p # ?e # (if ap_note a = [] then [] else [ap_note a])"
  proof -
    have "5 = Suc (Suc (Suc (Suc (Suc 0))))" by simp
    with splitn_noted [OF e [THEN conjunct2], of "ap_note a"] show ?thesis
      by (simp only: append_assoc append_Cons splitn_word [OF a] splitn_word [OF h] splitn_word [OF p])
  qed
  moreover have "decode_exact 32 ?h = Ok (le_bytes (ap_params_commitment a))"
    using decode_exact_encode [of "le_bytes (ap_params_commitment a)"] by simp
  ultimately have "parse_approval n (str_trim (strip_cr ?line)) = Ok a" for n
    by (simp only: trim parse_approval_def Let_def)
      (simp add: get_at_def parse_i64_decimal parse_unsigned_decimal from_le_le_bytes)
  moreover have "approval_line a = ?line @ [10]" using assms by (simp add: approval_line_def note_unchanged)
  moreover have "10 \<notin> set ws" if "\<forall>c \<in> set ws. word_byte c" for ws using that word_byte_not by blast
  with a h p e assms have "10 \<notin> set ?line" by (simp add: plain_note_def)
  moreover have "str_trim (strip_cr ?line) \<noteq> []" "hd (str_trim (strip_cr ?line)) \<noteq> 35"
    unfolding trim using b bv word_byte_not by auto
  ultimately show thesis using that by blast
qed

lemma read_approval_lines:
  assumes "\<forall>a \<in> set aps. plain_note (ap_note a)"
  shows "read_approvals n (str_lines (concat (map approval_line aps))) store = Ok (foldl (\<lambda>st a. stage a st) store aps)"
  using assms
proof (induction aps arbitrary: n store)
  case (Cons a aps)
  then have "plain_note (ap_note a)" by simp
  then obtain line where "approval_line a = line @ [10]" "10 \<notin> set line"
    "str_trim (strip_cr line) \<noteq> []" "hd (str_trim (strip_cr line)) \<noteq> 35"
    "\<forall>n. parse_approval n (str_trim (strip_cr line)) = Ok a"
    by (rule parse_approval_line)
  with Cons show ?case by (simp add: str_lines_line Let_def)
qed simp

definition store_keys :: "approval_store \<Rightarrow> u8 list" where
  "store_keys store = filter (\<lambda>k. store k \<noteq> None) (map word_of_nat [0..<256])"

lemma set_store_keys: "set (store_keys store) = dom store"
proof -
  have "k \<in> word_of_nat ` {0..<256}" for k :: u8
    using unsigned_less [of k, where 'a = nat] by (intro image_eqI [of _ _ "unat k"]) simp_all
  then show ?thesis by (auto simp: store_keys_def)
qed

lemma stage_all:
  assumes "\<forall>k \<in> set ks. \<exists>a. store k = Some a \<and> ap_action a = k"
  shows "foldl (\<lambda>st a. stage a st) st (map (\<lambda>k. the (store k)) ks) = (\<lambda>k. if k \<in> set ks then store k else st k)"
  using assms by (induction ks arbitrary: st) (auto simp: stage_def fun_eq_iff)

text \<open>
  The file of staged approvals reads back as it was written: for every store whose entries are
  filed under their own action and whose notes have no line break and no white space at their end,
  parsing the printed text gives the same store, so no approval is lost, changed or moved to
  another action.
\<close>

theorem approvals_roundtrip:
  assumes "\<And>k a. store k = Some a \<Longrightarrow> ap_action a = k \<and> plain_note (ap_note a)"
  shows "from_text (to_text store) = Ok store"
proof -
  let ?aps = "map (\<lambda>k. the (store k)) (store_keys store)"
  have "concat (map (\<lambda>n. case store (word_of_nat n) of None \<Rightarrow> [] | Some ap \<Rightarrow> approval_line ap) ns) =
      concat (map approval_line (map (\<lambda>k. the (store k)) (filter (\<lambda>k. store k \<noteq> None) (map word_of_nat ns))))" for ns
    by (induction ns) auto
  then have "to_text store = concat (map approval_line ?aps)" by (simp add: to_text_def store_keys_def)
  moreover have "\<forall>a \<in> set ?aps. plain_note (ap_note a)" using assms by (auto simp: set_store_keys)
  ultimately have "from_text (to_text store) = Ok (foldl (\<lambda>st a. stage a st) Map.empty ?aps)"
    by (simp only: from_text_def read_approval_lines)
  also have "foldl (\<lambda>st a. stage a st) Map.empty ?aps = store"
    using assms by (subst stage_all) (auto simp: set_store_keys fun_eq_iff domIff)
  finally show ?thesis .
qed

definition sample_approval :: approval where
  "sample_approval = \<lparr>ap_action = ACTION_PROPOSE_ROTATION, ap_params_commitment = 7, ap_epoch = 3, ap_expiry_unix = - 1,
     ap_note = ascii ''rotate''\<rparr>"

theorem approvals_roundtrip_witness:
  "from_text (to_text (stage sample_approval Map.empty)) = Ok (stage sample_approval Map.empty)"
  by (rule approvals_roundtrip)
    (auto simp: stage_def sample_approval_def plain_note_def dark_def white_space_def ascii_def upt_rec split: if_splits)

end
