(* ===== verification/Signer.thy ===== *)
theory Signer
  imports SweepSigner GovernanceView DepositDb Wire
begin

text \<open>
  The signing service of a validator (\<open>p2p/policy.rs\<close>, \<open>p2p/view.rs\<close>,
  \<open>p2p/completion_view.rs\<close>, \<open>p2p/service.rs\<close>): the policy that compares every requested message
  with the one the validator derives from its own database, the derivations, the attestation of a
  paid withdrawal, and the handlers.  A handler runs to its end before the next one starts.  The
  clock, the validator's own Goldcoin node, its key and the file of approvals are the
  environment's.  The signed messages are kept in a ghost list.
\<close>

section \<open>Policy (policy.rs)\<close>

datatype completion_refusal =
    CompletionUnknownWithdrawal u64
  | NotLocallyCompleted u64 string
  | NoPayout u64
  | TxidMismatch bytes bytes
  | HeightMismatch u64 u64
  | InsufficientConfirmations u64 i64 i64
  | PayoutUnknownToNode bytes
  | CompletionNodeUnavailable rpc_error
  | CompletionIndexOutOfRange u64
  | MalformedLocalState u64 db_error
  | CompletedPayoutWithoutTxid u64

text \<open>A refusal that the service passes on carries the refusal whose text is sent.\<close>

datatype refusal =
    Expired i64 i64
  | UnspecifiedAction
  | EpochMismatch u64 u64
  | MessageMismatch
  | Underivable string
  | ConflictingRequest
  | UnknownPeer
  | RateLimited
  | PayoutRefused payout_refusal
  | CompletionRefused completion_refusal
  | GovernanceRefused governance_refusal
  | SweepRefused sweep_refusal
  | StaleView

datatype action = MintDepositAction | PayoutAction | GovernanceAction

definition from_wire :: "32 word \<Rightarrow> (action, refusal) result" where
  "from_wire v = (if v = 1 then Ok MintDepositAction else if v = 2 then Ok PayoutAction
     else if v = 3 then Ok GovernanceAction else Err UnspecifiedAction)"

datatype signing_identity =
    DepositIdentity bytes32 u32
  | PayoutIdentity u64 u32
  | GovernanceIdentity u64

record signing_request =
  rq_request_id :: bytes
  rq_action :: action
  rq_epoch :: u64
  rq_canonical_message :: bytes
  rq_identity :: signing_identity
  rq_expiry_unix :: i64

type_synonym seen_set = "action \<times> signing_identity \<rightharpoonup> bytes"

definition previously_signed :: "seen_set \<Rightarrow> action \<Rightarrow> signing_identity \<Rightarrow> bytes option" where
  "previously_signed seen action identity = seen (action, identity)"

definition record_seen :: "action \<Rightarrow> signing_identity \<Rightarrow> bytes \<Rightarrow> seen_set \<Rightarrow> seen_set" where
  "record_seen action identity message seen = seen((action, identity) \<mapsto> message)"

datatype decision = Sign bytes | AlreadySigned bytes | Refuse refusal

text \<open>The caller's view of the chain: each of its methods may change the caller's state.\<close>

record 's local_view =
  observed_epoch :: "'s \<Rightarrow> u64"
  view_is_fresh :: "'s \<Rightarrow> bool \<times> 's"
  derive_message :: "action \<Rightarrow> signing_identity \<Rightarrow> 's \<Rightarrow> bytes option \<times> 's"

definition evaluate :: "signing_request \<Rightarrow> 's local_view \<Rightarrow> seen_set \<Rightarrow> i64 \<Rightarrow> 's \<Rightarrow> decision \<times> 's" where
  "evaluate request view seen now s =
     (if rq_expiry_unix request <s now then (Refuse (Expired (rq_expiry_unix request) now), s)
      else case view_is_fresh view s of
        (False, s) \<Rightarrow> (Refuse StaleView, s)
      | (True, s) \<Rightarrow>
      let observed = observed_epoch view s in
      if rq_epoch request \<noteq> observed then (Refuse (EpochMismatch (rq_epoch request) observed), s)
      else (case derive_message view (rq_action request) (rq_identity request) s of
        (None, s) \<Rightarrow> (Refuse (Underivable ''this validator has no verified record of that identity''), s)
      | (Some derived, s) \<Rightarrow>
          if derived \<noteq> rq_canonical_message request then (Refuse MessageMismatch, s)
          else (case previously_signed seen (rq_action request) (rq_identity request) of
            Some prev \<Rightarrow> if prev = derived then (AlreadySigned derived, s) else (Refuse ConflictingRequest, s)
          | None \<Rightarrow> (Sign derived, s))))"

section \<open>State and environment\<close>

record completion_arm =
  ca_confirmation_depth :: i64
  ca_arm_program_id :: bytes32
  ca_arm_protocol_version :: u8

record governance_arm =
  ga_program_id :: bytes32
  ga_protocol_version :: u8

record 'w service_env =
  sv_sdk :: sdk
  sv_pubkey :: pubkey
  sv_sign_message :: "bytes \<Rightarrow> signature"
  sv_now_unix :: "'w \<Rightarrow> i64 \<times> 'w"
  sv_transaction_confirmations :: "bytes \<Rightarrow> 'w \<Rightarrow> (tx_status option, rpc_error) result \<times> 'w"
  sv_read_approvals :: "'w \<Rightarrow> (bytes option, bytes) result \<times> 'w"
  sv_payout :: "'w payout_view option"
  sv_completion :: "completion_arm option"
  sv_governance :: "governance_arm option"
  sv_sweep :: "('w sweep_view \<times> u8) option"

record 'w service =
  va_deposits :: deposit_db
  va_withdrawals :: withdrawal_db
  va_world :: 'w
  va_epoch :: epoch_observation
  va_seen :: seen_set
  va_governed :: "u8 \<rightharpoonup> bytes32"
  va_swept :: "bytes32 option"
  va_signed :: "bytes list"

abbreviation sv_sha256 :: "'w service_env \<Rightarrow> sha256" where
  "sv_sha256 env \<equiv> sk_sha256 (sv_sdk env)"

type_synonym ('w, 'a) srv = "('w service, 'a, refusal) io"

definition sclock :: "'w service_env \<Rightarrow> ('w, i64) srv" where
  "sclock env s = (case sv_now_unix env (va_world s) of (now, w) \<Rightarrow> (Ok now, s\<lparr>va_world := w\<rparr>))"

definition squery :: "('w service \<Rightarrow> 'a) \<Rightarrow> ('w, 'a) srv" where
  "squery f s = (Ok (f s), s)"

text \<open>The signature over a message, which the ghost list records.\<close>

definition sign_message :: "'w service_env \<Rightarrow> bytes \<Rightarrow> ('w, signature) srv" where
  "sign_message env m s = (Ok (sv_sign_message env m), s\<lparr>va_signed := va_signed s @ [m]\<rparr>)"

section \<open>The derivations (view.rs)\<close>

definition derive_deposit :: "'w service_env \<Rightarrow> bytes32 \<Rightarrow> u32 \<Rightarrow> 'w service \<Rightarrow> bytes option \<times> 'w service" where
  "derive_deposit env deposit_txid vout s =
     (case find (\<lambda>r. dr_state r = DReadyForSignature \<or> dr_state r = DSubmitted)
        (history_for (va_deposits s) deposit_txid (ucast vout)) of
        None \<Rightarrow> (None, s)
      | Some row \<Rightarrow>
          (case sv_now_unix env (va_world s) of (now, w) \<Rightarrow>
          (case verify_and_load_signable_message (sv_sha256 env) (dr_id row) now (va_deposits s) of
             (Ok claim, d) \<Rightarrow> (Some (sc_message claim), s\<lparr>va_world := w, va_deposits := d\<rparr>)
           | (Err e, d) \<Rightarrow> (None, s\<lparr>va_world := w, va_deposits := d\<rparr>))))"

definition derive_payout :: "'w service_env \<Rightarrow> u64 \<Rightarrow> u32 \<Rightarrow> 'w service \<Rightarrow> bytes option \<times> 'w service" where
  "derive_payout env withdrawal_index quorum_attempt s =
     (if withdrawal_index <s 0 then (None, s)
      else (case get_withdrawal (va_withdrawals s) withdrawal_index of
        Ok (Some w) \<Rightarrow>
          if \<not> (wrow_state w = WBuilding \<or> wrow_state w = WSigning) then (None, s)
          else (case sv_now_unix env (va_world s) of (now, world) \<Rightarrow>
            (case verify_and_load_signable_payout (sv_sha256 env) withdrawal_index now (va_withdrawals s) of
              (Ok signable, d) \<Rightarrow>
                (if sp_quorum_attempt signable \<noteq> quorum_attempt then None else Some (sp_intent_bytes signable),
                 s\<lparr>va_world := world, va_withdrawals := d\<rparr>)
            | (Err e, d) \<Rightarrow> (None, s\<lparr>va_world := world, va_withdrawals := d\<rparr>)))
      | _ \<Rightarrow> (None, s)))"

fun view_derive_message :: "'w service_env \<Rightarrow> action \<Rightarrow> signing_identity \<Rightarrow> 'w service \<Rightarrow> bytes option \<times> 'w service" where
  "view_derive_message env MintDepositAction (DepositIdentity t vout) s = derive_deposit env t vout s"
| "view_derive_message env PayoutAction (PayoutIdentity index attempt) s = derive_payout env index attempt s"
| "view_derive_message env _ _ s = (None, s)"

definition db_view :: "'w service_env \<Rightarrow> 'w service local_view" where
  "db_view env = \<lparr>observed_epoch = (\<lambda>s. eo_epoch (va_epoch s)),
     view_is_fresh = (\<lambda>s. case sv_now_unix env (va_world s) of (now, w) \<Rightarrow> (is_fresh_at (va_epoch s) now, s\<lparr>va_world := w\<rparr>)),
     derive_message = view_derive_message env\<rparr>"

section \<open>Attesting a paid withdrawal (completion\_view.rs)\<close>

record completion_attestation =
  at_withdrawal_index :: u64
  at_payout_txid :: bytes32
  at_payout_height :: u64
  at_amount :: u64
  at_dest_commitment :: bytes32

definition attest ::
  "'w service_env \<Rightarrow> completion_arm \<Rightarrow> u64 \<Rightarrow> bytes32 \<Rightarrow> u64 \<Rightarrow> ('w service, completion_attestation, completion_refusal) io" where
  "attest env arm withdrawal_index payout_txid payout_height s =
     (if withdrawal_index <s 0 then (Err (CompletionIndexOutOfRange withdrawal_index), s)
      else case get_withdrawal (va_withdrawals s) withdrawal_index of
        Err e \<Rightarrow> (Err (MalformedLocalState withdrawal_index e), s)
      | Ok None \<Rightarrow> (Err (CompletionUnknownWithdrawal withdrawal_index), s)
      | Ok (Some w) \<Rightarrow>
      if wrow_state w \<noteq> WCompleted then (Err (NotLocallyCompleted withdrawal_index (ws_as_str (wrow_state w))), s)
      else (case get_payout (va_withdrawals s) withdrawal_index of
        None \<Rightarrow> (Err (NoPayout withdrawal_index), s)
      | Some payout \<Rightarrow>
      (case prow_txid_hex payout of
        None \<Rightarrow> (Err (CompletedPayoutWithoutTxid withdrawal_index), s)
      | Some local_txid_hex \<Rightarrow>
      let requested_hex = hex_encode (rev (le_bytes payout_txid)) in
      if requested_hex \<noteq> local_txid_hex then (Err (TxidMismatch requested_hex local_txid_hex), s)
      else (case sv_transaction_confirmations env local_txid_hex (va_world s) of
        (Err e, world) \<Rightarrow> (Err (CompletionNodeUnavailable e), s\<lparr>va_world := world\<rparr>)
      | (Ok None, world) \<Rightarrow> (Err (PayoutUnknownToNode local_txid_hex), s\<lparr>va_world := world\<rparr>)
      | (Ok (Some status), world) \<Rightarrow>
      let s = s\<lparr>va_world := world\<rparr> in
      if ts_confirmations status <s ca_confirmation_depth arm
        then (Err (InsufficientConfirmations withdrawal_index (ts_confirmations status) (ca_confirmation_depth arm)), s)
      else let local_height = (case ts_block_height status of None \<Rightarrow> 0 | Some h \<Rightarrow> h) in
      if local_height \<noteq> payout_height then (Err (HeightMismatch payout_height local_height), s)
      else (Ok \<lparr>at_withdrawal_index = withdrawal_index, at_payout_txid = payout_txid,
            at_payout_height = payout_height, at_amount = wrow_amount_atomic w,
            at_dest_commitment = destination_commitment (sv_sdk env) (wrow_glc_address w)\<rparr>, s)))))"

section \<open>The handlers (service.rs)\<close>

record wire_context =
  cx_txid :: bytes
  cx_vout :: u32
  cx_withdrawal_index :: u64
  cx_quorum_attempt :: u32

record sign_request =
  sr_request_id :: bytes
  sr_action :: "32 word"
  sr_epoch :: u64
  sr_canonical_message :: bytes
  sr_context :: "wire_context option"
  sr_expiry_unix :: i64

record payout_sign_request =
  pr_request_id :: bytes
  pr_epoch :: u64
  pr_withdrawal_index :: u64
  pr_quorum_attempt :: u32
  pr_canonical_intent :: bytes
  pr_unsigned_tx_hex :: bytes
  pr_expiry_unix :: i64
  pr_proposer_index :: u32

record completion_sign_request =
  cr_request_id :: bytes
  cr_epoch :: u64
  cr_withdrawal_index :: u64
  cr_payout_txid :: bytes
  cr_payout_height :: u64
  cr_expiry_unix :: i64

record governance_sign_request =
  gr_request_id :: bytes
  gr_epoch :: u64
  gr_action :: u32
  gr_params_commitment :: bytes
  gr_expiry_unix :: i64

record sweep_sign_request =
  wr_request_id :: bytes
  wr_epoch :: u64
  wr_unsigned_tx_hex :: bytes
  wr_expiry_unix :: i64

text \<open>What every response carries; the payout response has one signature per input.\<close>

record sign_response =
  re_request_id :: bytes
  re_validator_pubkey :: pubkey
  re_signature :: signature

record payout_sign_response =
  pq_request_id :: bytes
  pq_validator_pubkey :: pubkey
  pq_partial :: payout_partial

definition default_context :: wire_context where
  "default_context = \<lparr>cx_txid = [], cx_vout = 0, cx_withdrawal_index = 0, cx_quorum_attempt = 0\<rparr>"

definition identity_of :: "action \<Rightarrow> wire_context \<Rightarrow> (signing_identity, refusal) result" where
  "identity_of action ctx =
     (case action of
        MintDepositAction \<Rightarrow>
          if length (cx_txid ctx) \<noteq> 32 then Err (Underivable ''deposit context has no 32-byte txid'')
          else Ok (DepositIdentity (from_le (cx_txid ctx)) (cx_vout ctx))
      | PayoutAction \<Rightarrow> Ok (PayoutIdentity (cx_withdrawal_index ctx) (cx_quorum_attempt ctx))
      | GovernanceAction \<Rightarrow> Ok (GovernanceIdentity 0))"

definition respond :: "'w service_env \<Rightarrow> bytes \<Rightarrow> bytes \<Rightarrow> ('w, sign_response) srv" where
  "respond env request_id message =
     ebind (sign_message env message) (\<lambda>sig.
     eret \<lparr>re_request_id = request_id, re_validator_pubkey = sv_pubkey env, re_signature = sig\<rparr>)"

definition handle :: "'w service_env \<Rightarrow> sign_request \<Rightarrow> ('w, sign_response) srv" where
  "handle env req =
     ebind (elift (from_wire (sr_action req))) (\<lambda>action.
     let ctx = (case sr_context req of None \<Rightarrow> default_context | Some c \<Rightarrow> c) in
     ebind (elift (identity_of action ctx)) (\<lambda>identity.
     let parsed = \<lparr>rq_request_id = sr_request_id req, rq_action = action, rq_epoch = sr_epoch req,
           rq_canonical_message = sr_canonical_message req, rq_identity = identity,
           rq_expiry_unix = sr_expiry_unix req\<rparr> in
     ebind (sclock env) (\<lambda>now.
     ebind (\<lambda>s. case evaluate parsed (db_view env) (va_seen s) now s of
              (Sign bytes, s') \<Rightarrow> (Ok bytes, s'\<lparr>va_seen := record_seen action identity bytes (va_seen s')\<rparr>)
            | (AlreadySigned bytes, s') \<Rightarrow> (Ok bytes, s')
            | (Refuse r, s') \<Rightarrow> (Err r, s')) (\<lambda>message.
     respond env (sr_request_id req) message))))"

text \<open>The checks that the other handlers share.\<close>

definition check_request :: "'w service_env \<Rightarrow> i64 \<Rightarrow> ('w, i64 \<times> u64) srv" where
  "check_request env expiry_unix =
     ebind (sclock env) (\<lambda>now.
     if expiry_unix <s now then elift (Err (Expired expiry_unix now))
     else ebind (\<lambda>s. case view_is_fresh (db_view env) s of (fresh, s') \<Rightarrow> (if fresh then Ok () else Err StaleView, s')) (\<lambda>_.
     ebind (squery (observed_epoch (db_view env))) (\<lambda>observed.
     eret (now, observed))))"

definition check_epoch :: "u64 \<Rightarrow> u64 \<Rightarrow> ('w, unit) srv" where
  "check_epoch requested observed =
     (if requested \<noteq> observed then elift (Err (EpochMismatch requested observed)) else eret ())"

definition handle_completion :: "'w service_env \<Rightarrow> completion_sign_request \<Rightarrow> ('w, sign_response) srv" where
  "handle_completion env req =
     ebind (check_request env (cr_expiry_unix req)) (\<lambda>(now, observed).
     ebind (check_epoch (cr_epoch req) observed) (\<lambda>_.
     ebind (elift (ok_or (Underivable ''this validator cannot attest withdrawal completions'') (sv_completion env))) (\<lambda>arm.
     if length (cr_payout_txid req) \<noteq> 32 then elift (Err (Underivable ''payout txid is not 32 bytes''))
     else ebind (\<lambda>s. case attest env arm (cr_withdrawal_index req) (from_le (cr_payout_txid req)) (cr_payout_height req) s of
                   (r, s') \<Rightarrow> (map_err CompletionRefused r, s')) (\<lambda>att.
     respond env (cr_request_id req) (withdrawal_completion_message (ca_arm_protocol_version arm)
       (ca_arm_program_id arm) observed (at_withdrawal_index att) (at_payout_txid att) (at_payout_height att)
       (at_amount att) (at_dest_commitment att))))))"

definition handle_governance :: "'w service_env \<Rightarrow> governance_sign_request \<Rightarrow> ('w, sign_response) srv" where
  "handle_governance env req =
     ebind (check_request env (gr_expiry_unix req)) (\<lambda>(now, observed).
     ebind (elift (ok_or (Underivable ''this validator has no governance arm and will not sign governance actions'')
       (sv_governance env))) (\<lambda>arm.
     if \<not> gr_action req < 256 then elift (Err (Underivable ''governance action does not fit in a byte''))
     else if length (gr_params_commitment req) \<noteq> 32
       then elift (Err (Underivable ''parameter commitment is not 32 bytes''))
     else let action = ucast (gr_action req); commitment = from_le (gr_params_commitment req) in
     ebind (\<lambda>s. let (file, world) =
                 (if is_governance_action action \<and> gr_epoch req = observed then sv_read_approvals env (va_world s)
                  else (Ok None, va_world s)) in
              case approve (load_approvals file) action commitment (gr_epoch req) observed now (va_governed s) of
                Ok governed \<Rightarrow> (Ok (), s\<lparr>va_world := world, va_governed := governed\<rparr>)
              | Err e \<Rightarrow> (Err (GovernanceRefused e), s\<lparr>va_world := world\<rparr>)) (\<lambda>_.
     respond env (gr_request_id req) (governance_message (ga_protocol_version arm) (ga_program_id arm) observed action commitment))))"

definition handle_payout :: "'w service_env \<Rightarrow> payout_sign_request \<Rightarrow> ('w, payout_sign_response) srv" where
  "handle_payout env req =
     ebind (check_request env (pr_expiry_unix req)) (\<lambda>(now, observed).
     ebind (check_epoch (pr_epoch req) observed) (\<lambda>_.
     ebind (elift (ok_or (Underivable ''this validator holds no vault key and cannot sign payouts'') (sv_payout env))) (\<lambda>view.
     ebind (\<lambda>s. case view_sign_payout view (pr_withdrawal_index req) (pr_quorum_attempt req) (pr_canonical_intent req)
                  (pr_unsigned_tx_hex req) (unat (pr_proposer_index req)) now
                  \<lparr>sg_db = va_withdrawals s, sg_world = va_world s\<rparr> of
              (r, t) \<Rightarrow> (map_err PayoutRefused r, s\<lparr>va_withdrawals := sg_db t, va_world := sg_world t\<rparr>)) (\<lambda>p.
     eret \<lparr>pq_request_id = pr_request_id req, pq_validator_pubkey = sv_pubkey env, pq_partial = p\<rparr>))))"

definition handle_sweep :: "'w service_env \<Rightarrow> sweep_sign_request \<Rightarrow> ('w, payout_sign_response) srv" where
  "handle_sweep env req =
     ebind (check_request env (wr_expiry_unix req)) (\<lambda>(now, observed).
     ebind (check_epoch (wr_epoch req) observed) (\<lambda>_.
     ebind (elift (ok_or (Underivable ''this validator has no sweep arm and will not sign vault sweeps'') (sv_sweep env))) (\<lambda>(view, version).
     ebind (\<lambda>s. case sign_sweep view (wr_unsigned_tx_hex req) version now
                  \<lparr>ss_db = va_withdrawals s, ss_world = va_world s, ss_signed = va_swept s\<rparr> of
              (r, t) \<Rightarrow> (map_err SweepRefused r, s\<lparr>va_world := ss_world t, va_swept := ss_signed t\<rparr>)) (\<lambda>swept.
     eret \<lparr>pq_request_id = wr_request_id req, pq_validator_pubkey = sv_pubkey env, pq_partial = sp_partial swept\<rparr>))))"

end
