(* ===== verification/SignerSafety.thy ===== *)
theory SignerSafety
  imports Signer WithdrawalSafety DepositSafety
begin

text \<open>
  What a validator's key is ever used for.  Whatever requests it is sent, in whatever order with
  the other work on its tables, every message it has signed is the claim of a deposit its own
  database records, the completion of a withdrawal its own database records as paid by that very
  transaction, a payout intent, or a governance message.
\<close>

section \<open>Operations along an order\<close>

locale io_order =
  fixes R :: "'s \<Rightarrow> 's \<Rightarrow> bool"
  assumes R_refl: "R s s" and R_trans: "R s s' \<Longrightarrow> R s' s'' \<Longrightarrow> R s s''"
begin

definition along :: "('s, 'a, 'e) io \<Rightarrow> bool" where
  "along m \<longleftrightarrow> (\<forall>s. R s (snd (m s)))"

lemma along_bind: "along m \<Longrightarrow> (\<And>x. along (f x)) \<Longrightarrow> along (ebind m f)"
  unfolding along_def ebind_def by (auto split: prod.splits result.splits) (metis R_trans snd_conv)+

lemma along_ret: "along (eret x)" and along_lift: "along (elift r)"
  by (simp_all add: along_def eret_def elift_def R_refl)

lemma along_if: "along m \<Longrightarrow> along m' \<Longrightarrow> along (if b then m else m')"
  by simp

lemma along_Let: "(\<And>x. along (f x)) \<Longrightarrow> along (let x = t in f x)"
  by (simp add: Let_def)

lemma along_split: "(\<And>x y. along (f x y)) \<Longrightarrow> along (case p of (x, y) \<Rightarrow> f x y)"
  by (simp add: split_beta)

lemmas along_intros = along_bind along_ret along_lift along_if along_Let along_split

lemma alongD: "along m \<Longrightarrow> m s = (r, s') \<Longrightarrow> R s s'"
  unfolding along_def by (metis snd_conv)

end

section \<open>The payout view keeps the tables\<close>

definition wdb_grow :: "withdrawal_db \<Rightarrow> withdrawal_db \<Rightarrow> bool" where
  "wdb_grow d d' \<longleftrightarrow> (wdb_inv d \<longrightarrow> wdb_inv d' \<and> wdb_le d d')"

lemma wdb_grow_refl [simp]: "wdb_grow d d"
  by (simp add: wdb_grow_def wdb_le_refl)

lemma wdb_grow_trans: "wdb_grow d d' \<Longrightarrow> wdb_grow d' d'' \<Longrightarrow> wdb_grow d d''"
  unfolding wdb_grow_def by (blast intro: wdb_le_trans)

lemma wdb_grow_exec: "wdb_grow d (wdb_exec H c d)"
  by (simp add: wdb_grow_def wdb_exec_inv wdb_exec_le)

interpretation pvo: io_order "\<lambda>s s'. wdb_grow (sg_db s) (sg_db s')"
  by unfold_locales (auto elim: wdb_grow_trans)

lemma pv_along:
  "(\<And>d. wdb_grow d (snd (m d))) \<Longrightarrow> pvo.along (pvdb wrap m)" "pvo.along (pvquery q)" "pvo.along (pvworld c)"
  by (auto simp: pvo.along_def pvdb_def pvquery_def pvworld_def split: prod.splits) (metis snd_conv)

lemma wdb_ops_grow:
  "wdb_grow d (snd (reserve_utxos i us at d))" "wdb_grow d (snd (create_payout p d))"
  "wdb_grow d (snd (transition_withdrawal i to at reason d))" "wdb_grow d (snd (verify_and_load_signable_payout H i at d))"
  using wdb_grow_exec [of d H "ReserveUtxos i us at"] wdb_grow_exec [of d H "CreatePayout p"]
    wdb_grow_exec [of d H "TransitionWithdrawal i to at reason"] wdb_grow_exec [of d H "VerifyAndLoadSignablePayout i at"]
  by simp_all

lemmas pv_intros = pvo.along_intros pv_along wdb_ops_grow

lemma adopt_along: "pvo.along (adopt_proposal v w hex now)"
  unfolding adopt_proposal_def by (intro pv_intros)

lemma require_row_along: "pvo.along (require_row v i)"
  unfolding require_row_def by (rule pv_along)

lemma sign_payout_along: "pvo.along (view_sign_payout v i attempt intent hex proposer now)"
  unfolding view_sign_payout_def by (intro pv_intros adopt_along require_row_along)

section \<open>What the tables of a validator support\<close>

text \<open>The claim of a recorded deposit whose artifact is frozen.\<close>

definition recorded_claim :: "deposit_db \<Rightarrow> bytes \<Rightarrow> bool" where
  "recorded_claim d m \<longleftrightarrow> (\<exists>i r a. deposit_at d i = Some r \<and> artifact_at d i = Some a \<and> m = recomputed_message r a)"

text \<open>The completion of a recorded withdrawal by the transaction recorded as its payout.\<close>

definition paid_claim :: "'w service_env \<Rightarrow> withdrawal_db \<Rightarrow> bytes \<Rightarrow> bool" where
  "paid_claim env d m \<longleftrightarrow> (\<exists>arm epoch i t h w p. sv_completion env = Some arm \<and>
     request_at d i = Some w \<and> payout_at d i = Some p \<and> wp_txid p = Some (internal_txid t) \<and>
     m = withdrawal_completion_message (ca_arm_protocol_version arm) (ca_arm_program_id arm) epoch i t h
       (wq_amount_atomic w) (destination_commitment (sv_sdk env) (wq_glc_address w)))"

text \<open>
  The same when it is signed: the row is completed, and the validator's own node knows the
  transaction with enough confirmations and at the signed height.
\<close>

definition attested_claim :: "'w service_env \<Rightarrow> withdrawal_db \<Rightarrow> bytes \<Rightarrow> bool" where
  "attested_claim env d m \<longleftrightarrow> (\<exists>arm epoch i t h w p status world world'. sv_completion env = Some arm \<and>
     request_at d i = Some w \<and> wq_state w = ws_as_str WCompleted \<and>
     payout_at d i = Some p \<and> wp_txid p = Some (internal_txid t) \<and>
     sv_transaction_confirmations env (hex_encode (rev (le_bytes t))) world = (Ok (Some status), world') \<and>
     ca_confirmation_depth arm \<le>s ts_confirmations status \<and>
     h = (case ts_block_height status of None \<Rightarrow> 0 | Some x \<Rightarrow> x) \<and>
     m = withdrawal_completion_message (ca_arm_protocol_version arm) (ca_arm_program_id arm) epoch i t h
       (wq_amount_atomic w) (destination_commitment (sv_sdk env) (wq_glc_address w)))"

lemma attested_paid: "attested_claim env d m \<Longrightarrow> paid_claim env d m"
  unfolding attested_claim_def paid_claim_def by blast

definition intent_message :: "bytes \<Rightarrow> bool" where
  "intent_message m \<longleftrightarrow> take 17 m = PAYOUT_DOMAIN_TAG"

definition governed_message :: "bytes \<Rightarrow> bool" where
  "governed_message m \<longleftrightarrow> (\<exists>v p e a c. is_governance_action a \<and> m = governance_message v p e a c)"

definition justified :: "'w service_env \<Rightarrow> deposit_db \<Rightarrow> withdrawal_db \<Rightarrow> bytes \<Rightarrow> bool" where
  "justified env d wd m \<longleftrightarrow> recorded_claim d m \<or> paid_claim env wd m \<or> intent_message m \<or> governed_message m"

text \<open>What holds when a message is signed, and what of it the tables keep.\<close>

definition derived :: "'w service_env \<Rightarrow> deposit_db \<Rightarrow> withdrawal_db \<Rightarrow> bytes \<Rightarrow> bool" where
  "derived env d wd m \<longleftrightarrow> recorded_claim d m \<or> attested_claim env wd m \<or> intent_message m \<or> governed_message m"

lemma derived_justified: "derived env d wd m \<Longrightarrow> justified env d wd m"
  using attested_paid unfolding derived_def justified_def by blast

lemma recomputed_facts: "deposit_facts r = deposit_facts r' \<Longrightarrow> recomputed_message r a = recomputed_message r' a"
  by (simp add: recomputed_message_def deposit_facts_def)

lemma recorded_claim_le: "deposit_le d d' \<Longrightarrow> recorded_claim d m \<Longrightarrow> recorded_claim d' m"
proof -
  assume le: "deposit_le d d'" and "recorded_claim d m"
  then obtain i r a where c: "deposit_at d i = Some r" "artifact_at d i = Some a" "m = recomputed_message r a"
    by (auto simp: recorded_claim_def)
  from le_deposit_at [OF le c(1)] obtain r' where r': "deposit_at d' i = Some r'" "deposit_facts r' = deposit_facts r" by blast
  from recomputed_facts [OF r'(2)] c(3) have "m = recomputed_message r' a" by simp
  with r'(1) le_artifact_at [OF le c(2)] show ?thesis by (auto simp: recorded_claim_def)
qed

lemma paid_claim_le:
  assumes le: "wdb_le d d'" and inv: "wdb_inv d" and paid: "paid_claim env d m"
  shows "paid_claim env d' m"
proof -
  from paid obtain arm epoch i t h w p where c: "sv_completion env = Some arm" "request_at d i = Some w"
      "payout_at d i = Some p" "wp_txid p = Some (internal_txid t)"
      "m = withdrawal_completion_message (ca_arm_protocol_version arm) (ca_arm_program_id arm) epoch i t h
        (wq_amount_atomic w) (destination_commitment (sv_sdk env) (wq_glc_address w))"
    by (auto simp: paid_claim_def)
  from le have rows: "rows_le wq_index request_le (withdrawal_requests d) (withdrawal_requests d')"
      "rows_le wp_index payout_le (withdrawal_payouts d) (withdrawal_payouts d')"
    by (simp_all add: wdb_le_def)
  from rows(1) c(2) obtain w' where w': "request_at d' i = Some w'" "request_le w w'"
    unfolding rows_le_def opt_le_def by blast
  from rows(2) c(3) obtain p' where p': "payout_at d' i = Some p'" "payout_le p p'"
    unfolding rows_le_def opt_le_def by blast
  from inv row_at_Some [OF c(3)] have "payout_row_ok p" by (simp add: wdb_inv_def payouts_inv_def list_all_iff)
  with c(4) have "wp_signed_tx_hex p \<noteq> None" by (auto simp: payout_row_ok_def)
  with p'(2) c(4) have "wp_txid p' = Some (internal_txid t)" by (auto simp: payout_le_def signed_part_def)
  moreover from w'(2) obtain st fr where "w' = w\<lparr>wq_state := st, wq_failure_reason := fr\<rparr>"
    unfolding request_le_def by blast
  then have "wq_amount_atomic w' = wq_amount_atomic w" "wq_glc_address w' = wq_glc_address w" by simp_all
  ultimately show ?thesis unfolding paid_claim_def using c(1,5) w'(1) p'(1) by metis
qed

section \<open>A service along its tables\<close>

definition tables_grow :: "'w service \<Rightarrow> 'w service \<Rightarrow> bool" where
  "tables_grow s s' \<longleftrightarrow> change\<^sup>*\<^sup>* (va_deposits s) (va_deposits s') \<and> wdb_grow (va_withdrawals s) (va_withdrawals s')"

definition quiet :: "'w service \<Rightarrow> 'w service \<Rightarrow> bool" where
  "quiet s s' \<longleftrightarrow> tables_grow s s' \<and> va_signed s' = va_signed s"

interpretation qo: io_order quiet
  by unfold_locales (auto simp: quiet_def tables_grow_def elim: wdb_grow_trans)

lemma quiet_same: "va_deposits s' = va_deposits s \<Longrightarrow> va_withdrawals s' = va_withdrawals s \<Longrightarrow>
    va_signed s' = va_signed s \<Longrightarrow> quiet s s'"
  by (simp add: quiet_def tables_grow_def)

lemma sclock_quiet: "qo.along (sclock env)" and squery_quiet: "qo.along (squery f)"
  by (auto simp: qo.along_def sclock_def squery_def intro!: quiet_same split: prod.splits)

lemma check_request_quiet: "qo.along (check_request env expiry)"
proof -
  have "qo.along (\<lambda>s. case view_is_fresh (db_view env) s of (fresh, s') \<Rightarrow> (if fresh then Ok () else Err StaleView, s'))"
    by (auto simp: qo.along_def db_view_def intro!: quiet_same split: prod.splits)
  then show ?thesis unfolding check_request_def by (intro qo.along_intros sclock_quiet squery_quiet)
qed

lemma check_epoch_quiet: "qo.along (check_epoch a b)"
  unfolding check_epoch_def by (intro qo.along_intros)

lemma handle_payout_quiet: "qo.along (handle_payout env req)"
proof -
  have "qo.along (\<lambda>s. case view_sign_payout view i attempt intent hex proposer now
      \<lparr>sg_db = va_withdrawals s, sg_world = va_world s\<rparr> of
      (r, t) \<Rightarrow> (map_err PayoutRefused r, s\<lparr>va_withdrawals := sg_db t, va_world := sg_world t\<rparr>))"
    for view :: "'a payout_view" and i attempt intent hex proposer now
    using pvo.alongD [OF sign_payout_along]
    by (fastforce simp: qo.along_def quiet_def tables_grow_def split: prod.splits)
  then show ?thesis unfolding handle_payout_def by (intro qo.along_intros check_request_quiet check_epoch_quiet)
qed

lemma handle_sweep_quiet: "qo.along (handle_sweep env req)"
proof -
  have "qo.along (\<lambda>s. case sign_sweep view hex version now
      \<lparr>ss_db = va_withdrawals s, ss_world = va_world s, ss_signed = va_swept s\<rparr> of
      (r, t) \<Rightarrow> (map_err SweepRefused r, s\<lparr>va_world := ss_world t, va_swept := ss_signed t\<rparr>))"
    for view :: "'a sweep_view" and hex version now
    by (auto simp: qo.along_def intro!: quiet_same split: prod.splits)
  then show ?thesis unfolding handle_sweep_def by (intro qo.along_intros check_request_quiet check_epoch_quiet)
qed

section \<open>What is signed\<close>

text \<open>An operation that may end in one signature, over a message that the tables before it justify.\<close>

definition signs_justified :: "'w service_env \<Rightarrow> ('w, 'a) srv \<Rightarrow> bool" where
  "signs_justified env m \<longleftrightarrow> (\<forall>s r s'. wdb_inv (va_withdrawals s) \<longrightarrow> m s = (r, s') \<longrightarrow> tables_grow s s' \<and>
     (va_signed s' = va_signed s \<or>
      (\<exists>b. va_signed s' = va_signed s @ [b] \<and> derived env (va_deposits s) (va_withdrawals s) b)))"

lemma quiet_signs: "qo.along m \<Longrightarrow> signs_justified env m"
  unfolding signs_justified_def by (metis qo.alongD quiet_def)

lemma respond_state: "respond env rid m s = (Ok \<lparr>re_request_id = rid, re_validator_pubkey = sv_pubkey env,
    re_signature = sv_sign_message env m\<rparr>, s\<lparr>va_signed := va_signed s @ [m]\<rparr>)"
  by (simp add: respond_def ebind_def sign_message_def eret_def)

lemma derive_deposit_Some:
  assumes "derive_deposit env t vout s = (Some m, s')"
  shows "recorded_claim (va_deposits s) m"
proof -
  obtain i now claim d' where v: "verify_and_load_signable_message (sv_sha256 env) i now (va_deposits s) = (Ok claim, d')"
      "m = sc_message claim"
    using assms by (auto simp: derive_deposit_def split: option.splits prod.splits result.splits)
  show ?thesis
  proof (cases rule: verify_cases [where d = "va_deposits s" and i = i and H = "sv_sha256 env" and at = now])
    case (loaded r a)
    with v have "m = recomputed_message r a" by (auto simp: claim_of_def)
    with loaded(1,2) show ?thesis by (auto simp: recorded_claim_def)
  qed (use v in auto)
qed

lemma derive_payout_Some:
  assumes "derive_payout env i attempt s = (Some m, s')" shows "intent_message m"
proof -
  obtain now sp d' where "verify_and_load_signable_payout (sv_sha256 env) i now (va_withdrawals s) = (Ok sp, d')"
      "m = sp_intent_bytes sp"
    using assms by (auto simp: derive_payout_def split: option.splits prod.splits result.splits if_splits)
  then show ?thesis
    by (auto elim!: verify_Ok simp: intent_message_def canonical_payout_intent_def PAYOUT_DOMAIN_TAG_def)
qed

lemma derive_quiet: "quiet s (snd (view_derive_message env a identity s))"
proof -
  have verified: "change\<^sup>*\<^sup>* d d'" if "verify_and_load_signable_message H i at d = (r, d')" for H i at d r d'
    using that changes_verify by (metis snd_conv)
  have verified': "wdb_grow d d'" if "verify_and_load_signable_payout H i at d = (r, d')" for H i at d r d'
    using that wdb_ops_grow(4) by (metis snd_conv)
  have dep: "quiet s (snd (derive_deposit env t vout s))" for t vout
    by (auto simp: derive_deposit_def quiet_def tables_grow_def split: option.splits prod.splits result.splits dest: verified)
  have pay: "quiet s (snd (derive_payout env i attempt s))" for i attempt
    by (auto simp: derive_payout_def quiet_def tables_grow_def split: option.splits prod.splits result.splits dest: verified')
  show ?thesis by (cases "(env, a, identity, s)" rule: view_derive_message.cases) (simp_all add: dep pay qo.R_refl)
qed

lemma derive_justified:
  "view_derive_message env a identity s = (Some m, s') \<Longrightarrow> derived env (va_deposits s) (va_withdrawals s) m"
  by (cases "(env, a, identity, s)" rule: view_derive_message.cases)
    (auto simp: derived_def dest: derive_deposit_Some derive_payout_Some)

text \<open>The policy lets through what the view derives from the tables, and nothing else.\<close>

lemma evaluate_justified:
  assumes "evaluate request (db_view env) seen now s = (decision, s')"
  shows "quiet s s'" "decision = Sign m \<or> decision = AlreadySigned m \<Longrightarrow>
     derived env (va_deposits s) (va_withdrawals s) m \<and> m = rq_canonical_message request"
proof -
  let ?w = "snd (sv_now_unix env (va_world s))"
  let ?s = "s\<lparr>va_world := ?w\<rparr>"
  let ?d = "view_derive_message env (rq_action request) (rq_identity request) ?s"
  have cases: "s' = s \<or> s' = ?s \<or> s' = snd ?d"
    using assms by (auto simp: evaluate_def db_view_def Let_def split: if_splits prod.splits option.splits bool.splits)
  moreover have "quiet s ?s" by (rule quiet_same) simp_all
  ultimately show "quiet s s'" using derive_quiet qo.R_refl qo.R_trans by metis
  show "derived env (va_deposits s) (va_withdrawals s) m \<and> m = rq_canonical_message request"
    if "decision = Sign m \<or> decision = AlreadySigned m"
  proof -
    have "fst ?d = Some m" "m = rq_canonical_message request"
      using assms that
      by (auto simp: evaluate_def db_view_def Let_def split: if_splits prod.splits option.splits bool.splits)
    then show ?thesis using derive_justified [of env _ _ ?s m "snd ?d"] by (cases ?d) auto
  qed
qed

lemma handle_signs: "signs_justified env (handle env req)"
  unfolding signs_justified_def
proof (intro allI impI)
  fix s r s'
  assume run: "handle env req s = (r, s')"
  show "tables_grow s s' \<and> (va_signed s' = va_signed s \<or>
      (\<exists>b. va_signed s' = va_signed s @ [b] \<and> derived env (va_deposits s) (va_withdrawals s) b))"
  proof (cases "s' = s")
    case True
    then show ?thesis using qo.R_refl [of s] by (simp add: quiet_def)
  next
    case False
    then obtain request action identity where
      act: "ebind (sclock env) (\<lambda>now. ebind (\<lambda>s. case evaluate request (db_view env) (va_seen s) now s of
              (Sign bytes, s') \<Rightarrow> (Ok bytes, s'\<lparr>va_seen := record_seen action identity bytes (va_seen s')\<rparr>)
            | (AlreadySigned bytes, s') \<Rightarrow> (Ok bytes, s')
            | (Refuse r, s') \<Rightarrow> (Err r, s')) (respond env (sr_request_id req))) s = (r, s')"
      using run by (auto simp: handle_def ebind_def elift_def Let_def split: result.splits)
    obtain now w where clock: "sv_now_unix env (va_world s) = (now, w)" by fastforce
    let ?s = "s\<lparr>va_world := w\<rparr>"
    obtain decision t where ev: "evaluate request (db_view env) (va_seen s) now ?s = (decision, t)" by fastforce
    have "quiet s ?s" by (rule quiet_same) simp_all
    then have t: "quiet s t" using evaluate_justified(1) [OF ev] qo.R_trans by blast
    have same: "tables_grow s u" if "va_deposits u = va_deposits t" "va_withdrawals u = va_withdrawals t" for u
      using t that by (simp add: quiet_def tables_grow_def)
    show ?thesis
    proof (cases decision)
      case (Sign m)
      with act ev clock have "s' = t\<lparr>va_seen := record_seen action identity m (va_seen t), va_signed := va_signed t @ [m]\<rparr>"
        by (simp add: ebind_def sclock_def respond_state)
      moreover have "derived env (va_deposits s) (va_withdrawals s) m" using evaluate_justified(2) [OF ev, of m] Sign by auto
      ultimately show ?thesis using t same by (auto simp: quiet_def)
    next
      case (AlreadySigned m)
      with act ev clock have "s' = t\<lparr>va_signed := va_signed t @ [m]\<rparr>"
        by (simp add: ebind_def sclock_def respond_state)
      moreover have "derived env (va_deposits s) (va_withdrawals s) m" using evaluate_justified(2) [OF ev, of m] AlreadySigned by auto
      ultimately show ?thesis using t same by (auto simp: quiet_def)
    next
      case (Refuse e)
      with act ev clock have "s' = t" by (simp add: ebind_def sclock_def)
      then show ?thesis using t by (simp add: quiet_def)
    qed
  qed
qed

lemma attest_quiet: "attest env arm i t h s = (r, s') \<Longrightarrow> quiet s s'"
  by (rule quiet_same) (auto simp: attest_def Let_def split: if_splits option.splits result.splits prod.splits)

lemma attest_Ok:
  assumes "attest env arm i t h s = (Ok att, s')"
  obtains w p status world where "request_at (va_withdrawals s) i = Some w" "wq_state w = ws_as_str WCompleted"
    "payout_at (va_withdrawals s) i = Some p" "wp_txid_hex p = Some (hex_encode (rev (le_bytes t)))"
    "sv_transaction_confirmations env (hex_encode (rev (le_bytes t))) (va_world s) = (Ok (Some status), world)"
    "ca_confirmation_depth arm \<le>s ts_confirmations status" "h = (case ts_block_height status of None \<Rightarrow> 0 | Some x \<Rightarrow> x)"
    "att = \<lparr>at_withdrawal_index = i, at_payout_txid = t, at_payout_height = h, at_amount = wq_amount_atomic w,
       at_dest_commitment = destination_commitment (sv_sdk env) (wq_glc_address w)\<rparr>"
  using assms
  by (auto simp: attest_def Let_def get_withdrawal_def get_payout_def row_to_withdrawal_def row_to_payout_def ws_parse_Ok
      word_sle_eq word_sless_alt not_less split: if_splits option.splits result.splits prod.splits)

lemma attest_claim:
  assumes "attest env arm i t h s = (Ok att, s')" "sv_completion env = Some arm" "wdb_inv (va_withdrawals s)"
  shows "attested_claim env (va_withdrawals s) (withdrawal_completion_message (ca_arm_protocol_version arm)
     (ca_arm_program_id arm) epoch (at_withdrawal_index att) (at_payout_txid att) (at_payout_height att)
     (at_amount att) (at_dest_commitment att))"
proof -
  obtain w p status world where a: "request_at (va_withdrawals s) i = Some w" "wq_state w = ws_as_str WCompleted"
    "payout_at (va_withdrawals s) i = Some p" "wp_txid_hex p = Some (hex_encode (rev (le_bytes t)))"
    "sv_transaction_confirmations env (hex_encode (rev (le_bytes t))) (va_world s) = (Ok (Some status), world)"
    "ca_confirmation_depth arm \<le>s ts_confirmations status" "h = (case ts_block_height status of None \<Rightarrow> 0 | Some x \<Rightarrow> x)"
    "att = \<lparr>at_withdrawal_index = i, at_payout_txid = t, at_payout_height = h, at_amount = wq_amount_atomic w,
       at_dest_commitment = destination_commitment (sv_sdk env) (wq_glc_address w)\<rparr>"
    using attest_Ok [OF assms(1)] .
  from assms(3) row_at_Some [OF a(3)] have "payout_row_ok p" by (simp add: wdb_inv_def payouts_inv_def list_all_iff)
  with a(4) obtain t' where "wp_txid p = Some t'" "le_bytes t' = rev (le_bytes t)"
    by (auto simp: payout_row_ok_def hex_encode_inject)
  moreover have "from_le (le_bytes t') = t'" by (simp add: from_le_le_bytes)
  ultimately have "wp_txid p = Some (internal_txid t)" by (simp add: internal_txid_def)
  moreover have "withdrawal_completion_message (ca_arm_protocol_version arm) (ca_arm_program_id arm) epoch
      (at_withdrawal_index att) (at_payout_txid att) (at_payout_height att) (at_amount att) (at_dest_commitment att) =
    withdrawal_completion_message (ca_arm_protocol_version arm) (ca_arm_program_id arm) epoch i t h
      (wq_amount_atomic w) (destination_commitment (sv_sdk env) (wq_glc_address w))" by (simp add: a(8))
  ultimately show ?thesis using a(1-3,5-7) assms(2) unfolding attested_claim_def by blast
qed

text \<open>Operations that leave the tables and the signed messages alone may come first.\<close>

definition still :: "'w service \<Rightarrow> 'w service \<Rightarrow> bool" where
  "still s s' \<longleftrightarrow> va_deposits s' = va_deposits s \<and> va_withdrawals s' = va_withdrawals s \<and> va_signed s' = va_signed s"

interpretation so: io_order still
  by unfold_locales (auto simp: still_def)

lemma still_calls: "so.along (sclock env)" "so.along (squery f)"
    "so.along (\<lambda>s. case view_is_fresh (db_view env) s of (fresh, s') \<Rightarrow> (if fresh then Ok () else Err StaleView, s'))"
  by (auto simp: so.along_def still_def sclock_def squery_def db_view_def split: prod.splits)

lemma still_checks: "so.along (check_request env expiry)" "so.along (check_epoch a b)"
  unfolding check_request_def check_epoch_def by (intro so.along_intros still_calls)+

lemma signs_bind:
  assumes "so.along m" "\<And>x. signs_justified env (f x)" shows "signs_justified env (ebind m f)"
  unfolding signs_justified_def
proof (intro allI impI)
  fix s r s'
  assume inv: "wdb_inv (va_withdrawals s)" and run: "ebind m f s = (r, s')"
  obtain r1 s1 where m: "m s = (r1, s1)" by fastforce
  from so.alongD [OF assms(1) m] have st: "va_deposits s1 = va_deposits s" "va_withdrawals s1 = va_withdrawals s" "va_signed s1 = va_signed s"
    by (simp_all add: still_def)
  show "tables_grow s s' \<and> (va_signed s' = va_signed s \<or>
      (\<exists>b. va_signed s' = va_signed s @ [b] \<and> derived env (va_deposits s) (va_withdrawals s) b))"
  proof (cases r1)
    case (Ok x)
    with m run have f: "f x s1 = (r, s')" by (simp add: ebind_def)
    have "wdb_inv (va_withdrawals s1)" using inv st by simp
    with assms(2) f have "tables_grow s1 s' \<and> (va_signed s' = va_signed s1 \<or>
        (\<exists>b. va_signed s' = va_signed s1 @ [b] \<and> derived env (va_deposits s1) (va_withdrawals s1) b))"
      unfolding signs_justified_def by blast
    then show ?thesis by (simp only: tables_grow_def st)
  next
    case (Err e)
    with m run have "s' = s1" by (simp add: ebind_def)
    then show ?thesis by (simp add: tables_grow_def st)
  qed
qed

lemma signs_if: "signs_justified env m \<Longrightarrow> signs_justified env m' \<Longrightarrow> signs_justified env (if b then m else m')"
  and signs_split: "(\<And>x y. signs_justified env (f x y)) \<Longrightarrow> signs_justified env (case p of (x, y) \<Rightarrow> f x y)"
  and signs_lift: "signs_justified env (elift res)"
  using quiet_signs [OF qo.along_lift] by (simp_all add: split_beta)

lemma signs_found:
  "(\<And>x. opt = Some x \<Longrightarrow> signs_justified env (f x)) \<Longrightarrow> signs_justified env (ebind (elift (ok_or e opt)) f)"
  by (cases opt) (simp_all add: ebind_def elift_def signs_justified_def qo.R_refl quiet_def [symmetric] tables_grow_def)

lemma completion_signs:
  assumes "sv_completion env = Some arm"
  shows "signs_justified env (ebind (\<lambda>s. case attest env arm i t h s of (r, s') \<Rightarrow> (map_err CompletionRefused r, s'))
    (\<lambda>att. respond env rid (withdrawal_completion_message (ca_arm_protocol_version arm)
       (ca_arm_program_id arm) epoch (at_withdrawal_index att) (at_payout_txid att) (at_payout_height att)
       (at_amount att) (at_dest_commitment att))))"
  unfolding signs_justified_def
proof (intro allI impI)
  fix s r s'
  assume inv: "wdb_inv (va_withdrawals s)"
    and run: "ebind (\<lambda>s. case attest env arm i t h s of (r, s') \<Rightarrow> (map_err CompletionRefused r, s'))
      (\<lambda>att. respond env rid (withdrawal_completion_message (ca_arm_protocol_version arm)
       (ca_arm_program_id arm) epoch (at_withdrawal_index att) (at_payout_txid att) (at_payout_height att)
       (at_amount att) (at_dest_commitment att))) s = (r, s')"
  obtain ra sa where a: "attest env arm i t h s = (ra, sa)" by fastforce
  note q = attest_quiet [OF a]
  show "tables_grow s s' \<and> (va_signed s' = va_signed s \<or>
      (\<exists>b. va_signed s' = va_signed s @ [b] \<and> derived env (va_deposits s) (va_withdrawals s) b))"
  proof (cases ra)
    case (Ok att)
    with a have "attest env arm i t h s = (Ok att, sa)" by simp
    note paid = attest_claim [OF this assms inv, of epoch]
    from run a Ok q paid show ?thesis
      by (auto simp: ebind_def respond_state quiet_def tables_grow_def derived_def)
  next
    case (Err e)
    with run a q show ?thesis by (auto simp: ebind_def quiet_def)
  qed
qed

lemma handle_completion_signs: "signs_justified env (handle_completion env req)"
  unfolding handle_completion_def
  by (rule signs_bind [OF still_checks(1)], rule signs_split, rule signs_bind [OF still_checks(2)], rule signs_found)
    (intro signs_if signs_lift completion_signs)

lemma governance_signs:
  assumes "is_governance_action action \<Longrightarrow> governed_message m"
  shows "signs_justified env (ebind (\<lambda>s. let (file, world) =
                 (if is_governance_action action \<and> e = observed then sv_read_approvals env (va_world s)
                  else (Ok None, va_world s)) in
              case approve (load_approvals file) action commitment e observed now (va_governed s) of
                Ok governed \<Rightarrow> (Ok (), s\<lparr>va_world := world, va_governed := governed\<rparr>)
              | Err e \<Rightarrow> (Err (GovernanceRefused e), s\<lparr>va_world := world\<rparr>)) (\<lambda>_. respond env rid m))"
proof -
  have "derived env d wd m" if "is_governance_action action" for d wd
    using that assms by (simp add: derived_def)
  then show ?thesis
    by (auto simp: signs_justified_def ebind_def Let_def respond_state tables_grow_def approve_Ok split: prod.splits result.splits)
qed

lemma handle_governance_signs: "signs_justified env (handle_governance env req)"
proof -
  have "governed_message (governance_message v p e a c)" if "is_governance_action a" for v p e a c
    unfolding governed_message_def using that by (intro exI conjI) (assumption | rule refl)+
  then show ?thesis
    unfolding handle_governance_def Let_def [of "ucast _"] Let_def [of "from_le _"]
    by (intro signs_bind [OF still_checks(1)] signs_split signs_found signs_if signs_lift governance_signs)
qed

section \<open>The service as a transition system\<close>

text \<open>
  The requests of the peers, an observation of the epoch, the work of the indexer and of the
  executor on the validator's own tables, what happens elsewhere, and a restart of the process,
  which forgets what it has signed.
\<close>

datatype 'w sv_label =
    AskSign sign_request
  | AskPayout payout_sign_request
  | AskCompletion completion_sign_request
  | AskGovernance governance_sign_request
  | AskSweep sweep_sign_request
  | ObserveEpoch u64 i64
  | OwnDeposits ddb_call
  | OwnWithdrawals wdb_call
  | Outside 'w
  | RestartService epoch_observation

fun sv_exec :: "'w service_env \<Rightarrow> 'w sv_label \<Rightarrow> 'w service \<Rightarrow> 'w service" where
  "sv_exec env (AskSign req) s = snd (handle env req s)"
| "sv_exec env (AskPayout req') s = snd (handle_payout env req' s)"
| "sv_exec env (AskCompletion req'') s = snd (handle_completion env req'' s)"
| "sv_exec env (AskGovernance req3) s = snd (handle_governance env req3 s)"
| "sv_exec env (AskSweep req4) s = snd (handle_sweep env req4 s)"
| "sv_exec env (ObserveEpoch epoch at) s = s\<lparr>va_epoch := record_epoch epoch at (va_epoch s)\<rparr>"
| "sv_exec env (OwnDeposits c) s = s\<lparr>va_deposits := ddb_exec (sv_sha256 env) c (va_deposits s)\<rparr>"
| "sv_exec env (OwnWithdrawals c') s = s\<lparr>va_withdrawals := wdb_exec (sv_sha256 env) c' (va_withdrawals s)\<rparr>"
| "sv_exec env (Outside w) s = s\<lparr>va_world := w\<rparr>"
| "sv_exec env (RestartService e) s = s\<lparr>va_epoch := e, va_seen := Map.empty, va_governed := Map.empty, va_swept := None\<rparr>"

definition sv_init :: "'w service \<Rightarrow> bool" where
  "sv_init s \<longleftrightarrow> deposit_inv (va_deposits s) \<and> wdb_inv (va_withdrawals s) \<and> va_signed s = []"

definition sv_step :: "'w service_env \<Rightarrow> 'w service \<Rightarrow> 'w sv_label \<Rightarrow> 'w service \<Rightarrow> bool" where
  "sv_step env s l s' \<longleftrightarrow> s' = sv_exec env l s"

definition sv_inv :: "'w service_env \<Rightarrow> 'w service \<Rightarrow> bool" where
  "sv_inv env s \<longleftrightarrow> deposit_inv (va_deposits s) \<and> wdb_inv (va_withdrawals s) \<and>
     (\<forall>m \<in> set (va_signed s). justified env (va_deposits s) (va_withdrawals s) m)"

lemma justified_grow:
  assumes "tables_grow s s'" "deposit_inv (va_deposits s)" "wdb_inv (va_withdrawals s)"
  shows "deposit_inv (va_deposits s')" "wdb_inv (va_withdrawals s')"
    "justified env (va_deposits s) (va_withdrawals s) m \<Longrightarrow> justified env (va_deposits s') (va_withdrawals s') m"
proof -
  from assms have le: "deposit_le (va_deposits s) (va_deposits s')" "wdb_le (va_withdrawals s) (va_withdrawals s')"
    by (simp_all add: tables_grow_def wdb_grow_def changes_le)
  show "deposit_inv (va_deposits s')" "wdb_inv (va_withdrawals s')"
    using assms changes_inv by (auto simp: tables_grow_def wdb_grow_def)
  show "justified env (va_deposits s') (va_withdrawals s') m" if "justified env (va_deposits s) (va_withdrawals s) m"
    using that recorded_claim_le [OF le(1)] paid_claim_le [OF le(2) assms(3)] unfolding justified_def by blast
qed

lemma sv_exec_signs:
  assumes "wdb_inv (va_withdrawals s)"
  shows "tables_grow s (sv_exec env l s) \<and> (va_signed (sv_exec env l s) = va_signed s \<or>
    (\<exists>b. va_signed (sv_exec env l s) = va_signed s @ [b] \<and> derived env (va_deposits s) (va_withdrawals s) b))"
proof -
  have ask: "tables_grow s (snd (m s)) \<and> (va_signed (snd (m s)) = va_signed s \<or>
      (\<exists>b. va_signed (snd (m s)) = va_signed s @ [b] \<and> derived env (va_deposits s) (va_withdrawals s) b))"
    if "signs_justified env m" for m :: "('a, 'b) srv"
    using that assms unfolding signs_justified_def by (metis prod.collapse)
  show ?thesis
    by (cases l)
      (simp_all only: sv_exec.simps ask [OF handle_signs] ask [OF handle_completion_signs] ask [OF handle_governance_signs]
        ask [OF quiet_signs [OF handle_payout_quiet]] ask [OF quiet_signs [OF handle_sweep_quiet]],
       simp_all add: tables_grow_def exec_changes wdb_grow_exec)
qed

interpretation sv: inv_system sv_init "sv_step env" "sv_inv env"
  for env :: "'w service_env"
proof unfold_locales
  fix s s' :: "'w service" and l
  show "sv_inv env s" if "sv_init s" using that by (simp add: sv_init_def sv_inv_def)
  show "sv_inv env s'" if inv: "sv_inv env s" and step: "sv_step env s l s'"
  proof -
    have "wdb_inv (va_withdrawals s)" "deposit_inv (va_deposits s)" using inv by (simp_all add: sv_inv_def)
    with sv_exec_signs [of s env l] derived_justified [of env "va_deposits s" "va_withdrawals s"] justified_grow(1,2) [of s s'] justified_grow(3) [where s = s and s' = s' and env = env] inv step show ?thesis
      unfolding sv_inv_def sv_step_def by auto
  qed
qed

abbreviation sv_reachable :: "'w service_env \<Rightarrow> 'w service \<Rightarrow> bool" where
  "sv_reachable env \<equiv> transition_system.reachable sv_init (sv_step env)"

end
