(* ===== verification/SignerGuarantees.thy ===== *)
theory SignerGuarantees
  imports SignerSafety Demo
begin

text \<open>
  The bridge and its validators together: what the program mints or completes on chain is what
  honest validators recorded in their own databases.  A validator is honest if it runs the signing
  service and its signatures are not forged; the others may sign anything.
\<close>

section \<open>A quorum contains an honest validator\<close>

lemma quorum_has_honest:
  assumes "quorum_signed verify v msg" "card {k \<in> set (vs_validators v). \<not> honest k} < unat (vs_threshold v)"
  shows "\<exists>k \<in> set (vs_validators v). honest k \<and> (\<exists>sig. verify k sig msg)"
proof (rule ccontr)
  assume none: "\<not> ?thesis"
  from assms(1) obtain ks where ks: "distinct ks" "set ks \<subseteq> set (vs_validators v)" "unat (vs_threshold v) \<le> length ks"
      "\<forall>k \<in> set ks. \<exists>sig. verify k sig msg"
    by (auto simp: quorum_signed_def)
  with none have "set ks \<subseteq> {k \<in> set (vs_validators v). \<not> honest k}" by blast
  then have "card (set ks) \<le> card {k \<in> set (vs_validators v). \<not> honest k}" by (rule card_mono [rotated]) simp
  with ks(1,3) assms(2) show False by (simp add: distinct_card)
qed

section \<open>What the messages of a validator say\<close>

lemma claim_tag: "take 16 (deposit_claim_message v p e t vo a r m) = CLAIM_DOMAIN_TAG"
    "take 16 (withdrawal_completion_message v p e i t' h a d) = CLAIM_DOMAIN_TAG"
  by (simp_all add: message_layouts)

lemma intent_not_claim: "intent_message m \<Longrightarrow> take 16 m \<noteq> CLAIM_DOMAIN_TAG"
proof
  assume "intent_message m" "take 16 m = CLAIM_DOMAIN_TAG"
  then have "take 16 PAYOUT_DOMAIN_TAG = CLAIM_DOMAIN_TAG"
    using take_take [of 16 17 m] by (simp add: intent_message_def)
  then show False by (simp add: PAYOUT_DOMAIN_TAG_def CLAIM_DOMAIN_TAG_def ascii_def)
qed

lemma governed_not_claim: "governed_message m \<Longrightarrow> take 16 m \<noteq> CLAIM_DOMAIN_TAG"
  using tags_distinct by (auto simp: governed_message_def message_layouts)

lemma signed_claim_recorded:
  assumes "sv_reachable env s" "deposit_claim_message v p e t vo a r m \<in> set (va_signed s)"
  shows "\<exists>i row art. deposit_at (va_deposits s) i = Some row \<and> artifact_at (va_deposits s) i = Some art \<and>
    cd_txid row = t \<and> ucast (cd_vout row) = vo \<and> cd_amount_atomic row = a \<and> cd_recipient row = r \<and>
    ca_program_id art = p \<and> ca_validator_epoch art = e \<and> ca_wrapped_mint art = m"
proof -
  let ?m = "deposit_claim_message v p e t vo a r m"
  have "justified env (va_deposits s) (va_withdrawals s) ?m"
    using sv.reachable_inv [OF assms(1)] assms(2) by (simp add: sv_inv_def)
  moreover have "\<not> paid_claim env (va_withdrawals s) ?m" using message_separation(1) by (metis paid_claim_def)
  ultimately have "recorded_claim (va_deposits s) ?m"
    using intent_not_claim governed_not_claim claim_tag by (metis justified_def)
  then show ?thesis by (auto simp: recorded_claim_def recomputed_message_def claim_message_iff)
qed

text \<open>
  A withdrawal as a validator attests its completion: in its own tables the row is completed and the
  payout has this transaction, in its internal byte order, and its own node reports the transaction
  with the required confirmations and at this height.
\<close>

definition attested_payout :: "'w service_env \<Rightarrow> 'w service \<Rightarrow> u64 \<Rightarrow> bytes32 \<Rightarrow> u64 \<Rightarrow> u64 \<Rightarrow> bytes32 \<Rightarrow> bool" where
  "attested_payout env s i payment h amount commitment \<longleftrightarrow> (\<exists>arm w p status world. sv_completion env = Some arm \<and>
     request_at (va_withdrawals s) i = Some w \<and> wq_state w = ws_as_str WCompleted \<and> wq_amount_atomic w = amount \<and>
     destination_commitment (sv_sdk env) (wq_glc_address w) = commitment \<and>
     payout_at (va_withdrawals s) i = Some p \<and> wp_txid p = Some (internal_txid payment) \<and>
     sv_transaction_confirmations env (hex_encode (rev (le_bytes payment))) (va_world s) = (Ok (Some status), world) \<and>
     ca_confirmation_depth arm \<le>s ts_confirmations status \<and>
     h = (case ts_block_height status of None \<Rightarrow> 0 | Some x \<Rightarrow> x))"

lemma attested_claim_payout:
  assumes "attested_claim env (va_withdrawals s) (withdrawal_completion_message v p e i t h a c)"
  shows "\<exists>world. attested_payout env (s\<lparr>va_world := world\<rparr>) i t h a c"
proof -
  let ?m = "withdrawal_completion_message v p e i t h a c"
  from assms obtain arm epoch i' t' h' w q status world world' where a: "sv_completion env = Some arm"
      "request_at (va_withdrawals s) i' = Some w" "wq_state w = ws_as_str WCompleted"
      "payout_at (va_withdrawals s) i' = Some q" "wp_txid q = Some (internal_txid t')"
      "sv_transaction_confirmations env (hex_encode (rev (le_bytes t'))) world = (Ok (Some status), world')"
      "ca_confirmation_depth arm \<le>s ts_confirmations status" "h' = (case ts_block_height status of None \<Rightarrow> 0 | Some x \<Rightarrow> x)"
    and m: "?m = withdrawal_completion_message (ca_arm_protocol_version arm) (ca_arm_program_id arm) epoch i' t' h'
       (wq_amount_atomic w) (destination_commitment (sv_sdk env) (wq_glc_address w))"
    unfolding attested_claim_def by blast
  from m have "i' = i" "t' = t" "h' = h" "wq_amount_atomic w = a" "destination_commitment (sv_sdk env) (wq_glc_address w) = c"
    by (auto simp: withdrawal_completion_message_layout codec_append_iffs)
  with a have "attested_payout env (s\<lparr>va_world := world\<rparr>) i t h a c"
    unfolding attested_payout_def by (simp del: ws_as_str.simps)
  then show ?thesis ..
qed

text \<open>A completion that is signed was attested at some point of the run.\<close>

lemma signed_completion_attested:
  assumes "sv_reachable env s" "withdrawal_completion_message v p e i t h a c \<in> set (va_signed s)"
  shows "\<exists>s1 ls. sv_reachable env s1 \<and> transition_system.run (sv_step env) s1 ls s \<and> attested_payout env s1 i t h a c"
proof -
  let ?m = "withdrawal_completion_message v p e i t h a c"
  from assms(1) obtain s0 ls0 where s0: "sv_init s0" and run: "transition_system.run (sv_step env) s0 ls0 s"
    by (auto simp: sv.reachable_def)
  have "?m \<notin> set (va_signed s0)" using s0 by (simp add: sv_init_def)
  from sv.run_cause [OF run this assms(2)] obtain ls1 l ls2 s1 s2 where
    parts: "transition_system.run (sv_step env) s0 ls1 s1" "?m \<notin> set (va_signed s1)" "sv_step env s1 l s2"
      "?m \<in> set (va_signed s2)" "transition_system.run (sv_step env) s2 ls2 s" by blast
  have reach: "sv_reachable env s1" using sv.reachable_run [OF sv.reachable_init [OF s0] parts(1)] .
  then have "wdb_inv (va_withdrawals s1)" using sv.reachable_inv [OF reach] by (simp add: sv_inv_def)
  from sv_exec_signs [OF this, of env l] parts(2-4) have "derived env (va_deposits s1) (va_withdrawals s1) ?m"
    by (auto simp: sv_step_def)
  moreover have "\<not> recorded_claim (va_deposits s1) ?m"
    using message_separation(1) by (metis recorded_claim_def recomputed_message_def)
  ultimately have "attested_claim env (va_withdrawals s1) ?m"
    using intent_not_claim governed_not_claim claim_tag by (metis derived_def)
  then obtain world where att: "attested_payout env (s1\<lparr>va_world := world\<rparr>) i t h a c"
    using attested_claim_payout by blast
  have away: "sv_step env (s1\<lparr>va_world := world\<rparr>) (Outside (va_world s1)) s1" by (simp add: sv_step_def)
  have "sv_reachable env (s1\<lparr>va_world := world\<rparr>)"
    by (rule sv.reachable_step [OF reach, of "Outside world"]) (simp add: sv_step_def)
  moreover have "transition_system.run (sv_step env) (s1\<lparr>va_world := world\<rparr>) (Outside (va_world s1) # l # ls2) s"
    using away parts(3,5) by (blast intro: sv.run_Cons)
  ultimately show ?thesis using att by blast
qed

section \<open>Properties\<close>

text \<open>
  C30: What is minted was deposited, as an honest validator saw it.  Take any reachable state of the
  program in which fewer than \<open>threshold\<close> of the current validators are dishonest, and suppose a
  signature that verifies under an honest validator's key was made by its signing service.  If
  \<open>mint_wrapped\<close> succeeds, then the own database of some honest validator records the deposit with
  exactly the minted transaction id, output index, amount and recipient, with a frozen claim for
  this program, this mint and the current epoch, whatever requests the services were sent.
\<close>

theorem minted_deposit_recorded:
  assumes chain: "bridge.reachable ex others s" "mint_wrapped ex t m r payment vout a e s = Ok s'" "precompile_verified verify ex t"
    and few: "\<And>v. ch_vset s = Some v \<Longrightarrow> card {k \<in> set (vs_validators v). \<not> honest k} < unat (vs_threshold v)"
    and services: "\<And>k. honest k \<Longrightarrow> sv_reachable (env k) (sys k)"
    and unforgeable: "\<And>k sig msg. honest k \<Longrightarrow> verify k sig msg \<Longrightarrow> msg \<in> set (va_signed (sys k))"
  shows "\<exists>v k i row art. ch_vset s = Some v \<and> k \<in> set (vs_validators v) \<and> honest k \<and>
    deposit_at (va_deposits (sys k)) i = Some row \<and> cd_txid row = payment \<and> ucast (cd_vout row) = vout \<and>
    cd_amount_atomic row = a \<and> cd_recipient row = r \<and>
    artifact_at (va_deposits (sys k)) i = Some art \<and> ca_program_id art = PROGRAM_ID \<and>
    ca_validator_epoch art = vs_epoch v \<and> ca_wrapped_mint art = m"
proof -
  from mint_gate.signed_by_quorum [OF chain(2,3) inv_max_validators [OF bridge.reachable_inv [OF chain(1)]]]
  obtain c v where cv: "ch_config s = Some c" "ch_vset s = Some v"
    and q: "quorum_signed verify v (mint_message r payment vout a c v s)" by blast
  from chain(2) cv have "m = cfg_wrapped_mint c" by (auto simp: mint_wrapped_Ok)
  with q have q: "quorum_signed verify v
      (deposit_claim_message (cfg_protocol_version c) PROGRAM_ID (vs_epoch v) payment vout a r m)"
    by (simp add: mint_message_def)
  from quorum_has_honest [OF q few [OF cv(2)]] obtain k where k: "k \<in> set (vs_validators v)" "honest k"
      "deposit_claim_message (cfg_protocol_version c) PROGRAM_ID (vs_epoch v) payment vout a r m \<in> set (va_signed (sys k))"
    using unforgeable by blast
  from signed_claim_recorded [OF services [OF k(2)] k(3)] cv(2) k(1,2) show ?thesis by blast
qed

text \<open>
  C31: What is completed was paid, as an honest validator saw it.  Under the same hypotheses, if
  \<open>complete_withdrawal\<close> succeeds, then at some point of its run the service of some honest validator
  attested it: in its own database the withdrawal under this index was completed, with exactly the
  burned amount, an address of the recorded hash and a payout whose transaction is the completed
  one, in its internal byte order; and its own node reported this transaction with at least the
  required confirmations and at exactly the completed height.
\<close>

theorem completed_withdrawal_paid:
  assumes chain: "bridge.reachable ex others s" "complete_withdrawal ex t i payment h e s = Ok s'" "precompile_verified verify ex t"
    and few: "\<And>v. ch_vset s = Some v \<Longrightarrow> card {k \<in> set (vs_validators v). \<not> honest k} < unat (vs_threshold v)"
    and services: "\<And>k. honest k \<Longrightarrow> sv_reachable (env k) (sys k)"
    and unforgeable: "\<And>k sig msg. honest k \<Longrightarrow> verify k sig msg \<Longrightarrow> msg \<in> set (va_signed (sys k))"
  shows "\<exists>v k r s1 ls arm w p status world. ch_vset s = Some v \<and> k \<in> set (vs_validators v) \<and> honest k \<and> ch_withdrawals s i = Some r \<and>
    sv_reachable (env k) s1 \<and> transition_system.run (sv_step (env k)) s1 ls (sys k) \<and>
    request_at (va_withdrawals s1) i = Some w \<and> wq_state w = ''Completed'' \<and> wq_amount_atomic w = wr_amount r \<and>
    destination_commitment (sv_sdk (env k)) (wq_glc_address w) = ex_hash ex (stored_address r) \<and>
    payout_at (va_withdrawals s1) i = Some p \<and> wp_txid p = Some (internal_txid payment) \<and>
    sv_completion (env k) = Some arm \<and>
    sv_transaction_confirmations (env k) (hex_encode (rev (le_bytes payment))) (va_world s1) = (Ok (Some status), world) \<and>
    ca_confirmation_depth arm \<le>s ts_confirmations status \<and> h = (case ts_block_height status of None \<Rightarrow> 0 | Some x \<Rightarrow> x)"
proof -
  from completion_gate.signed_by_quorum [OF chain(2,3) inv_max_validators [OF bridge.reachable_inv [OF chain(1)]]] chain(2)
  obtain c v r where cv: "ch_vset s = Some v" "ch_withdrawals s i = Some r" and "ch_config s = Some c"
    and q: "quorum_signed verify v (withdrawal_completion_message (cfg_protocol_version c) PROGRAM_ID (vs_epoch v) i payment h
          (wr_amount r) (ex_hash ex (stored_address r)))"
    by (auto simp: complete_withdrawal_Ok completion_message_def)
  from quorum_has_honest [OF q few [OF cv(1)]] obtain k where k: "k \<in> set (vs_validators v)" "honest k"
      "withdrawal_completion_message (cfg_protocol_version c) PROGRAM_ID (vs_epoch v) i payment h
          (wr_amount r) (ex_hash ex (stored_address r)) \<in> set (va_signed (sys k))"
    using unforgeable by blast
  from signed_completion_attested [OF services [OF k(2)] k(3)] obtain s1 ls where
    "sv_reachable (env k) s1" "transition_system.run (sv_step (env k)) s1 ls (sys k)"
    "attested_payout (env k) s1 i payment h (wr_amount r) (ex_hash ex (stored_address r))" by blast
  with cv k(1,2) show ?thesis unfolding attested_payout_def ws_as_str.simps by blast
qed

section \<open>The guard on governance\<close>

definition governed_le :: "'w service \<Rightarrow> 'w service \<Rightarrow> bool" where
  "governed_le s s' \<longleftrightarrow> va_governed s \<subseteq>\<^sub>m va_governed s'"

interpretation go: io_order governed_le
  by unfold_locales (auto simp: governed_le_def intro: map_le_trans)

lemma governed_same: "va_governed s' = va_governed s \<Longrightarrow> governed_le s s'"
  by (simp add: governed_le_def)

lemma derive_governed: "va_governed (snd (view_derive_message env a identity s)) = va_governed s"
  by (cases "(env, a, identity, s)" rule: view_derive_message.cases)
    (auto simp: derive_deposit_def derive_payout_def split: option.splits prod.splits result.splits)

lemma evaluate_governed: "evaluate request (db_view env) seen now s = (decision, s') \<Longrightarrow> va_governed s' = va_governed s"
  using derive_governed [of env "rq_action request" "rq_identity request" "s\<lparr>va_world := snd (sv_now_unix env (va_world s))\<rparr>"]
  by (auto simp: evaluate_def db_view_def Let_def split: if_splits prod.splits option.splits bool.splits)

lemma governed_calls: "go.along (sclock env)" "go.along (squery f)" "go.along (respond env rid m)"
    "go.along (\<lambda>s. case view_is_fresh (db_view env) s of (fresh, s') \<Rightarrow> (if fresh then Ok () else Err StaleView, s'))"
  by (auto simp: go.along_def sclock_def squery_def db_view_def respond_state intro!: governed_same split: prod.splits)

lemma governed_checks: "go.along (check_request env expiry)" "go.along (check_epoch a b)"
  unfolding check_request_def check_epoch_def by (intro go.along_intros governed_calls)+

lemma governed_handlers:
  "go.along (handle env req)" "go.along (handle_payout env req')" "go.along (handle_completion env req'')"
  "go.along (handle_governance env req3)" "go.along (handle_sweep env req4)"
proof -
  have "go.along (\<lambda>s. case evaluate request (db_view env) (va_seen s) now s of
      (Sign bytes, s') \<Rightarrow> (Ok bytes, s'\<lparr>va_seen := record_seen action identity bytes (va_seen s')\<rparr>)
    | (AlreadySigned bytes, s') \<Rightarrow> (Ok bytes, s') | (Refuse r, s') \<Rightarrow> (Err r, s'))" for request action identity now
    by (auto simp: go.along_def intro!: governed_same dest!: evaluate_governed split: prod.splits decision.splits)
  then show "go.along (handle env req)"
    unfolding handle_def by (intro go.along_intros governed_calls)
  have "go.along (\<lambda>s. case f s of (r, t) \<Rightarrow> (map_err PayoutRefused r, s\<lparr>va_withdrawals := sg_db t, va_world := sg_world t\<rparr>))"
    for f :: "'a service \<Rightarrow> _ \<times> 'a signer_state"
    by (auto simp: go.along_def intro!: governed_same split: prod.splits)
  then show "go.along (handle_payout env req')"
    unfolding handle_payout_def by (intro go.along_intros governed_checks)
  have "go.along (\<lambda>s. case attest env arm i t h s of (r, s') \<Rightarrow> (map_err CompletionRefused r, s'))" for arm i t h
    by (auto simp: go.along_def attest_def Let_def intro!: governed_same split: prod.splits option.splits result.splits)
  then show "go.along (handle_completion env req'')"
    unfolding handle_completion_def by (intro go.along_intros governed_checks governed_calls)
  have "go.along (\<lambda>s. case f s of (r, t) \<Rightarrow> (map_err SweepRefused r, s\<lparr>va_world := ss_world t, va_swept := ss_signed t\<rparr>))"
    for f :: "'a service \<Rightarrow> _ \<times> 'a sweep_state"
    by (auto simp: go.along_def intro!: governed_same split: prod.splits)
  then show "go.along (handle_sweep env req4)"
    unfolding handle_sweep_def by (intro go.along_intros governed_checks)
  have "go.along (\<lambda>s. let (file, world) = f s in
              case approve (load_approvals file) action commitment e observed now (va_governed s) of
                Ok governed \<Rightarrow> (Ok (), s\<lparr>va_world := world, va_governed := governed\<rparr>)
              | Err e \<Rightarrow> (Err (GovernanceRefused e), s\<lparr>va_world := world\<rparr>))" for f action commitment e observed now
    by (auto simp: go.along_def Let_def governed_le_def approve_Ok map_le_def split: prod.splits result.splits)
  then show "go.along (handle_governance env req3)"
    unfolding handle_governance_def by (intro go.along_intros governed_checks governed_calls)
qed

lemma governed_leD: "governed_le s s' \<Longrightarrow> va_governed s a = Some c \<Longrightarrow> va_governed s' a = Some c"
  by (force simp: governed_le_def map_le_def dom_def)

lemma sv_exec_governed: "l \<notin> range RestartService \<Longrightarrow> governed_le s (sv_exec env l s)"
  by (cases l) (auto simp: governed_handlers [unfolded go.along_def, rule_format] governed_same)

lemma refuses_other_proposal:
  assumes "va_governed s (ucast (gr_action req)) = Some c" "from_le (gr_params_commitment req) \<noteq> c"
  shows "\<exists>e s'. handle_governance env req s = (Err e, s')"
proof (rule ccontr)
  assume "\<not> ?thesis"
  then obtain x s' where run: "handle_governance env req s = (Ok x, s')"
    by (metis result.exhaust prod.exhaust)
  then obtain now observed s1 where s1: "check_request env (gr_expiry_unix req) s = (Ok (now, observed), s1)"
      and "\<exists>file world governed. approve (load_approvals file) (ucast (gr_action req)) (from_le (gr_params_commitment req))
        (gr_epoch req) observed now (va_governed s1) = Ok governed"
    unfolding handle_governance_def Let_def [of "ucast _"] Let_def [of "from_le _"] ebind_Ok
    by (fastforce simp: ebind_Ok elift_def Let_def split: prod.splits if_splits result.splits)
  then have "va_governed s1 (ucast (gr_action req)) = None \<or>
      va_governed s1 (ucast (gr_action req)) = Some (from_le (gr_params_commitment req))"
    by (auto simp: approve_Ok)
  moreover have "va_governed s1 (ucast (gr_action req)) = Some c"
    using go.alongD [OF governed_checks(1) s1] assms(1) by (rule governed_leD)
  ultimately show False using assms(2) by auto
qed

lemma signed_proposal_kept:
  assumes "handle_governance env req s = (Ok x, s')"
  shows "va_governed s' (ucast (gr_action req)) = Some (from_le (gr_params_commitment req))"
  using assms unfolding handle_governance_def Let_def [of "ucast _"] Let_def [of "from_le _"] ebind_Ok
  by (fastforce simp: ebind_Ok elift_def Let_def approve_Ok respond_state split: prod.splits if_splits result.splits)

text \<open>
  C35: A validator signs one proposal per governance action and process.  Once it has signed one,
  then as long as the process is not restarted, whatever happens, every request for the same action
  with another commitment is refused.  So it does not equivocate; but the guard is kept per action
  only, so it also outlives the epoch, the approval and the execution of the proposal, and a second
  rotation, or a corrected one, needs a restart of every signer.
\<close>

theorem governance_guard_sticks:
  assumes signed: "handle_governance env req0 s0 = (Ok response, s)"
    and "transition_system.run (sv_step env) s ls s'" "\<And>e. RestartService e \<notin> set ls"
    and other: "ucast (gr_action req) = (ucast (gr_action req0) :: u8)"
      "from_le (gr_params_commitment req) \<noteq> (from_le (gr_params_commitment req0) :: bytes32)"
  shows "\<exists>e s''. handle_governance env req s' = (Err e, s'')"
proof -
  have "governed_le s s'" using assms(2,3)
  proof (induction s ls s' rule: sv.run.induct)
    case (run_Cons s l s' ls s'')
    then have "governed_le s s'" "governed_le s' s''"
      using sv_exec_governed [of l s env] by (auto simp: sv_step_def image_iff)
    then show ?case by (rule go.R_trans)
  qed (simp add: go.R_refl)
  with signed_proposal_kept [OF signed] other(1)
  have "va_governed s' (ucast (gr_action req)) = Some (from_le (gr_params_commitment req0))" by (auto dest: governed_leD)
  from refuses_other_proposal [OF this other(2)] show ?thesis .
qed

end
