(* ===== verification/SignerDemo.thy ===== *)
theory SignerDemo
  imports SignerGuarantees PayoutAdoptionDemo
begin

text \<open>
  A validator's service with a recorded deposit, a paid withdrawal and an approved sweep: the
  witnesses of what the signing services guarantee.
\<close>

section \<open>A validator\<close>

definition own_deposit :: deposit_candidate_row where
  "own_deposit = \<lparr>cd_id = 1, cd_txid = 0xAA, cd_txid_hex = hex_encode (le_bytes (0xAA :: bytes32)), cd_vout = 1,
     cd_amount_atomic = 500, cd_recipient = 42, cd_block_height = 3, cd_block_hash = 9, cd_raw_tx_hex = [],
     cd_state = ''ReadyForSignature'', cd_discovered_at = 1, cd_ready_at = Some 2, cd_failure_reason = None,
     cd_submitted_signature = None\<rparr>"

definition own_artifact :: claim_artifact where
  "own_artifact = \<lparr>ca_deposit_id = 1, ca_canonical_message = demo_claim_msg, ca_message_hash = ex_hash demo_ex demo_claim_msg,
     ca_protocol_version = PROTOCOL_VERSION, ca_validator_epoch = 0, ca_program_id = PROGRAM_ID, ca_wrapped_mint = 7,
     ca_created_at = 2\<rparr>"

definition own_deposits :: deposit_db where
  "own_deposits = empty_deposit_db\<lparr>deposit_candidates := [own_deposit], deposit_sequence := 1, claim_artifacts := [own_artifact]\<rparr>"

definition own_request :: withdrawal_request_row where
  "own_request = \<lparr>wq_index = 0, wq_pda = 9, wq_amount_atomic = 200, wq_requester = 42, wq_glc_address = [71, 49],
     wq_hash160 = 3, wq_requested_at_slot = 9, wq_protocol_version = 1, wq_observed_at = 10, wq_observed_at_slot = 9,
     wq_state = ws_as_str WCompleted, wq_failure_reason = None\<rparr>"

definition own_payout :: withdrawal_payout_row where
  "own_payout = \<lparr>wp_index = 0, wp_commitment_hash = 0, wp_intent_bytes = [], wp_fee_atomic = 1, wp_payout_atomic = 200,
     wp_change_atomic = 0, wp_change_address = None, wp_unsigned_tx_hex = [], wp_signed_tx_hex = Some [],
     wp_txid = Some (internal_txid 0xBB), wp_txid_hex = Some (hex_encode (rev (le_bytes (0xBB :: bytes32)))),
     wp_built_at = 11, wp_signed_at = Some 12, wp_broadcast_at = Some 13, wp_mined_block_hash = Some 4,
     wp_mined_height = Some 77, wp_confirmations = 6, wp_completed_at = Some 14, wp_vault_script_hash = Some 0,
     wp_quorum_attempt = 0, wp_quorum_indices = Some [0, 2], wp_onchain_completed_at = None,
     wp_onchain_completion_signature = None\<rparr>"

definition own_withdrawals :: withdrawal_db where
  "own_withdrawals = empty_withdrawal_db\<lparr>withdrawal_requests := [own_request], withdrawal_payouts := [own_payout]\<rparr>"

definition own_env :: "unit service_env" where
  "own_env = \<lparr>sv_sdk = demo_sdk\<lparr>sk_sha256 := ex_hash demo_ex\<rparr>, sv_pubkey = 1, sv_sign_message = \<lambda>_. 11,
     sv_now_unix = \<lambda>w. (20, w),
     sv_transaction_confirmations = \<lambda>_ w. (Ok (Some \<lparr>ts_confirmations = 6, ts_block_hash_hex = None, ts_block_height = Some 77\<rparr>), w),
     sv_read_approvals = \<lambda>w. (Ok None, w), sv_payout = None,
     sv_completion = Some \<lparr>ca_confirmation_depth = 1, ca_arm_program_id = PROGRAM_ID, ca_arm_protocol_version = PROTOCOL_VERSION\<rparr>,
     sv_governance = Some \<lparr>ga_program_id = PROGRAM_ID, ga_protocol_version = PROTOCOL_VERSION\<rparr>, sv_sweep = None\<rparr>"

definition own_service :: "unit service" where
  "own_service = \<lparr>va_deposits = own_deposits, va_withdrawals = own_withdrawals, va_world = (),
     va_epoch = \<lparr>eo_epoch = 0, eo_observed_at = 20\<rparr>, va_seen = Map.empty, va_governed = Map.empty, va_swept = None, va_signed = []\<rparr>"

definition own_sign :: sign_request where
  "own_sign = \<lparr>sr_request_id = [1], sr_action = 1, sr_epoch = 0, sr_canonical_message = demo_claim_msg,
     sr_context = Some \<lparr>cx_txid = le_bytes (0xAA :: bytes32), cx_vout = 1, cx_withdrawal_index = 0, cx_quorum_attempt = 0\<rparr>,
     sr_expiry_unix = 30\<rparr>"

definition own_completion :: completion_sign_request where
  "own_completion = \<lparr>cr_request_id = [2], cr_epoch = 0, cr_withdrawal_index = 0,
     cr_payout_txid = le_bytes (0xBB :: bytes32), cr_payout_height = 77, cr_expiry_unix = 30\<rparr>"

definition own_signed :: "unit service" where
  "own_signed = sv_exec own_env (AskCompletion own_completion) (sv_exec own_env (AskSign own_sign) own_service)"

lemma own_init: "sv_init own_service"
proof -
  have "deposit_inv own_deposits"
    by (simp add: deposit_inv_def own_deposits_def empty_deposit_db_def candidate_ok_def own_deposit_def own_artifact_def
        known_state_def demo_claim_msg_def message_lengths CLAIM_MESSAGE_LEN_def) (metis ds_as_str.simps(3))
  moreover have "wdb_inv own_withdrawals"
    using state_name_as_str [of WCompleted]
    by (simp add: wdb_inv_def own_withdrawals_def empty_withdrawal_db_def requests_inv_def payouts_inv_def utxos_inv_def
        inputs_inv_def links_inv_def request_ok_def payout_row_ok_def own_request_def own_payout_def internal_txid_def le_bytes_from_le)
  ultimately show ?thesis by (simp add: sv_init_def own_service_def)
qed

lemma own_reachable: "sv_reachable own_env own_signed"
  unfolding own_signed_def sv.reachable_def using own_init
  by (intro exI [of _ own_service] exI [of _ "[AskSign own_sign, AskCompletion own_completion]"])
    (simp add: sv_step_def sv.run_Cons_iff sv.run_Nil_iff)

lemma own_view_fresh: "is_fresh_at \<lparr>eo_epoch = 0, eo_observed_at = 20\<rparr> 20"
  by (simp add: is_fresh_at_def saturating_sub_i64_def MAX_VIEW_STALENESS_def word_sle_eq)

lemma own_derives: "view_derive_message own_env MintDepositAction (DepositIdentity 0xAA 1) own_service = (Some demo_claim_msg, own_service)"
proof -
  have "claim_consistent (ex_hash demo_ex) own_deposit own_artifact"
    by (simp add: claim_consistent_def recomputed_message_def own_deposit_def own_artifact_def demo_claim_msg_def)
  moreover have "deposit_at own_deposits 1 = Some own_deposit" "artifact_at own_deposits 1 = Some own_artifact"
    by (simp_all add: own_deposits_def own_deposit_def own_artifact_def)
  ultimately have "verify_and_load_signable_message (ex_hash demo_ex) 1 20 own_deposits = (Ok (claim_of 1 own_deposit own_artifact), own_deposits)"
    by (cases rule: verify_cases [where d = own_deposits and i = 1 and H = "ex_hash demo_ex" and at = 20]) auto
  moreover have "history_for own_deposits 0xAA 1 = [row_to_deposit own_deposit]"
    by (simp add: history_for_def own_deposits_def own_deposit_def)
  moreover have "dr_state (row_to_deposit own_deposit) = DReadyForSignature" "dr_id (row_to_deposit own_deposit) = 1"
    by (simp_all add: row_to_deposit_def own_deposit_def ds_parse_def)
  ultimately show ?thesis
    by (simp add: derive_deposit_def own_service_def own_env_def claim_of_def recomputed_message_def own_deposit_def
        own_artifact_def demo_claim_msg_def)
qed

lemma own_handles: "snd (handle own_env own_sign own_service) =
    own_service\<lparr>va_seen := [(MintDepositAction, DepositIdentity 0xAA 1) \<mapsto> demo_claim_msg], va_signed := [demo_claim_msg]\<rparr>"
proof -
  let ?req = "\<lparr>rq_request_id = [1], rq_action = MintDepositAction, rq_epoch = 0, rq_canonical_message = demo_claim_msg,
           rq_identity = DepositIdentity 0xAA 1, rq_expiry_unix = 30\<rparr>"
  have clock: "sv_now_unix own_env w = (20, w)" for w by (simp add: own_env_def)
  have "evaluate ?req (db_view own_env) Map.empty 20 own_service = (Sign demo_claim_msg, own_service)"
    using own_derives own_view_fresh
    by (simp add: evaluate_def db_view_def clock previously_signed_def word_sless_alt own_service_def)
  then show ?thesis
    by (simp add: handle_def own_sign_def from_wire_def identity_of_def ebind_def elift_def sclock_def clock respond_state
        record_seen_def from_le_le_bytes) (simp add: own_service_def respond_state record_seen_def)
qed

lemma own_completes: "va_signed own_signed = [demo_claim_msg, demo_done_msg]"
proof -
  let ?s = "own_service\<lparr>va_seen := [(MintDepositAction, DepositIdentity 0xAA 1) \<mapsto> demo_claim_msg], va_signed := [demo_claim_msg]\<rparr>"
  let ?arm = "\<lparr>ca_confirmation_depth = 1, ca_arm_program_id = PROGRAM_ID, ca_arm_protocol_version = PROTOCOL_VERSION\<rparr>"
  have clock: "sv_now_unix own_env w = (20, w)" for w by (simp add: own_env_def)
  have check: "check_request own_env 30 ?s = (Ok (20, 0), ?s)"
    using own_view_fresh
    by (simp add: check_request_def ebind_def sclock_def squery_def clock elift_def eret_def db_view_def word_sless_alt own_service_def)
  have "get_withdrawal own_withdrawals 0 = Ok (Some \<lparr>wrow_index = 0, wrow_pda = 9, wrow_amount_atomic = 200, wrow_requester = 42,
      wrow_glc_address = [71, 49], wrow_hash160 = 3, wrow_requested_at_slot = 9, wrow_protocol_version = 1,
      wrow_state = WCompleted, wrow_failure_reason = None, wrow_observed_at = 10\<rparr>)"
    by (simp add: get_withdrawal_def own_withdrawals_def own_request_def row_to_withdrawal_def ws_parse_def)
  moreover have "get_payout own_withdrawals 0 = Some (row_to_payout own_payout)"
      "prow_txid_hex (row_to_payout own_payout) = Some (hex_encode (rev (le_bytes (0xBB :: bytes32))))"
    by (simp_all add: get_payout_def own_withdrawals_def own_payout_def row_to_payout_def)
  ultimately have attested: "attest own_env ?arm 0 0xBB 77 ?s = (Ok \<lparr>at_withdrawal_index = 0, at_payout_txid = 0xBB,
      at_payout_height = 77, at_amount = 200, at_dest_commitment = ex_hash demo_ex [71, 49]\<rparr>, ?s)"
    by (simp add: attest_def own_service_def own_env_def word_sless_alt destination_commitment_def)
  have msg: "withdrawal_completion_message PROTOCOL_VERSION PROGRAM_ID 0 0 0xBB 77 200 (ex_hash demo_ex [71, 49]) = demo_done_msg"
    by (simp add: demo_done_msg_def completion_message_def demo_request_def demo_config2_def demo_config_def demo_vset_def
        stored_address_def)
  have arm: "sv_completion own_env = Some ?arm" by (simp add: own_env_def)
  have "handle_completion own_env own_completion ?s =
      (Ok \<lparr>re_request_id = [2], re_validator_pubkey = sv_pubkey own_env, re_signature = sv_sign_message own_env demo_done_msg\<rparr>,
       ?s\<lparr>va_signed := [demo_claim_msg, demo_done_msg]\<rparr>)"
    unfolding handle_completion_def using msg
    by (simp add: own_completion_def ebind_def check check_epoch_def eret_def elift_def arm from_le_le_bytes attested respond_state)
  then show ?thesis by (simp add: own_signed_def own_handles)
qed

section \<open>Witnesses\<close>

text \<open>A federation of the validators 1, 2 and 3, of which 3 is dishonest; 1 and 3 sign.\<close>

definition strict_verify :: "pubkey \<Rightarrow> signature \<Rightarrow> bytes \<Rightarrow> bool" where
  "strict_verify pk sig msg \<longleftrightarrow> (pk, sig) \<in> set demo_sigs \<and> msg \<in> {demo_claim_msg, demo_done_msg}"

lemma strict_precompile_verified:
  assumes "msg \<in> {demo_claim_msg, demo_done_msg}" "length msg < 1000"
  shows "precompile_verified strict_verify demo_ex (demo_tx k n msg)"
  unfolding precompile_verified_def
proof (intro allI impI)
  fix data i pk sig m
  assume d: "tx_prev (demo_tx k n msg) = Some (ex_ed25519_program demo_ex, data)"
    and i: "i < unat (data ! 0)" and e: "ed25519_entry data i pk sig m"
  from d have data: "data = build_ed25519_data demo_sigs msg"
    by (simp add: demo_tx_def build_ed25519_instruction_def)
  then have "i < length demo_sigs" using i by (simp add: build_ed25519_layout Let_def demo_sigs_def)
  from build_ed25519_entry [OF this, of msg] assms e data
  have "pk = fst (demo_sigs ! i)" "sig = snd (demo_sigs ! i)" "m = msg"
    using ed25519_entry_unique [of data i pk sig m] by (auto simp: demo_sigs_def)
  with \<open>i < length demo_sigs\<close> assms(1) show "strict_verify pk sig m"
    by (simp add: strict_verify_def)
qed

lemma few_dishonest:
  "ch_vset s = Some demo_vset \<Longrightarrow> ch_vset s = Some v \<Longrightarrow>
     card {k \<in> set (vs_validators v). \<not> k \<noteq> 3} < unat (vs_threshold v)"
proof -
  have "{k \<in> set (vs_validators demo_vset). \<not> k \<noteq> 3} = {3}" by (auto simp: demo_vset_def)
  then show "ch_vset s = Some demo_vset \<Longrightarrow> ch_vset s = Some v \<Longrightarrow> ?thesis" by (simp add: demo_vset_def)
qed

lemma strict_unforgeable: "k \<noteq> 3 \<Longrightarrow> strict_verify k sig msg \<Longrightarrow> msg \<in> set (va_signed own_signed)"
  by (auto simp: strict_verify_def own_completes)

lemma demo_vsets: "ch_vset demo2 = Some demo_vset" "ch_vset demo4 = Some demo_vset"
  by (simp_all add: demo4_def demo3_def demo2_def demo1_def)

theorem minted_deposit_recorded_witness:
  "\<exists>v k i row art. ch_vset demo2 = Some v \<and> k \<in> set (vs_validators v) \<and> k \<noteq> 3 \<and>
    deposit_at (va_deposits own_signed) i = Some row \<and> cd_txid row = 0xAA \<and> ucast (cd_vout row) = (1 :: u32) \<and>
    cd_amount_atomic row = 500 \<and> cd_recipient row = 42 \<and>
    artifact_at (va_deposits own_signed) i = Some art \<and> ca_program_id art = PROGRAM_ID \<and>
    ca_validator_epoch art = vs_epoch v \<and> ca_wrapped_mint art = 7"
  by (rule minted_deposit_recorded [OF demo_reachable(2) demo_mint [unfolded process.simps]
        strict_precompile_verified [OF _ demo_msg_len] few_dishonest [OF demo_vsets(1)] own_reachable strict_unforgeable])
    simp_all

theorem completed_withdrawal_paid_witness:
  "\<exists>v k r s1 ls arm w p status world. ch_vset demo4 = Some v \<and> k \<in> set (vs_validators v) \<and> k \<noteq> 3 \<and> ch_withdrawals demo4 0 = Some r \<and>
    sv_reachable own_env s1 \<and> transition_system.run (sv_step own_env) s1 ls own_signed \<and>
    request_at (va_withdrawals s1) 0 = Some w \<and> wq_state w = ''Completed'' \<and> wq_amount_atomic w = wr_amount r \<and>
    destination_commitment (sv_sdk own_env) (wq_glc_address w) = ex_hash demo_ex (stored_address r) \<and>
    payout_at (va_withdrawals s1) 0 = Some p \<and> wp_txid p = Some (internal_txid 0xBB) \<and>
    sv_completion own_env = Some arm \<and>
    sv_transaction_confirmations own_env (hex_encode (rev (le_bytes (0xBB :: bytes32)))) (va_world s1) = (Ok (Some status), world) \<and>
    ca_confirmation_depth arm \<le>s ts_confirmations status \<and> 77 = (case ts_block_height status of None \<Rightarrow> 0 | Some x \<Rightarrow> x)"
  by (rule completed_withdrawal_paid [OF demo_reachable(4) demo_complete [unfolded process.simps]
        strict_precompile_verified [OF _ demo_done_len] few_dishonest [OF demo_vsets(2)] own_reachable strict_unforgeable])
    simp_all

text \<open>The operator has approved the proposal 7 for an action; the proposal 8 is refused after it was signed.\<close>

definition gov_env :: "unit service_env" where
  "gov_env = own_env\<lparr>sv_read_approvals := \<lambda>w. (Ok (Some (to_text (stage \<lparr>ap_action = ACTION_PROPOSE_ROTATION,
     ap_params_commitment = 7, ap_epoch = 0, ap_expiry_unix = 30, ap_note = []\<rparr> Map.empty))), w)\<rparr>"

definition gov_request :: "bytes32 \<Rightarrow> governance_sign_request" where
  "gov_request c = \<lparr>gr_request_id = [], gr_epoch = 0, gr_action = ucast ACTION_PROPOSE_ROTATION,
     gr_params_commitment = le_bytes c, gr_expiry_unix = 30\<rparr>"

lemma gov_signs: "\<exists>response. handle_governance gov_env (gov_request 7) own_service =
    (Ok response, own_service\<lparr>va_governed := [ACTION_PROPOSE_ROTATION \<mapsto> 7],
       va_signed := [governance_message PROTOCOL_VERSION PROGRAM_ID 0 ACTION_PROPOSE_ROTATION 7]\<rparr>)"
proof -
  let ?ap = "\<lparr>ap_action = ACTION_PROPOSE_ROTATION, ap_params_commitment = 7, ap_epoch = 0, ap_expiry_unix = 30, ap_note = []\<rparr>"
  have staged: "from_text (to_text (stage ?ap Map.empty)) = Ok (stage ?ap Map.empty)"
    by (rule approvals_roundtrip) (auto simp: stage_def plain_note_def split: if_splits)
  have clock: "sv_now_unix gov_env w = (20, w)" for w by (simp add: gov_env_def own_env_def)
  have check: "check_request gov_env 30 own_service = (Ok (20, 0), own_service)"
    using own_view_fresh
    by (simp add: check_request_def ebind_def sclock_def squery_def clock elift_def eret_def db_view_def word_sless_alt own_service_def)
  have "approve (Ok (stage ?ap Map.empty)) ACTION_PROPOSE_ROTATION 7 0 0 20 Map.empty = Ok [ACTION_PROPOSE_ROTATION \<mapsto> 7]"
    by (auto simp: approve_Ok stage_def is_governance_action_def word_sless_alt)
  moreover have "sv_governance gov_env = Some \<lparr>ga_program_id = PROGRAM_ID, ga_protocol_version = PROTOCOL_VERSION\<rparr>"
      "sv_read_approvals gov_env w = (Ok (Some (to_text (stage ?ap Map.empty))), w)" for w
    by (simp_all add: gov_env_def own_env_def)
  moreover have "va_governed own_service = Map.empty" "va_signed own_service = []" by (simp_all add: own_service_def)
  moreover have "ucast (ucast ACTION_PROPOSE_ROTATION :: 32 word) = ACTION_PROPOSE_ROTATION"
      "(ucast ACTION_PROPOSE_ROTATION :: 32 word) < 256" "is_governance_action ACTION_PROPOSE_ROTATION"
    by (simp_all add: ACTION_PROPOSE_ROTATION_def is_governance_action_def)
  moreover have "own_service\<lparr>va_world := va_world own_service\<rparr> = own_service" by simp
  ultimately show ?thesis
    unfolding handle_governance_def
    by (simp add: gov_request_def ebind_def check elift_def from_le_le_bytes Let_def respond_state load_approvals_def staged)
qed

theorem governance_guard_sticks_witness:
  "\<exists>response s e s''. handle_governance gov_env (gov_request 7) own_service = (Ok response, s) \<and>
     handle_governance gov_env (gov_request 8) (sv_exec gov_env (ObserveEpoch 1 20) s) = (Err e, s'')"
proof -
  obtain response s where signed: "handle_governance gov_env (gov_request 7) own_service = (Ok response, s)"
    using gov_signs by blast
  have "\<exists>e s''. handle_governance gov_env (gov_request 8) (sv_exec gov_env (ObserveEpoch 1 20) s) = (Err e, s'')"
    by (rule governance_guard_sticks [OF signed, of "[ObserveEpoch 1 20]"])
      (simp_all add: sv_step_def sv.run_Cons_iff sv.run_Nil_iff gov_request_def from_le_le_bytes)
  with signed show ?thesis by blast
qed

section \<open>A sweep\<close>

text \<open>The vault holds one output of 1000; the operator approves to send 990 of it to a script.\<close>

definition sweep_demo_tx :: transaction where
  "sweep_demo_tx = \<lparr>tx_version = 1, tx_inputs = [\<lparr>ti_prev_txid = 0, ti_prev_vout = 0, ti_script_sig = [], ti_sequence = 0\<rparr>],
     tx_outputs = [\<lparr>to_value = 990, to_script_pubkey = [6]\<rparr>], tx_lock_time = 0\<rparr>"

definition sweep_demo_plan :: sweep_plan where
  "sweep_demo_plan = \<lparr>spl_source_hash160 = 0, spl_dest_hash160 = 0, spl_dest_script_pubkey = [6], spl_dest_address = [],
     spl_fee_atomic = 10, spl_swept_atomic = 990, spl_inputs = [adopt_input]\<rparr>"

definition sweep_demo_sha :: sha256 where
  "sweep_demo_sha b = (if b = sweep_canonical_intent sweep_demo_plan 1 then 1 else 0)"

definition sweep_demo_approval :: sweep_approval where
  "sweep_demo_approval = \<lparr>sa_commitment = 1, sa_expiry_unix = 30, sa_note = []\<rparr>"

definition sweep_demo_view :: "unit sweep_view" where
  "sweep_demo_view = \<lparr>sw_sha256 = sweep_demo_sha, sw_config = (pv_config adopt_view)\<lparr>wc_fee_rate_per_kb := 1000\<rparr>, sw_vault_signer_index = 0,
     sw_sign_partial = \<lambda>_ _ w. (Ok (serialize_hex sample_signed), w),
     sw_read_approvals = \<lambda>w. (Ok (Some (sweep_approval_to_text sweep_demo_approval)), w)\<rparr>"

definition sweep_demo_state :: "unit sweep_state" where
  "sweep_demo_state = \<lparr>ss_db = sg_db adopt_state, ss_world = (), ss_signed = None\<rparr>"

lemma sweep_demo_staged: "load_sweep_approval (fst (sw_read_approvals sweep_demo_view ())) = Ok (Some sweep_demo_approval)"
  by (simp add: sweep_demo_view_def load_sweep_approval_def sweep_approval_roundtrip sweep_demo_approval_def plain_note_def)

lemma sweep_demo_parse: "parse_hex (serialize_hex sweep_demo_tx) = Ok sweep_demo_tx"
proof -
  have "wf_transaction sweep_demo_tx" by (simp add: wf_transaction_def sweep_demo_tx_def fits_usize_def)
  from parse_serialize [OF this, of "[]"] show ?thesis by (simp add: parse_hex_def serialize_hex_def decode_vec_encode)
qed

lemma sweep_demo_input: "vu_txid adopt_input = 0" "vu_vout adopt_input = 0" "vu_amount_atomic adopt_input = 1000"
  by (simp_all add: adopt_input_def adopt_utxo_def row_to_utxo_def)

lemma internal_zero: "internal_txid 0 = 0"
  by (simp add: internal_txid_def adopt_rev from_le_le_bytes)

lemma sweep_demo_planned: "plan_from_local_view sweep_demo_view (sg_db adopt_state) sweep_demo_tx = Ok sweep_demo_plan"
proof -
  have avail: "available_utxos (sg_db adopt_state) 1 = [adopt_input]"
    by (simp add: adopt_state_def available_utxos_def order_by_def adopt_input_def adopt_utxo_def word_sle_eq)
  have cfg: "sw_config sweep_demo_view = (pv_config adopt_view)\<lparr>wc_fee_rate_per_kb := 1000\<rparr>"
      "wc_vault_min_confirmations (pv_config adopt_view) = 1" "mv_script_hash160 (wc_vault (pv_config adopt_view)) = 0"
    by (simp_all add: sweep_demo_view_def adopt_view_def sample_vault2_def)
  have "sum_amounts [adopt_input] = 1000" by (simp add: sum_amounts_def sweep_demo_input)
  moreover have "\<not> saturating_mul (fee_for 1 SWEEP_OUTPUT_COUNT 1000) MAX_SWEEP_FEE_MULTIPLE < (10 :: u64)"
    by (simp add: fee_for_def saturating_mul_def div_ceil_def estimated_size_bytes_def TX_OVERHEAD_BYTES_def INPUT_BYTES_def
        OUTPUT_BYTES_def SWEEP_OUTPUT_COUNT_def MAX_SWEEP_FEE_MULTIPLE_def)
  ultimately show ?thesis
    by (simp add: plan_from_local_view_def cfg avail sweep_demo_tx_def sweep_demo_input internal_zero checked_sub_def
        dest_hash160_of_def sweep_demo_plan_def)
qed

lemma sweep_demo_signs: "\<exists>p s'. sign_sweep sweep_demo_view (serialize_hex sweep_demo_tx) 1 20 sweep_demo_state = (Ok p, s')"
proof -
  have verified: "verify_sweep_tx sweep_demo_tx sweep_demo_plan = Ok ()"
    by (simp add: verify_sweep_tx_Ok sweep_demo_tx_def sweep_demo_plan_def spends_utxo_def sweep_demo_input internal_zero)
  obtain tx sigs where node: "parse_hex (serialize_hex sample_signed) = Ok tx"
      "extract_signatures tx (mv_redeem_script (sw_vault sweep_demo_view)) = Ok sigs"
    using adopt_node [of "[]" "[]" "()"] by (auto simp: node_signs_def adopt_view_def sweep_demo_view_def)
  have c: "sweep_commitment sweep_demo_sha sweep_demo_plan 1 = 1" by (simp add: sweep_commitment_def sweep_demo_sha_def)
  have v: "sw_sha256 sweep_demo_view = sweep_demo_sha" "sw_sign_partial sweep_demo_view h ps w = (Ok (serialize_hex sample_signed), w)"
    for h ps w
    by (simp_all add: sweep_demo_view_def)
  have a: "sa_commitment sweep_demo_approval = 1" "\<not> sa_expiry_unix sweep_demo_approval <s 20"
    by (simp_all add: sweep_demo_approval_def word_sless_alt)
  obtain f where f: "sw_read_approvals sweep_demo_view () = (f, ())" "load_sweep_approval f = Ok (Some sweep_demo_approval)"
    using sweep_demo_staged by (cases "sw_read_approvals sweep_demo_view ()") auto
  show ?thesis
    by (simp add: sign_sweep_def sweep_demo_parse ebind_def elift_def sweep_demo_state_def sweep_demo_planned verified
        swworld_def f c v a guard_sweep_def node eret_def)
qed

theorem sweep_as_approved_witness:
  "\<exists>tx out own. parse_hex (serialize_hex sweep_demo_tx) = Ok tx \<and> list_all2 spends_utxo (tx_inputs tx) own \<and>
     map committed_input own = [(0, 0, 1000)] \<and> tx_outputs tx = [out] \<and> to_script_pubkey out = [6] \<and> to_value out = 990 \<and>
     value_of own = 1000"
proof -
  obtain p s' where run: "sign_sweep sweep_demo_view (serialize_hex sweep_demo_tx) 1 20 sweep_demo_state = (Ok p, s')"
    using sweep_demo_signs by blast
  have staged: "load_sweep_approval (fst (sw_read_approvals sweep_demo_view (ss_world sweep_demo_state))) = Ok (Some sweep_demo_approval)"
    using sweep_demo_staged by (simp add: sweep_demo_state_def)
  have sha: "sw_sha256 sweep_demo_view = sweep_demo_sha" by (simp add: sweep_demo_view_def)
  have plan: "spl_dest_script_pubkey sweep_demo_plan = [6]" "spl_inputs sweep_demo_plan = [adopt_input]"
      "spl_swept_atomic sweep_demo_plan = 990" "spl_fee_atomic sweep_demo_plan = 10"
    by (simp_all add: sweep_demo_plan_def)
  have "sa_commitment sweep_demo_approval = sweep_commitment (sw_sha256 sweep_demo_view) sweep_demo_plan 1"
    by (simp add: sha sweep_demo_approval_def sweep_commitment_def sweep_demo_sha_def)
  moreover have "b = sweep_canonical_intent sweep_demo_plan 1"
    if "sw_sha256 sweep_demo_view b = sw_sha256 sweep_demo_view (sweep_canonical_intent sweep_demo_plan 1)" for b
    using that by (simp add: sha sweep_demo_sha_def split: if_splits)
  moreover have "length (spl_dest_script_pubkey sweep_demo_plan) < 2 ^ 16" "length (spl_inputs sweep_demo_plan) < 16384"
    by (simp_all add: plan)
  ultimately obtain tx out own where "parse_hex (serialize_hex sweep_demo_tx) = Ok tx" "list_all2 spends_utxo (tx_inputs tx) own"
      "map committed_input own = map committed_input (spl_inputs sweep_demo_plan)" "tx_outputs tx = [out]"
      "to_script_pubkey out = spl_dest_script_pubkey sweep_demo_plan" "to_value out = spl_swept_atomic sweep_demo_plan"
      and exact: "value_of own < 2 ^ 64 \<longrightarrow> value_of own = unat (spl_swept_atomic sweep_demo_plan) + unat (spl_fee_atomic sweep_demo_plan)"
    using sweep_as_approved [OF run staged, of sweep_demo_plan] by metis
  moreover from this have "map committed_input own = [(0, 0, 1000)]" by (simp add: plan committed_input_def sweep_demo_input)
  then have "value_of own < 2 ^ 64" by (auto simp: value_of_def committed_input_def)
  ultimately show ?thesis
    by (intro exI [of _ tx] exI [of _ out] exI [of _ own]) (simp add: plan committed_input_def sweep_demo_input)
qed

end
