(* ===== verification/Collector.thy ===== *)
theory Collector
  imports Signer Aggregate "HOL-Library.Sublist"
begin

text \<open>
  Collecting signatures from the federation (\<open>p2p/identity.rs\<close>, \<open>p2p/aggregation.rs\<close>,
  \<open>p2p/collector.rs\<close> and the requests of \<open>p2p/service.rs\<close>): the configured peers, the order they
  are asked in, what of an answer is accepted, and the rounds.  The connections, the calls, the
  clocks and signature verification are the environment's; a reason given as a text is represented
  by the case it is made from.
\<close>

section \<open>Peers (identity.rs)\<close>

record peer_endpoint =
  pe_validator_pubkey :: pubkey
  pe_uri :: bytes

datatype identity_error =
    ReadFailed string bytes bytes
  | MalformedPeer bytes
  | BadPeerPubkey bytes bytes
  | NoPeers
  | DuplicatePeer pubkey
  | SelfInPeerList pubkey
  | MissingLocalSigner
  | DuplicateEndpoint bytes pubkey

text \<open>\<open>str::split_once\<close>.\<close>

definition split_once :: "u8 \<Rightarrow> bytes \<Rightarrow> (bytes \<times> bytes) option" where
  "split_once c s = (if c \<in> set s then Some (takeWhile (\<lambda>x. x \<noteq> c) s, tl (dropWhile (\<lambda>x. x \<noteq> c) s)) else None)"

fun parse_entries ::
  "(bytes \<Rightarrow> (pubkey, bytes) result) \<Rightarrow> pubkey option \<Rightarrow> bytes list \<Rightarrow> peer_endpoint list \<Rightarrow> (peer_endpoint list, identity_error) result" where
  "parse_entries parse_pubkey own_identity [] peers = Ok peers"
| "parse_entries parse_pubkey own_identity (entry # entries) peers =
     and_then (ok_or (MalformedPeer entry) (split_once 64 entry)) (\<lambda>(pk, uri).
     and_then (map_err (BadPeerPubkey entry) (parse_pubkey pk)) (\<lambda>validator_pubkey.
     if uri = [] then Err (MalformedPeer entry)
     else if validator_pubkey \<in> pe_validator_pubkey ` set peers then Err (DuplicatePeer validator_pubkey)
     else if own_identity = Some validator_pubkey then Err (SelfInPeerList validator_pubkey)
     else parse_entries parse_pubkey own_identity entries
       (peers @ [\<lparr>pe_validator_pubkey = validator_pubkey, pe_uri = uri\<rparr>])))"

definition parse_peers ::
  "(bytes \<Rightarrow> (pubkey, bytes) result) \<Rightarrow> bytes \<Rightarrow> pubkey option \<Rightarrow> (peer_endpoint list, identity_error) result" where
  "parse_peers parse_pubkey raw own_identity =
     and_then (parse_entries parse_pubkey own_identity (filter (\<lambda>s. s \<noteq> []) (map str_trim (split_on 44 raw))) []) (\<lambda>peers.
     if peers = [] then Err NoPeers else Ok peers)"

definition with_local_signer :: "peer_endpoint list \<Rightarrow> pubkey \<Rightarrow> bytes \<Rightarrow> (peer_endpoint list, identity_error) result" where
  "with_local_signer peers own_identity local_uri =
     (let uri = str_trim local_uri in
      if uri = [] then Err MissingLocalSigner
      else if own_identity \<in> pe_validator_pubkey ` set peers then Err (SelfInPeerList own_identity)
      else case find (\<lambda>p. pe_uri p = uri) peers of
        Some clash \<Rightarrow> Err (DuplicateEndpoint uri (pe_validator_pubkey clash))
      | None \<Rightarrow> Ok (peers @ [\<lparr>pe_validator_pubkey = own_identity, pe_uri = uri\<rparr>]))"

text \<open>The certificates; the file system is a parameter.\<close>

record tls_material =
  tls_ca_pem :: bytes
  tls_cert_pem :: bytes
  tls_key_pem :: bytes

record tls_paths =
  tls_ca :: bytes
  tls_cert :: bytes
  tls_key :: bytes

definition tls_read :: "(bytes \<Rightarrow> (bytes, bytes) result) \<Rightarrow> string \<Rightarrow> bytes \<Rightarrow> (bytes, identity_error) result" where
  "tls_read fs what p = map_err (ReadFailed what p) (fs p)"

definition load_tls :: "(bytes \<Rightarrow> (bytes, bytes) result) \<Rightarrow> tls_paths \<Rightarrow> (tls_material, identity_error) result" where
  "load_tls fs paths =
     and_then (tls_read fs ''federation CA certificate'' (tls_ca paths)) (\<lambda>ca_pem.
     and_then (tls_read fs ''this validator's certificate'' (tls_cert paths)) (\<lambda>cert_pem.
     and_then (tls_read fs ''this validator's private key'' (tls_key paths)) (\<lambda>key_pem.
     Ok \<lparr>tls_ca_pem = ca_pem, tls_cert_pem = cert_pem, tls_key_pem = key_pem\<rparr>)))"

section \<open>Rounds (aggregation.rs)\<close>

text \<open>Durations in milliseconds.\<close>

definition PER_PEER_TIMEOUT :: nat where "PER_PEER_TIMEOUT = 5000"

definition ROUND_TIMEOUT :: nat where "ROUND_TIMEOUT = 20000"

datatype reason =
    ConnectError bytes
  | PerPeerTimeout
  | RoundTimeout
  | StatusText bytes
  | MalformedValidatorPubkey
  | AnsweredAs pubkey pubkey
  | MalformedSignature
  | DoesNotVerify
  | NotAConfiguredPeer
  | MalformedVaultPubkey
  | NotDesignatedFor pubkey
  | NoSignatures
  | EmptySignature

datatype peer_outcome = Signed signature | Refused bytes | Unavailable reason

record round =
  rd_signatures :: "(pubkey \<times> signature) list"
  rd_refused :: "(pubkey \<times> bytes) list"
  rd_unavailable :: "(pubkey \<times> reason) list"

definition round_new :: round where
  "round_new = \<lparr>rd_signatures = [], rd_refused = [], rd_unavailable = []\<rparr>"

definition record_outcome :: "pubkey \<Rightarrow> peer_outcome \<Rightarrow> round \<Rightarrow> round" where
  "record_outcome peer outcome r =
     (case outcome of
        Signed sig \<Rightarrow> r\<lparr>rd_signatures := rd_signatures r @ [(peer, sig)]\<rparr>
      | Refused why \<Rightarrow> r\<lparr>rd_refused := rd_refused r @ [(peer, why)]\<rparr>
      | Unavailable why \<Rightarrow> r\<lparr>rd_unavailable := rd_unavailable r @ [(peer, why)]\<rparr>)"

definition unique_signers :: "round \<Rightarrow> nat" where
  "unique_signers r = card (fst ` set (rd_signatures r))"

definition reached :: "round \<Rightarrow> nat \<Rightarrow> bool" where
  "reached r threshold \<longleftrightarrow> threshold \<le> unique_signers r"

definition retry_could_help :: "round \<Rightarrow> nat \<Rightarrow> bool" where
  "retry_could_help r threshold =
     (if reached r threshold then False
      else let shortfall = threshold - unique_signers r in shortfall \<le> length (rd_unavailable r))"

definition ask_order :: "pubkey list \<Rightarrow> u64 \<Rightarrow> pubkey list" where
  "ask_order peers seed =
     (if peers = [] then []
      else let start = unat (seed mod word_of_nat (length peers)) in
        map (\<lambda>i. peers ! ((start + i) mod length peers)) [0..<length peers])"

section \<open>The wire\<close>

record wire_sign_response =
  wsr_request_id :: bytes
  wsr_validator_pubkey :: bytes
  wsr_signature :: bytes

record wire_payout_response =
  wpr_request_id :: bytes
  wpr_validator_pubkey :: bytes
  wpr_vault_pubkey :: bytes
  wpr_signatures :: "bytes list"

text \<open>The end of a call: it timed out, it failed with a status, or it was answered.\<close>

datatype 'r call_result = TimedOut | FailedPrecondition bytes | OtherStatus bytes | Answered 'r

record 'w collector_env =
  co_peers :: "peer_endpoint list"
  co_verify :: "pubkey \<Rightarrow> signature \<Rightarrow> bytes \<Rightarrow> bool"
  co_instant :: "'w \<Rightarrow> nat \<times> 'w"
  co_now_unix :: "'w \<Rightarrow> i64 \<times> 'w"
  co_next_request_id :: "'w \<Rightarrow> bytes \<times> 'w"
  co_connect :: "bytes \<Rightarrow> 'w \<Rightarrow> (unit, bytes) result \<times> 'w"
  co_sign :: "bytes \<Rightarrow> sign_request \<Rightarrow> 'w \<Rightarrow> wire_sign_response call_result \<times> 'w"
  co_sign_payout :: "bytes \<Rightarrow> payout_sign_request \<Rightarrow> 'w \<Rightarrow> wire_payout_response call_result \<times> 'w"
  co_sign_sweep :: "bytes \<Rightarrow> sweep_sign_request \<Rightarrow> 'w \<Rightarrow> wire_payout_response call_result \<times> 'w"
  co_sign_completion :: "bytes \<Rightarrow> completion_sign_request \<Rightarrow> 'w \<Rightarrow> wire_sign_response call_result \<times> 'w"
  co_sign_governance :: "bytes \<Rightarrow> governance_sign_request \<Rightarrow> 'w \<Rightarrow> wire_sign_response call_result \<times> 'w"

section \<open>Requests (service.rs)\<close>

definition REQUEST_TTL_SECONDS :: i64 where "REQUEST_TTL_SECONDS = 120"

definition mint_request :: "bytes \<Rightarrow> u64 \<Rightarrow> bytes \<Rightarrow> bytes32 \<Rightarrow> u32 \<Rightarrow> i64 \<Rightarrow> sign_request" where
  "mint_request request_id epoch canonical_message deposit_txid vout now =
     \<lparr>sr_request_id = request_id, sr_action = 1, sr_epoch = epoch, sr_canonical_message = canonical_message,
      sr_context = Some \<lparr>cx_txid = le_bytes deposit_txid, cx_vout = vout, cx_withdrawal_index = 0, cx_quorum_attempt = 0\<rparr>,
      sr_expiry_unix = now + REQUEST_TTL_SECONDS\<rparr>"

definition payout_request :: "bytes \<Rightarrow> u64 \<Rightarrow> bytes \<Rightarrow> u64 \<Rightarrow> u32 \<Rightarrow> i64 \<Rightarrow> sign_request" where
  "payout_request request_id epoch canonical_message withdrawal_index quorum_attempt now =
     \<lparr>sr_request_id = request_id, sr_action = 2, sr_epoch = epoch, sr_canonical_message = canonical_message,
      sr_context = Some \<lparr>cx_txid = [], cx_vout = 0, cx_withdrawal_index = withdrawal_index, cx_quorum_attempt = quorum_attempt\<rparr>,
      sr_expiry_unix = now + REQUEST_TTL_SECONDS\<rparr>"

section \<open>Answers (collector.rs)\<close>

definition accept ::
  "(pubkey \<Rightarrow> signature \<Rightarrow> bytes \<Rightarrow> bool) \<Rightarrow> pubkey \<Rightarrow> bytes \<Rightarrow> wire_sign_response \<Rightarrow> (pubkey \<times> signature, reason) result" where
  "accept verify expected message resp =
     (if length (wsr_validator_pubkey resp) \<noteq> 32 then Err MalformedValidatorPubkey
      else let pubkey = from_le (wsr_validator_pubkey resp) in
      if pubkey \<noteq> expected then Err (AnsweredAs expected pubkey)
      else if length (wsr_signature resp) \<noteq> 64 then Err MalformedSignature
      else let sig = from_le (wsr_signature resp) in
      if \<not> verify pubkey sig message then Err DoesNotVerify else Ok (pubkey, sig))"

record designated_signer =
  ds_validator_pubkey :: pubkey
  ds_vault_pubkey :: bytes33

definition accept_payout :: "pubkey \<Rightarrow> designated_signer \<Rightarrow> wire_payout_response \<Rightarrow> (partial_signature, reason) result" where
  "accept_payout expected_validator designated resp =
     (if length (wpr_validator_pubkey resp) \<noteq> 32 then Err MalformedValidatorPubkey
      else let answered = from_le (wpr_validator_pubkey resp) in
      if answered \<noteq> expected_validator then Err (AnsweredAs expected_validator answered)
      else if length (wpr_vault_pubkey resp) \<noteq> 33 then Err MalformedVaultPubkey
      else let vault_pubkey = from_le (wpr_vault_pubkey resp) in
      if vault_pubkey \<noteq> ds_vault_pubkey designated then Err (NotDesignatedFor expected_validator)
      else if wpr_signatures resp = [] then Err NoSignatures
      else if [] \<in> set (wpr_signatures resp) then Err EmptySignature
      else Ok \<lparr>ps_vault_pubkey = vault_pubkey, ps_signatures = wpr_signatures resp\<rparr>)"

text \<open>One call to a peer, and what its end means.\<close>

definition call_peer ::
  "'w collector_env \<Rightarrow> bytes \<Rightarrow> ('w \<Rightarrow> 'r call_result \<times> 'w) \<Rightarrow> 'w \<Rightarrow> ('r, peer_outcome) result \<times> 'w" where
  "call_peer env uri call w =
     (case co_connect env uri w of
        (Err e, w) \<Rightarrow> (Err (Unavailable (ConnectError e)), w)
      | (Ok _, w) \<Rightarrow>
          (case call w of
             (TimedOut, w) \<Rightarrow> (Err (Unavailable PerPeerTimeout), w)
           | (FailedPrecondition why, w) \<Rightarrow> (Err (Refused why), w)
           | (OtherStatus text, w) \<Rightarrow> (Err (Unavailable (StatusText text)), w)
           | (Answered r, w) \<Rightarrow> (Ok r, w)))"

definition accepted_outcome ::
  "'w collector_env \<Rightarrow> pubkey \<Rightarrow> bytes \<Rightarrow> (wire_sign_response, peer_outcome) result \<Rightarrow> peer_outcome" where
  "accepted_outcome env expected message answer =
     (case answer of Err outcome \<Rightarrow> outcome
      | Ok resp \<Rightarrow> (case accept (co_verify env) expected message resp of
          Ok (pk, sig) \<Rightarrow> Signed sig | Err why \<Rightarrow> Unavailable why))"

definition ask :: "'w collector_env \<Rightarrow> peer_endpoint \<Rightarrow> sign_request \<Rightarrow> bytes \<Rightarrow> 'w \<Rightarrow> peer_outcome \<times> 'w" where
  "ask env peer req message w = map_prod (accepted_outcome env (pe_validator_pubkey peer) message) id
     (call_peer env (pe_uri peer) (co_sign env (pe_uri peer) req) w)"

definition ask_completion ::
  "'w collector_env \<Rightarrow> peer_endpoint \<Rightarrow> completion_sign_request \<Rightarrow> bytes \<Rightarrow> 'w \<Rightarrow> peer_outcome \<times> 'w" where
  "ask_completion env peer req message w = map_prod (accepted_outcome env (pe_validator_pubkey peer) message) id
     (call_peer env (pe_uri peer) (co_sign_completion env (pe_uri peer) req) w)"

definition ask_governance ::
  "'w collector_env \<Rightarrow> peer_endpoint \<Rightarrow> governance_sign_request \<Rightarrow> bytes \<Rightarrow> 'w \<Rightarrow> peer_outcome \<times> 'w" where
  "ask_governance env peer req message w = map_prod (accepted_outcome env (pe_validator_pubkey peer) message) id
     (call_peer env (pe_uri peer) (co_sign_governance env (pe_uri peer) req) w)"

definition accepted_partial ::
  "pubkey \<Rightarrow> designated_signer \<Rightarrow> (wire_payout_response, peer_outcome) result \<Rightarrow> (partial_signature, peer_outcome) result" where
  "accepted_partial expected signer answer = and_then answer (\<lambda>resp. map_err Unavailable (accept_payout expected signer resp))"

definition ask_payout ::
  "'w collector_env \<Rightarrow> peer_endpoint \<Rightarrow> payout_sign_request \<Rightarrow> designated_signer \<Rightarrow> 'w \<Rightarrow> (partial_signature, peer_outcome) result \<times> 'w" where
  "ask_payout env peer req designated w = map_prod (accepted_partial (pe_validator_pubkey peer) designated) id
     (call_peer env (pe_uri peer) (co_sign_payout env (pe_uri peer) req) w)"

definition ask_sweep ::
  "'w collector_env \<Rightarrow> peer_endpoint \<Rightarrow> sweep_sign_request \<Rightarrow> designated_signer \<Rightarrow> 'w \<Rightarrow> (partial_signature, peer_outcome) result \<times> 'w" where
  "ask_sweep env peer req signer w = map_prod (accepted_partial (pe_validator_pubkey peer) signer) id
     (call_peer env (pe_uri peer) (co_sign_sweep env (pe_uri peer) req) w)"

section \<open>Rounds of signatures\<close>

definition peer_of :: "'w collector_env \<Rightarrow> pubkey \<Rightarrow> peer_endpoint option" where
  "peer_of env pubkey = find (\<lambda>p. pe_validator_pubkey p = pubkey) (co_peers env)"

text \<open>The loop that mints, completions and governance share; \<open>asks\<close> builds the request and asks.\<close>

fun collect_loop ::
  "'w collector_env \<Rightarrow> nat \<Rightarrow> nat \<Rightarrow> (peer_endpoint \<Rightarrow> 'w \<Rightarrow> peer_outcome \<times> 'w) \<Rightarrow> pubkey list \<Rightarrow> round \<Rightarrow> 'w \<Rightarrow> round \<times> 'w" where
  "collect_loop env threshold deadline asks [] r w = (r, w)"
| "collect_loop env threshold deadline asks (pubkey # rest) r w =
     (if reached r threshold then (r, w)
      else case peer_of env pubkey of
        None \<Rightarrow> collect_loop env threshold deadline asks rest r w
      | Some peer \<Rightarrow>
          (case co_instant env w of (now, w) \<Rightarrow>
             if deadline \<le> now
               then collect_loop env threshold deadline asks rest (record_outcome pubkey (Unavailable RoundTimeout) r) w
             else (case asks peer w of (outcome, w) \<Rightarrow>
               collect_loop env threshold deadline asks rest (record_outcome pubkey outcome r) w)))"

text \<open>Every request carries a fresh id and an expiry counted from the clock.\<close>

definition stamped ::
  "'w collector_env \<Rightarrow> (bytes \<Rightarrow> i64 \<Rightarrow> 'q) \<Rightarrow> (peer_endpoint \<Rightarrow> 'q \<Rightarrow> 'w \<Rightarrow> 'a \<times> 'w) \<Rightarrow> peer_endpoint \<Rightarrow> 'w \<Rightarrow> 'a \<times> 'w" where
  "stamped env make_request asks peer w =
     (case co_next_request_id env w of (rid, w) \<Rightarrow>
      case co_now_unix env w of (now, w) \<Rightarrow> asks peer (make_request rid now) w)"

definition identities :: "'w collector_env \<Rightarrow> pubkey list" where
  "identities env = map pe_validator_pubkey (co_peers env)"

definition collect ::
  "'w collector_env \<Rightarrow> nat \<Rightarrow> u64 \<Rightarrow> bytes \<Rightarrow> (bytes \<Rightarrow> i64 \<Rightarrow> sign_request) \<Rightarrow> 'w \<Rightarrow> round \<times> 'w" where
  "collect env threshold seed message make_request w =
     (case co_instant env w of (start, w) \<Rightarrow>
      collect_loop env threshold (start + ROUND_TIMEOUT) (stamped env make_request (\<lambda>peer req. ask env peer req message))
        (ask_order (identities env) seed) round_new w)"

definition txid_seed :: "bytes32 \<Rightarrow> u64" where
  "txid_seed t = from_le (take 8 (le_bytes t))"

definition collect_mint_signatures_grpc ::
  "'w collector_env \<Rightarrow> u64 \<Rightarrow> bytes \<Rightarrow> bytes32 \<Rightarrow> u32 \<Rightarrow> 'w \<Rightarrow> (pubkey \<times> signature) list \<times> 'w" where
  "collect_mint_signatures_grpc env epoch message deposit_txid vout w =
     map_prod rd_signatures id
       (collect env (length (co_peers env)) (xor (txid_seed deposit_txid) (ucast vout)) message
          (\<lambda>rid now. mint_request rid epoch message deposit_txid vout now) w)"

definition collect_completion_signatures ::
  "'w collector_env \<Rightarrow> u64 \<Rightarrow> u64 \<Rightarrow> bytes32 \<Rightarrow> u64 \<Rightarrow> bytes \<Rightarrow> 'w \<Rightarrow> round \<times> 'w" where
  "collect_completion_signatures env epoch withdrawal_index payout_txid payout_height message w =
     (case co_instant env w of (start, w) \<Rightarrow>
      collect_loop env (length (co_peers env)) (start + ROUND_TIMEOUT)
        (stamped env (\<lambda>rid now. \<lparr>cr_request_id = rid, cr_epoch = epoch, cr_withdrawal_index = withdrawal_index,
             cr_payout_txid = le_bytes payout_txid, cr_payout_height = payout_height,
             cr_expiry_unix = now + REQUEST_TTL_SECONDS\<rparr>)
           (\<lambda>peer req. ask_completion env peer req message))
        (ask_order (identities env) (xor withdrawal_index (txid_seed payout_txid))) round_new w)"

definition collect_governance_signatures ::
  "'w collector_env \<Rightarrow> u64 \<Rightarrow> u8 \<Rightarrow> bytes32 \<Rightarrow> bytes \<Rightarrow> 'w \<Rightarrow> round \<times> 'w" where
  "collect_governance_signatures env epoch action params_commitment message w =
     (case co_instant env w of (start, w) \<Rightarrow>
      collect_loop env (length (co_peers env)) (start + ROUND_TIMEOUT)
        (stamped env (\<lambda>rid now. \<lparr>gr_request_id = rid, gr_epoch = epoch, gr_action = ucast action,
             gr_params_commitment = le_bytes params_commitment, gr_expiry_unix = now + REQUEST_TTL_SECONDS\<rparr>)
           (\<lambda>peer req. ask_governance env peer req message))
        (ask_order (identities env) (xor (ucast action) (txid_seed params_commitment))) round_new w)"

section \<open>Rounds of designated signers\<close>

fun collect_payout_loop ::
  "'w collector_env \<Rightarrow> nat \<Rightarrow> (peer_endpoint \<Rightarrow> 'w \<Rightarrow> peer_outcome \<times> 'w) \<Rightarrow> pubkey list \<Rightarrow> round \<Rightarrow> 'w \<Rightarrow> round \<times> 'w" where
  "collect_payout_loop env deadline asks [] r w = (r, w)"
| "collect_payout_loop env deadline asks (pubkey # rest) r w =
     (case peer_of env pubkey of
        None \<Rightarrow> collect_payout_loop env deadline asks rest (record_outcome pubkey (Unavailable NotAConfiguredPeer) r) w
      | Some peer \<Rightarrow>
          (case co_instant env w of (now, w) \<Rightarrow>
             if deadline \<le> now
               then collect_payout_loop env deadline asks rest (record_outcome pubkey (Unavailable RoundTimeout) r) w
             else (case asks peer w of (outcome, w) \<Rightarrow>
               collect_payout_loop env deadline asks rest (record_outcome pubkey outcome r) w)))"

definition collect_payout_signatures ::
  "'w collector_env \<Rightarrow> u64 \<Rightarrow> bytes \<Rightarrow> u64 \<Rightarrow> u32 \<Rightarrow> pubkey list \<Rightarrow> 'w \<Rightarrow> round \<times> 'w" where
  "collect_payout_signatures env epoch message withdrawal_index quorum_attempt designated w =
     (case co_instant env w of (start, w) \<Rightarrow>
      collect_payout_loop env (start + ROUND_TIMEOUT)
        (stamped env (\<lambda>rid now. payout_request rid epoch message withdrawal_index quorum_attempt now)
           (\<lambda>peer req. ask env peer req message))
        designated round_new w)"

record partial_round =
  prd_partials :: "partial_signature list"
  prd_round :: round

text \<open>\<open>enough\<close> is \<open>None\<close> for payouts, where every designated signer is asked.\<close>

fun collect_partials_loop ::
  "'w collector_env \<Rightarrow> nat option \<Rightarrow> nat \<Rightarrow> (peer_endpoint \<Rightarrow> designated_signer \<Rightarrow> 'w \<Rightarrow> (partial_signature, peer_outcome) result \<times> 'w)
     \<Rightarrow> designated_signer list \<Rightarrow> partial_round \<Rightarrow> 'w \<Rightarrow> partial_round \<times> 'w" where
  "collect_partials_loop env enough deadline asks [] r w = (r, w)"
| "collect_partials_loop env enough deadline asks (d # rest) r w =
     (let key = ds_validator_pubkey d;
          note_outcome = (\<lambda>outcome r. r\<lparr>prd_round := record_outcome key outcome (prd_round r)\<rparr>) in
      if (case enough of None \<Rightarrow> False | Some threshold \<Rightarrow> threshold \<le> length (prd_partials r)) then (r, w)
      else case peer_of env key of
        None \<Rightarrow> collect_partials_loop env enough deadline asks rest (note_outcome (Unavailable NotAConfiguredPeer) r) w
      | Some peer \<Rightarrow>
          (case co_instant env w of (now, w) \<Rightarrow>
             if deadline \<le> now
               then collect_partials_loop env enough deadline asks rest (note_outcome (Unavailable RoundTimeout) r) w
             else (case asks peer d w of
               (Ok p, w) \<Rightarrow> collect_partials_loop env enough deadline asks rest
                 ((note_outcome (Signed 0) r)\<lparr>prd_partials := prd_partials r @ [p]\<rparr>) w
             | (Err outcome, w) \<Rightarrow> collect_partials_loop env enough deadline asks rest (note_outcome outcome r) w)))"

definition partial_round_new :: partial_round where
  "partial_round_new = \<lparr>prd_partials = [], prd_round = round_new\<rparr>"

definition collect_payout_partials_grpc ::
  "'w collector_env \<Rightarrow> u64 \<Rightarrow> u64 \<Rightarrow> u32 \<Rightarrow> bytes \<Rightarrow> bytes \<Rightarrow> designated_signer list \<Rightarrow> u32 \<Rightarrow> 'w \<Rightarrow> partial_round \<times> 'w" where
  "collect_payout_partials_grpc env epoch withdrawal_index quorum_attempt canonical_intent unsigned_tx_hex designated proposer_index w =
     (case co_instant env w of (start, w) \<Rightarrow>
      collect_partials_loop env None (start + ROUND_TIMEOUT) (\<lambda>peer d.
        stamped env (\<lambda>rid now. \<lparr>pr_request_id = rid, pr_epoch = epoch, pr_withdrawal_index = withdrawal_index,
           pr_quorum_attempt = quorum_attempt, pr_canonical_intent = canonical_intent, pr_unsigned_tx_hex = unsigned_tx_hex,
           pr_expiry_unix = now + REQUEST_TTL_SECONDS, pr_proposer_index = proposer_index\<rparr>)
          (\<lambda>peer req. ask_payout env peer req d) peer)
        designated partial_round_new w)"

definition collect_sweep_partials ::
  "'w collector_env \<Rightarrow> u64 \<Rightarrow> bytes \<Rightarrow> designated_signer list \<Rightarrow> nat \<Rightarrow> 'w \<Rightarrow> partial_round \<times> 'w" where
  "collect_sweep_partials env epoch unsigned_tx_hex signers threshold w =
     (case co_instant env w of (start, w) \<Rightarrow>
      collect_partials_loop env (Some threshold) (start + ROUND_TIMEOUT) (\<lambda>peer d.
        stamped env (\<lambda>rid now. \<lparr>wr_request_id = rid, wr_epoch = epoch, wr_unsigned_tx_hex = unsigned_tx_hex,
           wr_expiry_unix = now + REQUEST_TTL_SECONDS\<rparr>)
          (\<lambda>peer req. ask_sweep env peer req d) peer)
        signers partial_round_new w)"


section \<open>Peers are distinct\<close>

lemma parse_entries_Ok:
  assumes "parse_entries parse_pk own entries peers = Ok peers'"
    and "distinct (map pe_validator_pubkey peers)" "\<forall>k \<in> pe_validator_pubkey ` set peers. own \<noteq> Some k"
  shows "distinct (map pe_validator_pubkey peers') \<and> (\<forall>k \<in> pe_validator_pubkey ` set peers'. own \<noteq> Some k)"
  using assms
proof (induction entries arbitrary: peers)
  case (Cons entry entries)
  obtain pk uri where e: "split_once 64 entry = Some (pk, uri)"
    using Cons.prems(1) by (cases "split_once 64 entry") auto
  obtain k where k: "parse_pk pk = Ok k"
    using Cons.prems(1) e by (cases "parse_pk pk") auto
  have step: "parse_entries parse_pk own entries (peers @ [\<lparr>pe_validator_pubkey = k, pe_uri = uri\<rparr>]) = Ok peers'"
    "k \<notin> pe_validator_pubkey ` set peers" "own \<noteq> Some k"
    using Cons.prems(1) e k by (simp_all split: if_splits)
  show ?case
    by (rule Cons.IH [OF step(1)]) (use step(2,3) Cons.prems(2,3) in auto)
qed simp

lemma parse_peers_distinct:
  assumes "parse_peers parse_pk raw own = Ok peers"
  shows "distinct (map pe_validator_pubkey peers)" "peers \<noteq> []" "\<forall>k \<in> pe_validator_pubkey ` set peers. own \<noteq> Some k"
  using assms parse_entries_Ok [of parse_pk own _ "[]"] by (auto simp: parse_peers_def and_then_Ok_iff split: if_splits)

lemma find_mem: "find P xs = Some x \<Longrightarrow> P x \<and> x \<in> set xs"
  by (auto simp: find_Some_iff)

lemma with_local_signer_Ok:
  "with_local_signer peers own uri = Ok peers' \<longleftrightarrow>
     str_trim uri \<noteq> [] \<and> own \<notin> pe_validator_pubkey ` set peers \<and> str_trim uri \<notin> pe_uri ` set peers \<and>
     peers' = peers @ [\<lparr>pe_validator_pubkey = own, pe_uri = str_trim uri\<rparr>]"
proof (cases "find (\<lambda>p. pe_uri p = str_trim uri) peers")
  case None
  then have "str_trim uri \<notin> pe_uri ` set peers" by (auto simp: find_None_iff)
  with None show ?thesis by (simp add: with_local_signer_def Let_def) blast
next
  case (Some clash)
  then have "str_trim uri \<in> pe_uri ` set peers" using find_mem [OF Some] by force
  with Some show ?thesis by (simp add: with_local_signer_def Let_def)
qed

section \<open>The order of asking\<close>

lemma ask_order_rotate: "\<exists>n. ask_order peers seed = rotate n peers"
proof (cases "peers = []")
  case False
  then show ?thesis
    by (intro exI [of _ "unat (seed mod word_of_nat (length peers))"] nth_equalityI)
      (simp_all add: ask_order_def Let_def nth_rotate add.commute)
qed (simp add: ask_order_def)

lemma ask_order_simps [simp]:
  "set (ask_order peers seed) = set peers"
  "length (ask_order peers seed) = length peers"
  "distinct (ask_order peers seed) = distinct peers"
  using ask_order_rotate [of peers seed] by auto

section \<open>Rounds keep account\<close>

text \<open>The peers a round has an outcome for.\<close>

definition heard :: "round \<Rightarrow> pubkey list" where
  "heard r = map fst (rd_signatures r) @ map fst (rd_refused r) @ map fst (rd_unavailable r)"

lemma heard_record [simp]:
  "set (heard (record_outcome k outcome r)) = insert k (set (heard r))"
  "length (heard (record_outcome k outcome r)) = Suc (length (heard r))"
  by (cases outcome; simp add: heard_def record_outcome_def)+

lemma heard_new [simp]: "heard round_new = []"
  by (simp add: heard_def round_new_def)

lemma distinct_by_length: "set xs = set ys \<Longrightarrow> length xs = length ys \<Longrightarrow> distinct ys \<Longrightarrow> distinct xs"
  by (metis card_distinct distinct_card)

lemma signatures_record:
  "(k, s) \<in> set (rd_signatures (record_outcome k' outcome r)) \<longleftrightarrow>
     (k, s) \<in> set (rd_signatures r) \<or> k = k' \<and> outcome = Signed s"
  by (cases outcome) (auto simp: record_outcome_def)

lemma unique_signers_le: "unique_signers r \<le> length (rd_signatures r)"
  unfolding unique_signers_def by (metis card_image_le card_length finite_set le_trans)

lemma unique_signers_record: "unique_signers (record_outcome k outcome r) \<le> Suc (unique_signers r)"
  by (cases outcome) (auto simp: unique_signers_def record_outcome_def card_insert_le_m1 card_insert_if)

lemma peer_of_Some: "peer_of env k = Some p \<Longrightarrow> p \<in> set (co_peers env) \<and> pe_validator_pubkey p = k"
  by (auto simp: peer_of_def find_Some_iff)

lemma peer_of_identity: "k \<in> set (identities env) \<Longrightarrow> \<exists>p. peer_of env k = Some p"
  by (auto simp: peer_of_def identities_def find_None_iff simp flip: not_None_eq)

text \<open>A way of asking whose signatures verify, and a clock it advances by at most \<open>c\<close> a call.\<close>

locale asking =
  fixes env :: "'w collector_env" and asks :: "peer_endpoint \<Rightarrow> 'w \<Rightarrow> peer_outcome \<times> 'w" and message :: bytes
  assumes signed_verifies: "fst (asks peer w) = Signed sig \<Longrightarrow> co_verify env (pe_validator_pubkey peer) sig message"
begin

lemma collect_loop_signed:
  assumes "(k, s) \<in> set (rd_signatures (fst (collect_loop env threshold deadline asks order r w)))"
  shows "(k, s) \<in> set (rd_signatures r) \<or> k \<in> set order \<and> co_verify env k s message"
  using assms
proof (induction order arbitrary: r w)
  case (Cons k' order)
  then show ?case
    by (auto simp: signatures_record split: if_splits option.splits prod.splits dest!: peer_of_Some Cons.IH)
      (metis fst_conv signed_verifies)+
qed simp

end

text \<open>A round that wants every peer's signature asks, or gives up on, each of them exactly once.\<close>

lemma collect_loop_heard:
  assumes "length (rd_signatures r) + length order \<le> threshold" "set order \<subseteq> set (identities env)"
  shows "set (heard (fst (collect_loop env threshold deadline asks order r w))) = set (heard r) \<union> set order \<and>
    length (heard (fst (collect_loop env threshold deadline asks order r w))) = length (heard r) + length order"
  using assms
proof (induction order arbitrary: r w)
  case (Cons k order)
  have n: "\<not> reached r threshold"
    using Cons.prems(1) unique_signers_le [of r] by (simp add: reached_def)
  have l: "length (rd_signatures (record_outcome k out r)) + length order \<le> threshold" for out
    using Cons.prems(1) by (cases out) (simp_all add: record_outcome_def)
  obtain p where "peer_of env k = Some p"
    using Cons.prems(2) peer_of_identity by force
  then show ?case
    using Cons.IH [OF l] Cons.prems(2) n by (simp split: prod.splits)
qed simp

lemma collect_loop_keeps:
  "(k, s) \<in> set (rd_signatures r) \<Longrightarrow> (k, s) \<in> set (rd_signatures (fst (collect_loop env threshold deadline asks order r w)))"
  by (induction order arbitrary: r w) (simp_all add: signatures_record split: option.splits prod.splits)

text \<open>Reading the clock changes nothing, and no call takes longer than \<open>c\<close> milliseconds.\<close>

definition paced :: "'w collector_env \<Rightarrow> ('w \<Rightarrow> nat) \<Rightarrow> nat \<Rightarrow> (peer_endpoint \<Rightarrow> 'w \<Rightarrow> peer_outcome \<times> 'w) \<Rightarrow> bool" where
  "paced env clock c asks \<longleftrightarrow> (\<forall>w. co_instant env w = (clock w, w)) \<and> 
     (\<forall>p \<in> set (co_peers env). \<forall>w. clock (snd (asks p w)) \<le> clock w + c)"

definition signs :: "'w collector_env \<Rightarrow> (peer_endpoint \<Rightarrow> 'w \<Rightarrow> peer_outcome \<times> 'w) \<Rightarrow> pubkey \<Rightarrow> bool" where
  "signs env asks k \<longleftrightarrow>
     (\<forall>p \<in> set (co_peers env). pe_validator_pubkey p = k \<longrightarrow> (\<forall>w. \<exists>s. fst (asks p w) = Signed s))"

lemma collect_loop_honest:
  assumes "paced env clock c asks" "signs env asks k" "k \<in> set order" "set order \<subseteq> set (identities env)"
    and "length (rd_signatures r) + length order \<le> threshold" "clock w + length order * c < deadline + c"
  shows "\<exists>s. (k, s) \<in> set (rd_signatures (fst (collect_loop env threshold deadline asks order r w)))"
  using assms(3-)
proof (induction order arbitrary: r w)
  case (Cons k' order)
  have n: "\<not> reached r threshold"
    using Cons.prems(3) unique_signers_le [of r] by (simp add: reached_def)
  obtain p where p: "peer_of env k' = Some p" "pe_validator_pubkey p = k'" "p \<in> set (co_peers env)"
    using Cons.prems(2) peer_of_identity peer_of_Some by (metis list.set_intros(1) subsetD)
  obtain out w' where a: "asks p w = (out, w')" by fastforce
  have t: "co_instant env w = (clock w, w)" "clock w' \<le> clock w + c" "clock w < deadline"
    using assms(1) a p(3) Cons.prems(4) unfolding paced_def by (auto, metis snd_conv)
  have step: "collect_loop env threshold deadline asks (k' # order) r w =
      collect_loop env threshold deadline asks order (record_outcome k' out r) w'"
    using n p a t by simp
  show ?case
  proof (cases "k = k'")
    case True
    then obtain s where "out = Signed s"
      using assms(2) p(2,3) a unfolding signs_def by (metis fst_conv)
    then show ?thesis
      unfolding step using True by (auto intro!: collect_loop_keeps simp: signatures_record)
  next
    case False
    have "length (rd_signatures (record_outcome k' out r)) + length order \<le> threshold"
      using Cons.prems(3) by (cases out) (simp_all add: record_outcome_def)
    then show ?thesis
      unfolding step using False Cons.prems t(2) by (intro Cons.IH) auto
  qed
qed simp

lemma accepted_verifies: "accepted_outcome env k message a = Signed s \<Longrightarrow> (\<forall>s. a \<noteq> Err (Signed s)) \<Longrightarrow> co_verify env k s message"
  by (cases a) (auto simp: accepted_outcome_def accept_def Let_def split: if_splits result.splits)

lemma call_peer_not_signed: "fst (call_peer env uri call w) \<noteq> Err (Signed s)"
  by (auto simp: call_peer_def split: result.splits call_result.splits prod.splits)

lemma asked_verifies:
  "fst (ask env p q message w) = Signed s \<Longrightarrow> co_verify env (pe_validator_pubkey p) s message"
  "fst (ask_completion env p cq message w) = Signed s \<Longrightarrow> co_verify env (pe_validator_pubkey p) s message"
  "fst (ask_governance env p gq message w) = Signed s \<Longrightarrow> co_verify env (pe_validator_pubkey p) s message"
  by (simp_all add: ask_def ask_completion_def ask_governance_def fst_map_prod accepted_verifies call_peer_not_signed)

lemma stamped_signed: "fst (stamped env mk asks p w) = Signed s \<Longrightarrow> \<exists>q w. fst (asks p q w) = Signed s"
  by (auto simp: stamped_def split: prod.splits)

interpretation mint_round: asking env "stamped env mk (\<lambda>p q. ask env p q message)" message for env mk message
  by unfold_locales (metis stamped_signed asked_verifies(1))

interpretation completion_round: asking env "stamped env mk (\<lambda>p q. ask_completion env p q message)" message for env mk message
  by unfold_locales (metis stamped_signed asked_verifies(2))

interpretation governance_round: asking env "stamped env mk (\<lambda>p q. ask_governance env p q message)" message for env mk message
  by unfold_locales (metis stamped_signed asked_verifies(3))

section \<open>What a round yields\<close>

lemma distinct_signers: "distinct (heard r) \<Longrightarrow> distinct (map fst (rd_signatures r))"
  by (simp add: heard_def)

lemma full_round_heard:
  assumes "distinct (identities env)" "length order = length (co_peers env)" "set order = set (identities env)"
  shows "distinct (heard (fst (collect_loop env (length (co_peers env)) deadline asks order round_new w))) \<and>
    set (heard (fst (collect_loop env (length (co_peers env)) deadline asks order round_new w))) = set (identities env)"
proof -
  let ?h = "heard (fst (collect_loop env (length (co_peers env)) deadline asks order round_new w))"
  have "set ?h = set (heard round_new) \<union> set order \<and> length ?h = length (heard round_new) + length order"
    by (rule collect_loop_heard) (use assms in \<open>simp_all add: round_new_def\<close>)
  then have "set ?h = set (identities env)" "length ?h = length (identities env)"
    using assms(2,3) by (simp_all add: identities_def)
  then show ?thesis using distinct_by_length [OF _ _ assms(1)] by simp
qed

context asking
begin

lemma full_round_sound:
  assumes "distinct (identities env)"
    and "fst (collect_loop env (length (co_peers env)) deadline asks (ask_order (identities env) seed) round_new w) = r"
  shows "distinct (map fst (rd_signatures r))" "fst ` set (rd_signatures r) \<subseteq> set (identities env)"
    "(k, s) \<in> set (rd_signatures r) \<Longrightarrow> co_verify env k s message"
proof -
  have "distinct (heard r)" "set (heard r) = set (identities env)"
    using full_round_heard [OF assms(1), of "ask_order (identities env) seed"] assms(2) by (auto simp: identities_def)
  then show "distinct (map fst (rd_signatures r))" "fst ` set (rd_signatures r) \<subseteq> set (identities env)"
    by (simp add: distinct_signers) (auto simp: heard_def \<open>set (heard r) = set (identities env)\<close> [symmetric])
  show "co_verify env k s message" if "(k, s) \<in> set (rd_signatures r)"
    using collect_loop_signed that unfolding assms(2) [symmetric] by (force simp: round_new_def)
qed

end

abbreviation mint_asks ::
  "'w collector_env \<Rightarrow> u64 \<Rightarrow> bytes \<Rightarrow> bytes32 \<Rightarrow> u32 \<Rightarrow> peer_endpoint \<Rightarrow> 'w \<Rightarrow> peer_outcome \<times> 'w" where
  "mint_asks env epoch message t vout \<equiv>
     stamped env (\<lambda>rid now. mint_request rid epoch message t vout now) (\<lambda>p q. ask env p q message)"

lemma mint_round_eq:
  "collect_mint_signatures_grpc env epoch message t vout w =
     map_prod rd_signatures id (case co_instant env w of (start, w) \<Rightarrow>
       collect_loop env (length (co_peers env)) (start + ROUND_TIMEOUT)
         (mint_asks env epoch message t vout)
         (ask_order (identities env) (xor (txid_seed t) (ucast vout))) round_new w)"
  by (simp add: collect_mint_signatures_grpc_def collect_def)

lemma mint_round_sound:
  assumes "distinct (identities env)" "collect_mint_signatures_grpc env epoch message t vout w = (sigs, w')"
  shows "distinct (map fst sigs)" "fst ` set sigs \<subseteq> set (identities env)"
    "(k, s) \<in> set sigs \<Longrightarrow> co_verify env k s message"
proof -
  obtain start w1 where i: "co_instant env w = (start, w1)" by fastforce
  define r where "r = fst (collect_loop env (length (co_peers env)) (start + ROUND_TIMEOUT)
    (mint_asks env epoch message t vout) (ask_order (identities env) (xor (txid_seed t) (ucast vout))) round_new w1)"
  have sigs: "sigs = rd_signatures r"
    using assms(2) unfolding mint_round_eq i r_def by (auto simp: map_prod_def split: prod.splits)
  note sound = mint_round.full_round_sound [OF assms(1) r_def [symmetric]]
  show "distinct (map fst sigs)" "fst ` set sigs \<subseteq> set (identities env)"
    "(k, s) \<in> set sigs \<Longrightarrow> co_verify env k s message"
    unfolding sigs by (rule sound(1), rule sound(2), rule sound(3))
qed

lemma completion_round_sound:
  assumes "distinct (identities env)" "collect_completion_signatures env epoch i t h message w = (r, w')"
  shows "distinct (map fst (rd_signatures r))" "fst ` set (rd_signatures r) \<subseteq> set (identities env)"
    "(k, s) \<in> set (rd_signatures r) \<Longrightarrow> co_verify env k s message"
proof -
  obtain start w1 where i: "co_instant env w = (start, w1)" by fastforce
  note r = arg_cong [OF assms(2) [unfolded collect_completion_signatures_def i prod.case], of fst, unfolded fst_conv]
  show "distinct (map fst (rd_signatures r))" "fst ` set (rd_signatures r) \<subseteq> set (identities env)"
    "(k, s) \<in> set (rd_signatures r) \<Longrightarrow> co_verify env k s message"
    using completion_round.full_round_sound [OF assms(1) r] by blast+
qed

lemma governance_round_sound:
  assumes "distinct (identities env)" "collect_governance_signatures env epoch action pc message w = (r, w')"
  shows "distinct (map fst (rd_signatures r))" "fst ` set (rd_signatures r) \<subseteq> set (identities env)"
    "(k, s) \<in> set (rd_signatures r) \<Longrightarrow> co_verify env k s message"
proof -
  obtain start w1 where i: "co_instant env w = (start, w1)" by fastforce
  note r = arg_cong [OF assms(2) [unfolded collect_governance_signatures_def i prod.case], of fst, unfolded fst_conv]
  show "distinct (map fst (rd_signatures r))" "fst ` set (rd_signatures r) \<subseteq> set (identities env)"
    "(k, s) \<in> set (rd_signatures r) \<Longrightarrow> co_verify env k s message"
    using governance_round.full_round_sound [OF assms(1) r] by blast+
qed

lemma mint_round_complete:
  assumes "paced env clock c (mint_asks env epoch message t vout)"
    and "signs env (mint_asks env epoch message t vout) k"
    and "k \<in> set (identities env)" "length (co_peers env) * c < ROUND_TIMEOUT + c"
    and "collect_mint_signatures_grpc env epoch message t vout w = (sigs, w')"
  shows "k \<in> fst ` set sigs"
proof -
  have i: "co_instant env w = (clock w, w)" using assms(1) by (simp add: paced_def)
  have "\<exists>s. (k, s) \<in> set (rd_signatures (fst (collect_loop env (length (co_peers env)) (clock w + ROUND_TIMEOUT)
    (mint_asks env epoch message t vout)
    (ask_order (identities env) (xor (txid_seed t) (ucast vout))) round_new w)))"
    by (rule collect_loop_honest [OF assms(1,2)]) (use assms(3,4) in \<open>simp_all add: round_new_def identities_def\<close>)
  then show ?thesis
    using assms(5) unfolding mint_round_eq i by (force simp: map_prod_def split: prod.splits)
qed

section \<open>Partial signatures\<close>

text \<open>A way of asking for partials in which a signer can only speak for its own vault key.\<close>

locale partial_asking =
  fixes asks :: "peer_endpoint \<Rightarrow> designated_signer \<Rightarrow> 'w \<Rightarrow> (partial_signature, peer_outcome) result \<times> 'w"
  assumes own_key: "fst (asks peer d w) = Ok p \<Longrightarrow>
    ps_vault_pubkey p = ds_vault_pubkey d \<and> ps_signatures p \<noteq> [] \<and> [] \<notin> set (ps_signatures p)"
begin

lemma partials_designated:
  "\<exists>ds. subseq ds designated \<and> set ds \<subseteq> {d. ds_validator_pubkey d \<in> set (identities env)} \<and>
     map ps_vault_pubkey (prd_partials (fst (collect_partials_loop env enough deadline asks designated r w))) =
       map ps_vault_pubkey (prd_partials r) @ map ds_vault_pubkey ds"
proof (induction designated arbitrary: r w)
  case (Cons d designated)
  have skip: ?case if "collect_partials_loop env enough deadline asks (d # designated) r w =
      collect_partials_loop env enough deadline asks designated (r\<lparr>prd_round := x\<rparr>) w'" for x w'
    using Cons.IH [of "r\<lparr>prd_round := x\<rparr>" w'] unfolding that by (auto intro: list_emb_Cons)
  show ?case
  proof (cases "(case enough of None \<Rightarrow> False | Some n \<Rightarrow> n \<le> length (prd_partials r))")
    case True
    then show ?thesis by (intro exI [of _ "[]"]) simp
  next
    case False
    show ?thesis
    proof (cases "peer_of env (ds_validator_pubkey d)")
      case None
      show ?thesis by (rule skip) (use False None in \<open>simp_all add: Let_def\<close>)
    next
      case (Some peer)
      obtain now w1 where i: "co_instant env w = (now, w1)" by fastforce
      obtain a w2 where a: "asks peer d w1 = (a, w2)" by fastforce
      show ?thesis
      proof (cases "deadline \<le> now")
        case True
        show ?thesis by (rule skip) (use True False Some i a in \<open>simp add: Let_def\<close>)
      next
        case late: False
        show ?thesis
        proof (cases a)
          case (Err e)
          show ?thesis by (rule skip) (use late False Some i a Err in \<open>simp add: Let_def\<close>)
        next
          case p: (Ok p)
          have "ps_vault_pubkey p = ds_vault_pubkey d" using own_key [of peer d w1 p] a p by simp
          moreover have "ds_validator_pubkey d \<in> set (identities env)"
            using peer_of_Some [OF Some] by (force simp: identities_def)
          ultimately show ?thesis
            using Cons.IH [of "(r\<lparr>prd_round := record_outcome (ds_validator_pubkey d) (Signed 0) (prd_round r)\<rparr>)
               \<lparr>prd_partials := prd_partials r @ [p]\<rparr>" w2] False Some i a late p
            by (elim exE) (rule exI [of _ "d # ds" for ds], auto simp: Let_def)
        qed
      qed
    qed
  qed
qed simp

lemma partials_distinct:
  assumes "distinct (map ds_vault_pubkey designated)"
    and "collect_partials_loop env enough deadline asks designated partial_round_new w = (pr, w')"
  shows "distinct (map ps_vault_pubkey (prd_partials pr)) \<and>
    ps_vault_pubkey ` set (prd_partials pr) \<subseteq> ds_vault_pubkey ` {d \<in> set designated. ds_validator_pubkey d \<in> set (identities env)}"
proof -
  obtain ds where ds: "subseq ds designated" "set ds \<subseteq> {d. ds_validator_pubkey d \<in> set (identities env)}"
    and keys: "map ps_vault_pubkey (prd_partials pr) = map ds_vault_pubkey ds"
    using partials_designated [of designated env enough deadline partial_round_new w] assms(2)
    by (auto simp: partial_round_new_def)
  obtain N where N: "ds = nths designated N" using ds(1) subseq_conv_nths by blast
  have "set ds \<subseteq> set designated" unfolding N by (rule set_nths_subset)
  moreover have "distinct (map ds_vault_pubkey ds)"
    using distinct_nthsI [OF assms(1), of N] unfolding N nths_map by simp
  moreover have "ps_vault_pubkey ` set (prd_partials pr) = ds_vault_pubkey ` set ds"
    using arg_cong [OF keys, of set] by simp
  ultimately show ?thesis using ds(2) keys by auto
qed

end

lemma accepted_partial_own_key:
  assumes "accepted_partial k d a = Ok p"
  shows "ps_vault_pubkey p = ds_vault_pubkey d \<and> ps_signatures p \<noteq> [] \<and> [] \<notin> set (ps_signatures p)"
  using assms by (auto simp: accepted_partial_def accept_payout_def Let_def split: if_splits)

lemma stamped_Ok: "fst (stamped env mk asks p w) = Ok x \<Longrightarrow> \<exists>q w. fst (asks p q w) = Ok x"
  by (auto simp: stamped_def split: prod.splits)

interpretation payout_partials: partial_asking "\<lambda>peer d. stamped env mk (\<lambda>p q. ask_payout env p q d) peer" for env mk
  by unfold_locales (drule stamped_Ok, auto simp: ask_payout_def fst_map_prod dest: accepted_partial_own_key)

interpretation sweep_partials: partial_asking "\<lambda>peer d. stamped env mk (\<lambda>p q. ask_sweep env p q d) peer" for env mk
  by unfold_locales (drule stamped_Ok, auto simp: ask_sweep_def fst_map_prod dest: accepted_partial_own_key)

lemma collected_payout_partials:
  assumes "distinct (map ds_vault_pubkey designated)"
    and "collect_payout_partials_grpc env epoch i qa intent tx designated proposer w = (pr, w')"
  shows "distinct (map ps_vault_pubkey (prd_partials pr)) \<and>
    ps_vault_pubkey ` set (prd_partials pr) \<subseteq> ds_vault_pubkey ` {d \<in> set designated. ds_validator_pubkey d \<in> set (identities env)}"
proof -
  obtain start w1 where s: "co_instant env w = (start, w1)" by fastforce
  show ?thesis
    by (rule payout_partials.partials_distinct [OF assms(1) assms(2) [unfolded collect_payout_partials_grpc_def s prod.case]])
qed

lemma collected_sweep_partials:
  assumes "distinct (map ds_vault_pubkey signers)"
    and "collect_sweep_partials env epoch tx signers threshold w = (pr, w')"
  shows "distinct (map ps_vault_pubkey (prd_partials pr)) \<and>
    ps_vault_pubkey ` set (prd_partials pr) \<subseteq> ds_vault_pubkey ` {d \<in> set signers. ds_validator_pubkey d \<in> set (identities env)}"
proof -
  obtain start w1 where s: "co_instant env w = (start, w1)" by fastforce
  show ?thesis
    by (rule sweep_partials.partials_distinct [OF assms(1) assms(2) [unfolded collect_sweep_partials_def s prod.case]])
qed

text \<open>
  C36: A mint round ends in a proof the program accepts.  Let the configured peers be distinct, let
  at least the threshold of current validators among them answer each request properly, and let no
  call take longer than \<open>c\<close> milliseconds where \<open>n - 1\<close> such calls fit into the round.  Then every
  collected signature verifies over the message and the relayer's own count passes, with the number
  of current validators among the signers.  If all signers are current validators, in particular if
  every configured peer is one, the program's parser accepts the instruction built from the round
  and counts the same signers.  If one of them is not, as can be during a rotation, the program
  refuses the whole proof although the relayer's count has passed.
\<close>

theorem healthy_round_mints:
  assumes "distinct (identities env)" "length vs \<le> MAX_VALIDATORS"
    and "length (co_peers env) < 256" "2 + length (co_peers env) * 110 + length message < 65536"
    and "0 < unat th" "unat th \<le> card H" "H \<subseteq> set (identities env) \<inter> set vs"
    and "\<And>k. k \<in> H \<Longrightarrow> signs env (mint_asks env epoch message t vout) k"
    and "paced env clock c (mint_asks env epoch message t vout)" "length (co_peers env) * c < ROUND_TIMEOUT + c"
    and "collect_mint_signatures_grpc env epoch message t vout w = (sigs, w')"
  shows "(\<forall>(k, s) \<in> set sigs. co_verify env k s message) \<and>
    count_unique_threshold_signers sigs vs th = Ok (card (fst ` set sigs \<inter> set vs)) \<and>
    (if fst ` set sigs \<subseteq> set vs
     then unat th \<le> length sigs \<and>
       count_unique_validator_signers (snd (build_ed25519_instruction ed sigs message)) message vs = Ok (length sigs)
     else \<exists>e. count_unique_validator_signers (snd (build_ed25519_instruction ed sigs message)) message vs = Err e) \<and>
    (set (identities env) \<subseteq> set vs \<longrightarrow> fst ` set sigs \<subseteq> set vs)"
proof -
  note sound = mint_round_sound [OF assms(1,11)]
  have H: "H \<subseteq> fst ` set sigs"
    using mint_round_complete [OF assms(9) _ _ assms(10,11)] assms(7,8) by blast
  have "H \<subseteq> fst ` set sigs \<inter> set vs" using H assms(7) by blast
  then have th: "unat th \<le> card (fst ` set sigs \<inter> set vs)"
    using assms(6) card_mono [of "fst ` set sigs \<inter> set vs" H] by simp
  have len: "length sigs = card (fst ` set sigs)"
    using distinct_card [OF sound(1)] by simp
  have "card (fst ` set sigs) \<le> length (identities env)"
    using card_mono [OF _ sound(2)] card_length [of "identities env"] by simp
  then have "length sigs \<le> length (co_peers env)" using len by (simp add: identities_def)
  moreover have "sigs \<noteq> []" using th assms(5) by auto
  ultimately have fits: "sigs \<noteq> []" "length sigs < 256" "2 + length sigs * 110 + length message < 65536"
    using assms(3,4) by auto
  note built = build_then_verify [OF fits assms(2)]
  let ?n = "count_unique_validator_signers (build_ed25519_data sigs message) message vs"
  have "if fst ` set sigs \<subseteq> set vs then unat th \<le> length sigs \<and> ?n = Ok (length sigs) else \<exists>e. ?n = Err e"
  proof (cases "fst ` set sigs \<subseteq> set vs")
    case True
    then show ?thesis using built sound(1) th len by (simp add: Int_absorb2)
  next
    case False
    then show ?thesis using built by (cases ?n) auto
  qed
  moreover have "count_unique_threshold_signers sigs vs th = Ok (card (fst ` set sigs \<inter> set vs))"
    using precheck_count th by simp
  ultimately show ?thesis
    using sound(2,3) unfolding build_ed25519_instruction_def snd_conv by blast
qed

text \<open>A federation of three; the third peer never answers.  The world is the clock in milliseconds.\<close>

definition demo_peers :: "peer_endpoint list" where
  "demo_peers = [\<lparr>pe_validator_pubkey = 1, pe_uri = [1]\<rparr>, \<lparr>pe_validator_pubkey = 2, pe_uri = [2]\<rparr>, \<lparr>pe_validator_pubkey = 3, pe_uri = [3]\<rparr>]"

definition demo_answer :: "bytes \<Rightarrow> wire_sign_response" where
  "demo_answer uri = (let k = if uri = [1] then 1 else if uri = [2] then 2 else 3 in
     \<lparr>wsr_request_id = [], wsr_validator_pubkey = le_bytes (k :: pubkey), wsr_signature = le_bytes (ucast k :: signature)\<rparr>)"

definition demo_collector :: "bytes list \<Rightarrow> nat \<Rightarrow> nat collector_env" where
  "demo_collector hung delay = \<lparr>co_peers = demo_peers, co_verify = (\<lambda>k s m. s = ucast k),
     co_instant = (\<lambda>w. (w, w)), co_now_unix = (\<lambda>w. (0, w)), co_next_request_id = (\<lambda>w. ([], w)),
     co_connect = (\<lambda>uri w. (Ok (), w)),
     co_sign = (\<lambda>uri req w. if uri \<in> set hung then (TimedOut, w + delay) else (Answered (demo_answer uri), w + 100)),
     co_sign_payout = (\<lambda>uri req w. (TimedOut, w)), co_sign_sweep = (\<lambda>uri req w. (TimedOut, w)),
     co_sign_completion = (\<lambda>uri req w. (TimedOut, w)), co_sign_governance = (\<lambda>uri req w. (TimedOut, w))\<rparr>"

lemmas demo_collector_defs = demo_collector_def demo_peers_def demo_answer_def stamped_def ask_def call_peer_def
  accepted_outcome_def accept_def identities_def

lemma demo_ask:
  "p \<in> set demo_peers \<Longrightarrow> mint_asks (demo_collector hung delay) epoch message t vout p w =
     (if pe_uri p \<in> set hung then (Unavailable PerPeerTimeout, w + delay)
      else (Signed (ucast (pe_validator_pubkey p)), w + 100))"
  by (auto simp: demo_collector_defs Let_def from_le_le_bytes)

lemma demo_collector_simps [simp]:
  "co_peers (demo_collector hung delay) = demo_peers" "identities (demo_collector hung delay) = [1, 2, 3]"
  "co_instant (demo_collector hung delay) w = (w, w)" "co_verify (demo_collector hung delay) k s m = (s = ucast k)"
  by (simp_all add: demo_collector_def identities_def demo_peers_def)

theorem healthy_round_mints_witness:
  "\<exists>sigs w'. collect_mint_signatures_grpc (demo_collector [[3]] 5000) 7 [0xAB] 0 0 0 = (sigs, w') \<and>
    count_unique_validator_signers (snd (build_ed25519_instruction 9 sigs [0xAB])) [0xAB] [1, 2, 3] = Ok (length sigs)"
proof -
  obtain sigs w' where r: "collect_mint_signatures_grpc (demo_collector [[3]] 5000) 7 [0xAB] 0 0 0 = (sigs, w')"
    by fastforce
  have "signs (demo_collector [[3]] 5000) (mint_asks (demo_collector [[3]] 5000) 7 [0xAB] 0 0) k" if "k \<in> {1, 2}" for k
    using that by (auto simp: signs_def demo_ask) (auto simp: demo_peers_def)
  moreover have "paced (demo_collector [[3]] 5000) (\<lambda>w. w) 5000 (mint_asks (demo_collector [[3]] 5000) 7 [0xAB] 0 0)"
    by (simp add: paced_def demo_ask)
  ultimately show ?thesis
    using healthy_round_mints [of "demo_collector [[3]] 5000" "[1, 2, 3]" "[0xAB]" 2 "{1, 2}" 7 0 0 "\<lambda>w. w" 5000 0 sigs w' 9] r
    by (auto simp: MAX_VALIDATORS_def ROUND_TIMEOUT_def demo_peers_def split: if_splits)
qed

text \<open>
  Peers that connect and answer only at the limit of both timeouts use up ten seconds each: two of
  them at the head of the order leave the third, which would sign, unasked.
\<close>

theorem hung_peers_starve_round:
  "collect_mint_signatures_grpc (demo_collector [[1], [2]] 10000) 7 [0xAB] 0 0 0 = ([], 20000)"
proof -
  have o: "ask_order [1, 2, 3] (txid_seed 0) = [1, 2, 3]" by code_simp
  have p: "map (peer_of (demo_collector [[1], [2]] 10000)) [1, 2, 3] = map Some demo_peers"
    by (simp add: peer_of_def demo_peers_def)
  show ?thesis
    unfolding mint_round_eq using p
    by (simp add: o demo_peers_def demo_ask ROUND_TIMEOUT_def reached_def unique_signers_def round_new_def record_outcome_def)
qed

end
