(* ===== verification/Federation.thy ===== *)
theory Federation
  imports Collector
begin

text \<open>
  The payout quorum and its peers (\<open>withdrawal/federation.rs\<close>): the map from the positions of the
  vault to the validators, and the collectors the executor and the completion service are wired to.
  The map's hash table is a list of pairs with distinct keys; the code never depends on its order.
\<close>

section \<open>The map of vault signers\<close>

datatype vault_signer_map_error =
    MapMalformed bytes
  | MapBadPubkey bytes bytes
  | MapIndexOutOfRange u8 nat
  | MapDuplicateIndex u8
  | MapDuplicateValidator pubkey
  | MapIncomplete nat nat
  | MapEmpty

type_synonym vault_signer_map = "(u8 \<times> pubkey) list"

fun map_entries ::
  "(bytes \<Rightarrow> (pubkey, bytes) result) \<Rightarrow> multisig_vault \<Rightarrow> bytes list \<Rightarrow> vault_signer_map \<Rightarrow> pubkey list \<Rightarrow>
     (vault_signer_map, vault_signer_map_error) result" where
  "map_entries parse_pk vault [] by_index seen_validators = Ok by_index"
| "map_entries parse_pk vault (entry # entries) by_index seen_validators =
     and_then (ok_or (MapMalformed entry) (split_once 58 entry)) (\<lambda>(idx, pk).
     and_then (ok_or (MapMalformed entry) (parse_unsigned (str_trim idx))) (\<lambda>index.
     and_then (map_err (MapBadPubkey entry) (parse_pk (str_trim pk))) (\<lambda>validator.
     if length (mv_signer_pubkeys vault) \<le> unat index
       then Err (MapIndexOutOfRange index (length (mv_signer_pubkeys vault)))
     else if index \<in> fst ` set by_index then Err (MapDuplicateIndex index)
     else if validator \<in> set seen_validators then Err (MapDuplicateValidator validator)
     else map_entries parse_pk vault entries (by_index @ [(index, validator)]) (seen_validators @ [validator]))))"

definition parse_vault_signer_map ::
  "(bytes \<Rightarrow> (pubkey, bytes) result) \<Rightarrow> bytes \<Rightarrow> multisig_vault \<Rightarrow> (vault_signer_map, vault_signer_map_error) result" where
  "parse_vault_signer_map parse_pk raw vault =
     and_then (map_entries parse_pk vault (filter (\<lambda>s. s \<noteq> []) (map str_trim (split_on 44 raw))) [] []) (\<lambda>by_index.
     if by_index = [] then Err MapEmpty
     else if length by_index \<noteq> length (mv_signer_pubkeys vault)
       then Err (MapIncomplete (length by_index) (length (mv_signer_pubkeys vault)))
     else Ok by_index)"

definition index_of :: "vault_signer_map \<Rightarrow> pubkey \<Rightarrow> u8 option" where
  "index_of by_index validator = map_option fst (find (\<lambda>(i, v). v = validator) by_index)"

definition validator_at :: "vault_signer_map \<Rightarrow> u8 \<Rightarrow> pubkey option" where
  "validator_at by_index index = map_of by_index index"

section \<open>The collectors\<close>

definition resolve_quorum :: "multisig_vault \<Rightarrow> vault_signer_map \<Rightarrow> u8 list \<Rightarrow> designated_signer list" where
  "resolve_quorum vault by_index quorum_indices =
     List.map_filter (\<lambda>i. case validator_at by_index i of None \<Rightarrow> None
       | Some validator \<Rightarrow> (case get_at (mv_signer_pubkeys vault) (unat i) of None \<Rightarrow> None
         | Some vault_pubkey \<Rightarrow> Some \<lparr>ds_validator_pubkey = validator, ds_vault_pubkey = vault_pubkey\<rparr>)) quorum_indices"

definition federation_payout_partials ::
  "'w collector_env \<Rightarrow> multisig_vault \<Rightarrow> vault_signer_map \<Rightarrow> u32 \<Rightarrow> u64 \<Rightarrow> u64 \<Rightarrow> u32 \<Rightarrow> bytes \<Rightarrow> bytes \<Rightarrow> bytes \<Rightarrow> 'w \<Rightarrow>
     partial_signature list \<times> 'w" where
  "federation_payout_partials env vault by_index proposer_index epoch withdrawal_index quorum_attempt canonical_intent
      unsigned_tx_hex quorum_indices w =
     map_prod prd_partials id (collect_payout_partials_grpc env epoch withdrawal_index quorum_attempt canonical_intent
       unsigned_tx_hex (resolve_quorum vault by_index quorum_indices) proposer_index w)"

definition federation_completion_signatures ::
  "'w collector_env \<Rightarrow> u64 \<Rightarrow> u64 \<Rightarrow> bytes32 \<Rightarrow> u64 \<Rightarrow> bytes \<Rightarrow> 'w \<Rightarrow> (pubkey \<times> signature) list \<times> 'w" where
  "federation_completion_signatures env epoch withdrawal_index payout_txid payout_height message w =
     map_prod rd_signatures id (collect_completion_signatures env epoch withdrawal_index payout_txid payout_height message w)"

section \<open>A parsed map is a bijection\<close>

text \<open>Positions of the vault and validators correspond one to one.\<close>

definition one_to_one :: "multisig_vault \<Rightarrow> vault_signer_map \<Rightarrow> bool" where
  "one_to_one vault m \<longleftrightarrow> distinct (map fst m) \<and> distinct (map snd m) \<and>
     (\<forall>i \<in> fst ` set m. unat i < length (mv_signer_pubkeys vault))"

lemma map_entries_one_to_one:
  assumes "map_entries parse_pk vault entries m (map snd m) = Ok m'" "one_to_one vault m"
  shows "one_to_one vault m'"
  using assms
proof (induction entries arbitrary: m)
  case (Cons entry entries)
  obtain idx pk where e: "split_once 58 entry = Some (idx, pk)"
    using Cons.prems(1) by (cases "split_once 58 entry") auto
  obtain i where i: "parse_unsigned (str_trim idx) = Some (i :: u8)"
    using Cons.prems(1) e by (cases "parse_unsigned (str_trim idx) :: u8 option") auto
  obtain v where v: "parse_pk (str_trim pk) = Ok v"
    using Cons.prems(1) e i by (cases "parse_pk (str_trim pk)") auto
  have step: "map_entries parse_pk vault entries (m @ [(i, v)]) (map snd (m @ [(i, v)])) = Ok m'"
    "unat i < length (mv_signer_pubkeys vault)" "i \<notin> fst ` set m" "v \<notin> snd ` set m"
    using Cons.prems(1) e i v by (simp_all split: if_splits)
  show ?case
    by (rule Cons.IH [OF step(1)]) (use step(2-4) Cons.prems(2) in \<open>auto simp: one_to_one_def\<close>)
qed simp

lemma one_to_one_covers:
  assumes "one_to_one vault m" "length m = length (mv_signer_pubkeys vault)" "unat i < length (mv_signer_pubkeys vault)"
  shows "i \<in> fst ` set m"
proof -
  have inj: "inj_on unat (fst ` set m)" by (auto simp: inj_on_def word_unat_eq_iff)
  have "unat ` fst ` set m = {..<length (mv_signer_pubkeys vault)}"
  proof (rule card_subset_eq)
    show "unat ` fst ` set m \<subseteq> {..<length (mv_signer_pubkeys vault)}" using assms(1) by (auto simp: one_to_one_def)
    have "card (fst ` set m) = length m" using assms(1) by (metis distinct_card length_map list.set_map one_to_one_def)
    then show "card (unat ` fst ` set m) = card {..<length (mv_signer_pubkeys vault)}"
      using card_image [OF inj] assms(2) by simp
  qed simp
  then have "unat i \<in> unat ` fst ` set m" using assms(3) by simp
  then show ?thesis by (auto simp: word_unat_eq_iff [symmetric] image_iff)
qed

lemma parsed_map:
  assumes "parse_vault_signer_map parse_pk raw vault = Ok m"
  shows "one_to_one vault m" "length m = length (mv_signer_pubkeys vault)"
proof -
  from assms obtain es where es: "map_entries parse_pk vault es [] [] = Ok m"
    by (auto simp: parse_vault_signer_map_def and_then_Ok_iff split: if_splits)
  show "one_to_one vault m"
    by (rule map_entries_one_to_one [where m = "[]" and entries = es and parse_pk = parse_pk])
      (use es in \<open>simp_all add: one_to_one_def\<close>)
  show "length m = length (mv_signer_pubkeys vault)"
    using assms by (auto simp: parse_vault_signer_map_def and_then_Ok_iff split: if_splits)
qed

section \<open>Every quorum is resolved\<close>

lemma resolve_parsed:
  assumes "parse_vault_signer_map parse_pk raw vault = Ok m" "\<forall>i \<in> set q. unat i < length (mv_signer_pubkeys vault)"
  shows "resolve_quorum vault m q =
    map (\<lambda>i. \<lparr>ds_validator_pubkey = the (map_of m i), ds_vault_pubkey = mv_signer_pubkeys vault ! unat i\<rparr>) q"
  using assms(2)
proof (induction q)
  case (Cons i q)
  have "i \<in> fst ` set m" using one_to_one_covers [OF parsed_map [OF assms(1)]] Cons.prems by simp
  then obtain v where "map_of m i = Some v" by (metis map_of_eq_None_iff not_None_eq)
  with Cons show ?case by (simp add: resolve_quorum_def validator_at_def get_at_def map_filter_simps)
qed (simp add: resolve_quorum_def map_filter_simps)

lemma quorum_partials:
  assumes "parse_vault_signer_map parse_pk raw vault = Ok m" "distinct (mv_signer_pubkeys vault)"
    and "mv_threshold vault \<le> length (mv_signer_pubkeys vault)"
    and "q = designate_quorum index (length (mv_signer_pubkeys vault)) (mv_threshold vault)"
    and "federation_payout_partials env vault m proposer epoch i qa intent tx q w = (ps, w')"
  shows "distinct (map ps_vault_pubkey ps) \<and> length ps \<le> mv_threshold vault \<and>
    ps_vault_pubkey ` set ps \<subseteq> (\<lambda>i. mv_signer_pubkeys vault ! unat i) ` set q"
proof -
  let ?n = "length (mv_signer_pubkeys vault)"
  note one = parsed_map [OF assms(1)]
  have "m \<noteq> []" using assms(1) by (auto simp: parse_vault_signer_map_def and_then_Ok_iff split: if_splits)
  then have n: "0 < ?n" using one(2) by auto
  have "length m = card (fst ` set m)" using one(1) by (metis distinct_card length_map list.set_map one_to_one_def)
  also have "\<dots> \<le> card (UNIV :: u8 set)" by (rule card_mono) simp_all
  finally have "?n \<le> 256" using one(2) by (simp add: card_word)
  note quorum = designate_quorum_props [OF n assms(3) this, of index, folded assms(4)]
  note res = resolve_parsed [OF assms(1) quorum(3)]
  have dq: "distinct q" using quorum(1) by (simp add: strict_sorted_iff)
  have "inj_on (\<lambda>i. mv_signer_pubkeys vault ! unat i) (set q)"
    using quorum(3) assms(2) by (simp add: inj_on_def nth_eq_iff_index_eq) (simp add: word_unat_eq_iff)
  then have "distinct (map ds_vault_pubkey (resolve_quorum vault m q))"
    unfolding res using dq by (simp add: distinct_map comp_def)
  from collected_payout_partials [OF this] assms(5)
  have ps: "distinct (map ps_vault_pubkey ps)"
      "ps_vault_pubkey ` set ps \<subseteq> ds_vault_pubkey ` set (resolve_quorum vault m q)"
    unfolding federation_payout_partials_def by (fastforce simp: map_prod_def split: prod.splits)+
  then have sub: "ps_vault_pubkey ` set ps \<subseteq> (\<lambda>i. mv_signer_pubkeys vault ! unat i) ` set q" unfolding res by auto
  have "length ps = card (ps_vault_pubkey ` set ps)" using distinct_card [OF ps(1)] by simp
  also have "\<dots> \<le> card (set q)" using card_mono [OF _ sub] card_image_le [of "set q"] by (meson List.finite_set finite_imageI le_trans)
  also have "\<dots> \<le> mv_threshold vault" using card_length [of q] quorum(2) by simp
  finally show ?thesis using ps(1) sub by simp
qed

lemma federation_completions:
  assumes "distinct (identities env)" "federation_completion_signatures env epoch i t h message w = (sigs, w')"
  shows "distinct (map fst sigs)" "fst ` set sigs \<subseteq> set (identities env)"
    "(k, s) \<in> set sigs \<Longrightarrow> co_verify env k s message"
proof -
  obtain r w1 where r: "collect_completion_signatures env epoch i t h message w = (r, w1)" by fastforce
  then have "sigs = rd_signatures r" using assms(2) by (simp add: federation_completion_signatures_def)
  with completion_round_sound [OF assms(1) r] show "distinct (map fst sigs)" "fst ` set sigs \<subseteq> set (identities env)"
    "(k, s) \<in> set sigs \<Longrightarrow> co_verify env k s message" by auto
qed

end
