(* ===== verification/Completion.thy ===== *)
theory Completion
  imports Orchestrator ExecutorSafety
begin

text \<open>
  Recording paid withdrawals on Solana (\<open>withdrawal/completion.rs\<close>), and what the Goldcoin node says
  about a transaction (\<open>withdrawal/adapter.rs\<close>).  The Solana node, the co-signers, the clock and the
  task that refreshes the observed epoch are the environment.  \<open>cm_sent\<close> records what was handed to
  the node; the code never reads it.
\<close>

section \<open>The state of a transaction (adapter.rs)\<close>

definition read_confirmations :: "(json, rpc_error) result \<Rightarrow> (tx_status option, rpc_error) result" where
  "read_confirmations answer =
     (case answer of
        Ok v \<Rightarrow> Ok (Some \<lparr>
          ts_confirmations = (case Option.bind (json_get v ''confirmations'') json_i64 of None \<Rightarrow> 0 | Some c \<Rightarrow> c),
          ts_block_hash_hex = Option.bind (json_get v ''blockhash'') json_str,
          ts_block_height = None\<rparr>)
      | Err (Method code why) \<Rightarrow> if code = - 5 then Ok None else Err (Method code why)
      | Err e \<Rightarrow> Err e)"

definition read_on_main_chain :: "(json, rpc_error) result \<Rightarrow> (bool, rpc_error) result" where
  "read_on_main_chain answer =
     (case answer of
        Ok v \<Rightarrow> Ok (case Option.bind (json_get v ''confirmations'') json_i64 of None \<Rightarrow> False | Some c \<Rightarrow> 0 \<le>s c)
      | Err (Method code why) \<Rightarrow> if code = - 5 then Ok False else Err (Method code why)
      | Err e \<Rightarrow> Err e)"

section \<open>The environment (completion.rs)\<close>

definition STATUS_COMPLETED :: u8 where "STATUS_COMPLETED = 2"

datatype completion_error =
    CompNodeUnavailable solana_rpc_error
  | CompRpc solana_rpc_error
  | CompDb db_error
  | CompValidatorSetMissing

record completion_report =
  cr_reconciled :: nat
  cr_submitted :: nat
  cr_insufficient :: nat
  cr_skipped :: nat

record completion_facts =
  cf_payout_txid :: bytes32
  cf_payout_height :: u64
  cf_amount :: u64
  cf_dest_commitment :: bytes32

record 'w completion_env =
  ce_sdk :: sdk
  ce_ed25519_program :: pubkey
  ce_program_id :: pubkey
  ce_submitter :: pubkey
  ce_protocol_version :: u8
  ce_epoch :: "'w \<Rightarrow> epoch_observation \<times> 'w"
  ce_get_account :: "pubkey \<Rightarrow> 'w \<Rightarrow> (bytes option, solana_rpc_error) result \<times> 'w"
  ce_get_latest_blockhash :: "'w \<Rightarrow> (bytes32, solana_rpc_error) result \<times> 'w"
  ce_send_transaction :: "solana_tx \<Rightarrow> 'w \<Rightarrow> (bytes, solana_rpc_error) result \<times> 'w"
  ce_collect :: "u64 \<Rightarrow> u64 \<Rightarrow> bytes32 \<Rightarrow> u64 \<Rightarrow> bytes \<Rightarrow> 'w \<Rightarrow> (pubkey \<times> signature) list \<times> 'w"
  ce_now_unix :: "'w \<Rightarrow> i64 \<times> 'w"

record completion_submission =
  cs_index :: i64
  cs_epoch :: u64
  cs_facts :: completion_facts
  cs_signatures :: "(pubkey \<times> signature) list"
  cs_instructions :: "solana_ix list"

record 'w completion_state =
  cm_db :: withdrawal_db
  cm_world :: 'w
  cm_report :: completion_report
  cm_sent :: "completion_submission list"

type_synonym ('w, 'a) comp = "('w completion_state, 'a, completion_error) io"

section \<open>Steps\<close>

definition COMPLETION_RETRY_ATTEMPTS :: nat where "COMPLETION_RETRY_ATTEMPTS = 3"

definition comp_classify :: "solana_rpc_error \<Rightarrow> completion_error" where
  "comp_classify e = (if solana_is_retriable e then CompNodeUnavailable e else CompRpc e)"

definition comp_call :: "('w \<Rightarrow> ('a, solana_rpc_error) result \<times> 'w) \<Rightarrow> ('w, 'a) comp" where
  "comp_call f s = (case solana_call_with_retry COMPLETION_RETRY_ATTEMPTS f (cm_world s) of
     (r, w) \<Rightarrow> (map_err comp_classify r, s\<lparr>cm_world := w\<rparr>))"

definition comp_world :: "('w \<Rightarrow> 'a \<times> 'w) \<Rightarrow> ('w, 'a) comp" where
  "comp_world f s = (case f (cm_world s) of (x, w) \<Rightarrow> (Ok x, s\<lparr>cm_world := w\<rparr>))"

definition comp_query :: "(withdrawal_db \<Rightarrow> ('a, db_error) result) \<Rightarrow> ('w, 'a) comp" where
  "comp_query q s = (map_err CompDb (q (cm_db s)), s)"

definition comp_db :: "('a, withdrawal_db) db_op \<Rightarrow> ('w, 'a) comp" where
  "comp_db m s = (case m (cm_db s) of (r, d) \<Rightarrow> (map_err CompDb r, s\<lparr>cm_db := d\<rparr>))"

definition comp_report :: "(completion_report \<Rightarrow> completion_report) \<Rightarrow> ('w, unit) comp" where
  "comp_report f s = (Ok (), s\<lparr>cm_report := f (cm_report s)\<rparr>)"

definition comp_note :: "completion_submission \<Rightarrow> ('w, unit) comp" where
  "comp_note sb s = (Ok (), s\<lparr>cm_sent := cm_sent s @ [sb]\<rparr>)"

section \<open>One withdrawal\<close>

text \<open>The payout's id is stored as it is displayed, in reverse.\<close>

definition local_completion_facts ::
  "sdk \<Rightarrow> withdrawal_db \<Rightarrow> i64 \<Rightarrow> (completion_facts option, db_error) result" where
  "local_completion_facts sdk d index =
     and_then (get_withdrawal d index) (\<lambda>w.
     Ok (case w of None \<Rightarrow> None | Some w \<Rightarrow>
       (case get_payout d index of None \<Rightarrow> None | Some p \<Rightarrow>
       (case prow_txid_hex p of None \<Rightarrow> None | Some displayed \<Rightarrow>
       (case decode_exact 32 displayed of Err e \<Rightarrow> None | Ok t \<Rightarrow>
       (case prow_mined_height p of None \<Rightarrow> None | Some height \<Rightarrow>
         Some \<lparr>cf_payout_txid = from_le (rev t), cf_payout_height = height, cf_amount = wrow_amount_atomic w,
           cf_dest_commitment = destination_commitment sdk (wrow_glc_address w)\<rparr>))))))"

definition completion_message_for :: "'w completion_env \<Rightarrow> u64 \<Rightarrow> u64 \<Rightarrow> completion_facts \<Rightarrow> bytes" where
  "completion_message_for env epoch index facts =
     withdrawal_completion_message (ce_protocol_version env) (ce_program_id env) epoch index
       (cf_payout_txid facts) (cf_payout_height facts) (cf_amount facts) (cf_dest_commitment facts)"

definition completion_instructions ::
  "'w completion_env \<Rightarrow> u64 \<Rightarrow> u64 \<Rightarrow> completion_facts \<Rightarrow> (pubkey \<times> signature) list \<Rightarrow> solana_ix list" where
  "completion_instructions env epoch index facts sigs =
     (let (ed_program, ed_data) = build_ed25519_instruction (ce_ed25519_program env) sigs
            (completion_message_for env epoch index facts) in
      [\<lparr>si_program_id = ed_program, si_accounts = [], si_data = ed_data\<rparr>,
       complete_withdrawal_instruction (ce_sdk env) (ce_program_id env)
         \<lparr>cw_submitter = ce_submitter env,
          cw_bridge_config = fst (bridge_config_pda (ce_sdk env) (ce_program_id env)),
          cw_validator_set = fst (validator_set_pda (ce_sdk env) (ce_program_id env)),
          cw_withdrawal = fst (withdrawal_pda (ce_sdk env) (ce_program_id env) index)\<rparr>
         index (cf_payout_txid facts) (cf_payout_height facts) epoch])"

definition send_completion ::
  "'w completion_env \<Rightarrow> i64 \<Rightarrow> u64 \<Rightarrow> completion_facts \<Rightarrow> (pubkey \<times> signature) list \<Rightarrow> ('w, unit) comp" where
  "send_completion env index epoch facts sigs =
     (let instructions = completion_instructions env epoch index facts sigs in
      ebind (comp_call (ce_get_latest_blockhash env)) (\<lambda>blockhash.
      ebind (comp_note \<lparr>cs_index = index, cs_epoch = epoch, cs_facts = facts, cs_signatures = sigs,
        cs_instructions = instructions\<rparr>) (\<lambda>_.
      ebind (comp_call (ce_send_transaction env \<lparr>stx_instructions = instructions,
        stx_payer = ce_submitter env, stx_blockhash = blockhash\<rparr>)) (\<lambda>signature.
      ebind (comp_world (ce_now_unix env)) (\<lambda>now.
      ebind (comp_db (record_onchain_completion index (Some signature) now)) (\<lambda>_.
      comp_report (\<lambda>r. r\<lparr>cr_submitted := cr_submitted r + 1\<rparr>)))))))"

text \<open>From the local facts to the submission.\<close>

definition submit_completion :: "'w completion_env \<Rightarrow> i64 \<Rightarrow> completion_facts \<Rightarrow> ('w, unit) comp" where
  "submit_completion env index facts =
     ebind (comp_world (ce_epoch env)) (\<lambda>obs.
     let epoch = eo_epoch obs; message = completion_message_for env epoch index facts in
     ebind (comp_world (ce_collect env epoch index (cf_payout_txid facts) (cf_payout_height facts) message)) (\<lambda>sigs.
     ebind (comp_call (ce_get_account env (fst (validator_set_pda (ce_sdk env) (ce_program_id env))))) (\<lambda>account.
     ebind (elift (ok_or CompValidatorSetMissing account)) (\<lambda>data.
     ebind (elift (map_err CompRpc (decode_validator_set data))) (\<lambda>snapshot.
     if \<not> is_ok (count_unique_threshold_signers sigs (vss_validators snapshot) (vss_threshold snapshot))
     then comp_report (\<lambda>r. r\<lparr>cr_insufficient := cr_insufficient r + 1\<rparr>)
     else send_completion env index epoch facts sigs)))))"

definition complete_one :: "'w completion_env \<Rightarrow> i64 \<Rightarrow> ('w, unit) comp" where
  "complete_one env index =
     ebind (comp_call (ce_get_account env (fst (withdrawal_pda (ce_sdk env) (ce_program_id env) index)))) (\<lambda>account.
     case account of
       None \<Rightarrow> comp_report (\<lambda>r. r\<lparr>cr_skipped := cr_skipped r + 1\<rparr>)
     | Some data \<Rightarrow>
       if get_at data STATUS_OFFSET = Some STATUS_COMPLETED then
         ebind (comp_world (ce_now_unix env)) (\<lambda>now.
         ebind (comp_db (record_onchain_completion index None now)) (\<lambda>_.
         comp_report (\<lambda>r. r\<lparr>cr_reconciled := cr_reconciled r + 1\<rparr>)))
       else
         ebind (comp_world (ce_now_unix env)) (\<lambda>now.
         ebind (comp_world (ce_epoch env)) (\<lambda>obs.
         if \<not> is_fresh_at obs now then eret ()
         else ebind (comp_query (\<lambda>d. local_completion_facts (ce_sdk env) d index)) (\<lambda>facts.
           case facts of
             None \<Rightarrow> comp_report (\<lambda>r. r\<lparr>cr_skipped := cr_skipped r + 1\<rparr>)
           | Some facts \<Rightarrow> submit_completion env index facts))))"

definition completion_tick :: "'w completion_env \<Rightarrow> ('w, completion_report) comp" where
  "completion_tick env s =
     ebind (comp_query (\<lambda>d. Ok (payouts_awaiting_onchain_completion d))) (\<lambda>pending.
     ebind (efor pending (complete_one env)) (\<lambda>_ s. (Ok (cm_report s), s)))
     (s\<lparr>cm_report := \<lparr>cr_reconciled = 0, cr_submitted = 0, cr_insufficient = 0, cr_skipped = 0\<rparr>\<rparr>)"

end
