(* ===== verification/CompletionLogic.thy ===== *)
theory CompletionLogic
  imports Completion
begin

text \<open>
  Reasoning about the completion service.  The locale \<open>completion_invariant\<close> is its contract: a
  property of the states that survives the recording of completions, the environment, the report
  and the submissions the service may make holds after every pass.
\<close>

section \<open>The contract\<close>

locale completion_invariant = io_invariant I cm_db
  for I :: "'w completion_state \<Rightarrow> bool" +
  fixes env :: "'w completion_env"
    and idx :: "i64 \<Rightarrow> bool"
  assumes I_record: "I s \<Longrightarrow> I (s\<lparr>cm_db := snd (record_onchain_completion i g at (cm_db s))\<rparr>)"
    and I_world: "I s \<Longrightarrow> I (s\<lparr>cm_world := w\<rparr>)"
    and I_report: "I s \<Longrightarrow> I (s\<lparr>cm_report := r\<rparr>)"
    and I_note: "I s \<Longrightarrow> idx i \<Longrightarrow> local_completion_facts (ce_sdk env) (cm_db s) i = Ok (Some facts) \<Longrightarrow>
      I (s\<lparr>cm_sent := cm_sent s @ [\<lparr>cs_index = i, cs_epoch = epoch, cs_facts = facts, cs_signatures = sigs,
        cs_instructions = completion_instructions env epoch i facts sigs\<rparr>]\<rparr>)"
    and I_pending: "I s \<Longrightarrow> i \<in> set (payouts_awaiting_onchain_completion (cm_db s)) \<Longrightarrow> idx i"
begin

lemma triple_query: "triple p (comp_query q) (\<lambda>x d. p d \<and> q d = Ok x)"
  by (auto simp: triple_def comp_query_def)

lemma triple_world: "triple p (comp_world f) (\<lambda>_ d. p d)"
  by (auto simp: triple_def comp_world_def I_world split: prod.splits)

lemma triple_call: "triple p (comp_call f) (\<lambda>_ d. p d)"
  by (auto simp: triple_def comp_call_def I_world split: prod.splits)

lemma triple_report: "triple p (comp_report f) (\<lambda>_ _. True)"
  by (auto simp: triple_def comp_report_def I_report)

lemma triple_record: "triple p (comp_db (record_onchain_completion i g at)) (\<lambda>_ _. True)"
  unfolding triple_def comp_db_def record_onchain_completion_def
  using I_record by (auto simp: record_onchain_completion_def)

lemma triple_note:
  assumes "idx i"
  shows "triple (\<lambda>d. local_completion_facts (ce_sdk env) d i = Ok (Some facts))
    (comp_note \<lparr>cs_index = i, cs_epoch = epoch, cs_facts = facts, cs_signatures = sigs,
      cs_instructions = completion_instructions env epoch i facts sigs\<rparr>) (\<lambda>_ _. True)"
  using I_note [OF _ assms] by (auto simp: triple_def comp_note_def)

lemmas plain = triple_weaken [OF triple_world] triple_weaken [OF triple_call] triple_weaken [OF triple_query]

lemma keeps_submit:
  assumes "idx i"
  shows "triple (\<lambda>d. local_completion_facts (ce_sdk env) d i = Ok (Some facts))
    (submit_completion env i facts) (\<lambda>_ _. True)"
proof -
  have lifted: "triple p (elift r) (\<lambda>_ d. p d)" for p and r :: "('a, completion_error) result"
    by (rule triple_weaken [OF triple_lift [of p]]) auto
  show ?thesis
    unfolding submit_completion_def send_completion_def Let_def
    by (intro triple_bind [OF triple_world] triple_bind [OF triple_call] triple_bind [OF lifted] keeps_if
        triple_report triple_bind [OF triple_note [OF assms]] triple_bind [OF triple_record])
qed

lemma keeps_one:
  assumes "idx i"
  shows "keeps (complete_one env i)"
proof -
  have facts: "triple (\<lambda>d. True \<and> local_completion_facts (ce_sdk env) d i = Ok facts)
      (case facts of None \<Rightarrow> comp_report (\<lambda>r. r\<lparr>cr_skipped := cr_skipped r + 1\<rparr>)
       | Some facts \<Rightarrow> submit_completion env i facts) (\<lambda>_ _. True)" for facts
    by (cases facts) (auto intro: triple_report triple_weaken [OF keeps_submit [OF assms]])
  show ?thesis
    unfolding complete_one_def
    by (intro triple_bind [OF triple_call] keeps_option keeps_if triple_report triple_bind [OF triple_world]
        triple_bind [OF triple_record] triple_ret triple_bind [OF triple_query] facts) simp
qed

lemma tick_keeps:
  assumes "I s" "completion_tick env s = (r, s')"
  shows "I s'"
proof -
  let ?s = "s\<lparr>cm_report := \<lparr>cr_reconciled = 0, cr_submitted = 0, cr_insufficient = 0, cr_skipped = 0\<rparr>\<rparr>"
  let ?pending = "payouts_awaiting_onchain_completion (cm_db s)"
  have I: "I ?s" by (rule I_report [OF assms(1)])
  have "keeps (efor ?pending (complete_one env))"
    using I_pending [OF assms(1)] by (intro keeps_for keeps_one) auto
  from keeps_run [OF this I] assms(2) show ?thesis
    by (auto simp: completion_tick_def ebind_def comp_query_def split: prod.splits result.splits)
qed

end

section \<open>What is submitted\<close>

lemma record_onchain_tables:
  "withdrawal_requests (snd (record_onchain_completion i g at d)) = withdrawal_requests d"
  "payout_at (snd (record_onchain_completion i g at d)) j =
     (if j = i then map_option (\<lambda>r. r\<lparr>wp_onchain_completed_at := Some at, wp_onchain_completion_signature := g\<rparr>)
        (payout_at d j) else payout_at d j)"
  by (cases "payout_at d j"; auto simp: record_onchain_completion_def row_at_update dest: row_at_Some)+

lemma record_onchain_reads:
  "get_withdrawal (snd (record_onchain_completion i g at d)) j = get_withdrawal d j"
  "get_payout (snd (record_onchain_completion i g at d)) j = get_payout d j"
  by (simp_all add: get_withdrawal_def get_payout_def record_onchain_tables)
    (cases "payout_at d i"; simp add: row_to_payout_def)

lemma record_onchain_facts:
  "local_completion_facts sdk (snd (record_onchain_completion i g at d)) j = local_completion_facts sdk d j"
  unfolding local_completion_facts_def record_onchain_reads ..

definition locally_completed :: "withdrawal_request_row list \<Rightarrow> i64 \<Rightarrow> bool" where
  "locally_completed rows i \<longleftrightarrow> (\<exists>r \<in> set rows. wq_index r = i \<and> wq_state r = ''Completed'')"

definition completion_exact :: "'w completion_env \<Rightarrow> withdrawal_db \<Rightarrow> completion_submission \<Rightarrow> bool" where
  "completion_exact env d sb \<longleftrightarrow> locally_completed (withdrawal_requests d) (cs_index sb) \<and>
     local_completion_facts (ce_sdk env) d (cs_index sb) = Ok (Some (cs_facts sb)) \<and>
     cs_instructions sb = completion_instructions env (cs_epoch sb) (cs_index sb) (cs_facts sb) (cs_signatures sb)"

definition sent_exactly ::
  "'w completion_env \<Rightarrow> withdrawal_request_row list \<Rightarrow> completion_submission list \<Rightarrow> 'w completion_state \<Rightarrow> bool" where
  "sent_exactly env rows sent s \<longleftrightarrow> withdrawal_requests (cm_db s) = rows \<and>
     (\<exists>new. cm_sent s = sent @ new \<and> (\<forall>sb \<in> set new. completion_exact env (cm_db s) sb))"

lemma awaiting_completed:
  "i \<in> set (payouts_awaiting_onchain_completion d) \<Longrightarrow> locally_completed (withdrawal_requests d) i"
  by (auto simp: payouts_awaiting_onchain_completion_def locally_completed_def)

interpretation exactly: completion_invariant "sent_exactly env rows sent" env "locally_completed rows"
  for env :: "'w completion_env" and rows sent
proof unfold_locales
  fix s i facts epoch sigs
  assume "sent_exactly env rows sent s" "locally_completed rows i"
    "local_completion_facts (ce_sdk env) (cm_db s) i = Ok (Some facts)"
  then show "sent_exactly env rows sent (s\<lparr>cm_sent := cm_sent s @ [\<lparr>cs_index = i, cs_epoch = epoch, cs_facts = facts,
      cs_signatures = sigs, cs_instructions = completion_instructions env epoch i facts sigs\<rparr>]\<rparr>)"
    by (auto simp: sent_exactly_def completion_exact_def)
qed (auto simp: sent_exactly_def completion_exact_def record_onchain_tables record_onchain_facts dest: awaiting_completed)

section \<open>A node that reports no heights\<close>

definition no_heights :: "withdrawal_db \<Rightarrow> bool" where
  "no_heights d \<longleftrightarrow> (\<forall>i p. payout_at d i = Some p \<longrightarrow> wp_mined_height p = None)"

definition heightless :: "('w, 'sig, 'key) executor_env \<Rightarrow> bool" where
  "heightless env \<longleftrightarrow> (\<forall>h. reported_height env h \<longrightarrow> h = None)"

lemma no_heights_update:
  assumes "no_heights d" "withdrawal_payouts d' = update_where P f (withdrawal_payouts d)"
    and "\<And>r. wp_mined_height r = None \<Longrightarrow> wp_mined_height (f r) = None" "\<And>r. wp_index (f r) = wp_index r"
  shows "no_heights d'"
  using assms by (auto simp: no_heights_def row_at_update split: if_splits)

lemma no_heights_same: "withdrawal_payouts d' = withdrawal_payouts d \<Longrightarrow> no_heights d \<Longrightarrow> no_heights d'"
  by (simp add: no_heights_def)

lemma exec_no_heights:
  assumes "no_heights d" "\<And>i n b h. c = RecordConfirmations i n b h \<Longrightarrow> h = None"
  shows "no_heights (wdb_exec H c d)"
proof (cases c)
  case (CreatePayout np)
  have "no_heights (snd (create_payout np d))"
    by (rule op_cases) (use assms(1) in \<open>auto simp: create_payout_Ok no_heights_def row_at_append new_payout_row_def
        dest: create_payout_Err split: option.splits if_splits\<close>)
  with CreatePayout show ?thesis by simp
next
  case (RecordSignedPayout j b t at)
  have "no_heights (snd (record_signed_payout j b t at d))"
  proof (rule op_cases)
    fix x d' assume "record_signed_payout j b t at d = (Ok x, d')"
    then show "no_heights d'" by (auto simp: record_signed_payout_Ok intro!: no_heights_update [OF assms(1)])
  qed (use assms(1) record_signed_payout_Err in blast)
  with RecordSignedPayout show ?thesis by simp
next
  case (CompletePayout j at)
  have "no_heights (snd (complete_payout j at d))"
  proof (rule op_cases)
    fix x d' assume "complete_payout j at d = (Ok x, d')"
    then obtain p where "d' = completed_db j at p d" by (auto simp: complete_payout_Ok)
    then show "no_heights d'" by (intro no_heights_update [OF assms(1), where P = "\<lambda>r. wp_index r = j"
        and f = "\<lambda>r. r\<lparr>wp_completed_at := Some at\<rparr>"]) (simp_all add: completed_db_def)
  qed (use assms(1) complete_payout_Err in blast)
  with CompletePayout show ?thesis by simp
next
  case (ReassignPayoutQuorum j q h n u reason at)
  have "no_heights (snd (reassign_payout_quorum j q h n u reason at d))"
  proof (rule op_cases)
    fix a d' assume "reassign_payout_quorum j q h n u reason at d = (Ok a, d')"
    then show "no_heights d'" by (rule reassign_Ok) (auto intro!: no_heights_update [OF assms(1)])
  qed (use assms(1) reassign_Err in blast)
  with ReassignPayoutQuorum show ?thesis by simp
next
  case (RecordConfirmations i n b h)
  with assms show ?thesis
    by (auto simp: record_confirmations_def coalesce_def intro!: no_heights_update [OF assms(1)])
next
  case (RecordBroadcast i at)
  then show ?thesis by (auto simp: record_broadcast_def intro!: no_heights_update [OF assms(1)])
next
  case (RecordOnchainCompletion i g at)
  then show ?thesis by (auto simp: record_onchain_completion_def intro!: no_heights_update [OF assms(1)])
qed (rule no_heights_same [OF _ assms(1)], simp add: same_tables same_payouts)+

interpretation heights: executor_invariant "\<lambda>s. heightless env \<longrightarrow> no_heights (ex_db s)" env "\<lambda>_. True" "\<lambda>_. True"
  for env :: "('w, 'sig, 'key) executor_env"
proof unfold_locales
  fix s c
  assume "heightless env \<longrightarrow> no_heights (ex_db s)" "executor_call env (\<lambda>_. True) (ex_db s) c"
  then show "heightless env \<longrightarrow> no_heights (ex_db (s\<lparr>ex_db := wdb_exec (en_sha256 env) c (ex_db s)\<rparr>))"
    by (auto intro!: exec_no_heights simp: heightless_def)
qed auto

interpretation exh: inv_system ex_init "ex_step env" "\<lambda>s. heightless env \<longrightarrow> no_heights (ex_db s)"
  for env :: "('w, 'sig, 'key) executor_env"
proof unfold_locales
  fix s :: "'w ex_state"
  assume "ex_init s"
  then show "heightless env \<longrightarrow> no_heights (ex_db s)"
    by (simp add: ex_init_def no_heights_def empty_withdrawal_db_def)
next
  fix s l s'
  assume s: "heightless env \<longrightarrow> no_heights (ex_db s)" and "ex_step env s l s'"
  then show "heightless env \<longrightarrow> no_heights (ex_db s')"
  proof (cases l)
    case (Operator c)
    with \<open>ex_step env s l s'\<close> s show ?thesis by (auto simp: ex_step_def intro!: exec_no_heights)
  next
    case Tick
    with \<open>ex_step env s l s'\<close> show ?thesis using heights.tick_keeps [OF _ s] by (simp add: ex_step_def)
  next
    case (Ingest ws)
    with \<open>ex_step env s l s'\<close> show ?thesis using heights.ingest_keeps [OF s] by (simp add: ex_step_def)
  next
    case (Elsewhere w)
    with \<open>ex_step env s l s'\<close> s show ?thesis by (simp add: ex_step_def)
  qed
qed

lemma no_heights_no_facts: "no_heights d \<Longrightarrow> local_completion_facts sdk d i \<noteq> Ok (Some facts)"
  by (auto simp: local_completion_facts_def no_heights_def get_payout_def row_to_payout_def split: option.splits result.splits)

text \<open>Passes over a database without heights, as steps of the executor's system.\<close>

definition idle ::
  "('w, 'sig, 'key) executor_env \<Rightarrow> 'w ex_state \<Rightarrow> completion_submission list \<Rightarrow> 'v completion_state \<Rightarrow> bool" where
  "idle env s sent st \<longleftrightarrow> heightless env \<and> ex_reachable env (s\<lparr>ex_db := cm_db st\<rparr>) \<and> cm_sent st = sent"

lemma record_reachable:
  assumes "ex_reachable env (s\<lparr>ex_db := d\<rparr>)"
  shows "ex_reachable env (s\<lparr>ex_db := snd (record_onchain_completion i g at d)\<rparr>)"
  using assms by (rule ex.reachable_step [where l = "Operator (RecordOnchainCompletion i g at)"]) (simp add: ex_step_def)

interpretation idle: completion_invariant "idle env s sent" cenv "\<lambda>_. True"
  for env :: "('w, 'sig, 'key) executor_env" and s sent and cenv :: "'v completion_env"
proof unfold_locales
  fix st i facts epoch sigs
  assume st: "idle env s sent st" and f: "local_completion_facts (ce_sdk cenv) (cm_db st) i = Ok (Some facts)"
  from st have "no_heights (cm_db st)"
    using exh.reachable_inv [of env "s\<lparr>ex_db := cm_db st\<rparr>"] by (simp add: idle_def)
  with f have False using no_heights_no_facts by blast
  then show "idle env s sent (st\<lparr>cm_sent := cm_sent st @ [\<lparr>cs_index = i, cs_epoch = epoch, cs_facts = facts,
      cs_signatures = sigs, cs_instructions = completion_instructions cenv epoch i facts sigs\<rparr>]\<rparr>)" ..
qed (auto simp: idle_def intro: record_reachable)

end
