(* ===== verification/CompletionGuarantees.thy ===== *)
theory CompletionGuarantees
  imports CompletionLogic Signer EndToEnd WithdrawalGuarantees
begin

text \<open>
  The guarantees of the completion service: what it submits is exactly what its database says of a
  paid withdrawal, the program accepts it with a quorum, and with the node adapter the relayer
  ships nothing is ever submitted.
\<close>

section \<open>What is submitted\<close>

lemma tick_sent_exactly:
  assumes "completion_tick env s = (r, s')"
  shows "sent_exactly env (withdrawal_requests (cm_db s)) (cm_sent s) s'"
  by (rule exactly.tick_keeps [OF _ assms]) (simp add: sent_exactly_def)

lemma local_facts_Ok:
  "local_completion_facts sdk d i = Ok (Some facts) \<longleftrightarrow>
     (\<exists>w p displayed t height. get_withdrawal d i = Ok (Some w) \<and> get_payout d i = Some p \<and>
        prow_txid_hex p = Some displayed \<and> decode_exact 32 displayed = Ok t \<and> prow_mined_height p = Some height \<and>
        facts = \<lparr>cf_payout_txid = from_le (rev t), cf_payout_height = height, cf_amount = wrow_amount_atomic w,
          cf_dest_commitment = destination_commitment sdk (wrow_glc_address w)\<rparr>)"
  unfolding local_completion_facts_def
  by (cases "get_withdrawal d i"; cases "get_payout d i"; simp split: option.split result.split) blast+

text \<open>The facts of a withdrawal do not change while completions are recorded.\<close>

definition same_but_onchain :: "withdrawal_db \<Rightarrow> 'w completion_state \<Rightarrow> bool" where
  "same_but_onchain d s \<longleftrightarrow> (\<forall>sdk i. local_completion_facts sdk (cm_db s) i = local_completion_facts sdk d i)"

interpretation facts: completion_invariant "same_but_onchain d" env "\<lambda>_. True" for env :: "'w completion_env" and d
  by unfold_locales (auto simp: same_but_onchain_def record_onchain_facts)

lemma tick_submission:
  assumes "completion_tick env s = (r, s')" "sb \<in> set (cm_sent s')" "sb \<notin> set (cm_sent s)"
  shows "locally_completed (withdrawal_requests (cm_db s)) (cs_index sb)"
    "local_completion_facts (ce_sdk env) (cm_db s) (cs_index sb) = Ok (Some (cs_facts sb))"
    "cs_instructions sb = completion_instructions env (cs_epoch sb) (cs_index sb) (cs_facts sb) (cs_signatures sb)"
proof -
  have "same_but_onchain (cm_db s) s'"
    by (rule facts.tick_keeps [OF _ assms(1)]) (simp add: same_but_onchain_def)
  with tick_sent_exactly [OF assms(1)] assms(2,3)
  show "locally_completed (withdrawal_requests (cm_db s)) (cs_index sb)"
    "local_completion_facts (ce_sdk env) (cm_db s) (cs_index sb) = Ok (Some (cs_facts sb))"
    "cs_instructions sb = completion_instructions env (cs_epoch sb) (cs_index sb) (cs_facts sb) (cs_signatures sb)"
    by (auto simp: sent_exactly_def completion_exact_def same_but_onchain_def)
qed

section \<open>A submitted completion on chain\<close>

text \<open>What the program demands of the completion besides the proof.\<close>

definition completion_open :: "'x external \<Rightarrow> 'x chain \<Rightarrow> bridge_config \<Rightarrow> u64 \<Rightarrow> completion_facts \<Rightarrow> bool" where
  "completion_open ex c cfg i facts \<longleftrightarrow> \<not> cfg_paused cfg \<and> cf_payout_txid facts \<noteq> 0 \<and> 0 < cf_payout_height facts \<and>
     (\<exists>r. ch_withdrawals c i = Some r \<and> wr_status r = Pending \<and> wr_amount r = cf_amount facts \<and>
        ex_hash ex (stored_address r) = cf_dest_commitment facts)"

lemma completion_dispatched:
  assumes "distinct_discriminators (ce_sdk env)" "ce_program_id env = PROGRAM_ID"
  shows "dispatch (ce_sdk env) (map am_pubkey (si_accounts (completion_instructions env epoch i facts sigs ! 1)))
       (si_data (completion_instructions env epoch i facts sigs ! 1)) =
     Some (CompleteWithdrawal i (cf_payout_txid facts) (cf_payout_height facts) epoch)"
proof -
  let ?i = "CompleteWithdrawal i (cf_payout_txid facts) (cf_payout_height facts) epoch"
  have "completion_instructions env epoch i facts sigs ! 1 = client_build (ce_sdk env) (ce_submitter env) 0 0 ?i"
    by (simp add: completion_instructions_def build_ed25519_instruction_def assms(2))
  moreover have "wire_ok (ce_sdk env) 0 ?i" by simp
  ultimately show ?thesis
    using dispatch_agree [OF assms(1), of 0 ?i] accounts_agree [of "ce_sdk env" 0 ?i] by simp
qed

lemma locally_completed_row:
  assumes "locally_completed (withdrawal_requests d) i" "distinct (map wq_index (withdrawal_requests d))"
    and "get_withdrawal d i = Ok (Some w)"
  shows "wrow_state w = WCompleted"
proof -
  from assms(1) obtain r where r: "r \<in> set (withdrawal_requests d)" "wq_index r = i" "wq_state r = ws_as_str WCompleted"
    by (auto simp: locally_completed_def)
  from row_at_unique [OF assms(2) r(1)] r(2) have "request_at d i = Some r" by simp
  with assms(3) r(3) show ?thesis
    by (auto simp: get_withdrawal_def row_to_withdrawal_def simp del: ws_as_str.simps)
qed


section \<open>A submission is taken for a completion\<close>

lemma awaiting_row:
  assumes "i \<in> set (payouts_awaiting_onchain_completion d)"
  shows "\<exists>p. payout_at d i = Some p \<and> wp_onchain_completed_at p = None"
  using assms by (auto simp: payouts_awaiting_onchain_completion_def split: option.splits)

lemma sent_recorded:
  assumes "send_completion env i epoch facts sigs s = (Ok (), s')"
  shows "\<exists>d g at. cm_db s' = snd (record_onchain_completion i (Some g) at d)"
  using assms by (auto simp: send_completion_def Let_def ebind_Ok comp_db_def comp_report_def record_onchain_completion_def) blast

text \<open>
  Once a completion was sent, its withdrawal is no longer pending, whether the transaction is ever
  executed or not.
\<close>

theorem sent_completion_not_retried:
  assumes "submit_completion env i facts s = (Ok (), s')" "cm_sent s' \<noteq> cm_sent s"
  shows "i \<notin> set (payouts_awaiting_onchain_completion (cm_db s'))"
proof
  assume "i \<in> set (payouts_awaiting_onchain_completion (cm_db s'))"
  then obtain p where p: "payout_at (cm_db s') i = Some p" "wp_onchain_completed_at p = None"
    using awaiting_row by blast
  from assms obtain epoch sigs s1 where "send_completion env i epoch facts sigs s1 = (Ok (), s')"
    by (auto simp: submit_completion_def Let_def ebind_Ok comp_report_def comp_world_def comp_call_def elift_def
        split: if_splits prod.splits)
  from sent_recorded [OF this] p show False by (auto simp: record_onchain_tables)
qed

section \<open>The adapter the relayer ships\<close>

text \<open>The node's answers reach the executor and the signer through \<open>RealPayoutRpc\<close>.\<close>

definition adapted :: "(bytes \<Rightarrow> 'w \<Rightarrow> (json, rpc_error) result \<times> 'w) \<Rightarrow>
    bytes \<Rightarrow> 'w \<Rightarrow> (tx_status option, rpc_error) result \<times> 'w" where
  "adapted node t w = map_prod read_confirmations id (node t w)"

lemma adapted_no_height: "adapted node t w = (Ok (Some status), w') \<Longrightarrow> ts_block_height status = None"
  by (auto simp: adapted_def read_confirmations_def map_prod_def split: result.splits rpc_error.splits if_splits prod.splits)

lemma adapted_heightless: "transaction_confirmations env = adapted node \<Longrightarrow> heightless env"
  by (auto simp: heightless_def reported_height_def dest: adapted_no_height)

lemma attest_height:
  assumes "sv_transaction_confirmations env = adapted node" "attest env arm i tx_id h s = (Ok a, s')"
  shows "h = 0"
  using assms(2) unfolding attest_def assms(1)
  by (auto simp: Let_def dest!: adapted_no_height split: if_splits option.splits result.splits prod.splits)

text \<open>
  C38: With the node adapter the relayer ships, which never reports the height of a block, no
  withdrawal is recorded as completed on Solana.  In every reachable state of the executor a pass of
  the completion service submits nothing, whatever the Solana node and the co-signers answer, and
  leaves a reachable state; a signer attests only the height zero; and the program refuses every
  completion with that height.
\<close>

theorem completions_never_submitted:
  assumes "transaction_confirmations env = adapted node" "ex_reachable env s" "cm_db st = ex_db s"
    and "completion_tick cenv st = (res, st')"
  shows "cm_sent st' = cm_sent st \<and> ex_reachable env (s\<lparr>ex_db := cm_db st'\<rparr>) \<and>
    (\<forall>senv arm i tx_id h vs a vs'. sv_transaction_confirmations senv = adapted node' \<longrightarrow>
       attest senv arm i tx_id h vs = (Ok a, vs') \<longrightarrow>
       h = 0 \<and> (\<exists>e. process ex t (CompleteWithdrawal i tx_id h epoch) c = Err e))"
proof -
  have "idle env s (cm_sent st) st'"
    by (rule idle.tick_keeps [OF _ assms(4)])
      (use assms(2,3) adapted_heightless [OF assms(1)] in \<open>simp add: idle_def\<close>)
  moreover have "\<exists>e. process ex t (CompleteWithdrawal i tx_id 0 epoch) c = Err e" for i tx_id
  proof -
    have "complete_withdrawal ex t i tx_id 0 epoch c \<noteq> Ok c'" for c' by (simp add: complete_withdrawal_Ok)
    then show ?thesis by (simp, metis result.exhaust)
  qed
  ultimately show ?thesis using attest_height by (fastforce simp: idle_def)
qed

end
