(* ===== verification/CompletionDemo.thy ===== *)
theory CompletionDemo
  imports CompletionGuarantees SignerDemo EndToEndDemo ExecutorDemo
begin

text \<open>
  The paid withdrawal of the concrete validator on the concrete chain: its completion is submitted
  and accepted; and an executor behind the shipped adapter, whose paid withdrawal is never completed.
\<close>

section \<open>A completion\<close>

definition comp_sdk :: sdk where
  "comp_sdk = demo_sdk\<lparr>sk_sha256 := \<lambda>bs. if length bs \<le> 2 then from_le bs else sk_sha256 demo_sdk bs\<rparr>"

definition comp_env :: "unit completion_env" where
  "comp_env = \<lparr>ce_sdk = comp_sdk, ce_ed25519_program = 0xED, ce_program_id = PROGRAM_ID, ce_submitter = 77,
     ce_protocol_version = PROTOCOL_VERSION, ce_epoch = \<lambda>w. (seeded 0 20, w),
     ce_get_account = \<lambda>k w. (Ok (Some (if k = fst (validator_set_pda comp_sdk PROGRAM_ID)
        then replicate 8 0 @ borsh_validator_set demo_vset else [])), w),
     ce_get_latest_blockhash = \<lambda>w. (Ok 3, w), ce_send_transaction = \<lambda>t w. (Ok [83], w),
     ce_collect = \<lambda>e i t h m w. (demo_sigs, w), ce_now_unix = \<lambda>w. (20, w)\<rparr>"

definition comp_start :: "unit completion_state" where
  "comp_start = \<lparr>cm_db = own_withdrawals, cm_world = (), cm_report = \<lparr>cr_reconciled = 0, cr_submitted = 0,
     cr_insufficient = 0, cr_skipped = 0\<rparr>, cm_sent = []\<rparr>"

definition comp_facts :: completion_facts where
  "comp_facts = \<lparr>cf_payout_txid = 0xBB, cf_payout_height = 77, cf_amount = 200, cf_dest_commitment = from_le [71, 49]\<rparr>"

definition comp_submission :: completion_submission where
  "comp_submission = \<lparr>cs_index = 0, cs_epoch = 0, cs_facts = comp_facts, cs_signatures = demo_sigs,
     cs_instructions = completion_instructions comp_env 0 0 comp_facts demo_sigs\<rparr>"

lemma comp_discriminators: "distinct_discriminators comp_sdk"
  unfolding distinct_discriminators_def handlers_def anchor_discriminator_def comp_sdk_def demo_sdk_def
  by (simp add: ascii_def le_bytes_def upt_rec)

lemma comp_pdas: "fst (withdrawal_pda comp_sdk PROGRAM_ID 0) \<noteq> fst (validator_set_pda comp_sdk PROGRAM_ID)"
  unfolding withdrawal_pda_def validator_set_pda_def comp_sdk_def demo_sdk_def
  by code_simp

lemma comp_facts: "local_completion_facts comp_sdk own_withdrawals 0 = Ok (Some comp_facts)"
proof -
  have "decode_exact 32 (hex_encode (rev (le_bytes (0xBB :: bytes32)))) = Ok (rev (le_bytes (0xBB :: bytes32)))"
    using decode_exact_encode [of "rev (le_bytes (0xBB :: bytes32))"] by simp
  then show ?thesis
    unfolding local_facts_Ok
    by (simp add: get_withdrawal_def own_withdrawals_def own_request_def row_to_withdrawal_def ws_parse_def
        get_payout_def own_payout_def row_to_payout_def comp_facts_def from_le_le_bytes destination_commitment_def comp_sdk_def)
qed

lemma comp_call_ok: "f (cm_world s) = (Ok x, w) \<Longrightarrow> comp_call f s = (Ok x, s\<lparr>cm_world := w\<rparr>)"
  using retry_once [of f "cm_world s" "Ok x" w solana_is_retriable COMPLETION_RETRY_ATTEMPTS]
  by (simp add: comp_call_def solana_call_with_retry_def COMPLETION_RETRY_ATTEMPTS_def)

lemma comp_sent: "cm_sent (snd (completion_tick comp_env comp_start)) = [comp_submission]"
proof -
  have pending: "payouts_awaiting_onchain_completion own_withdrawals = [0]"
    by (simp add: payouts_awaiting_onchain_completion_def own_withdrawals_def own_request_def own_payout_def order_by_def)
  have quorum: "is_ok (count_unique_threshold_signers demo_sigs [1, 2, 3] 2)"
    by (simp add: count_unique_threshold_signers_def demo_sigs_def)
  show ?thesis
    by (simp add: completion_tick_def comp_start_def ebind_def comp_query_def pending complete_one_def comp_env_def
        comp_call_ok comp_pdas comp_world_def own_view_fresh comp_facts submit_completion_def send_completion_def Let_def elift_def
        demo_vset_account quorum comp_note_def comp_db_def record_onchain_completion_def comp_report_def eret_def
        get_at_def comp_submission_def seeded_def)
qed


section \<open>Behind the shipped adapter\<close>

definition confirmed_node :: "bytes \<Rightarrow> unit \<Rightarrow> (json, rpc_error) result \<times> unit" where
  "confirmed_node t w = (Ok (JObj [(''confirmations'', JInt 6)]), w)"

definition adapted_env :: "(unit, bytes, bytes33) executor_env" where
  "adapted_env = (paying_env sample_partials)\<lparr>transaction_confirmations := adapted confirmed_node\<rparr>"

lemma adapted_completes:
  "\<exists>r. request_at (ex_db (snd (tick adapted_env (snd (tick adapted_env demo_ingested))))) 5 = Some r \<and>
     wq_state r = ws_as_str WCompleted"
  by (simp add: adapted_env_def tick_eval sign_def verify_and_load_signable_payout_def input_rows_def
      change_hash160_of_def payout_commitment_def is_fresh_at_def seeded_def MAX_VIEW_STALENESS_def
      saturating_sub_i64_def demo_parse sample_assemble [unfolded sample_vault2_def] partials_length
      record_assembled_def demo_txid verify_signing_preserved_outputs_def record_signed_payout_def
      set_request_state_def first_broadcast_def rebroadcast_def row_to_payout_def safe_to_broadcast_def
      record_broadcast_def reconcile_broadcast_def orphan_def adapted_def confirmed_node_def read_confirmations_def
      settle_confirmations_def record_confirmations_def complete_payout_def)

theorem completions_never_submitted_witness:
  "\<exists>r res st'. completion_tick comp_env
       (comp_start\<lparr>cm_db := ex_db (snd (tick adapted_env (snd (tick adapted_env demo_ingested))))\<rparr>) = (res, st') \<and>
     request_at (cm_db st') 5 = Some r \<and> wq_state r = ws_as_str WCompleted \<and> cm_sent st' = []"
proof -
  let ?s = "snd (tick adapted_env (snd (tick adapted_env demo_ingested)))"
  let ?st = "comp_start\<lparr>cm_db := ex_db ?s\<rparr>"
  obtain res st' where run: "completion_tick comp_env ?st = (res, st')" by fastforce
  have node: "transaction_confirmations adapted_env = adapted confirmed_node" by (simp add: adapted_env_def)
  have reach: "ex_reachable adapted_env ?s" by (intro tick_reachable demo_reachable_ingested)
  have sent: "cm_sent st' = cm_sent ?st"
    by (rule completions_never_submitted [OF node reach _ run, where node' = confirmed_node and ex = demo_ex and t = "demo_tx 77 7 []"
        and epoch = 0 and c = demo4, THEN conjunct1]) simp
  obtain r where r: "request_at (ex_db ?s) 5 = Some r" "wq_state r = ws_as_str WCompleted"
    using adapted_completes by blast
  have "withdrawal_requests (cm_db st') = withdrawal_requests (ex_db ?s)"
    using tick_sent_exactly [OF run] by (simp add: sent_exactly_def)
  with r have "request_at (cm_db st') 5 = Some r" by simp
  moreover have "cm_sent st' = []" using sent by (simp add: comp_start_def)
  ultimately show ?thesis using r(2) run by blast
qed

end
