(* ===== verification/Auditor.thy ===== *)
theory Auditor
  imports DepositSafety ExecutorSafety
begin

text \<open>
  The offline auditor (\<open>ops/audit.rs\<close>) and the solvency figures (\<open>ops/solvency.rs\<close>): what they read
  of the database and what they report.  The output of SQLite's own check is a parameter.
\<close>

section \<open>Findings\<close>

datatype finding =
    DatabaseCorrupt bytes
  | ClaimSelfInconsistent i64
  | ClaimRecomputeMismatch i64 string
  | PayoutSelfInconsistent i64
  | PayoutRecomputeMismatch i64
  | PayoutInputsMissing i64
  | PayoutChangeAddressUndecodable i64

record audit_report =
  ar_integrity_check :: bytes
  ar_claims_checked :: nat
  ar_payouts_checked :: nat
  ar_findings :: "finding list"

definition is_clean :: "audit_report \<Rightarrow> bool" where
  "is_clean r \<longleftrightarrow> ar_findings r = []"

section \<open>One claim\<close>

definition AUDIT_FIELDS :: "(nat \<times> nat \<times> string) list" where
  "AUDIT_FIELDS =
     [(0, 16, ''domain tag''), (16, 17, ''protocol version''), (17, 49, ''program id''), (49, 57, ''validator epoch''),
      (57, 89, ''txid''), (89, 93, ''vout''), (93, 101, ''amount''), (101, 133, ''recipient''), (133, 165, ''wrapped mint'')]"

definition first_differing_claim_field :: "bytes \<Rightarrow> bytes \<Rightarrow> string" where
  "first_differing_claim_field recomputed stored =
     (case find (\<lambda>(from, to, name). slice_get recomputed from to \<noteq> slice_get stored from to) AUDIT_FIELDS of
        Some (from, to, name) \<Rightarrow> name
      | None \<Rightarrow> ''length or trailing bytes'')"

definition check_claim :: "sha256 \<Rightarrow> stored_claim \<Rightarrow> finding option" where
  "check_claim sha256 c =
     (if sha256 (st_canonical_message c) \<noteq> st_message_hash c then Some (ClaimSelfInconsistent (st_deposit_id c))
      else let recomputed = deposit_claim_message (st_protocol_version c) (st_program_id c) (st_validator_epoch c)
             (st_txid c) (ucast (st_vout c)) (st_amount_atomic c) (st_recipient c) (st_wrapped_mint c) in
      if recomputed \<noteq> st_canonical_message c
        then Some (ClaimRecomputeMismatch (st_deposit_id c) (first_differing_claim_field recomputed (st_canonical_message c)))
      else None)"

section \<open>One payout\<close>

record stored_payout_intent =
  sti_withdrawal_index :: i64
  sti_commitment_hash :: bytes32
  sti_intent_bytes :: bytes
  sti_vault_script_hash :: bytes20
  sti_quorum_attempt :: u32
  sti_quorum_indices :: bytes
  sti_fee_atomic :: u64
  sti_payout_atomic :: u64
  sti_change_atomic :: u64
  sti_change_address :: "bytes option"
  sti_protocol_version :: u8
  sti_dest_hash160 :: bytes20
  sti_withdrawal_state :: string

text \<open>A column that is null where a value is read is an error of the whole query.\<close>

definition row_to_intent ::
  "withdrawal_payout_row \<times> withdrawal_request_row \<Rightarrow> (stored_payout_intent, db_error) result" where
  "row_to_intent = (\<lambda>(p, w).
     and_then (ok_or (Sqlite (InvalidColumn ''vault_script_hash'')) (wp_vault_script_hash p)) (\<lambda>vault_script_hash.
     and_then (ok_or (Sqlite (InvalidColumn ''quorum_indices'')) (wp_quorum_indices p)) (\<lambda>quorum_indices.
     Ok \<lparr>sti_withdrawal_index = wp_index p, sti_commitment_hash = wp_commitment_hash p, sti_intent_bytes = wp_intent_bytes p,
       sti_vault_script_hash = vault_script_hash, sti_quorum_attempt = wp_quorum_attempt p, sti_quorum_indices = quorum_indices,
       sti_fee_atomic = wp_fee_atomic p, sti_payout_atomic = wp_payout_atomic p, sti_change_atomic = wp_change_atomic p,
       sti_change_address = wp_change_address p, sti_protocol_version = wq_protocol_version w,
       sti_dest_hash160 = wq_hash160 w, sti_withdrawal_state = wq_state w\<rparr>)))"

definition all_payout_intents :: "withdrawal_db \<Rightarrow> (stored_payout_intent list, db_error) result" where
  "all_payout_intents d = all_ok row_to_intent (concat (map (\<lambda>p.
     map (\<lambda>w. (p, w)) (filter (\<lambda>w. wq_index w = wp_index p) (withdrawal_requests d)))
     (order_by (\<lambda>a b. wp_index a <s wp_index b) (withdrawal_payouts d))))"

definition check_payout :: "sha256 \<Rightarrow> stored_payout_intent \<Rightarrow> vault_utxo list \<Rightarrow> finding option" where
  "check_payout sha256 p inputs =
     (if payout_commitment sha256 (sti_intent_bytes p) \<noteq> sti_commitment_hash p
        then Some (PayoutSelfInconsistent (sti_withdrawal_index p))
      else if inputs = [] then Some (PayoutInputsMissing (sti_withdrawal_index p))
      else case (case sti_change_address p of None \<Rightarrow> Ok 0 | Some a \<Rightarrow> and_then (base58check_decode sha256 a) (\<lambda>(_, h). Ok h)) of
        Err _ \<Rightarrow> Some (PayoutChangeAddressUndecodable (sti_withdrawal_index p))
      | Ok change_hash160 \<Rightarrow>
        if canonical_payout_intent (sti_protocol_version p) (sti_withdrawal_index p) (sti_vault_script_hash p)
             (sti_dest_hash160 p) (sti_payout_atomic p) (sti_fee_atomic p) (sti_change_atomic p) change_hash160
             (sti_quorum_attempt p) (sti_quorum_indices p) inputs \<noteq> sti_intent_bytes p
          then Some (PayoutRecomputeMismatch (sti_withdrawal_index p))
        else None)"

section \<open>The whole database\<close>

definition check_integrity :: "bytes \<Rightarrow> finding option" where
  "check_integrity output = (if output = ascii ''ok'' then None else Some (DatabaseCorrupt output))"

definition audit :: "sha256 \<Rightarrow> (bytes, db_error) result \<Rightarrow> deposit_db \<Rightarrow> withdrawal_db \<Rightarrow> (audit_report, db_error) result" where
  "audit sha256 integrity_check deposits withdrawals =
     and_then integrity_check (\<lambda>output.
     let claims = all_claim_artifacts deposits in
     and_then (all_payout_intents withdrawals) (\<lambda>payouts.
     Ok \<lparr>ar_integrity_check = output, ar_claims_checked = length claims, ar_payouts_checked = length payouts,
       ar_findings = List.map_filter id [check_integrity output] @ List.map_filter (check_claim sha256) claims @
         List.map_filter (\<lambda>p. check_payout sha256 p (payout_inputs withdrawals (sti_withdrawal_index p))) payouts\<rparr>))"

section \<open>Solvency\<close>

record solvency_snapshot =
  sn_wrapped_supply :: u64
  sn_confirmed_deposits :: u64
  sn_completed_payouts :: u64
  sn_vault_fees_paid :: u64
  sn_vault_balance :: "u64 option"

definition saturating_sub_u64 :: "u64 \<Rightarrow> u64 \<Rightarrow> u64" where
  "saturating_sub_u64 a b = (if b \<le> a then a - b else 0)"

definition backing_bound :: "solvency_snapshot \<Rightarrow> u64" where
  "backing_bound s = saturating_sub_u64 (sn_confirmed_deposits s) (sn_completed_payouts s)"

definition invariant_holds :: "solvency_snapshot \<Rightarrow> bool" where
  "invariant_holds s \<longleftrightarrow> sn_wrapped_supply s \<le> backing_bound s"

definition breach_atomic :: "solvency_snapshot \<Rightarrow> u64" where
  "breach_atomic s = saturating_sub_u64 (sn_wrapped_supply s) (backing_bound s)"

definition fee_drift_atomic :: "solvency_snapshot \<Rightarrow> u64 option" where
  "fee_drift_atomic s = map_option (\<lambda>bal. saturating_sub_u64 (backing_bound s) bal) (sn_vault_balance s)"

definition drift_is_explained_by_fees :: "solvency_snapshot \<Rightarrow> bool option" where
  "drift_is_explained_by_fees s = map_option (\<lambda>d. d \<le> sn_vault_fees_paid s) (fee_drift_atomic s)"

definition unexplained_drift_atomic :: "solvency_snapshot \<Rightarrow> u64 option" where
  "unexplained_drift_atomic s = map_option (\<lambda>d. saturating_sub_u64 d (sn_vault_fees_paid s)) (fee_drift_atomic s)"

definition snapshot_from_db ::
  "deposit_db \<Rightarrow> withdrawal_db \<Rightarrow> u64 \<Rightarrow> u64 option \<Rightarrow> (solvency_snapshot, db_error) result" where
  "snapshot_from_db deposits withdrawals wrapped_supply vault_balance =
     and_then (minted_deposit_total deposits) (\<lambda>confirmed_deposits.
     and_then (completed_payout_total withdrawals) (\<lambda>completed_payouts.
     and_then (vault_fees_paid_total withdrawals) (\<lambda>vault_fees_paid.
     Ok \<lparr>sn_wrapped_supply = wrapped_supply, sn_confirmed_deposits = confirmed_deposits,
       sn_completed_payouts = completed_payouts, sn_vault_fees_paid = vault_fees_paid, sn_vault_balance = vault_balance\<rparr>)))"

lemma breach_iff: "breach_atomic s = 0 \<longleftrightarrow> invariant_holds s"
  by (auto simp: breach_atomic_def invariant_holds_def saturating_sub_u64_def)

lemma unexplained_iff: "unexplained_drift_atomic s = Some 0 \<longleftrightarrow> drift_is_explained_by_fees s = Some True"
  by (auto simp: unexplained_drift_atomic_def drift_is_explained_by_fees_def saturating_sub_u64_def)

section \<open>The auditor and the signing guards\<close>

text \<open>The stored claim the auditor reads for a deposit and its artifact.\<close>

definition stored_claim_of :: "deposit_candidate_row \<Rightarrow> claim_artifact \<Rightarrow> stored_claim" where
  "stored_claim_of r a = \<lparr>st_deposit_id = cd_id r, st_txid = cd_txid r, st_vout = cd_vout r,
        st_amount_atomic = cd_amount_atomic r, st_recipient = cd_recipient r, st_state = cd_state r,
        st_canonical_message = ca_canonical_message a, st_message_hash = ca_message_hash a,
        st_protocol_version = ca_protocol_version a, st_validator_epoch = ca_validator_epoch a,
        st_program_id = ca_program_id a, st_wrapped_mint = ca_wrapped_mint a\<rparr>"

lemma check_claim_of: "check_claim H (stored_claim_of r a) = None \<longleftrightarrow> claim_consistent H r a"
  by (auto simp: check_claim_def stored_claim_of_def claim_consistent_def recomputed_message_def Let_def)

lemma audited_claims:
  assumes "deposit_inv d"
  shows "set (all_claim_artifacts d) =
    {stored_claim_of r a | r a i. deposit_at d i = Some r \<and> artifact_at d i = Some a}"
proof -
  have u: "distinct (map cd_id (deposit_candidates d))" "distinct (map ca_deposit_id (claim_artifacts d))"
    using assms by (simp_all add: deposit_inv_def)
  have "set (all_claim_artifacts d) = {stored_claim_of r a | r a.
      r \<in> set (deposit_candidates d) \<and> a \<in> set (claim_artifacts d) \<and> ca_deposit_id a = cd_id r}"
    by (auto simp: all_claim_artifacts_def stored_claim_of_def)
  also have "\<dots> = {stored_claim_of r a | r a i. deposit_at d i = Some r \<and> artifact_at d i = Some a}"
    using row_at_unique [OF u(1)] row_at_unique [OF u(2)] by (fastforce dest: row_at_Some)
  finally show ?thesis .
qed

lemma guard_loads:
  "(\<exists>c. verify_and_load_signable_message H i at d = (Ok c, d)) \<longleftrightarrow>
     (\<exists>r a. deposit_at d i = Some r \<and> artifact_at d i = Some a \<and> claim_consistent H r a)"
  by (cases rule: verify_cases [where d = d and i = i and H = H and at = at]) auto

lemma audited_intent:
  assumes "all_payout_intents d = Ok ps" "q \<in> set ps" "wdb_inv d"
  shows "\<exists>w p. request_at d (sti_withdrawal_index q) = Some w \<and> payout_at d (sti_withdrawal_index q) = Some p \<and>
    row_to_intent (p, w) = Ok q"
proof -
  have u: "distinct (map wq_index (withdrawal_requests d))" "distinct (map wp_index (withdrawal_payouts d))"
    using assms(3) by (simp_all add: wdb_inv_def requests_inv_def payouts_inv_def)
  from all_ok_mem [OF assms(1) [unfolded all_payout_intents_def] assms(2)] obtain p w where
    pw: "p \<in> set (withdrawal_payouts d)" "w \<in> set (withdrawal_requests d)" "wq_index w = wp_index p" "row_to_intent (p, w) = Ok q"
    by auto
  then have "sti_withdrawal_index q = wp_index p" by (auto simp: row_to_intent_def)
  with pw row_at_unique [OF u(1) pw(2)] row_at_unique [OF u(2) pw(1)] show ?thesis by auto
qed

text \<open>The intent does not depend on the columns of the inputs that the tables may lack.\<close>

lemma check_committed_intent:
  assumes "check_committed d i cs = Ok ins"
  shows "map (\<lambda>u. (vu_txid u, vu_vout u, vu_amount_atomic u)) ins = map (\<lambda>c. (pi_txid c, pi_vout c, pi_amount_atomic c)) cs"
  using assms by (induction cs arbitrary: ins) (auto split: option.splits if_splits)

lemma same_intent:
  assumes "map (\<lambda>u. (vu_txid u, vu_vout u, vu_amount_atomic u)) us = map (\<lambda>u. (vu_txid u, vu_vout u, vu_amount_atomic u)) us'"
  shows "canonical_payout_intent v i vh dh pay fee ch chh qa q us = canonical_payout_intent v i vh dh pay fee ch chh qa q us'"
proof -
  have "map intent_input us = map intent_input us'"
    using assms by (auto simp: list_eq_iff_nth_eq intent_input_def)
  then show ?thesis using map_eq_imp_length_eq [OF assms] by (simp add: canonical_payout_intent_def)
qed

lemma guarded_payout_clean:
  assumes "verify_and_load_signable_payout H i at d = (Ok sp, d')" "wdb_inv d"
    and "all_payout_intents d = Ok ps" "q \<in> set ps" "sti_withdrawal_index q = i"
  shows "check_payout H q (payout_inputs d i) = None"
proof -
  obtain w p where q: "request_at d i = Some w" "payout_at d i = Some p" "row_to_intent (p, w) = Ok q"
    using audited_intent [OF assms(3,4,2)] assms(5) by auto
  from assms(1) show ?thesis
  proof (rule verify_Ok)
    fix w' p' change
    assume g: "request_at d i = Some w'" "payout_at d i = Some p'"
      "wp_vault_script_hash p' = Some (sp_vault_script_hash sp)" "wp_quorum_indices p' = Some (sp_quorum_indices sp)"
      "input_rows d i \<noteq> []" "check_committed d i (input_rows d i) = Ok (sp_inputs sp)"
      "change_hash160_of H i p' = Ok change"
      "sp_intent_bytes sp = canonical_payout_intent (wq_protocol_version w') i (sp_vault_script_hash sp)
       (wq_hash160 w') (wp_payout_atomic p') (wp_fee_atomic p') (wp_change_atomic p') change
       (wp_quorum_attempt p') (sp_quorum_indices sp) (sp_inputs sp)"
      "payout_commitment H (wp_intent_bytes p') = wp_commitment_hash p'" "sp_intent_bytes sp = wp_intent_bytes p'"
    have eq: "w' = w" "p' = p" "wp_index p = i" using q g row_at_Some [OF q(2)] by simp_all
    have ins: "canonical_payout_intent v i vh dh pay fee ch chh qa qi (payout_inputs d i) =
        canonical_payout_intent v i vh dh pay fee ch chh qa qi (sp_inputs sp)" for v vh dh pay fee ch chh qa qi
      by (rule same_intent) (simp add: check_committed_intent [OF g(6)] payout_inputs_def Let_def comp_def)
    have "payout_inputs d i \<noteq> []" using g(5) by (simp add: payout_inputs_def)
    then show ?thesis
      using q(3) g ins eq(3) unfolding eq(1,2)
      by (auto simp: check_payout_def row_to_intent_def change_hash160_of_def split: option.splits result.splits)
  qed
qed

text \<open>
  C39: The auditor agrees with the signing guards.  It finds nothing wrong with any frozen claim
  exactly when the guard of the mint path accepts every frozen claim; and it finds nothing wrong
  with a payout that the guard of the payout path accepts.
\<close>

theorem audit_agrees_with_guards:
  assumes "deposit_inv d" "wdb_inv e" "all_payout_intents e = Ok ps"
  shows "((\<forall>c \<in> set (all_claim_artifacts d). check_claim H c = None) \<longleftrightarrow>
      (\<forall>i. artifact_at d i \<noteq> None \<longrightarrow> (\<exists>c. verify_and_load_signable_message H i at d = (Ok c, d)))) \<and>
    (\<forall>p \<in> set ps. (\<exists>sp. verify_and_load_signable_payout H (sti_withdrawal_index p) at e = (Ok sp, e)) \<longrightarrow>
      check_payout H p (payout_inputs e (sti_withdrawal_index p)) = None)"
proof -
  have known: "\<exists>r. deposit_at d i = Some r" if "artifact_at d i = Some a" for i a
    using that assms(1) row_at_unique [of cd_id "deposit_candidates d"]
    by (fastforce simp: deposit_inv_def dest: row_at_Some)
  have "(\<forall>c \<in> set (all_claim_artifacts d). check_claim H c = None) \<longleftrightarrow>
      (\<forall>i r a. deposit_at d i = Some r \<longrightarrow> artifact_at d i = Some a \<longrightarrow> claim_consistent H r a)"
    (is "_ \<longleftrightarrow> ?ok")
  proof
    assume "\<forall>c \<in> set (all_claim_artifacts d). check_claim H c = None"
    then show ?ok
      unfolding audited_claims [OF assms(1)] by (intro allI impI check_claim_of [THEN iffD1]) (erule bspec, auto)
  qed (auto simp: audited_claims [OF assms(1)] check_claim_of)
  also have "\<dots> \<longleftrightarrow> (\<forall>i. artifact_at d i \<noteq> None \<longrightarrow> (\<exists>c. verify_and_load_signable_message H i at d = (Ok c, d)))"
    unfolding guard_loads using known by fastforce
  finally show ?thesis using guarded_payout_clean [OF _ assms(2,3)] by blast
qed

section \<open>Where the auditor differs\<close>

text \<open>
  The table of fields lacks the byte of the action, so a field behind it is named after its
  neighbour: two claims that differ in the last byte of the transaction id alone differ in the
  output index, for the auditor.
\<close>

theorem audit_names_wrong_field:
  "first_differing_claim_field (deposit_claim_message 1 2 3 0 5 6 7 8) (deposit_claim_message 1 2 3 (2 ^ 248) 5 6 7 8) = ''vout''"
  by (simp add: first_differing_claim_field_def AUDIT_FIELDS_def message_layouts slice_get_def CLAIM_DOMAIN_TAG_def ascii_def le_bytes_def upt_rec)

text \<open>The amount that was burned is not read at all, while the guard compares it with the payout.\<close>

theorem audit_ignores_burned_amount: "row_to_intent (p, w\<lparr>wq_amount_atomic := amount\<rparr>) = row_to_intent (p, w)"
  by (simp add: row_to_intent_def)

end
