(* ===== verification/AuditorDemo.thy ===== *)
theory AuditorDemo
  imports Auditor SignerDemo
begin

text \<open>The concrete validator's database, audited.\<close>

theorem audit_agrees_with_guards_witness:
  "all_claim_artifacts own_deposits \<noteq> [] \<and>
   list_all (\<lambda>c. check_claim (ex_hash demo_ex) c = None) (all_claim_artifacts own_deposits) \<and>
   (\<exists>p. all_payout_intents own_withdrawals = Ok [p] \<and> sti_withdrawal_index p = 0)"
proof -
  have inv: "deposit_inv own_deposits" "wdb_inv own_withdrawals"
    using own_init by (simp_all add: sv_init_def own_service_def)
  have "\<exists>p. all_payout_intents own_withdrawals = Ok [p] \<and> sti_withdrawal_index p = 0"
    by (simp add: all_payout_intents_def own_withdrawals_def own_request_def own_payout_def order_by_def
        all_ok_def row_to_intent_def empty_withdrawal_db_def)
  then obtain p where p: "all_payout_intents own_withdrawals = Ok [p]" "sti_withdrawal_index p = 0" by blast
  have d: "deposit_at own_deposits 1 = Some own_deposit"
    and a: "artifact_at own_deposits i = (if i = 1 then Some own_artifact else None)" for i
    by (auto simp: own_deposits_def own_deposit_def own_artifact_def empty_deposit_db_def)
  have "claim_consistent (ex_hash demo_ex) own_deposit own_artifact"
    by (simp add: claim_consistent_def recomputed_message_def own_deposit_def own_artifact_def demo_claim_msg_def)
  then have "\<forall>i. artifact_at own_deposits i \<noteq> None \<longrightarrow>
      (\<exists>c. verify_and_load_signable_message (ex_hash demo_ex) i 20 own_deposits = (Ok c, own_deposits))"
    unfolding guard_loads using d a by auto
  with audit_agrees_with_guards [OF inv p(1), of "ex_hash demo_ex" 20]
  have "\<forall>c \<in> set (all_claim_artifacts own_deposits). check_claim (ex_hash demo_ex) c = None" by blast
  moreover have "stored_claim_of own_deposit own_artifact \<in> set (all_claim_artifacts own_deposits)"
    unfolding audited_claims [OF inv(1)] using d a [of 1] by auto
  ultimately show ?thesis using p unfolding list_all_iff by auto
qed

end
