(* ===== verification/Startup.thy ===== *)
theory Startup
  imports Federation Completion
begin

text \<open>
  What a process establishes before and while it works: the validated Solana configuration
  (\<open>solana/config.rs\<close>), the observation of the validator epoch (\<open>solana/epoch.rs\<close>) and the peers the
  collector is built with (\<open>p2p/identity.rs\<close>).  Parsing a base58 key is a parameter.
\<close>

section \<open>Configuration\<close>

datatype solana_config_error =
    ConfigEmpty string
  | ConfigInvalidPubkey string bytes
  | ConfigInvalidCommitment bytes

record raw_solana_config =
  rsc_rpc_url :: bytes
  rsc_program_id :: bytes
  rsc_submitter_keypair_path :: bytes
  rsc_commitment :: bytes
  rsc_poll_interval_ms :: u64

record solana_config =
  slc_rpc_url :: bytes
  slc_program_id :: pubkey
  slc_submitter_keypair_path :: bytes
  slc_commitment :: commitment_level
  slc_poll_interval_ms :: u64

definition parse_commitment :: "bytes \<Rightarrow> (commitment_level, solana_config_error) result" where
  "parse_commitment s =
     (if s = ascii ''processed'' then Ok Processed
      else if s = ascii ''confirmed'' then Ok Confirmed
      else if s = ascii ''finalized'' then Ok Finalized
      else Err (ConfigInvalidCommitment s))"

definition validate_solana_config ::
  "(bytes \<Rightarrow> (pubkey, bytes) result) \<Rightarrow> raw_solana_config \<Rightarrow> (solana_config, solana_config_error) result" where
  "validate_solana_config parse_pk raw =
     (if rsc_rpc_url raw = [] then Err (ConfigEmpty ''rpc_url'')
      else and_then (map_err (ConfigInvalidPubkey ''program_id'') (parse_pk (rsc_program_id raw))) (\<lambda>program_id.
      and_then (parse_commitment (rsc_commitment raw)) (\<lambda>commitment.
      Ok \<lparr>slc_rpc_url = rsc_rpc_url raw, slc_program_id = program_id,
        slc_submitter_keypair_path = rsc_submitter_keypair_path raw, slc_commitment = commitment,
        slc_poll_interval_ms = rsc_poll_interval_ms raw\<rparr>)))"

section \<open>The epoch\<close>

datatype observe_error = ObserveRpc solana_rpc_error | ObserveMissing

definition observe_epoch ::
  "sdk \<Rightarrow> (pubkey \<Rightarrow> 'w \<Rightarrow> (bytes option, solana_rpc_error) result \<times> 'w) \<Rightarrow> pubkey \<Rightarrow> 'w \<Rightarrow> (u64, observe_error) result \<times> 'w" where
  "observe_epoch sdk fetch program_id w =
     (case fetch (fst (validator_set_pda sdk program_id)) w of (r, w) \<Rightarrow>
       (and_then (map_err ObserveRpc r) (\<lambda>account.
        and_then (ok_or ObserveMissing account) (\<lambda>data.
        and_then (map_err ObserveRpc (decode_validator_set data)) (\<lambda>snapshot. Ok (vss_epoch snapshot)))), w))"

text \<open>One round of the refresher, after its sleep.\<close>

definition refresh_epoch ::
  "sdk \<Rightarrow> (pubkey \<Rightarrow> 'w \<Rightarrow> (bytes option, solana_rpc_error) result \<times> 'w) \<Rightarrow> pubkey \<Rightarrow> ('w \<Rightarrow> i64 \<times> 'w) \<Rightarrow>
     epoch_observation \<times> 'w \<Rightarrow> epoch_observation \<times> 'w" where
  "refresh_epoch sdk fetch program_id clock = (\<lambda>(obs, w).
     case observe_epoch sdk fetch program_id w of
       (Ok epoch, w) \<Rightarrow> (case clock w of (now, w) \<Rightarrow> (record_epoch epoch now obs, w))
     | (Err e, w) \<Rightarrow> (obs, w))"

lemma observed_epoch:
  assumes "fetch (fst (validator_set_pda sdk p)) w = (Ok (Some (disc @ borsh_validator_set v @ rest)), w')"
    and "length disc = 8" and valid: "valid_federation (vs_validators v) (vs_threshold v)"
  shows "fst (observe_epoch sdk fetch p w) = Ok (vs_epoch v)"
proof -
  from valid have "length (vs_validators v) < 2 ^ 32" by (simp add: valid_federation_def MAX_VALIDATORS_def)
  then show ?thesis using assms decode_validator_set_exact [of disc v rest] by (simp add: observe_epoch_def)
qed

text \<open>A node that can not read the chain keeps its last observation and goes stale.\<close>

lemma refresh_unread:
  assumes "\<And>w. \<exists>e. fst (observe_epoch sdk fetch p w) = Err e"
  shows "fst ((refresh_epoch sdk fetch p clock ^^ n) (obs, w)) = obs"
proof (induction n)
  case (Suc n)
  obtain w' where "(refresh_epoch sdk fetch p clock ^^ n) (obs, w) = (obs, w')" using Suc by (metis prod.collapse)
  moreover obtain e w'' where "observe_epoch sdk fetch p w' = (Err e, w'')" using assms by (metis prod.collapse)
  ultimately show ?case by (simp add: refresh_epoch_def)
qed simp

lemma old_observation_stale:
  assumes "0 \<le> sint (eo_observed_at obs)" "sint (eo_observed_at obs) + 60 < sint now"
  shows "\<not> is_fresh_at obs now"
proof -
  have "sint now < 2 ^ 63" using sint_lt [of now] by simp
  then show ?thesis using assms
    by (simp add: is_fresh_at_def Let_def word_sle_eq MAX_VIEW_STALENESS_def sint_saturating_sub_i64 min_def max_def)
qed

lemma unread_chain_goes_stale:
  assumes "\<And>w. \<exists>e. fst (observe_epoch sdk fetch p w) = Err e"
    and "0 \<le> sint (eo_observed_at obs)" "sint (eo_observed_at obs) + 60 < sint now"
  shows "\<not> is_fresh_at (fst ((refresh_epoch sdk fetch p clock ^^ n) (obs, w))) now"
  using refresh_unread [OF assms(1)] old_observation_stale [OF assms(2,3)] by simp

section \<open>The peers of the collector\<close>

definition collector_peers ::
  "(bytes \<Rightarrow> (pubkey, bytes) result) \<Rightarrow> bytes \<Rightarrow> pubkey \<Rightarrow> bytes \<Rightarrow> (peer_endpoint list, identity_error) result" where
  "collector_peers parse_pk raw own local_uri =
     and_then (parse_peers parse_pk raw (Some own)) (\<lambda>peers. with_local_signer peers own local_uri)"

lemma collector_peers_distinct:
  assumes "collector_peers parse_pk raw own local_uri = Ok (co_peers env)"
  shows "distinct (identities env)" "own \<in> set (identities env)"
proof -
  from assms obtain peers where p: "parse_peers parse_pk raw (Some own) = Ok peers"
    and l: "with_local_signer peers own local_uri = Ok (co_peers env)" by (auto simp: collector_peers_def)
  show "distinct (identities env)" "own \<in> set (identities env)"
    using parse_peers_distinct [OF p] l [unfolded with_local_signer_Ok] by (auto simp: identities_def)
qed

end
