(* ===== verification/Wallet.thy ===== *)
theory Wallet
  imports Startup WithdrawalGuarantees
begin

text \<open>
  The tool a holder withdraws with (\<open>bin/glc-wallet.rs\<close>) and the checks it makes before it signs
  (\<open>ops/withdraw_preflight.rs\<close>).  The key file, the environment variables, the Solana node and the
  pause between two reads are the environment.  \<open>wl_sent\<close> records what was handed to the node; the
  code never reads it.
\<close>

section \<open>The checks (withdraw_preflight.rs)\<close>

datatype withdraw_refusal =
    WithdrawPaused
  | WithdrawZeroAmount
  | WithdrawBelowMinimum u64 u64
  | WithdrawInsufficientBalance u64 u64
  | NoTokenAccount
  | InvalidAddress bytes address_error
  | WithdrawMintNotConfigured

record withdraw_context =
  wx_paused :: bool
  wx_min_withdrawal :: u64
  wx_mint_configured :: bool
  wx_balance :: "u64 option"

definition check_withdrawal ::
  "sha256 \<Rightarrow> withdraw_context \<Rightarrow> u64 \<Rightarrow> bytes \<Rightarrow> (bytes20, withdraw_refusal) result" where
  "check_withdrawal sha256 ctx amount glc_address =
     (if \<not> wx_mint_configured ctx then Err WithdrawMintNotConfigured
      else if wx_paused ctx then Err WithdrawPaused
      else if amount = 0 then Err WithdrawZeroAmount
      else if amount < wx_min_withdrawal ctx then Err (WithdrawBelowMinimum amount (wx_min_withdrawal ctx))
      else and_then (ok_or NoTokenAccount (wx_balance ctx)) (\<lambda>balance.
      if balance < amount then Err (WithdrawInsufficientBalance balance amount)
      else map_err (InvalidAddress glc_address) (decode_p2pkh_hash160 sha256 glc_address)))"

section \<open>The tool (glc-wallet.rs)\<close>

datatype wallet_error =
    MissingArgument string
  | BadAmount
  | BadKeypair bytes bytes
  | MissingVariable string
  | BadProgramId hex_error
  | BadCommitment solana_config_error
  | WalletRpc solana_rpc_error
  | NoBridge pubkey
  | WithdrawRefused withdraw_refusal
  | NotAccepted solana_rpc_error
  | RecordMissing bytes
  | RecordUnreadable discovery_error
  | RecordMismatch "string list"
  | UnknownCommand bytes

record 'w wallet_env =
  we_sdk :: sdk
  we_var :: "string \<Rightarrow> bytes option"
  we_read_keypair :: "bytes \<Rightarrow> (pubkey, bytes) result"
  we_get_account :: "pubkey \<Rightarrow> 'w \<Rightarrow> ((pubkey \<times> bytes) option, solana_rpc_error) result \<times> 'w"
  we_get_latest_blockhash :: "'w \<Rightarrow> (bytes32, solana_rpc_error) result \<times> 'w"
  we_send_transaction :: "solana_tx \<Rightarrow> 'w \<Rightarrow> (bytes, solana_rpc_error) result \<times> 'w"
  we_sleep :: "'w \<Rightarrow> 'w"

record 'w wallet_state =
  wl_world :: 'w
  wl_sent :: "solana_tx list"

type_synonym ('w, 'a) wallet = "('w wallet_state, 'a, wallet_error) io"

definition wallet_call :: "('w \<Rightarrow> ('a, solana_rpc_error) result \<times> 'w) \<Rightarrow> (solana_rpc_error \<Rightarrow> wallet_error) \<Rightarrow> ('w, 'a) wallet" where
  "wallet_call f e s = (case f (wl_world s) of (r, w) \<Rightarrow> (map_err e r, s\<lparr>wl_world := w\<rparr>))"

definition wallet_arg :: "bytes list \<Rightarrow> string \<Rightarrow> bytes option" where
  "wallet_arg args name = Option.bind (position (\<lambda>a. a = ascii name) args) (\<lambda>i. get_at args (i + 1))"

definition require_arg :: "bytes list \<Rightarrow> string \<Rightarrow> (bytes, wallet_error) result" where
  "require_arg args name = ok_or (MissingArgument name) (wallet_arg args name)"

definition env_required :: "'w wallet_env \<Rightarrow> string \<Rightarrow> (bytes, wallet_error) result" where
  "env_required env name = ok_or (MissingVariable name) (we_var env name)"

record wallet_request =
  wt_amount :: u64
  wt_glc_address :: bytes
  wt_user :: pubkey
  wt_program_id :: pubkey

definition wallet_request_of :: "'w wallet_env \<Rightarrow> bytes list \<Rightarrow> (wallet_request, wallet_error) result" where
  "wallet_request_of env args =
     and_then (require_arg args ''--amount-atomic'') (\<lambda>a.
     and_then (ok_or BadAmount (parse_unsigned a)) (\<lambda>amount.
     and_then (require_arg args ''--glc-address'') (\<lambda>glc_address.
     and_then (require_arg args ''--keypair'') (\<lambda>keypair_path.
     and_then (map_err (BadKeypair keypair_path) (we_read_keypair env keypair_path)) (\<lambda>user.
     and_then (env_required env ''GLC_PROGRAM_ID_HEX'') (\<lambda>hex.
     and_then (map_err BadProgramId (decode_exact 32 hex)) (\<lambda>program_id.
     and_then (env_required env ''GLC_SOLANA_COMMITMENT'') (\<lambda>level.
     and_then (map_err BadCommitment (parse_commitment level)) (\<lambda>_.
     and_then (env_required env ''GLC_SOLANA_RPC_URL'') (\<lambda>_.
     Ok \<lparr>wt_amount = amount, wt_glc_address = glc_address, wt_user = user, wt_program_id = from_le program_id\<rparr>))))))))))"

text \<open>What is read of the bridge, and everything that can refuse before anything is signed.\<close>

definition read_bridge :: "'w wallet_env \<Rightarrow> wallet_request \<Rightarrow> ('w, bridge_config_snapshot) wallet" where
  "read_bridge env q =
     ebind (wallet_call (we_get_account env (fst (bridge_config_pda (we_sdk env) (wt_program_id q)))) WalletRpc) (\<lambda>account.
     elift (and_then (ok_or (NoBridge (wt_program_id q)) account) (\<lambda>(owner, data).
       map_err WalletRpc (decode_bridge_config data))))"

definition preflight :: "'w wallet_env \<Rightarrow> wallet_request \<Rightarrow> bridge_config_snapshot \<Rightarrow> ('w, bytes20) wallet" where
  "preflight env q config =
     ebind (wallet_call (we_get_account env (sk_associated_token_address (we_sdk env) (wt_user q) (bcs_wrapped_mint config)))
       WalletRpc) (\<lambda>account.
     elift (map_err WithdrawRefused (check_withdrawal (sk_sha256 (we_sdk env))
       \<lparr>wx_paused = bcs_paused config, wx_min_withdrawal = bcs_min_withdrawal config,
        wx_mint_configured = mint_is_configured config,
        wx_balance = Option.bind account (\<lambda>(owner, data). token_account_amount data)\<rparr>
       (wt_amount q) (wt_glc_address q))))"

definition withdraw_instruction :: "'w wallet_env \<Rightarrow> wallet_request \<Rightarrow> bridge_config_snapshot \<Rightarrow> solana_ix" where
  "withdraw_instruction env q config =
     burn_wrapped_instruction (we_sdk env) (wt_program_id q)
       \<lparr>bw_user = wt_user q, bw_bridge_config = fst (bridge_config_pda (we_sdk env) (wt_program_id q)),
        bw_wrapped_mint = bcs_wrapped_mint config,
        bw_user_token_account = sk_associated_token_address (we_sdk env) (wt_user q) (bcs_wrapped_mint config),
        bw_withdrawal = fst (withdrawal_request_pda (we_sdk env) (wt_program_id q) (bcs_withdrawal_count config))\<rparr>
       (wt_amount q) (wt_glc_address q)"

definition send_withdrawal :: "'w wallet_env \<Rightarrow> wallet_request \<Rightarrow> bridge_config_snapshot \<Rightarrow> ('w, bytes) wallet" where
  "send_withdrawal env q config =
     ebind (wallet_call (we_get_latest_blockhash env) WalletRpc) (\<lambda>blockhash s.
     let tx = \<lparr>stx_instructions = [withdraw_instruction env q config], stx_payer = wt_user q, stx_blockhash = blockhash\<rparr>
     in wallet_call (we_send_transaction env tx) NotAccepted (s\<lparr>wl_sent := wl_sent s @ [tx]\<rparr>))"

text \<open>The record is read up to sixty times, with a pause after each time it is not there.\<close>

fun await_record :: "'w wallet_env \<Rightarrow> pubkey \<Rightarrow> nat \<Rightarrow> ('w, (pubkey \<times> bytes) option) wallet" where
  "await_record env pda 0 = eret None"
| "await_record env pda (Suc n) =
     ebind (wallet_call (we_get_account env pda) WalletRpc) (\<lambda>account.
     case account of
       Some a \<Rightarrow> eret (Some a)
     | None \<Rightarrow> (\<lambda>s. await_record env pda n (s\<lparr>wl_world := we_sleep env (wl_world s)\<rparr>)))"

definition mismatches :: "wallet_request \<Rightarrow> u64 \<Rightarrow> bytes20 \<Rightarrow> decoded_withdrawal \<Rightarrow> string list" where
  "mismatches q index dest_hash160 r =
     (if dw_amount_atomic r \<noteq> wt_amount q then [''amount''] else []) @
     (if dw_glc_address r \<noteq> wt_glc_address q then [''destination''] else []) @
     (if dw_hash160 r \<noteq> dest_hash160 then [''decoded destination''] else []) @
     (if dw_requester r \<noteq> wt_user q then [''requester''] else []) @
     (if dw_index r \<noteq> index then [''index''] else [])"

definition confirm_withdrawal ::
  "'w wallet_env \<Rightarrow> wallet_request \<Rightarrow> u64 \<Rightarrow> bytes20 \<Rightarrow> bytes \<Rightarrow> (pubkey \<times> bytes) option \<Rightarrow> (decoded_withdrawal, wallet_error) result" where
  "confirm_withdrawal env q index dest_hash160 signature found =
     and_then (ok_or (RecordMissing signature) found) (\<lambda>(owner, data).
     and_then (map_err RecordUnreadable (decode_withdrawal (sk_sha256 (we_sdk env)) (sk_find_program_address (we_sdk env))
       (wt_program_id q) (fst (withdrawal_request_pda (we_sdk env) (wt_program_id q) index)) owner data)) (\<lambda>r.
     if mismatches q index dest_hash160 r \<noteq> [] then Err (RecordMismatch (mismatches q index dest_hash160 r)) else Ok r))"

definition wallet_withdraw :: "'w wallet_env \<Rightarrow> wallet_request \<Rightarrow> ('w, decoded_withdrawal) wallet" where
  "wallet_withdraw env q =
     ebind (read_bridge env q) (\<lambda>config.
     ebind (preflight env q config) (\<lambda>dest_hash160.
     let index = bcs_withdrawal_count config in
     ebind (send_withdrawal env q config) (\<lambda>signature.
     ebind (await_record env (fst (withdrawal_request_pda (we_sdk env) (wt_program_id q) index)) 60) (\<lambda>account.
     elift (confirm_withdrawal env q index dest_hash160 signature account)))))"

text \<open>No result stands for the help text.\<close>

definition wallet_main :: "'w wallet_env \<Rightarrow> bytes list \<Rightarrow> ('w, decoded_withdrawal option) wallet" where
  "wallet_main env args =
     (case get_at args 1 of
        None \<Rightarrow> eret None
      | Some c \<Rightarrow>
        if c = ascii ''withdraw'' then
          ebind (elift (wallet_request_of env args)) (\<lambda>q. ebind (wallet_withdraw env q) (\<lambda>r. eret (Some r)))
        else if c \<in> {ascii ''-h'', ascii ''--help'', ascii ''help''} then eret None
        else elift (Err (UnknownCommand c)))"

section \<open>The length of an address\<close>

lemma carry_digits_short: "c < 256 \<Longrightarrow> length (carry_digits 58 c) \<le> 2"
proof -
  assume "c < 256"
  then have "c div 58 div 58 = 0" by simp
  then show ?thesis
    by (simp add: carry_digits.simps [of 58 c] carry_digits.simps [of 58 "c div 58"])
qed

lemma mul_add_length: "\<forall>d \<in> set ds. d < 58 \<Longrightarrow> c < 256 \<Longrightarrow> length (mul_add 58 256 ds c) \<le> length ds + 2"
proof (induction ds arbitrary: c)
  case (Cons d ds)
  then have "(d * 256 + c) div 58 < 256" by (simp add: div_less_iff_less_mult)
  with Cons show ?case by simp
qed (use carry_digits_short in \<open>simp add: numeral_2_eq_2\<close>)

lemma encode_digits_length: "length (foldl (mul_add 58 256) [] (map unat (bs :: bytes))) \<le> 2 * length bs"
proof (induction bs rule: rev_induct)
  case (snoc b bs)
  have "\<forall>d \<in> set (foldl (mul_add 58 256) [] (map unat bs)). d < 58"
    using r58.mul_add_fold [of 256 "map unat bs"] by (auto simp: r58.normal_def)
  from mul_add_length [OF this unat_u8_less, of b] snoc show ?case by simp
qed simp

lemma base58_encode_length: "length (base58_encode bs) \<le> 2 * length bs"
proof -
  let ?k = "length (takeWhile (\<lambda>b. b = 0) bs)" let ?rest = "dropWhile (\<lambda>b. b = 0) bs"
  have bs: "bs = replicate ?k 0 @ ?rest" by (rule leading_zeros_split)
  have "foldl (mul_add 58 256) [] (map unat bs) = foldl (mul_add 58 256) [] (map unat ?rest)"
    using mul_add_zeros [of 58 256 ?k "map unat ?rest"] by (subst bs) simp
  moreover have "length bs = ?k + length ?rest" by (metis bs length_append length_replicate)
  ultimately show ?thesis using encode_digits_length [of ?rest] by (simp add: base58_encode_digits)
qed

lemma address_length:
  assumes "decode_p2pkh_hash160 H s = Ok h"
  shows "s \<noteq> []" "length s \<le> 50"
proof -
  from assms obtain bs where bs: "base58_decode s = Ok bs" "length bs = 25"
    by (auto simp: decode_p2pkh_hash160_def base58check_decode_def Let_def split: if_splits)
  then show "s \<noteq> []" by (auto simp: base58_decode_def)
  show "length s \<le> 50" using base58_encode_length [of bs] base58_encode_decode [OF bs(1)] bs(2) by simp
qed

section \<open>What the tool sends\<close>

lemma check_accepts:
  assumes "check_withdrawal H ctx amount addr = Ok h"
  shows "wx_mint_configured ctx" "\<not> wx_paused ctx" "0 < amount" "wx_min_withdrawal ctx \<le> amount"
    "\<exists>balance. wx_balance ctx = Some balance \<and> amount \<le> balance" "decode_p2pkh_hash160 H addr = Ok h"
  using assms by (auto simp: check_withdrawal_def word_gt_0 split: if_splits)

lemma wallet_call_sent [simp]: "wl_sent (snd (wallet_call f e s)) = wl_sent s"
  by (simp add: wallet_call_def split: prod.splits)

lemma ebind_tail_sent:
  assumes "\<And>x s. wl_sent (snd (f x s)) = wl_sent s"
  shows "wl_sent (snd (ebind m f s)) = wl_sent (snd (m s))"
  using assms by (simp add: ebind_def split: prod.splits result.splits)

lemma ebind_sent:
  assumes "wl_sent (snd (m s)) = wl_sent s" "\<And>x s. wl_sent (snd (f x s)) = wl_sent s"
  shows "wl_sent (snd (ebind m f s)) = wl_sent s"
  using ebind_tail_sent [of f m s] assms by simp

lemma read_bridge_sent [simp]: "wl_sent (snd (read_bridge env q s)) = wl_sent s"
  unfolding read_bridge_def by (rule ebind_sent) (simp_all add: elift_def)

lemma preflight_sent [simp]: "wl_sent (snd (preflight env q config s)) = wl_sent s"
  unfolding preflight_def by (rule ebind_sent) (simp_all add: elift_def)

lemma await_sent [simp]: "wl_sent (snd (await_record env pda n s)) = wl_sent s"
proof (induction n arbitrary: s)
  case (Suc n)
  show ?case
    unfolding await_record.simps
    by (rule ebind_sent) (simp, use Suc in \<open>auto simp: eret_def split: option.splits\<close>)
qed (simp add: eret_def)

lemma send_sent:
  "wl_sent (snd (send_withdrawal env q config s)) = wl_sent s \<or>
   (\<exists>blockhash. wl_sent (snd (send_withdrawal env q config s)) = wl_sent s @
      [\<lparr>stx_instructions = [withdraw_instruction env q config], stx_payer = wt_user q, stx_blockhash = blockhash\<rparr>])"
proof (cases "wallet_call (we_get_latest_blockhash env) WalletRpc s")
  case (Pair r s1)
  with wallet_call_sent have "wl_sent s1 = wl_sent s" by (metis snd_conv)
  with Pair show ?thesis by (cases r) (simp_all add: send_withdrawal_def ebind_def Let_def)
qed

text \<open>Only the submission adds to what was sent, and it comes after the checks.\<close>

lemma sent_by_submission:
  assumes "read_bridge env q s = (Ok config, s1)" "preflight env q config s1 = (Ok h, s2)"
  shows "wl_sent (snd (wallet_withdraw env q s)) = wl_sent (snd (send_withdrawal env q config s2))"
proof -
  let ?rest = "\<lambda>signature. ebind (await_record env (fst (withdrawal_request_pda (we_sdk env) (wt_program_id q)
      (bcs_withdrawal_count config))) 60) (\<lambda>found. elift (confirm_withdrawal env q (bcs_withdrawal_count config) h signature found))"
  have "wl_sent (snd (?rest sig s3)) = wl_sent s3" for sig s3
    by (rule ebind_sent) (simp_all add: elift_def)
  from ebind_tail_sent [of ?rest, OF this, of "send_withdrawal env q config" s2] assms show ?thesis
    by (simp add: wallet_withdraw_def ebind_step [of "read_bridge env q"] ebind_step [of "preflight env q config"] Let_def)
qed

lemma sent_after_checks:
  assumes "wallet_withdraw env q s = (res, s')" "tx \<in> set (wl_sent s')" "tx \<notin> set (wl_sent s)"
  obtains config s1 h s2 where "read_bridge env q s = (Ok config, s1)" "preflight env q config s1 = (Ok h, s2)"
    "stx_instructions tx = [withdraw_instruction env q config]"
proof -
  obtain r1 s1 where r: "read_bridge env q s = (r1, s1)" by (cases "read_bridge env q s")
  then have s1: "wl_sent s1 = wl_sent s" using read_bridge_sent [of env q s] by simp
  then obtain config where config: "r1 = Ok config" using assms r by (cases r1) (auto simp: wallet_withdraw_def ebind_def)
  obtain r2 s2 where p: "preflight env q config s1 = (r2, s2)" by (cases "preflight env q config s1")
  then have s2: "wl_sent s2 = wl_sent s" using preflight_sent [of env q config s1] s1 by simp
  then obtain h where h: "r2 = Ok h" using assms r config p by (cases r2) (auto simp: wallet_withdraw_def ebind_def)
  have "wl_sent s' = wl_sent (snd (send_withdrawal env q config s2))"
    using sent_by_submission [of env q s config s1 h s2] r config p h assms(1) by simp
  then have "stx_instructions tx = [withdraw_instruction env q config]"
    using send_sent [of env q config s2] assms(2,3) s2 by auto
  then show ?thesis using that r config p h by blast
qed

section \<open>A withdrawal the tool sends can be paid\<close>

text \<open>What the token program must allow besides.\<close>

definition burn_open :: "'w external \<Rightarrow> 'w chain \<Rightarrow> bridge_config \<Rightarrow> pubkey \<Rightarrow> u64 \<Rightarrow> bool" where
  "burn_open ex c cfg user amount \<longleftrightarrow> ex_mint_supply ex (ch_world c) (cfg_wrapped_mint cfg) \<noteq> None \<and>
     ex_has_ata ex (ch_world c) (cfg_wrapped_mint cfg) user \<and> unat (cfg_withdrawal_count cfg) + 1 < 2 ^ 64 \<and>
     ex_burn_checked ex (ch_world c) (cfg_wrapped_mint cfg) user amount WRAPPED_GLC_DECIMALS \<noteq> None"

lemma burn_open_accepts:
  assumes "chain_inv ex c" "ch_config c = Some cfg" "burn_open ex c cfg (tx_signer t) amount"
    and "cfg_wrapped_mint cfg \<noteq> default_pubkey" "\<not> cfg_paused cfg" "0 < amount" "cfg_min_withdrawal cfg \<le> amount"
    and "addr \<noteq> []" "length addr \<le> 64"
  shows "\<exists>c'. burn_wrapped ex t (cfg_wrapped_mint cfg) amount addr c = Ok c'"
proof -
  have "ch_withdrawals c (cfg_withdrawal_count cfg) = None"
    using chain_inv_config [OF assms(1,2)] by (meson less_irrefl)
  with assms show ?thesis by (auto simp: burn_open_def burn_wrapped_Ok MAX_GLC_ADDRESS_LEN_def)
qed

lemma withdraw_dispatched:
  assumes "distinct_discriminators (we_sdk env)" "wt_program_id q = PROGRAM_ID" "length (wt_glc_address q) < 2 ^ 32"
  shows "dispatch (we_sdk env) (map am_pubkey (si_accounts (withdraw_instruction env q config)))
      (si_data (withdraw_instruction env q config)) =
    Some (BurnWrapped (bcs_wrapped_mint config) (wt_amount q) (wt_glc_address q))"
proof -
  let ?i = "BurnWrapped (bcs_wrapped_mint config) (wt_amount q) (wt_glc_address q)"
  have "withdraw_instruction env q config = client_build (we_sdk env) (wt_user q) (bcs_withdrawal_count config) 0 ?i"
    by (simp add: withdraw_instruction_def assms(2))
  moreover have "wire_ok (we_sdk env) 0 ?i" using assms(3) by simp
  ultimately show ?thesis
    using dispatch_agree [OF assms(1), of 0 ?i] accounts_agree [of "we_sdk env" 0 ?i] by simp
qed

text \<open>What discovery makes of an account is what the tool reads back.\<close>

lemma confirms_discovered:
  assumes "discovered (sk_sha256 (we_sdk env)) (sk_find_program_address (we_sdk env)) (wt_program_id q) at slot
      \<lparr>pa_address = fst (withdrawal_request_pda (we_sdk env) (wt_program_id q) index), pa_owner = owner, pa_data = data\<rparr> = Some w"
    and "nw_index w = index" "nw_amount_atomic w = wt_amount q" "nw_requester w = wt_user q"
      "nw_glc_address w = wt_glc_address q" "nw_hash160 w = h"
  shows "\<exists>r. confirm_withdrawal env q index h signature (Some (owner, data)) = Ok r"
  using assms
  by (auto simp: discovered_def confirm_withdrawal_def mismatches_def split: result.splits if_splits)

lemma burnt_record:
  assumes "chain_inv ex c" "burn_wrapped ex t m amount addr c = Ok c'" "ch_config c = Some cfg"
    and "decode_p2pkh_hash160 H addr = Ok h" "length disc = 8"
  shows "\<exists>r. ch_withdrawals c' (cfg_withdrawal_count cfg) = Some r \<and>
    discovered H (ex_find_program_address ex) PROGRAM_ID at slot
      \<lparr>pa_address = pda_address ex (WithdrawalPda (cfg_withdrawal_count cfg)), pa_owner = PROGRAM_ID,
       pa_data = disc @ borsh_withdrawal_request r\<rparr> =
    Some \<lparr>nw_index = cfg_withdrawal_count cfg, nw_pda = pda_address ex (WithdrawalPda (cfg_withdrawal_count cfg)),
      nw_amount_atomic = amount, nw_requester = tx_signer t, nw_glc_address = addr, nw_hash160 = h,
      nw_requested_at_slot = tx_slot t, nw_protocol_version = cfg_protocol_version cfg, nw_observed_at = at,
      nw_observed_at_slot = slot\<rparr>"
proof -
  let ?n = "cfg_withdrawal_count cfg"
  let ?r = "\<lparr>wr_index = ?n, wr_amount = amount, wr_requester = tx_signer t,
      wr_glc_address = copy_at (replicate 64 0) 0 addr, wr_glc_address_len = word_of_nat (length addr), wr_status = Pending,
      wr_requested_at_slot = tx_slot t, wr_protocol_version = cfg_protocol_version cfg,
      wr_bump = pda_bump ex (WithdrawalPda ?n), wr_reserved = replicate 48 0\<rparr>"
  have r: "ch_withdrawals c' ?n = Some ?r" using assms(2,3) by (auto simp: burn_wrapped_Ok)
  from inv_withdrawal [OF inv_burn_wrapped [OF assms(1,2)] r] have "withdrawal_inv ex ?n ?r" by blast
  moreover have "stored_address ?r = addr"
    using address_length [OF assms(4)] by (simp add: stored_address_def stored_address_copy)
  ultimately show ?thesis
    using r discovered_exact [of ex ?n ?r disc H at slot] assms(4,5) by (simp add: request_of_def)
qed

text \<open>
  C40: A withdrawal the tool sends can be paid.  The transaction it hands to the node, having read
  the bridge's own configuration, is dispatched to the burn handler; the program accepts it while
  the bridge stays as it was read and the token program allows the burn; discovery turns the account
  it creates into a request with exactly the amount, the holder and the address that was asked for,
  decoded as the tool decoded it; and the tool confirms that account.
\<close>

theorem sent_withdrawal_payable:
  assumes "bridge.reachable ex others c" "ch_config c = Some cfg"
    and "distinct_discriminators (we_sdk env)" "wt_program_id q = PROGRAM_ID"
      "sk_find_program_address (we_sdk env) = ex_find_program_address ex"
    and "fst (we_get_account env (fst (bridge_config_pda (we_sdk env) PROGRAM_ID)) (wl_world s)) =
      Ok (Some (PROGRAM_ID, disc @ borsh_bridge_config cfg @ pad))" "length disc = 8" "length disc' = 8"
    and "wallet_withdraw env q s = (res, s')" "tx \<in> set (wl_sent s')" "tx \<notin> set (wl_sent s)"
    and "burn_open ex c cfg (wt_user q) (wt_amount q)"
  shows "\<exists>h ix i c' r w. decode_p2pkh_hash160 (sk_sha256 (we_sdk env)) (wt_glc_address q) = Ok h \<and>
    stx_instructions tx = [ix] \<and> dispatch (we_sdk env) (map am_pubkey (si_accounts ix)) (si_data ix) = Some i \<and>
    process ex \<lparr>tx_signer = wt_user q, tx_slot = slot, tx_time = time, tx_prev = before\<rparr> i c = Ok c' \<and>
    ch_withdrawals c' (cfg_withdrawal_count cfg) = Some r \<and>
    discovered (sk_sha256 (we_sdk env)) (ex_find_program_address ex) PROGRAM_ID at observed_slot
      \<lparr>pa_address = pda_address ex (WithdrawalPda (cfg_withdrawal_count cfg)), pa_owner = PROGRAM_ID,
       pa_data = disc' @ borsh_withdrawal_request r\<rparr> = Some w \<and>
    nw_index w = cfg_withdrawal_count cfg \<and> nw_amount_atomic w = wt_amount q \<and> nw_requester w = wt_user q \<and>
    nw_glc_address w = wt_glc_address q \<and> nw_hash160 w = h \<and>
    (\<exists>d. confirm_withdrawal env q (cfg_withdrawal_count cfg) h signature
       (Some (PROGRAM_ID, disc' @ borsh_withdrawal_request r)) = Ok d)"
proof -
  let ?H = "sk_sha256 (we_sdk env)" and ?n = "cfg_withdrawal_count cfg"
  let ?t = "\<lparr>tx_signer = wt_user q, tx_slot = slot, tx_time = time, tx_prev = before\<rparr>"
  from sent_after_checks [OF assms(9-11)] obtain config s1 h s2 where
    config: "read_bridge env q s = (Ok config, s1)" and pre: "preflight env q config s1 = (Ok h, s2)"
    and ixs: "stx_instructions tx = [withdraw_instruction env q config]" by blast
  from config assms(4,6) decode_bridge_config_exact [OF assms(7), of cfg pad]
  have snap: "bcs_paused config = cfg_paused cfg" "bcs_min_withdrawal config = cfg_min_withdrawal cfg"
    "bcs_wrapped_mint config = cfg_wrapped_mint cfg" "bcs_withdrawal_count config = ?n"
    by (auto simp: read_bridge_def wallet_call_def ebind_def elift_def split: prod.splits result.splits)
  from pre obtain ctx where "check_withdrawal ?H ctx (wt_amount q) (wt_glc_address q) = Ok h"
    "wx_paused ctx = cfg_paused cfg" "wx_min_withdrawal ctx = cfg_min_withdrawal cfg"
    "wx_mint_configured ctx = (cfg_wrapped_mint cfg \<noteq> default_pubkey)"
    unfolding preflight_def ebind_Ok by (auto simp: elift_def snap mint_is_configured_def)
  note checks = check_accepts [OF this(1), unfolded this(2-4)]
  note len = address_length [OF checks(6)]
  have inv: "chain_inv ex c" by (rule bridge.reachable_inv [OF assms(1)])
  obtain c' where c': "burn_wrapped ex ?t (cfg_wrapped_mint cfg) (wt_amount q) (wt_glc_address q) c = Ok c'"
    using burn_open_accepts [OF inv assms(2), of ?t "wt_amount q" "wt_glc_address q"] assms(12) checks(1-4) len by auto
  from burnt_record [OF inv c' assms(2) checks(6) assms(8), of at observed_slot] obtain r where
    r: "ch_withdrawals c' ?n = Some r"
    and w: "discovered ?H (ex_find_program_address ex) PROGRAM_ID at observed_slot
      \<lparr>pa_address = pda_address ex (WithdrawalPda ?n), pa_owner = PROGRAM_ID, pa_data = disc' @ borsh_withdrawal_request r\<rparr> =
      Some \<lparr>nw_index = ?n, nw_pda = pda_address ex (WithdrawalPda ?n), nw_amount_atomic = wt_amount q,
        nw_requester = wt_user q, nw_glc_address = wt_glc_address q, nw_hash160 = h, nw_requested_at_slot = slot,
        nw_protocol_version = cfg_protocol_version cfg, nw_observed_at = at, nw_observed_at_slot = observed_slot\<rparr>" (is "_ = Some ?w")
    by auto
  have pda: "fst (withdrawal_request_pda (we_sdk env) PROGRAM_ID ?n) = pda_address ex (WithdrawalPda ?n)"
    by (simp add: client_pdas assms(5) pda_address_def pda_seeds_def)
  have "\<exists>d. confirm_withdrawal env q ?n h signature (Some (PROGRAM_ID, disc' @ borsh_withdrawal_request r)) = Ok d"
    by (rule confirms_discovered [where w = ?w and at = at and slot = observed_slot]) (simp_all add: assms(4,5) pda w)
  moreover have "dispatch (we_sdk env) (map am_pubkey (si_accounts (withdraw_instruction env q config)))
      (si_data (withdraw_instruction env q config)) = Some (BurnWrapped (cfg_wrapped_mint cfg) (wt_amount q) (wt_glc_address q))"
    using withdraw_dispatched [OF assms(3,4), of config] len(2) by (simp add: snap)
  ultimately show ?thesis
    by (intro exI [of _ h] exI [of _ "withdraw_instruction env q config"] exI [of _ c'] exI [of _ r] exI [of _ ?w]
        exI [of _ "BurnWrapped (cfg_wrapped_mint cfg) (wt_amount q) (wt_glc_address q)"])
      (simp add: checks(6) ixs c' r w)
qed

text \<open>
  A failed read while the tool waits ends it with the bare error of the node, although the burn was
  submitted; the warning against running it again is only printed when the record stays away.
\<close>

theorem failed_poll_ends_tool:
  assumes "read_bridge env q s = (Ok config, s1)" "preflight env q config s1 = (Ok h, s2)"
    and "send_withdrawal env q config s2 = (Ok signature, s3)"
    and "we_get_account env (fst (withdrawal_request_pda (we_sdk env) (wt_program_id q) (bcs_withdrawal_count config)))
      (wl_world s3) = (Err e, w)"
  shows "wallet_withdraw env q s = (Err (WalletRpc e), s3\<lparr>wl_world := w\<rparr>)"
proof -
  let ?pda = "fst (withdrawal_request_pda (we_sdk env) (wt_program_id q) (bcs_withdrawal_count config))"
  have "await_record env ?pda 60 s3 = (Err (WalletRpc e), s3\<lparr>wl_world := w\<rparr>)"
    using assms(4) await_record.simps(2) [of env ?pda 59] by (simp add: wallet_call_def ebind_def)
  then show ?thesis
    using assms(1-3) by (simp add: wallet_withdraw_def ebind_step [of "read_bridge env q"] ebind_step [of "preflight env q config"]
        ebind_step [of "send_withdrawal env q config"] ebind_stop [of "await_record env ?pda 60"] Let_def)
qed

text \<open>A holder of the concrete bridge withdraws 200 units.\<close>

definition demo_holder :: wallet_request where
  "demo_holder = \<lparr>wt_amount = 200, wt_glc_address = encode_p2pkh (sk_sha256 demo_sdk) 5, wt_user = 42,
     wt_program_id = PROGRAM_ID\<rparr>"

definition demo_wallet :: "unit wallet_env" where
  "demo_wallet = \<lparr>we_sdk = demo_sdk, we_var = (\<lambda>_. None), we_read_keypair = (\<lambda>_. Ok 42),
     we_get_account = (\<lambda>k w. (Ok (if k = fst (bridge_config_pda demo_sdk PROGRAM_ID)
         then Some (PROGRAM_ID, replicate 8 0 @ borsh_bridge_config demo_config2 @ [])
       else if k = 49 then Some (sk_token_program demo_sdk, replicate 64 0 @ le_bytes (500 :: u64)) else None), w)),
     we_get_latest_blockhash = (\<lambda>w. (Ok 9, w)), we_send_transaction = (\<lambda>tx w. (Ok [1], w)), we_sleep = id\<rparr>"

lemma demo_wallet_sends:
  "\<exists>tx res s'. wallet_withdraw demo_wallet demo_holder \<lparr>wl_world = (), wl_sent = []\<rparr> = (res, s') \<and> tx \<in> set (wl_sent s')"
proof -
  let ?s = "\<lparr>wl_world = (), wl_sent = []\<rparr>"
  obtain config where read: "read_bridge demo_wallet demo_holder ?s = (Ok config, ?s)"
    and c: "\<not> bcs_paused config" "bcs_min_withdrawal config = 10" "bcs_wrapped_mint config = 7"
    using decode_bridge_config_exact [of "replicate 8 0" demo_config2 "[]"]
    by (simp add: read_bridge_def wallet_call_def ebind_def elift_def demo_wallet_def demo_holder_def demo_config2_def demo_config_def)
  have "fst (bridge_config_pda demo_sdk PROGRAM_ID) \<noteq> 49"
    by (simp add: bridge_config_pda_def demo_sdk_def IX_SEED_BRIDGE_CONFIG_def ascii_def)
  then have "preflight demo_wallet demo_holder config ?s = (Ok 5, ?s)"
    using c base58check_decode_encode [of "sk_sha256 demo_sdk" P2PKH_VERSION_REGTEST 5]
    by (simp add: preflight_def wallet_call_def ebind_def elift_def demo_wallet_def demo_holder_def check_withdrawal_def
        mint_is_configured_def default_pubkey_def token_account_amount_def slice_get_def from_le_le_bytes
        decode_p2pkh_hash160_def encode_p2pkh_def) (simp add: demo_sdk_def)
  from sent_by_submission [OF read this]
  have "wl_sent (snd (wallet_withdraw demo_wallet demo_holder ?s)) \<noteq> []"
    by (simp add: send_withdrawal_def wallet_call_def ebind_def demo_wallet_def Let_def)
  then show ?thesis by (metis list.set_sel(1) prod.collapse)
qed

theorem sent_withdrawal_payable_witness:
  "\<exists>h i c' r w. decode_p2pkh_hash160 (sk_sha256 demo_sdk) (wt_glc_address demo_holder) = Ok h \<and>
     process demo_ex \<lparr>tx_signer = 42, tx_slot = 6, tx_time = 60, tx_prev = None\<rparr> i demo3 = Ok c' \<and>
     ch_withdrawals c' (cfg_withdrawal_count demo_config2) = Some r \<and>
     discovered (sk_sha256 demo_sdk) (ex_find_program_address demo_ex) PROGRAM_ID 0 0
       \<lparr>pa_address = pda_address demo_ex (WithdrawalPda (cfg_withdrawal_count demo_config2)), pa_owner = PROGRAM_ID,
        pa_data = replicate 8 0 @ borsh_withdrawal_request r\<rparr> = Some w \<and> nw_amount_atomic w = 200 \<and> nw_glc_address w = wt_glc_address demo_holder \<and> nw_hash160 w = h"
proof -
  obtain tx res s' where run: "wallet_withdraw demo_wallet demo_holder \<lparr>wl_world = (), wl_sent = []\<rparr> = (res, s')"
    and sent: "tx \<in> set (wl_sent s')" using demo_wallet_sends by blast
  have open3: "burn_open demo_ex demo3 demo_config2 (wt_user demo_holder) (wt_amount demo_holder)"
    by (simp add: burn_open_def demo_state_defs demo_burn_def demo_holder_def)
  have config: "ch_config demo3 = Some demo_config2" by (simp add: demo_state_defs)
  have sdk: "distinct_discriminators (we_sdk demo_wallet)" using demo_discriminators by (simp add: demo_wallet_def)
  have env: "we_sdk demo_wallet = demo_sdk" "wt_program_id demo_holder = PROGRAM_ID" "wt_user demo_holder = 42"
    "wt_amount demo_holder = 200" by (simp_all add: demo_wallet_def demo_holder_def)
  have find: "sk_find_program_address (we_sdk demo_wallet) = ex_find_program_address demo_ex"
    by (simp add: demo_wallet_def demo_sdk_def demo_ex_def)
  have read: "fst (we_get_account demo_wallet (fst (bridge_config_pda (we_sdk demo_wallet) PROGRAM_ID)) (wl_world \<lparr>wl_world = (), wl_sent = []\<rparr>)) =
      Ok (Some (PROGRAM_ID, replicate 8 0 @ borsh_bridge_config demo_config2 @ []))"
    by (simp add: demo_wallet_def)
  have new: "tx \<notin> set (wl_sent \<lparr>wl_world = (), wl_sent = []\<rparr>)" by simp
  have eight: "length (replicate 8 (0 :: u8)) = 8" by simp
  from sent_withdrawal_payable [OF demo_reachable(3) config sdk env(2) find read eight eight run sent new open3,
      of 6 60 None 0 0 "[]"]
  show ?thesis unfolding env by blast
qed

end
