(* ===== verification/Operations.thy ===== *)
theory Operations
  imports Auditor Startup GovernanceGuarantees
begin

text \<open>
  What operators see: the checks of the administration tool before it submits a governance action
  (\<open>ops/preflight.rs\<close>), the state the indexer's loop publishes (\<open>ops/indexer_status.rs\<close> and the loop
  of \<open>main.rs\<close>), and the health report (\<open>ops/health.rs\<close>, \<open>ops/collector.rs\<close>).  Metrics, which are
  floating point numbers, and the HTTP server are left out; the nodes and the clock are the
  environment.
\<close>

section \<open>Before a governance action (preflight.rs)\<close>

datatype preflight_refusal =
    NotEnoughApprovals nat u8
  | NothingPending
  | AlreadyPending
  | WrongActionType u8 u8
  | TimelockRemains i64 i64
  | EpochMoved u64 u64

definition enough_approvals :: "nat \<Rightarrow> u8 \<Rightarrow> (unit, preflight_refusal) result" where
  "enough_approvals collected threshold =
     (if collected < unat threshold then Err (NotEnoughApprovals collected threshold) else Ok ())"

definition can_propose :: "pending_action_snapshot option \<Rightarrow> (unit, preflight_refusal) result" where
  "can_propose pending = (case pending of Some _ \<Rightarrow> Err AlreadyPending | None \<Rightarrow> Ok ())"

definition can_execute ::
  "pending_action_snapshot option \<Rightarrow> u8 \<Rightarrow> u64 \<Rightarrow> i64 \<Rightarrow> (unit, preflight_refusal) result" where
  "can_execute pending expected_action seen_epoch now_unix =
     and_then (ok_or NothingPending pending) (\<lambda>p.
     if pas_action p \<noteq> expected_action then Err (WrongActionType expected_action (pas_action p))
     else if pas_proposed_under_epoch p \<noteq> seen_epoch then Err (EpochMoved (pas_proposed_under_epoch p) seen_epoch)
     else if now_unix <s pas_eta p then Err (TimelockRemains (saturating_sub_i64 (pas_eta p) now_unix) (pas_eta p))
     else Ok ())"

definition cancel_target :: "pending_action_snapshot option \<Rightarrow> (u8 \<times> i64, preflight_refusal) result" where
  "cancel_target pending = and_then (ok_or NothingPending pending) (\<lambda>p. Ok (pas_action p, pas_eta p))"

section \<open>The state of the indexer (indexer_status.rs)\<close>

record indexer_status =
  is_halted_flag :: bool
  is_halted_depth :: i64
  is_last_tick :: i64
  is_deepest_reorg :: i64
  is_max_reorg_depth :: i64

definition indexer_status_new :: "i64 \<Rightarrow> indexer_status" where
  "indexer_status_new started_at = \<lparr>is_halted_flag = False, is_halted_depth = 0, is_last_tick = started_at,
     is_deepest_reorg = 0, is_max_reorg_depth = 0\<rparr>"

definition set_max_reorg_depth :: "i64 \<Rightarrow> indexer_status \<Rightarrow> indexer_status" where
  "set_max_reorg_depth depth s = s\<lparr>is_max_reorg_depth := depth\<rparr>"

definition record_reorg :: "i64 \<Rightarrow> indexer_status \<Rightarrow> indexer_status" where
  "record_reorg depth s = (if is_deepest_reorg s <s depth then s\<lparr>is_deepest_reorg := depth\<rparr> else s)"

definition record_tick :: "i64 \<Rightarrow> indexer_status \<Rightarrow> indexer_status" where
  "record_tick at_unix s = s\<lparr>is_last_tick := at_unix\<rparr>"

definition record_halt :: "i64 \<Rightarrow> indexer_status \<Rightarrow> indexer_status" where
  "record_halt attempted_depth s = s\<lparr>is_halted_depth := attempted_depth, is_halted_flag := True\<rparr>"

definition seconds_since_tick :: "i64 \<Rightarrow> indexer_status \<Rightarrow> i64" where
  "seconds_since_tick now_unix s =
     (let d = saturating_sub_i64 now_unix (is_last_tick s) in if d <s 0 then 0 else d)"

text \<open>What the loop publishes after a tick; nothing stands for its end.\<close>

definition publish_tick ::
  "i64 \<Rightarrow> (tick_outcome, indexer_error) result \<Rightarrow> indexer_status \<Rightarrow> indexer_status option" where
  "publish_tick now outcome s =
     (case outcome of
        Ok (Progressed blocks_indexed reorg) \<Rightarrow>
          Some (case reorg of None \<Rightarrow> record_tick now s
            | Some r \<Rightarrow> record_reorg (rs_old_tip_height r - rs_fork_height r) (record_tick now s))
      | Ok (Halted attempted_depth) \<Rightarrow> Some (record_halt attempted_depth s)
      | Err (IndexerNodeUnavailable _) \<Rightarrow> Some s
      | Err (IndexerRpc _) \<Rightarrow> Some s
      | Err _ \<Rightarrow> None)"

section \<open>The report (health.rs)\<close>

record health_invariant =
  hi_name :: string
  hi_healthy :: bool
  hi_detail :: bytes

record indexer_summary =
  isu_halted :: bool
  isu_halted_depth :: i64
  isu_seconds_since_tick :: i64
  isu_deepest_reorg :: i64
  isu_max_reorg_depth :: i64

definition healthy :: "health_invariant list \<Rightarrow> bool" where
  "healthy invariants \<longleftrightarrow> invariants \<noteq> [] \<and> list_all hi_healthy invariants"

definition http_status :: "health_invariant list \<Rightarrow> nat" where
  "http_status invariants = (if healthy invariants then 200 else 503)"

definition health_text :: "health_invariant list \<Rightarrow> bytes" where
  "health_text invariants =
     (if invariants = [] then ascii ''UNKNOWN no invariants were evaluated'' @ [10]
      else concat (map (\<lambda>i. ascii (if hi_healthy i then ''OK   '' else ''BREACH '') @ ascii (hi_name i) @
        (if hi_detail i = [] then [] else ascii '': '' @ hi_detail i) @ [10]) invariants))"

definition show_u64 :: "u64 \<Rightarrow> bytes" where "show_u64 w = decimal (unat w)"

definition solvency_invariant :: "solvency_snapshot \<Rightarrow> health_invariant" where
  "solvency_invariant s = \<lparr>hi_name = ''solvency'', hi_healthy = invariant_holds s, hi_detail =
     (if invariant_holds s
      then ascii ''wrapped '' @ show_u64 (sn_wrapped_supply s) @ ascii '' <= deposits-payouts '' @ show_u64 (backing_bound s)
      else ascii ''wrapped '' @ show_u64 (sn_wrapped_supply s) @ ascii '' EXCEEDS deposits-payouts '' @
        show_u64 (backing_bound s) @ ascii '' by '' @ show_u64 (breach_atomic s))\<rparr>"

definition vault_invariant :: "solvency_snapshot \<Rightarrow> health_invariant list" where
  "vault_invariant s =
     (case (fee_drift_atomic s, unexplained_drift_atomic s) of
        (Some drift, Some unexplained) \<Rightarrow>
          [\<lparr>hi_name = ''vault_reconciliation'', hi_healthy = (unexplained = 0), hi_detail =
             (if unexplained = 0
              then ascii ''drift '' @ show_u64 drift @ ascii '' fully explained by '' @ show_u64 (sn_vault_fees_paid s) @ ascii '' in fees''
              else ascii ''drift '' @ show_u64 drift @ ascii '' exceeds '' @ show_u64 (sn_vault_fees_paid s) @
                ascii '' in known fees by '' @ show_u64 unexplained)\<rparr>]
      | _ \<Rightarrow> [])"

definition halts_invariant :: "nat \<Rightarrow> nat \<Rightarrow> health_invariant" where
  "halts_invariant halted_deposits halted_withdrawals =
     \<lparr>hi_name = ''no_integrity_halts'', hi_healthy = (halted_deposits + halted_withdrawals = 0),
      hi_detail = decimal halted_deposits @ ascii '' deposits, '' @ decimal halted_withdrawals @ ascii '' withdrawals halted''\<rparr>"

definition epoch_invariant :: "bool \<Rightarrow> health_invariant" where
  "epoch_invariant epoch_is_fresh = \<lparr>hi_name = ''validator_epoch_fresh'', hi_healthy = epoch_is_fresh,
     hi_detail = (if epoch_is_fresh then [] else ascii ''epoch observation is stale'')\<rparr>"

definition indexer_invariant :: "indexer_summary option \<Rightarrow> health_invariant list" where
  "indexer_invariant indexer =
     (case indexer of None \<Rightarrow> [] | Some i \<Rightarrow>
       [\<lparr>hi_name = ''indexer_not_halted'', hi_healthy = (\<not> isu_halted i), hi_detail =
         (if isu_halted i
          then ascii ''HALTED on a reorg deeper than max_reorg_depth (attempted '' @ decimal_i64 (isu_halted_depth i) @
            ascii ''); deposits are no longer being indexed and an operator must intervene''
          else ascii ''last tick '' @ decimal_i64 (isu_seconds_since_tick i) @ ascii ''s ago'')\<rparr>])"

definition build_report :: "solvency_snapshot \<Rightarrow> nat \<Rightarrow> nat \<Rightarrow> bool \<Rightarrow> indexer_summary option \<Rightarrow> health_invariant list" where
  "build_report snapshot halted_deposits halted_withdrawals epoch_is_fresh indexer =
     [solvency_invariant snapshot] @ vault_invariant snapshot @ [halts_invariant halted_deposits halted_withdrawals] @
     [epoch_invariant epoch_is_fresh] @ indexer_invariant indexer"

section \<open>Gathering it (collector.rs)\<close>

definition withdrawal_counts_by_state :: "withdrawal_db \<Rightarrow> (string \<times> nat) list" where
  "withdrawal_counts_by_state d =
     map (\<lambda>s. (s, length (filter (\<lambda>r. wq_state r = s) (withdrawal_requests d))))
       (remdups (map wq_state (withdrawal_requests d)))"

definition MINT_SUPPLY_OFFSET :: nat where "MINT_SUPPLY_OFFSET = 36"

record 'w ops_env =
  op_open :: "'w \<Rightarrow> (deposit_db \<times> withdrawal_db) option \<times> 'w"
  op_get_account :: "pubkey \<Rightarrow> 'w \<Rightarrow> (bytes option, solana_rpc_error) result \<times> 'w"
  op_list_unspent :: "i64 \<Rightarrow> bytes list \<Rightarrow> 'w \<Rightarrow> (observed_utxo list, rpc_error) result \<times> 'w"
  op_wrapped_mint :: pubkey
  op_vault_address :: bytes
  op_vault_min_confirmations :: i64
  op_epoch :: "'w \<Rightarrow> epoch_observation \<times> 'w"
  op_indexer :: "'w \<Rightarrow> indexer_status option \<times> 'w"
  op_now_unix :: "'w \<Rightarrow> i64 \<times> 'w"

definition wrapped_supply :: "'w ops_env \<Rightarrow> 'w \<Rightarrow> u64 option \<times> 'w" where
  "wrapped_supply env w =
     (case op_get_account env (op_wrapped_mint env) w of
        (Ok (Some data), w) \<Rightarrow> (map_option from_le (slice_get data MINT_SUPPLY_OFFSET (MINT_SUPPLY_OFFSET + 8)), w)
      | (_, w) \<Rightarrow> (None, w))"

definition vault_balance :: "'w ops_env \<Rightarrow> 'w \<Rightarrow> u64 option \<times> 'w" where
  "vault_balance env w =
     (case op_list_unspent env (op_vault_min_confirmations env) [op_vault_address env] w of
        (Ok utxos, w) \<Rightarrow> (Some (sum_list (map ou_amount_atomic utxos)), w)
      | (Err _, w) \<Rightarrow> (None, w))"

definition halted_count :: "(string \<times> nat) list \<Rightarrow> nat" where
  "halted_count counts = (case find (\<lambda>(s, n). s = ''IntegrityHalted'') counts of None \<Rightarrow> 0 | Some (_, n) \<Rightarrow> n)"

definition summarize :: "i64 \<Rightarrow> indexer_status \<Rightarrow> indexer_summary" where
  "summarize now i = \<lparr>isu_halted = is_halted_flag i, isu_halted_depth = is_halted_depth i,
     isu_seconds_since_tick = seconds_since_tick now i, isu_deepest_reorg = is_deepest_reorg i,
     isu_max_reorg_depth = is_max_reorg_depth i\<rparr>"

definition indexer_facts :: "'w ops_env \<Rightarrow> 'w \<Rightarrow> indexer_summary option \<times> 'w" where
  "indexer_facts env w =
     (case op_indexer env w of
        (None, w) \<Rightarrow> (None, w)
      | (Some i, w) \<Rightarrow> (case op_now_unix env w of (now, w) \<Rightarrow> (Some (summarize now i), w)))"

definition collect_report :: "'w ops_env \<Rightarrow> 'w \<Rightarrow> health_invariant list \<times> 'w" where
  "collect_report env w =
     (case op_open env w of
        (None, w) \<Rightarrow> ([], w)
      | (Some (deposits, withdrawals), w) \<Rightarrow>
        (case wrapped_supply env w of (wrapped, w) \<Rightarrow>
        (case vault_balance env w of (vault, w) \<Rightarrow>
          (case snapshot_from_db deposits withdrawals (case wrapped of None \<Rightarrow> 0 | Some s \<Rightarrow> s) vault of
             Err e \<Rightarrow> ([], w)
           | Ok snapshot \<Rightarrow>
             (case op_now_unix env w of (now, w) \<Rightarrow> (case op_epoch env w of (obs, w) \<Rightarrow>
             (case indexer_facts env w of (i, w) \<Rightarrow>
               (build_report snapshot (halted_count (deposit_counts_by_state deposits))
                  (halted_count (withdrawal_counts_by_state withdrawals)) (is_fresh_at obs now) i, w))))))))"

section \<open>The tool and the program\<close>

definition pending_snapshot :: "pending_governance_action \<Rightarrow> pending_action_snapshot" where
  "pending_snapshot p = \<lparr>pas_action = pga_action p, pas_proposed_under_epoch = pga_proposed_under_epoch p,
     pas_eta = pga_eta p, pas_threshold = pga_threshold p, pas_validators = pga_validators p,
     pas_proposed_max_wrapped_supply = pga_proposed_max_wrapped_supply p\<rparr>"

lemma can_execute_Ok: "can_execute pending action epoch now = Ok () \<longleftrightarrow>
    (\<exists>p. pending = Some p \<and> pas_action p = action \<and> pas_proposed_under_epoch p = epoch \<and> sint (pas_eta p) \<le> sint now)"
  by (cases pending) (auto simp: can_execute_def word_sless_alt)

text \<open>
  The tool's checks refuse exactly what the program refuses: in every reachable state, with the
  accounts and the time of the chain, an execution passes them if and only if the program executes
  it, and a proposal passes them if and only if no action is queued.
\<close>

theorem preflight_agrees_with_program:
  assumes "bridge.reachable ex others s" "ch_config s = Some c" "ch_vset s = Some v" "unat (vs_epoch v) + 1 < 2 ^ 64"
  shows "can_execute (map_option pending_snapshot (ch_pending s)) ACTION_PROPOSE_ROTATION (vs_epoch v) (tx_time t) = Ok () \<longleftrightarrow>
      (\<exists>s'. process ex t ExecuteValidatorRotation s = Ok s')"
    and "can_execute (map_option pending_snapshot (ch_pending s)) ACTION_PROPOSE_TVL_RAISE (vs_epoch v) (tx_time t) = Ok () \<longleftrightarrow>
      (\<exists>s'. process ex t ExecuteWrappedSupplyCapRaise s = Ok s')"
    and "can_propose (map_option pending_snapshot (ch_pending s)) = Ok () \<longleftrightarrow> ch_pending s = None"
proof -
  have inv: "pending_inv ex c v p" if "ch_pending s = Some p" for p
    using chain_inv_config [OF bridge.reachable_inv [OF assms(1)] assms(2)] that assms(3) by auto
  show "can_execute (map_option pending_snapshot (ch_pending s)) ACTION_PROPOSE_ROTATION (vs_epoch v) (tx_time t) = Ok () \<longleftrightarrow>
      (\<exists>s'. process ex t ExecuteValidatorRotation s = Ok s')"
    using assms(2-4) inv unfolding can_execute_Ok
    by (cases "ch_pending s")
      (auto simp: execute_validator_rotation_Ok pending_snapshot_def pending_inv_def ACTION_PROPOSE_ROTATION_def ACTION_PROPOSE_TVL_RAISE_def)
  show "can_execute (map_option pending_snapshot (ch_pending s)) ACTION_PROPOSE_TVL_RAISE (vs_epoch v) (tx_time t) = Ok () \<longleftrightarrow>
      (\<exists>s'. process ex t ExecuteWrappedSupplyCapRaise s = Ok s')"
    using assms(2-4) inv unfolding can_execute_Ok
    by (cases "ch_pending s")
      (auto simp: execute_wrapped_supply_cap_raise_Ok pending_snapshot_def pending_inv_def ACTION_PROPOSE_ROTATION_def ACTION_PROPOSE_TVL_RAISE_def)
  show "can_propose (map_option pending_snapshot (ch_pending s)) = Ok () \<longleftrightarrow> ch_pending s = None"
    by (cases "ch_pending s") (simp_all add: can_propose_def)
qed

section \<open>What the report says\<close>

lemma healthy_report:
  "healthy (build_report s halted_deposits halted_withdrawals fresh i) \<longleftrightarrow> invariant_holds s \<and>
     unexplained_drift_atomic s \<in> {None, Some 0} \<and> halted_deposits = 0 \<and> halted_withdrawals = 0 \<and> fresh \<and>
     (case i of None \<Rightarrow> True | Some x \<Rightarrow> \<not> isu_halted x)"
  by (auto simp: healthy_def build_report_def solvency_invariant_def vault_invariant_def halts_invariant_def epoch_invariant_def
      indexer_invariant_def unexplained_drift_atomic_def split: option.splits)

lemma collect_cases:
  assumes "collect_report env w = (r, w')" "r \<noteq> []"
  obtains deposits withdrawals w1 wrapped w2 vault w3 snapshot fresh i w4 where
    "op_open env w = (Some (deposits, withdrawals), w1)" "wrapped_supply env w1 = (wrapped, w2)"
    "vault_balance env w2 = (vault, w3)"
    "snapshot_from_db deposits withdrawals (case wrapped of None \<Rightarrow> 0 | Some s \<Rightarrow> s) vault = Ok snapshot"
    "indexer_facts env w4 = (i, w')"
    "r = build_report snapshot (halted_count (deposit_counts_by_state deposits))
       (halted_count (withdrawal_counts_by_state withdrawals)) fresh i"
  using assms that by (auto simp: collect_report_def split: prod.splits option.splits result.splits if_splits)

text \<open>
  A supply that can not be read is taken to be zero, so the report calls the bridge solvent although
  nothing is known.
\<close>

theorem unread_supply_is_solvent:
  assumes "collect_report env w = (r, w')" "r \<noteq> []" "\<And>w. fst (wrapped_supply env w) = None"
  shows "\<exists>i \<in> set r. hi_name i = ''solvency'' \<and> hi_healthy i"
proof -
  obtain deposits withdrawals w1 wrapped w2 vault w3 snapshot fresh i w4 where
    open_db: "op_open env w = (Some (deposits, withdrawals), w1)" and w: "wrapped_supply env w1 = (wrapped, w2)"
    and "vault_balance env w2 = (vault, w3)"
    and s: "snapshot_from_db deposits withdrawals (case wrapped of None \<Rightarrow> 0 | Some s \<Rightarrow> s) vault = Ok snapshot"
    and i: "indexer_facts env w4 = (i, w')"
    and r: "r = build_report snapshot (halted_count (deposit_counts_by_state deposits))
       (halted_count (withdrawal_counts_by_state withdrawals)) fresh i"
    by (rule collect_cases [OF assms(1,2)])
  from w assms(3) [of w1] have "wrapped = None" by simp
  with s have "invariant_holds snapshot" by (auto simp: snapshot_from_db_def invariant_holds_def)
  then show ?thesis unfolding r by (auto simp: build_report_def solvency_invariant_def)
qed

text \<open>
  A mint the relayer has not yet seen confirmed is reported as a breach, although the bridge is
  solvent: no deposit counts before its row says Minted.
\<close>

theorem mint_in_flight_is_breach:
  assumes "list_all (\<lambda>r. cd_state r \<noteq> ''Minted'') (deposit_candidates deposits)" "0 < supply"
    and "snapshot_from_db deposits withdrawals supply vault = Ok snapshot"
  shows "\<not> healthy (build_report snapshot halted_deposits halted_withdrawals fresh i)"
proof -
  have "filter (\<lambda>r. cd_state r = ''Minted'') (deposit_candidates deposits) = []"
    using assms(1) by (simp add: list_all_iff filter_empty_conv)
  then have "\<not> invariant_holds snapshot"
    using assms(2,3) by (auto simp: snapshot_from_db_def minted_deposit_total_def invariant_holds_def backing_bound_def saturating_sub_u64_def)
  then show ?thesis by (simp add: healthy_report)
qed

text \<open>A halted indexer stays published as halted, and no report is healthy from then on.\<close>

lemma halt_is_kept: "publish_tick now outcome s = Some s' \<Longrightarrow> is_halted_flag s \<Longrightarrow> is_halted_flag s'"
  by (auto simp: publish_tick_def record_tick_def record_reorg_def record_halt_def
      split: result.splits tick_outcome.splits option.splits indexer_error.splits)

lemma halt_is_published:
  "de_halted s \<Longrightarrow> indexer_tick env s = (outcome, s') \<Longrightarrow> publish_tick now outcome st = Some st' \<Longrightarrow> is_halted_flag st'"
  by (auto simp: indexer_tick_def ebind_def eret_def publish_tick_def record_halt_def)

theorem halted_indexer_unhealthy:
  assumes "collect_report env w = (r, w')" "\<And>w. \<exists>i. fst (op_indexer env w) = Some i \<and> is_halted_flag i"
  shows "http_status r = 503"
proof (cases "r = []")
  case False
  obtain deposits withdrawals w1 wrapped w2 vault w3 snapshot fresh i w4 where
    open_db: "op_open env w = (Some (deposits, withdrawals), w1)" and w: "wrapped_supply env w1 = (wrapped, w2)"
    and "vault_balance env w2 = (vault, w3)"
    and s: "snapshot_from_db deposits withdrawals (case wrapped of None \<Rightarrow> 0 | Some s \<Rightarrow> s) vault = Ok snapshot"
    and i: "indexer_facts env w4 = (i, w')"
    and r: "r = build_report snapshot (halted_count (deposit_counts_by_state deposits))
       (halted_count (withdrawal_counts_by_state withdrawals)) fresh i"
    by (rule collect_cases [OF assms(1) False])
  from i assms(2) [of w4] have "\<exists>x. i = Some x \<and> isu_halted x"
    by (auto simp: indexer_facts_def summarize_def split: prod.splits)
  then show ?thesis unfolding r http_status_def by (auto simp: healthy_report)
qed (simp add: http_status_def healthy_def)

end
