(* ===== verification/Spec2Isabelle.thy ===== *)
theory Spec2Isabelle
  imports Guarantees WithdrawalGuarantees GovernanceGuarantees AuthorityGuarantees
    Assignment Payout ExecutorDemo EndToEndDemo ForkPoint Promotion PayoutAdoptionDemo
    SignerDemo Federation CompletionDemo AuditorDemo Wallet Operations
begin

text \<open>
  Verification of the Goldcoin--Solana bridge: the program on Solana, the relayer that indexes
  deposits, mints and pays out, the signing service of the validators, and the tools of operators
  and holders.

  \<^bold>\<open>The system.\<close>  A deposit to the vault on Goldcoin is indexed by every operator, promoted when it is
  deep enough, frozen as a canonical claim, signed by a threshold of the validators and minted by the
  program.  A holder burns wrapped tokens, which records a withdrawal on chain; the operators
  discover it, agree without a leader on who builds its payout, have it signed by a designated quorum
  of the vault, broadcast and confirm it, and record the completion under a second proof of the
  federation.  Governance (rotation of the validators, raise of the supply cap) needs a proof and a
  timelock; the administrator can pause, lower the cap and hand over.

  \<^bold>\<open>The program\<close> (\<open>src/programs/glc-bridge\<close>, \<open>src/shared\<close>).  \<open>Messages\<close>: the signed messages
  (\<open>claim.rs\<close>, \<open>governance.rs\<close>).  \<open>Accounts\<close>: constants, errors, events, account records and their
  Borsh encodings.  \<open>Verification\<close>: validator-set rules and the parser of the ed25519 instruction.
  \<open>Program\<close>, \<open>Minting\<close>, \<open>Withdrawals\<close>, \<open>Governance\<close>, \<open>TokenMetadata\<close>: one definition per handler, as a function
  from the chain state (\<open>chain\<close>: one map or option per kind of account, the log, and the world of other
  programs) to an error or a new state.  \<open>Bridge\<close>: the instruction set, the step relation, in which other
  programs change the world in between, and the invariant \<open>chain_inv\<close>.  \<open>Ledger\<close>: conservation of
  value.  \<open>Safety\<close>, \<open>Guarantees\<close>, \<open>WithdrawalGuarantees\<close>, \<open>GovernanceGuarantees\<close>, \<open>AuthorityGuarantees\<close>: what
  holds of all runs.  \<open>Demo\<close>: a concrete life of the bridge for the witnesses.

  \<^bold>\<open>The relayer, deposits\<close> (\<open>src/relayer/src/glc\<close>, \<open>orchestrator.rs\<close>, \<open>solana\<close>).  \<open>Hex\<close>, \<open>Rpc\<close>: the codec, JSON
  and the retry of the node's client.  \<open>Tables\<close>, \<open>DepositDb\<close>: the tables and one definition per operation
  of \<open>db.rs\<close>; \<open>DepositStore\<close> and \<open>DepositSafety\<close>: their invariant and what is never taken back.  \<open>Indexer\<close>:
  extraction, reorganizations, promotion; \<open>ForkPoint\<close> and \<open>Promotion\<close>: what the fork search and the
  promotion guarantee.  \<open>Orchestrator\<close>, \<open>Aggregate\<close>, \<open>Wire\<close>: the mint pipeline, the proof, the encodings of
  the instructions.  \<open>DepositLogic\<close>, \<open>DepositGuarantees\<close>, \<open>EndToEnd\<close>: both tasks, in any order, against the
  program.  \<open>AccountDecoding\<close>, \<open>Startup\<close>: decoders, discovery, configuration, observation of the epoch.

  \<^bold>\<open>The relayer, withdrawals\<close> (\<open>withdrawal\<close>).  \<open>Base58\<close>, \<open>Vault\<close>, \<open>Coin\<close>, \<open>PayoutIntent\<close>, \<open>Payout\<close>,
  \<open>Transactions\<close> and \<open>Multisig\<close>, \<open>Assignment\<close>: addresses, the multisig vault, coin selection, the frozen
  intent, verification and assembly of transactions, leaderless assignment.  \<open>WithdrawalDb\<close>,
  \<open>WithdrawalStore\<close>, \<open>WithdrawalSafety\<close>: the tables.  \<open>Executor\<close>, \<open>ExecutorLogic\<close>, \<open>ExecutorSafety\<close>: the
  executor.  \<open>Completion\<close>, \<open>CompletionLogic\<close>, \<open>CompletionGuarantees\<close>: the completion service and what the node
  adapter reads.  \<open>Federation\<close>: the map of vault signers.

  \<^bold>\<open>The validators\<close> (\<open>p2p\<close>).  \<open>Texts\<close>, \<open>GovernanceView\<close>, \<open>Sweep\<close>, \<open>SweepSigner\<close>, \<open>PayoutSigner\<close>,
  \<open>PayoutAdoption\<close>, \<open>Signer\<close>: the handlers of the service and what each demands before it signs;
  \<open>SignerSafety\<close> and \<open>SignerGuarantees\<close>: what a key is ever used for, and what follows for the program when
  fewer than threshold validators are dishonest.  \<open>Collector\<close>: the rounds in which signatures are collected.

  \<^bold>\<open>Operation\<close> (\<open>ops\<close>, \<open>bin/glc-wallet.rs\<close>).  \<open>Auditor\<close>: the offline audit and the solvency figures;
  \<open>Operations\<close>: the checks of the administration tool, the published state of the indexer and the health
  report; \<open>Wallet\<close>: the tool a holder withdraws with.

  \<^bold>\<open>How it is built.\<close>  \<open>Prelude\<close> has results, checked arithmetic, bytes and the locale \<open>fixed_codec\<close>.
  \<open>Systems\<close> has the locales of the step relations: \<open>transition_system\<close>, \<open>inv_system\<close> (an invariant),
  \<open>progress_order\<close> (what is never taken back), interpreted for the chain, the ledger, both databases, the
  executor, the deposit side and the signing service.  \<open>Effects\<close> has operations that keep what they did
  before an error, and the program logic \<open>io_invariant\<close>; \<open>deposit_invariant\<close>, \<open>executor_invariant\<close> and
  \<open>completion_invariant\<close> extend it to the components, once for every invariant that is proved.
  \<open>federation_gated\<close>, \<open>radix\<close>, \<open>reader\<close>, \<open>io_order\<close>, \<open>asking\<close> and \<open>partial_asking\<close> are the interfaces of the
  proof gate, of positional notation, of binary readers, of monotone operations and of a round.

  \<^bold>\<open>What is outside.\<close>  Hash functions, signature checks, program addresses, the token and metadata
  programs, the nodes, the co-signers, clocks and files are parameters: the records \<open>external\<close>, \<open>sdk\<close>,
  and one environment record per component.  An environment is a function that also changes a world
  of arbitrary type, so a call may answer anything and differently each time.  Hypotheses are named
  where they are used: laws of the token program (\<open>token_laws\<close>), different discriminators of the handlers
  (\<open>distinct_discriminators\<close>), no forged signature, no second preimage of the hash.  \<open>ex_sent\<close>,
  \<open>de_submitted\<close>, \<open>va_signed\<close>, \<open>cm_sent\<close> and \<open>wl_sent\<close> record what left a component; no code reads them.

  \<^bold>\<open>Numbers and loops.\<close>  Integers have the width of the source and checked, saturating or wrapping
  operations as the source writes them.  The release profile of the program's workspace checks
  overflow, so an unchecked overflow of the program is an error of the operation; \<open>relayer\<close> is a
  workspace of its own without a profile, so its unchecked arithmetic wraps around, and a theorem about
  a sum or a difference of the relayer states the bound it needs or holds modulo \<open>2^64\<close>.  There is no
  fuel: every loop is a recursion over its data, over the attempts of a retry, over the heights a fork
  search may look at, or over the peers of a round, and the outer loops of the processes are the step
  relations.

  \<^bold>\<open>Concurrency.\<close>  The relayer runs the indexer and the orchestrator as concurrent tasks, each with its
  own connection to the database.  \<open>dep_step\<close> takes a whole tick of one of them as one step; what depends
  on what the other task does between two calls of a tick is stated over single calls: \<open>ddb_step\<close> and
  \<open>wdb_step\<close> allow every sequence of database calls, and \<open>tasks_step\<close> interleaves the listings and the
  calls of the two tasks, with the deposits a task has listed and not finished as part of the state.
  That an orphaned deposit is lost holds for a deposit that no task holds; a submission in flight
  revives it.

  \<^bold>\<open>Not modelled.\<close>  The start of the processes and the command lines of the other tools (\<open>main.rs\<close>,
  \<open>bin/signer-server.rs\<close>, \<open>bin/glc-admin.rs\<close>, \<open>bin/glc-audit.rs\<close>) beyond the pieces above: they read
  variables, print and wire components.  The rate limit and the metrics, which compute with floating point
  numbers, and the amounts the node adapter converts from them.  The signature log, TLS, gRPC, HTTP and
  SQLite themselves; logging; the texts of errors.  The collectors that hold several keys, which are for tests.
  A handler of the signing service runs to its end before the next one starts.
\<close>

end
